(* ===== verification/Prelude.thy ===== *)
theory Prelude
  imports Main "HOL-Library.Word"
begin

text \<open>
  Shared vocabulary of the stake pool development.

  \<^item> the machine types of the Rust code: \<open>u8\<close>, \<open>u32\<close>, \<open>u64\<close>, \<open>u128\<close> as words,
    \<open>Pubkey\<close> (\<^verbatim>\<open>[u8; 32]\<close>) as a 256 bit word, \<open>usize\<close> (64 bit on the
    Solana virtual machine) as \<open>nat\<close> with its bound written out where the code saturates;
  \<^item> Rust's checked and saturating integer operations, generic in the width;
  \<^item> the \<open>?\<close> operator on results and \<open>Option::ok_or\<close>;
  \<^item> little-endian byte strings and slices of byte lists.

  The collections \<open>checked_simps\<close> (what a successful or failing checked operation says
  about the mathematical values), \<open>result_simps\<close> (inversion of chains of \<open>?\<close>) and
  \<open>bytes_simps\<close> (lengths and slices) carry the proofs of the components.
\<close>

type_synonym u8 = "8 word"
type_synonym u32 = "32 word"
type_synonym u64 = "64 word"
type_synonym u128 = "128 word"

text \<open>A signed integer is the word of its two's complement; \<open>sint\<close> reads its value.\<close>

type_synonym i64 = "64 word"

type_synonym byte = u8
type_synonym Pubkey = "256 word"

named_theorems checked_simps
named_theorems result_simps
named_theorems bytes_simps

section \<open>Checked and saturating machine arithmetic\<close>

definition checked_add :: "'a::len word \<Rightarrow> 'a word \<Rightarrow> 'a word option" where
  "checked_add a b = (if uint a + uint b < 2 ^ LENGTH('a) then Some (a + b) else None)"

definition checked_sub :: "'a::len word \<Rightarrow> 'a word \<Rightarrow> 'a word option" where
  "checked_sub a b = (if uint b \<le> uint a then Some (a - b) else None)"

definition checked_mul :: "'a::len word \<Rightarrow> 'a word \<Rightarrow> 'a word option" where
  "checked_mul a b = (if uint a * uint b < 2 ^ LENGTH('a) then Some (a * b) else None)"

definition checked_div :: "'a::len word \<Rightarrow> 'a word \<Rightarrow> 'a word option" where
  "checked_div a b = (if b = 0 then None else Some (a div b))"

definition saturating_add :: "'a::len word \<Rightarrow> 'a word \<Rightarrow> 'a word" where
  "saturating_add a b = (if uint a + uint b < 2 ^ LENGTH('a) then a + b else - 1)"

definition saturating_sub :: "'a::len word \<Rightarrow> 'a word \<Rightarrow> 'a word" where
  "saturating_sub a b = (if uint b \<le> uint a then a - b else 0)"

definition as_u128 :: "u64 \<Rightarrow> u128" where
  "as_u128 a = ucast a"

definition u64_try_from :: "u128 \<Rightarrow> u64 option" where
  "u64_try_from a = (if uint a < 2 ^ 64 then Some (ucast a) else None)"

lemma uint_range [simp]: "0 \<le> uint (a :: 'a::len word)" "uint a < 2 ^ LENGTH('a)"
  by simp_all

lemma uint64_bound: "uint (a :: u64) < 2 ^ 64"
  using uint_lt2p [of a] by simp

lemma uint_as_u128 [simp]: "uint (as_u128 a) = uint a"
proof -
  have "uint a < 2 ^ 128"
    using uint64_bound [of a] by simp
  then show ?thesis
    by (simp add: as_u128_def unsigned_ucast_eq take_bit_int_eq_self)
qed

lemma uint_add_exact: "uint a + uint b < 2 ^ LENGTH('a) \<Longrightarrow> uint (a + b) = uint a + uint b"
  for a b :: "'a::len word"
  by (simp add: uint_word_ariths)

lemma uint_sub_exact: "uint b \<le> uint a \<Longrightarrow> uint (a - b) = uint a - uint b"
  for a b :: "'a::len word"
proof -
  assume le: "uint b \<le> uint a"
  have "0 \<le> uint a - uint b" "uint a - uint b < 2 ^ LENGTH('a)"
    using le uint_lt2p [of a] uint_ge_0 [of b] by linarith+
  then show ?thesis
    by (simp add: uint_word_ariths)
qed

lemma uint_mul_exact: "uint a * uint b < 2 ^ LENGTH('a) \<Longrightarrow> uint (a * b) = uint a * uint b"
  for a b :: "'a::len word"
  by (simp add: uint_word_ariths)

lemma checked_add_Some [checked_simps]:
  "checked_add a b = Some c \<longleftrightarrow> uint c = uint a + uint b"
  for a b c :: "'a::len word"
proof
  assume "checked_add a b = Some c"
  then show "uint c = uint a + uint b"
    by (auto simp: checked_add_def uint_add_exact split: if_splits)
next
  assume eq: "uint c = uint a + uint b"
  then have lt: "uint a + uint b < 2 ^ LENGTH('a)"
    using uint_lt2p [of c] by simp
  then have "uint (a + b) = uint c"
    using eq by (simp add: uint_add_exact)
  then show "checked_add a b = Some c"
    using lt by (simp add: checked_add_def word_uint_eq_iff)
qed

lemma checked_add_None [checked_simps]:
  "checked_add a b = None \<longleftrightarrow> 2 ^ LENGTH('a) \<le> uint a + uint b"
  for a b :: "'a::len word"
  by (auto simp: checked_add_def)

lemma checked_sub_Some [checked_simps]:
  "checked_sub a b = Some c \<longleftrightarrow> uint a = uint c + uint b"
  for a b c :: "'a::len word"
proof
  assume "checked_sub a b = Some c"
  then have "uint b \<le> uint a" "c = a - b"
    by (auto simp: checked_sub_def split: if_splits)
  then show "uint a = uint c + uint b"
    by (simp add: uint_sub_exact)
next
  assume eq: "uint a = uint c + uint b"
  then have le: "uint b \<le> uint a" by simp
  then have "uint (a - b) = uint c"
    using eq by (simp add: uint_sub_exact)
  then show "checked_sub a b = Some c"
    using le by (simp add: checked_sub_def word_uint_eq_iff)
qed

lemma checked_sub_None [checked_simps]:
  "checked_sub a b = None \<longleftrightarrow> uint a < uint b"
  by (auto simp: checked_sub_def)

lemma checked_mul_Some [checked_simps]:
  "checked_mul a b = Some c \<longleftrightarrow> uint c = uint a * uint b"
  for a b c :: "'a::len word"
proof
  assume "checked_mul a b = Some c"
  then show "uint c = uint a * uint b"
    by (auto simp: checked_mul_def uint_mul_exact split: if_splits)
next
  assume eq: "uint c = uint a * uint b"
  then have lt: "uint a * uint b < 2 ^ LENGTH('a)"
    using uint_lt2p [of c] by simp
  then have "uint (a * b) = uint c"
    using eq by (simp add: uint_mul_exact)
  then show "checked_mul a b = Some c"
    using lt by (simp add: checked_mul_def word_uint_eq_iff)
qed

lemma checked_mul_None [checked_simps]:
  "checked_mul a b = None \<longleftrightarrow> 2 ^ LENGTH('a) \<le> uint a * uint b"
  for a b :: "'a::len word"
  by (auto simp: checked_mul_def)

lemma checked_div_Some [checked_simps]:
  "checked_div a b = Some c \<longleftrightarrow> b \<noteq> 0 \<and> uint c = uint a div uint b"
  by (auto simp: checked_div_def uint_div word_uint_eq_iff)

lemma checked_div_None [checked_simps]: "checked_div a b = None \<longleftrightarrow> b = 0"
  by (simp add: checked_div_def)

lemma u64_try_from_Some [checked_simps]: "u64_try_from a = Some c \<longleftrightarrow> uint c = uint a"
proof
  assume "u64_try_from a = Some c"
  then have lt: "uint a < 2 ^ 64" and c: "c = ucast a"
    by (auto simp: u64_try_from_def split: if_splits)
  then show "uint c = uint a"
    by (simp add: unsigned_ucast_eq take_bit_int_eq_self)
next
  assume eq: "uint c = uint a"
  then have lt: "uint a < 2 ^ 64"
    using uint64_bound [of c] by simp
  then have "uint (ucast a :: u64) = uint c"
    using eq by (simp add: unsigned_ucast_eq take_bit_int_eq_self)
  then show "u64_try_from a = Some c"
    using lt by (simp add: u64_try_from_def word_uint_eq_iff)
qed

lemma u64_try_from_None [checked_simps]: "u64_try_from a = None \<longleftrightarrow> 2 ^ 64 \<le> uint a"
  by (auto simp: u64_try_from_def)

lemma uint_saturating_add:
  "uint (saturating_add a b) = min (uint a + uint b) (2 ^ LENGTH('a) - 1)"
  for a b :: "'a::len word"
  by (auto simp: saturating_add_def uint_add_exact min_def unsigned_minus_1_eq_mask mask_eq_exp_minus_1)

lemma saturating_add_ge: "a \<le> saturating_add a b" for a :: u64
  using uint64_bound [of a] by (simp add: word_le_def uint_saturating_add)

lemma uint_saturating_sub: "uint (saturating_sub a b) = max 0 (uint a - uint b)"
  by (auto simp: saturating_sub_def uint_sub_exact)

lemma word_zero_uint: "(a = 0) = (uint a = 0)" for a :: "'a::len word"
  by (simp add: word_uint_eq_iff)

lemma u64_of_int:
  fixes v :: int
  assumes "0 \<le> v" "v < 2 ^ 64"
  shows "uint (word_of_int v :: u64) = v"
  using assms by (simp add: uint_word_of_int)

lemma option_of_uint:
  fixes x :: "u64 option"
  assumes "\<And>t. x = Some t \<longleftrightarrow> uint t = v" "0 \<le> v"
  shows "x = (if v < 2 ^ 64 then Some (word_of_int v) else None)"
proof (cases "v < 2 ^ 64")
  case True
  then show ?thesis using assms u64_of_int [OF assms(2)] by simp
next
  case False
  then have "x \<noteq> Some t" for t using assms(1) uint64_bound [of t] by auto
  then show ?thesis using False by (cases x) auto
qed

lemmas word_order_uint = word_less_def word_le_def

section \<open>Results and the question mark operator\<close>

text \<open>
  \<open>tri r k\<close> is Rust's \<open>r?\<close> followed by the rest \<open>k\<close> of the function: an error
  returns at once. \<open>ok_or\<close> is \<open>Option::ok_or\<close>.
\<close>

definition tri :: "'e + 'a \<Rightarrow> ('a \<Rightarrow> 'e + 'b) \<Rightarrow> 'e + 'b" where
  "tri r k = (case r of Inl e \<Rightarrow> Inl e | Inr x \<Rightarrow> k x)"

definition ok_or :: "'a option \<Rightarrow> 'e \<Rightarrow> 'e + 'a" where
  "ok_or x e = (case x of None \<Rightarrow> Inl e | Some y \<Rightarrow> Inr y)"

definition is_ok :: "'e + 'a \<Rightarrow> bool" where
  "is_ok r = (case r of Inl _ \<Rightarrow> False | Inr _ \<Rightarrow> True)"

lemma tri_simps [simp]: "tri (Inl e) k = Inl e" "tri (Inr x) k = k x"
  by (simp_all add: tri_def)

lemma ok_or_simps [simp]: "ok_or None e = Inl e" "ok_or (Some x) e = Inr x"
  by (simp_all add: ok_or_def)

lemma is_ok_simps [simp]: "is_ok (Inl e) = False" "is_ok (Inr x) = True"
  by (simp_all add: is_ok_def)

lemma is_ok_iff: "is_ok r \<longleftrightarrow> (\<exists>x. r = Inr x)"
  by (cases r) auto

lemma tri_cong [cong]: "r = r' \<Longrightarrow> (\<And>x. r' = Inr x \<Longrightarrow> k x = k' x) \<Longrightarrow> tri r k = tri r' k'"
  by (cases r') auto

text \<open>To evaluate a run, the continuation is looked at only once its argument is known.\<close>

lemma tri_weak_cong: "r = r' \<Longrightarrow> tri r k = tri r' k"
  by simp

lemma tri_Inr [result_simps]: "tri r k = Inr y \<longleftrightarrow> (\<exists>x. r = Inr x \<and> k x = Inr y)"
  by (cases r) auto

lemma tri_Inl [result_simps]:
  "tri r k = Inl e \<longleftrightarrow> r = Inl e \<or> (\<exists>x. r = Inr x \<and> k x = Inl e)"
  by (cases r) auto

lemma ok_or_Inr [result_simps]: "ok_or x e = Inr y \<longleftrightarrow> x = Some y"
  by (cases x) auto

lemma ok_or_Inl [result_simps]: "ok_or x e = Inl e' \<longleftrightarrow> x = None \<and> e' = e"
  by (cases x) auto

lemma if_Inl_Inr [result_simps]: "(if c then Inl e else r) = Inr y \<longleftrightarrow> \<not> c \<and> r = Inr y"
  by simp

lemma if_Inr_Inl [result_simps]: "(if c then r else Inl e) = Inr y \<longleftrightarrow> c \<and> r = Inr y"
  by simp

lemma bind_Some_iff [result_simps]:
  "Option.bind x f = Some y \<longleftrightarrow> (\<exists>z. x = Some z \<and> f z = Some y)"
  by (cases x) auto

section \<open>Little-endian byte strings\<close>

text \<open>
  \<open>le_digits n k\<close> are the \<open>n\<close> lowest base 256 digits of \<open>k\<close>, least significant first;
  \<open>to_le_bytes\<close> and \<open>from_le_bytes\<close> are the Rust conversions of the same names.
\<close>

primrec le_digits :: "nat \<Rightarrow> int \<Rightarrow> byte list" where
  "le_digits 0 k = []"
| "le_digits (Suc n) k = word_of_int (k mod 256) # le_digits n (k div 256)"

primrec le_value :: "byte list \<Rightarrow> int" where
  "le_value [] = 0"
| "le_value (b # bs) = uint b + 256 * le_value bs"

definition to_le_bytes :: "'a::len word \<Rightarrow> byte list" where
  "to_le_bytes w = le_digits (LENGTH('a) div 8) (uint w)"

definition from_le_bytes :: "byte list \<Rightarrow> 'a::len word" where
  "from_le_bytes bs = word_of_int (le_value bs)"

lemma length_le_digits [bytes_simps, simp]: "length (le_digits n k) = n"
  by (induction n arbitrary: k) auto

lemma length_to_le_bytes [bytes_simps]: "length (to_le_bytes (w :: 'a::len word)) = LENGTH('a) div 8"
  by (simp add: to_le_bytes_def)

lemma uint_byte_mod: "uint (word_of_int (k mod 256) :: byte) = k mod 256"
  by (simp add: uint_word_of_int)

lemma le_value_digits: "le_value (le_digits n k) = k mod 256 ^ n"
proof (induction n arbitrary: k)
  case 0
  then show ?case by simp
next
  case (Suc n)
  have "k mod 256 ^ Suc n = k mod 256 + 256 * (k div 256 mod 256 ^ n)"
    by (simp add: zmod_zmult2_eq)
  then show ?case
    by (simp add: Suc uint_byte_mod)
qed

lemma le_digits_value: "le_digits (length bs) (le_value bs) = bs"
proof (induction bs)
  case Nil
  then show ?case by simp
next
  case (Cons b bs)
  have b: "0 \<le> uint b" "uint b < 256"
    using uint_lt2p [of b] by simp_all
  then have "(uint b + 256 * le_value bs) mod 256 = uint b"
    by simp
  moreover have "(uint b + 256 * le_value bs) div 256 = le_value bs"
    using b by simp
  ultimately show ?case
    using Cons by simp
qed

lemma le_value_nonneg: "0 \<le> le_value bs"
  by (induction bs) auto

lemma le_value_bound: "le_value bs < 256 ^ length bs"
  by (metis le_digits_value le_value_digits pos_mod_bound zero_less_numeral zero_less_power)

lemma from_to_le_bytes:
  assumes "LENGTH('a::len) = 8 * n"
  shows "from_le_bytes (to_le_bytes (w :: 'a word)) = w"
proof -
  have pow: "(2 :: int) ^ LENGTH('a) = 256 ^ n"
    by (simp add: assms power_mult)
  have "uint w < 256 ^ n"
    using uint_lt2p [of w] by (simp add: pow)
  then show ?thesis
    by (simp add: from_le_bytes_def to_le_bytes_def le_value_digits assms)
qed

lemma to_from_le_bytes:
  assumes "LENGTH('a::len) = 8 * length bs"
  shows "to_le_bytes (from_le_bytes bs :: 'a word) = bs"
proof -
  have pow: "(2 :: int) ^ LENGTH('a) = 256 ^ length bs"
    by (simp add: assms power_mult)
  have "uint (from_le_bytes bs :: 'a word) = le_value bs"
    using le_value_bound [of bs] le_value_nonneg [of bs]
    by (simp add: from_le_bytes_def uint_word_of_int pow)
  then show ?thesis
    by (simp add: to_le_bytes_def assms le_digits_value)
qed

lemmas le_bytes_u32 [simp] = from_to_le_bytes [where 'a = 32 and n = 4, simplified]
lemmas le_bytes_u64 [simp] = from_to_le_bytes [where 'a = 64 and n = 8, simplified]
lemmas le_bytes_pubkey [simp] = from_to_le_bytes [where 'a = 256 and n = 32, simplified]

lemma length_le_bytes_fixed [simp]:
  "length (to_le_bytes (a :: u32)) = 4"
  "length (to_le_bytes (b :: u64)) = 8"
  "length (to_le_bytes (c :: Pubkey)) = 32"
  by (simp_all add: length_to_le_bytes)

lemma to_le_bytes_inj:
  "LENGTH('a::len) = 8 * n \<Longrightarrow> to_le_bytes (a :: 'a word) = to_le_bytes b \<longleftrightarrow> a = b"
  by (metis from_to_le_bytes)

section \<open>Slices of byte lists\<close>

definition slice :: "nat \<Rightarrow> nat \<Rightarrow> 'a list \<Rightarrow> 'a list" where
  "slice a b xs = take (b - a) (drop a xs)"

text \<open>Overwriting \<open>xs\<close> from index \<open>a\<close> with \<open>ys\<close>, as a slice assignment does.\<close>

definition overwrite :: "nat \<Rightarrow> 'a list \<Rightarrow> 'a list \<Rightarrow> 'a list" where
  "overwrite a ys xs = take a xs @ ys @ drop (a + length ys) xs"

lemma length_slice [bytes_simps]: "b \<le> length xs \<Longrightarrow> length (slice a b xs) = b - a"
  by (simp add: slice_def)

lemma length_overwrite [bytes_simps]:
  "a + length ys \<le> length xs \<Longrightarrow> length (overwrite a ys xs) = length xs"
  by (simp add: overwrite_def)

lemma slice_append_left [bytes_simps]: "b \<le> length xs \<Longrightarrow> slice a b (xs @ ys) = slice a b xs"
  by (simp add: slice_def)

lemma slice_append_right [bytes_simps]:
  "length xs \<le> a \<Longrightarrow> slice a b (xs @ ys) = slice (a - length xs) (b - length xs) ys"
  by (simp add: slice_def)

lemma slice_whole [bytes_simps]: "length xs \<le> b \<Longrightarrow> slice 0 b xs = xs"
  by (simp add: slice_def)

lemma overwrite_append:
  "a + length ys + length zs \<le> length xs \<Longrightarrow>
   overwrite a (ys @ zs) xs = overwrite (a + length ys) zs (overwrite a ys xs)"
  by (simp add: overwrite_def ac_simps)

lemma slice_overwrite_same:
  "a + length ys \<le> length xs \<Longrightarrow> slice a (a + length ys) (overwrite a ys xs) = ys"
  by (simp add: slice_def overwrite_def)

lemma slice_overwrite_before:
  "b \<le> a \<Longrightarrow> a \<le> length xs \<Longrightarrow> slice c b (overwrite a ys xs) = slice c b xs"
  by (simp add: slice_def overwrite_def flip: drop_take)

lemma slice_overwrite_after:
  "a + length ys \<le> c \<Longrightarrow> a + length ys \<le> length xs \<Longrightarrow>
   slice c b (overwrite a ys xs) = slice c b xs"
  by (simp add: slice_def overwrite_def)

end
