(* ===== verification/Errors.thy ===== *)
theory Errors
  imports Prelude
begin

text \<open>
  The errors of the program (\<^verbatim>\<open>program/src/error.rs\<close>): the enum \<open>StakePoolError\<close>, its
  conversion into the runtime's \<open>ProgramError\<close> by discriminant, the conversion of the session
  SDK's errors, and the messages that the entrypoint prints (\<open>PrintProgramError\<close> in
  \<^verbatim>\<open>processor.rs\<close>). The lemmas show that no two errors share a code, that a code decodes
  to its own error, and that a session error keeps its identity on the wire.
\<close>

datatype (plugins only: code) StakePoolError =
    AlreadyInUse
  | InvalidProgramAddress
  | InvalidState
  | CalculationFailure
  | FeeTooHigh
  | WrongAccountMint
  | WrongManager
  | SignatureMissing
  | InvalidValidatorStakeList
  | InvalidFeeAccount
  | WrongPoolMint
  | WrongStakeStake
  | UserStakeNotActive
  | ValidatorAlreadyAdded
  | ValidatorNotFound
  | InvalidStakeAccountAddress
  | StakeListOutOfDate
  | StakeListAndPoolOutOfDate
  | UnknownValidatorStakeAccount
  | WrongMintingAuthority
  | UnexpectedValidatorListAccountSize
  | WrongStaker
  | NonZeroPoolTokenSupply
  | StakeLamportsNotEqualToMinimum
  | IncorrectDepositVoteAddress
  | IncorrectWithdrawVoteAddress
  | InvalidMintFreezeAuthority
  | FeeIncreaseTooHigh
  | WithdrawalTooSmall
  | DepositTooSmall
  | InvalidStakeDepositAuthority
  | InvalidSolDepositAuthority
  | InvalidPreferredValidator
  | TransientAccountInUse
  | InvalidSolWithdrawAuthority
  | SolWithdrawalTooLarge
  | InvalidMetadataAccount
  | UnsupportedMintExtension
  | UnsupportedFeeAccountExtension
  | ExceededSlippage
  | IncorrectMintDecimals
  | ReserveDepleted
  | MissingRequiredSysvar
  | EpochRewardDistributionInProgress
  | TooManyValidatorsInPool
  | SessionExpired
  | SessionUserMismatch
  | SessionUnauthorizedProgram
  | SessionMissingRequiredSignature
  | SessionClockError
  | SessionInvalidAccountData
  | SessionInvalidAccountDiscriminator
  | SessionInvalidAccountVersion
  | SessionLimitsExceeded
  | SessionRevoked

text \<open>
  \<open>ProgramError\<close> is the runtime's error type. The constructors are the variants the program
  itself raises; \<open>Other\<close> stands for the variants only external code raises. \<open>Panic\<close> is a Rust
  panic (an index out of bounds, a failed \<open>unwrap\<close>), which aborts the transaction.
\<close>

datatype ProgramError =
    Custom u32
  | InvalidInstructionData
  | InvalidAccountData
  | AccountDataTooSmall
  | InsufficientFunds
  | IncorrectProgramId
  | NotEnoughAccountKeys
  | InvalidSeeds
  | AccountNotRentExempt
  | BorshIoError
  | Other nat
  | Panic

type_synonym 'a result = "ProgramError + 'a"

datatype SessionError =
    Expired
  | UserMismatch
  | UnauthorizedProgram
  | MissingRequiredSignature
  | ClockError
  | SessionDataInvalid
  | InvalidAccountDiscriminator
  | InvalidAccountVersion
  | LimitsExceeded
  | Revoked

text \<open>The discriminant, \<open>e as u32\<close>: the position of the variant in the enum.\<close>

definition stake_pool_errors :: "StakePoolError list" where
  "stake_pool_errors =
    [AlreadyInUse, InvalidProgramAddress, InvalidState,
     CalculationFailure, FeeTooHigh, WrongAccountMint,
     WrongManager, SignatureMissing, InvalidValidatorStakeList,
     InvalidFeeAccount, WrongPoolMint, WrongStakeStake,
     UserStakeNotActive, ValidatorAlreadyAdded, ValidatorNotFound,
     InvalidStakeAccountAddress, StakeListOutOfDate, StakeListAndPoolOutOfDate,
     UnknownValidatorStakeAccount, WrongMintingAuthority, UnexpectedValidatorListAccountSize,
     WrongStaker, NonZeroPoolTokenSupply, StakeLamportsNotEqualToMinimum,
     IncorrectDepositVoteAddress, IncorrectWithdrawVoteAddress, InvalidMintFreezeAuthority,
     FeeIncreaseTooHigh, WithdrawalTooSmall, DepositTooSmall,
     InvalidStakeDepositAuthority, InvalidSolDepositAuthority, InvalidPreferredValidator,
     TransientAccountInUse, InvalidSolWithdrawAuthority, SolWithdrawalTooLarge,
     InvalidMetadataAccount, UnsupportedMintExtension, UnsupportedFeeAccountExtension,
     ExceededSlippage, IncorrectMintDecimals, ReserveDepleted,
     MissingRequiredSysvar, EpochRewardDistributionInProgress, TooManyValidatorsInPool,
     SessionExpired, SessionUserMismatch, SessionUnauthorizedProgram,
     SessionMissingRequiredSignature, SessionClockError, SessionInvalidAccountData,
     SessionInvalidAccountDiscriminator, SessionInvalidAccountVersion, SessionLimitsExceeded,
     SessionRevoked]"

fun error_code :: "StakePoolError \<Rightarrow> u32" where
  "error_code AlreadyInUse = 0"
| "error_code InvalidProgramAddress = 1"
| "error_code InvalidState = 2"
| "error_code CalculationFailure = 3"
| "error_code FeeTooHigh = 4"
| "error_code WrongAccountMint = 5"
| "error_code WrongManager = 6"
| "error_code SignatureMissing = 7"
| "error_code InvalidValidatorStakeList = 8"
| "error_code InvalidFeeAccount = 9"
| "error_code WrongPoolMint = 10"
| "error_code WrongStakeStake = 11"
| "error_code UserStakeNotActive = 12"
| "error_code ValidatorAlreadyAdded = 13"
| "error_code ValidatorNotFound = 14"
| "error_code InvalidStakeAccountAddress = 15"
| "error_code StakeListOutOfDate = 16"
| "error_code StakeListAndPoolOutOfDate = 17"
| "error_code UnknownValidatorStakeAccount = 18"
| "error_code WrongMintingAuthority = 19"
| "error_code UnexpectedValidatorListAccountSize = 20"
| "error_code WrongStaker = 21"
| "error_code NonZeroPoolTokenSupply = 22"
| "error_code StakeLamportsNotEqualToMinimum = 23"
| "error_code IncorrectDepositVoteAddress = 24"
| "error_code IncorrectWithdrawVoteAddress = 25"
| "error_code InvalidMintFreezeAuthority = 26"
| "error_code FeeIncreaseTooHigh = 27"
| "error_code WithdrawalTooSmall = 28"
| "error_code DepositTooSmall = 29"
| "error_code InvalidStakeDepositAuthority = 30"
| "error_code InvalidSolDepositAuthority = 31"
| "error_code InvalidPreferredValidator = 32"
| "error_code TransientAccountInUse = 33"
| "error_code InvalidSolWithdrawAuthority = 34"
| "error_code SolWithdrawalTooLarge = 35"
| "error_code InvalidMetadataAccount = 36"
| "error_code UnsupportedMintExtension = 37"
| "error_code UnsupportedFeeAccountExtension = 38"
| "error_code ExceededSlippage = 39"
| "error_code IncorrectMintDecimals = 40"
| "error_code ReserveDepleted = 41"
| "error_code MissingRequiredSysvar = 42"
| "error_code EpochRewardDistributionInProgress = 43"
| "error_code TooManyValidatorsInPool = 44"
| "error_code SessionExpired = 45"
| "error_code SessionUserMismatch = 46"
| "error_code SessionUnauthorizedProgram = 47"
| "error_code SessionMissingRequiredSignature = 48"
| "error_code SessionClockError = 49"
| "error_code SessionInvalidAccountData = 50"
| "error_code SessionInvalidAccountDiscriminator = 51"
| "error_code SessionInvalidAccountVersion = 52"
| "error_code SessionLimitsExceeded = 53"
| "error_code SessionRevoked = 54"

definition spe :: "StakePoolError \<Rightarrow> ProgramError" where
  "spe e = Custom (error_code e)"

text \<open>\<open>FromPrimitive::from_u32\<close>, as derived: the variant at that position.\<close>

definition error_from_u32 :: "u32 \<Rightarrow> StakePoolError option" where
  "error_from_u32 n =
     (if unat n < length stake_pool_errors then Some (stake_pool_errors ! unat n) else None)"

fun from_session_error :: "SessionError \<Rightarrow> StakePoolError" where
  "from_session_error Expired = SessionExpired"
| "from_session_error UserMismatch = SessionUserMismatch"
| "from_session_error UnauthorizedProgram = SessionUnauthorizedProgram"
| "from_session_error MissingRequiredSignature = SessionMissingRequiredSignature"
| "from_session_error ClockError = SessionClockError"
| "from_session_error SessionDataInvalid = SessionInvalidAccountData"
| "from_session_error InvalidAccountDiscriminator = SessionInvalidAccountDiscriminator"
| "from_session_error InvalidAccountVersion = SessionInvalidAccountVersion"
| "from_session_error LimitsExceeded = SessionLimitsExceeded"
| "from_session_error Revoked = SessionRevoked"

lemma error_codes_listed:
  "map error_code stake_pool_errors = map of_nat [0..<55]"
  by (simp add: stake_pool_errors_def upt_rec_numeral upt_rec)

lemma stake_pool_errors_complete: "e \<in> set stake_pool_errors"
  by (cases e) (simp_all add: stake_pool_errors_def)

lemma length_stake_pool_errors [simp]: "length stake_pool_errors = 55"
  by (simp add: stake_pool_errors_def)

lemma error_code_nth: "i < 55 \<Longrightarrow> error_code (stake_pool_errors ! i) = of_nat i"
  using arg_cong [OF error_codes_listed, of "\<lambda>xs. xs ! i"] by simp

lemma unat_small_code: "i < 55 \<Longrightarrow> unat (of_nat i :: u32) = i"
  by (simp add: unat_of_nat)

lemma error_code_index: "error_from_u32 (error_code e) = Some e"
proof -
  obtain i where "i < 55" and e: "e = stake_pool_errors ! i"
    using stake_pool_errors_complete [of e] by (auto simp: in_set_conv_nth)
  then show ?thesis
    by (simp add: error_code_nth unat_small_code error_from_u32_def)
qed

lemma error_code_inj: "error_code e = error_code f \<longleftrightarrow> e = f"
  by (metis error_code_index option.inject)

lemma spe_inj [simp]: "spe e = spe f \<longleftrightarrow> e = f"
  by (simp add: spe_def error_code_inj)

lemma from_session_error_inj: "from_session_error e = from_session_error f \<longleftrightarrow> e = f"
  by (cases e; cases f) simp_all

text \<open>
  Every error of the program has its own wire code: the code decodes to exactly that error,
  and a code decodes to some error precisely when it is below the number of variants.
\<close>

lemma error_codes_roundtrip:
  "(error_from_u32 n = Some e \<longleftrightarrow> error_code e = n) \<and>
   (error_from_u32 n = None \<longleftrightarrow> 55 \<le> unat n)"
proof
  have "error_code e = n" if "error_from_u32 n = Some e"
  proof -
    from that have "unat n < 55" "e = stake_pool_errors ! unat n"
      by (auto simp: error_from_u32_def split: if_splits)
    then show ?thesis by (simp add: error_code_nth)
  qed
  then show "error_from_u32 n = Some e \<longleftrightarrow> error_code e = n"
    using error_code_index by blast
  show "error_from_u32 n = None \<longleftrightarrow> 55 \<le> unat n"
    by (auto simp: error_from_u32_def)
qed

end
