(* ===== verification/Big_Vec.thy ===== *)
theory Big_Vec
  imports Errors
begin

text \<open>
  \<^verbatim>\<open>program/src/big_vec.rs\<close>: a vector of fixed-size elements kept as bytes inside an
  account, a little-endian 32 bit length followed by the elements. The operations are modelled on
  the bytes, with every slice that can be out of range as a panic, and parametrised by the size
  and the byte conversion of the element type (\<open>T: Pod\<close>).

  The locale \<open>pod\<close> is the contract of an element type; in it every operation is shown to
  implement the corresponding operation on lists: \<open>find\<close> is \<open>List.find\<close>, \<open>push\<close> appends,
  \<open>retain\<close> filters although it moves bytes lazily with overlapping copies, and
  \<open>deserialize_slice\<close> is a sublist.
\<close>

definition VEC_SIZE_BYTES :: nat where
  "VEC_SIZE_BYTES = 4"

section \<open>Operations on the bytes\<close>

definition usize_max :: nat where
  "usize_max = 2 ^ 64 - 1"

definition usize_sat_add :: "nat \<Rightarrow> nat \<Rightarrow> nat" where
  "usize_sat_add a b = min (a + b) usize_max"

definition usize_sat_mul :: "nat \<Rightarrow> nat \<Rightarrow> nat" where
  "usize_sat_mul a b = min (a * b) usize_max"

definition index_slice :: "byte list \<Rightarrow> nat \<Rightarrow> nat \<Rightarrow> byte list result" where
  "index_slice data a b = (if a \<le> b \<and> b \<le> length data then Inr (slice a b data) else Inl Panic)"

definition bv_len :: "byte list \<Rightarrow> u32 result" where
  "bv_len data =
     (if length data < VEC_SIZE_BYTES then Inl Panic
      else Inr (from_le_bytes (slice 0 VEC_SIZE_BYTES data)))"

definition bv_is_empty :: "byte list \<Rightarrow> bool result" where
  "bv_is_empty data = tri (bv_len data) (\<lambda>len. Inr (len = 0))"

text \<open>
  \<open>sol_memmove\<close> between two slices of the same buffer: both slice expressions are range checked,
  the copy behaves as if through a temporary.
\<close>

definition memmove_within :: "byte list \<Rightarrow> nat \<Rightarrow> nat \<Rightarrow> nat \<Rightarrow> nat \<Rightarrow> nat \<Rightarrow> byte list result" where
  "memmove_within data dst_a dst_b src_a src_b n =
     (if dst_a \<le> dst_b \<and> dst_b \<le> length data \<and> src_a \<le> src_b \<and> src_b \<le> length data
      then Inr (overwrite dst_a (slice src_a (src_a + n) data) data) else Inl Panic)"

text \<open>The indices of \<^verbatim>\<open>(a..b).step_by(k)\<close>.\<close>

definition step_by :: "nat \<Rightarrow> nat \<Rightarrow> nat \<Rightarrow> nat list" where
  "step_by a b k = map (\<lambda>i. a + i * k) [0..<(b - a + k - 1) div k]"

fun retain_loop :: "nat \<Rightarrow> (byte list \<Rightarrow> bool) \<Rightarrow> nat list \<Rightarrow> byte list \<times> u32 \<times> nat \<times> nat
    \<Rightarrow> (byte list \<times> u32 \<times> nat \<times> nat) result" where
  "retain_loop sz predicate [] st = Inr st"
| "retain_loop sz predicate (start_index # rest) (data, vec_len, removals_found, dst_start_index) =
     (let end_index = start_index + sz in
      tri (index_slice data start_index end_index) (\<lambda>sl.
      if \<not> predicate sl then
        let gap = removals_found * sz in
        if start_index < gap then Inl Panic else
        tri (if removals_found > 0
             then memmove_within data dst_start_index (start_index - gap)
                    (dst_start_index + gap) start_index (start_index - gap - dst_start_index)
             else Inr data) (\<lambda>data.
        retain_loop sz predicate rest (data, vec_len - 1, removals_found + 1, start_index - gap))
      else retain_loop sz predicate rest (data, vec_len, removals_found, dst_start_index)))"

definition bv_retain :: "nat \<Rightarrow> (byte list \<Rightarrow> bool) \<Rightarrow> byte list \<Rightarrow> byte list result" where
  "bv_retain sz predicate data =
     tri (bv_len data) (\<lambda>vec_len.
     let data_start_index = VEC_SIZE_BYTES;
         data_end_index = usize_sat_add data_start_index (usize_sat_mul (unat vec_len) sz)
     in if sz = 0 then Inl Panic else
     tri (retain_loop sz predicate (step_by data_start_index data_end_index sz)
            (data, vec_len, 0, 0)) (\<lambda>(data, vec_len, removals_found, dst_start_index).
     tri (if removals_found > 0
          then let gap = removals_found * sz
               in if data_end_index < gap then Inl Panic
                  else memmove_within data dst_start_index (data_end_index - gap)
                         (dst_start_index + gap) data_end_index
                         (data_end_index - gap - dst_start_index)
          else Inr data) (\<lambda>data.
     Inr (overwrite 0 (to_le_bytes vec_len) data))))"

text \<open>
  The range checks shared by \<open>deserialize_mut_slice\<close> and \<open>deserialize_slice\<close>; the result is the
  byte range of the slice. The cast of the slice fails when its length is not a multiple of the
  element size.
\<close>

definition bv_slice_range :: "nat \<Rightarrow> nat \<Rightarrow> nat \<Rightarrow> byte list \<Rightarrow> (nat \<times> nat) result" where
  "bv_slice_range sz skip len data =
     tri (bv_len data) (\<lambda>vec_len.
     if usize_max < skip + len then Inl AccountDataTooSmall else
     let last_item_index = skip + len in
     if last_item_index > unat vec_len then Inl AccountDataTooSmall else
     let start_index = usize_sat_add VEC_SIZE_BYTES (usize_sat_mul skip sz);
         end_index = usize_sat_add start_index (usize_sat_mul len sz)
     in tri (index_slice data start_index end_index) (\<lambda>_.
     if (end_index - start_index) mod sz \<noteq> 0 then Inl InvalidAccountData
     else Inr (start_index, end_index)))"

definition elements :: "nat \<Rightarrow> (byte list \<Rightarrow> 'a) \<Rightarrow> nat \<Rightarrow> nat \<Rightarrow> byte list \<Rightarrow> 'a list" where
  "elements sz dec start n data =
     map (\<lambda>i. dec (slice (start + i * sz) (start + i * sz + sz) data)) [0..<n]"

text \<open>
  A mutable slice is the byte offset of its first element together with the elements; the caller
  writes an element back at its offset with \<^const>\<open>overwrite\<close>.
\<close>

definition bv_deserialize_mut_slice ::
    "nat \<Rightarrow> (byte list \<Rightarrow> 'a) \<Rightarrow> nat \<Rightarrow> nat \<Rightarrow> byte list \<Rightarrow> (nat \<times> 'a list) result" where
  "bv_deserialize_mut_slice sz dec skip len data =
     tri (bv_slice_range sz skip len data) (\<lambda>(start_index, end_index).
     Inr (start_index, elements sz dec start_index ((end_index - start_index) div sz) data))"

definition bv_deserialize_slice ::
    "nat \<Rightarrow> (byte list \<Rightarrow> 'a) \<Rightarrow> nat \<Rightarrow> nat \<Rightarrow> byte list \<Rightarrow> 'a list result" where
  "bv_deserialize_slice sz dec skip len data =
     tri (bv_slice_range sz skip len data) (\<lambda>(start_index, end_index).
     Inr (elements sz dec start_index ((end_index - start_index) div sz) data))"

definition bv_push :: "nat \<Rightarrow> byte list \<Rightarrow> byte list \<Rightarrow> byte list result" where
  "bv_push sz element data =
     tri (index_slice data 0 VEC_SIZE_BYTES) (\<lambda>vec_len_ref.
     let vec_len = (from_le_bytes vec_len_ref :: u32);
         start_index = VEC_SIZE_BYTES + unat vec_len * sz;
         end_index = start_index + sz;
         vec_len = vec_len + 1;
         data = overwrite 0 (to_le_bytes vec_len) data
     in if length data < end_index then Inl AccountDataTooSmall
        else Inr (overwrite start_index element data))"

text \<open>The loop of \<open>find\<close> and \<open>find_mut\<close>: the byte offset of the first match.\<close>

fun find_loop :: "nat \<Rightarrow> (byte list \<Rightarrow> bool) \<Rightarrow> byte list \<Rightarrow> nat \<Rightarrow> nat \<Rightarrow> nat option result" where
  "find_loop sz predicate data current_index 0 = Inr None"
| "find_loop sz predicate data current_index (Suc n) =
     (let end_index = current_index + sz in
      tri (index_slice data current_index end_index) (\<lambda>current_slice.
      if predicate current_slice then Inr (Some current_index)
      else find_loop sz predicate data end_index n))"

definition bv_find_mut :: "nat \<Rightarrow> (byte list \<Rightarrow> bool) \<Rightarrow> byte list \<Rightarrow> nat option result" where
  "bv_find_mut sz predicate data =
     tri (bv_len data) (\<lambda>len. find_loop sz predicate data VEC_SIZE_BYTES (unat len))"

definition bv_find :: "nat \<Rightarrow> (byte list \<Rightarrow> 'a) \<Rightarrow> (byte list \<Rightarrow> bool) \<Rightarrow> byte list
    \<Rightarrow> 'a option result" where
  "bv_find sz dec predicate data =
     tri (bv_len data) (\<lambda>len.
     tri (find_loop sz predicate data VEC_SIZE_BYTES (unat len)) (\<lambda>r.
     Inr (map_option (\<lambda>i. dec (slice i (i + sz) data)) r)))"

section \<open>The vector as a list\<close>

text \<open>
  \<open>bv_count\<close> is the stored length, \<open>bv_wf\<close> says that the buffer holds the length and that many
  elements, \<open>bv_list\<close> are the elements.
\<close>

definition bv_count :: "byte list \<Rightarrow> nat" where
  "bv_count data = unat (from_le_bytes (slice 0 VEC_SIZE_BYTES data) :: u32)"

definition bv_wf :: "nat \<Rightarrow> byte list \<Rightarrow> bool" where
  "bv_wf sz data \<longleftrightarrow> VEC_SIZE_BYTES + bv_count data * sz \<le> length data"

definition bv_list :: "nat \<Rightarrow> (byte list \<Rightarrow> 'a) \<Rightarrow> byte list \<Rightarrow> 'a list" where
  "bv_list sz dec data = elements sz dec VEC_SIZE_BYTES (bv_count data) data"

lemma length_elements [simp]: "length (elements sz dec a n data) = n"
  by (simp add: elements_def)

lemma length_bv_list [simp]: "length (bv_list sz dec data) = bv_count data"
  by (simp add: bv_list_def)

lemma bv_count_bound: "bv_count data < 2 ^ 32"
  unfolding bv_count_def by (rule order_less_le_trans [OF unsigned_less]) simp

lemma bv_wf_length: "bv_wf sz data \<Longrightarrow> VEC_SIZE_BYTES \<le> length data"
  by (simp add: bv_wf_def)

lemma unat_bv_len: "bv_len data = Inr n \<Longrightarrow> unat n = bv_count data"
  by (auto simp: bv_len_def bv_count_def split: if_splits)

lemma bv_len_ok: "bv_wf sz data \<Longrightarrow> bv_len data = Inr (of_nat (bv_count data))"
  by (auto simp: bv_len_def bv_count_def dest: bv_wf_length)

lemma elements_nth: "i < n \<Longrightarrow>
    elements sz dec a n data ! i = dec (slice (a + i * sz) (a + i * sz + sz) data)"
  by (simp add: elements_def)

lemma index_slice_ok [simp]: "a \<le> b \<Longrightarrow> b \<le> length data \<Longrightarrow> index_slice data a b = Inr (slice a b data)"
  by (simp add: index_slice_def)

lemma find_map: "List.find P (map f xs) = map_option f (List.find (P \<circ> f) xs)"
  by (induction xs) simp_all

lemma find_loop_spec:
  assumes "a + n * sz \<le> length data"
  shows "find_loop sz predicate data a n =
     Inr (map_option (\<lambda>i. a + i * sz)
           (List.find (\<lambda>i. predicate (slice (a + i * sz) (a + i * sz + sz) data)) [0..<n]))"
  using assms
proof (induction n arbitrary: a)
  case 0
  then show ?case by simp
next
  case (Suc n)
  have "a + sz + n * sz \<le> length data" using Suc.prems by (simp add: algebra_simps)
  note IH = Suc.IH [OF this]
  have shift: "[0..<Suc n] = 0 # map Suc [0..<n]"
    by (simp add: map_Suc_upt upt_conv_Cons)
  have "a + sz \<le> length data" using Suc.prems by simp
  then show ?case
    by (simp add: shift find_map IH o_def option.map_comp algebra_simps del: upt_Suc)
qed

lemma concat_slices:
  "a + n * sz \<le> length data \<Longrightarrow>
   concat (map (\<lambda>i. slice (a + i * sz) (a + i * sz + sz) data) [0..<n]) = slice a (a + n * sz) data"
proof (induction n)
  case 0
  then show ?case by (simp add: slice_def)
next
  case (Suc n)
  have "slice a (a + n * sz) data @ slice (a + n * sz) (a + n * sz + sz) data
      = slice a (a + Suc n * sz) data"
    using take_add [of "n * sz" sz "drop a data"] by (simp add: slice_def add.commute)
  then show ?case using Suc by simp
qed

section \<open>The contract of an element type\<close>

text \<open>
  \<open>T: Pod\<close>: a fixed positive size, and a conversion that is a bijection with the byte strings of
  that size (every bit pattern is a value).
\<close>

locale pod =
  fixes sz :: nat and enc :: "'a \<Rightarrow> byte list" and dec :: "byte list \<Rightarrow> 'a"
  assumes sz_pos: "0 < sz"
    and length_enc: "length (enc x) = sz"
    and dec_enc: "dec (enc x) = x"
    and enc_dec: "length bs = sz \<Longrightarrow> enc (dec bs) = bs"
begin

lemma length_concat_enc: "length (concat (map enc xs)) = length xs * sz"
  by (induction xs) (simp_all add: length_enc)

lemma slice_concat_enc:
  "i < length xs \<Longrightarrow> slice (i * sz) (i * sz + sz) (concat (map enc xs) @ rest) = enc (xs ! i)"
proof (induction xs arbitrary: i)
  case Nil
  then show ?case by simp
next
  case (Cons x xs)
  then show ?case
    by (cases i) (simp_all add: slice_def length_enc add.commute)
qed

lemma elements_concat:
  assumes "length hdr = a"
  shows "elements sz dec a (length xs) (hdr @ concat (map enc xs) @ rest) = xs"
proof (rule nth_equalityI)
  fix i assume "i < length (elements sz dec a (length xs) (hdr @ concat (map enc xs) @ rest))"
  then have i: "i < length xs" by simp
  show "elements sz dec a (length xs) (hdr @ concat (map enc xs) @ rest) ! i = xs ! i"
    using assms i slice_concat_enc [OF i, of rest]
    by (simp add: elements_nth slice_append_right dec_enc)
qed simp

lemma concat_elements:
  assumes "a + n * sz \<le> length data"
  shows "concat (map enc (elements sz dec a n data)) = slice a (a + n * sz) data"
proof -
  have "map enc (elements sz dec a n data)
      = map (\<lambda>i. slice (a + i * sz) (a + i * sz + sz) data) [0..<n]"
    unfolding elements_def map_map o_def
  proof (rule map_cong [OF refl])
    fix i assume "i \<in> set [0..<n]"
    then have "(i + 1) * sz \<le> n * sz" by (intro mult_le_mono1) simp
    then have "a + i * sz + sz \<le> length data" using assms by simp
    then show "enc (dec (slice (a + i * sz) (a + i * sz + sz) data))
        = slice (a + i * sz) (a + i * sz + sz) data"
      by (simp add: enc_dec length_slice)
  qed
  then show ?thesis by (simp only: concat_slices [OF assms])
qed

text \<open>Well-formed buffers are exactly those that spell out a list.\<close>

lemma bv_wf_decompose:
  assumes "bv_wf sz data"
  obtains hdr rest where "data = hdr @ concat (map enc (bv_list sz dec data)) @ rest"
    and "length hdr = VEC_SIZE_BYTES"
proof
  let ?b = "VEC_SIZE_BYTES + bv_count data * sz"
  have "?b \<le> length data" using assms by (simp add: bv_wf_def)
  then show "data = take VEC_SIZE_BYTES data @ concat (map enc (bv_list sz dec data)) @ drop ?b data"
    by (simp add: bv_list_def concat_elements slice_def)
      (metis add.commute append_take_drop_id drop_drop)
  show "length (take VEC_SIZE_BYTES data) = VEC_SIZE_BYTES"
    using bv_wf_length [OF assms] by simp
qed

lemma bv_compose:
  assumes "length xs < 2 ^ 32"
  shows "bv_wf sz (to_le_bytes (of_nat (length xs) :: u32) @ concat (map enc xs) @ rest)"
    and "bv_list sz dec (to_le_bytes (of_nat (length xs) :: u32) @ concat (map enc xs) @ rest) = xs"
proof -
  let ?hdr = "to_le_bytes (of_nat (length xs) :: u32)"
  have c: "bv_count (?hdr @ concat (map enc xs) @ rest) = length xs"
    using assms by (simp add: bv_count_def VEC_SIZE_BYTES_def slice_append_left slice_whole
        unat_of_nat)
  then show "bv_wf sz (?hdr @ concat (map enc xs) @ rest)"
    by (simp add: bv_wf_def VEC_SIZE_BYTES_def length_concat_enc)
  show "bv_list sz dec (?hdr @ concat (map enc xs) @ rest) = xs"
    unfolding bv_list_def c by (rule elements_concat) (simp add: VEC_SIZE_BYTES_def)
qed

lemma bv_list_slice:
  "i < bv_count data \<Longrightarrow> bv_wf sz data \<Longrightarrow>
   slice (VEC_SIZE_BYTES + i * sz) (VEC_SIZE_BYTES + i * sz + sz) data = enc (bv_list sz dec data ! i)"
proof -
  assume i: "i < bv_count data" and wf: "bv_wf sz data"
  have "(i + 1) * sz \<le> bv_count data * sz" using i by (intro mult_le_mono1) simp
  then have "VEC_SIZE_BYTES + i * sz + sz \<le> length data" using wf by (simp add: bv_wf_def)
  then show ?thesis
    using i by (simp add: bv_list_def elements_nth enc_dec length_slice)
qed

lemma find_upt_nth: "List.find P xs = map_option ((!) xs) (List.find (\<lambda>i. P (xs ! i)) [0..<length xs])"
proof -
  have "List.find P (map ((!) xs) [0..<length xs])
      = map_option ((!) xs) (List.find (P \<circ> (!) xs) [0..<length xs])"
    by (rule find_map)
  then show ?thesis by (simp add: map_nth o_def)
qed

lemma find_offset:
  assumes "bv_wf sz data"
  shows "find_loop sz predicate data VEC_SIZE_BYTES (bv_count data) =
    Inr (map_option (\<lambda>i. VEC_SIZE_BYTES + i * sz)
      (List.find (\<lambda>i. predicate (enc (bv_list sz dec data ! i))) [0..<bv_count data]))"
proof -
  have "List.find (\<lambda>i. predicate (slice (VEC_SIZE_BYTES + i * sz) (VEC_SIZE_BYTES + i * sz + sz) data))
          [0..<bv_count data]
      = List.find (\<lambda>i. predicate (enc (bv_list sz dec data ! i))) [0..<bv_count data]"
    by (rule find_cong) (simp_all add: bv_list_slice assms)
  moreover have "VEC_SIZE_BYTES + bv_count data * sz \<le> length data"
    using assms by (simp add: bv_wf_def)
  ultimately show ?thesis by (simp add: find_loop_spec)
qed

lemma find_refines:
  assumes "bv_wf sz data"
  shows "bv_find sz dec predicate data
      = Inr (List.find (\<lambda>x. predicate (enc x)) (bv_list sz dec data))"
proof -
  let ?xs = "bv_list sz dec data"
  let ?f = "List.find (\<lambda>i. predicate (enc (?xs ! i))) [0..<bv_count data]"
  have unat: "unat (of_nat (bv_count data) :: u32) = bv_count data"
    using bv_count_bound [of data] by (simp add: unat_of_nat)
  have "map_option (\<lambda>i. dec (slice (VEC_SIZE_BYTES + i * sz) (VEC_SIZE_BYTES + i * sz + sz) data)) ?f
      = map_option ((!) ?xs) ?f"
    by (rule map_option_cong [OF refl])
      (auto simp: find_Some_iff bv_list_slice assms dec_enc)
  also have "\<dots> = List.find (\<lambda>x. predicate (enc x)) ?xs"
    by (subst (2) find_upt_nth) simp
  finally show ?thesis
    by (simp add: bv_find_def bv_len_ok [OF assms] unat find_offset [OF assms] option.map_comp o_def)
qed

lemma bv_count_overwrite:
  "VEC_SIZE_BYTES \<le> a \<Longrightarrow> a \<le> length data \<Longrightarrow> bv_count (overwrite a ys data) = bv_count data"
  by (simp add: bv_count_def slice_overwrite_before)

lemma element_end: "i < bv_count data \<Longrightarrow> bv_wf sz data \<Longrightarrow> VEC_SIZE_BYTES + i * sz + sz \<le> length data"
proof -
  assume "i < bv_count data" and wf: "bv_wf sz data"
  then have "(i + 1) * sz \<le> bv_count data * sz" by (intro mult_le_mono1) simp
  then show ?thesis using wf by (simp add: bv_wf_def)
qed

lemma store_refines:
  assumes wf: "bv_wf sz data" and i: "i < bv_count data"
  shows "bv_wf sz (overwrite (VEC_SIZE_BYTES + i * sz) (enc x) data)"
    and "bv_list sz dec (overwrite (VEC_SIZE_BYTES + i * sz) (enc x) data)
           = (bv_list sz dec data)[i := x]"
proof -
  let ?o = "VEC_SIZE_BYTES + i * sz" and ?d = "overwrite (VEC_SIZE_BYTES + i * sz) (enc x) data"
  have e: "?o + length (enc x) \<le> length data"
    using element_end [OF i wf] by (simp add: length_enc)
  have c: "bv_count ?d = bv_count data"
    using e by (simp add: bv_count_overwrite)
  then show wf': "bv_wf sz ?d"
    using wf e by (simp add: bv_wf_def length_overwrite)
  show "bv_list sz dec ?d = (bv_list sz dec data)[i := x]"
  proof (rule nth_equalityI)
    fix j assume "j < length (bv_list sz dec ?d)"
    then have j: "j < bv_count data" by (simp add: c)
    let ?p = "VEC_SIZE_BYTES + j * sz"
    have "slice ?p (?p + sz) ?d = (if j = i then enc x else slice ?p (?p + sz) data)"
    proof (cases j i rule: linorder_cases)
      case less
      then have "(j + 1) * sz \<le> i * sz" by (intro mult_le_mono1) simp
      then show ?thesis using e less by (simp add: slice_overwrite_before)
    next
      case equal
      then show ?thesis using slice_overwrite_same [OF e] by (simp add: length_enc)
    next
      case greater
      then have "(i + 1) * sz \<le> j * sz" by (intro mult_le_mono1) simp
      then show ?thesis using e greater by (simp add: slice_overwrite_after length_enc)
    qed
    then show "bv_list sz dec ?d ! j = (bv_list sz dec data)[i := x] ! j"
      using j by (simp add: bv_list_def c elements_nth dec_enc nth_list_update)
  qed (simp add: c)
qed

lemma push_refines:
  assumes wf: "bv_wf sz data" and n: "bv_count data + 1 < 2 ^ 32"
  shows "if VEC_SIZE_BYTES + (bv_count data + 1) * sz \<le> length data
         then \<exists>data'. bv_push sz (enc x) data = Inr data' \<and> bv_wf sz data' \<and>
                length data' = length data \<and> bv_list sz dec data' = bv_list sz dec data @ [x]
         else bv_push sz (enc x) data = Inl AccountDataTooSmall"
proof -
  let ?n = "bv_count data" and ?xs = "bv_list sz dec data"
  obtain hdr rest where d: "data = hdr @ concat (map enc ?xs) @ rest" and h: "length hdr = 4"
    using bv_wf_decompose [OF wf] by (auto simp: VEC_SIZE_BYTES_def)
  let ?hdr = "to_le_bytes (of_nat (length (?xs @ [x])) :: u32)"
  have l: "(from_le_bytes (slice 0 VEC_SIZE_BYTES data) :: u32) = of_nat ?n"
    by (simp add: bv_count_def)
  have un: "unat (of_nat ?n :: u32) = ?n"
    using bv_count_bound [of data] by (simp add: unat_of_nat)
  have data1: "overwrite 0 ?hdr data = ?hdr @ concat (map enc ?xs) @ rest"
    using h by (subst (1) d) (simp add: overwrite_def)
  have push: "bv_push sz (enc x) data =
      (if length data < VEC_SIZE_BYTES + ?n * sz + sz then Inl AccountDataTooSmall
       else Inr (overwrite (VEC_SIZE_BYTES + ?n * sz) (enc x) (overwrite 0 ?hdr data)))"
    using bv_wf_length [OF wf]
    by (simp add: bv_push_def l [unfolded VEC_SIZE_BYTES_def] un Let_def length_overwrite
        VEC_SIZE_BYTES_def add.commute)
  show ?thesis
  proof (cases "VEC_SIZE_BYTES + (?n + 1) * sz \<le> length data")
    case True
    then have rest: "sz \<le> length rest"
      by (subst (asm) d) (simp add: h VEC_SIZE_BYTES_def length_concat_enc)
    let ?data' = "overwrite (VEC_SIZE_BYTES + ?n * sz) (enc x) (overwrite 0 ?hdr data)"
    have "?data' = ?hdr @ concat (map enc (?xs @ [x])) @ drop sz rest"
      unfolding data1 by (simp add: overwrite_def VEC_SIZE_BYTES_def length_concat_enc length_enc)
    moreover have "length ?data' = length data"
      using True by (simp add: length_overwrite length_enc VEC_SIZE_BYTES_def)
    ultimately show ?thesis
      using True push bv_compose [of "?xs @ [x]" "drop sz rest"] n by simp
  next
    case False
    then show ?thesis by (simp add: push algebra_simps)
  qed
qed

lemma slice_range_ok:
  assumes wf: "bv_wf sz data" and mem: "length data \<le> usize_max" and k: "skip + len \<le> bv_count data"
  shows "bv_slice_range sz skip len data
      = Inr (VEC_SIZE_BYTES + skip * sz, VEC_SIZE_BYTES + skip * sz + len * sz)"
proof -
  have un: "unat (of_nat (bv_count data) :: u32) = bv_count data"
    using bv_count_bound [of data] by (simp add: unat_of_nat)
  have "(skip + len) * sz \<le> bv_count data * sz" using k by (rule mult_le_mono1)
  then have fit: "VEC_SIZE_BYTES + skip * sz + len * sz \<le> length data"
    using wf by (simp add: bv_wf_def algebra_simps)
  moreover have "skip + len \<le> usize_max"
    using k bv_count_bound [of data] by (simp add: usize_max_def)
  ultimately show ?thesis
    using k mem
    by (simp add: bv_slice_range_def bv_len_ok [OF wf] un usize_sat_add_def usize_sat_mul_def
        Let_def min_def index_slice_def)
qed

lemma slice_range_bound:
  assumes "bv_slice_range sz skip len data = Inr r"
  shows "skip + len \<le> bv_count data"
  using assms by (auto simp: bv_slice_range_def result_simps Let_def unat_bv_len not_less split: if_splits)

lemma elements_slice:
  "skip + len \<le> bv_count data \<Longrightarrow>
   elements sz dec (VEC_SIZE_BYTES + skip * sz) len data = take len (drop skip (bv_list sz dec data))"
  by (intro nth_equalityI) (simp_all add: elements_nth bv_list_def algebra_simps)

lemma deserialize_slice_refines:
  assumes wf: "bv_wf sz data" and mem: "length data \<le> usize_max" and k: "skip + len \<le> usize_max"
  shows "bv_deserialize_slice sz dec skip len data =
     (if skip + len \<le> bv_count data then Inr (take len (drop skip (bv_list sz dec data)))
      else Inl AccountDataTooSmall)"
proof (cases "skip + len \<le> bv_count data")
  case True
  then show ?thesis
    using sz_pos by (simp add: bv_deserialize_slice_def slice_range_ok [OF wf mem] elements_slice)
next
  case False
  have "unat (of_nat (bv_count data) :: u32) = bv_count data"
    using bv_count_bound [of data] by (simp add: unat_of_nat)
  then show ?thesis
    using False k by (simp add: bv_deserialize_slice_def bv_slice_range_def bv_len_ok [OF wf] Let_def)
qed

lemma deserialize_mut_slice_refines:
  assumes wf: "bv_wf sz data" and mem: "length data \<le> usize_max"
    and sl: "bv_deserialize_mut_slice sz dec skip len data = Inr (offset, xs)"
  shows "skip + len \<le> bv_count data" "offset = VEC_SIZE_BYTES + skip * sz"
    "xs = take len (drop skip (bv_list sz dec data))"
proof -
  show k: "skip + len \<le> bv_count data"
    using sl by (auto simp: bv_deserialize_mut_slice_def result_simps dest: slice_range_bound)
  show "offset = VEC_SIZE_BYTES + skip * sz" "xs = take len (drop skip (bv_list sz dec data))"
    using sl sz_pos
    by (simp_all add: bv_deserialize_mut_slice_def slice_range_ok [OF wf mem k] elements_slice [OF k])
qed

text \<open>What the caller writes through a mutable slice replaces that part of the list.\<close>

lemma store_slice_refines:
  assumes "bv_wf sz data" "skip + length xs \<le> bv_count data"
  shows "bv_wf sz (overwrite (VEC_SIZE_BYTES + skip * sz) (concat (map enc xs)) data)
    \<and> length (overwrite (VEC_SIZE_BYTES + skip * sz) (concat (map enc xs)) data) = length data
    \<and> bv_list sz dec (overwrite (VEC_SIZE_BYTES + skip * sz) (concat (map enc xs)) data)
        = take skip (bv_list sz dec data) @ xs @ drop (skip + length xs) (bv_list sz dec data)"
  using assms
proof (induction xs arbitrary: skip data)
  case Nil
  then have "overwrite (VEC_SIZE_BYTES + skip * sz) [] data = data"
    by (simp add: overwrite_def)
  then show ?case using Nil by simp
next
  case (Cons x xs)
  let ?o = "VEC_SIZE_BYTES + skip * sz" and ?l = "bv_list sz dec data"
  let ?d = "overwrite (VEC_SIZE_BYTES + skip * sz) (enc x) data"
  have k: "skip < bv_count data" using Cons.prems by simp
  note st = store_refines [OF Cons.prems(1) k, of x]
  have c: "bv_count ?d = bv_count data" using st(2) by (metis length_bv_list length_list_update)
  have len: "length ?d = length data"
    using element_end [OF k Cons.prems(1)] by (simp add: length_overwrite length_enc)
  have "(skip + length (x # xs)) * sz \<le> bv_count data * sz" using Cons.prems(2) by (rule mult_le_mono1)
  then have fit: "?o + sz + length xs * sz \<le> length data"
    using Cons.prems(1) by (simp add: bv_wf_def algebra_simps)
  have app: "overwrite ?o (concat (map enc (x # xs))) data
      = overwrite (VEC_SIZE_BYTES + Suc skip * sz) (concat (map enc xs)) ?d"
    using fit by (simp add: overwrite_append length_enc length_concat_enc add.commute add.left_commute)
  have take: "take (Suc skip) (?l[skip := x]) = take skip ?l @ [x]"
    using k by (simp add: take_Suc_conv_app_nth)
  show ?case
    unfolding app using Cons.IH [OF st(1), of "Suc skip"] Cons.prems(2) c
    by (simp add: st(2) len take drop_update_swap)
qed

text \<open>
  The invariant of the loop of \<open>retain\<close>: before the first removal the buffer is untouched;
  afterwards it consists of the kept elements \<open>K1\<close> already in place, a hole \<open>H\<close> of one element
  size per removal that starts at \<open>dst_start_index\<close>, the kept elements \<open>K2\<close> not yet moved, and
  the elements still to be visited.
\<close>

definition retain_inv ::
    "byte list \<Rightarrow> byte list \<Rightarrow> nat \<Rightarrow> nat \<Rightarrow> nat \<Rightarrow> 'a list \<Rightarrow> 'a list \<Rightarrow> byte list \<Rightarrow> bool" where
  "retain_inv hdr data r dst start kept todo rest \<longleftrightarrow>
     (if r = 0
      then data = hdr @ concat (map enc kept) @ concat (map enc todo) @ rest \<and>
           start = length hdr + length kept * sz
      else \<exists>K1 K2 H. kept = K1 @ K2 \<and>
           data = hdr @ concat (map enc K1) @ H @ concat (map enc K2) @ concat (map enc todo) @ rest \<and>
           dst = length hdr + length K1 * sz \<and> length H = r * sz \<and>
           start = dst + r * sz + length K2 * sz)"

lemma retain_move:
  assumes "dst = length A" and "length H = g"
  shows "memmove_within (A @ H @ B @ C) dst (dst + length B) (dst + g) (dst + g + length B) (length B)
     = Inr (A @ B @ drop (length B) (H @ B) @ C)"
  using assms by (simp add: memmove_within_def overwrite_def slice_def)

lemma retain_inv_slice:
  assumes "retain_inv hdr data r dst start kept (x # todo) rest"
  shows "index_slice data start (start + sz) = Inr (enc x)" and "r * sz \<le> start"
proof -
  obtain pre post where "data = pre @ enc x @ post" and "length pre = start"
  proof (cases "r = 0")
    case True
    then show ?thesis
      using assms that [of "hdr @ concat (map enc kept)" "concat (map enc todo) @ rest"]
      by (simp add: retain_inv_def length_concat_enc)
  next
    case False
    then obtain K1 K2 H where "kept = K1 @ K2"
      "data = hdr @ concat (map enc K1) @ H @ concat (map enc K2) @ concat (map enc (x # todo)) @ rest"
      "dst = length hdr + length K1 * sz" "length H = r * sz"
      "start = dst + r * sz + length K2 * sz"
      using assms by (auto simp: retain_inv_def)
    then show ?thesis
      using that [of "hdr @ concat (map enc K1) @ H @ concat (map enc K2)"
          "concat (map enc todo) @ rest"]
      by (simp add: length_concat_enc)
  qed
  then show "index_slice data start (start + sz) = Inr (enc x)"
    by (auto simp: index_slice_def slice_def length_enc)
  show "r * sz \<le> start"
    using assms by (auto simp: retain_inv_def split: if_splits)
qed

lemma retain_inv_keep:
  assumes "retain_inv hdr data r dst start kept (x # todo) rest"
  shows "retain_inv hdr data r dst (start + sz) (kept @ [x]) todo rest"
proof (cases "r = 0")
  case True
  then show ?thesis using assms by (simp add: retain_inv_def)
next
  case False
  then obtain K1 K2 H where "kept = K1 @ K2"
    "data = hdr @ concat (map enc K1) @ H @ concat (map enc K2) @ concat (map enc (x # todo)) @ rest"
    "dst = length hdr + length K1 * sz" "length H = r * sz" "start = dst + r * sz + length K2 * sz"
    using assms by (auto simp: retain_inv_def)
  then show ?thesis
    using False unfolding retain_inv_def
    by (simp, intro exI [of _ K1] exI [of _ "K2 @ [x]"] exI [of _ H]) simp
qed

lemma retain_inv_remove:
  assumes inv: "retain_inv hdr data r dst start kept (x # todo) rest"
  obtains data' where
    "(if r > 0 then memmove_within data dst (start - r * sz) (dst + r * sz) start
                      (start - r * sz - dst) else Inr data) = Inr data'"
    and "retain_inv hdr data' (r + 1) (start - r * sz) (start + sz) kept todo rest"
proof (cases "r = 0")
  case True
  then have "retain_inv hdr data (r + 1) (start - r * sz) (start + sz) kept todo rest"
    using inv unfolding retain_inv_def
    by (simp, intro exI [of _ kept] exI [of _ "[]"] exI [of _ "enc x"])
      (simp add: length_enc)
  then show ?thesis using True that by simp
next
  case False
  then obtain K1 K2 H where k: "kept = K1 @ K2"
    and d: "data = hdr @ concat (map enc K1) @ H @ concat (map enc K2) @ concat (map enc (x # todo)) @ rest"
    and p: "dst = length hdr + length K1 * sz" "length H = r * sz"
      "start = dst + r * sz + length K2 * sz"
    using inv by (auto simp: retain_inv_def)
  let ?A = "hdr @ concat (map enc K1)" and ?B = "concat (map enc K2)"
  let ?C = "concat (map enc (x # todo)) @ rest"
  let ?data' = "?A @ ?B @ drop (length ?B) (H @ ?B) @ ?C"
  have "memmove_within (?A @ H @ ?B @ ?C) dst (dst + length ?B) (dst + r * sz)
      (dst + r * sz + length ?B) (length ?B) = Inr ?data'"
    by (rule retain_move) (simp_all add: p length_concat_enc)
  then have "memmove_within data dst (start - r * sz) (dst + r * sz) start (start - r * sz - dst)
      = Inr ?data'"
    by (simp add: d p length_concat_enc add.commute add.left_commute)
  moreover have "retain_inv hdr ?data' (r + 1) (start - r * sz) (start + sz) kept todo rest"
    unfolding retain_inv_def
    by (simp, intro exI [of _ kept] exI [of _ "[]"]
        exI [of _ "drop (length ?B) (H @ ?B) @ enc x"])
      (simp add: k p length_concat_enc length_enc algebra_simps)
  ultimately show ?thesis using False that by simp
qed

lemma retain_loop_spec:
  assumes "retain_inv hdr data r dst start kept todo rest"
  shows "\<exists>data' dst'. retain_loop sz predicate (map (\<lambda>i. start + i * sz) [0..<length todo])
        (data, v, r, dst)
      = Inr (data', v - of_nat (length (filter (\<lambda>x. \<not> predicate (enc x)) todo)),
             r + length (filter (\<lambda>x. \<not> predicate (enc x)) todo), dst') \<and>
      retain_inv hdr data' (r + length (filter (\<lambda>x. \<not> predicate (enc x)) todo)) dst'
        (start + length todo * sz) (kept @ filter (\<lambda>x. predicate (enc x)) todo) [] rest"
  using assms
proof (induction todo arbitrary: data v r dst start kept)
  case Nil
  then show ?case by simp
next
  case (Cons x todo)
  have starts: "map (\<lambda>i. start + i * sz) [0..<length (x # todo)]
      = start # map (\<lambda>i. start + sz + i * sz) [0..<length todo]"
    by (simp add: upt_conv_Cons map_Suc_upt [symmetric] o_def add.assoc del: upt_Suc)
  note sl = retain_inv_slice [OF Cons.prems]
  show ?case
  proof (cases "predicate (enc x)")
    case True
    then show ?thesis
      unfolding starts using Cons.IH [OF retain_inv_keep [OF Cons.prems], of v] sl
      by (simp add: add.assoc)
  next
    case False
    obtain data' where
      m: "(if r > 0 then memmove_within data dst (start - r * sz) (dst + r * sz) start
             (start - r * sz - dst) else Inr data) = Inr data'"
      and inv: "retain_inv hdr data' (r + 1) (start - r * sz) (start + sz) kept todo rest"
      using retain_inv_remove [OF Cons.prems] by blast
    show ?thesis
      unfolding starts using False sl m Cons.IH [OF inv, of "v - 1"]
      by (simp add: Let_def algebra_simps)
  qed
qed

lemma retain_finish:
  assumes "retain_inv hdr data r dst start kept [] rest"
  obtains junk where "length junk = r * sz"
    and "(if r > 0 then if start < r * sz then Inl Panic
            else memmove_within data dst (start - r * sz) (dst + r * sz) start
                   (start - r * sz - dst) else Inr data)
         = Inr (hdr @ concat (map enc kept) @ junk @ rest)"
proof (cases "r = 0")
  case True
  then show ?thesis using assms that [of "[]"] by (simp add: retain_inv_def)
next
  case False
  then obtain K1 K2 H where k: "kept = K1 @ K2"
    and d: "data = hdr @ concat (map enc K1) @ H @ concat (map enc K2) @ rest"
    and p: "dst = length hdr + length K1 * sz" "length H = r * sz"
      "start = dst + r * sz + length K2 * sz"
    using assms by (auto simp: retain_inv_def)
  let ?A = "hdr @ concat (map enc K1)" and ?B = "concat (map enc K2)"
  have "memmove_within (?A @ H @ ?B @ rest) dst (dst + length ?B) (dst + r * sz)
      (dst + r * sz + length ?B) (length ?B) = Inr (?A @ ?B @ drop (length ?B) (H @ ?B) @ rest)"
    by (rule retain_move) (simp_all add: p length_concat_enc)
  then have "memmove_within data dst (start - r * sz) (dst + r * sz) start (start - r * sz - dst)
      = Inr (hdr @ concat (map enc kept) @ drop (length ?B) (H @ ?B) @ rest)"
    by (simp add: d p k length_concat_enc add.commute add.left_commute)
  then show ?thesis
    using False that [of "drop (length ?B) (H @ ?B)"] by (simp add: p)
qed

lemma retain_refines:
  assumes wf: "bv_wf sz data" and mem: "length data \<le> usize_max"
  shows "\<exists>data'. bv_retain sz predicate data = Inr data' \<and> bv_wf sz data' \<and>
     length data' = length data \<and>
     bv_list sz dec data' = filter (\<lambda>x. predicate (enc x)) (bv_list sz dec data)"
proof -
  let ?xs = "bv_list sz dec data" and ?n = "bv_count data"
  let ?ys = "filter (\<lambda>x. predicate (enc x)) ?xs"
  define k where "k = length (filter (\<lambda>x. \<not> predicate (enc x)) ?xs)"
  obtain hdr rest where d: "data = hdr @ concat (map enc ?xs) @ rest" and h: "length hdr = VEC_SIZE_BYTES"
    using bv_wf_decompose [OF wf] by blast
  have un: "unat (of_nat ?n :: u32) = ?n"
    using bv_count_bound [of data] by (simp add: unat_of_nat)
  have fit: "VEC_SIZE_BYTES + ?n * sz \<le> usize_max"
    using wf mem by (simp add: bv_wf_def)
  then have de: "usize_sat_add VEC_SIZE_BYTES (usize_sat_mul ?n sz) = VEC_SIZE_BYTES + ?n * sz"
    by (simp add: usize_sat_add_def usize_sat_mul_def min_def)
  have "(?n * sz + sz - 1) div sz = ?n"
    using sz_pos by (simp add: div_nat_eqI algebra_simps)
  then have sb: "step_by VEC_SIZE_BYTES (VEC_SIZE_BYTES + ?n * sz) sz
      = map (\<lambda>i. VEC_SIZE_BYTES + i * sz) [0..<?n]"
    by (simp add: step_by_def)
  have len: "length ?ys + k = ?n"
    using sum_length_filter_compl [of "\<lambda>x. predicate (enc x)" ?xs] by (simp add: k_def)
  have "retain_inv hdr data 0 0 VEC_SIZE_BYTES [] ?xs rest"
    using d h by (simp add: retain_inv_def)
  from retain_loop_spec [OF this, of predicate "of_nat ?n"] obtain data1 dst1 where
    loop: "retain_loop sz predicate (map (\<lambda>i. VEC_SIZE_BYTES + i * sz) [0..<?n])
        (data, of_nat ?n, 0, 0) = Inr (data1, of_nat ?n - of_nat k, k, dst1)"
    and inv: "retain_inv hdr data1 k dst1 (VEC_SIZE_BYTES + ?n * sz) ?ys [] rest"
    by (auto simp: k_def)
  have nk: "(of_nat ?n - of_nat k :: u32) = of_nat (length ?ys)"
    using len by (metis add_diff_cancel_right' of_nat_add)
  obtain junk where j: "length junk = k * sz" and
    fin: "(if k > 0 then if VEC_SIZE_BYTES + ?n * sz < k * sz then Inl Panic
            else memmove_within data1 dst1 (VEC_SIZE_BYTES + ?n * sz - k * sz) (dst1 + k * sz)
                   (VEC_SIZE_BYTES + ?n * sz) (VEC_SIZE_BYTES + ?n * sz - k * sz - dst1)
          else Inr data1) = Inr (hdr @ concat (map enc ?ys) @ junk @ rest)"
    using retain_finish [OF inv] by blast
  let ?hdr = "to_le_bytes (of_nat (length ?ys) :: u32)"
  have "bv_retain sz predicate data
      = Inr (overwrite 0 ?hdr (hdr @ concat (map enc ?ys) @ junk @ rest))"
    using sz_pos fin len
    by (cases "k = 0")
      (auto simp: bv_retain_def bv_len_ok [OF wf] un de sb loop Let_def nk split: if_splits)
  moreover have "overwrite 0 ?hdr (hdr @ concat (map enc ?ys) @ junk @ rest)
      = ?hdr @ concat (map enc ?ys) @ junk @ rest"
    using h by (simp add: overwrite_def VEC_SIZE_BYTES_def)
  moreover have "length (?hdr @ concat (map enc ?ys) @ junk @ rest) = length data"
  proof -
    have "length data = VEC_SIZE_BYTES + ?n * sz + length rest"
      by (subst d) (simp add: h length_concat_enc)
    moreover have "length ?ys * sz + k * sz = ?n * sz"
      by (simp only: len flip: add_mult_distrib)
    ultimately show ?thesis
      by (simp add: j length_concat_enc VEC_SIZE_BYTES_def)
  qed
  moreover have "length ?ys < 2 ^ 32"
    using len bv_count_bound [of data] by linarith
  ultimately show ?thesis
    using bv_compose [of ?ys "junk @ rest"] by simp
qed

end

end
