(* ===== verification/Fees.thy ===== *)
theory Fees
  imports Errors "HOL-Library.Monad_Syntax"
begin

text \<open>
  Fees of \<^verbatim>\<open>program/src/state.rs\<close>: the rate \<open>Fee\<close> and its ceiling application
  \<open>Fee::apply\<close>, the limit on withdrawal fee increases \<open>Fee::check_withdrawal\<close>, the countdown
  \<open>FutureEpoch\<close> through which a fee change waits two epoch boundaries, and the validation of
  \<open>FeeType\<close>. The lemmas give the exact mathematical value of every computation, and the cases
  in which the machine arithmetic of the increase limit departs from the ratio it checks.
\<close>

record Fee =
  fee_denominator :: u64
  fee_numerator :: u64

definition MAX_WITHDRAWAL_FEE_INCREASE :: Fee where
  "MAX_WITHDRAWAL_FEE_INCREASE = \<lparr>fee_denominator = 2, fee_numerator = 3\<rparr>"

definition WITHDRAWAL_BASELINE_FEE :: Fee where
  "WITHDRAWAL_BASELINE_FEE = \<lparr>fee_denominator = 1000, fee_numerator = 1\<rparr>"

definition fee_apply :: "Fee \<Rightarrow> u64 \<Rightarrow> u128 option" where
  "fee_apply self amt =
     (if fee_denominator self = 0 then Some 0
      else do {
        num \<leftarrow> checked_mul (as_u128 amt) (as_u128 (fee_numerator self));
        let den = as_u128 (fee_denominator self);
        s \<leftarrow> checked_add num den;
        t \<leftarrow> checked_sub s 1;
        checked_div t den
      })"

text \<open>The order on \<open>Option<u128>\<close> that the comparison in \<open>check_withdrawal\<close> uses.\<close>

fun option_lt :: "u128 option \<Rightarrow> u128 option \<Rightarrow> bool" where
  "option_lt None None = False"
| "option_lt None (Some b) = True"
| "option_lt (Some a) None = False"
| "option_lt (Some a) (Some b) = (a < b)"

definition check_withdrawal :: "Fee \<Rightarrow> Fee \<Rightarrow> StakePoolError + unit" where
  "check_withdrawal self old_withdrawal_fee =
     (let (old_num, old_denom) =
        (if fee_denominator old_withdrawal_fee = 0 \<or> fee_numerator old_withdrawal_fee = 0
         then (fee_numerator WITHDRAWAL_BASELINE_FEE, fee_denominator WITHDRAWAL_BASELINE_FEE)
         else (fee_numerator old_withdrawal_fee, fee_denominator old_withdrawal_fee))
      in tri (ok_or (map_option
                (\<lambda>x. checked_mul x (as_u128 (fee_numerator MAX_WITHDRAWAL_FEE_INCREASE)))
                (checked_mul (as_u128 old_num) (as_u128 (fee_denominator self))))
              CalculationFailure)
         (\<lambda>lhs. tri (ok_or (map_option
                (\<lambda>x. checked_mul x (as_u128 (fee_denominator MAX_WITHDRAWAL_FEE_INCREASE)))
                (checked_mul (as_u128 (fee_numerator self)) (as_u128 old_denom)))
              CalculationFailure)
         (\<lambda>rhs. if option_lt lhs rhs then Inl FeeIncreaseTooHigh else Inr ())))"

datatype 'a FutureEpoch = FE_None | FE_One 'a | FE_Two 'a

definition future_epoch_new :: "'a \<Rightarrow> 'a FutureEpoch" where
  "future_epoch_new v = FE_Two v"

fun update_epoch :: "'a FutureEpoch \<Rightarrow> 'a FutureEpoch" where
  "update_epoch FE_None = FE_None"
| "update_epoch (FE_One _) = FE_None"
| "update_epoch (FE_Two v) = FE_One v"

fun future_epoch_get :: "'a FutureEpoch \<Rightarrow> 'a option" where
  "future_epoch_get FE_None = None"
| "future_epoch_get (FE_Two _) = None"
| "future_epoch_get (FE_One v) = Some v"

fun option_of_future_epoch :: "'a FutureEpoch \<Rightarrow> 'a option" where
  "option_of_future_epoch FE_None = None"
| "option_of_future_epoch (FE_One v) = Some v"
| "option_of_future_epoch (FE_Two v) = Some v"

datatype FeeType =
    SolReferral u8
  | StakeReferral u8
  | EpochFee Fee
  | StakeWithdrawal Fee
  | SolDepositFee Fee
  | StakeDepositFee Fee
  | SolWithdrawal Fee

definition fee_above_one :: "Fee \<Rightarrow> bool" where
  "fee_above_one fee = (fee_numerator fee > fee_denominator fee)"

definition check_too_high :: "FeeType \<Rightarrow> StakePoolError + unit" where
  "check_too_high self =
     (let too_high = (case self of
          SolReferral pct \<Rightarrow> pct > 100
        | StakeReferral pct \<Rightarrow> pct > 100
        | EpochFee fee \<Rightarrow> fee_numerator fee > fee_denominator fee
        | StakeWithdrawal fee \<Rightarrow> fee_numerator fee > fee_denominator fee
        | SolWithdrawal fee \<Rightarrow> fee_numerator fee > fee_denominator fee
        | SolDepositFee fee \<Rightarrow> fee_numerator fee > fee_denominator fee
        | StakeDepositFee fee \<Rightarrow> fee_numerator fee > fee_denominator fee)
      in if too_high then Inl FeeTooHigh else Inr ())"

fun can_only_change_next_epoch :: "FeeType \<Rightarrow> bool" where
  "can_only_change_next_epoch (StakeWithdrawal _) = True"
| "can_only_change_next_epoch (SolWithdrawal _) = True"
| "can_only_change_next_epoch (EpochFee _) = True"
| "can_only_change_next_epoch _ = False"

section \<open>The ceiling application of a fee\<close>

text \<open>The specification: the rate as a fraction, applied with rounding up.\<close>

definition ceil_fee :: "Fee \<Rightarrow> int \<Rightarrow> int" where
  "ceil_fee f amt =
     (if fee_denominator f = 0 then 0
      else (amt * uint (fee_numerator f) + uint (fee_denominator f) - 1)
             div uint (fee_denominator f))"

lemma prod_u64_bound: "uint (a :: u64) * uint (b :: u64) \<le> (2 ^ 64 - 1) * (2 ^ 64 - 1)"
proof -
  have "uint a \<le> 2 ^ 64 - 1" "uint b \<le> 2 ^ 64 - 1"
    using uint64_bound [of a] uint64_bound [of b] by simp_all
  then show ?thesis
    by (intro mult_mono) simp_all
qed

lemma checked_mul_u64_in_u128:
  "checked_mul (as_u128 a) (as_u128 b) = Some (as_u128 a * as_u128 b)"
  "uint (as_u128 a * as_u128 b) = uint a * uint b"
proof -
  have "uint (as_u128 a) * uint (as_u128 b) < 2 ^ LENGTH(128)"
    using prod_u64_bound [of a b] by simp
  then show "checked_mul (as_u128 a) (as_u128 b) = Some (as_u128 a * as_u128 b)"
      and "uint (as_u128 a * as_u128 b) = uint a * uint b"
    by (simp_all add: checked_mul_def uint_mul_exact)
qed

lemma as_u128_zero [simp]: "as_u128 a = 0 \<longleftrightarrow> a = 0"
  by (simp add: word_uint_eq_iff)

lemma checked_add_exists: 
  "uint a + uint b < 2 ^ LENGTH('a) \<Longrightarrow> \<exists>c. checked_add a b = Some c \<and> uint c = uint a + uint b"
  for a b :: "'a::len word"
  by (simp add: checked_add_def uint_add_exact)

lemma checked_sub_exists:
  "uint b \<le> uint a \<Longrightarrow> \<exists>c. checked_sub a b = Some c \<and> uint c = uint a - uint b"
  by (simp add: checked_sub_def uint_sub_exact)

lemma fee_apply_total: "\<exists>r. fee_apply f amt = Some r \<and> uint r = ceil_fee f (uint amt)"
proof (cases "fee_denominator f = 0")
  case True
  then show ?thesis by (simp add: fee_apply_def ceil_fee_def)
next
  case False
  let ?n = "as_u128 amt * as_u128 (fee_numerator f)" and ?d = "as_u128 (fee_denominator f)"
  have d: "0 < uint (fee_denominator f)"
    using False by (simp add: word_zero_uint order_less_le)
  have "uint ?n + uint ?d < 2 ^ LENGTH(128)"
    using prod_u64_bound [of amt "fee_numerator f"] uint64_bound [of "fee_denominator f"]
    by (simp add: checked_mul_u64_in_u128)
  then obtain s where s: "checked_add ?n ?d = Some s" "uint s = uint ?n + uint ?d"
    using checked_add_exists by blast
  have "uint (1 :: u128) \<le> uint s"
    using d s(2) by (simp add: order_trans [of _ "uint ?d"])
  then obtain t where t: "checked_sub s 1 = Some t" "uint t = uint s - 1"
    using checked_sub_exists [of 1 s] by auto
  have "fee_apply f amt = Some (t div ?d)"
    using False s(1) t(1) by (simp add: fee_apply_def checked_mul_u64_in_u128 checked_div_def)
  then show ?thesis
    using False s(2) t(2) by (simp add: uint_div ceil_fee_def checked_mul_u64_in_u128)
qed

lemma fee_apply_value: "fee_apply f amt = Some r \<Longrightarrow> uint r = ceil_fee f (uint amt)"
  using fee_apply_total [of f amt] by auto

lemma fee_denominator_pos: "fee_denominator f \<noteq> 0 \<Longrightarrow> 0 < uint (fee_denominator f)"
  by (simp add: word_zero_uint order_less_le)

lemma ceil_div_bounds:
  assumes "0 < (d :: int)"
  shows "n \<le> (n + d - 1) div d * d" and "(n + d - 1) div d * d < n + d"
proof -
  have "(n + d - 1) div d * d = n + d - 1 - (n + d - 1) mod d"
    by (simp add: minus_mod_eq_div_mult)
  moreover have "0 \<le> (n + d - 1) mod d" "(n + d - 1) mod d < d"
    using assms by simp_all
  ultimately show "n \<le> (n + d - 1) div d * d" and "(n + d - 1) div d * d < n + d"
    by simp_all
qed

lemma ceil_fee_bounds:
  assumes "fee_denominator f \<noteq> 0"
  shows "amt * uint (fee_numerator f) \<le> ceil_fee f amt * uint (fee_denominator f)"
    and "ceil_fee f amt * uint (fee_denominator f)
           < amt * uint (fee_numerator f) + uint (fee_denominator f)"
  using assms ceil_div_bounds [OF fee_denominator_pos [OF assms]]
  by (simp_all add: ceil_fee_def)

lemma ceil_fee_nonneg:
  assumes "0 \<le> amt"
  shows "0 \<le> ceil_fee f amt"
proof (cases "fee_denominator f = 0")
  case False
  have "0 \<le> amt * uint (fee_numerator f)" using assms by simp
  then have "0 \<le> ceil_fee f amt * uint (fee_denominator f)"
    using ceil_fee_bounds(1) [OF False, of amt] by simp
  then show ?thesis
    using fee_denominator_pos [OF False] by (simp add: zero_le_mult_iff)
qed (simp add: ceil_fee_def)

lemma ceil_fee_le:
  assumes "0 \<le> amt" and "\<not> fee_above_one f"
  shows "ceil_fee f amt \<le> amt"
proof (cases "fee_denominator f = 0")
  case False
  let ?n = "uint (fee_numerator f)" and ?d = "uint (fee_denominator f)"
  have "?n \<le> ?d"
    using assms(2) by (simp add: fee_above_one_def word_order_uint)
  then have "amt * ?n \<le> amt * ?d"
    using assms(1) by (rule mult_left_mono)
  then have "ceil_fee f amt * ?d < (amt + 1) * ?d"
    using ceil_fee_bounds(2) [OF False, of amt] by (simp add: algebra_simps)
  then show ?thesis
    using fee_denominator_pos [OF False] by (simp add: mult_less_cancel_right)
qed (use assms in \<open>simp add: ceil_fee_def\<close>)

lemma check_too_high_fee:
  "check_too_high (SolDepositFee f) = Inr () \<longleftrightarrow> \<not> fee_above_one f"
  "check_too_high (StakeDepositFee f) = Inr () \<longleftrightarrow> \<not> fee_above_one f"
  "check_too_high (EpochFee f) = Inr () \<longleftrightarrow> \<not> fee_above_one f"
  "check_too_high (StakeWithdrawal f) = Inr () \<longleftrightarrow> \<not> fee_above_one f"
  "check_too_high (SolWithdrawal f) = Inr () \<longleftrightarrow> \<not> fee_above_one f"
  "check_too_high (SolReferral p) = Inr () \<longleftrightarrow> p \<le> 100"
  "check_too_high (StakeReferral p) = Inr () \<longleftrightarrow> p \<le> 100"
  by (auto simp: check_too_high_def fee_above_one_def)

section \<open>The limit on withdrawal fee increases\<close>

text \<open>
  The old rate that the limit compares with (the baseline when the old fee is zero), and the two
  products \<open>3 * old_num * new_denom\<close> and \<open>2 * new_num * old_denom\<close> of the comparison.
\<close>

definition effective_old_fee :: "Fee \<Rightarrow> Fee" where
  "effective_old_fee old =
     (if fee_denominator old = 0 \<or> fee_numerator old = 0 then WITHDRAWAL_BASELINE_FEE else old)"

definition allowed_side :: "Fee \<Rightarrow> Fee \<Rightarrow> int" where
  "allowed_side new old =
     uint (fee_numerator (effective_old_fee old)) * uint (fee_denominator new) * 3"

definition proposed_side :: "Fee \<Rightarrow> Fee \<Rightarrow> int" where
  "proposed_side new old =
     uint (fee_numerator new) * uint (fee_denominator (effective_old_fee old)) * 2"

lemma checked_mul_small:
  "checked_mul x (as_u128 c) =
     (if uint x * uint c < 2 ^ 128 then Some (x * as_u128 c) else None)"
  by (simp add: checked_mul_def)

lemma check_withdrawal_cases:
  "check_withdrawal new old =
     (if 2 ^ 128 \<le> proposed_side new old then Inr ()
      else if 2 ^ 128 \<le> allowed_side new old \<or> allowed_side new old < proposed_side new old
      then Inl FeeIncreaseTooHigh else Inr ())"
proof -
  let ?o = "effective_old_fee old"
  let ?l = "as_u128 (fee_numerator ?o) * as_u128 (fee_denominator new)"
  let ?r = "as_u128 (fee_numerator new) * as_u128 (fee_denominator ?o)"
  have l: "uint ?l * 3 = allowed_side new old" and r: "uint ?r * 2 = proposed_side new old"
    by (simp_all add: checked_mul_u64_in_u128 allowed_side_def proposed_side_def)
  have "check_withdrawal new old =
      (if option_lt (checked_mul ?l (as_u128 3)) (checked_mul ?r (as_u128 2))
       then Inl FeeIncreaseTooHigh else Inr ())"
    by (simp add: check_withdrawal_def effective_old_fee_def checked_mul_u64_in_u128
        MAX_WITHDRAWAL_FEE_INCREASE_def)
  also have "option_lt (checked_mul ?l (as_u128 3)) (checked_mul ?r (as_u128 2)) \<longleftrightarrow>
      proposed_side new old < 2 ^ 128 \<and>
      (2 ^ 128 \<le> allowed_side new old \<or> allowed_side new old < proposed_side new old)"
    by (auto simp: checked_mul_small l r word_less_def uint_mul_exact)
  finally show ?thesis by auto
qed

section \<open>Properties\<close>

text \<open>
  \<open>Fee::apply\<close> never overflows: for every rate and every amount it returns the least integer
  that is at least the exact product, so the pool never collects less than the rate and never more
  than one unit above it; a zero denominator gives a zero fee.
\<close>

lemma fee_apply_ceiling:
  "\<exists>r. fee_apply f amt = Some r \<and>
       (if fee_denominator f = 0 then r = 0
        else uint amt * uint (fee_numerator f) \<le> uint r * uint (fee_denominator f) \<and>
             uint r * uint (fee_denominator f)
               < uint amt * uint (fee_numerator f) + uint (fee_denominator f))"
proof -
  obtain r where "fee_apply f amt = Some r" "uint r = ceil_fee f (uint amt)"
    using fee_apply_total by blast
  then show ?thesis
    using ceil_fee_bounds [of f "uint amt"] by (auto simp: word_zero_uint ceil_fee_def)
qed

text \<open>
  The exact decision of \<open>Fee::check_withdrawal\<close> on every input: as long as both products fit
  in 128 bits a new fee is accepted exactly when it is at most 3/2 of the old one (of the baseline
  when the old fee is zero); a product on the proposed side that does not fit is accepted, and one
  on the allowed side alone is rejected.
\<close>

lemma check_withdrawal_exact:
  "check_withdrawal new old =
     (let on = (if fee_denominator old = 0 \<or> fee_numerator old = 0 then 1
                else uint (fee_numerator old));
          od = (if fee_denominator old = 0 \<or> fee_numerator old = 0 then 1000
                else uint (fee_denominator old));
          allowed = 3 * on * uint (fee_denominator new);
          proposed = 2 * uint (fee_numerator new) * od
      in if proposed < 2 ^ 128 \<and> (2 ^ 128 \<le> allowed \<or> allowed < proposed)
         then Inl FeeIncreaseTooHigh else Inr ())"
  by (auto simp: check_withdrawal_cases allowed_side_def proposed_side_def effective_old_fee_def
      WITHDRAWAL_BASELINE_FEE_def Let_def mult_ac)

text \<open>
  A scheduled value passes through exactly two epoch boundaries: it is not readable when set,
  it is readable after the first boundary, and after the second nothing is pending; an empty slot
  stays empty.
\<close>

lemma future_epoch_countdown:
  "future_epoch_get (future_epoch_new v) = None \<and>
   future_epoch_get (update_epoch (future_epoch_new v)) = Some v \<and>
   update_epoch (update_epoch (future_epoch_new v)) = FE_None \<and>
   option_of_future_epoch (update_epoch (future_epoch_new v)) = Some v \<and>
   (update_epoch ^^ n) FE_None = FE_None"
  by (induction n) (simp_all add: future_epoch_new_def)

end
