(* ===== verification/Pool_State.thy ===== *)
theory Pool_State
  imports Fees
begin

text \<open>
  The pool account of \<^verbatim>\<open>program/src/state.rs\<close>: the struct \<open>StakePool\<close> with its exchange
  rate computations (\<open>calc_*\<close>, \<open>get_lamports_per_pool_token\<close>) and \<open>update_fee\<close>. The lemmas give
  the integer value of each computation; the properties say that the exchange rate never moves
  against the remaining holders: deposits mint at most their value, withdrawals pay at most the
  value burnt, a deposit followed by a withdrawal makes no profit, and the manager's epoch fee is
  worth at most the fee rate.
\<close>

datatype AccountType = Uninitialized | StakePoolAccount | ValidatorListAccount

record Lockup =
  lockup_unix_timestamp :: i64
  lockup_epoch :: u64
  lockup_custodian :: Pubkey

definition default_lockup :: Lockup where
  "default_lockup = \<lparr>lockup_unix_timestamp = 0, lockup_epoch = 0, lockup_custodian = 0\<rparr>"

record StakePool =
  sp_account_type :: AccountType
  sp_manager :: Pubkey
  sp_staker :: Pubkey
  sp_stake_deposit_authority :: Pubkey
  sp_stake_withdraw_bump_seed :: u8
  sp_validator_list :: Pubkey
  sp_reserve_stake :: Pubkey
  sp_pool_mint :: Pubkey
  sp_manager_fee_account :: Pubkey
  sp_token_program_id :: Pubkey
  sp_total_lamports :: u64
  sp_pool_token_supply :: u64
  sp_last_update_epoch :: u64
  sp_lockup :: Lockup
  sp_epoch_fee :: Fee
  sp_next_epoch_fee :: "Fee FutureEpoch"
  sp_preferred_deposit_validator_vote_address :: "Pubkey option"
  sp_preferred_withdraw_validator_vote_address :: "Pubkey option"
  sp_stake_deposit_fee :: Fee
  sp_stake_withdrawal_fee :: Fee
  sp_next_stake_withdrawal_fee :: "Fee FutureEpoch"
  sp_stake_referral_fee :: u8
  sp_sol_deposit_authority :: "Pubkey option"
  sp_sol_deposit_fee :: Fee
  sp_sol_referral_fee :: u8
  sp_sol_withdraw_authority :: "Pubkey option"
  sp_sol_withdrawal_fee :: Fee
  sp_next_sol_withdrawal_fee :: "Fee FutureEpoch"
  sp_last_epoch_pool_token_supply :: u64
  sp_last_epoch_total_lamports :: u64

section \<open>Computations\<close>

definition calc_pool_tokens_for_deposit :: "StakePool \<Rightarrow> u64 \<Rightarrow> u64 option" where
  "calc_pool_tokens_for_deposit self stake_lamports =
     (if sp_total_lamports self = 0 \<or> sp_pool_token_supply self = 0 then Some stake_lamports
      else do {
        p \<leftarrow> checked_mul (as_u128 stake_lamports) (as_u128 (sp_pool_token_supply self));
        q \<leftarrow> checked_div p (as_u128 (sp_total_lamports self));
        u64_try_from q
      })"

definition calc_lamports_withdraw_amount :: "StakePool \<Rightarrow> u64 \<Rightarrow> u64 option" where
  "calc_lamports_withdraw_amount self pool_tokens =
     do {
       num \<leftarrow> checked_mul (as_u128 pool_tokens) (as_u128 (sp_total_lamports self));
       let den = as_u128 (sp_pool_token_supply self);
       if num < den \<or> den = 0 then Some 0
       else do {
         q \<leftarrow> checked_div num den;
         u64_try_from q
       }
     }"

definition calc_pool_tokens_stake_withdrawal_fee :: "StakePool \<Rightarrow> u64 \<Rightarrow> u64 option" where
  "calc_pool_tokens_stake_withdrawal_fee self pool_tokens =
     do { f \<leftarrow> fee_apply (sp_stake_withdrawal_fee self) pool_tokens; u64_try_from f }"

definition calc_pool_tokens_sol_withdrawal_fee :: "StakePool \<Rightarrow> u64 \<Rightarrow> u64 option" where
  "calc_pool_tokens_sol_withdrawal_fee self pool_tokens =
     do { f \<leftarrow> fee_apply (sp_sol_withdrawal_fee self) pool_tokens; u64_try_from f }"

definition calc_pool_tokens_stake_deposit_fee :: "StakePool \<Rightarrow> u64 \<Rightarrow> u64 option" where
  "calc_pool_tokens_stake_deposit_fee self pool_tokens_minted =
     do { f \<leftarrow> fee_apply (sp_stake_deposit_fee self) pool_tokens_minted; u64_try_from f }"

definition referral_share :: "u64 \<Rightarrow> u8 \<Rightarrow> u64 option" where
  "referral_share fee pct =
     do {
       p \<leftarrow> checked_mul (as_u128 fee) (ucast pct :: u128);
       q \<leftarrow> checked_div p 100;
       u64_try_from q
     }"

definition calc_pool_tokens_stake_referral_fee :: "StakePool \<Rightarrow> u64 \<Rightarrow> u64 option" where
  "calc_pool_tokens_stake_referral_fee self stake_deposit_fee =
     referral_share stake_deposit_fee (sp_stake_referral_fee self)"

definition calc_pool_tokens_sol_deposit_fee :: "StakePool \<Rightarrow> u64 \<Rightarrow> u64 option" where
  "calc_pool_tokens_sol_deposit_fee self pool_tokens_minted =
     do { f \<leftarrow> fee_apply (sp_sol_deposit_fee self) pool_tokens_minted; u64_try_from f }"

definition calc_pool_tokens_sol_referral_fee :: "StakePool \<Rightarrow> u64 \<Rightarrow> u64 option" where
  "calc_pool_tokens_sol_referral_fee self sol_deposit_fee =
     referral_share sol_deposit_fee (sp_sol_referral_fee self)"

definition calc_epoch_fee_amount :: "StakePool \<Rightarrow> u64 \<Rightarrow> u64 option" where
  "calc_epoch_fee_amount self reward_lamports =
     (if reward_lamports = 0 then Some 0
      else do {
        total \<leftarrow> checked_add (as_u128 (sp_total_lamports self)) (as_u128 reward_lamports);
        fee_lamports \<leftarrow> fee_apply (sp_epoch_fee self) reward_lamports;
        if total = fee_lamports \<or> sp_pool_token_supply self = 0 then Some reward_lamports
        else do {
          p \<leftarrow> checked_mul (as_u128 (sp_pool_token_supply self)) fee_lamports;
          d \<leftarrow> checked_sub total fee_lamports;
          q \<leftarrow> checked_div p d;
          u64_try_from q
        }
      })"

definition get_lamports_per_pool_token :: "StakePool \<Rightarrow> u64 option" where
  "get_lamports_per_pool_token self =
     do {
       a \<leftarrow> checked_add (sp_total_lamports self) (sp_pool_token_supply self);
       b \<leftarrow> checked_sub a 1;
       checked_div b (sp_pool_token_supply self)
     }"

definition sp_is_valid :: "StakePool \<Rightarrow> bool" where
  "sp_is_valid self = (sp_account_type self = StakePoolAccount)"

definition sp_is_uninitialized :: "StakePool \<Rightarrow> bool" where
  "sp_is_uninitialized self = (sp_account_type self = Uninitialized)"

fun update_fee :: "StakePool \<Rightarrow> FeeType \<Rightarrow> StakePoolError + StakePool" where
  "update_fee self (SolReferral new_fee) = Inr (self\<lparr>sp_sol_referral_fee := new_fee\<rparr>)"
| "update_fee self (StakeReferral new_fee) = Inr (self\<lparr>sp_stake_referral_fee := new_fee\<rparr>)"
| "update_fee self (EpochFee new_fee) =
     Inr (self\<lparr>sp_next_epoch_fee := future_epoch_new new_fee\<rparr>)"
| "update_fee self (StakeWithdrawal new_fee) =
     tri (check_withdrawal new_fee (sp_stake_withdrawal_fee self))
       (\<lambda>_. Inr (self\<lparr>sp_next_stake_withdrawal_fee := future_epoch_new new_fee\<rparr>))"
| "update_fee self (SolWithdrawal new_fee) =
     tri (check_withdrawal new_fee (sp_sol_withdrawal_fee self))
       (\<lambda>_. Inr (self\<lparr>sp_next_sol_withdrawal_fee := future_epoch_new new_fee\<rparr>))"
| "update_fee self (SolDepositFee new_fee) = Inr (self\<lparr>sp_sol_deposit_fee := new_fee\<rparr>)"
| "update_fee self (StakeDepositFee new_fee) = Inr (self\<lparr>sp_stake_deposit_fee := new_fee\<rparr>)"

section \<open>Integer values of the computations\<close>

abbreviation pool_total :: "StakePool \<Rightarrow> int" where "pool_total p \<equiv> uint (sp_total_lamports p)"
abbreviation pool_supply :: "StakePool \<Rightarrow> int" where "pool_supply p \<equiv> uint (sp_pool_token_supply p)"

definition deposit_value :: "StakePool \<Rightarrow> int \<Rightarrow> int" where
  "deposit_value p l = (if pool_total p = 0 \<or> pool_supply p = 0 then l else l * pool_supply p div pool_total p)"

lemma mul_div_u64:
  assumes "c \<noteq> 0"
  shows "do { p \<leftarrow> checked_mul (as_u128 a) (as_u128 b);
              q \<leftarrow> checked_div p (as_u128 c); u64_try_from q } = Some r
         \<longleftrightarrow> uint r = uint a * uint b div uint c"
  by (auto simp: assms checked_mul_u64_in_u128 checked_div_def u64_try_from_Some uint_div)

lemma calc_pool_tokens_for_deposit_Some:
  "calc_pool_tokens_for_deposit p l = Some t \<longleftrightarrow> uint t = deposit_value p (uint l)"
proof (cases "sp_total_lamports p = 0 \<or> sp_pool_token_supply p = 0")
  case True
  then show ?thesis
    by (auto simp: calc_pool_tokens_for_deposit_def deposit_value_def word_zero_uint
        word_uint_eq_iff)
next
  case False
  then show ?thesis
    by (simp add: calc_pool_tokens_for_deposit_def deposit_value_def mul_div_u64
        flip: word_zero_uint)
qed

definition withdraw_value :: "StakePool \<Rightarrow> int \<Rightarrow> int" where
  "withdraw_value p t = (if pool_supply p = 0 then 0 else t * pool_total p div pool_supply p)"

lemma calc_lamports_withdraw_amount_Some:
  "calc_lamports_withdraw_amount p t = Some l \<longleftrightarrow> uint l = withdraw_value p (uint t)"
proof -
  let ?n = "as_u128 t * as_u128 (sp_total_lamports p)" and ?d = "as_u128 (sp_pool_token_supply p)"
  have n: "uint ?n = uint t * pool_total p"
    by (rule checked_mul_u64_in_u128)
  show ?thesis
  proof (cases "?n < ?d \<or> ?d = 0")
    case True
    then have "withdraw_value p (uint t) = 0"
      using n by (auto simp: withdraw_value_def word_less_def)
    then show ?thesis
      using True
      by (simp add: calc_lamports_withdraw_amount_def checked_mul_u64_in_u128 word_uint_eq_iff
          eq_commute [of _ "uint l"])
  next
    case False
    then show ?thesis
      using n by (auto simp: calc_lamports_withdraw_amount_def checked_mul_u64_in_u128
          checked_div_def u64_try_from_Some uint_div withdraw_value_def word_zero_uint)
  qed
qed

lemmas exchange_amounts =
  calc_pool_tokens_for_deposit_Some calc_lamports_withdraw_amount_Some
  deposit_value_def withdraw_value_def

lemma fee_calc_Some:
  "do { f \<leftarrow> fee_apply fee x; u64_try_from f } = Some r \<longleftrightarrow> uint r = ceil_fee fee (uint x)"
proof -
  obtain f where "fee_apply fee x = Some f" "uint f = ceil_fee fee (uint x)"
    using fee_apply_total by blast
  then show ?thesis by (simp add: u64_try_from_Some)
qed

lemmas fee_calcs_Some =
  calc_pool_tokens_stake_withdrawal_fee_def [THEN arg_cong [of _ _ "\<lambda>x. x = Some r" for r],
    unfolded fee_calc_Some]
  calc_pool_tokens_sol_withdrawal_fee_def [THEN arg_cong [of _ _ "\<lambda>x. x = Some r" for r],
    unfolded fee_calc_Some]
  calc_pool_tokens_stake_deposit_fee_def [THEN arg_cong [of _ _ "\<lambda>x. x = Some r" for r],
    unfolded fee_calc_Some]
  calc_pool_tokens_sol_deposit_fee_def [THEN arg_cong [of _ _ "\<lambda>x. x = Some r" for r],
    unfolded fee_calc_Some]

lemma uint_u8_as_u128: "uint (ucast (p :: u8) :: u128) = uint p"
proof -
  have "uint p < 2 ^ 128" using uint_lt2p [of p] by simp
  then show ?thesis by (simp add: unsigned_ucast_eq take_bit_int_eq_self)
qed

lemma referral_share_Some: "referral_share fee pct = Some r \<longleftrightarrow> uint r = uint fee * uint pct div 100"
proof -
  have "uint fee * uint pct < 2 ^ LENGTH(128)"
  proof -
    have "uint fee * uint pct \<le> (2 ^ 64 - 1) * 255"
      using uint64_bound [of fee] uint_lt2p [of pct] by (intro mult_mono) simp_all
    then show ?thesis by simp
  qed
  then show ?thesis
    by (simp add: referral_share_def checked_mul_def uint_u8_as_u128 checked_div_def
        u64_try_from_Some uint_div uint_mul_exact)
qed

lemma get_lamports_per_pool_token_Some:
  assumes "get_lamports_per_pool_token p = Some r"
  shows "0 < pool_supply p" and "uint r = (pool_total p + pool_supply p - 1) div pool_supply p"
proof -
  from assms obtain a b where
    "checked_add (sp_total_lamports p) (sp_pool_token_supply p) = Some a"
    "checked_sub a 1 = Some b" "checked_div b (sp_pool_token_supply p) = Some r"
    by (auto simp: get_lamports_per_pool_token_def result_simps)
  then have s: "sp_pool_token_supply p \<noteq> 0" and r: "uint r = uint b div pool_supply p"
    and b: "uint b = pool_total p + pool_supply p - 1"
    by (simp_all add: checked_simps)
  from s show "0 < pool_supply p" by (simp add: word_zero_uint order_less_le)
  show "uint r = (pool_total p + pool_supply p - 1) div pool_supply p" using r b by simp
qed

section \<open>The exchange rate never moves against the holders\<close>

text \<open>
  Rates are compared by cross multiplication: pool \<open>q\<close> is worth at least as much per token as
  pool \<open>p\<close>.
\<close>

definition rate_le :: "StakePool \<Rightarrow> StakePool \<Rightarrow> bool" where
  "rate_le p q \<longleftrightarrow> pool_total p * pool_supply q \<le> pool_total q * pool_supply p"

lemma floor_mult_le: "0 < (c :: int) \<Longrightarrow> a div c * c \<le> a"
  by (simp add: minus_mod_eq_div_mult [symmetric])

lemma deposit_value_le:
  assumes "0 < pool_total p" and "0 < pool_supply p"
  shows "deposit_value p l * pool_total p \<le> l * pool_supply p"
  using assms floor_mult_le [of "pool_total p" "l * pool_supply p"]
  by (simp add: deposit_value_def)

lemma withdraw_value_le:
  assumes "0 \<le> t"
  shows "withdraw_value p t * pool_supply p \<le> t * pool_total p"
  using assms floor_mult_le [of "pool_supply p" "t * pool_total p"]
  by (auto simp: withdraw_value_def order_less_le)

lemma deposit_value_nonneg: "0 \<le> l \<Longrightarrow> 0 \<le> deposit_value p l"
  by (auto simp: deposit_value_def order_less_le pos_imp_zdiv_nonneg_iff)

lemma withdraw_value_nonneg: "0 \<le> t \<Longrightarrow> 0 \<le> withdraw_value p t"
  by (auto simp: withdraw_value_def order_less_le pos_imp_zdiv_nonneg_iff)

lemma withdraw_value_le_total:
  assumes "0 \<le> t" and "t \<le> pool_supply p"
  shows "withdraw_value p t \<le> pool_total p"
proof (cases "pool_supply p = 0")
  case False
  then have s: "0 < pool_supply p" by (simp add: order_less_le)
  have "withdraw_value p t * pool_supply p \<le> pool_supply p * pool_total p"
    using withdraw_value_le [OF assms(1), of p] assms(2)
    by (meson mult_right_mono order_trans uint_ge_0)
  then show ?thesis using s by (simp add: mult.commute)
qed (simp add: withdraw_value_def)

lemma rate_after_deposit:
  assumes "pool_total q = pool_total p + l" and "pool_supply q = pool_supply p + deposit_value p l"
    and "0 \<le> l" and "pool_total p = 0 \<or> 0 < pool_supply p"
  shows "rate_le p q"
proof (cases "pool_total p = 0")
  case False
  then have "0 < pool_total p" "0 < pool_supply p"
    using assms(4) by (simp_all add: order_less_le)
  then have "pool_total p * deposit_value p l \<le> l * pool_supply p"
    using deposit_value_le [of p l] by (simp add: mult.commute)
  then show ?thesis
    using assms by (simp add: rate_le_def algebra_simps)
qed (use assms in \<open>simp add: rate_le_def\<close>)

lemma rate_after_withdraw:
  assumes "pool_total q = pool_total p - w" and "pool_supply q = pool_supply p - t"
    and "w \<le> withdraw_value p t" and "0 \<le> t"
  shows "rate_le p q"
proof -
  have "w * pool_supply p \<le> t * pool_total p"
    using withdraw_value_le [OF assms(4), of p] assms(3)
    by (meson mult_right_mono order_trans uint_ge_0)
  then show ?thesis
    unfolding rate_le_def assms(1,2) by (simp add: algebra_simps)
qed

lemma withdraw_after_deposit:
  assumes t: "t = deposit_value p l" and l: "0 \<le> l"
    and q: "pool_total q = pool_total p + l" "pool_supply q = pool_supply p + t"
    and ok: "pool_total p = 0 \<or> 0 < pool_supply p"
  shows "withdraw_value q t \<le> l"
proof (cases "pool_supply q = 0")
  case False
  then have s: "0 < pool_supply q" by (simp add: order_less_le)
  have "t * pool_total p \<le> l * pool_supply p"
  proof (cases "pool_total p = 0")
    case False
    then show ?thesis
      using ok deposit_value_le [of p l] by (simp add: t order_less_le)
  qed (use l in simp)
  then have "t * pool_total q \<le> l * pool_supply q"
    by (simp add: q algebra_simps)
  moreover have "0 \<le> t" using l by (simp add: t deposit_value_nonneg)
  ultimately have "withdraw_value q t * pool_supply q \<le> l * pool_supply q"
    using withdraw_value_le [of t q] by linarith
  then show ?thesis using s by simp
qed (use l in \<open>simp add: withdraw_value_def\<close>)

section \<open>Properties\<close>

text \<open>
  The pool tokens of a deposit are the floor of the exact share (the deposited lamports
  themselves when the pool holds nothing or has no tokens), and the lamports of a withdrawal are
  the floor of the exact value (nothing when there are no tokens); each computation fails exactly
  when that number does not fit in 64 bits.
\<close>

lemma exchange_amounts_exact:
  "(calc_pool_tokens_for_deposit p l = Some t \<longleftrightarrow>
      uint t = (if sp_total_lamports p = 0 \<or> sp_pool_token_supply p = 0 then uint l
                else uint l * uint (sp_pool_token_supply p) div uint (sp_total_lamports p))) \<and>
   (calc_lamports_withdraw_amount p k = Some w \<longleftrightarrow>
      uint w = (if sp_pool_token_supply p = 0 then 0
                else uint k * uint (sp_total_lamports p) div uint (sp_pool_token_supply p)))"
  by (simp add: calc_pool_tokens_for_deposit_Some calc_lamports_withdraw_amount_Some
      deposit_value_def withdraw_value_def word_zero_uint)

text \<open>
  C25. A deposit followed at once by the withdrawal of the tokens it minted never returns more
  lamports than were deposited, whatever the rate; the pool must have tokens whenever it holds
  lamports. (The fees, which only lower the amounts, are not charged here.)
\<close>

theorem deposit_withdraw_no_profit:
  assumes "calc_pool_tokens_for_deposit p l = Some t"
    and "checked_add (sp_total_lamports p) l = Some nt"
    and "checked_add (sp_pool_token_supply p) t = Some ns"
    and "calc_lamports_withdraw_amount
           (p\<lparr>sp_total_lamports := nt, sp_pool_token_supply := ns\<rparr>) t = Some w"
    and "sp_total_lamports p = 0 \<or> sp_pool_token_supply p \<noteq> 0"
  shows "w \<le> l"
proof -
  let ?q = "p\<lparr>sp_total_lamports := nt, sp_pool_token_supply := ns\<rparr>"
  have "withdraw_value ?q (uint t) \<le> uint l"
    using assms by (intro withdraw_after_deposit [of _ p])
      (auto simp: calc_pool_tokens_for_deposit_Some checked_simps word_zero_uint order_less_le)
  then show ?thesis
    using assms(4) by (simp add: calc_lamports_withdraw_amount_Some word_le_def)
qed

text \<open>A concrete pool on which the witnesses of the development evaluate the code.\<close>

definition sample_pool :: StakePool where
  "sample_pool =
     \<lparr>sp_account_type = StakePoolAccount, sp_manager = 11, sp_staker = 12,
      sp_stake_deposit_authority = 13, sp_stake_withdraw_bump_seed = 7,
      sp_validator_list = 14, sp_reserve_stake = 15, sp_pool_mint = 16,
      sp_manager_fee_account = 17, sp_token_program_id = 18,
      sp_total_lamports = 3000000, sp_pool_token_supply = 2000000, sp_last_update_epoch = 5,
      sp_lockup = default_lockup,
      sp_epoch_fee = \<lparr>fee_denominator = 100, fee_numerator = 3\<rparr>, sp_next_epoch_fee = FE_None,
      sp_preferred_deposit_validator_vote_address = None,
      sp_preferred_withdraw_validator_vote_address = None,
      sp_stake_deposit_fee = \<lparr>fee_denominator = 1000, fee_numerator = 1\<rparr>,
      sp_stake_withdrawal_fee = \<lparr>fee_denominator = 1000, fee_numerator = 2\<rparr>,
      sp_next_stake_withdrawal_fee = FE_None, sp_stake_referral_fee = 50,
      sp_sol_deposit_authority = None,
      sp_sol_deposit_fee = \<lparr>fee_denominator = 1000, fee_numerator = 1\<rparr>,
      sp_sol_referral_fee = 50, sp_sol_withdraw_authority = None,
      sp_sol_withdrawal_fee = \<lparr>fee_denominator = 1000, fee_numerator = 2\<rparr>,
      sp_next_sol_withdrawal_fee = FE_None,
      sp_last_epoch_pool_token_supply = 0, sp_last_epoch_total_lamports = 0\<rparr>"

theorem deposit_withdraw_no_profit_witness:
  "calc_pool_tokens_for_deposit sample_pool 1000 = Some 666 \<and>
   calc_lamports_withdraw_amount
     (sample_pool\<lparr>sp_total_lamports := 3001000, sp_pool_token_supply := 2000666\<rparr>) 666 = Some 999 \<and>
   (999 :: u64) \<le> 1000"
proof -
  have a: "calc_pool_tokens_for_deposit sample_pool 1000 = Some 666"
    by (simp add: exchange_amounts sample_pool_def)
  have b: "calc_lamports_withdraw_amount
     (sample_pool\<lparr>sp_total_lamports := 3001000, sp_pool_token_supply := 2000666\<rparr>) 666 = Some 999"
    by (simp add: exchange_amounts sample_pool_def)
  have "(999 :: u64) \<le> 1000"
    by (rule deposit_withdraw_no_profit [OF a _ _ b]) (simp_all add: sample_pool_def checked_add_def)
  with a b show ?thesis by blast
qed

lemma epoch_fee_value:
  assumes fee: "\<not> fee_above_one (sp_epoch_fee p)"
  shows "calc_epoch_fee_amount p r = Some f \<longleftrightarrow>
    uint f = (let F = ceil_fee (sp_epoch_fee p) (uint r); N = pool_total p + uint r
              in if uint r = 0 then 0 else if N = F \<or> pool_supply p = 0 then uint r
                 else pool_supply p * F div (N - F))"
proof (cases "r = 0")
  case True
  then show ?thesis by (auto simp: calc_epoch_fee_amount_def word_uint_eq_iff)
next
  case False
  obtain F where F: "fee_apply (sp_epoch_fee p) r = Some F"
      "uint F = ceil_fee (sp_epoch_fee p) (uint r)"
    using fee_apply_total by blast
  have Fr: "uint F \<le> uint r"
    using fee by (simp add: F(2) ceil_fee_le)
  have "uint (as_u128 (sp_total_lamports p)) + uint (as_u128 r) < 2 ^ LENGTH(128)"
    using uint64_bound [of r] uint64_bound [of "sp_total_lamports p"] by simp
  then obtain N where N: "checked_add (as_u128 (sp_total_lamports p)) (as_u128 r) = Some N"
      "uint N = pool_total p + uint r"
    using checked_add_exists by fastforce
  have le: "uint F \<le> uint N" using Fr N(2) by (simp add: add_increasing)
  then obtain D where D: "checked_sub N F = Some D" "uint D = uint N - uint F"
    using checked_sub_exists by blast
  have "pool_supply p * uint F \<le> (2 ^ 64 - 1) * (2 ^ 64 - 1)"
    using Fr uint64_bound [of r] uint64_bound [of "sp_pool_token_supply p"]
    by (intro mult_mono) simp_all
  then have M: "checked_mul (as_u128 (sp_pool_token_supply p)) F
      = Some (as_u128 (sp_pool_token_supply p) * F)"
    "uint (as_u128 (sp_pool_token_supply p) * F) = pool_supply p * uint F"
    by (simp_all add: checked_mul_def uint_mul_exact)
  have r: "uint r \<noteq> 0" using False by (simp add: word_zero_uint)
  show ?thesis
  proof (cases "N = F \<or> sp_pool_token_supply p = 0")
    case True
    then show ?thesis
      using False r F N by (auto simp: calc_epoch_fee_amount_def word_uint_eq_iff)
  next
    case nondegenerate: False
    then have "uint N \<noteq> uint F" and "pool_supply p \<noteq> 0"
      by (simp_all add: word_uint_eq_iff)
    moreover from this have "D \<noteq> 0" using D(2) by (auto simp: word_zero_uint)
    ultimately show ?thesis
      using nondegenerate False r F N D M
      by (auto simp: calc_epoch_fee_amount_def checked_div_def u64_try_from_Some uint_div Let_def)
  qed
qed

text \<open>
  C26. The tokens minted to the manager at an epoch boundary are worth, at the new rate, at most
  the fee on the reward (the epoch rate applied to the reward, rounded up): the other holders keep
  at least the rest of the reward.
\<close>

theorem epoch_fee_worth_at_most_rate:
  assumes "calc_epoch_fee_amount p r = Some f"
    and "fee_apply (sp_epoch_fee p) r = Some F"
    and "\<not> fee_numerator (sp_epoch_fee p) > fee_denominator (sp_epoch_fee p)"
    and "sp_pool_token_supply p \<noteq> 0"
  shows "uint f * (uint (sp_total_lamports p) + uint r)
           \<le> uint F * (uint (sp_pool_token_supply p) + uint f) \<and> F \<le> as_u128 r"
proof (rule conjI)
  let ?N = "pool_total p + uint r" and ?S = "pool_supply p"
  have ok: "\<not> fee_above_one (sp_epoch_fee p)"
    using assms(3) by (simp add: fee_above_one_def)
  have F: "uint F = ceil_fee (sp_epoch_fee p) (uint r)"
    using assms(2) by (rule fee_apply_value)
  have Fr: "uint F \<le> uint r"
    using ok by (simp add: F ceil_fee_le)
  then show "F \<le> as_u128 r" by (simp add: word_le_def)
  have S: "?S \<noteq> 0" using assms(4) by (simp add: word_zero_uint)
  have f: "uint f = (if uint r = 0 then 0 else if ?N = uint F then uint r
                     else ?S * uint F div (?N - uint F))"
    using epoch_fee_value [OF ok, THEN iffD1, OF assms(1)] S F by (simp add: Let_def)
  show "uint f * ?N \<le> uint F * (?S + uint f)"
  proof (cases "uint r = 0 \<or> ?N = uint F")
    case True
    then have "uint r = 0 \<or> uint r = uint F"
      using Fr uint_ge_0 [of "sp_total_lamports p"] by linarith
    then have "uint r = uint F \<or> uint f = 0"
      using f by auto
    then show ?thesis
      using True f by (auto simp: algebra_simps split: if_splits)
  next
    case False
    have "uint F \<le> ?N" using Fr by (simp add: add_increasing)
    then have "0 < ?N - uint F" using False by simp
    then have "uint f * (?N - uint F) \<le> ?S * uint F"
      using f False floor_mult_le by simp
    then show ?thesis by (simp add: algebra_simps)
  qed
qed

theorem epoch_fee_worth_at_most_rate_witness:
  "calc_epoch_fee_amount sample_pool 10000 = Some 199 \<and>
   uint (199 :: u64) * (3000000 + 10000) \<le> uint (300 :: u128) * (2000000 + 199)"
proof -
  have F: "fee_apply (sp_epoch_fee sample_pool) 10000 = Some 300"
    using fee_apply_total [of "sp_epoch_fee sample_pool" 10000]
    by (auto simp: sample_pool_def ceil_fee_def word_uint_eq_iff)
  have f: "calc_epoch_fee_amount sample_pool 10000 = Some 199"
    by (simp add: epoch_fee_value fee_above_one_def sample_pool_def ceil_fee_def)
  show ?thesis
    using f epoch_fee_worth_at_most_rate [OF f F] by (simp add: sample_pool_def)
qed

end
