(* ===== verification/Borsh.thy ===== *)
theory Borsh
  imports Pool_State
begin

text \<open>
  The Borsh byte format of the types that derive it in \<^verbatim>\<open>program/src/state.rs\<close>: integers
  little-endian, a struct as its fields in declaration order, an enum as a one byte variant index
  followed by the variant's fields, \<open>Option\<close> as such an enum. A decoder reads a prefix and returns
  the rest; \<open>try_from_slice_unchecked\<close> ignores what follows the value and \<open>to_writer\<close> overwrites
  the front of a buffer, failing when it is too small.

  The locale \<open>borsh\<close> is the contract of such a pair; it gives the prefix property and the
  round trip through an account buffer once for all types.
\<close>

type_synonym 'a decoder = "byte list \<Rightarrow> ('a \<times> byte list) option"

definition try_from_slice_unchecked :: "'a decoder \<Rightarrow> byte list \<Rightarrow> 'a result" where
  "try_from_slice_unchecked de data =
     (case de data of None \<Rightarrow> Inl BorshIoError | Some (x, _) \<Rightarrow> Inr x)"

definition to_writer :: "('a \<Rightarrow> byte list) \<Rightarrow> byte list \<Rightarrow> 'a \<Rightarrow> byte list result" where
  "to_writer ser data x =
     (if length (ser x) \<le> length data then Inr (overwrite 0 (ser x) data) else Inl BorshIoError)"

section \<open>Encoders and decoders\<close>

definition de_fixed :: "nat \<Rightarrow> (byte list \<Rightarrow> 'a) \<Rightarrow> 'a decoder" where
  "de_fixed n f bs = (if length bs < n then None else Some (f (take n bs), drop n bs))"

definition ser_u8 :: "u8 \<Rightarrow> byte list" where "ser_u8 b = [b]"
definition de_u8 :: "u8 decoder" where
  "de_u8 bs = (case bs of [] \<Rightarrow> None | b # bs \<Rightarrow> Some (b, bs))"

definition ser_u32 :: "u32 \<Rightarrow> byte list" where "ser_u32 = to_le_bytes"
definition de_u32 :: "u32 decoder" where "de_u32 = de_fixed 4 from_le_bytes"

definition ser_u64 :: "u64 \<Rightarrow> byte list" where "ser_u64 = to_le_bytes"
definition de_u64 :: "u64 decoder" where "de_u64 = de_fixed 8 from_le_bytes"

definition ser_pubkey :: "Pubkey \<Rightarrow> byte list" where "ser_pubkey = to_le_bytes"
definition de_pubkey :: "Pubkey decoder" where "de_pubkey = de_fixed 32 from_le_bytes"

fun ser_option :: "('a \<Rightarrow> byte list) \<Rightarrow> 'a option \<Rightarrow> byte list" where
  "ser_option ser None = [0]"
| "ser_option ser (Some x) = 1 # ser x"

definition de_option :: "'a decoder \<Rightarrow> 'a option decoder" where
  "de_option de bs =
     do { (tag, bs) \<leftarrow> de_u8 bs;
          if tag = 0 then Some (None, bs)
          else if tag = 1 then do { (x, bs) \<leftarrow> de bs; Some (Some x, bs) }
          else None }"

fun ser_future_epoch :: "('a \<Rightarrow> byte list) \<Rightarrow> 'a FutureEpoch \<Rightarrow> byte list" where
  "ser_future_epoch ser FE_None = [0]"
| "ser_future_epoch ser (FE_One x) = 1 # ser x"
| "ser_future_epoch ser (FE_Two x) = 2 # ser x"

definition de_future_epoch :: "'a decoder \<Rightarrow> 'a FutureEpoch decoder" where
  "de_future_epoch de bs =
     do { (tag, bs) \<leftarrow> de_u8 bs;
          if tag = 0 then Some (FE_None, bs)
          else if tag = 1 then do { (x, bs) \<leftarrow> de bs; Some (FE_One x, bs) }
          else if tag = 2 then do { (x, bs) \<leftarrow> de bs; Some (FE_Two x, bs) }
          else None }"

fun ser_account_type :: "AccountType \<Rightarrow> byte list" where
  "ser_account_type Uninitialized = [0]"
| "ser_account_type StakePoolAccount = [1]"
| "ser_account_type ValidatorListAccount = [2]"

definition de_account_type :: "AccountType decoder" where
  "de_account_type bs =
     do { (tag, bs) \<leftarrow> de_u8 bs;
          if tag = 0 then Some (Uninitialized, bs)
          else if tag = 1 then Some (StakePoolAccount, bs)
          else if tag = 2 then Some (ValidatorListAccount, bs)
          else None }"

definition ser_fee :: "Fee \<Rightarrow> byte list" where
  "ser_fee f = ser_u64 (fee_denominator f) @ ser_u64 (fee_numerator f)"

definition de_fee :: "Fee decoder" where
  "de_fee bs =
     do { (d, bs) \<leftarrow> de_u64 bs; (n, bs) \<leftarrow> de_u64 bs;
          Some (\<lparr>fee_denominator = d, fee_numerator = n\<rparr>, bs) }"

definition ser_lockup :: "Lockup \<Rightarrow> byte list" where
  "ser_lockup l = ser_u64 (lockup_unix_timestamp l) @ ser_u64 (lockup_epoch l)
     @ ser_pubkey (lockup_custodian l)"

definition de_lockup :: "Lockup decoder" where
  "de_lockup bs =
     do { (t, bs) \<leftarrow> de_u64 bs; (e, bs) \<leftarrow> de_u64 bs; (c, bs) \<leftarrow> de_pubkey bs;
          Some (\<lparr>lockup_unix_timestamp = t, lockup_epoch = e, lockup_custodian = c\<rparr>, bs) }"

definition ser_stake_pool :: "StakePool \<Rightarrow> byte list" where
  "ser_stake_pool p =
     ser_account_type (sp_account_type p) @ ser_pubkey (sp_manager p) @ ser_pubkey (sp_staker p) @
     ser_pubkey (sp_stake_deposit_authority p) @ ser_u8 (sp_stake_withdraw_bump_seed p) @
     ser_pubkey (sp_validator_list p) @ ser_pubkey (sp_reserve_stake p) @
     ser_pubkey (sp_pool_mint p) @ ser_pubkey (sp_manager_fee_account p) @
     ser_pubkey (sp_token_program_id p) @ ser_u64 (sp_total_lamports p) @
     ser_u64 (sp_pool_token_supply p) @ ser_u64 (sp_last_update_epoch p) @
     ser_lockup (sp_lockup p) @ ser_fee (sp_epoch_fee p) @
     ser_future_epoch ser_fee (sp_next_epoch_fee p) @
     ser_option ser_pubkey (sp_preferred_deposit_validator_vote_address p) @
     ser_option ser_pubkey (sp_preferred_withdraw_validator_vote_address p) @
     ser_fee (sp_stake_deposit_fee p) @ ser_fee (sp_stake_withdrawal_fee p) @
     ser_future_epoch ser_fee (sp_next_stake_withdrawal_fee p) @
     ser_u8 (sp_stake_referral_fee p) @ ser_option ser_pubkey (sp_sol_deposit_authority p) @
     ser_fee (sp_sol_deposit_fee p) @ ser_u8 (sp_sol_referral_fee p) @
     ser_option ser_pubkey (sp_sol_withdraw_authority p) @ ser_fee (sp_sol_withdrawal_fee p) @
     ser_future_epoch ser_fee (sp_next_sol_withdrawal_fee p) @
     ser_u64 (sp_last_epoch_pool_token_supply p) @ ser_u64 (sp_last_epoch_total_lamports p)"

definition de_stake_pool :: "StakePool decoder" where
  "de_stake_pool bs =
     do { (account_type, bs) \<leftarrow> de_account_type bs; (manager, bs) \<leftarrow> de_pubkey bs;
          (staker, bs) \<leftarrow> de_pubkey bs; (stake_deposit_authority, bs) \<leftarrow> de_pubkey bs;
          (stake_withdraw_bump_seed, bs) \<leftarrow> de_u8 bs; (validator_list, bs) \<leftarrow> de_pubkey bs;
          (reserve_stake, bs) \<leftarrow> de_pubkey bs; (pool_mint, bs) \<leftarrow> de_pubkey bs;
          (manager_fee_account, bs) \<leftarrow> de_pubkey bs; (token_program_id, bs) \<leftarrow> de_pubkey bs;
          (total_lamports, bs) \<leftarrow> de_u64 bs; (pool_token_supply, bs) \<leftarrow> de_u64 bs;
          (last_update_epoch, bs) \<leftarrow> de_u64 bs; (lockup, bs) \<leftarrow> de_lockup bs;
          (epoch_fee, bs) \<leftarrow> de_fee bs; (next_epoch_fee, bs) \<leftarrow> de_future_epoch de_fee bs;
          (preferred_deposit, bs) \<leftarrow> de_option de_pubkey bs;
          (preferred_withdraw, bs) \<leftarrow> de_option de_pubkey bs;
          (stake_deposit_fee, bs) \<leftarrow> de_fee bs; (stake_withdrawal_fee, bs) \<leftarrow> de_fee bs;
          (next_stake_withdrawal_fee, bs) \<leftarrow> de_future_epoch de_fee bs;
          (stake_referral_fee, bs) \<leftarrow> de_u8 bs;
          (sol_deposit_authority, bs) \<leftarrow> de_option de_pubkey bs;
          (sol_deposit_fee, bs) \<leftarrow> de_fee bs; (sol_referral_fee, bs) \<leftarrow> de_u8 bs;
          (sol_withdraw_authority, bs) \<leftarrow> de_option de_pubkey bs;
          (sol_withdrawal_fee, bs) \<leftarrow> de_fee bs;
          (next_sol_withdrawal_fee, bs) \<leftarrow> de_future_epoch de_fee bs;
          (last_epoch_pool_token_supply, bs) \<leftarrow> de_u64 bs;
          (last_epoch_total_lamports, bs) \<leftarrow> de_u64 bs;
          Some (\<lparr>sp_account_type = account_type, sp_manager = manager, sp_staker = staker,
                 sp_stake_deposit_authority = stake_deposit_authority,
                 sp_stake_withdraw_bump_seed = stake_withdraw_bump_seed,
                 sp_validator_list = validator_list, sp_reserve_stake = reserve_stake,
                 sp_pool_mint = pool_mint, sp_manager_fee_account = manager_fee_account,
                 sp_token_program_id = token_program_id, sp_total_lamports = total_lamports,
                 sp_pool_token_supply = pool_token_supply,
                 sp_last_update_epoch = last_update_epoch, sp_lockup = lockup,
                 sp_epoch_fee = epoch_fee, sp_next_epoch_fee = next_epoch_fee,
                 sp_preferred_deposit_validator_vote_address = preferred_deposit,
                 sp_preferred_withdraw_validator_vote_address = preferred_withdraw,
                 sp_stake_deposit_fee = stake_deposit_fee,
                 sp_stake_withdrawal_fee = stake_withdrawal_fee,
                 sp_next_stake_withdrawal_fee = next_stake_withdrawal_fee,
                 sp_stake_referral_fee = stake_referral_fee,
                 sp_sol_deposit_authority = sol_deposit_authority,
                 sp_sol_deposit_fee = sol_deposit_fee, sp_sol_referral_fee = sol_referral_fee,
                 sp_sol_withdraw_authority = sol_withdraw_authority,
                 sp_sol_withdrawal_fee = sol_withdrawal_fee,
                 sp_next_sol_withdrawal_fee = next_sol_withdrawal_fee,
                 sp_last_epoch_pool_token_supply = last_epoch_pool_token_supply,
                 sp_last_epoch_total_lamports = last_epoch_total_lamports\<rparr>, bs) }"

section \<open>The contract of a Borsh type\<close>

locale borsh =
  fixes ser :: "'a \<Rightarrow> byte list" and de :: "'a decoder"
  assumes de_ser: "de (ser x @ rest) = Some (x, rest)"
begin

lemma ser_prefix_free: "ser x @ r = ser y @ s \<Longrightarrow> x = y \<and> r = s"
  by (metis de_ser option.inject prod.inject)

lemma read_written: "to_writer ser data x = Inr data' \<Longrightarrow> try_from_slice_unchecked de data' = Inr x"
  by (auto simp: to_writer_def overwrite_def try_from_slice_unchecked_def de_ser split: if_splits)

lemma write_keeps_length: "to_writer ser data x = Inr data' \<Longrightarrow> length data' = length data"
  by (auto simp: to_writer_def length_overwrite split: if_splits)

lemma write_succeeds: "length (ser x) \<le> length data \<Longrightarrow> \<exists>data'. to_writer ser data x = Inr data'"
  by (simp add: to_writer_def)

lemma read_prefix: "try_from_slice_unchecked de (ser x @ rest) = Inr x"
  by (simp add: try_from_slice_unchecked_def de_ser)

end

lemma de_fixed_append: "length bs = n \<Longrightarrow> de_fixed n f (bs @ rest) = Some (f bs, rest)"
  by (simp add: de_fixed_def)

interpretation b_u8: borsh ser_u8 de_u8
  by unfold_locales (simp add: ser_u8_def de_u8_def)

interpretation b_u32: borsh ser_u32 de_u32
  by unfold_locales (simp add: ser_u32_def de_u32_def de_fixed_append)

interpretation b_u64: borsh ser_u64 de_u64
  by unfold_locales (simp add: ser_u64_def de_u64_def de_fixed_append)

interpretation b_pubkey: borsh ser_pubkey de_pubkey
  by unfold_locales (simp add: ser_pubkey_def de_pubkey_def de_fixed_append)

interpretation b_account_type: borsh ser_account_type de_account_type
proof
  show "de_account_type (ser_account_type x @ rest) = Some (x, rest)" for x rest
    by (cases x) (simp_all add: de_account_type_def de_u8_def)
qed

interpretation b_fee: borsh ser_fee de_fee
  by unfold_locales (simp add: ser_fee_def de_fee_def b_u64.de_ser)

interpretation b_lockup: borsh ser_lockup de_lockup
  by unfold_locales (simp add: ser_lockup_def de_lockup_def b_u64.de_ser b_pubkey.de_ser)

text \<open>An \<open>Option\<close> or a \<open>FutureEpoch\<close> over a Borsh type is a Borsh type.\<close>

context borsh
begin

lemma option_borsh: "borsh (ser_option ser) (de_option de)"
proof
  show "de_option de (ser_option ser x @ rest) = Some (x, rest)" for x rest
    by (cases x) (simp_all add: de_option_def de_u8_def de_ser)
qed

lemma future_epoch_borsh: "borsh (ser_future_epoch ser) (de_future_epoch de)"
proof
  show "de_future_epoch de (ser_future_epoch ser x @ rest) = Some (x, rest)" for x rest
    by (cases x) (simp_all add: de_future_epoch_def de_u8_def de_ser)
qed

lemma future_epoch_reads_option:
  "de_future_epoch de (ser_option ser x @ rest) =
     Some (case x of None \<Rightarrow> FE_None | Some v \<Rightarrow> FE_One v, rest)"
  by (cases x) (simp_all add: de_future_epoch_def de_u8_def de_ser)

end

interpretation b_opt_pubkey: borsh "ser_option ser_pubkey" "de_option de_pubkey"
  by (rule b_pubkey.option_borsh)

interpretation b_future_fee: borsh "ser_future_epoch ser_fee" "de_future_epoch de_fee"
  by (rule b_fee.future_epoch_borsh)

lemmas de_ser_fields =
  b_u8.de_ser b_u32.de_ser b_u64.de_ser b_pubkey.de_ser b_account_type.de_ser b_fee.de_ser
  b_lockup.de_ser b_opt_pubkey.de_ser b_future_fee.de_ser

interpretation b_pool: borsh ser_stake_pool de_stake_pool
proof
  show "de_stake_pool (ser_stake_pool x @ rest) = Some (x, rest)" for x rest
    by (simp add: ser_stake_pool_def de_stake_pool_def de_ser_fields)
qed

lemma length_ser_fields:
  "length (ser_u8 a) = 1" "length (ser_u64 b) = 8" "length (ser_pubkey c) = 32"
  "length (ser_account_type d) = 1" "length (ser_fee e) = 16" "length (ser_lockup f) = 48"
  "length (ser_option ser_pubkey g) = (if g = None then 1 else 33)"
  "length (ser_future_epoch ser_fee h) = (if h = FE_None then 1 else 17)"
  by (cases d; cases g; cases h;
      simp add: ser_u8_def ser_u64_def ser_pubkey_def ser_fee_def ser_lockup_def)+

lemma length_ser_stake_pool: "length (ser_stake_pool p) \<le> 611"
  by (simp add: ser_stake_pool_def length_ser_fields)

section \<open>Properties\<close>

text \<open>
  The stored pool is what was written: writing a pool into an account buffer either fails
  because the buffer is too small and otherwise reading the buffer gives back exactly that pool,
  the buffer's length is unchanged and the bytes behind the pool are untouched. A buffer of 611
  bytes is always large enough.
\<close>

lemma stake_pool_borsh_roundtrip:
  "(case to_writer ser_stake_pool data p of
      Inl e \<Rightarrow> e = BorshIoError \<and> length data < 611
    | Inr data' \<Rightarrow> try_from_slice_unchecked de_stake_pool data' = Inr p \<and>
        length data' = length data \<and>
        drop (length (ser_stake_pool p)) data' = drop (length (ser_stake_pool p)) data)"
proof (cases "to_writer ser_stake_pool data p")
  case (Inl e)
  then show ?thesis
    using length_ser_stake_pool [of p] by (auto simp: to_writer_def split: if_splits)
next
  case (Inr data')
  then have "drop (length (ser_stake_pool p)) data' = drop (length (ser_stake_pool p)) data"
    by (auto simp: to_writer_def overwrite_def split: if_splits)
  then show ?thesis
    using Inr b_pool.read_written [OF Inr] b_pool.write_keeps_length [OF Inr] by simp
qed

text \<open>
  \<open>FutureEpoch\<close> is compatible with the native \<open>Option\<close>: the bytes of an optional fee read
  as a future fee give the same fee, ready at the next epoch boundary, and the same rest.
\<close>

lemma future_epoch_option_compatible:
  "\<exists>f. de_future_epoch de_fee (ser_option ser_fee x @ rest) = Some (f, rest) \<and>
       option_of_future_epoch f = x \<and> future_epoch_get f = x"
  unfolding b_fee.future_epoch_reads_option by (cases x) simp_all

end
