(* ===== verification/Validator_List.thy ===== *)
theory Validator_List
  imports Big_Vec Borsh
begin

text \<open>
  The validator list of \<^verbatim>\<open>program/src/state.rs\<close>: \<open>StakeStatus\<close> and its two downgrades, the
  record \<open>ValidatorStakeInfo\<close> with its 73 byte layout and the raw byte predicates the processor
  searches with (\<open>memcmp_pubkey\<close>, \<open>is_removed\<close>, \<dots>), the header and \<open>deserialize_vec\<close>, and the
  fully deserialised \<open>ValidatorList\<close> of the clients.

  \<open>ValidatorStakeInfo\<close> is an instance of the contract \<open>pod\<close> of \<^verbatim>\<open>Big_Vec\<close>, so every byte
  level search, push and removal acts on the list of records; the byte predicates are shown to be
  the predicates on records they stand for.
\<close>

section \<open>Status of a validator stake account\<close>

datatype StakeStatus =
    Active | DeactivatingTransient | ReadyForRemoval | DeactivatingValidator | DeactivatingAll

fun status_to_u8 :: "StakeStatus \<Rightarrow> u8" where
  "status_to_u8 Active = 0"
| "status_to_u8 DeactivatingTransient = 1"
| "status_to_u8 ReadyForRemoval = 2"
| "status_to_u8 DeactivatingValidator = 3"
| "status_to_u8 DeactivatingAll = 4"

definition status_from_u8 :: "u8 \<Rightarrow> StakeStatus option" where
  "status_from_u8 n =
     (if n = 0 then Some Active else if n = 1 then Some DeactivatingTransient
      else if n = 2 then Some ReadyForRemoval else if n = 3 then Some DeactivatingValidator
      else if n = 4 then Some DeactivatingAll else None)"

text \<open>\<open>StakeStatus::try_from(PodStakeStatus)\<close>; a \<open>PodStakeStatus\<close> is the raw byte.\<close>

definition status_try_from :: "u8 \<Rightarrow> StakeStatus result" where
  "status_try_from b = ok_or (status_from_u8 b) InvalidAccountData"

definition remove_validator_stake :: "u8 \<Rightarrow> u8 result" where
  "remove_validator_stake self =
     tri (status_try_from self) (\<lambda>status.
     let new_self = (case status of
         Active \<Rightarrow> status
       | DeactivatingTransient \<Rightarrow> status
       | ReadyForRemoval \<Rightarrow> status
       | DeactivatingAll \<Rightarrow> DeactivatingTransient
       | DeactivatingValidator \<Rightarrow> ReadyForRemoval)
     in Inr (status_to_u8 new_self))"

definition remove_transient_stake :: "u8 \<Rightarrow> u8 result" where
  "remove_transient_stake self =
     tri (status_try_from self) (\<lambda>status.
     let new_self = (case status of
         Active \<Rightarrow> status
       | DeactivatingValidator \<Rightarrow> status
       | ReadyForRemoval \<Rightarrow> status
       | DeactivatingAll \<Rightarrow> DeactivatingValidator
       | DeactivatingTransient \<Rightarrow> ReadyForRemoval)
     in Inr (status_to_u8 new_self))"

datatype StakeWithdrawSource = SourceActive | SourceTransient | SourceValidatorRemoval

section \<open>The record of a validator\<close>

record ValidatorStakeInfo =
  vsi_active_stake_lamports :: u64
  vsi_transient_stake_lamports :: u64
  vsi_last_update_epoch :: u64
  vsi_transient_seed_suffix :: u64
  vsi_unused :: u32
  vsi_validator_seed_suffix :: u32
  vsi_status :: u8
  vsi_vote_account_address :: Pubkey

definition VSI_LEN :: nat where
  "VSI_LEN = 73"

definition enc_vsi :: "ValidatorStakeInfo \<Rightarrow> byte list" where
  "enc_vsi v =
     to_le_bytes (vsi_active_stake_lamports v) @ to_le_bytes (vsi_transient_stake_lamports v) @
     to_le_bytes (vsi_last_update_epoch v) @ to_le_bytes (vsi_transient_seed_suffix v) @
     to_le_bytes (vsi_unused v) @ to_le_bytes (vsi_validator_seed_suffix v) @
     [vsi_status v] @ to_le_bytes (vsi_vote_account_address v)"

definition dec_vsi :: "byte list \<Rightarrow> ValidatorStakeInfo" where
  "dec_vsi bs =
     \<lparr>vsi_active_stake_lamports = from_le_bytes (slice 0 8 bs),
      vsi_transient_stake_lamports = from_le_bytes (slice 8 16 bs),
      vsi_last_update_epoch = from_le_bytes (slice 16 24 bs),
      vsi_transient_seed_suffix = from_le_bytes (slice 24 32 bs),
      vsi_unused = from_le_bytes (slice 32 36 bs),
      vsi_validator_seed_suffix = from_le_bytes (slice 36 40 bs),
      vsi_status = bs ! 40,
      vsi_vote_account_address = from_le_bytes (slice 41 73 bs)\<rparr>"

definition stake_lamports :: "ValidatorStakeInfo \<Rightarrow> StakePoolError + u64" where
  "stake_lamports self =
     ok_or (checked_add (vsi_active_stake_lamports self) (vsi_transient_stake_lamports self))
       CalculationFailure"

text \<open>
  The predicates on the serialised bytes. They are only applied to slices of \<^const>\<open>VSI_LEN\<close>
  bytes, so their own slices are in range.
\<close>

definition memcmp_pubkey :: "byte list \<Rightarrow> Pubkey \<Rightarrow> bool" where
  "memcmp_pubkey data vote_address = (slice 41 (41 + 32) data = to_le_bytes vote_address)"

definition active_lamports_greater_than :: "byte list \<Rightarrow> u64 \<Rightarrow> bool" where
  "active_lamports_greater_than data lmps = (from_le_bytes (slice 0 8 data) > lmps)"

definition transient_lamports_greater_than :: "byte list \<Rightarrow> u64 \<Rightarrow> bool" where
  "transient_lamports_greater_than data lmps = (from_le_bytes (slice 8 16 data) > lmps)"

definition is_removed :: "byte list \<Rightarrow> bool" where
  "is_removed data =
     (status_from_u8 (data ! 40) = Some ReadyForRemoval \<and> slice 0 16 data = replicate 16 0)"

definition is_active :: "byte list \<Rightarrow> bool" where
  "is_active data = (status_from_u8 (data ! 40) = Some Active)"

section \<open>Header and list\<close>

record ValidatorListHeader =
  vlh_account_type :: AccountType
  vlh_max_validators :: u32

definition HEADER_LEN :: nat where
  "HEADER_LEN = 1 + 4"

definition header_is_valid :: "ValidatorListHeader \<Rightarrow> bool" where
  "header_is_valid self = (vlh_account_type self = ValidatorListAccount)"

definition header_is_uninitialized :: "ValidatorListHeader \<Rightarrow> bool" where
  "header_is_uninitialized self = (vlh_account_type self = Uninitialized)"

definition ser_header :: "ValidatorListHeader \<Rightarrow> byte list" where
  "ser_header h = ser_account_type (vlh_account_type h) @ ser_u32 (vlh_max_validators h)"

definition de_header :: "ValidatorListHeader decoder" where
  "de_header bs =
     do { (t, bs) \<leftarrow> de_account_type bs; (m, bs) \<leftarrow> de_u32 bs;
          Some (\<lparr>vlh_account_type = t, vlh_max_validators = m\<rparr>, bs) }"

text \<open>
  \<open>deserialize_vec\<close>: the header and the rest of the buffer as the bytes of the vector.
\<close>

definition deserialize_vec :: "byte list \<Rightarrow> (ValidatorListHeader \<times> byte list) result" where
  "deserialize_vec data =
     tri (try_from_slice_unchecked de_header data) (\<lambda>header.
     let len = length (ser_header header) in
     tri (index_slice data len (length data)) (\<lambda>big_vec. Inr (header, big_vec)))"

record ValidatorList =
  vl_header :: ValidatorListHeader
  vl_validators :: "ValidatorStakeInfo list"

definition default_vsi :: ValidatorStakeInfo where
  "default_vsi =
     \<lparr>vsi_active_stake_lamports = 0, vsi_transient_stake_lamports = 0, vsi_last_update_epoch = 0,
      vsi_transient_seed_suffix = 0, vsi_unused = 0, vsi_validator_seed_suffix = 0,
      vsi_status = status_to_u8 Active, vsi_vote_account_address = 0\<rparr>"

definition validator_list_new :: "u32 \<Rightarrow> ValidatorList" where
  "validator_list_new max_validators =
     \<lparr>vl_header = \<lparr>vlh_account_type = ValidatorListAccount, vlh_max_validators = max_validators\<rparr>,
      vl_validators = replicate (unat max_validators) default_vsi\<rparr>"

definition calculate_max_validators :: "nat \<Rightarrow> nat" where
  "calculate_max_validators buffer_length =
     (let header_size = usize_sat_add HEADER_LEN 4 in (buffer_length - header_size) div VSI_LEN)"

definition vl_contains :: "ValidatorList \<Rightarrow> Pubkey \<Rightarrow> bool" where
  "vl_contains self vote = list_ex (\<lambda>x. vsi_vote_account_address x = vote) (vl_validators self)"

definition vl_find :: "ValidatorList \<Rightarrow> Pubkey \<Rightarrow> ValidatorStakeInfo option" where
  "vl_find self vote = List.find (\<lambda>x. vsi_vote_account_address x = vote) (vl_validators self)"

definition vl_has_active_stake :: "ValidatorList \<Rightarrow> bool" where
  "vl_has_active_stake self = list_ex (\<lambda>x. vsi_active_stake_lamports x > 0) (vl_validators self)"

text \<open>The Borsh layout of the whole list: header, length, records.\<close>

definition ser_validator_list :: "ValidatorList \<Rightarrow> byte list" where
  "ser_validator_list l =
     ser_header (vl_header l) @ ser_u32 (of_nat (length (vl_validators l)))
     @ concat (map enc_vsi (vl_validators l))"

definition de_validator_list :: "ValidatorList decoder" where
  "de_validator_list bs =
     do { (h, bs) \<leftarrow> de_header bs; (n, bs) \<leftarrow> de_u32 bs;
          if length bs < unat n * VSI_LEN then None
          else Some (\<lparr>vl_header = h, vl_validators = elements VSI_LEN dec_vsi 0 (unat n) bs\<rparr>,
                     drop (unat n * VSI_LEN) bs) }"

section \<open>The record is plain old data\<close>

lemma length_enc_vsi [simp]: "length (enc_vsi v) = VSI_LEN"
  by (simp add: enc_vsi_def VSI_LEN_def)

lemma enc_vsi_parts:
  "slice 0 8 (enc_vsi v) = to_le_bytes (vsi_active_stake_lamports v)"
  "slice 8 16 (enc_vsi v) = to_le_bytes (vsi_transient_stake_lamports v)"
  "slice 16 24 (enc_vsi v) = to_le_bytes (vsi_last_update_epoch v)"
  "slice 24 32 (enc_vsi v) = to_le_bytes (vsi_transient_seed_suffix v)"
  "slice 32 36 (enc_vsi v) = to_le_bytes (vsi_unused v)"
  "slice 36 40 (enc_vsi v) = to_le_bytes (vsi_validator_seed_suffix v)"
  "enc_vsi v ! 40 = vsi_status v"
  "slice 41 73 (enc_vsi v) = to_le_bytes (vsi_vote_account_address v)"
  by (simp_all add: enc_vsi_def slice_def nth_append)

lemma dec_enc_vsi: "dec_vsi (enc_vsi v) = v"
  by (simp add: dec_vsi_def enc_vsi_parts)

lemma slices_of_73:
  assumes "length bs = 73"
  shows "slice 0 8 bs @ slice 8 16 bs @ slice 16 24 bs @ slice 24 32 bs @ slice 32 36 bs
    @ slice 36 40 bs @ [bs ! 40] @ slice 41 73 bs = bs"
proof -
  have step: "slice a b bs @ drop b bs = drop a bs" if "a \<le> b" for a b
    using that by (simp add: slice_def) (metis append_take_drop_id drop_drop le_add_diff_inverse2)
  have "[bs ! 40] @ drop 41 bs = drop 40 bs"
    using assms Cons_nth_drop_Suc [of 40 bs] by simp
  moreover have "slice 41 73 bs = drop 41 bs"
    using assms by (simp add: slice_def)
  ultimately show ?thesis
    using step [of 0 8] step [of 8 16] step [of 16 24] step [of 24 32] step [of 32 36]
      step [of 36 40]
    by simp
qed

lemma enc_dec_vsi:
  assumes "length bs = VSI_LEN"
  shows "enc_vsi (dec_vsi bs) = bs"
proof -
  have l: "length bs = 73" using assms by (simp add: VSI_LEN_def)
  then have "to_le_bytes (from_le_bytes (slice a (a + 8) bs) :: u64) = slice a (a + 8) bs"
    if "a + 8 \<le> 73" for a
    using that by (simp add: to_from_le_bytes length_slice)
  note u64 = this [of 0] this [of 8] this [of 16] this [of 24]
  have "to_le_bytes (from_le_bytes (slice a (a + 4) bs) :: u32) = slice a (a + 4) bs"
    if "a + 4 \<le> 73" for a
    using that l by (simp add: to_from_le_bytes length_slice)
  note u32 = this [of 32] this [of 36]
  have pk: "to_le_bytes (from_le_bytes (slice 41 73 bs) :: Pubkey) = slice 41 73 bs"
    using l by (simp add: to_from_le_bytes length_slice)
  show ?thesis
    using slices_of_73 [OF l] u64 u32 pk by (simp add: enc_vsi_def dec_vsi_def)
qed

interpretation vsi: pod VSI_LEN enc_vsi dec_vsi
  by unfold_locales (simp_all add: dec_enc_vsi enc_dec_vsi, simp add: VSI_LEN_def)

interpretation b_header: borsh ser_header de_header
  by unfold_locales (simp add: ser_header_def de_header_def de_ser_fields)

abbreviation vlist :: "byte list \<Rightarrow> ValidatorStakeInfo list" where
  "vlist \<equiv> bv_list VSI_LEN dec_vsi"

abbreviation vlist_wf :: "byte list \<Rightarrow> bool" where
  "vlist_wf \<equiv> bv_wf VSI_LEN"

section \<open>The byte predicates mean what they say\<close>

lemma memcmp_pubkey_enc [simp]: "memcmp_pubkey (enc_vsi v) k \<longleftrightarrow> vsi_vote_account_address v = k"
  by (simp add: memcmp_pubkey_def enc_vsi_parts to_le_bytes_inj [where n = 32])

lemma lamports_greater_enc [simp]:
  "active_lamports_greater_than (enc_vsi v) l \<longleftrightarrow> vsi_active_stake_lamports v > l"
  "transient_lamports_greater_than (enc_vsi v) l \<longleftrightarrow> vsi_transient_stake_lamports v > l"
  by (simp_all add: active_lamports_greater_than_def transient_lamports_greater_than_def enc_vsi_parts)

lemma is_active_enc [simp]: "is_active (enc_vsi v) \<longleftrightarrow> vsi_status v = status_to_u8 Active"
  by (auto simp: is_active_def enc_vsi_parts status_from_u8_def)

lemma le_digits_zero: "le_digits n 0 = replicate n 0"
  by (induction n) simp_all

lemma to_le_bytes_u64_zero: "to_le_bytes (a :: u64) = replicate 8 0 \<longleftrightarrow> a = 0"
proof -
  have "to_le_bytes (0 :: u64) = replicate 8 0"
    unfolding to_le_bytes_def by (simp add: le_digits_zero)
  then show ?thesis
    using to_le_bytes_inj [where 'a = 64 and n = 8, of a 0] by auto
qed

lemma is_removed_enc [simp]:
  "is_removed (enc_vsi v) \<longleftrightarrow> vsi_status v = status_to_u8 ReadyForRemoval \<and>
     vsi_active_stake_lamports v = 0 \<and> vsi_transient_stake_lamports v = 0"
proof -
  have "slice 0 16 (enc_vsi v)
      = to_le_bytes (vsi_active_stake_lamports v) @ to_le_bytes (vsi_transient_stake_lamports v)"
    by (simp add: enc_vsi_def slice_def)
  moreover have "replicate 16 (0 :: byte) = replicate 8 0 @ replicate 8 0"
    by (simp flip: replicate_add)
  ultimately have "slice 0 16 (enc_vsi v) = replicate 16 0 \<longleftrightarrow>
      vsi_active_stake_lamports v = 0 \<and> vsi_transient_stake_lamports v = 0"
    by (simp add: to_le_bytes_u64_zero)
  then show ?thesis
    by (auto simp: is_removed_def enc_vsi_parts status_from_u8_def)
qed

section \<open>The zero-copy view and the deserialised list\<close>

lemma length_ser_header [simp]: "length (ser_header h) = HEADER_LEN"
  by (simp add: ser_header_def HEADER_LEN_def ser_u32_def length_ser_fields)

lemma de_header_consumes: "de_header data = Some (h, rest) \<Longrightarrow> data = ser_header h @ rest"
  by (auto simp: de_header_def de_account_type_def de_u8_def de_u32_def de_fixed_def ser_header_def
      ser_u32_def to_from_le_bytes result_simps split: if_splits list.splits)

lemma deserialize_vec_Inr:
  "deserialize_vec data = Inr (h, bv) \<longleftrightarrow> data = ser_header h @ bv"
proof
  assume "deserialize_vec data = Inr (h, bv)"
  then obtain rest where "de_header data = Some (h, rest)" and
      bv: "index_slice data HEADER_LEN (length data) = Inr bv"
    by (auto simp: deserialize_vec_def try_from_slice_unchecked_def result_simps
        split: option.splits)
  then have "data = ser_header h @ rest" by (simp add: de_header_consumes)
  then show "data = ser_header h @ bv"
    using bv by (simp add: slice_def)
next
  assume "data = ser_header h @ bv"
  then show "deserialize_vec data = Inr (h, bv)"
    by (simp add: deserialize_vec_def b_header.read_prefix slice_def)
qed

lemma length_ser_validator_list:
  "length (ser_validator_list l) = HEADER_LEN + 4 + length (vl_validators l) * VSI_LEN"
  by (simp add: ser_validator_list_def ser_u32_def vsi.length_concat_enc)

lemma de_ser_validator_list:
  assumes "length (vl_validators l) < 2 ^ 32"
  shows "de_validator_list (ser_validator_list l @ rest) = Some (l, rest)"
proof -
  have "unat (of_nat (length (vl_validators l)) :: u32) = length (vl_validators l)"
    using assms by (simp add: unat_of_nat)
  then show ?thesis
    using vsi.elements_concat [of "[]" 0 "vl_validators l" rest]
    by (simp add: ser_validator_list_def de_validator_list_def b_header.de_ser b_u32.de_ser
        vsi.length_concat_enc)
qed

lemma deserialize_vec_ser_validator_list:
  assumes "length (vl_validators l) < 2 ^ 32"
  shows "\<exists>bv. deserialize_vec (ser_validator_list l @ rest) = Inr (vl_header l, bv) \<and>
      vlist_wf bv \<and> vlist bv = vl_validators l"
  using vsi.bv_compose [OF assms, of rest]
  by (intro exI [of _ "to_le_bytes (of_nat (length (vl_validators l)) :: u32)
      @ concat (map enc_vsi (vl_validators l)) @ rest"])
    (simp add: deserialize_vec_Inr ser_validator_list_def ser_u32_def)

section \<open>Properties\<close>

text \<open>
  The status byte only moves towards removal: removing the validator stake and removing the
  transient stake commute, together they take every status but \<open>Active\<close> to
  \<open>ReadyForRemoval\<close> and leave \<open>Active\<close> alone, and both reject a byte that is no status.
\<close>

lemma status_downgrades:
  "tri (remove_validator_stake s) remove_transient_stake
     = tri (remove_transient_stake s) remove_validator_stake \<and>
   tri (remove_validator_stake s) remove_transient_stake
     = (case status_from_u8 s of
          None \<Rightarrow> Inl InvalidAccountData
        | Some Active \<Rightarrow> Inr (status_to_u8 Active)
        | Some _ \<Rightarrow> Inr (status_to_u8 ReadyForRemoval))"
proof (cases "status_from_u8 s")
  case None
  then show ?thesis
    by (simp add: remove_validator_stake_def remove_transient_stake_def status_try_from_def)
next
  case (Some st)
  then show ?thesis
    by (cases st)
      (simp_all add: remove_validator_stake_def remove_transient_stake_def status_try_from_def
        status_from_u8_def)
qed

text \<open>
  C40. \<open>BigVec::retain\<close> with the removal predicate deletes exactly the records that are ready for
  removal with no active and no transient lamports, keeps the others in order, and leaves the
  buffer well formed and of the same length.
\<close>

theorem retain_drops_exactly_removed:
  assumes "vlist_wf data" and "length data \<le> usize_max"
  shows "\<exists>data'. bv_retain VSI_LEN (\<lambda>x. \<not> is_removed x) data = Inr data' \<and> vlist_wf data' \<and>
    length data' = length data \<and>
    vlist data' = filter (\<lambda>v. \<not> (vsi_status v = status_to_u8 ReadyForRemoval \<and>
      vsi_active_stake_lamports v = 0 \<and> vsi_transient_stake_lamports v = 0)) (vlist data)"
  using vsi.retain_refines [OF assms, of "\<lambda>x. \<not> is_removed x"] by simp

definition sample_validators :: "ValidatorStakeInfo list" where
  "sample_validators =
     [default_vsi\<lparr>vsi_status := status_to_u8 ReadyForRemoval, vsi_vote_account_address := 21\<rparr>,
      default_vsi\<lparr>vsi_active_stake_lamports := 2000000, vsi_vote_account_address := 22\<rparr>,
      default_vsi\<lparr>vsi_status := status_to_u8 ReadyForRemoval, vsi_transient_stake_lamports := 5,
                  vsi_vote_account_address := 23\<rparr>]"

definition sample_vec :: "byte list" where
  "sample_vec = to_le_bytes (of_nat (length sample_validators) :: u32)
     @ concat (map enc_vsi sample_validators) @ replicate 73 0"

lemma sample_vec_facts:
  "vlist_wf sample_vec" "vlist sample_vec = sample_validators" "length sample_vec = 296"
proof -
  have "length sample_validators < 2 ^ 32"
    by (simp add: sample_validators_def)
  from vsi.bv_compose [OF this] show "vlist_wf sample_vec" "vlist sample_vec = sample_validators"
    unfolding sample_vec_def by blast+
  show "length sample_vec = 296"
    by (simp add: sample_vec_def sample_validators_def VSI_LEN_def)
qed

theorem retain_drops_exactly_removed_witness:
  "\<exists>data'. bv_retain VSI_LEN (\<lambda>x. \<not> is_removed x) sample_vec = Inr data' \<and> vlist_wf data' \<and>
    map vsi_vote_account_address (vlist data') = [22, 23]"
proof -
  have "length sample_vec \<le> usize_max"
    by (simp add: sample_vec_facts usize_max_def)
  from retain_drops_exactly_removed [OF sample_vec_facts(1) this] show ?thesis
    by (auto simp: sample_vec_facts sample_validators_def default_vsi_def)
qed

text \<open>
  The search by vote address on the raw bytes returns the first record with that vote
  account, and reports none exactly when no record has it.
\<close>

lemma find_by_vote_address:
  assumes "vlist_wf data"
  shows "bv_find VSI_LEN dec_vsi (\<lambda>x. memcmp_pubkey x vote) data =
    Inr (List.find (\<lambda>v. vsi_vote_account_address v = vote) (vlist data))"
  using vsi.find_refines [OF assms, of "\<lambda>x. memcmp_pubkey x vote"] by simp

text \<open>
  The zero-copy view of the account and its full deserialisation agree: for every list, its
  serialised form followed by anything decodes to the list, and \<open>deserialize_vec\<close> gives the same
  header and a well-formed vector with the same records.
\<close>

lemma validator_list_views_agree:
  assumes "length (vl_validators l) < 2 ^ 32"
  shows "try_from_slice_unchecked de_validator_list (ser_validator_list l @ rest) = Inr l \<and>
    (\<exists>bv. deserialize_vec (ser_validator_list l @ rest) = Inr (vl_header l, bv) \<and>
      vlist_wf bv \<and> vlist bv = vl_validators l)"
  using de_ser_validator_list [OF assms, of rest] deserialize_vec_ser_validator_list [OF assms]
  by (simp add: try_from_slice_unchecked_def)

text \<open>
  \<open>calculate_max_validators\<close> inverts the size of a list account: an account of exactly the
  size for \<open>n\<close> records, or up to 72 bytes more, holds \<open>n\<close>; one byte less holds one record less.
\<close>

lemma calculate_max_validators_inverts_size:
  "calculate_max_validators (length (ser_validator_list (validator_list_new n)) + k mod 73)
     = unat n \<and>
   calculate_max_validators (length (ser_validator_list (validator_list_new n)) - 1) = unat n - 1"
proof -
  have "(unat n * 73 - 1) div 73 = unat n - 1"
    by (cases "unat n") simp_all
  then show ?thesis
    by (simp add: calculate_max_validators_def length_ser_validator_list validator_list_new_def
        HEADER_LEN_def VSI_LEN_def usize_sat_add_def usize_max_def)
qed

end
