(* ===== verification/Runtime.thy ===== *)
theory Runtime
  imports Validator_List
begin

text \<open>
  The interface between the program and the Solana runtime.

  Accounts live in a store from addresses to accounts (\<open>world\<close>); an \<open>AccountInfo\<close> is a reference
  into it, so that two references with the same key share balance and data, as the runtime's
  reference counted cells do. An address that was never funded is an account with no lamports, no
  data and the system program as owner. A handler takes the world and returns the new one or an
  error; the runtime discards all effects of a failed instruction.

  Everything outside the repository (program derived addresses, system variables, the stake,
  token, system, associated token and metadata programs, the session SDK, the bincode and token
  layouts of foreign accounts) is a field of the record \<open>env\<close>: the definitions take it as
  an argument and no property of it is assumed here. A cross program call is the value of the
  instruction that the program builds (\<open>Instruction\<close>) handed to \<open>e_invoke_signed\<close>.
  Run-time borrow conflicts of the account cells are not modelled; they abort the transaction.
\<close>

section \<open>Accounts\<close>

record account =
  acc_lamports :: u64
  acc_data :: "byte list"
  acc_owner :: Pubkey

type_synonym world = "Pubkey \<Rightarrow> account"

record AccountInfo =
  ai_key :: Pubkey
  ai_is_signer :: bool
  ai_is_writable :: bool

definition lamports_of :: "world \<Rightarrow> AccountInfo \<Rightarrow> u64" where
  "lamports_of w a = acc_lamports (w (ai_key a))"

definition data_of :: "world \<Rightarrow> AccountInfo \<Rightarrow> byte list" where
  "data_of w a = acc_data (w (ai_key a))"

definition owner_of :: "world \<Rightarrow> AccountInfo \<Rightarrow> Pubkey" where
  "owner_of w a = acc_owner (w (ai_key a))"

definition set_data :: "world \<Rightarrow> AccountInfo \<Rightarrow> byte list \<Rightarrow> world" where
  "set_data w a d = w(ai_key a := (w (ai_key a))\<lparr>acc_data := d\<rparr>)"

definition next_account_info :: "AccountInfo list \<Rightarrow> (AccountInfo \<times> AccountInfo list) result" where
  "next_account_info iter = (case iter of [] \<Rightarrow> Inl NotEnoughAccountKeys | a # as \<Rightarrow> Inr (a, as))"

section \<open>Foreign data\<close>

record Authorized =
  auth_staker :: Pubkey
  auth_withdrawer :: Pubkey

record Meta =
  meta_rent_exempt_reserve :: u64
  meta_authorized :: Authorized
  meta_lockup :: Lockup

record Delegation =
  del_voter_pubkey :: Pubkey
  del_stake :: u64
  del_activation_epoch :: u64
  del_deactivation_epoch :: u64

datatype (plugins only: code) StakeStateV2 =
    StakeUninitialized
  | StakeInitialized Meta
  | StakeDelegated Meta Delegation
  | StakeRewardsPool

fun stake_meta :: "StakeStateV2 \<Rightarrow> Meta option" where
  "stake_meta (StakeInitialized m) = Some m"
| "stake_meta (StakeDelegated m d) = Some m"
| "stake_meta _ = None"

fun stake_delegation :: "StakeStateV2 \<Rightarrow> Delegation option" where
  "stake_delegation (StakeDelegated m d) = Some d"
| "stake_delegation _ = None"

datatype (plugins only: code) ExtensionType =
    ExtUninitialized | TransferFeeConfig | ConfidentialTransferMint | ConfidentialTransferFeeConfig
  | DefaultAccountState | InterestBearingConfig | MetadataPointer | TokenMetadata
  | TransferFeeAmount | ImmutableOwner | CpiGuard | OtherExtension nat

record Mint =
  mint_supply :: u64
  mint_decimals :: u8
  mint_authority :: "Pubkey option"
  mint_freeze_authority :: "Pubkey option"
  mint_extensions :: "ExtensionType list result"

record TokenAccount =
  ta_mint :: Pubkey
  ta_is_initialized :: bool
  ta_extensions :: "ExtensionType list result"

record Rent =
  rent_minimum_balance :: "nat \<Rightarrow> u64"
  rent_is_exempt :: "u64 \<Rightarrow> nat \<Rightarrow> bool"

datatype (plugins only: code) StakeAuthorize = StakeAuthorizeStaker | StakeAuthorizeWithdrawer

record AccountMeta =
  am_pubkey :: Pubkey
  am_is_signer :: bool
  am_is_writable :: bool

text \<open>
  The instructions that the program builds for other programs, with the arguments of the builder
  that the code calls (all keys; amounts where the instruction has one).
\<close>

datatype (plugins only: code) Instruction =
    SystemAllocate Pubkey u64
  | SystemAssign Pubkey Pubkey
  | SystemTransfer Pubkey Pubkey u64
  | DelegateStake Pubkey Pubkey Pubkey
  | DeactivateStake Pubkey Pubkey
  | SplitStake Pubkey Pubkey u64 Pubkey
  | MergeStake Pubkey Pubkey Pubkey
  | AuthorizeStake Pubkey Pubkey Pubkey StakeAuthorize
  | WithdrawStakeLamports Pubkey Pubkey Pubkey u64
  | TokenBurn Pubkey Pubkey Pubkey Pubkey u64
  | TokenMintTo Pubkey Pubkey Pubkey Pubkey u64
  | TokenTransferChecked Pubkey Pubkey Pubkey Pubkey Pubkey u64 u8
  | SessionTransferChecked Pubkey Pubkey Pubkey Pubkey Pubkey "Pubkey option" u64 u8
  | SessionBurn Pubkey Pubkey Pubkey Pubkey "Pubkey option" u64
  | TokenInitializeAccount3 Pubkey Pubkey Pubkey Pubkey
  | TokenCloseAccount Pubkey Pubkey Pubkey Pubkey
  | TokenSyncNative Pubkey Pubkey
  | CreateAssociatedTokenAccountIdempotent Pubkey Pubkey Pubkey Pubkey
  | MetadataInstruction Pubkey "AccountMeta list" "byte list"

record env =
  e_system_program_id :: Pubkey
  e_stake_program_id :: Pubkey
  e_mpl_token_metadata_id :: Pubkey
  e_native_mint_id :: Pubkey
  e_associated_token_program_id :: Pubkey
  e_find_program_address :: "byte list list \<Rightarrow> Pubkey \<Rightarrow> Pubkey \<times> u8"
  e_create_program_address :: "byte list list \<Rightarrow> Pubkey \<Rightarrow> Pubkey result"
  e_clock_get :: "u64 result"
  e_clock_from_account_info :: "world \<Rightarrow> AccountInfo \<Rightarrow> u64 result"
  e_rent_get :: "Rent result"
  e_rent_from_account_info :: "world \<Rightarrow> AccountInfo \<Rightarrow> Rent result"
  e_epoch_rewards_active :: "bool result"
  e_minimum_delegation :: "u64 result"
  e_insufficient_delegation_code :: u32
  e_stake_space :: nat
  e_token_account_len :: nat
  e_decode_stake :: "byte list \<Rightarrow> StakeStateV2 result"
  e_unpack_mint :: "byte list \<Rightarrow> Mint result"
  e_unpack_token_account :: "byte list \<Rightarrow> TokenAccount result"
  e_unpack_token_amount :: "byte list \<Rightarrow> u64 result"
  e_check_spl_token_program :: "Pubkey \<Rightarrow> unit result"
  e_build_instruction :: "Instruction \<Rightarrow> unit result"
  e_invoke_signed :: "Instruction \<Rightarrow> AccountInfo list \<Rightarrow> byte list list list \<Rightarrow> world \<Rightarrow> world result"
  e_extract_user :: "world \<Rightarrow> AccountInfo \<Rightarrow> Pubkey \<Rightarrow> Pubkey result"
  e_associated_token_address :: "Pubkey \<Rightarrow> Pubkey \<Rightarrow> Pubkey"
  e_program_signer_seed :: "byte list"
  e_create_pda_account :: "AccountInfo \<Rightarrow> Rent \<Rightarrow> nat \<Rightarrow> Pubkey \<Rightarrow> AccountInfo \<Rightarrow> AccountInfo
      \<Rightarrow> byte list list \<Rightarrow> world \<Rightarrow> world result"

text \<open>\<open>invoke\<close> is \<open>invoke_signed\<close> with no signer seeds.\<close>

definition invoke :: "env \<Rightarrow> Instruction \<Rightarrow> AccountInfo list \<Rightarrow> world \<Rightarrow> world result" where
  "invoke E ix infos w = e_invoke_signed E ix infos [] w"

definition EPOCH_MAX :: u64 where
  "EPOCH_MAX = - 1"

section \<open>Constants and addresses of \<^verbatim>\<open>program/src/lib.rs\<close>\<close>

definition bytes_of_string :: "string \<Rightarrow> byte list" where
  "bytes_of_string s = map (\<lambda>c. of_nat (of_char c)) s"

definition AUTHORITY_DEPOSIT :: "byte list" where
  "AUTHORITY_DEPOSIT = bytes_of_string ''deposit''"

definition AUTHORITY_WITHDRAW :: "byte list" where
  "AUTHORITY_WITHDRAW = bytes_of_string ''withdraw''"

definition TRANSIENT_STAKE_SEED_PREFIX :: "byte list" where
  "TRANSIENT_STAKE_SEED_PREFIX = bytes_of_string ''transient''"

definition EPHEMERAL_STAKE_SEED_PREFIX :: "byte list" where
  "EPHEMERAL_STAKE_SEED_PREFIX = bytes_of_string ''ephemeral''"

definition MINIMUM_ACTIVE_STAKE :: u64 where
  "MINIMUM_ACTIVE_STAKE = 1000000"

definition MINIMUM_RESERVE_LAMPORTS :: u64 where
  "MINIMUM_RESERVE_LAMPORTS = 0"

definition MAX_VALIDATORS_IN_POOL :: u32 where
  "MAX_VALIDATORS_IN_POOL = 20000"

definition minimum_delegation :: "u64 \<Rightarrow> u64" where
  "minimum_delegation stake_program_minimum_delegation =
     max stake_program_minimum_delegation MINIMUM_ACTIVE_STAKE"

definition minimum_stake_lamports :: "Meta \<Rightarrow> u64 \<Rightarrow> u64" where
  "minimum_stake_lamports meta stake_program_minimum_delegation =
     saturating_add (meta_rent_exempt_reserve meta)
       (minimum_delegation stake_program_minimum_delegation)"

definition minimum_reserve_lamports :: "Meta \<Rightarrow> u64" where
  "minimum_reserve_lamports meta =
     saturating_add (meta_rent_exempt_reserve meta) MINIMUM_RESERVE_LAMPORTS"

definition key_bytes :: "Pubkey \<Rightarrow> byte list" where
  "key_bytes k = to_le_bytes k"

definition find_deposit_authority_program_address :: "env \<Rightarrow> Pubkey \<Rightarrow> Pubkey \<Rightarrow> Pubkey \<times> u8" where
  "find_deposit_authority_program_address E program_id stake_pool_address =
     e_find_program_address E [key_bytes stake_pool_address, AUTHORITY_DEPOSIT] program_id"

definition find_withdraw_authority_program_address :: "env \<Rightarrow> Pubkey \<Rightarrow> Pubkey \<Rightarrow> Pubkey \<times> u8" where
  "find_withdraw_authority_program_address E program_id stake_pool_address =
     e_find_program_address E [key_bytes stake_pool_address, AUTHORITY_WITHDRAW] program_id"

text \<open>\<open>NonZeroU32::new\<close>, and the optional seed as bytes (empty for none).\<close>

definition NonZeroU32_new :: "u32 \<Rightarrow> u32 option" where
  "NonZeroU32_new n = (if n = 0 then None else Some n)"

definition validator_seed_bytes :: "u32 option \<Rightarrow> byte list" where
  "validator_seed_bytes seed = (case seed of None \<Rightarrow> [] | Some s \<Rightarrow> to_le_bytes s)"

definition find_stake_program_address ::
    "env \<Rightarrow> Pubkey \<Rightarrow> Pubkey \<Rightarrow> Pubkey \<Rightarrow> u32 option \<Rightarrow> Pubkey \<times> u8" where
  "find_stake_program_address E program_id vote_account_address stake_pool_address seed =
     e_find_program_address E
       [key_bytes vote_account_address, key_bytes stake_pool_address, validator_seed_bytes seed]
       program_id"

definition find_transient_stake_program_address ::
    "env \<Rightarrow> Pubkey \<Rightarrow> Pubkey \<Rightarrow> Pubkey \<Rightarrow> u64 \<Rightarrow> Pubkey \<times> u8" where
  "find_transient_stake_program_address E program_id vote_account_address stake_pool_address seed =
     e_find_program_address E
       [TRANSIENT_STAKE_SEED_PREFIX, key_bytes vote_account_address, key_bytes stake_pool_address,
        to_le_bytes seed] program_id"

definition find_ephemeral_stake_program_address ::
    "env \<Rightarrow> Pubkey \<Rightarrow> Pubkey \<Rightarrow> u64 \<Rightarrow> Pubkey \<times> u8" where
  "find_ephemeral_stake_program_address E program_id stake_pool_address seed =
     e_find_program_address E
       [EPHEMERAL_STAKE_SEED_PREFIX, key_bytes stake_pool_address, to_le_bytes seed] program_id"

definition find_metadata_account :: "env \<Rightarrow> Pubkey \<Rightarrow> Pubkey \<times> u8" where
  "find_metadata_account E mint =
     e_find_program_address E
       [bytes_of_string ''metadata'', key_bytes (e_mpl_token_metadata_id E), key_bytes mint]
       (e_mpl_token_metadata_id E)"

section \<open>Lemmas on the store\<close>

lemma data_set_data [simp]:
  "data_of (set_data w a d) b = (if ai_key b = ai_key a then d else data_of w b)"
  by (simp add: data_of_def set_data_def)

lemma lamports_set_data [simp]: "lamports_of (set_data w a d) b = lamports_of w b"
  by (simp add: lamports_of_def set_data_def)

lemma owner_set_data [simp]: "owner_of (set_data w a d) b = owner_of w b"
  by (simp add: owner_of_def set_data_def)

lemma next_account_info_Inr [result_simps]:
  "next_account_info iter = Inr r \<longleftrightarrow> iter = fst r # snd r"
  by (cases iter) (auto simp: next_account_info_def)

lemma next_account_info_simps [simp]:
  "next_account_info [] = Inl NotEnoughAccountKeys"
  "next_account_info (a # as) = Inr (a, as)"
  by (simp_all add: next_account_info_def)

lemma minimum_delegation_bounds:
  "MINIMUM_ACTIVE_STAKE \<le> minimum_delegation d" "d \<le> minimum_delegation d"
  by (simp_all add: minimum_delegation_def)

lemma minimum_reserve_lamports_eq [simp]: "minimum_reserve_lamports m = meta_rent_exempt_reserve m"
  using uint64_bound [of "meta_rent_exempt_reserve m"]
  by (simp add: minimum_reserve_lamports_def MINIMUM_RESERVE_LAMPORTS_def saturating_add_def)

end
