(* ===== verification/Checks.thy ===== *)
theory Checks
  imports Runtime
begin

text \<open>
  The validation routines of the processor (\<^verbatim>\<open>program/src/processor.rs\<close>, the free functions at the
  top), the \<open>check_*\<close> methods of \<open>StakePool\<close> and the extension tables
  (\<^verbatim>\<open>program/src/state.rs\<close>), and the wrappers with which the processor calls the stake, token and
  system programs. A check returns \<open>Inr ()\<close> or the error of the source; a wrapper returns the
  world after the call. The lemmas say exactly when each check accepts.
\<close>

section \<open>Stake accounts\<close>

definition get_stake_state :: "env \<Rightarrow> world \<Rightarrow> AccountInfo \<Rightarrow> (Meta \<times> Delegation) result" where
  "get_stake_state E w stake_account_info =
     tri (e_decode_stake E (data_of w stake_account_info)) (\<lambda>stake_state.
       case stake_state of
         StakeDelegated meta stake \<Rightarrow> Inr (meta, stake)
       | _ \<Rightarrow> Inl (spe WrongStakeStake))"

definition check_validator_stake_address ::
    "env \<Rightarrow> Pubkey \<Rightarrow> Pubkey \<Rightarrow> Pubkey \<Rightarrow> Pubkey \<Rightarrow> u32 option \<Rightarrow> unit result" where
  "check_validator_stake_address E program_id stake_pool_address stake_account_address vote_address seed =
     (if fst (find_stake_program_address E program_id vote_address stake_pool_address seed)
         \<noteq> stake_account_address
      then Inl (spe InvalidStakeAccountAddress) else Inr ())"

definition check_transient_stake_address ::
    "env \<Rightarrow> Pubkey \<Rightarrow> Pubkey \<Rightarrow> Pubkey \<Rightarrow> Pubkey \<Rightarrow> u64 \<Rightarrow> u8 result" where
  "check_transient_stake_address E program_id stake_pool_address stake_account_address vote_address seed =
     (case find_transient_stake_program_address E program_id vote_address stake_pool_address seed of
        (transient_stake_address, bump_seed) \<Rightarrow>
          if transient_stake_address \<noteq> stake_account_address
          then Inl (spe InvalidStakeAccountAddress) else Inr bump_seed)"

definition check_ephemeral_stake_address ::
    "env \<Rightarrow> Pubkey \<Rightarrow> Pubkey \<Rightarrow> Pubkey \<Rightarrow> u64 \<Rightarrow> u8 result" where
  "check_ephemeral_stake_address E program_id stake_pool_address stake_account_address seed =
     (case find_ephemeral_stake_program_address E program_id stake_pool_address seed of
        (ephemeral_stake_address, bump_seed) \<Rightarrow>
          if ephemeral_stake_address \<noteq> stake_account_address
          then Inl (spe InvalidStakeAccountAddress) else Inr bump_seed)"

definition check_mpl_metadata_account_address :: "env \<Rightarrow> Pubkey \<Rightarrow> Pubkey \<Rightarrow> unit result" where
  "check_mpl_metadata_account_address E metadata_address pool_mint =
     (if fst (find_metadata_account E pool_mint) \<noteq> metadata_address
      then Inl (spe InvalidMetadataAccount) else Inr ())"

definition check_system_program :: "env \<Rightarrow> Pubkey \<Rightarrow> unit result" where
  "check_system_program E program_id =
     (if program_id \<noteq> e_system_program_id E then Inl IncorrectProgramId else Inr ())"

definition check_stake_program :: "env \<Rightarrow> Pubkey \<Rightarrow> unit result" where
  "check_stake_program E program_id =
     (if program_id \<noteq> e_stake_program_id E then Inl IncorrectProgramId else Inr ())"

definition check_mpl_metadata_program :: "env \<Rightarrow> Pubkey \<Rightarrow> unit result" where
  "check_mpl_metadata_program E program_id =
     (if program_id \<noteq> e_mpl_token_metadata_id E then Inl IncorrectProgramId else Inr ())"

definition check_account_owner :: "world \<Rightarrow> AccountInfo \<Rightarrow> Pubkey \<Rightarrow> unit result" where
  "check_account_owner w account_info program_id =
     (if program_id \<noteq> owner_of w account_info then Inl IncorrectProgramId else Inr ())"

definition stake_is_usable_by_pool :: "Meta \<Rightarrow> Pubkey \<Rightarrow> Lockup \<Rightarrow> bool" where
  "stake_is_usable_by_pool meta expected_authority expected_lockup \<longleftrightarrow>
     auth_staker (meta_authorized meta) = expected_authority
     \<and> auth_withdrawer (meta_authorized meta) = expected_authority
     \<and> meta_lockup meta = expected_lockup"

definition stake_is_inactive_without_history :: "Delegation \<Rightarrow> u64 \<Rightarrow> bool" where
  "stake_is_inactive_without_history stake epoch \<longleftrightarrow>
     del_deactivation_epoch stake < epoch
     \<or> (del_activation_epoch stake = epoch \<and> del_deactivation_epoch stake = epoch)"

definition check_if_stake_deactivating :: "env \<Rightarrow> world \<Rightarrow> AccountInfo \<Rightarrow> Pubkey \<Rightarrow> u64 \<Rightarrow> unit result" where
  "check_if_stake_deactivating E w account_info vote_account_address epoch =
     tri (get_stake_state E w account_info) (\<lambda>(_, stake).
       if del_deactivation_epoch stake \<noteq> epoch then Inl (spe WrongStakeStake) else Inr ())"

definition check_if_stake_activating :: "env \<Rightarrow> world \<Rightarrow> AccountInfo \<Rightarrow> Pubkey \<Rightarrow> u64 \<Rightarrow> unit result" where
  "check_if_stake_activating E w account_info vote_account_address epoch =
     tri (get_stake_state E w account_info) (\<lambda>(_, stake).
       if del_deactivation_epoch stake \<noteq> EPOCH_MAX \<or> del_activation_epoch stake \<noteq> epoch
       then Inl (spe WrongStakeStake) else Inr ())"

definition check_stake_state ::
    "env \<Rightarrow> world \<Rightarrow> AccountInfo \<Rightarrow> Pubkey \<Rightarrow> Pubkey \<Rightarrow> Lockup \<Rightarrow> unit result" where
  "check_stake_state E w stake_account_info withdraw_authority vote_account_address lockup =
     tri (get_stake_state E w stake_account_info) (\<lambda>(meta, stake).
       if \<not> stake_is_usable_by_pool meta withdraw_authority lockup
       then Inl (spe WrongStakeStake)
       else if del_voter_pubkey stake \<noteq> vote_account_address
       then Inl (spe WrongStakeStake)
       else Inr ())"

definition check_validator_stake_account ::
    "env \<Rightarrow> world \<Rightarrow> AccountInfo \<Rightarrow> Pubkey \<Rightarrow> Pubkey \<Rightarrow> Pubkey \<Rightarrow> Pubkey \<Rightarrow> u32 \<Rightarrow> Lockup \<Rightarrow> unit result" where
  "check_validator_stake_account E w stake_account_info program_id stake_pool withdraw_authority
       vote_account_address seed lockup =
     tri (check_account_owner w stake_account_info (e_stake_program_id E)) (\<lambda>_.
     tri (check_validator_stake_address E program_id stake_pool (ai_key stake_account_info)
            vote_account_address (NonZeroU32_new seed)) (\<lambda>_.
     tri (check_stake_state E w stake_account_info withdraw_authority vote_account_address lockup) (\<lambda>_.
     Inr ())))"

section \<open>Calls to other programs\<close>

definition create_stake_account ::
    "env \<Rightarrow> world \<Rightarrow> AccountInfo \<Rightarrow> byte list list \<Rightarrow> nat \<Rightarrow> world result" where
  "create_stake_account E w stake_account_info stake_account_signer_seeds stake_space =
     tri (e_invoke_signed E (SystemAllocate (ai_key stake_account_info) (of_nat stake_space))
            [stake_account_info] [stake_account_signer_seeds] w) (\<lambda>w.
     e_invoke_signed E (SystemAssign (ai_key stake_account_info) (e_stake_program_id E))
       [stake_account_info] [stake_account_signer_seeds] w)"

text \<open>The seeds with which the pool signs for one of its derived authorities.\<close>

definition authority_signers :: "Pubkey \<Rightarrow> byte list \<Rightarrow> u8 \<Rightarrow> byte list list list" where
  "authority_signers stake_pool authority_type bump_seed =
     [[key_bytes stake_pool, authority_type, [bump_seed]]]"

definition stake_delegate ::
    "env \<Rightarrow> world \<Rightarrow> AccountInfo \<Rightarrow> AccountInfo \<Rightarrow> AccountInfo \<Rightarrow> AccountInfo \<Rightarrow> AccountInfo
      \<Rightarrow> AccountInfo \<Rightarrow> Pubkey \<Rightarrow> byte list \<Rightarrow> u8 \<Rightarrow> world result" where
  "stake_delegate E w stake_info vote_account_info clock_info stake_history_info stake_config_info
       authority_info stake_pool authority_type bump_seed =
     e_invoke_signed E
       (DelegateStake (ai_key stake_info) (ai_key authority_info) (ai_key vote_account_info))
       [stake_info, vote_account_info, clock_info, stake_history_info, stake_config_info,
        authority_info]
       (authority_signers stake_pool authority_type bump_seed) w"

definition stake_deactivate ::
    "env \<Rightarrow> world \<Rightarrow> AccountInfo \<Rightarrow> AccountInfo \<Rightarrow> AccountInfo \<Rightarrow> Pubkey \<Rightarrow> byte list \<Rightarrow> u8
      \<Rightarrow> world result" where
  "stake_deactivate E w stake_info clock_info authority_info stake_pool authority_type bump_seed =
     e_invoke_signed E (DeactivateStake (ai_key stake_info) (ai_key authority_info))
       [stake_info, clock_info, authority_info]
       (authority_signers stake_pool authority_type bump_seed) w"

definition stake_split ::
    "env \<Rightarrow> world \<Rightarrow> Pubkey \<Rightarrow> AccountInfo \<Rightarrow> AccountInfo \<Rightarrow> byte list \<Rightarrow> u8 \<Rightarrow> u64 \<Rightarrow> AccountInfo
      \<Rightarrow> world result" where
  "stake_split E w stake_pool stake_account authority authority_type bump_seed amount split_stake =
     e_invoke_signed E
       (SplitStake (ai_key stake_account) (ai_key authority) amount (ai_key split_stake))
       [stake_account, split_stake, authority]
       (authority_signers stake_pool authority_type bump_seed) w"

definition stake_merge ::
    "env \<Rightarrow> world \<Rightarrow> Pubkey \<Rightarrow> AccountInfo \<Rightarrow> AccountInfo \<Rightarrow> byte list \<Rightarrow> u8 \<Rightarrow> AccountInfo
      \<Rightarrow> AccountInfo \<Rightarrow> AccountInfo \<Rightarrow> world result" where
  "stake_merge E w stake_pool source_account authority authority_type bump_seed destination_account
       clock stake_history =
     e_invoke_signed E
       (MergeStake (ai_key destination_account) (ai_key source_account) (ai_key authority))
       [destination_account, source_account, clock, stake_history, authority]
       (authority_signers stake_pool authority_type bump_seed) w"

definition stake_authorize ::
    "env \<Rightarrow> world \<Rightarrow> AccountInfo \<Rightarrow> AccountInfo \<Rightarrow> Pubkey \<Rightarrow> AccountInfo \<Rightarrow> world result" where
  "stake_authorize E w stake_account stake_authority new_stake_authority clock =
     tri (invoke E (AuthorizeStake (ai_key stake_account) (ai_key stake_authority)
              new_stake_authority StakeAuthorizeStaker)
            [stake_account, clock, stake_authority] w) (\<lambda>w.
     invoke E (AuthorizeStake (ai_key stake_account) (ai_key stake_authority)
              new_stake_authority StakeAuthorizeWithdrawer)
       [stake_account, clock, stake_authority] w)"

definition stake_authorize_signed ::
    "env \<Rightarrow> world \<Rightarrow> Pubkey \<Rightarrow> AccountInfo \<Rightarrow> AccountInfo \<Rightarrow> byte list \<Rightarrow> u8 \<Rightarrow> Pubkey \<Rightarrow> AccountInfo
      \<Rightarrow> world result" where
  "stake_authorize_signed E w stake_pool stake_account stake_authority authority_type bump_seed
       new_stake_authority clock =
     tri (e_invoke_signed E (AuthorizeStake (ai_key stake_account) (ai_key stake_authority)
              new_stake_authority StakeAuthorizeStaker)
            [stake_account, clock, stake_authority]
            (authority_signers stake_pool authority_type bump_seed) w) (\<lambda>w.
     e_invoke_signed E (AuthorizeStake (ai_key stake_account) (ai_key stake_authority)
              new_stake_authority StakeAuthorizeWithdrawer)
       [stake_account, clock, stake_authority]
       (authority_signers stake_pool authority_type bump_seed) w)"

definition stake_withdraw ::
    "env \<Rightarrow> world \<Rightarrow> Pubkey \<Rightarrow> AccountInfo \<Rightarrow> AccountInfo \<Rightarrow> byte list \<Rightarrow> u8 \<Rightarrow> AccountInfo
      \<Rightarrow> AccountInfo \<Rightarrow> AccountInfo \<Rightarrow> u64 \<Rightarrow> world result" where
  "stake_withdraw E w stake_pool source_account authority authority_type bump_seed
       destination_account clock stake_history lamports =
     e_invoke_signed E
       (WithdrawStakeLamports (ai_key source_account) (ai_key authority)
          (ai_key destination_account) lamports)
       [source_account, destination_account, clock, stake_history, authority]
       (authority_signers stake_pool authority_type bump_seed) w"

definition token_burn ::
    "env \<Rightarrow> world \<Rightarrow> AccountInfo \<Rightarrow> AccountInfo \<Rightarrow> AccountInfo \<Rightarrow> AccountInfo \<Rightarrow> u64 \<Rightarrow> world result" where
  "token_burn E w token_program burn_account mint authority amount =
     (let ix = TokenBurn (ai_key token_program) (ai_key burn_account) (ai_key mint)
                 (ai_key authority) amount in
      tri (e_build_instruction E ix) (\<lambda>_.
      invoke E ix [burn_account, mint, authority] w))"

definition token_mint_to ::
    "env \<Rightarrow> world \<Rightarrow> Pubkey \<Rightarrow> AccountInfo \<Rightarrow> AccountInfo \<Rightarrow> AccountInfo \<Rightarrow> AccountInfo \<Rightarrow> byte list
      \<Rightarrow> u8 \<Rightarrow> u64 \<Rightarrow> world result" where
  "token_mint_to E w stake_pool token_program mint destination authority authority_type bump_seed
       amount =
     (let ix = TokenMintTo (ai_key token_program) (ai_key mint) (ai_key destination)
                 (ai_key authority) amount in
      tri (e_build_instruction E ix) (\<lambda>_.
      e_invoke_signed E ix [mint, destination, authority]
        (authority_signers stake_pool authority_type bump_seed) w))"

definition token_transfer ::
    "env \<Rightarrow> world \<Rightarrow> AccountInfo \<Rightarrow> AccountInfo \<Rightarrow> AccountInfo \<Rightarrow> AccountInfo \<Rightarrow> AccountInfo \<Rightarrow> u64
      \<Rightarrow> u8 \<Rightarrow> world result" where
  "token_transfer E w token_program source mint destination authority amount decimals =
     (let ix = TokenTransferChecked (ai_key token_program) (ai_key source) (ai_key mint)
                 (ai_key destination) (ai_key authority) amount decimals in
      tri (e_build_instruction E ix) (\<lambda>_.
      invoke E ix [source, mint, destination, authority] w))"

definition sol_transfer ::
    "env \<Rightarrow> world \<Rightarrow> AccountInfo \<Rightarrow> AccountInfo \<Rightarrow> u64 \<Rightarrow> world result" where
  "sol_transfer E w source destination amount =
     invoke E (SystemTransfer (ai_key source) (ai_key destination) amount) [source, destination] w"

section \<open>The checks of the pool record\<close>

definition check_program_derived_authority ::
    "env \<Rightarrow> Pubkey \<Rightarrow> Pubkey \<Rightarrow> Pubkey \<Rightarrow> byte list \<Rightarrow> u8 \<Rightarrow> unit result" where
  "check_program_derived_authority E authority_address program_id stake_pool_address authority_seed
       bump_seed =
     tri (e_create_program_address E [key_bytes stake_pool_address, authority_seed, [bump_seed]]
            program_id) (\<lambda>expected_address.
       if authority_address = expected_address then Inr ()
       else Inl (spe InvalidProgramAddress))"

definition is_extension_supported_for_mint :: "ExtensionType \<Rightarrow> bool" where
  "is_extension_supported_for_mint extension_type \<longleftrightarrow>
     extension_type \<in> set [ExtUninitialized, TransferFeeConfig, ConfidentialTransferMint,
       ConfidentialTransferFeeConfig, DefaultAccountState, InterestBearingConfig, MetadataPointer,
       TokenMetadata]"

definition is_extension_supported_for_fee_account :: "ExtensionType \<Rightarrow> bool" where
  "is_extension_supported_for_fee_account extension_type \<longleftrightarrow>
     extension_type \<in> set [ExtUninitialized, TransferFeeAmount, ImmutableOwner, CpiGuard]"

definition check_manager_fee_info :: "env \<Rightarrow> world \<Rightarrow> StakePool \<Rightarrow> AccountInfo \<Rightarrow> unit result" where
  "check_manager_fee_info E w self manager_fee_info =
     tri (e_unpack_token_account E (data_of w manager_fee_info)) (\<lambda>token_account.
     if owner_of w manager_fee_info \<noteq> sp_token_program_id self
        \<or> \<not> ta_is_initialized token_account
        \<or> ta_mint token_account \<noteq> sp_pool_mint self
     then Inl (spe InvalidFeeAccount)
     else tri (ta_extensions token_account) (\<lambda>extensions.
       if \<exists>x \<in> set extensions. \<not> is_extension_supported_for_fee_account x
       then Inl (spe UnsupportedFeeAccountExtension)
       else Inr ()))"

definition check_authority_withdraw ::
    "env \<Rightarrow> StakePool \<Rightarrow> Pubkey \<Rightarrow> Pubkey \<Rightarrow> Pubkey \<Rightarrow> unit result" where
  "check_authority_withdraw E self withdraw_authority program_id stake_pool_address =
     check_program_derived_authority E withdraw_authority program_id stake_pool_address
       AUTHORITY_WITHDRAW (sp_stake_withdraw_bump_seed self)"

definition check_stake_deposit_authority :: "StakePool \<Rightarrow> Pubkey \<Rightarrow> unit result" where
  "check_stake_deposit_authority self stake_deposit_authority =
     (if sp_stake_deposit_authority self = stake_deposit_authority then Inr ()
      else Inl (spe InvalidStakeDepositAuthority))"

text \<open>The optional authority account is the result of reading one more account.\<close>

definition check_sol_deposit_authority ::
    "StakePool \<Rightarrow> (AccountInfo \<times> AccountInfo list) result \<Rightarrow> unit result" where
  "check_sol_deposit_authority self maybe_sol_deposit_authority =
     (case sp_sol_deposit_authority self of
        None \<Rightarrow> Inr ()
      | Some auth \<Rightarrow> tri maybe_sol_deposit_authority (\<lambda>(sol_deposit_authority, _).
          if auth \<noteq> ai_key sol_deposit_authority then Inl (spe InvalidSolDepositAuthority)
          else if \<not> ai_is_signer sol_deposit_authority then Inl (spe SignatureMissing)
          else Inr ()))"

definition check_sol_withdraw_authority ::
    "StakePool \<Rightarrow> (AccountInfo \<times> AccountInfo list) result \<Rightarrow> unit result" where
  "check_sol_withdraw_authority self maybe_sol_withdraw_authority =
     (case sp_sol_withdraw_authority self of
        None \<Rightarrow> Inr ()
      | Some auth \<Rightarrow> tri maybe_sol_withdraw_authority (\<lambda>(sol_withdraw_authority, _).
          if auth \<noteq> ai_key sol_withdraw_authority then Inl (spe InvalidSolWithdrawAuthority)
          else if \<not> ai_is_signer sol_withdraw_authority then Inl (spe SignatureMissing)
          else Inr ()))"

definition check_mint :: "env \<Rightarrow> world \<Rightarrow> StakePool \<Rightarrow> AccountInfo \<Rightarrow> u8 result" where
  "check_mint E w self mint_info =
     (if ai_key mint_info \<noteq> sp_pool_mint self then Inl (spe WrongPoolMint)
      else tri (e_unpack_mint E (data_of w mint_info)) (\<lambda>mint. Inr (mint_decimals mint)))"

definition check_manager :: "StakePool \<Rightarrow> AccountInfo \<Rightarrow> unit result" where
  "check_manager self manager_info =
     (if ai_key manager_info \<noteq> sp_manager self then Inl (spe WrongManager)
      else if \<not> ai_is_signer manager_info then Inl (spe SignatureMissing)
      else Inr ())"

definition check_staker :: "StakePool \<Rightarrow> AccountInfo \<Rightarrow> unit result" where
  "check_staker self staker_info =
     (if ai_key staker_info \<noteq> sp_staker self then Inl (spe WrongStaker)
      else if \<not> ai_is_signer staker_info then Inl (spe SignatureMissing)
      else Inr ())"

definition check_validator_list :: "StakePool \<Rightarrow> AccountInfo \<Rightarrow> unit result" where
  "check_validator_list self validator_list_info =
     (if ai_key validator_list_info \<noteq> sp_validator_list self
      then Inl (spe InvalidValidatorStakeList) else Inr ())"

definition check_reserve_stake :: "StakePool \<Rightarrow> AccountInfo \<Rightarrow> unit result" where
  "check_reserve_stake self reserve_stake_info =
     (if ai_key reserve_stake_info \<noteq> sp_reserve_stake self
      then Inl (spe InvalidProgramAddress) else Inr ())"

section \<open>When the checks accept\<close>

named_theorems check_iffs

lemma check_iffs_basic [check_iffs]:
  "check_system_program E k = Inr u \<longleftrightarrow> k = e_system_program_id E"
  "check_stake_program E k = Inr u \<longleftrightarrow> k = e_stake_program_id E"
  "check_mpl_metadata_program E k = Inr u \<longleftrightarrow> k = e_mpl_token_metadata_id E"
  "check_account_owner w a k = Inr u \<longleftrightarrow> owner_of w a = k"
  "check_manager p a = Inr u \<longleftrightarrow> ai_key a = sp_manager p \<and> ai_is_signer a"
  "check_staker p a = Inr u \<longleftrightarrow> ai_key a = sp_staker p \<and> ai_is_signer a"
  "check_validator_list p a = Inr u \<longleftrightarrow> ai_key a = sp_validator_list p"
  "check_reserve_stake p a = Inr u \<longleftrightarrow> ai_key a = sp_reserve_stake p"
  "check_stake_deposit_authority p k = Inr u \<longleftrightarrow> k = sp_stake_deposit_authority p"
  by (auto simp: check_system_program_def check_stake_program_def check_mpl_metadata_program_def
      check_account_owner_def check_manager_def check_staker_def check_validator_list_def
      check_reserve_stake_def check_stake_deposit_authority_def)

lemma get_stake_state_Inr [check_iffs]:
  "get_stake_state E w a = Inr r \<longleftrightarrow>
     e_decode_stake E (data_of w a) = Inr (StakeDelegated (fst r) (snd r))"
proof (cases "e_decode_stake E (data_of w a)")
  case (Inr s)
  then show ?thesis by (cases r; cases s) (auto simp: get_stake_state_def)
qed (simp add: get_stake_state_def)

lemma check_stake_state_Inr [check_iffs]:
  "check_stake_state E w a auth vote lockup = Inr u \<longleftrightarrow>
     (\<exists>meta stake. e_decode_stake E (data_of w a) = Inr (StakeDelegated meta stake)
        \<and> stake_is_usable_by_pool meta auth lockup \<and> del_voter_pubkey stake = vote)"
  by (auto simp: check_stake_state_def result_simps check_iffs split: prod.splits)

lemma check_validator_stake_account_Inr [check_iffs]:
  "check_validator_stake_account E w a program_id pool auth vote seed lockup = Inr u \<longleftrightarrow>
     owner_of w a = e_stake_program_id E
     \<and> ai_key a = fst (find_stake_program_address E program_id vote pool (NonZeroU32_new seed))
     \<and> (\<exists>meta stake. e_decode_stake E (data_of w a) = Inr (StakeDelegated meta stake)
          \<and> stake_is_usable_by_pool meta auth lockup \<and> del_voter_pubkey stake = vote)"
  by (auto simp: check_validator_stake_account_def check_validator_stake_address_def result_simps
      check_iffs)

lemma check_sol_authority_Inr [check_iffs]:
  "check_sol_deposit_authority p (next_account_info iter) = Inr u \<longleftrightarrow>
     (\<forall>k. sp_sol_deposit_authority p = Some k \<longrightarrow>
        (\<exists>a as. iter = a # as \<and> ai_key a = k \<and> ai_is_signer a))"
  "check_sol_withdraw_authority p (next_account_info iter) = Inr u \<longleftrightarrow>
     (\<forall>k. sp_sol_withdraw_authority p = Some k \<longrightarrow>
        (\<exists>a as. iter = a # as \<and> ai_key a = k \<and> ai_is_signer a))"
  by (auto simp: check_sol_deposit_authority_def check_sol_withdraw_authority_def result_simps
      split: option.splits)

lemma check_authority_withdraw_Inr [check_iffs]:
  "check_authority_withdraw E p k program_id pool = Inr u \<longleftrightarrow>
     e_create_program_address E
       [key_bytes pool, AUTHORITY_WITHDRAW, [sp_stake_withdraw_bump_seed p]] program_id = Inr k"
  by (auto simp: check_authority_withdraw_def check_program_derived_authority_def result_simps)

lemma check_mint_Inr [check_iffs]:
  "check_mint E w p a = Inr d \<longleftrightarrow> ai_key a = sp_pool_mint p
     \<and> (\<exists>m. e_unpack_mint E (data_of w a) = Inr m \<and> mint_decimals m = d)"
  by (auto simp: check_mint_def result_simps)

end
