(* ===== verification/Pool_Access.thy ===== *)
theory Pool_Access
  imports Checks
begin

text \<open>
  What the instruction handlers share: reading and writing the pool record and the validator list
  of an account, a small calculus of postconditions for code in the error monad (\<open>post\<close>), the
  ownership rule of the runtime as a hypothesis on foreign programs (\<open>cpi_law\<close>), and the contract
  of a handler as a predicate (\<open>pool_contract\<close>).
\<close>

section \<open>Reading and writing accounts\<close>

text \<open>\<open>try_from_slice_unchecked::<StakePool>(&info.data.borrow())\<close> and \<open>borsh::to_writer\<close> back.\<close>

definition load_pool :: "world \<Rightarrow> AccountInfo \<Rightarrow> StakePool result" where
  "load_pool w info = try_from_slice_unchecked de_stake_pool (data_of w info)"

definition store_pool :: "world \<Rightarrow> AccountInfo \<Rightarrow> StakePool \<Rightarrow> world result" where
  "store_pool w info p =
     tri (to_writer ser_stake_pool (data_of w info) p) (\<lambda>data. Inr (set_data w info data))"

text \<open>
  The validator list is borrowed as header and vector bytes; \<open>store_list\<close> is the account after the
  borrowed bytes became \<open>big_vec\<close>.
\<close>

definition load_list :: "world \<Rightarrow> AccountInfo \<Rightarrow> (ValidatorListHeader \<times> byte list) result" where
  "load_list w info = deserialize_vec (data_of w info)"

definition store_list :: "world \<Rightarrow> AccountInfo \<Rightarrow> ValidatorListHeader \<Rightarrow> byte list \<Rightarrow> world" where
  "store_list w info header big_vec = set_data w info (ser_header header @ big_vec)"

definition find_validator :: "byte list \<Rightarrow> Pubkey \<Rightarrow> ValidatorStakeInfo option result" where
  "find_validator validator_list vote =
     bv_find VSI_LEN dec_vsi (\<lambda>x. memcmp_pubkey x vote) validator_list"

text \<open>\<open>find_mut\<close> gives the record and the offset at which assignments to it are written.\<close>

definition find_validator_mut :: "byte list \<Rightarrow> Pubkey \<Rightarrow> (nat \<times> ValidatorStakeInfo) option result" where
  "find_validator_mut validator_list vote =
     tri (bv_find_mut VSI_LEN (\<lambda>x. memcmp_pubkey x vote) validator_list) (\<lambda>r.
     Inr (map_option (\<lambda>i. (i, dec_vsi (slice i (i + VSI_LEN) validator_list))) r))"

definition store_validator ::
    "world \<Rightarrow> AccountInfo \<Rightarrow> ValidatorListHeader \<Rightarrow> byte list \<Rightarrow> nat \<Rightarrow> ValidatorStakeInfo \<Rightarrow> world" where
  "store_validator w info header big_vec offset v =
     store_list w info header (overwrite offset (enc_vsi v) big_vec)"

section \<open>Postconditions of fallible code\<close>

definition post :: "'a result \<Rightarrow> ('a \<Rightarrow> bool) \<Rightarrow> bool" where
  "post r Q \<longleftrightarrow> (\<forall>x. r = Inr x \<longrightarrow> Q x)"

lemma postD: "post r Q \<Longrightarrow> r = Inr x \<Longrightarrow> Q x"
  by (simp add: post_def)

lemma postI: "(\<And>x. r = Inr x \<Longrightarrow> Q x) \<Longrightarrow> post r Q"
  by (simp add: post_def)

lemma post_mono: "post r Q \<Longrightarrow> (\<And>x. Q x \<Longrightarrow> R x) \<Longrightarrow> post r R"
  by (auto simp: post_def)

named_theorems posts

lemma post_basic [posts]:
  "post (Inl e) Q" "post (Inr x) Q \<longleftrightarrow> Q x"
  by (simp_all add: post_def)

lemma post_tri [posts]: "post (tri r k) Q \<longleftrightarrow> post r (\<lambda>x. post (k x) Q)"
  by (cases r) (simp_all add: post_def)

lemma post_if [posts]:
  "post (if c then a else b) Q \<longleftrightarrow> (c \<longrightarrow> post a Q) \<and> (\<not> c \<longrightarrow> post b Q)"
  by simp

lemma post_ok_or [posts]: "post (ok_or x e) Q \<longleftrightarrow> (\<forall>y. x = Some y \<longrightarrow> Q y)"
  by (cases x) (simp_all add: post_def)

lemma post_next_account [posts]:
  "post (next_account_info iter) Q \<longleftrightarrow> (\<forall>a as. iter = a # as \<longrightarrow> Q (a, as))"
  by (cases iter) (simp_all add: post_def)

text \<open>Inversion of a successful run, one step of the source at a time.\<close>

named_theorems inversions

lemma tri_next_account [inversions]:
  "tri (next_account_info iter) k = Inr y \<longleftrightarrow> (\<exists>a as. iter = a # as \<and> k (a, as) = Inr y)"
  by (cases iter) simp_all

lemma tri_unit [inversions]:
  "tri (check_account_owner w a k) f = Inr y \<longleftrightarrow> owner_of w a = k \<and> f () = Inr y"
  "tri (check_system_program E k) f = Inr y \<longleftrightarrow> k = e_system_program_id E \<and> f () = Inr y"
  "tri (check_stake_program E k) f = Inr y \<longleftrightarrow> k = e_stake_program_id E \<and> f () = Inr y"
  by (auto simp: result_simps check_iffs)

lemma next_account_Inr [inversions]: "next_account_info iter = Inr (a, as) \<longleftrightarrow> iter = a # as"
  by (simp add: next_account_info_Inr)

lemma case_prod_Inr [inversions]:
  "(case e of (x, y) \<Rightarrow> f x y) = Inr z \<longleftrightarrow> f (fst e) (snd e) = Inr z"
  by (cases e) simp

lemma case_option_Inr [inversions]:
  "(case x of None \<Rightarrow> Inl e | Some (a, b) \<Rightarrow> f a b) = Inr z \<longleftrightarrow>
     (\<exists>a b. x = Some (a, b) \<and> f a b = Inr z)"
  by (auto split: option.splits)

lemmas [inversions] = tri_Inr if_Inl_Inr if_Inr_Inl ok_or_Inr check_iffs

section \<open>The ownership rule of the runtime\<close>

text \<open>
  \<open>owned_frame pid K w w'\<close>: accounts of the program \<open>pid\<close> stay its own and keep their data except
  those in \<open>K\<close>; an account outside \<open>K\<close> that comes into its ownership is zeroed. With the empty
  \<open>K\<close> this is what the runtime guarantees of every foreign program: only the owner of an account
  may change its data or its owner, and an account changes owner only with zeroed data.
\<close>

definition owned_frame :: "Pubkey \<Rightarrow> Pubkey set \<Rightarrow> world \<Rightarrow> world \<Rightarrow> bool" where
  "owned_frame pid K w w' \<longleftrightarrow>
     (\<forall>k. (acc_owner (w k) = pid \<longrightarrow>
             acc_owner (w' k) = pid \<and> (k \<notin> K \<longrightarrow> acc_data (w' k) = acc_data (w k)))
        \<and> (acc_owner (w k) \<noteq> pid \<and> acc_owner (w' k) = pid \<and> k \<notin> K \<longrightarrow>
             set (acc_data (w' k)) \<subseteq> {0}))"

definition cpi_law :: "env \<Rightarrow> Pubkey \<Rightarrow> bool" where
  "cpi_law E pid \<longleftrightarrow>
     (\<forall>ix infos seeds w w'. e_invoke_signed E ix infos seeds w = Inr w' \<longrightarrow> owned_frame pid {} w w')
     \<and> (\<forall>payer rent space owner sys acct seeds w w'.
          e_create_pda_account E payer rent space owner sys acct seeds w = Inr w' \<longrightarrow>
          owned_frame pid {} w w')"

lemma owned_frame_refl [simp, intro!]: "owned_frame pid K w w"
  by (auto simp: owned_frame_def)

lemma owned_frame_trans:
  assumes "owned_frame pid {} w w'" and "owned_frame pid K w' w''"
  shows "owned_frame pid K w w''"
  unfolding owned_frame_def
proof (intro allI conjI impI)
  fix k assume "acc_owner (w k) = pid"
  then show "acc_owner (w'' k) = pid" using assms by (simp add: owned_frame_def)
next
  fix k assume "acc_owner (w k) = pid" and "k \<notin> K"
  then show "acc_data (w'' k) = acc_data (w k)" using assms by (simp add: owned_frame_def)
next
  fix k assume k: "acc_owner (w k) \<noteq> pid \<and> acc_owner (w'' k) = pid \<and> k \<notin> K"
  show "set (acc_data (w'' k)) \<subseteq> {0}"
  proof (cases "acc_owner (w' k) = pid")
    case True
    then have "set (acc_data (w' k)) \<subseteq> {0}" "acc_data (w'' k) = acc_data (w' k)"
      using assms k by (auto simp: owned_frame_def)
    then show ?thesis by simp
  next
    case False
    then show ?thesis using assms k by (auto simp: owned_frame_def)
  qed
qed

lemma owned_frame_trans_right:
  assumes "owned_frame pid K w w'" and "owned_frame pid {} w' w''"
  shows "owned_frame pid K w w''"
  unfolding owned_frame_def
proof (intro allI conjI impI)
  fix k assume "acc_owner (w k) = pid"
  then show "acc_owner (w'' k) = pid" using assms by (simp add: owned_frame_def)
next
  fix k assume "acc_owner (w k) = pid" and "k \<notin> K"
  then show "acc_data (w'' k) = acc_data (w k)" using assms by (simp add: owned_frame_def)
next
  fix k assume k: "acc_owner (w k) \<noteq> pid \<and> acc_owner (w'' k) = pid \<and> k \<notin> K"
  show "set (acc_data (w'' k)) \<subseteq> {0}"
    using assms k by (cases "acc_owner (w' k) = pid") (simp_all add: owned_frame_def)
qed

lemma owned_frame_mono: "owned_frame pid K w w' \<Longrightarrow> K \<subseteq> L \<Longrightarrow> owned_frame pid L w w'"
  unfolding owned_frame_def by blast

lemma owned_frame_set_data:
  "owned_frame pid K w w' \<Longrightarrow> ai_key a \<in> K \<Longrightarrow> owned_frame pid K w (set_data w' a d)"
  unfolding owned_frame_def set_data_def by simp

lemma owned_frame_data:
  "owned_frame pid {} w w' \<Longrightarrow> owner_of w a = pid \<Longrightarrow> data_of w' a = data_of w a"
  "owned_frame pid {} w w' \<Longrightarrow> owner_of w a = pid \<Longrightarrow> owner_of w' a = pid"
  by (simp_all add: owned_frame_def owner_of_def data_of_def)

lemma post_invoke:
  assumes "cpi_law E pid" and "\<And>w'. owned_frame pid {} w w' \<Longrightarrow> Q w'"
  shows "post (e_invoke_signed E ix infos seeds w) Q"
  using assms by (auto simp: post_def cpi_law_def)

text \<open>The program's calls keep the accounts that the program owns.\<close>

definition keeps :: "Pubkey \<Rightarrow> world \<Rightarrow> world result \<Rightarrow> bool" where
  "keeps pid w r \<longleftrightarrow> post r (owned_frame pid {} w)"

lemma keeps_basic [simp]: "keeps pid w (Inl e)" "keeps pid w (Inr w)"
  by (simp_all add: keeps_def posts)

lemma keeps_invoke: "cpi_law E pid \<Longrightarrow> keeps pid w (e_invoke_signed E ix infos seeds w)"
  by (simp add: keeps_def post_invoke)

lemma keeps_tri: "keeps pid w r \<Longrightarrow> (\<And>w'. keeps pid w' (k w')) \<Longrightarrow> keeps pid w (tri r k)"
  by (cases r) (auto simp: keeps_def posts intro: post_mono owned_frame_trans)

lemma keeps_tri_value: "(\<And>x. r = Inr x \<Longrightarrow> keeps pid w (k x)) \<Longrightarrow> keeps pid w (tri r k)"
  by (cases r) auto

lemmas keeps_reads =
  keeps_tri_value [where r = r for r :: "unit result"]
  keeps_tri_value [where r = r for r :: "u64 result"]
  keeps_tri_value [where r = r for r :: "u8 result"]
  keeps_tri_value [where r = r for r :: "AccountInfo result"]
  keeps_tri_value [where r = r for r :: "(AccountInfo \<times> AccountInfo list) result"]
  keeps_tri_value [where r = r for r :: "StakeStateV2 result"]
  keeps_tri_value [where r = r for r :: "(Meta \<times> Delegation) result"]

lemma keeps_if: "(c \<Longrightarrow> keeps pid w a) \<Longrightarrow> (\<not> c \<Longrightarrow> keeps pid w b) \<Longrightarrow> keeps pid w (if c then a else b)"
  by simp

lemmas keeps_rules = keeps_basic keeps_invoke keeps_tri keeps_if

lemma keeps_calls:
  assumes "cpi_law E pid"
  shows "keeps pid w (create_stake_account E w a seeds n)"
    and "keeps pid w (stake_delegate E w a b c d e f k t s)"
    and "keeps pid w (stake_deactivate E w a b c k t s)"
    and "keeps pid w (stake_split E w k a b t s l c)"
    and "keeps pid w (stake_merge E w k a b t s c d e)"
    and "keeps pid w (stake_authorize E w a b k c)"
    and "keeps pid w (stake_authorize_signed E w k a b t s k' c)"
    and "keeps pid w (stake_withdraw E w k a b t s c d e l)"
    and "keeps pid w (token_burn E w a b c d l)"
    and "keeps pid w (token_mint_to E w k a b c d t s l)"
    and "keeps pid w (token_transfer E w a b c d e l s)"
    and "keeps pid w (sol_transfer E w a b l)"
    and "keeps pid w (invoke E ix infos w)"
    and "keeps pid w (e_create_pda_account E a rent n k b c ss w)"
  using assms
  by (auto simp: create_stake_account_def stake_delegate_def stake_deactivate_def stake_split_def
      stake_merge_def stake_authorize_def stake_authorize_signed_def stake_withdraw_def token_burn_def
      token_mint_to_def token_transfer_def sol_transfer_def invoke_def Let_def
      intro: keeps_rules keeps_tri_value)
    (auto simp: cpi_law_def keeps_def post_def)

lemma keepsD: "keeps pid w r \<Longrightarrow> r = Inr w' \<Longrightarrow> owned_frame pid {} w w'"
  by (simp add: keeps_def post_def)

lemmas calls_frame = keeps_calls [THEN keepsD]

lemmas calls_trans = calls_frame [THEN owned_frame_trans]

lemma post_keeps:
  assumes "keeps pid w r" and "\<And>w'. owned_frame pid {} w w' \<Longrightarrow> Q w'"
  shows "post r Q"
  using assms by (auto simp: keeps_def post_def)

section \<open>The records behind the bytes\<close>

lemma load_store_pool: "store_pool w a p = Inr w' \<Longrightarrow> load_pool w' a = Inr p"
  by (auto simp: store_pool_def load_pool_def result_simps b_pool.read_written)

lemma store_pool_frame:
  "store_pool w' a p = Inr w'' \<Longrightarrow> owned_frame pid K w w' \<Longrightarrow> ai_key a \<in> K \<Longrightarrow> owned_frame pid K w w''"
  by (auto simp: store_pool_def result_simps intro: owned_frame_set_data)

lemma store_pool_others:
  "store_pool w a p = Inr w' \<Longrightarrow> ai_key b \<noteq> ai_key a \<Longrightarrow> data_of w' b = data_of w b"
  "store_pool w a p = Inr w' \<Longrightarrow> lamports_of w' b = lamports_of w b"
  "store_pool w a p = Inr w' \<Longrightarrow> owner_of w' b = owner_of w b"
  by (auto simp: store_pool_def result_simps)

lemma load_list_Inr: "load_list w a = Inr (h, bv) \<longleftrightarrow> data_of w a = ser_header h @ bv"
  by (simp add: load_list_def deserialize_vec_Inr)

lemma load_store_list [simp]:
  "load_list (store_list w a h bv) b = (if ai_key b = ai_key a then Inr (h, bv) else load_list w b)"
  by (simp add: load_list_def store_list_def deserialize_vec_Inr)

lemma load_pool_cong: "data_of w a = data_of w' b \<Longrightarrow> load_pool w a = load_pool w' b"
  by (simp add: load_pool_def)

text \<open>
  A buffer is not both a valid pool and a valid validator list: the first byte tells them apart.
  So a handler that has loaded both never has the same account in both places.
\<close>

lemma pool_bytes_type:
  "try_from_slice_unchecked de_stake_pool bs = Inr p \<Longrightarrow>
     \<exists>b rest. bs = b # rest \<and> ser_account_type (sp_account_type p) = [b]"
  by (cases bs)
    (auto simp: try_from_slice_unchecked_def de_stake_pool_def de_account_type_def de_u8_def
      result_simps split: option.splits if_splits)

lemma pool_not_list:
  assumes "load_pool w a = Inr p" "sp_is_valid p" "load_list w b = Inr (h, bv)" "header_is_valid h"
  shows "ai_key a \<noteq> ai_key b"
proof
  assume "ai_key a = ai_key b"
  then have "data_of w a = data_of w b" by (simp add: data_of_def)
  then show False
    using pool_bytes_type [of "data_of w a" p] assms
    by (auto simp: load_pool_def load_list_Inr sp_is_valid_def header_is_valid_def ser_header_def)
qed

lemma list_is_no_pool:
  assumes "load_list w a = Inr (h, bv)" "header_is_valid h" "load_pool w a = Inr p"
  shows "\<not> sp_is_valid p"
  using pool_not_list [OF assms(3) _ assms(1,2)] by auto

lemma zeroed_is_no_pool:
  assumes "set (data_of w a) \<subseteq> {0}" "load_pool w a = Inr p"
  shows "\<not> sp_is_valid p"
  using pool_bytes_type [of "data_of w a" p] assms
  by (cases "sp_account_type p") (auto simp: load_pool_def sp_is_valid_def)

lemma find_validator_Inr:
  assumes "vlist_wf bv"
  shows "find_validator bv vote =
    Inr (List.find (\<lambda>v. vsi_vote_account_address v = vote) (vlist bv))"
  using vsi.find_refines [OF assms, of "\<lambda>x. memcmp_pubkey x vote"]
  by (simp add: find_validator_def)

lemma find_validator_mut_Inr:
  assumes "vlist_wf bv"
  shows "find_validator_mut bv vote =
    Inr (map_option (\<lambda>i. (VEC_SIZE_BYTES + i * VSI_LEN, vlist bv ! i))
      (List.find (\<lambda>i. vsi_vote_account_address (vlist bv ! i) = vote) [0..<bv_count bv]))"
proof -
  have unat: "unat (of_nat (bv_count bv) :: u32) = bv_count bv"
    using bv_count_bound [of bv] by (simp add: unat_of_nat)
  have "bv_find_mut VSI_LEN (\<lambda>x. memcmp_pubkey x vote) bv =
    Inr (map_option (\<lambda>i. VEC_SIZE_BYTES + i * VSI_LEN)
      (List.find (\<lambda>i. vsi_vote_account_address (vlist bv ! i) = vote) [0..<bv_count bv]))"
    using vsi.find_offset [OF assms, of "\<lambda>x. memcmp_pubkey x vote"]
    by (simp add: bv_find_mut_def bv_len_ok [OF assms] unat)
  then show ?thesis
    by (auto simp: find_validator_mut_def option.map_comp o_def find_Some_iff vsi.bv_list_slice
        assms vsi.dec_enc intro!: option.map_cong)
qed

section \<open>The validator list as a list\<close>

text \<open>
  The list is well formed, no longer than its account was made for, and has at most one record for
  a vote account.
\<close>

definition list_inv :: "ValidatorListHeader \<Rightarrow> byte list \<Rightarrow> bool" where
  "list_inv h bv \<longleftrightarrow> header_is_valid h \<and> vlist_wf bv \<and> length bv \<le> usize_max
     \<and> bv_count bv \<le> unat (vlh_max_validators h)
     \<and> distinct (map vsi_vote_account_address (vlist bv))"

lemma find_validator_mut_found:
  assumes "vlist_wf bv" "find_validator_mut bv vote = Inr (Some (i, v))"
  obtains k where "k < bv_count bv" "i = VEC_SIZE_BYTES + k * VSI_LEN" "vlist bv ! k = v"
    "vsi_vote_account_address v = vote"
  using assms by (auto simp: find_validator_mut_Inr find_Some_iff)

lemma list_inv_store:
  assumes "list_inv h bv" "find_validator_mut bv vote = Inr (Some (i, v))"
    and "vsi_vote_account_address v' = vote"
  obtains k where "k < bv_count bv" "vlist bv ! k = v" "vsi_vote_account_address v = vote"
    "list_inv h (overwrite i (enc_vsi v') bv)"
    "vlist (overwrite i (enc_vsi v') bv) = (vlist bv)[k := v']"
proof -
  have wf: "vlist_wf bv" using assms(1) by (simp add: list_inv_def)
  obtain k where k: "k < bv_count bv" "i = VEC_SIZE_BYTES + k * VSI_LEN" "vlist bv ! k = v"
      "vsi_vote_account_address v = vote"
    using find_validator_mut_found [OF wf assms(2)] by blast
  let ?bv = "overwrite i (enc_vsi v') bv"
  have st: "vlist_wf ?bv" "vlist ?bv = (vlist bv)[k := v']"
    unfolding k(2) by (rule vsi.store_refines [OF wf k(1)])+
  then have "bv_count ?bv = bv_count bv" by (metis length_bv_list length_list_update)
  moreover have "map vsi_vote_account_address ((vlist bv)[k := v'])
      = map vsi_vote_account_address (vlist bv)"
    using k assms(3) by (simp add: map_update list_update_same_conv)
  moreover have "length ?bv = length bv"
    unfolding k(2) using vsi.element_end [OF k(1) wf] by (simp add: length_overwrite)
  ultimately have "list_inv h ?bv"
    using assms(1) st by (simp add: list_inv_def)
  then show thesis using that [OF k(1,3,4)] st(2) by simp
qed

lemma list_inv_push:
  assumes inv: "list_inv h bv" and n: "bv_count bv \<noteq> unat (vlh_max_validators h)"
    and new: "vsi_vote_account_address v \<notin> vsi_vote_account_address ` set (vlist bv)"
    and push: "bv_push VSI_LEN (enc_vsi v) bv = Inr bv'"
  shows "list_inv h bv'" "vlist bv' = vlist bv @ [v]"
proof -
  have wf: "vlist_wf bv" using inv by (simp add: list_inv_def)
  have b: "bv_count bv + 1 < 2 ^ 32"
    using inv n unsigned_less [of "vlh_max_validators h", where ?'a = nat] by (simp add: list_inv_def)
  then show l: "vlist bv' = vlist bv @ [v]"
    using vsi.push_refines [OF wf b, of v] push by (auto split: if_splits)
  have "vlist_wf bv'" "length bv' = length bv"
    using vsi.push_refines [OF wf b, of v] push by (auto split: if_splits)
  moreover have "bv_count bv' = bv_count bv + 1" using l by (metis length_append_singleton length_bv_list Suc_eq_plus1)
  ultimately show "list_inv h bv'"
    using inv n new l by (auto simp: list_inv_def)
qed

lemma list_inv_retain:
  assumes inv: "list_inv h bv" and r: "bv_retain VSI_LEN P bv = Inr bv'"
  shows "list_inv h bv'" "vlist bv' = filter (\<lambda>v. P (enc_vsi v)) (vlist bv)"
proof -
  have wf: "vlist_wf bv" "length bv \<le> usize_max" using inv by (simp_all add: list_inv_def)
  show l: "vlist bv' = filter (\<lambda>v. P (enc_vsi v)) (vlist bv)"
    using vsi.retain_refines [OF wf, of P] r by auto
  have "vlist_wf bv'" "length bv' = length bv"
    using vsi.retain_refines [OF wf, of P] r by auto
  moreover have "bv_count bv' \<le> bv_count bv" using l by (metis length_bv_list length_filter_le)
  ultimately show "list_inv h bv'"
    using inv l by (auto simp: list_inv_def distinct_map inj_on_def)
qed

lemma list_inv_store_slice:
  assumes inv: "list_inv h bv"
    and sl: "bv_deserialize_mut_slice VSI_LEN dec_vsi skip len bv = Inr (offset, xs)"
    and same: "map vsi_vote_account_address ys = map vsi_vote_account_address xs"
  shows "list_inv h (overwrite offset (concat (map enc_vsi ys)) bv)"
    "vlist (overwrite offset (concat (map enc_vsi ys)) bv)
       = take skip (vlist bv) @ ys @ drop (skip + len) (vlist bv)"
    "xs = take len (drop skip (vlist bv))" "skip + len \<le> bv_count bv"
proof -
  have wf: "vlist_wf bv" "length bv \<le> usize_max" using inv by (simp_all add: list_inv_def)
  note d = vsi.deserialize_mut_slice_refines [OF wf sl]
  show "xs = take len (drop skip (vlist bv))" "skip + len \<le> bv_count bv" by (rule d)+
  have len: "length ys = len"
    using d arg_cong [OF same, of length] by simp
  note st = vsi.store_slice_refines [OF wf(1), of skip ys, unfolded len, OF d(1)]
  then show v: "vlist (overwrite offset (concat (map enc_vsi ys)) bv)
       = take skip (vlist bv) @ ys @ drop (skip + len) (vlist bv)"
    by (simp add: d(2))
  have "take skip (vlist bv) @ xs @ drop (skip + len) (vlist bv) = vlist bv"
    unfolding d(3) by (metis add.commute append_take_drop_id drop_drop)
  then have votes: "map vsi_vote_account_address (vlist (overwrite offset (concat (map enc_vsi ys)) bv))
      = map vsi_vote_account_address (vlist bv)"
    unfolding v map_append same by (metis map_append)
  then have "bv_count (overwrite offset (concat (map enc_vsi ys)) bv) = bv_count bv"
    by (metis length_bv_list length_map)
  then show "list_inv h (overwrite offset (concat (map enc_vsi ys)) bv)"
    using inv st votes by (simp add: list_inv_def d(2))
qed

section \<open>The contract of a handler\<close>

text \<open>
  \<open>pool_contract pid accts R w w'\<close>: the first account is a valid pool of the program before and
  stays one, its record moves along \<open>R\<close>, and of all the data that the program owns only that pool
  and its validator list may change, the list staying a list.
\<close>

definition list_kept :: "Pubkey \<Rightarrow> Pubkey \<Rightarrow> Pubkey \<Rightarrow> world \<Rightarrow> world \<Rightarrow> bool" where
  "list_kept pid k l w w' \<longleftrightarrow>
     l \<noteq> k \<longrightarrow> acc_owner (w' l) = pid \<longrightarrow>
       acc_owner (w l) = pid \<and> acc_data (w' l) = acc_data (w l)
       \<or> set (acc_data (w' l)) \<subseteq> {0}
       \<or> (\<exists>h bv. header_is_valid h \<and> acc_data (w' l) = ser_header h @ bv)"

definition pool_contract ::
    "Pubkey \<Rightarrow> AccountInfo list \<Rightarrow> (StakePool \<Rightarrow> StakePool \<Rightarrow> bool) \<Rightarrow> world \<Rightarrow> world \<Rightarrow> bool" where
  "pool_contract pid accts R w w' \<longleftrightarrow>
     (\<exists>pool rest p p'. accts = pool # rest \<and> owner_of w pool = pid
        \<and> load_pool w pool = Inr p \<and> sp_is_valid p
        \<and> load_pool w' pool = Inr p' \<and> sp_is_valid p' \<and> R p p'
        \<and> owned_frame pid {ai_key pool, sp_validator_list p} w w'
        \<and> list_kept pid (ai_key pool) (sp_validator_list p) w w')"

lemma pool_contract_mono:
  "pool_contract pid accts R w w' \<Longrightarrow> (\<And>p p'. R p p' \<Longrightarrow> S p p') \<Longrightarrow> pool_contract pid accts S w w'"
  unfolding pool_contract_def by blast

lemma pool_contract_pool:
  "pool_contract pid (pool # as) R w w' \<Longrightarrow> pool_contract pid (pool # bs) R w w'"
  unfolding pool_contract_def by blast

lemma frame_keeps_list:
  assumes "owned_frame pid {k} w w'"
  shows "list_kept pid k l w w'"
  using assms by (cases "acc_owner (w l) = pid") (simp_all add: owned_frame_def list_kept_def)

text \<open>How a handler ends: with no write, with the pool, with the list, or with both.\<close>

lemma contract_no_write:
  assumes "owner_of w pool = pid" "load_pool w pool = Inr p" "sp_is_valid p" "R p p"
    and "owned_frame pid {} w w'"
  shows "pool_contract pid (pool # rest) R w w'"
proof -
  have "load_pool w' pool = Inr p"
    using owned_frame_data(1) [OF assms(5,1)] assms(2) by (simp add: load_pool_def)
  moreover have "owned_frame pid {ai_key pool, sp_validator_list p} w w'"
    using assms(5) by (rule owned_frame_mono) simp
  moreover have "list_kept pid (ai_key pool) (sp_validator_list p) w w'"
    by (rule frame_keeps_list [OF owned_frame_mono [OF assms(5)]]) simp
  ultimately show ?thesis using assms unfolding pool_contract_def by blast
qed

lemma contract_store_pool:
  assumes "owner_of w pool = pid" "load_pool w pool = Inr p" "sp_is_valid p"
    and "owned_frame pid {} w w1" and st: "store_pool w1 pool p' = Inr w'"
    and "sp_is_valid p'" "R p p'"
  shows "pool_contract pid (pool # rest) R w w'"
proof -
  have f: "owned_frame pid {ai_key pool} w w'"
    using st by (rule store_pool_frame) (use assms(4) in \<open>auto intro: owned_frame_mono\<close>)
  then have "owned_frame pid {ai_key pool, sp_validator_list p} w w'"
    by (rule owned_frame_mono) simp
  then show ?thesis
    using assms load_store_pool [OF st] frame_keeps_list [OF f] unfolding pool_contract_def by blast
qed

lemma list_kept_store_list:
  "header_is_valid h \<Longrightarrow> list_kept pid k (ai_key l) w (store_list w1 l h bv)"
  unfolding list_kept_def store_list_def set_data_def by auto

lemma contract_store_list:
  assumes pool: "owner_of w pool = pid" "load_pool w pool = Inr p" "sp_is_valid p" "R p p"
    and list: "load_list w l = Inr (h, bv)" "header_is_valid h" "ai_key l = sp_validator_list p"
    and f: "owned_frame pid {} w w1"
  shows "pool_contract pid (pool # rest) R w (store_list w1 l h bv')"
proof -
  have ne: "ai_key pool \<noteq> ai_key l"
    using pool_not_list [OF pool(2,3) list(1,2)] .
  have "load_pool (store_list w1 l h bv') pool = Inr p"
    using owned_frame_data(1) [OF f pool(1)] pool(2) ne by (simp add: load_pool_def store_list_def)
  moreover have "owned_frame pid {ai_key pool, sp_validator_list p} w (store_list w1 l h bv')"
    unfolding store_list_def using f list(3)
    by (intro owned_frame_set_data) (auto intro: owned_frame_mono)
  moreover have "list_kept pid (ai_key pool) (sp_validator_list p) w (store_list w1 l h bv')"
    using list_kept_store_list [OF list(2)] list(3) by metis
  ultimately show ?thesis using pool unfolding pool_contract_def by blast
qed

lemma contract_store_both:
  assumes pool: "owner_of w pool = pid" "load_pool w pool = Inr p" "sp_is_valid p"
    and list: "load_list w l = Inr (h, bv)" "header_is_valid h" "ai_key l = sp_validator_list p"
    and f: "owned_frame pid {} w w1"
    and st: "store_pool w2 pool p' = Inr w3" "sp_is_valid p'" "R p p'"
    and order: "w2 = w1 \<and> w' = store_list w3 l h bv' \<or> w2 = store_list w1 l h bv' \<and> w' = w3"
  shows "pool_contract pid (pool # rest) R w w'"
proof -
  let ?K = "{ai_key pool, sp_validator_list p}"
  have ne: "ai_key pool \<noteq> ai_key l"
    using pool_not_list [OF pool(2,3) list(1,2)] .
  have data: "data_of w' pool = data_of w3 pool" "data_of w' l = ser_header h @ bv'"
    using order ne store_pool_others(1) [OF st(1), of l] by (auto simp: store_list_def)
  have f1: "owned_frame pid ?K w w1" using f by (rule owned_frame_mono) simp
  have "owned_frame pid ?K w w2"
    using order f1 list(3) by (auto simp: store_list_def intro: owned_frame_set_data)
  then have f3: "owned_frame pid ?K w w3" by (rule store_pool_frame [OF st(1)]) simp
  have "owned_frame pid ?K w w'"
    using order f3 list(3) by (auto simp: store_list_def intro: owned_frame_set_data)
  moreover have "load_pool w' pool = Inr p'"
    using load_store_pool [OF st(1)] data(1) by (simp add: load_pool_def)
  moreover have "list_kept pid (ai_key pool) (sp_validator_list p) w w'"
    using data(2) list(2,3) by (auto simp: list_kept_def data_of_def)
  ultimately show ?thesis using pool st(2,3) unfolding pool_contract_def by blast
qed

text \<open>Calls of foreign programs may come before a handler.\<close>

lemma pool_before_frame:
  assumes f: "owned_frame pid {} w0 w"
    and pool: "owner_of w pool = pid" "load_pool w pool = Inr p" "sp_is_valid p"
  shows "owner_of w0 pool = pid" "load_pool w0 pool = Inr p"
proof -
  show o: "owner_of w0 pool = pid"
  proof (rule ccontr)
    assume "owner_of w0 pool \<noteq> pid"
    then have "set (data_of w pool) \<subseteq> {0}"
      using f pool(1) by (simp add: owned_frame_def owner_of_def data_of_def)
    then show False using zeroed_is_no_pool pool(2,3) by blast
  qed
  show "load_pool w0 pool = Inr p"
    using owned_frame_data(1) [OF f o] pool(2) by (simp add: load_pool_def)
qed

lemma contract_after_frame:
  assumes f: "owned_frame pid {} w0 w" and c: "pool_contract pid accts R w w'"
  shows "pool_contract pid accts R w0 w'"
proof -
  obtain pool rest p p' where pool: "accts = pool # rest" "owner_of w pool = pid"
      "load_pool w pool = Inr p" "sp_is_valid p" "load_pool w' pool = Inr p'" "sp_is_valid p'" "R p p'"
    and frame: "owned_frame pid {ai_key pool, sp_validator_list p} w w'"
      "list_kept pid (ai_key pool) (sp_validator_list p) w w'"
    using c unfolding pool_contract_def by blast
  let ?l = "sp_validator_list p"
  have "list_kept pid (ai_key pool) ?l w0 w'"
  proof (cases "acc_owner (w0 ?l) = pid")
    case True
    then have "acc_data (w ?l) = acc_data (w0 ?l)" using f by (simp add: owned_frame_def)
    then show ?thesis using frame(2) True by (simp add: list_kept_def) blast
  next
    case False
    then have "acc_owner (w ?l) = pid \<Longrightarrow> set (acc_data (w ?l)) \<subseteq> {0}"
      using f by (simp add: owned_frame_def)
    then show ?thesis using frame(2) unfolding list_kept_def by metis
  qed
  then show ?thesis
    using pool pool_before_frame [OF f pool(2-4)] owned_frame_trans [OF f frame(1)]
    unfolding pool_contract_def by blast
qed

text \<open>\<dots> and after it.\<close>

lemma contract_before_frame:
  assumes c: "pool_contract pid accts R w w1" and f: "owned_frame pid {} w1 w'"
  shows "pool_contract pid accts R w w'"
proof -
  obtain pool rest p p' where pool: "accts = pool # rest" "owner_of w pool = pid"
      "load_pool w pool = Inr p" "sp_is_valid p" "load_pool w1 pool = Inr p'" "sp_is_valid p'" "R p p'"
    and frame: "owned_frame pid {ai_key pool, sp_validator_list p} w w1"
      "list_kept pid (ai_key pool) (sp_validator_list p) w w1"
    using c unfolding pool_contract_def by blast
  let ?l = "sp_validator_list p"
  have "owner_of w1 pool = pid" using frame(1) pool(2) by (simp add: owned_frame_def owner_of_def)
  then have "load_pool w' pool = Inr p'"
    using owned_frame_data(1) [OF f] pool(5) by (simp add: load_pool_def)
  moreover have "list_kept pid (ai_key pool) ?l w w'"
    using frame(2) f by (cases "acc_owner (w1 ?l) = pid") (simp_all add: list_kept_def owned_frame_def)
  ultimately show ?thesis
    using pool owned_frame_trans_right [OF frame(1) f] unfolding pool_contract_def by blast
qed

text \<open>A property of all valid pools of the program is kept when every step keeps it.\<close>

definition all_pools :: "Pubkey \<Rightarrow> (StakePool \<Rightarrow> bool) \<Rightarrow> world \<Rightarrow> bool" where
  "all_pools pid I w \<longleftrightarrow>
     (\<forall>a p. owner_of w a = pid \<longrightarrow> load_pool w a = Inr p \<longrightarrow> sp_is_valid p \<longrightarrow> I p)"

lemma all_pools_frame:
  assumes "all_pools pid I w" "owned_frame pid {} w w'"
  shows "all_pools pid I w'"
  unfolding all_pools_def
proof (intro allI impI)
  fix a p assume a: "owner_of w' a = pid" "load_pool w' a = Inr p" "sp_is_valid p"
  show "I p"
  proof (cases "owner_of w a = pid")
    case True
    then have "load_pool w a = Inr p"
      using owned_frame_data(1) [OF assms(2)] a(2) by (simp add: load_pool_def)
    then show ?thesis using assms(1) True a(3) by (simp add: all_pools_def)
  next
    case False
    then have "set (data_of w' a) \<subseteq> {0}"
      using assms(2) a(1) by (simp add: owned_frame_def owner_of_def data_of_def)
    then show ?thesis using zeroed_is_no_pool a by blast
  qed
qed

lemma all_pools_contract:
  assumes inv: "all_pools pid I w" and c: "pool_contract pid accts R w w'"
    and step: "\<And>p p'. R p p' \<Longrightarrow> I p \<Longrightarrow> I p'"
  shows "all_pools pid I w'"
  unfolding all_pools_def
proof (intro allI impI)
  fix a q assume a: "owner_of w' a = pid" "load_pool w' a = Inr q" "sp_is_valid q"
  obtain pool p p' where pool: "owner_of w pool = pid" "load_pool w pool = Inr p" "sp_is_valid p"
      "load_pool w' pool = Inr p'" "R p p'"
    and frame: "owned_frame pid {ai_key pool, sp_validator_list p} w w'"
      "list_kept pid (ai_key pool) (sp_validator_list p) w w'"
    using c unfolding pool_contract_def by blast
  have same: "I q" if "acc_owner (w (ai_key a)) = pid" "acc_data (w' (ai_key a)) = acc_data (w (ai_key a))"
  proof -
    have "load_pool w a = Inr q" using a(2) that(2) by (simp add: load_pool_def data_of_def)
    then show ?thesis using inv that(1) a(3) by (simp add: all_pools_def owner_of_def)
  qed
  consider "ai_key a = ai_key pool" | "ai_key a = sp_validator_list p" "ai_key a \<noteq> ai_key pool"
    | "ai_key a \<notin> {ai_key pool, sp_validator_list p}" by blast
  then show "I q"
  proof cases
    case 1
    then have "q = p'" using a(2) pool(4) by (simp add: load_pool_def data_of_def)
    then show ?thesis using step [OF pool(5)] inv pool by (auto simp: all_pools_def)
  next
    case 2
    then consider "acc_owner (w (ai_key a)) = pid" "acc_data (w' (ai_key a)) = acc_data (w (ai_key a))"
      | "set (data_of w' a) \<subseteq> {0}" | h bv where "header_is_valid h" "load_list w' a = Inr (h, bv)"
      using frame(2) a(1) unfolding list_kept_def owner_of_def data_of_def load_list_Inr by metis
    then show ?thesis
    proof cases
      case 1
      then show ?thesis by (rule same)
    next
      case 2
      then show ?thesis using zeroed_is_no_pool [OF _ a(2)] a(3) by simp
    next
      case 3
      then show ?thesis using list_is_no_pool [OF _ _ a(2)] a(3) by simp
    qed
  next
    case 3
    show ?thesis
    proof (cases "acc_owner (w (ai_key a)) = pid")
      case True
      then show ?thesis using frame(1) 3 by (intro same) (simp_all add: owned_frame_def)
    next
      case False
      then have "set (data_of w' a) \<subseteq> {0}"
        using frame(1) 3 a(1) by (simp add: owned_frame_def owner_of_def data_of_def)
      then show ?thesis using zeroed_is_no_pool [OF _ a(2)] a(3) by simp
    qed
  qed
qed

end
