(* ===== verification/Pool_Machine.thy ===== *)
theory Pool_Machine
  imports Pool_Access
begin

text \<open>
  The abstract specification of a stake pool: a labelled transition system on the pool record, with
  exact integer amounts, that says which fields an action may change and how. The theorems about
  handlers show that each of them implements one action; the lemmas here derive once, by rule
  induction over the actions, what holds of all of them: the rates stay fractions, the value of a
  pool token does not fall, keys and roles change only where they may. The locale \<open>pool_handler\<close> is
  the interface between handlers and this machine.
\<close>

section \<open>Actions\<close>

datatype action =
    Keeping
  | NewManager
  | NewFee FeeType
  | NewStaker
  | NewFunding
  | NewPreference
  | Depositing int
  | Withdrawing int
  | Updating

text \<open>A scheduled fee that is due at the epoch boundary.\<close>

fun fee_due :: "Fee FutureEpoch \<Rightarrow> Fee \<Rightarrow> Fee" where
  "fee_due (FE_One f) current = f"
| "fee_due _ current = current"

inductive pool_step :: "action \<Rightarrow> StakePool \<Rightarrow> StakePool \<Rightarrow> bool" where
  step_keep: "pool_step Keeping p p"
| step_manager:
    "pool_step NewManager p (p\<lparr>sp_manager := m, sp_manager_fee_account := a\<rparr>)"
| step_fee: "check_too_high f = Inr () \<Longrightarrow> update_fee p f = Inr p' \<Longrightarrow> pool_step (NewFee f) p p'"
| step_staker: "pool_step NewStaker p (p\<lparr>sp_staker := s\<rparr>)"
| step_funding:
    "pool_step NewFunding p (p\<lparr>sp_stake_deposit_authority := a, sp_sol_deposit_authority := b,
                                sp_sol_withdraw_authority := c\<rparr>)"
| step_preference:
    "pool_step NewPreference p (p\<lparr>sp_preferred_deposit_validator_vote_address := a,
                                   sp_preferred_withdraw_validator_vote_address := b\<rparr>)"
| step_deposit:
    "0 \<le> l \<Longrightarrow> uint t = pool_total p + l \<Longrightarrow> uint s = pool_supply p + deposit_value p l \<Longrightarrow>
     pool_step (Depositing l) p (p\<lparr>sp_pool_token_supply := s, sp_total_lamports := t\<rparr>)"
| step_withdraw:
    "0 \<le> tokens \<Longrightarrow> 0 \<le> l \<Longrightarrow> l \<le> withdraw_value p tokens \<Longrightarrow>
     uint t = pool_total p - l \<Longrightarrow> uint s = pool_supply p - tokens \<Longrightarrow>
     pool_step (Withdrawing tokens) p
       (p\<lparr>sp_preferred_deposit_validator_vote_address := a,
          sp_preferred_withdraw_validator_vote_address := b,
          sp_pool_token_supply := s, sp_total_lamports := t\<rparr>)"
| step_update:
    "\<not> sp_last_update_epoch p < epoch \<Longrightarrow>
     pool_step Updating p (p\<lparr>sp_total_lamports := t, sp_pool_token_supply := s\<rparr>)"
| step_epoch:
    "sp_last_update_epoch p < epoch \<Longrightarrow>
     pool_step Updating p
       (p\<lparr>sp_epoch_fee := fee_due (sp_next_epoch_fee p) (sp_epoch_fee p),
          sp_next_epoch_fee := update_epoch (sp_next_epoch_fee p),
          sp_stake_withdrawal_fee :=
            fee_due (sp_next_stake_withdrawal_fee p) (sp_stake_withdrawal_fee p),
          sp_next_stake_withdrawal_fee := update_epoch (sp_next_stake_withdrawal_fee p),
          sp_sol_withdrawal_fee :=
            fee_due (sp_next_sol_withdrawal_fee p) (sp_sol_withdrawal_fee p),
          sp_next_sol_withdrawal_fee := update_epoch (sp_next_sol_withdrawal_fee p),
          sp_last_update_epoch := epoch,
          sp_last_epoch_total_lamports := sp_total_lamports p,
          sp_last_epoch_pool_token_supply := sp_pool_token_supply p,
          sp_total_lamports := t, sp_pool_token_supply := s\<rparr>)"

inductive_cases step_keepE [elim!]: "pool_step Keeping p p'"
inductive_cases step_depositE: "pool_step (Depositing l) p p'"
inductive_cases step_withdrawE: "pool_step (Withdrawing t) p p'"
inductive_cases step_feeE: "pool_step (NewFee f) p p'"
inductive_cases step_updateE: "pool_step Updating p p'"

section \<open>What every action keeps\<close>

text \<open>The rates of a pool are fractions of one, the scheduled ones included.\<close>

fun scheduled_ok :: "Fee FutureEpoch \<Rightarrow> bool" where
  "scheduled_ok FE_None = True"
| "scheduled_ok (FE_One f) = (\<not> fee_above_one f)"
| "scheduled_ok (FE_Two f) = (\<not> fee_above_one f)"

definition fees_ok :: "StakePool \<Rightarrow> bool" where
  "fees_ok p \<longleftrightarrow>
     \<not> fee_above_one (sp_epoch_fee p) \<and> scheduled_ok (sp_next_epoch_fee p)
     \<and> \<not> fee_above_one (sp_stake_deposit_fee p) \<and> \<not> fee_above_one (sp_sol_deposit_fee p)
     \<and> \<not> fee_above_one (sp_stake_withdrawal_fee p) \<and> scheduled_ok (sp_next_stake_withdrawal_fee p)
     \<and> \<not> fee_above_one (sp_sol_withdrawal_fee p) \<and> scheduled_ok (sp_next_sol_withdrawal_fee p)
     \<and> sp_stake_referral_fee p \<le> 100 \<and> sp_sol_referral_fee p \<le> 100"

lemma scheduled_ok_next:
  "scheduled_ok n \<Longrightarrow> scheduled_ok (update_epoch n)"
  "scheduled_ok n \<Longrightarrow> \<not> fee_above_one f \<Longrightarrow> \<not> fee_above_one (fee_due n f)"
  by (cases n; simp)+

lemma update_fee_ok:
  assumes "check_too_high f = Inr ()" "update_fee p f = Inr p'" "fees_ok p"
  shows "fees_ok p'"
  using assms by (cases f) (auto simp: check_too_high_fee fees_ok_def future_epoch_new_def result_simps)

lemma step_fees_ok: "pool_step a p p' \<Longrightarrow> fees_ok p \<Longrightarrow> fees_ok p'"
  by (induction rule: pool_step.induct) (auto simp: update_fee_ok, auto simp: fees_ok_def scheduled_ok_next)

text \<open>What identifies a pool: no action changes it.\<close>

definition pool_identity ::
    "StakePool \<Rightarrow> AccountType \<times> u8 \<times> Pubkey \<times> Pubkey \<times> Pubkey \<times> Pubkey \<times> Lockup" where
  "pool_identity p =
     (sp_account_type p, sp_stake_withdraw_bump_seed p, sp_validator_list p, sp_reserve_stake p,
      sp_pool_mint p, sp_token_program_id p, sp_lockup p)"

lemma update_fee_fields:
  assumes "update_fee p f = Inr p'"
  shows "pool_identity p' = pool_identity p"
    and "sp_total_lamports p' = sp_total_lamports p"
    and "sp_pool_token_supply p' = sp_pool_token_supply p"
    and "sp_manager p' = sp_manager p" and "sp_staker p' = sp_staker p"
    and "sp_last_update_epoch p' = sp_last_update_epoch p"
    and "sp_account_type p' = sp_account_type p"
  using assms by (cases f; auto simp: pool_identity_def result_simps)+

lemma step_identity: "pool_step a p p' \<Longrightarrow> pool_identity p' = pool_identity p"
  by (induction rule: pool_step.induct) (simp_all add: update_fee_fields, simp_all add: pool_identity_def)

lemma step_valid: "pool_step a p p' \<Longrightarrow> sp_is_valid p \<Longrightarrow> sp_is_valid p'"
  using step_identity [of a p p'] by (simp add: pool_identity_def sp_is_valid_def)

text \<open>Who holds a role changes only by the action for that role.\<close>

lemma step_roles:
  assumes "pool_step a p p'"
  shows "a \<noteq> NewManager \<Longrightarrow> sp_manager p' = sp_manager p"
    and "a \<noteq> NewStaker \<Longrightarrow> sp_staker p' = sp_staker p"
  using assms by (induction rule: pool_step.induct) (simp_all add: update_fee_fields)

text \<open>
  The value of a pool token falls by no action but the update of the balance, in a pool that is
  not left with lamports that belong to nobody.
\<close>

definition owned_pool :: "StakePool \<Rightarrow> bool" where
  "owned_pool p \<longleftrightarrow> sp_total_lamports p = 0 \<or> sp_pool_token_supply p \<noteq> 0"

lemma owned_pool_iff: "owned_pool p \<longleftrightarrow> pool_total p = 0 \<or> 0 < pool_supply p"
  by (simp add: owned_pool_def word_zero_uint order_less_le)

lemma rate_le_refl [simp]:
  "sp_total_lamports q = sp_total_lamports p \<Longrightarrow> sp_pool_token_supply q = sp_pool_token_supply p
     \<Longrightarrow> rate_le p q"
  by (simp add: rate_le_def)

lemma step_rate:
  assumes "pool_step a p p'" "a \<noteq> Updating" "owned_pool p"
  shows "rate_le p p'"
  using assms(1)
proof cases
  case (step_fee f)
  then show ?thesis by (simp add: update_fee_fields)
next
  case (step_deposit l t s)
  then show ?thesis
    using assms(3) by (intro rate_after_deposit [where l = l]) (simp_all add: owned_pool_iff)
next
  case (step_withdraw tokens l t s a b)
  then show ?thesis
    by (intro rate_after_withdraw [where w = l and t = tokens]) simp_all
qed (use assms(2) in simp_all)

section \<open>The interface of the handlers\<close>

definition step_of :: "(action \<Rightarrow> bool) \<Rightarrow> StakePool \<Rightarrow> StakePool \<Rightarrow> bool" where
  "step_of acts p p' \<longleftrightarrow> (\<exists>a. acts a \<and> pool_step a p p')"

lemma step_ofI: "pool_step a p p' \<Longrightarrow> acts a \<Longrightarrow> step_of acts p p'"
  unfolding step_of_def by blast

locale pool_handler =
  fixes run :: "env \<Rightarrow> Pubkey \<Rightarrow> AccountInfo list \<Rightarrow> world \<Rightarrow> world result"
    and acts :: "action \<Rightarrow> bool"
  assumes contract: "cpi_law E pid \<Longrightarrow> run E pid accts w = Inr w' \<Longrightarrow>
    pool_contract pid accts (step_of acts) w w'"
begin

lemma keeps_fees_ok:
  assumes "cpi_law E pid" "run E pid accts w = Inr w'" "all_pools pid fees_ok w"
  shows "all_pools pid fees_ok w'"
  by (rule all_pools_contract [OF assms(3) contract [OF assms(1,2)]]) (auto simp: step_of_def intro: step_fees_ok)

lemma implements:
  assumes "cpi_law E pid" "run E pid accts w = Inr w'" "\<And>a. acts a \<Longrightarrow> P a"
  shows "pool_contract pid accts (step_of P) w w'"
  using contract [OF assms(1,2)] by (rule pool_contract_mono) (use assms(3) in \<open>auto simp: step_of_def\<close>)

end

lemma contract_writes:
  assumes "owner_of w pool = pid" "load_pool w pool = Inr p" "sp_is_valid p"
    and "owned_frame pid {} w w1" "store_pool w1 pool p' = Inr w'" "pool_step a p p'" "acts a"
  shows "pool_contract pid (pool # rest) (step_of acts) w w'"
  using assms(1-5) by (rule contract_store_pool) (use assms step_valid step_ofI in blast)+

lemma contract_keeps:
  assumes "owner_of w pool = pid" "load_pool w pool = Inr p" "sp_is_valid p"
    and "owned_frame pid {} w w'" "acts Keeping"
  shows "pool_contract pid (pool # rest) (step_of acts) w w'"
  using assms(1-3) step_ofI [of Keeping p p acts, OF step_keep assms(5)] assms(4) by (rule contract_no_write)

end
