(* ===== verification/Sample.thy ===== *)
theory Sample
  imports Pool_Machine
begin

text \<open>
  A concrete run-time environment and store on which the witnesses evaluate the handlers: one pool
  (\<^const>\<open>sample_pool\<close>) with the three validators of \<^const>\<open>sample_vec\<close> and room for a fourth, in
  epoch 5. Foreign programs accept every call and change nothing, which is one of the behaviours
  that \<^const>\<open>cpi_law\<close> allows; derived addresses are all 50.
\<close>

definition sample_meta :: Meta where
  "sample_meta = \<lparr>meta_rent_exempt_reserve = 2282880,
     meta_authorized = \<lparr>auth_staker = 50, auth_withdrawer = 50\<rparr>, meta_lockup = default_lockup\<rparr>"

definition sample_delegation :: Delegation where
  "sample_delegation = \<lparr>del_voter_pubkey = 22, del_stake = 2000000, del_activation_epoch = 1,
     del_deactivation_epoch = EPOCH_MAX\<rparr>"

definition sample_mint :: Mint where
  "sample_mint = \<lparr>mint_supply = 2000000, mint_decimals = 9, mint_authority = Some 50,
     mint_freeze_authority = None, mint_extensions = Inr []\<rparr>"

definition sample_rent :: Rent where
  "sample_rent = \<lparr>rent_minimum_balance = (\<lambda>_. 2282880), rent_is_exempt = (\<lambda>_ _. True)\<rparr>"

definition sample_env :: env where
  "sample_env =
     \<lparr>e_system_program_id = 5, e_stake_program_id = 6, e_mpl_token_metadata_id = 7,
      e_native_mint_id = 8, e_associated_token_program_id = 9,
      e_find_program_address = (\<lambda>_ _. (50, 7)),
      e_create_program_address = (\<lambda>_ _. Inr 50),
      e_clock_get = Inr 5, e_clock_from_account_info = (\<lambda>_ _. Inr 5),
      e_rent_get = Inr sample_rent, e_rent_from_account_info = (\<lambda>_ _. Inr sample_rent),
      e_epoch_rewards_active = Inr False, e_minimum_delegation = Inr 1000000,
      e_insufficient_delegation_code = 12, e_stake_space = 200, e_token_account_len = 165,
      e_decode_stake = (\<lambda>d. if d = [1] then Inr (StakeInitialized sample_meta)
        else if d = [2] then Inr (StakeDelegated sample_meta sample_delegation)
        else Inl BorshIoError),
      e_unpack_mint = (\<lambda>d. if d = [3] then Inr sample_mint else Inl InvalidAccountData),
      e_unpack_token_account = (\<lambda>d. if d = [4]
        then Inr \<lparr>ta_mint = 16, ta_is_initialized = True, ta_extensions = Inr []\<rparr>
        else Inl InvalidAccountData),
      e_unpack_token_amount = (\<lambda>_. Inl InvalidAccountData),
      e_check_spl_token_program = (\<lambda>_. Inr ()), e_build_instruction = (\<lambda>_. Inr ()),
      e_invoke_signed = (\<lambda>_ _ _ w. Inr w), e_extract_user = (\<lambda>_ a _. Inr (ai_key a)),
      e_associated_token_address = (\<lambda>_ _. 60), e_program_signer_seed = [],
      e_create_pda_account = (\<lambda>_ _ _ _ _ _ _ w. Inr w)\<rparr>"

definition sample_header :: ValidatorListHeader where
  "sample_header = \<lparr>vlh_account_type = ValidatorListAccount, vlh_max_validators = 4\<rparr>"

definition sample_world :: world where
  "sample_world k =
     (if k = 1 then \<lparr>acc_lamports = 5000000, acc_data = ser_stake_pool sample_pool @ replicate 200 0,
                        acc_owner = 99\<rparr>
      else if k = 14 then \<lparr>acc_lamports = 5000000, acc_data = ser_header sample_header @ sample_vec,
                           acc_owner = 99\<rparr>
      else if k = 15 then \<lparr>acc_lamports = 10000000, acc_data = [1], acc_owner = 6\<rparr>
      else if k = 16 then \<lparr>acc_lamports = 1, acc_data = [3], acc_owner = 18\<rparr>
      else if k = 17 then \<lparr>acc_lamports = 1, acc_data = [4], acc_owner = 18\<rparr>
      else if k = 50 then \<lparr>acc_lamports = 8565760, acc_data = [2], acc_owner = 6\<rparr>
      else \<lparr>acc_lamports = 0, acc_data = [], acc_owner = 5\<rparr>)"

definition acct :: "Pubkey \<Rightarrow> AccountInfo" where
  "acct k = \<lparr>ai_key = k, ai_is_signer = False, ai_is_writable = True\<rparr>"

definition signer :: "Pubkey \<Rightarrow> AccountInfo" where
  "signer k = \<lparr>ai_key = k, ai_is_signer = True, ai_is_writable = True\<rparr>"

named_theorems sample_simps

lemma acct_fields [sample_simps]:
  "ai_key (acct k) = k" "ai_is_signer (acct k) = False" "ai_is_writable (acct k) = True"
  "ai_key (signer k) = k" "ai_is_signer (signer k) = True" "ai_is_writable (signer k) = True"
  by (simp_all add: acct_def signer_def)

lemma sample_env_fields [sample_simps]:
  "e_system_program_id sample_env = 5" "e_stake_program_id sample_env = 6"
  "e_find_program_address sample_env ss k = (50, 7)" "e_create_program_address sample_env ss k = Inr 50"
  "e_clock_get sample_env = Inr 5" "e_clock_from_account_info sample_env w a = Inr 5"
  "e_rent_get sample_env = Inr sample_rent" "e_rent_from_account_info sample_env w a = Inr sample_rent"
  "e_epoch_rewards_active sample_env = Inr False" "e_minimum_delegation sample_env = Inr 1000000"
  "e_stake_space sample_env = 200" "e_token_account_len sample_env = 165"
  "e_decode_stake sample_env [1] = Inr (StakeInitialized sample_meta)"
  "e_decode_stake sample_env [2] = Inr (StakeDelegated sample_meta sample_delegation)"
  "e_unpack_mint sample_env [3] = Inr sample_mint"
  "e_check_spl_token_program sample_env k = Inr ()" "e_build_instruction sample_env ix = Inr ()"
  "e_invoke_signed sample_env ix infos seeds w = Inr w"
  "e_create_pda_account sample_env p r n k b c sds w = Inr w"
  by (simp_all add: sample_env_def)

lemma sample_pool_fields [sample_simps]:
  "sp_manager sample_pool = 11" "sp_staker sample_pool = 12" "sp_validator_list sample_pool = 14"
  "sp_reserve_stake sample_pool = 15" "sp_pool_mint sample_pool = 16"
  "sp_manager_fee_account sample_pool = 17" "sp_token_program_id sample_pool = 18"
  "sp_stake_withdraw_bump_seed sample_pool = 7" "sp_last_update_epoch sample_pool = 5"
  "sp_lockup sample_pool = default_lockup"
  by (simp_all add: sample_pool_def)

lemma sample_meta_fields [sample_simps]:
  "meta_rent_exempt_reserve sample_meta = 2282880" "meta_lockup sample_meta = default_lockup"
  "auth_staker (meta_authorized sample_meta) = 50" "auth_withdrawer (meta_authorized sample_meta) = 50"
  "rent_minimum_balance sample_rent n = 2282880" "rent_is_exempt sample_rent l n"
  "del_voter_pubkey sample_delegation = 22" "del_stake sample_delegation = 2000000"
  "del_deactivation_epoch sample_delegation = EPOCH_MAX"
  by (simp_all add: sample_meta_def sample_rent_def sample_delegation_def)

lemma sample_accounts [sample_simps]:
  "owner_of sample_world (acct 1) = 99" "owner_of sample_world (acct 14) = 99"
  "owner_of sample_world (acct 15) = 6" "owner_of sample_world (acct 16) = 18"
  "owner_of sample_world (acct 17) = 18" "owner_of sample_world (acct 50) = 6"
  "lamports_of sample_world (acct 15) = 10000000" "lamports_of sample_world (acct 50) = 8565760"
  "data_of sample_world (acct 15) = [1]" "data_of sample_world (acct 16) = [3]"
  "data_of sample_world (acct 17) = [4]" "data_of sample_world (acct 50) = [2]"
  "data_of sample_world (acct 1) = ser_stake_pool sample_pool @ replicate 200 0"
  by (simp_all add: owner_of_def lamports_of_def data_of_def sample_world_def acct_def)

lemma sample_load [sample_simps]:
  "load_pool sample_world (acct 1) = Inr sample_pool"
  "load_list sample_world (acct 14) = Inr (sample_header, sample_vec)"
  using b_pool.read_prefix [of sample_pool "replicate 200 0"]
  by (simp_all add: load_pool_def load_list_Inr data_of_def sample_world_def acct_def)

lemma sample_valid [sample_simps]: "sp_is_valid sample_pool" "header_is_valid sample_header"
  by (simp_all add: sample_pool_def sp_is_valid_def sample_header_def header_is_valid_def)

lemma sample_law: "cpi_law sample_env pid"
  by (simp add: cpi_law_def sample_env_def)

lemma sample_count: "bv_count sample_vec = 3"
proof -
  have "length (vlist sample_vec) = 3"
    unfolding sample_vec_facts(2) by (simp add: sample_validators_def)
  then show ?thesis by simp
qed

lemma sample_list_inv: "list_inv sample_header sample_vec"
  by (simp add: list_inv_def sample_valid sample_vec_facts usize_max_def sample_header_def sample_count)
    (simp add: sample_validators_def default_vsi_def header_is_valid_def)

lemma sample_store:
  assumes "length (ser_stake_pool p) \<le> length (ser_stake_pool sample_pool) + 200"
  shows "\<exists>w'. store_pool sample_world (acct 1) p = Inr w'"
  using assms by (simp add: store_pool_def to_writer_def sample_accounts)

lemma sample_fees_ok: "fees_ok sample_pool"
  by (simp add: fees_ok_def sample_pool_def fee_above_one_def)

lemma sample_find:
  "find_validator_mut sample_vec 22 = Inr (Some (77, sample_validators ! 1))"
  unfolding find_validator_mut_Inr [OF sample_vec_facts(1)] sample_count sample_vec_facts(2)
  by (simp add: sample_validators_def default_vsi_def upt_rec VEC_SIZE_BYTES_def VSI_LEN_def)

end
