(* ===== verification/Instructions.thy ===== *)
theory Instructions
  imports Borsh
begin

text \<open>
  The instruction set of the program and its wire format (\<^verbatim>\<open>program/src/instruction.rs\<close>): the enum
  \<open>StakePoolInstruction\<close> with the enums it carries, and the Borsh encoding that the derive macros
  generate for it (a tag byte in declaration order, then the fields). A Rust \<open>String\<close> is its UTF-8
  bytes; reading one validates them, as \<open>String::from_utf8\<close> does. The lemmas show that reading
  inverts writing and that reading is strict: a whole input is one instruction or it is refused.
\<close>

section \<open>The instruction set\<close>

datatype (plugins only: code) PreferredValidatorType = PreferredDeposit | PreferredWithdraw

datatype (plugins only: code) FundingType = FundStakeDeposit | FundSolDeposit | FundSolWithdraw

type_synonym rust_string = "byte list"

datatype (plugins only: code) StakePoolInstruction =
    Initialize Fee Fee Fee u8 u32
  | AddValidatorToPool u32
  | RemoveValidatorFromPool
  | DecreaseValidatorStake u64 u64
  | IncreaseValidatorStake u64 u64
  | SetPreferredValidator PreferredValidatorType "Pubkey option"
  | UpdateValidatorListBalance u32 bool
  | UpdateStakePoolBalance
  | CleanupRemovedValidatorEntries
  | DepositStake
  | WithdrawStake u64
  | SetManager
  | SetFee FeeType
  | SetStaker
  | DepositSol u64
  | SetFundingAuthority FundingType
  | WithdrawSol u64
  | CreateTokenMetadata rust_string rust_string rust_string
  | UpdateTokenMetadata rust_string rust_string rust_string
  | IncreaseAdditionalValidatorStake u64 u64 u64
  | DecreaseAdditionalValidatorStake u64 u64 u64
  | DecreaseValidatorStakeWithReserve u64 u64
  | Redelegate u64 u64 u64 u64
  | DepositStakeWithSlippage u64
  | WithdrawStakeWithSlippage u64 u64
  | DepositSolWithSlippage u64 u64
  | WithdrawSolWithSlippage u64 u64
  | DepositWsolWithSession u64
  | WithdrawWsolWithSession u64

section \<open>UTF-8\<close>

definition in_range :: "byte \<Rightarrow> byte \<Rightarrow> byte \<Rightarrow> bool" where
  "in_range lo hi b \<longleftrightarrow> lo \<le> b \<and> b \<le> hi"

abbreviation "cont \<equiv> in_range 0x80 0xBF"

text \<open>The rest of the input behind one well-formed character.\<close>

definition utf8_step :: "byte list \<Rightarrow> byte list option" where
  "utf8_step bs = (case bs of
     [] \<Rightarrow> None
   | b0 # r \<Rightarrow>
       if b0 < 0x80 then Some r
       else if in_range 0xC2 0xDF b0 then
         (case r of b1 # r \<Rightarrow> if cont b1 then Some r else None | _ \<Rightarrow> None)
       else if in_range 0xE0 0xEF b0 then
         (case r of b1 # b2 # r \<Rightarrow>
            if in_range (if b0 = 0xE0 then 0xA0 else 0x80) (if b0 = 0xED then 0x9F else 0xBF) b1
               \<and> cont b2 then Some r else None
          | _ \<Rightarrow> None)
       else if in_range 0xF0 0xF4 b0 then
         (case r of b1 # b2 # b3 # r \<Rightarrow>
            if in_range (if b0 = 0xF0 then 0x90 else 0x80) (if b0 = 0xF4 then 0x8F else 0xBF) b1
               \<and> cont b2 \<and> cont b3 then Some r else None
          | _ \<Rightarrow> None)
       else None)"

lemma utf8_step_shorter: "utf8_step bs = Some r \<Longrightarrow> length r < length bs"
  by (auto simp: utf8_step_def split: list.splits if_splits)

function utf8_valid :: "byte list \<Rightarrow> bool" where
  "utf8_valid bs =
     (case bs of [] \<Rightarrow> True
      | _ \<Rightarrow> (case utf8_step bs of None \<Rightarrow> False | Some r \<Rightarrow> utf8_valid r))"
  by pat_completeness auto
termination by (relation "measure length") (auto dest: utf8_step_shorter)

declare utf8_valid.simps [simp del]

lemma utf8_valid_ascii: "\<forall>b \<in> set bs. b < 0x80 \<Longrightarrow> utf8_valid bs"
proof (induction bs)
  case (Cons b bs)
  then show ?case by (subst utf8_valid.simps) (simp add: utf8_step_def)
qed (simp add: utf8_valid.simps)

section \<open>Wire format\<close>

definition ser_bool :: "bool \<Rightarrow> byte list" where
  "ser_bool b = [if b then 1 else 0]"

definition de_bool :: "bool decoder" where
  "de_bool bs =
     do { (b, bs) \<leftarrow> de_u8 bs;
          if b = 0 then Some (False, bs) else if b = 1 then Some (True, bs) else None }"

definition ser_string :: "rust_string \<Rightarrow> byte list" where
  "ser_string s = ser_u32 (of_nat (length s)) @ s"

definition de_string :: "rust_string decoder" where
  "de_string bs =
     do { (n, bs) \<leftarrow> de_u32 bs;
          if length bs < unat n then None
          else if utf8_valid (take (unat n) bs) then Some (take (unat n) bs, drop (unat n) bs)
          else None }"

fun ser_preferred :: "PreferredValidatorType \<Rightarrow> byte list" where
  "ser_preferred PreferredDeposit = [0]"
| "ser_preferred PreferredWithdraw = [1]"

definition de_preferred :: "PreferredValidatorType decoder" where
  "de_preferred bs =
     do { (t, bs) \<leftarrow> de_u8 bs;
          if t = 0 then Some (PreferredDeposit, bs)
          else if t = 1 then Some (PreferredWithdraw, bs) else None }"

fun ser_funding :: "FundingType \<Rightarrow> byte list" where
  "ser_funding FundStakeDeposit = [0]"
| "ser_funding FundSolDeposit = [1]"
| "ser_funding FundSolWithdraw = [2]"

definition de_funding :: "FundingType decoder" where
  "de_funding bs =
     do { (t, bs) \<leftarrow> de_u8 bs;
          if t = 0 then Some (FundStakeDeposit, bs) else if t = 1 then Some (FundSolDeposit, bs)
          else if t = 2 then Some (FundSolWithdraw, bs) else None }"

fun ser_fee_type :: "FeeType \<Rightarrow> byte list" where
  "ser_fee_type (SolReferral p) = 0 # ser_u8 p"
| "ser_fee_type (StakeReferral p) = 1 # ser_u8 p"
| "ser_fee_type (EpochFee f) = 2 # ser_fee f"
| "ser_fee_type (StakeWithdrawal f) = 3 # ser_fee f"
| "ser_fee_type (SolDepositFee f) = 4 # ser_fee f"
| "ser_fee_type (StakeDepositFee f) = 5 # ser_fee f"
| "ser_fee_type (SolWithdrawal f) = 6 # ser_fee f"

definition de_fee_type :: "FeeType decoder" where
  "de_fee_type bs =
     do { (t, bs) \<leftarrow> de_u8 bs;
          if t = 0 then do { (p, bs) \<leftarrow> de_u8 bs; Some (SolReferral p, bs) }
          else if t = 1 then do { (p, bs) \<leftarrow> de_u8 bs; Some (StakeReferral p, bs) }
          else if t = 2 then do { (f, bs) \<leftarrow> de_fee bs; Some (EpochFee f, bs) }
          else if t = 3 then do { (f, bs) \<leftarrow> de_fee bs; Some (StakeWithdrawal f, bs) }
          else if t = 4 then do { (f, bs) \<leftarrow> de_fee bs; Some (SolDepositFee f, bs) }
          else if t = 5 then do { (f, bs) \<leftarrow> de_fee bs; Some (StakeDepositFee f, bs) }
          else if t = 6 then do { (f, bs) \<leftarrow> de_fee bs; Some (SolWithdrawal f, bs) }
          else None }"

fun ser_instruction :: "StakePoolInstruction \<Rightarrow> byte list" where
  "ser_instruction (Initialize fee withdrawal_fee deposit_fee referral_fee max_validators) =
     0 # ser_fee fee @ ser_fee withdrawal_fee @ ser_fee deposit_fee @ ser_u8 referral_fee
       @ ser_u32 max_validators"
| "ser_instruction (AddValidatorToPool seed) = 1 # ser_u32 seed"
| "ser_instruction RemoveValidatorFromPool = [2]"
| "ser_instruction (DecreaseValidatorStake l s) = 3 # ser_u64 l @ ser_u64 s"
| "ser_instruction (IncreaseValidatorStake l s) = 4 # ser_u64 l @ ser_u64 s"
| "ser_instruction (SetPreferredValidator t v) = 5 # ser_preferred t @ ser_option ser_pubkey v"
| "ser_instruction (UpdateValidatorListBalance i b) = 6 # ser_u32 i @ ser_bool b"
| "ser_instruction UpdateStakePoolBalance = [7]"
| "ser_instruction CleanupRemovedValidatorEntries = [8]"
| "ser_instruction DepositStake = [9]"
| "ser_instruction (WithdrawStake t) = 10 # ser_u64 t"
| "ser_instruction SetManager = [11]"
| "ser_instruction (SetFee f) = 12 # ser_fee_type f"
| "ser_instruction SetStaker = [13]"
| "ser_instruction (DepositSol l) = 14 # ser_u64 l"
| "ser_instruction (SetFundingAuthority t) = 15 # ser_funding t"
| "ser_instruction (WithdrawSol t) = 16 # ser_u64 t"
| "ser_instruction (CreateTokenMetadata n s u) = 17 # ser_string n @ ser_string s @ ser_string u"
| "ser_instruction (UpdateTokenMetadata n s u) = 18 # ser_string n @ ser_string s @ ser_string u"
| "ser_instruction (IncreaseAdditionalValidatorStake l s e) = 19 # ser_u64 l @ ser_u64 s @ ser_u64 e"
| "ser_instruction (DecreaseAdditionalValidatorStake l s e) = 20 # ser_u64 l @ ser_u64 s @ ser_u64 e"
| "ser_instruction (DecreaseValidatorStakeWithReserve l s) = 21 # ser_u64 l @ ser_u64 s"
| "ser_instruction (Redelegate l s e d) = 22 # ser_u64 l @ ser_u64 s @ ser_u64 e @ ser_u64 d"
| "ser_instruction (DepositStakeWithSlippage m) = 23 # ser_u64 m"
| "ser_instruction (WithdrawStakeWithSlippage t m) = 24 # ser_u64 t @ ser_u64 m"
| "ser_instruction (DepositSolWithSlippage l m) = 25 # ser_u64 l @ ser_u64 m"
| "ser_instruction (WithdrawSolWithSlippage t m) = 26 # ser_u64 t @ ser_u64 m"
| "ser_instruction (DepositWsolWithSession l) = 27 # ser_u64 l"
| "ser_instruction (WithdrawWsolWithSession t) = 28 # ser_u64 t"

definition de_u64_fields2 :: "(u64 \<Rightarrow> u64 \<Rightarrow> 'a) \<Rightarrow> 'a decoder" where
  "de_u64_fields2 C bs = do { (a, bs) \<leftarrow> de_u64 bs; (b, bs) \<leftarrow> de_u64 bs; Some (C a b, bs) }"

definition de_u64_fields3 :: "(u64 \<Rightarrow> u64 \<Rightarrow> u64 \<Rightarrow> 'a) \<Rightarrow> 'a decoder" where
  "de_u64_fields3 C bs =
     do { (a, bs) \<leftarrow> de_u64 bs; (b, bs) \<leftarrow> de_u64 bs; (c, bs) \<leftarrow> de_u64 bs; Some (C a b c, bs) }"

definition de_u64_field :: "(u64 \<Rightarrow> 'a) \<Rightarrow> 'a decoder" where
  "de_u64_field C bs = do { (a, bs) \<leftarrow> de_u64 bs; Some (C a, bs) }"

definition de_strings3 :: "(rust_string \<Rightarrow> rust_string \<Rightarrow> rust_string \<Rightarrow> 'a) \<Rightarrow> 'a decoder" where
  "de_strings3 C bs =
     do { (a, bs) \<leftarrow> de_string bs; (b, bs) \<leftarrow> de_string bs; (c, bs) \<leftarrow> de_string bs;
          Some (C a b c, bs) }"

definition de_initialize :: "StakePoolInstruction decoder" where
  "de_initialize bs =
     do { (f, bs) \<leftarrow> de_fee bs; (wf, bs) \<leftarrow> de_fee bs; (df, bs) \<leftarrow> de_fee bs; (r, bs) \<leftarrow> de_u8 bs;
          (m, bs) \<leftarrow> de_u32 bs; Some (Initialize f wf df r m, bs) }"

definition de_instruction :: "StakePoolInstruction decoder" where
  "de_instruction bs =
     do { (tag, bs) \<leftarrow> de_u8 bs;
       if tag = 0 then de_initialize bs
       else if tag = 1 then do { (s, bs) \<leftarrow> de_u32 bs; Some (AddValidatorToPool s, bs) }
       else if tag = 2 then Some (RemoveValidatorFromPool, bs)
       else if tag = 3 then de_u64_fields2 DecreaseValidatorStake bs
       else if tag = 4 then de_u64_fields2 IncreaseValidatorStake bs
       else if tag = 5 then do { (t, bs) \<leftarrow> de_preferred bs; (v, bs) \<leftarrow> de_option de_pubkey bs;
                                 Some (SetPreferredValidator t v, bs) }
       else if tag = 6 then do { (i, bs) \<leftarrow> de_u32 bs; (b, bs) \<leftarrow> de_bool bs;
                                 Some (UpdateValidatorListBalance i b, bs) }
       else if tag = 7 then Some (UpdateStakePoolBalance, bs)
       else if tag = 8 then Some (CleanupRemovedValidatorEntries, bs)
       else if tag = 9 then Some (DepositStake, bs)
       else if tag = 10 then de_u64_field WithdrawStake bs
       else if tag = 11 then Some (SetManager, bs)
       else if tag = 12 then do { (f, bs) \<leftarrow> de_fee_type bs; Some (SetFee f, bs) }
       else if tag = 13 then Some (SetStaker, bs)
       else if tag = 14 then de_u64_field DepositSol bs
       else if tag = 15 then do { (t, bs) \<leftarrow> de_funding bs; Some (SetFundingAuthority t, bs) }
       else if tag = 16 then de_u64_field WithdrawSol bs
       else if tag = 17 then de_strings3 CreateTokenMetadata bs
       else if tag = 18 then de_strings3 UpdateTokenMetadata bs
       else if tag = 19 then de_u64_fields3 IncreaseAdditionalValidatorStake bs
       else if tag = 20 then de_u64_fields3 DecreaseAdditionalValidatorStake bs
       else if tag = 21 then de_u64_fields2 DecreaseValidatorStakeWithReserve bs
       else if tag = 22 then do { (l, bs) \<leftarrow> de_u64 bs; de_u64_fields3 (Redelegate l) bs }
       else if tag = 23 then de_u64_field DepositStakeWithSlippage bs
       else if tag = 24 then de_u64_fields2 WithdrawStakeWithSlippage bs
       else if tag = 25 then de_u64_fields2 DepositSolWithSlippage bs
       else if tag = 26 then de_u64_fields2 WithdrawSolWithSlippage bs
       else if tag = 27 then de_u64_field DepositWsolWithSession bs
       else if tag = 28 then de_u64_field WithdrawWsolWithSession bs
       else None }"

text \<open>\<open>try_from_slice\<close>: the whole input must be consumed.\<close>

definition try_from_slice :: "'a decoder \<Rightarrow> byte list \<Rightarrow> 'a result" where
  "try_from_slice de bs =
     (case de bs of Some (x, []) \<Rightarrow> Inr x | _ \<Rightarrow> Inl BorshIoError)"

section \<open>Round trip\<close>

interpretation b_bool: borsh ser_bool de_bool
  by unfold_locales (simp add: ser_bool_def de_bool_def de_u8_def)

interpretation b_preferred: borsh ser_preferred de_preferred
proof
  show "de_preferred (ser_preferred x @ rest) = Some (x, rest)" for x rest
    by (cases x) (simp_all add: de_preferred_def de_u8_def)
qed

interpretation b_funding: borsh ser_funding de_funding
proof
  show "de_funding (ser_funding x @ rest) = Some (x, rest)" for x rest
    by (cases x) (simp_all add: de_funding_def de_u8_def)
qed

lemma de_u8_Cons: "de_u8 (b # bs) = Some (b, bs)"
  by (simp add: de_u8_def)

interpretation b_fee_type: borsh ser_fee_type de_fee_type
proof
  show "de_fee_type (ser_fee_type x @ rest) = Some (x, rest)" for x rest
    by (cases x) (simp_all add: de_fee_type_def de_u8_Cons b_u8.de_ser b_fee.de_ser)
qed

definition string_ok :: "rust_string \<Rightarrow> bool" where
  "string_ok s \<longleftrightarrow> utf8_valid s \<and> length s < 2 ^ 32"

lemma de_ser_string: "string_ok s \<Longrightarrow> de_string (ser_string s @ rest) = Some (s, rest)"
  by (simp add: string_ok_def de_string_def ser_string_def b_u32.de_ser unat_of_nat)

fun instruction_ok :: "StakePoolInstruction \<Rightarrow> bool" where
  "instruction_ok (CreateTokenMetadata n s u) \<longleftrightarrow> string_ok n \<and> string_ok s \<and> string_ok u"
| "instruction_ok (UpdateTokenMetadata n s u) \<longleftrightarrow> string_ok n \<and> string_ok s \<and> string_ok u"
| "instruction_ok _ \<longleftrightarrow> True"

lemmas de_ser_instruction_fields = de_ser_fields b_bool.de_ser b_preferred.de_ser
  b_funding.de_ser b_fee_type.de_ser de_ser_string de_u8_Cons

lemma de_ser_instruction:
  "instruction_ok ix \<Longrightarrow> de_instruction (ser_instruction ix @ rest) = Some (ix, rest)"
  by (cases ix)
    (simp_all add: de_instruction_def de_ser_instruction_fields de_initialize_def de_u64_fields2_def
      de_u64_fields3_def de_u64_field_def de_strings3_def)

section \<open>Properties\<close>

text \<open>
  C39. The wire format is lossless and strict: the bytes of an instruction (whose strings are UTF-8
  and shorter than 4 GiB, as every Rust string in an instruction is) decode to that instruction,
  and with any trailing byte they are refused.
\<close>

theorem instruction_roundtrip:
  assumes "instruction_ok ix"
  shows "try_from_slice de_instruction (ser_instruction ix) = Inr ix \<and>
    try_from_slice de_instruction (ser_instruction ix @ b # bs) = Inl BorshIoError"
  using de_ser_instruction [OF assms, of "[]"] de_ser_instruction [OF assms, of "b # bs"]
  by (simp_all add: try_from_slice_def)

theorem instruction_roundtrip_witness:
  "instruction_ok (CreateTokenMetadata [0xC3, 0xA9] [65] []) \<and>
   try_from_slice de_instruction
     (ser_instruction (CreateTokenMetadata [0xC3, 0xA9] [65] [])) =
     Inr (CreateTokenMetadata [0xC3, 0xA9] [65] []) \<and>
   try_from_slice de_instruction
     (ser_instruction (CreateTokenMetadata [0xC3, 0xA9] [65] []) @ [7]) = Inl BorshIoError"
proof -
  have ok: "instruction_ok (CreateTokenMetadata [0xC3, 0xA9] [65] [])"
    by (simp add: string_ok_def utf8_valid.simps utf8_step_def in_range_def)
  show ?thesis
    using ok instruction_roundtrip [OF ok, of 7 "[]"] by simp
qed

end
