(* ===== verification/Admin.thy ===== *)
theory Admin
  imports Sample Instructions
begin

text \<open>
  The instructions of the pool's administration (\<^verbatim>\<open>program/src/processor.rs\<close>):
  \<open>process_initialize\<close>, \<open>process_set_manager\<close>, \<open>process_set_fee\<close>, \<open>process_set_staker\<close>,
  \<open>process_set_funding_authority\<close>, and the two token metadata instructions with the instruction
  builders of \<^verbatim>\<open>program/src/inline_mpl_token_metadata.rs\<close>.
\<close>

section \<open>Initialize\<close>

definition NATIVE_MINT_DECIMALS :: u8 where
  "NATIVE_MINT_DECIMALS = 9"

text \<open>The deposit authorities: an extra account restricts deposits to that authority.\<close>

definition initial_deposit_authorities ::
    "env \<Rightarrow> Pubkey \<Rightarrow> AccountInfo \<Rightarrow> (AccountInfo \<times> AccountInfo list) result \<Rightarrow> Pubkey \<times> Pubkey option" where
  "initial_deposit_authorities E program_id stake_pool_info next =
     (case next of
        Inr (deposit_authority_info, _) \<Rightarrow>
          (ai_key deposit_authority_info, Some (ai_key deposit_authority_info))
      | Inl _ \<Rightarrow>
          (fst (find_deposit_authority_program_address E program_id (ai_key stake_pool_info)), None))"

definition initialize_check_mint :: "env \<Rightarrow> world \<Rightarrow> AccountInfo \<Rightarrow> Pubkey \<Rightarrow> unit result" where
  "initialize_check_mint E w pool_mint_info withdraw_authority_key =
     tri (e_unpack_mint E (data_of w pool_mint_info)) (\<lambda>pool_mint.
     if mint_supply pool_mint \<noteq> 0 then Inl (spe NonZeroPoolTokenSupply)
     else if mint_decimals pool_mint \<noteq> NATIVE_MINT_DECIMALS then Inl (spe IncorrectMintDecimals)
     else if mint_authority pool_mint \<noteq> Some withdraw_authority_key then Inl (spe WrongMintingAuthority)
     else if mint_freeze_authority pool_mint \<noteq> None then Inl (spe InvalidMintFreezeAuthority)
     else tri (mint_extensions pool_mint) (\<lambda>extensions.
     if \<exists>x \<in> set extensions. \<not> is_extension_supported_for_mint x
     then Inl (spe UnsupportedMintExtension) else Inr ()))"

definition initialize_reserve_lamports :: "env \<Rightarrow> world \<Rightarrow> AccountInfo \<Rightarrow> Pubkey \<Rightarrow> u64 result" where
  "initialize_reserve_lamports E w reserve_stake_info withdraw_authority_key =
     (if owner_of w reserve_stake_info \<noteq> e_stake_program_id E then Inl IncorrectProgramId else
      tri (e_decode_stake E (data_of w reserve_stake_info)) (\<lambda>stake_state.
      case stake_state of
        StakeInitialized meta \<Rightarrow>
          if meta_lockup meta \<noteq> default_lockup then Inl (spe WrongStakeStake)
          else if auth_staker (meta_authorized meta) \<noteq> withdraw_authority_key
          then Inl (spe WrongStakeStake)
          else if auth_withdrawer (meta_authorized meta) \<noteq> withdraw_authority_key
          then Inl (spe WrongStakeStake)
          else ok_or (checked_sub (lamports_of w reserve_stake_info) (minimum_reserve_lamports meta))
                 (spe CalculationFailure)
      | _ \<Rightarrow> Inl (spe WrongStakeStake)))"

text \<open>The checks on the empty validator list, and the list that is written.\<close>

definition initialize_validator_list ::
    "world \<Rightarrow> Pubkey \<Rightarrow> AccountInfo \<Rightarrow> u32 \<Rightarrow> ValidatorList result" where
  "initialize_validator_list w program_id validator_list_info max_validators =
     tri (check_account_owner w validator_list_info program_id) (\<lambda>_.
     tri (try_from_slice_unchecked de_validator_list (data_of w validator_list_info)) (\<lambda>validator_list.
     if \<not> header_is_uninitialized (vl_header validator_list) then Inl (spe AlreadyInUse) else
     let data_length = length (data_of w validator_list_info);
         expected_max_validators = calculate_max_validators data_length in
     if expected_max_validators \<noteq> unat max_validators \<or> max_validators = 0
     then Inl (spe UnexpectedValidatorListAccountSize)
     else if max_validators > MAX_VALIDATORS_IN_POOL then Inl (spe TooManyValidatorsInPool)
     else Inr (validator_list\<lparr>
         vl_header := (vl_header validator_list)\<lparr>vlh_account_type := ValidatorListAccount,
                                              vlh_max_validators := max_validators\<rparr>,
         vl_validators := []\<rparr>)))"

definition initialized_pool ::
    "StakePool \<Rightarrow> Pubkey \<Rightarrow> Pubkey \<Rightarrow> Pubkey \<Rightarrow> u8 \<Rightarrow> Pubkey \<Rightarrow> Pubkey \<Rightarrow> Pubkey \<Rightarrow> u64 \<Rightarrow> u64
      \<Rightarrow> Fee \<Rightarrow> Fee \<Rightarrow> Fee \<Rightarrow> u8 \<Rightarrow> Pubkey option \<Rightarrow> StakePool" where
  "initialized_pool stake_pool manager staker stake_deposit_authority stake_withdraw_bump_seed
       validator_list reserve_stake manager_fee_account total_lamports epoch epoch_fee
       withdrawal_fee deposit_fee referral_fee sol_deposit_authority =
     stake_pool\<lparr>
       sp_account_type := StakePoolAccount,
       sp_manager := manager,
       sp_staker := staker,
       sp_stake_deposit_authority := stake_deposit_authority,
       sp_stake_withdraw_bump_seed := stake_withdraw_bump_seed,
       sp_validator_list := validator_list,
       sp_reserve_stake := reserve_stake,
       sp_manager_fee_account := manager_fee_account,
       sp_total_lamports := total_lamports,
       sp_pool_token_supply := total_lamports,
       sp_last_update_epoch := epoch,
       sp_lockup := default_lockup,
       sp_epoch_fee := epoch_fee,
       sp_next_epoch_fee := FE_None,
       sp_preferred_deposit_validator_vote_address := None,
       sp_preferred_withdraw_validator_vote_address := None,
       sp_stake_deposit_fee := deposit_fee,
       sp_stake_withdrawal_fee := withdrawal_fee,
       sp_next_stake_withdrawal_fee := FE_None,
       sp_stake_referral_fee := referral_fee,
       sp_sol_deposit_authority := sol_deposit_authority,
       sp_sol_deposit_fee := deposit_fee,
       sp_sol_referral_fee := referral_fee,
       sp_sol_withdraw_authority := None,
       sp_sol_withdrawal_fee := withdrawal_fee,
       sp_next_sol_withdrawal_fee := FE_None,
       sp_last_epoch_pool_token_supply := 0,
       sp_last_epoch_total_lamports := 0\<rparr>"

definition process_initialize ::
    "env \<Rightarrow> Pubkey \<Rightarrow> AccountInfo list \<Rightarrow> Fee \<Rightarrow> Fee \<Rightarrow> Fee \<Rightarrow> u8 \<Rightarrow> u32 \<Rightarrow> world \<Rightarrow> world result" where
  "process_initialize E program_id accounts epoch_fee withdrawal_fee deposit_fee referral_fee
       max_validators w =
     tri (next_account_info accounts) (\<lambda>(stake_pool_info, iter).
     tri (next_account_info iter) (\<lambda>(manager_info, iter).
     tri (next_account_info iter) (\<lambda>(staker_info, iter).
     tri (next_account_info iter) (\<lambda>(withdraw_authority_info, iter).
     tri (next_account_info iter) (\<lambda>(validator_list_info, iter).
     tri (next_account_info iter) (\<lambda>(reserve_stake_info, iter).
     tri (next_account_info iter) (\<lambda>(pool_mint_info, iter).
     tri (next_account_info iter) (\<lambda>(manager_fee_info, iter).
     tri (next_account_info iter) (\<lambda>(token_program_info, iter).
     tri (e_rent_get E) (\<lambda>rent.
     if \<not> ai_is_signer manager_info then Inl (spe SignatureMissing) else
     if ai_key stake_pool_info = ai_key validator_list_info then Inl (spe AlreadyInUse) else
     tri (check_account_owner w stake_pool_info program_id) (\<lambda>_.
     tri (load_pool w stake_pool_info) (\<lambda>stake_pool.
     if \<not> sp_is_uninitialized stake_pool then Inl (spe AlreadyInUse) else
     tri (initialize_validator_list w program_id validator_list_info max_validators) (\<lambda>validator_list.
     if \<not> rent_is_exempt rent (lamports_of w stake_pool_info) (length (data_of w stake_pool_info))
     then Inl AccountNotRentExempt else
     if \<not> rent_is_exempt rent (lamports_of w validator_list_info)
            (length (data_of w validator_list_info))
     then Inl AccountNotRentExempt else
     if fee_numerator epoch_fee > fee_denominator epoch_fee
        \<or> fee_numerator withdrawal_fee > fee_denominator withdrawal_fee
        \<or> fee_numerator deposit_fee > fee_denominator deposit_fee
        \<or> referral_fee > 100
     then Inl (spe FeeTooHigh) else
     tri (e_check_spl_token_program E (ai_key token_program_info)) (\<lambda>_.
     if owner_of w pool_mint_info \<noteq> ai_key token_program_info then Inl IncorrectProgramId else
     let stake_pool = stake_pool\<lparr>sp_token_program_id := ai_key token_program_info,
                                 sp_pool_mint := ai_key pool_mint_info\<rparr>;
         (stake_deposit_authority, sol_deposit_authority) =
           initial_deposit_authorities E program_id stake_pool_info (next_account_info iter);
         (withdraw_authority_key, stake_withdraw_bump_seed) =
           find_withdraw_authority_program_address E program_id (ai_key stake_pool_info) in
     if withdraw_authority_key \<noteq> ai_key withdraw_authority_info
     then Inl (spe InvalidProgramAddress) else
     tri (initialize_check_mint E w pool_mint_info withdraw_authority_key) (\<lambda>_.
     tri (check_manager_fee_info E w stake_pool manager_fee_info) (\<lambda>_.
     tri (initialize_reserve_lamports E w reserve_stake_info withdraw_authority_key)
       (\<lambda>total_lamports.
     tri (if total_lamports > 0
          then token_mint_to E w (ai_key stake_pool_info) token_program_info pool_mint_info
                 manager_fee_info withdraw_authority_info AUTHORITY_WITHDRAW
                 stake_withdraw_bump_seed total_lamports
          else Inr w) (\<lambda>w.
     tri (to_writer ser_validator_list (data_of w validator_list_info) validator_list)
       (\<lambda>list_data.
     let w = set_data w validator_list_info list_data in
     tri (e_clock_get E) (\<lambda>epoch.
     store_pool w stake_pool_info
       (initialized_pool stake_pool (ai_key manager_info) (ai_key staker_info)
          stake_deposit_authority stake_withdraw_bump_seed (ai_key validator_list_info)
          (ai_key reserve_stake_info) (ai_key manager_fee_info) total_lamports epoch epoch_fee
          withdrawal_fee deposit_fee referral_fee sol_deposit_authority)))))))))))))))))))))"

section \<open>Setters\<close>

definition process_set_manager :: "env \<Rightarrow> Pubkey \<Rightarrow> AccountInfo list \<Rightarrow> world \<Rightarrow> world result" where
  "process_set_manager E program_id accounts w =
     tri (next_account_info accounts) (\<lambda>(stake_pool_info, iter).
     tri (next_account_info iter) (\<lambda>(manager_info, iter).
     tri (next_account_info iter) (\<lambda>(new_manager_info, iter).
     tri (next_account_info iter) (\<lambda>(new_manager_fee_info, iter).
     tri (check_account_owner w stake_pool_info program_id) (\<lambda>_.
     tri (load_pool w stake_pool_info) (\<lambda>stake_pool.
     tri (check_account_owner w new_manager_fee_info (sp_token_program_id stake_pool)) (\<lambda>_.
     if \<not> sp_is_valid stake_pool then Inl (spe InvalidState) else
     tri (check_manager stake_pool manager_info) (\<lambda>_.
     if \<not> ai_is_signer new_manager_info then Inl (spe SignatureMissing) else
     tri (check_manager_fee_info E w stake_pool new_manager_fee_info) (\<lambda>_.
     store_pool w stake_pool_info
       (stake_pool\<lparr>sp_manager := ai_key new_manager_info,
                   sp_manager_fee_account := ai_key new_manager_fee_info\<rparr>))))))))))"

text \<open>A \<open>StakePoolError\<close> that \<open>?\<close> converts into a \<open>ProgramError\<close>.\<close>

definition lift_spe :: "StakePoolError + 'a \<Rightarrow> 'a result" where
  "lift_spe r = (case r of Inl e \<Rightarrow> Inl (spe e) | Inr x \<Rightarrow> Inr x)"

definition process_set_fee :: "env \<Rightarrow> Pubkey \<Rightarrow> AccountInfo list \<Rightarrow> FeeType \<Rightarrow> world \<Rightarrow> world result" where
  "process_set_fee E program_id accounts fee w =
     tri (next_account_info accounts) (\<lambda>(stake_pool_info, iter).
     tri (next_account_info iter) (\<lambda>(manager_info, iter).
     tri (e_clock_get E) (\<lambda>epoch.
     tri (check_account_owner w stake_pool_info program_id) (\<lambda>_.
     tri (load_pool w stake_pool_info) (\<lambda>stake_pool.
     if \<not> sp_is_valid stake_pool then Inl (spe InvalidState) else
     tri (check_manager stake_pool manager_info) (\<lambda>_.
     if can_only_change_next_epoch fee \<and> sp_last_update_epoch stake_pool < epoch
     then Inl (spe StakeListAndPoolOutOfDate) else
     tri (lift_spe (check_too_high fee)) (\<lambda>_.
     tri (lift_spe (update_fee stake_pool fee)) (\<lambda>stake_pool.
     store_pool w stake_pool_info stake_pool))))))))"

definition process_set_staker :: "env \<Rightarrow> Pubkey \<Rightarrow> AccountInfo list \<Rightarrow> world \<Rightarrow> world result" where
  "process_set_staker E program_id accounts w =
     tri (next_account_info accounts) (\<lambda>(stake_pool_info, iter).
     tri (next_account_info iter) (\<lambda>(set_staker_authority_info, iter).
     tri (next_account_info iter) (\<lambda>(new_staker_info, iter).
     tri (check_account_owner w stake_pool_info program_id) (\<lambda>_.
     tri (load_pool w stake_pool_info) (\<lambda>stake_pool.
     if \<not> sp_is_valid stake_pool then Inl (spe InvalidState) else
     let staker_signed = check_staker stake_pool set_staker_authority_info;
         manager_signed = check_manager stake_pool set_staker_authority_info in
     if \<not> is_ok staker_signed \<and> \<not> is_ok manager_signed then Inl (spe SignatureMissing) else
     store_pool w stake_pool_info (stake_pool\<lparr>sp_staker := ai_key new_staker_info\<rparr>))))))"

definition process_set_funding_authority ::
    "env \<Rightarrow> Pubkey \<Rightarrow> AccountInfo list \<Rightarrow> FundingType \<Rightarrow> world \<Rightarrow> world result" where
  "process_set_funding_authority E program_id accounts funding_type w =
     tri (next_account_info accounts) (\<lambda>(stake_pool_info, iter).
     tri (next_account_info iter) (\<lambda>(manager_info, iter).
     let new_authority = (case next_account_info iter of
           Inr (new_authority_account_info, _) \<Rightarrow> Some (ai_key new_authority_account_info)
         | Inl _ \<Rightarrow> None) in
     tri (check_account_owner w stake_pool_info program_id) (\<lambda>_.
     tri (load_pool w stake_pool_info) (\<lambda>stake_pool.
     if \<not> sp_is_valid stake_pool then Inl (spe InvalidState) else
     tri (check_manager stake_pool manager_info) (\<lambda>_.
     store_pool w stake_pool_info
       (case funding_type of
          FundStakeDeposit \<Rightarrow> stake_pool\<lparr>sp_stake_deposit_authority :=
            (case new_authority of
               Some k \<Rightarrow> k
             | None \<Rightarrow> fst (find_deposit_authority_program_address E program_id
                               (ai_key stake_pool_info)))\<rparr>
        | FundSolDeposit \<Rightarrow> stake_pool\<lparr>sp_sol_deposit_authority := new_authority\<rparr>
        | FundSolWithdraw \<Rightarrow> stake_pool\<lparr>sp_sol_withdraw_authority := new_authority\<rparr>))))))"

section \<open>Token metadata\<close>

record DataV2 =
  dv_name :: rust_string
  dv_symbol :: rust_string
  dv_uri :: rust_string
  dv_seller_fee_basis_points :: "16 word"
  dv_creators :: "u8 option"
  dv_collection :: "u8 option"
  dv_uses :: "u8 option"

definition ser_data_v2 :: "DataV2 \<Rightarrow> byte list" where
  "ser_data_v2 d =
     ser_string (dv_name d) @ ser_string (dv_symbol d) @ ser_string (dv_uri d)
     @ to_le_bytes (dv_seller_fee_basis_points d) @ ser_option ser_u8 (dv_creators d)
     @ ser_option ser_u8 (dv_collection d) @ ser_option ser_u8 (dv_uses d)"

definition metadata_data :: "rust_string \<Rightarrow> rust_string \<Rightarrow> rust_string \<Rightarrow> DataV2" where
  "metadata_data name symbol uri =
     \<lparr>dv_name = name, dv_symbol = symbol, dv_uri = uri, dv_seller_fee_basis_points = 0,
      dv_creators = None, dv_collection = None, dv_uses = None\<rparr>"

definition account_meta :: "Pubkey \<Rightarrow> bool \<Rightarrow> AccountMeta" where
  "account_meta k is_signer = \<lparr>am_pubkey = k, am_is_signer = is_signer, am_is_writable = True\<rparr>"

definition account_meta_readonly :: "Pubkey \<Rightarrow> bool \<Rightarrow> AccountMeta" where
  "account_meta_readonly k is_signer = \<lparr>am_pubkey = k, am_is_signer = is_signer, am_is_writable = False\<rparr>"

definition create_metadata_accounts_v3 ::
    "env \<Rightarrow> Pubkey \<Rightarrow> Pubkey \<Rightarrow> Pubkey \<Rightarrow> Pubkey \<Rightarrow> Pubkey \<Rightarrow> Pubkey \<Rightarrow> rust_string \<Rightarrow> rust_string
      \<Rightarrow> rust_string \<Rightarrow> Instruction" where
  "create_metadata_accounts_v3 E program_id metadata_account mint mint_authority_key payer
       update_authority name symbol uri =
     MetadataInstruction program_id
       [account_meta metadata_account False, account_meta_readonly mint False,
        account_meta_readonly mint_authority_key True, account_meta payer True,
        account_meta_readonly update_authority True,
        account_meta_readonly (e_system_program_id E) False]
       (33 # ser_data_v2 (metadata_data name symbol uri) @ ser_bool True @ ser_option ser_u8 None)"

definition update_metadata_accounts_v2 ::
    "Pubkey \<Rightarrow> Pubkey \<Rightarrow> Pubkey \<Rightarrow> Pubkey option \<Rightarrow> DataV2 option \<Rightarrow> bool option \<Rightarrow> bool option
      \<Rightarrow> Instruction" where
  "update_metadata_accounts_v2 program_id metadata_account update_authority new_update_authority
       metadata primary_sale_happened is_mutable =
     MetadataInstruction program_id
       [account_meta metadata_account False, account_meta_readonly update_authority True]
       (15 # ser_option ser_data_v2 metadata @ ser_option ser_pubkey new_update_authority
          @ ser_option ser_bool primary_sale_happened @ ser_option ser_bool is_mutable)"

definition process_create_pool_token_metadata ::
    "env \<Rightarrow> Pubkey \<Rightarrow> AccountInfo list \<Rightarrow> rust_string \<Rightarrow> rust_string \<Rightarrow> rust_string \<Rightarrow> world
      \<Rightarrow> world result" where
  "process_create_pool_token_metadata E program_id accounts name symbol uri w =
     tri (next_account_info accounts) (\<lambda>(stake_pool_info, iter).
     tri (next_account_info iter) (\<lambda>(manager_info, iter).
     tri (next_account_info iter) (\<lambda>(withdraw_authority_info, iter).
     tri (next_account_info iter) (\<lambda>(pool_mint_info, iter).
     tri (next_account_info iter) (\<lambda>(payer_info, iter).
     tri (next_account_info iter) (\<lambda>(metadata_info, iter).
     tri (next_account_info iter) (\<lambda>(mpl_token_metadata_program_info, iter).
     tri (next_account_info iter) (\<lambda>(system_program_info, iter).
     if \<not> ai_is_signer payer_info then Inl (spe SignatureMissing) else
     tri (check_system_program E (ai_key system_program_info)) (\<lambda>_.
     tri (check_account_owner w payer_info (e_system_program_id E)) (\<lambda>_.
     tri (check_account_owner w stake_pool_info program_id) (\<lambda>_.
     tri (check_mpl_metadata_program E (ai_key mpl_token_metadata_program_info)) (\<lambda>_.
     tri (load_pool w stake_pool_info) (\<lambda>stake_pool.
     if \<not> sp_is_valid stake_pool then Inl (spe InvalidState) else
     tri (check_manager stake_pool manager_info) (\<lambda>_.
     tri (check_authority_withdraw E stake_pool (ai_key withdraw_authority_info) program_id
            (ai_key stake_pool_info)) (\<lambda>_.
     tri (check_mint E w stake_pool pool_mint_info) (\<lambda>_.
     tri (check_mpl_metadata_account_address E (ai_key metadata_info) (sp_pool_mint stake_pool)) (\<lambda>_.
     e_invoke_signed E
       (create_metadata_accounts_v3 E (ai_key mpl_token_metadata_program_info)
          (ai_key metadata_info) (ai_key pool_mint_info) (ai_key withdraw_authority_info)
          (ai_key payer_info) (ai_key withdraw_authority_info) name symbol uri)
       [metadata_info, pool_mint_info, withdraw_authority_info, payer_info,
        withdraw_authority_info, system_program_info]
       (authority_signers (ai_key stake_pool_info) AUTHORITY_WITHDRAW
          (snd (find_withdraw_authority_program_address E program_id (ai_key stake_pool_info))))
       w)))))))))))))))))"

definition process_update_pool_token_metadata ::
    "env \<Rightarrow> Pubkey \<Rightarrow> AccountInfo list \<Rightarrow> rust_string \<Rightarrow> rust_string \<Rightarrow> rust_string \<Rightarrow> world
      \<Rightarrow> world result" where
  "process_update_pool_token_metadata E program_id accounts name symbol uri w =
     tri (next_account_info accounts) (\<lambda>(stake_pool_info, iter).
     tri (next_account_info iter) (\<lambda>(manager_info, iter).
     tri (next_account_info iter) (\<lambda>(withdraw_authority_info, iter).
     tri (next_account_info iter) (\<lambda>(metadata_info, iter).
     tri (next_account_info iter) (\<lambda>(mpl_token_metadata_program_info, iter).
     tri (check_account_owner w stake_pool_info program_id) (\<lambda>_.
     tri (check_mpl_metadata_program E (ai_key mpl_token_metadata_program_info)) (\<lambda>_.
     tri (load_pool w stake_pool_info) (\<lambda>stake_pool.
     if \<not> sp_is_valid stake_pool then Inl (spe InvalidState) else
     tri (check_manager stake_pool manager_info) (\<lambda>_.
     tri (check_authority_withdraw E stake_pool (ai_key withdraw_authority_info) program_id
            (ai_key stake_pool_info)) (\<lambda>_.
     tri (check_mpl_metadata_account_address E (ai_key metadata_info) (sp_pool_mint stake_pool)) (\<lambda>_.
     e_invoke_signed E
       (update_metadata_accounts_v2 (ai_key mpl_token_metadata_program_info)
          (ai_key metadata_info) (ai_key withdraw_authority_info) None
          (Some (metadata_data name symbol uri)) None (Some True))
       [metadata_info, withdraw_authority_info]
       (authority_signers (ai_key stake_pool_info) AUTHORITY_WITHDRAW
          (snd (find_withdraw_authority_program_address E program_id (ai_key stake_pool_info))))
       w)))))))))))"

section \<open>Successful runs\<close>

text \<open>What each handler has checked and done when it succeeds.\<close>

lemma lift_spe_Inr [inversions]: "lift_spe r = Inr x \<longleftrightarrow> r = Inr x"
  by (cases r) (simp_all add: lift_spe_def)

lemma set_manager_success:
  assumes "process_set_manager E pid accts w = Inr w'"
  obtains pool manager new fee_account rest p where
    "accts = pool # manager # new # fee_account # rest" "owner_of w pool = pid"
    "load_pool w pool = Inr p" "sp_is_valid p" "ai_key manager = sp_manager p"
    "ai_is_signer manager" "ai_is_signer new" "check_manager_fee_info E w p fee_account = Inr ()"
    "store_pool w pool (p\<lparr>sp_manager := ai_key new, sp_manager_fee_account := ai_key fee_account\<rparr>)
       = Inr w'"
  using assms by (auto simp: process_set_manager_def inversions)

lemma set_fee_success:
  assumes "process_set_fee E pid accts fee w = Inr w'"
  obtains pool manager rest epoch p p' where
    "accts = pool # manager # rest" "owner_of w pool = pid" "e_clock_get E = Inr epoch"
    "load_pool w pool = Inr p" "sp_is_valid p" "ai_key manager = sp_manager p"
    "ai_is_signer manager" "can_only_change_next_epoch fee \<longrightarrow> \<not> sp_last_update_epoch p < epoch"
    "check_too_high fee = Inr ()" "update_fee p fee = Inr p'" "store_pool w pool p' = Inr w'"
  using assms by (auto simp: process_set_fee_def inversions)

lemma set_staker_success:
  assumes "process_set_staker E pid accts w = Inr w'"
  obtains pool authority new rest p where
    "accts = pool # authority # new # rest" "owner_of w pool = pid"
    "load_pool w pool = Inr p" "sp_is_valid p" "ai_key authority \<in> {sp_staker p, sp_manager p}"
    "ai_is_signer authority" "store_pool w pool (p\<lparr>sp_staker := ai_key new\<rparr>) = Inr w'"
  using assms by (auto simp: process_set_staker_def inversions Let_def is_ok_iff)

lemma set_funding_success:
  assumes "process_set_funding_authority E pid accts t w = Inr w'"
  obtains pool manager rest p p' where
    "accts = pool # manager # rest" "owner_of w pool = pid"
    "load_pool w pool = Inr p" "sp_is_valid p" "ai_key manager = sp_manager p"
    "ai_is_signer manager" "store_pool w pool p' = Inr w'" "pool_step NewFunding p p'"
proof -
  have f: "pool_step NewFunding p (p\<lparr>sp_stake_deposit_authority := k\<rparr>)"
      "pool_step NewFunding p (p\<lparr>sp_sol_deposit_authority := b\<rparr>)"
      "pool_step NewFunding p (p\<lparr>sp_sol_withdraw_authority := b\<rparr>)" for p k b
    using step_funding [of p "sp_sol_withdraw_authority p" "sp_sol_deposit_authority p" k]
      step_funding [of p "sp_sol_withdraw_authority p" b "sp_stake_deposit_authority p"]
      step_funding [of p b "sp_sol_deposit_authority p" "sp_stake_deposit_authority p"]
    by simp_all
  show thesis
    using assms
    by (cases t) (auto simp: process_set_funding_authority_def inversions Let_def intro: that f)
qed

lemma create_metadata_success:
  assumes "process_create_pool_token_metadata E pid accts n s u w = Inr w'" "cpi_law E pid"
  obtains pool manager rest p where
    "accts = pool # manager # rest" "owner_of w pool = pid" "load_pool w pool = Inr p"
    "sp_is_valid p" "ai_key manager = sp_manager p" "ai_is_signer manager" "owned_frame pid {} w w'"
  using assms by (auto simp: process_create_pool_token_metadata_def inversions cpi_law_def)

lemma update_metadata_success:
  assumes "process_update_pool_token_metadata E pid accts n s u w = Inr w'" "cpi_law E pid"
  obtains pool manager rest p where
    "accts = pool # manager # rest" "owner_of w pool = pid" "load_pool w pool = Inr p"
    "sp_is_valid p" "ai_key manager = sp_manager p" "ai_is_signer manager" "owned_frame pid {} w w'"
  using assms by (auto simp: process_update_pool_token_metadata_def inversions cpi_law_def)

section \<open>The setters implement actions of the pool\<close>

interpretation set_manager: pool_handler process_set_manager "\<lambda>a. a = NewManager"
  by unfold_locales
    (auto elim!: set_manager_success intro!: contract_writes [where a = NewManager] step_manager)

interpretation set_fee: pool_handler "\<lambda>E pid accts. process_set_fee E pid accts fee"
    "\<lambda>a. a = NewFee fee" for fee
  by unfold_locales
    (auto elim!: set_fee_success intro!: contract_writes [where a = "NewFee fee"] step_fee)

interpretation set_staker: pool_handler process_set_staker "\<lambda>a. a = NewStaker"
  by unfold_locales
    (auto elim!: set_staker_success intro!: contract_writes [where a = NewStaker] step_staker)

interpretation set_funding: pool_handler "\<lambda>E pid accts. process_set_funding_authority E pid accts t"
    "\<lambda>a. a = NewFunding" for t
  by unfold_locales
    (auto elim!: set_funding_success intro!: contract_writes [where a = NewFunding])

interpretation create_metadata: pool_handler
    "\<lambda>E pid accts. process_create_pool_token_metadata E pid accts n s u" "\<lambda>a. a = Keeping" for n s u
  by unfold_locales
    (erule create_metadata_success, assumption, auto intro!: contract_keeps)

interpretation update_metadata: pool_handler
    "\<lambda>E pid accts. process_update_pool_token_metadata E pid accts n s u" "\<lambda>a. a = Keeping" for n s u
  by unfold_locales
    (erule update_metadata_success, assumption, auto intro!: contract_keeps)

section \<open>A new pool\<close>

lemma initialize_validator_list_Inr:
  assumes "initialize_validator_list w pid l m = Inr vl"
  shows "owner_of w l = pid"
    and "vl = \<lparr>vl_header = \<lparr>vlh_account_type = ValidatorListAccount, vlh_max_validators = m\<rparr>,
               vl_validators = []\<rparr>"
    and "unat m = calculate_max_validators (length (data_of w l))"
    and "m \<noteq> 0" "m \<le> MAX_VALIDATORS_IN_POOL"
  using assms by (auto simp: initialize_validator_list_def inversions Let_def)

lemma fresh_list:
  assumes init: "initialize_validator_list w pid l m = Inr vl"
    and written: "to_writer ser_validator_list (data_of w l) vl = Inr data"
  obtains bv where "data = ser_header (vl_header vl) @ bv" "vlist bv = []" "list_inv (vl_header vl) bv"
proof -
  note vl = initialize_validator_list_Inr [OF init]
  let ?bv = "ser_u32 0 @ drop (length (ser_validator_list vl)) (data_of w l)"
  have d: "data = ser_header (vl_header vl) @ ?bv"
    using written vl(2) by (auto simp: to_writer_def overwrite_def ser_validator_list_def split: if_splits)
  have bv: "vlist_wf ?bv" "vlist ?bv = []"
    using vsi.bv_compose [of "[]" "drop (length (ser_validator_list vl)) (data_of w l)"]
    by (simp_all add: ser_u32_def)
  have "unat m \<le> 20000" using vl(5) by (simp add: MAX_VALIDATORS_IN_POOL_def word_le_nat_alt)
  then have "(length (data_of w l) - 9) div 73 \<le> 20000"
    using vl(3) by (simp add: calculate_max_validators_def HEADER_LEN_def VSI_LEN_def usize_sat_add_def
        usize_max_def)
  then have "length (data_of w l) \<le> 1460082" by linarith
  then have "length ?bv \<le> usize_max" by (simp add: ser_u32_def usize_max_def)
  moreover have "bv_count ?bv = 0" using arg_cong [OF bv(2), of length] by simp
  ultimately have "list_inv (vl_header vl) ?bv"
    using bv by (simp add: list_inv_def vl(2) header_is_valid_def)
  with d bv(2) show thesis by (rule that)
qed

lemma initialize_reserve_lamports_Inr:
  "initialize_reserve_lamports E w r k = Inr t \<longleftrightarrow>
     owner_of w r = e_stake_program_id E
     \<and> (\<exists>meta. e_decode_stake E (data_of w r) = Inr (StakeInitialized meta)
          \<and> meta_lockup meta = default_lockup \<and> auth_staker (meta_authorized meta) = k
          \<and> auth_withdrawer (meta_authorized meta) = k
          \<and> checked_sub (lamports_of w r) (minimum_reserve_lamports meta) = Some t)"
proof (cases "e_decode_stake E (data_of w r)")
  case (Inr st)
  then show ?thesis by (cases st) (auto simp: initialize_reserve_lamports_def inversions)
qed (simp add: initialize_reserve_lamports_def)

text \<open>
  What holds after a successful initialization. The pool \<open>p\<close> starts at one token per lamport of the
  reserve above its rent, with the given fees and an empty validator list.
\<close>

definition fresh_pool ::
    "StakePool \<Rightarrow> Fee \<Rightarrow> Fee \<Rightarrow> Fee \<Rightarrow> u8 \<Rightarrow> bool" where
  "fresh_pool p epoch_fee withdrawal_fee deposit_fee referral_fee \<longleftrightarrow>
     sp_is_valid p \<and> sp_pool_token_supply p = sp_total_lamports p
     \<and> sp_epoch_fee p = epoch_fee \<and> sp_next_epoch_fee p = FE_None
     \<and> sp_stake_withdrawal_fee p = withdrawal_fee \<and> sp_next_stake_withdrawal_fee p = FE_None
     \<and> sp_sol_withdrawal_fee p = withdrawal_fee \<and> sp_next_sol_withdrawal_fee p = FE_None
     \<and> sp_stake_deposit_fee p = deposit_fee \<and> sp_sol_deposit_fee p = deposit_fee
     \<and> sp_stake_referral_fee p = referral_fee \<and> sp_sol_referral_fee p = referral_fee
     \<and> sp_sol_withdraw_authority p = None
     \<and> sp_preferred_deposit_validator_vote_address p = None
     \<and> sp_preferred_withdraw_validator_vote_address p = None"

lemma fresh_initialized_pool:
  "fresh_pool (initialized_pool p m s a b l r f t e epf wdf dpf rf d) epf wdf dpf rf"
  by (simp add: fresh_pool_def initialized_pool_def sp_is_valid_def)

lemma initialize_success:
  assumes run: "process_initialize E pid accts epf wdf dpf rf m w = Inr w'" and law: "cpi_law E pid"
  obtains pool manager staker authority list reserve mint fee_account token rest p0 meta p bv where
    "accts = pool # manager # staker # authority # list # reserve # mint # fee_account # token # rest"
    "ai_is_signer manager" "ai_key pool \<noteq> ai_key list" "owner_of w pool = pid" "owner_of w list = pid"
    "load_pool w pool = Inr p0" "sp_is_uninitialized p0"
    "e_decode_stake E (data_of w reserve) = Inr (StakeInitialized meta)"
    "checked_sub (lamports_of w reserve) (minimum_reserve_lamports meta)
       = Some (sp_total_lamports p)"
    "\<not> fee_above_one epf" "\<not> fee_above_one wdf" "\<not> fee_above_one dpf" "rf \<le> 100"
    "load_pool w' pool = Inr p" "fresh_pool p epf wdf dpf rf" "sp_manager p = ai_key manager"
    "sp_validator_list p = ai_key list" "sp_reserve_stake p = ai_key reserve"
    "load_list w' list
       = Inr (\<lparr>vlh_account_type = ValidatorListAccount, vlh_max_validators = m\<rparr>, bv)"
    "list_inv \<lparr>vlh_account_type = ValidatorListAccount, vlh_max_validators = m\<rparr> bv" "vlist bv = []"
    "owned_frame pid {ai_key pool, ai_key list} w w'"
proof -
  obtain pool manager staker authority list reserve mint fee_account token rest p0 vl t w1 ld epoch
      a b k p1 p where
    accts: "accts = pool # manager # staker # authority # list # reserve # mint # fee_account # token # rest"
    and checks: "ai_is_signer manager" "ai_key pool \<noteq> ai_key list" "owner_of w pool = pid"
      "load_pool w pool = Inr p0" "sp_is_uninitialized p0"
      "initialize_validator_list w pid list m = Inr vl"
      "\<not> fee_above_one epf" "\<not> fee_above_one wdf" "\<not> fee_above_one dpf" "rf \<le> 100"
      "initialize_reserve_lamports E w reserve k = Inr t"
    and mint: "(if t > 0 then token_mint_to E w (ai_key pool) token mint fee_account authority
                  AUTHORITY_WITHDRAW b t else Inr w) = Inr w1"
    and written: "to_writer ser_validator_list (data_of w1 list) vl = Inr ld"
    and p: "p = initialized_pool p1 (ai_key manager) (ai_key staker) (fst a) b (ai_key list)
                  (ai_key reserve) (ai_key fee_account) t epoch epf wdf dpf rf (snd a)"
    and st: "store_pool (set_data w1 list ld) pool p = Inr w'"
    using run
    by (auto simp: process_initialize_def inversions Let_def fee_above_one_def cong: if_cong)
  note vl = initialize_validator_list_Inr [OF checks(6)]
  have f1: "owned_frame pid {} w w1"
  proof (cases "t > 0")
    case True
    then show ?thesis using mint keeps_calls(10) [OF law] by (auto simp: keeps_def post_def)
  qed (use mint in simp)
  have f: "owned_frame pid {ai_key pool, ai_key list} w w'"
    by (rule store_pool_frame [OF st owned_frame_set_data [OF owned_frame_mono [OF f1]]]) simp_all
  have "data_of w1 list = data_of w list" using owned_frame_data(1) [OF f1 vl(1)] .
  then obtain bv where ld: "ld = ser_header (vl_header vl) @ bv" and bv: "vlist bv = []"
      "list_inv (vl_header vl) bv"
    using written by (metis fresh_list [OF checks(6)])
  from ld have "load_list w' list = Inr (vl_header vl, bv)"
    using store_pool_others(1) [OF st, of list] checks(2) by (simp add: load_list_Inr)
  moreover have "sp_total_lamports p = t" "sp_manager p = ai_key manager"
      "sp_validator_list p = ai_key list" "sp_reserve_stake p = ai_key reserve"
    by (simp_all add: p initialized_pool_def)
  ultimately show thesis
    using that [OF accts] checks vl f bv load_store_pool [OF st]
      fresh_initialized_pool [of p1 "ai_key manager"]
    unfolding initialize_reserve_lamports_Inr p by (metis ValidatorList.select_convs(1))
qed

lemma fresh_fees_ok:
  "fresh_pool p epf wdf dpf rf \<Longrightarrow> \<not> fee_above_one epf \<Longrightarrow> \<not> fee_above_one wdf \<Longrightarrow> \<not> fee_above_one dpf
     \<Longrightarrow> rf \<le> 100 \<Longrightarrow> fees_ok p"
  by (simp add: fresh_pool_def fees_ok_def)

section \<open>Properties\<close>

text \<open>
  C18. A successful initialization, signed by the manager, turns an uninitialized account into a
  valid pool with the given fees, all of them fractions of one, one pool token for every lamport
  that the reserve has above its rent, and an empty, well-formed validator list of the requested
  capacity in another account. It touches no other account of the program.
\<close>

theorem initialize_creates_pool:
  assumes "process_initialize E pid (pool # manager # staker # auth # list # reserve # accts) epf wdf dpf rf m w
      = Inr w'"
    and "cpi_law E pid"
  shows "\<exists>p0 p meta bv h. ai_is_signer manager \<and> load_pool w pool = Inr p0 \<and> sp_is_uninitialized p0
    \<and> e_decode_stake E (data_of w reserve) = Inr (StakeInitialized meta)
    \<and> load_pool w' pool = Inr p \<and> fresh_pool p epf wdf dpf rf \<and> fees_ok p
    \<and> pool_total p = uint (lamports_of w reserve) - uint (meta_rent_exempt_reserve meta)
    \<and> sp_manager p = ai_key manager \<and> sp_validator_list p = ai_key list
    \<and> sp_reserve_stake p = ai_key reserve \<and> ai_key pool \<noteq> ai_key list
    \<and> h = \<lparr>vlh_account_type = ValidatorListAccount, vlh_max_validators = m\<rparr>
    \<and> load_list w' list = Inr (h, bv) \<and> list_inv h bv \<and> vlist bv = []
    \<and> owned_frame pid {ai_key pool, ai_key list} w w'"
  using assms
proof (rule initialize_success)
  fix pool' manager' staker' auth' list' reserve' mint fee token rest p0 meta p bv
  let ?h = "\<lparr>vlh_account_type = ValidatorListAccount, vlh_max_validators = m\<rparr>"
  assume eq: "pool # manager # staker # auth # list # reserve # accts
      = pool' # manager' # staker' # auth' # list' # reserve' # mint # fee # token # rest"
    and a: "ai_is_signer manager'" "load_pool w pool' = Inr p0" "sp_is_uninitialized p0"
      "e_decode_stake E (data_of w reserve') = Inr (StakeInitialized meta)"
    and t: "checked_sub (lamports_of w reserve') (minimum_reserve_lamports meta) = Some (sp_total_lamports p)"
    and fees: "\<not> fee_above_one epf" "\<not> fee_above_one wdf" "\<not> fee_above_one dpf" "rf \<le> 100"
    and b: "load_pool w' pool' = Inr p" "fresh_pool p epf wdf dpf rf"
    and c: "sp_manager p = ai_key manager'" "sp_validator_list p = ai_key list'"
      "sp_reserve_stake p = ai_key reserve'" "ai_key pool' \<noteq> ai_key list'"
    and l: "load_list w' list' = Inr (?h, bv)" "list_inv ?h bv" "vlist bv = []"
    and f: "owned_frame pid {ai_key pool', ai_key list'} w w'"
  have eqs: "pool' = pool" "manager' = manager" "list' = list" "reserve' = reserve" using eq by simp_all
  have "pool_total p = uint (lamports_of w reserve) - uint (meta_rent_exempt_reserve meta)"
    using t by (simp add: eqs checked_simps minimum_reserve_lamports_def)
  with a b c l f fresh_fees_ok [OF b(2) fees] show ?thesis
    unfolding eqs by - (intro exI conjI, (assumption | rule refl)+)
qed

text \<open>
  For the witness: a fresh mint and zeroed accounts for the pool and for a list of 4 records, as the
  system program creates them.
\<close>

definition fresh_env :: env where
  "fresh_env = sample_env\<lparr>e_unpack_mint := \<lambda>_. Inr (sample_mint\<lparr>mint_supply := 0\<rparr>)\<rparr>"

definition empty_list :: ValidatorList where
  "empty_list = \<lparr>vl_header = \<lparr>vlh_account_type = Uninitialized, vlh_max_validators = 0\<rparr>, vl_validators = []\<rparr>"

definition no_fee :: Fee where
  "no_fee = \<lparr>fee_denominator = 0, fee_numerator = 0\<rparr>"

definition blank_pool :: StakePool where
  "blank_pool =
     \<lparr>sp_account_type = Uninitialized, sp_manager = 0, sp_staker = 0, sp_stake_deposit_authority = 0,
      sp_stake_withdraw_bump_seed = 0, sp_validator_list = 0, sp_reserve_stake = 0, sp_pool_mint = 0,
      sp_manager_fee_account = 0, sp_token_program_id = 0, sp_total_lamports = 0, sp_pool_token_supply = 0,
      sp_last_update_epoch = 0, sp_lockup = default_lockup, sp_epoch_fee = no_fee, sp_next_epoch_fee = FE_None,
      sp_preferred_deposit_validator_vote_address = None, sp_preferred_withdraw_validator_vote_address = None,
      sp_stake_deposit_fee = no_fee, sp_stake_withdrawal_fee = no_fee, sp_next_stake_withdrawal_fee = FE_None,
      sp_stake_referral_fee = 0, sp_sol_deposit_authority = None, sp_sol_deposit_fee = no_fee,
      sp_sol_referral_fee = 0, sp_sol_withdraw_authority = None, sp_sol_withdrawal_fee = no_fee,
      sp_next_sol_withdrawal_fee = FE_None, sp_last_epoch_pool_token_supply = 0, sp_last_epoch_total_lamports = 0\<rparr>"

definition fresh_world :: world where
  "fresh_world = sample_world
     (1 := \<lparr>acc_lamports = 5000000,
            acc_data = ser_stake_pool blank_pool @ replicate 611 0, acc_owner = 99\<rparr>,
      14 := \<lparr>acc_lamports = 5000000, acc_data = ser_validator_list empty_list @ replicate 292 0,
             acc_owner = 99\<rparr>)"

lemma fresh_env_fields [sample_simps]:
  "e_unpack_mint fresh_env d = Inr (sample_mint\<lparr>mint_supply := 0\<rparr>)"
  "e_find_program_address fresh_env ss k = (50, 7)" "e_clock_get fresh_env = Inr 5"
  "e_rent_get fresh_env = Inr sample_rent" "e_stake_program_id fresh_env = 6"
  "e_check_spl_token_program fresh_env k = Inr ()" "e_build_instruction fresh_env ix = Inr ()"
  "e_invoke_signed fresh_env ix infos seeds w = Inr w"
  "e_decode_stake fresh_env [1] = Inr (StakeInitialized sample_meta)"
  "e_unpack_token_account fresh_env [4] = Inr \<lparr>ta_mint = 16, ta_is_initialized = True, ta_extensions = Inr []\<rparr>"
  by (simp_all add: fresh_env_def sample_env_def)

lemma fresh_law: "cpi_law fresh_env pid"
  by (simp add: cpi_law_def fresh_env_def sample_env_def)

lemma fresh_accounts [sample_simps]:
  "owner_of fresh_world (acct 1) = 99" "owner_of fresh_world (acct 14) = 99" "owner_of fresh_world (acct 15) = 6"
  "owner_of fresh_world (acct 16) = 18" "owner_of fresh_world (acct 17) = 18"
  "lamports_of fresh_world (acct 15) = 10000000" "data_of fresh_world (acct 15) = [1]"
  "data_of fresh_world (acct 16) = [3]" "data_of fresh_world (acct 17) = [4]"
  "data_of fresh_world (acct 14) = ser_validator_list empty_list @ replicate 292 0"
  "data_of fresh_world (acct 1) = ser_stake_pool blank_pool @ replicate 611 0"
  by (simp_all add: owner_of_def lamports_of_def data_of_def fresh_world_def sample_world_def acct_def)

lemma fresh_zeroed:
  "set (ser_stake_pool blank_pool) \<subseteq> {0}" "set (ser_validator_list empty_list) \<subseteq> {0}"
proof -
  have z: "set (le_digits n 0) \<subseteq> {0}" for n by (induction n) auto
  then show "set (ser_stake_pool blank_pool) \<subseteq> {0}"
    by (simp add: ser_stake_pool_def blank_pool_def no_fee_def default_lockup_def ser_pubkey_def ser_u64_def
        ser_u8_def ser_fee_def ser_lockup_def to_le_bytes_def)
  from z show "set (ser_validator_list empty_list) \<subseteq> {0}"
    by (simp add: ser_validator_list_def empty_list_def ser_header_def ser_u32_def to_le_bytes_def)
qed

lemma initialize_runs_fee:
  assumes "\<not> fee_above_one wdf"
  shows "\<exists>w'. process_initialize fresh_env 99 [acct 1, signer 11, acct 12, acct 50, acct 14, acct 15, acct 16, acct 17,
     acct 18] \<lparr>fee_denominator = 100, fee_numerator = 1\<rparr> wdf
     \<lparr>fee_denominator = 1000, fee_numerator = 1\<rparr> 50 4 fresh_world = Inr w'"
proof -
  let ?vl = "\<lparr>vl_header = \<lparr>vlh_account_type = ValidatorListAccount, vlh_max_validators = 4\<rparr>, vl_validators = []\<rparr>"
  have load: "load_pool fresh_world (acct 1) = Inr blank_pool" "sp_is_uninitialized blank_pool"
    using b_pool.read_prefix [of blank_pool "replicate 611 0"]
    by (simp_all add: load_pool_def sample_simps sp_is_uninitialized_def blank_pool_def)
  have len: "length (ser_validator_list vl) = 9" if "vl_validators vl = []" for vl
    using that by (simp add: length_ser_validator_list HEADER_LEN_def)
  have list: "initialize_validator_list fresh_world 99 (acct 14) 4 = Inr ?vl"
    using de_ser_validator_list [of empty_list "replicate 292 0"]
    by (simp add: initialize_validator_list_def check_account_owner_def sample_simps try_from_slice_unchecked_def
        len empty_list_def header_is_uninitialized_def calculate_max_validators_def HEADER_LEN_def VSI_LEN_def
        usize_sat_add_def usize_max_def MAX_VALIDATORS_IN_POOL_def Let_def)
  have written: "\<exists>d. to_writer ser_validator_list (ser_validator_list empty_list @ replicate 292 0) ?vl = Inr d"
    by (simp add: to_writer_def len empty_list_def)
  have res: "initialize_reserve_lamports fresh_env fresh_world (acct 15) 50 = Inr 7717120"
    by (simp add: initialize_reserve_lamports_def sample_simps checked_sub_def minimum_reserve_lamports_def)
  have mint: "initialize_check_mint fresh_env fresh_world (acct 16) 50 = Inr ()"
    by (simp add: initialize_check_mint_def sample_simps sample_mint_def NATIVE_MINT_DECIMALS_def)
  have fee: "check_manager_fee_info fresh_env fresh_world
      (blank_pool\<lparr>sp_token_program_id := 18, sp_pool_mint := 16\<rparr>) (acct 17) = Inr ()"
    by (simp add: check_manager_fee_info_def sample_simps)
  let ?fee = "\<lambda>d n. \<lparr>fee_denominator = d, fee_numerator = n\<rparr>"
  let ?p = "initialized_pool (blank_pool\<lparr>sp_token_program_id := 18, sp_pool_mint := 16\<rparr>) 11 12 50 7 14 15 17 7717120 5
      (?fee 100 1) wdf (?fee 1000 1) 50 None"
  have fits: "length (ser_stake_pool ?p) \<le> length (ser_stake_pool blank_pool) + 611"
    by (rule trans_le_add2 [OF length_ser_stake_pool])
  have "\<exists>w'. store_pool (set_data fresh_world (acct 14) d) (acct 1) ?p = Inr w'" for d
    by (simp add: store_pool_def to_writer_def sample_simps) (rule fits)
  with written show ?thesis using assms
    by (auto simp: fee_above_one_def process_initialize_def load list res mint fee sample_simps check_account_owner_def
        initial_deposit_authorities_def find_withdraw_authority_program_address_def token_mint_to_def
        find_deposit_authority_program_address_def Let_def cong: tri_weak_cong)
qed

lemma initialize_runs:
  "\<exists>w'. process_initialize fresh_env 99 [acct 1, signer 11, acct 12, acct 50, acct 14, acct 15, acct 16, acct 17,
     acct 18] \<lparr>fee_denominator = 100, fee_numerator = 1\<rparr> \<lparr>fee_denominator = 1000, fee_numerator = 3\<rparr>
     \<lparr>fee_denominator = 1000, fee_numerator = 1\<rparr> 50 4 fresh_world = Inr w'"
  by (rule initialize_runs_fee) (simp add: fee_above_one_def)

theorem initialize_creates_pool_witness:
  "\<exists>w' p. process_initialize fresh_env 99 [acct 1, signer 11, acct 12, acct 50, acct 14, acct 15, acct 16, acct 17,
     acct 18] \<lparr>fee_denominator = 100, fee_numerator = 1\<rparr> \<lparr>fee_denominator = 1000, fee_numerator = 3\<rparr>
     \<lparr>fee_denominator = 1000, fee_numerator = 1\<rparr> 50 4 fresh_world = Inr w'
   \<and> load_pool w' (acct 1) = Inr p \<and> pool_total p = 7717120 \<and> fees_ok p"
proof -
  obtain w' where w': "process_initialize fresh_env 99 [acct 1, signer 11, acct 12, acct 50, acct 14, acct 15,
     acct 16, acct 17, acct 18] \<lparr>fee_denominator = 100, fee_numerator = 1\<rparr>
     \<lparr>fee_denominator = 1000, fee_numerator = 3\<rparr> \<lparr>fee_denominator = 1000, fee_numerator = 1\<rparr> 50 4 fresh_world
     = Inr w'"
    using initialize_runs by blast
  from initialize_creates_pool [OF w' fresh_law]
  obtain p where "load_pool w' (acct 1) = Inr p" "fees_ok p" "pool_total p = 10000000 - 2282880"
    by (auto simp: sample_simps)
  with w' show ?thesis by auto
qed

text \<open>
  C38. The decision on a withdrawal fee, completely: for a pool that the program owns, with room for its
  record, a change of the stake or the sol withdrawal fee is refused for a wrong or unsigned
  manager, for an outdated pool, for a rate above one, and for an increase beyond the limit, in this order; otherwise
  exactly this fee is scheduled. The limit is meant to be three halves of the old
  fee, where one in a thousand stands for a zero fee. It is decided on products of 128 bits: an
  overflow on the side of the old fee refuses, and an overflow on the side of the new fee accepts,
  whatever the increase.
\<close>

theorem set_withdrawal_fee_decided:
  assumes "owner_of w pool = pid" and "load_pool w pool = Inr p" and "sp_is_valid p"
    and "e_clock_get E = Inr epoch" and "611 \<le> length (data_of w pool)"
    and "fee = StakeWithdrawal f \<and> old = sp_stake_withdrawal_fee p \<and> q = p\<lparr>sp_next_stake_withdrawal_fee := FE_Two f\<rparr>
      \<or> fee = SolWithdrawal f \<and> old = sp_sol_withdrawal_fee p \<and> q = p\<lparr>sp_next_sol_withdrawal_fee := FE_Two f\<rparr>"
  shows "\<exists>w'. store_pool w pool q = Inr w' \<and> load_pool w' pool = Inr q
    \<and> process_set_fee E pid (pool # manager # rest) fee w =
      (let zero = fee_denominator old = 0 \<or> fee_numerator old = 0;
           allowed = 3 * (if zero then 1 else uint (fee_numerator old)) * uint (fee_denominator f);
           proposed = 2 * uint (fee_numerator f) * (if zero then 1000 else uint (fee_denominator old))
       in if ai_key manager \<noteq> sp_manager p then Inl (spe WrongManager)
          else if \<not> ai_is_signer manager then Inl (spe SignatureMissing)
          else if sp_last_update_epoch p < epoch then Inl (spe StakeListAndPoolOutOfDate)
          else if uint (fee_denominator f) < uint (fee_numerator f) then Inl (spe FeeTooHigh)
          else if proposed < 2 ^ 128 \<and> (2 ^ 128 \<le> allowed \<or> allowed < proposed)
          then Inl (spe FeeIncreaseTooHigh) else Inr w')"
proof -
  have "length (ser_stake_pool q) \<le> length (data_of w pool)"
    by (rule order_trans [OF length_ser_stake_pool assms(5)])
  then obtain w' where st: "store_pool w pool q = Inr w'" by (auto simp: store_pool_def to_writer_def)
  have high: "check_too_high fee = (if uint (fee_denominator f) < uint (fee_numerator f) then Inl FeeTooHigh else Inr ())"
    and next_epoch: "can_only_change_next_epoch fee"
    and upd: "update_fee p fee = tri (check_withdrawal f old) (\<lambda>_. Inr q)"
    using assms(6) by (auto simp: check_too_high_def word_less_def future_epoch_new_def)
  let ?zero = "fee_denominator old = 0 \<or> fee_numerator old = 0"
  let ?allowed = "3 * (if ?zero then 1 else uint (fee_numerator old)) * uint (fee_denominator f)"
  let ?proposed = "2 * uint (fee_numerator f) * (if ?zero then 1000 else uint (fee_denominator old))"
  define bad where "bad \<longleftrightarrow> ?proposed < 2 ^ 128 \<and> (2 ^ 128 \<le> ?allowed \<or> ?allowed < ?proposed)"
  have "check_withdrawal f old = (if bad then Inl FeeIncreaseTooHigh else Inr ())"
    unfolding check_withdrawal_exact Let_def bad_def by (rule refl)
  then have "process_set_fee E pid (pool # manager # rest) fee w =
      (if ai_key manager \<noteq> sp_manager p then Inl (spe WrongManager)
       else if \<not> ai_is_signer manager then Inl (spe SignatureMissing)
       else if sp_last_update_epoch p < epoch then Inl (spe StakeListAndPoolOutOfDate)
       else if uint (fee_denominator f) < uint (fee_numerator f) then Inl (spe FeeTooHigh)
       else if bad then Inl (spe FeeIncreaseTooHigh) else Inr w')"
    by (simp add: process_set_fee_def assms(1-4) check_account_owner_def check_manager_def high next_epoch upd st
        lift_spe_def cong: tri_weak_cong)
  with st load_store_pool [OF st] show ?thesis unfolding bad_def Let_def by blast
qed

text \<open>
  For the witness a pool whose withdrawal fee is the least there is: it can be followed at once by a fee
  of one, an increase by a factor of \<open>2 ^ 64 - 1\<close>.
\<close>

definition least_fee :: Fee where
  "least_fee = \<lparr>fee_denominator = 18446744073709551615, fee_numerator = 1\<rparr>"

definition full_fee :: Fee where
  "full_fee = \<lparr>fee_denominator = 18446744073709551615, fee_numerator = 18446744073709551615\<rparr>"

definition least_fee_pool :: StakePool where
  "least_fee_pool = sample_pool\<lparr>sp_stake_withdrawal_fee := least_fee\<rparr>"

definition least_fee_world :: world where
  "least_fee_world = sample_world
     (1 := \<lparr>acc_lamports = 5000000, acc_data = ser_stake_pool least_fee_pool @ replicate 611 0, acc_owner = 99\<rparr>)"

theorem set_withdrawal_fee_decided_witness:
  "\<exists>w'. process_set_fee sample_env 99 [acct 1, signer 11] (StakeWithdrawal full_fee) least_fee_world = Inr w'
   \<and> load_pool w' (acct 1) = Inr (least_fee_pool\<lparr>sp_next_stake_withdrawal_fee := FE_Two full_fee\<rparr>)
   \<and> 3 * uint (fee_numerator least_fee) * uint (fee_denominator full_fee)
       < 2 * uint (fee_numerator full_fee) * uint (fee_denominator least_fee)"
proof -
  let ?q = "least_fee_pool\<lparr>sp_next_stake_withdrawal_fee := FE_Two full_fee\<rparr>"
  have at: "owner_of least_fee_world (acct 1) = 99" "load_pool least_fee_world (acct 1) = Inr least_fee_pool"
    "sp_is_valid least_fee_pool" "e_clock_get sample_env = Inr 5" "611 \<le> length (data_of least_fee_world (acct 1))"
    using b_pool.read_prefix [of least_fee_pool "replicate 611 0"]
    by (simp_all add: least_fee_world_def owner_of_def load_pool_def data_of_def acct_def sample_env_def
        least_fee_pool_def sp_is_valid_def sample_pool_def)
  have "\<exists>w'. store_pool least_fee_world (acct 1) ?q = Inr w' \<and> load_pool w' (acct 1) = Inr ?q
    \<and> process_set_fee sample_env 99 [acct 1, signer 11] (StakeWithdrawal full_fee) least_fee_world = Inr w'"
    using set_withdrawal_fee_decided [OF at, of "StakeWithdrawal full_fee" full_fee
        "sp_stake_withdrawal_fee least_fee_pool" ?q "signer 11" "[]"]
    by (simp add: sample_simps least_fee_pool_def least_fee_def full_fee_def)
  then show ?thesis by (auto simp: least_fee_def full_fee_def)
qed

end
