(* ===== verification/Validators.thy ===== *)
theory Validators
  imports Sample Instructions
begin

text \<open>
  The instructions on the set of validators (\<^verbatim>\<open>program/src/processor.rs\<close>):
  \<open>process_add_validator_to_pool\<close>, \<open>process_remove_validator_from_pool\<close>,
  \<open>process_set_preferred_validator\<close> and \<open>process_cleanup_removed_validator_entries\<close>.
\<close>

section \<open>Adding a validator\<close>

text \<open>The checks of the list before a validator is added.\<close>

definition check_can_add :: "ValidatorListHeader \<Rightarrow> byte list \<Rightarrow> Pubkey \<Rightarrow> unit result" where
  "check_can_add header validator_list vote =
     (if \<not> header_is_valid header then Inl (spe InvalidState) else
      tri (bv_len validator_list) (\<lambda>len.
      if vlh_max_validators header = len then Inl AccountDataTooSmall
      else if len \<ge> MAX_VALIDATORS_IN_POOL then Inl (spe TooManyValidatorsInPool)
      else tri (find_validator validator_list vote) (\<lambda>maybe_validator_stake_info.
      if maybe_validator_stake_info \<noteq> None then Inl (spe ValidatorAlreadyAdded) else Inr ())))"

definition new_validator :: "Pubkey \<Rightarrow> u64 \<Rightarrow> u64 \<Rightarrow> u32 \<Rightarrow> ValidatorStakeInfo" where
  "new_validator vote required_lamports epoch raw_validator_seed =
     \<lparr>vsi_active_stake_lamports = required_lamports, vsi_transient_stake_lamports = 0,
      vsi_last_update_epoch = epoch, vsi_transient_seed_suffix = 0, vsi_unused = 0,
      vsi_validator_seed_suffix = raw_validator_seed, vsi_status = status_to_u8 Active,
      vsi_vote_account_address = vote\<rparr>"

definition process_add_validator_to_pool ::
    "env \<Rightarrow> Pubkey \<Rightarrow> AccountInfo list \<Rightarrow> u32 \<Rightarrow> world \<Rightarrow> world result" where
  "process_add_validator_to_pool E program_id accounts raw_validator_seed w =
     tri (next_account_info accounts) (\<lambda>(stake_pool_info, iter).
     tri (next_account_info iter) (\<lambda>(staker_info, iter).
     tri (next_account_info iter) (\<lambda>(reserve_stake_info, iter).
     tri (next_account_info iter) (\<lambda>(withdraw_authority_info, iter).
     tri (next_account_info iter) (\<lambda>(validator_list_info, iter).
     tri (next_account_info iter) (\<lambda>(stake_info, iter).
     tri (next_account_info iter) (\<lambda>(validator_vote_info, iter).
     tri (next_account_info iter) (\<lambda>(rent_info, iter).
     tri (e_rent_from_account_info E w rent_info) (\<lambda>rent.
     tri (next_account_info iter) (\<lambda>(clock_info, iter).
     tri (e_clock_from_account_info E w clock_info) (\<lambda>epoch.
     tri (next_account_info iter) (\<lambda>(stake_history_info, iter).
     tri (next_account_info iter) (\<lambda>(stake_config_info, iter).
     tri (next_account_info iter) (\<lambda>(system_program_info, iter).
     tri (next_account_info iter) (\<lambda>(stake_program_info, iter).
     tri (check_system_program E (ai_key system_program_info)) (\<lambda>_.
     tri (check_stake_program E (ai_key stake_program_info)) (\<lambda>_.
     tri (check_account_owner w stake_pool_info program_id) (\<lambda>_.
     tri (load_pool w stake_pool_info) (\<lambda>stake_pool.
     if \<not> sp_is_valid stake_pool then Inl (spe InvalidState) else
     tri (check_authority_withdraw E stake_pool (ai_key withdraw_authority_info) program_id
            (ai_key stake_pool_info)) (\<lambda>_.
     tri (check_staker stake_pool staker_info) (\<lambda>_.
     tri (check_reserve_stake stake_pool reserve_stake_info) (\<lambda>_.
     tri (check_validator_list stake_pool validator_list_info) (\<lambda>_.
     if sp_last_update_epoch stake_pool < epoch then Inl (spe StakeListAndPoolOutOfDate) else
     tri (check_account_owner w validator_list_info program_id) (\<lambda>_.
     tri (load_list w validator_list_info) (\<lambda>(header, validator_list).
     tri (check_can_add header validator_list (ai_key validator_vote_info)) (\<lambda>_.
     let validator_seed = NonZeroU32_new raw_validator_seed;
         (stake_address, bump_seed) = find_stake_program_address E program_id
           (ai_key validator_vote_info) (ai_key stake_pool_info) validator_seed in
     if stake_address \<noteq> ai_key stake_info then Inl (spe InvalidStakeAccountAddress) else
     let stake_account_signer_seeds =
           [key_bytes (ai_key validator_vote_info), key_bytes (ai_key stake_pool_info),
            validator_seed_bytes validator_seed, [bump_seed]];
         stake_space = e_stake_space E in
     tri (e_minimum_delegation E) (\<lambda>stake_minimum_delegation.
     let required_lamports = saturating_add (minimum_delegation stake_minimum_delegation)
           (rent_minimum_balance rent stake_space) in
     tri (e_decode_stake E (data_of w reserve_stake_info)) (\<lambda>reserve_stake.
     tri (ok_or (stake_meta reserve_stake) (spe WrongStakeStake)) (\<lambda>reserve_meta.
     if saturating_sub (lamports_of w reserve_stake_info) required_lamports
        < minimum_reserve_lamports reserve_meta
     then Inl InsufficientFunds else
     tri (create_stake_account E w stake_info stake_account_signer_seeds stake_space) (\<lambda>w.
     tri (stake_split E w (ai_key stake_pool_info) reserve_stake_info withdraw_authority_info
            AUTHORITY_WITHDRAW (sp_stake_withdraw_bump_seed stake_pool) required_lamports
            stake_info) (\<lambda>w.
     tri (stake_delegate E w stake_info validator_vote_info clock_info stake_history_info
            stake_config_info withdraw_authority_info (ai_key stake_pool_info)
            AUTHORITY_WITHDRAW (sp_stake_withdraw_bump_seed stake_pool)) (\<lambda>w.
     tri (bv_push VSI_LEN
            (enc_vsi (new_validator (ai_key validator_vote_info) required_lamports epoch
               raw_validator_seed)) validator_list) (\<lambda>validator_list.
     Inr (store_list w validator_list_info header validator_list))))))))))))))))))))))))))))))))))"

section \<open>Removing a validator\<close>

text \<open>
  The transient stake of a validator that is removed: checked, and deactivated unless it is
  deactivating already or not the pool's.
\<close>

definition remove_transient ::
    "env \<Rightarrow> Pubkey \<Rightarrow> StakePool \<Rightarrow> AccountInfo \<Rightarrow> AccountInfo \<Rightarrow> AccountInfo \<Rightarrow> AccountInfo \<Rightarrow> Pubkey
      \<Rightarrow> ValidatorStakeInfo \<Rightarrow> world \<Rightarrow> (StakeStatus \<times> world) result" where
  "remove_transient E program_id stake_pool stake_pool_info withdraw_authority_info
       transient_stake_account_info clock_info vote_account_address validator_stake_info w =
     (if vsi_transient_stake_lamports validator_stake_info > 0 then
        tri (check_transient_stake_address E program_id (ai_key stake_pool_info)
               (ai_key transient_stake_account_info) vote_account_address
               (vsi_transient_seed_suffix validator_stake_info)) (\<lambda>_.
        tri (case get_stake_state E w transient_stake_account_info of
               Inr (meta, stake) \<Rightarrow>
                 if stake_is_usable_by_pool meta (ai_key withdraw_authority_info) (sp_lockup stake_pool)
                    \<and> del_deactivation_epoch stake = EPOCH_MAX
                 then stake_deactivate E w transient_stake_account_info clock_info
                        withdraw_authority_info (ai_key stake_pool_info) AUTHORITY_WITHDRAW
                        (sp_stake_withdraw_bump_seed stake_pool)
                 else Inr w
             | Inl _ \<Rightarrow> Inr w) (\<lambda>w.
        Inr (DeactivatingAll, w)))
      else Inr (DeactivatingValidator, w))"

text \<open>Preferences for a validator that leaves the pool are dropped.\<close>

definition reset_preferred :: "Pubkey \<Rightarrow> StakePool \<Rightarrow> StakePool" where
  "reset_preferred vote stake_pool =
     (let stake_pool =
        (if sp_preferred_deposit_validator_vote_address stake_pool = Some vote
         then stake_pool\<lparr>sp_preferred_deposit_validator_vote_address := None\<rparr> else stake_pool)
      in if sp_preferred_withdraw_validator_vote_address stake_pool = Some vote
         then stake_pool\<lparr>sp_preferred_withdraw_validator_vote_address := None\<rparr> else stake_pool)"

definition process_remove_validator_from_pool ::
    "env \<Rightarrow> Pubkey \<Rightarrow> AccountInfo list \<Rightarrow> world \<Rightarrow> world result" where
  "process_remove_validator_from_pool E program_id accounts w =
     tri (next_account_info accounts) (\<lambda>(stake_pool_info, iter).
     tri (next_account_info iter) (\<lambda>(staker_info, iter).
     tri (next_account_info iter) (\<lambda>(withdraw_authority_info, iter).
     tri (next_account_info iter) (\<lambda>(validator_list_info, iter).
     tri (next_account_info iter) (\<lambda>(stake_account_info, iter).
     tri (next_account_info iter) (\<lambda>(transient_stake_account_info, iter).
     tri (next_account_info iter) (\<lambda>(clock_info, iter).
     tri (e_clock_from_account_info E w clock_info) (\<lambda>epoch.
     tri (next_account_info iter) (\<lambda>(stake_program_info, iter).
     tri (check_stake_program E (ai_key stake_program_info)) (\<lambda>_.
     tri (check_account_owner w stake_pool_info program_id) (\<lambda>_.
     tri (load_pool w stake_pool_info) (\<lambda>stake_pool.
     if \<not> sp_is_valid stake_pool then Inl (spe InvalidState) else
     tri (check_authority_withdraw E stake_pool (ai_key withdraw_authority_info) program_id
            (ai_key stake_pool_info)) (\<lambda>_.
     tri (check_staker stake_pool staker_info) (\<lambda>_.
     if sp_last_update_epoch stake_pool < epoch then Inl (spe StakeListAndPoolOutOfDate) else
     tri (check_validator_list stake_pool validator_list_info) (\<lambda>_.
     tri (check_account_owner w validator_list_info program_id) (\<lambda>_.
     tri (load_list w validator_list_info) (\<lambda>(header, validator_list).
     if \<not> header_is_valid header then Inl (spe InvalidState) else
     tri (get_stake_state E w stake_account_info) (\<lambda>(_, stake).
     let vote_account_address = del_voter_pubkey stake in
     tri (find_validator_mut validator_list vote_account_address) (\<lambda>maybe_validator_stake_info.
     case maybe_validator_stake_info of
       None \<Rightarrow> Inl (spe ValidatorNotFound)
     | Some (offset, validator_stake_info) \<Rightarrow>
     tri (check_validator_stake_address E program_id (ai_key stake_pool_info)
            (ai_key stake_account_info) vote_account_address
            (NonZeroU32_new (vsi_validator_seed_suffix validator_stake_info))) (\<lambda>_.
     if vsi_status validator_stake_info \<noteq> status_to_u8 Active then Inl (spe ValidatorNotFound) else
     tri (remove_transient E program_id stake_pool stake_pool_info withdraw_authority_info
            transient_stake_account_info clock_info vote_account_address validator_stake_info w)
       (\<lambda>(new_status, w).
     tri (if del_deactivation_epoch stake = EPOCH_MAX
          then stake_deactivate E w stake_account_info clock_info withdraw_authority_info
                 (ai_key stake_pool_info) AUTHORITY_WITHDRAW
                 (sp_stake_withdraw_bump_seed stake_pool)
          else Inr w) (\<lambda>w.
     let w = store_validator w validator_list_info header validator_list offset
               (validator_stake_info\<lparr>vsi_status := status_to_u8 new_status\<rparr>) in
     store_pool w stake_pool_info (reset_preferred vote_account_address stake_pool)))))))))))))))))))))))"

section \<open>Preferred validators\<close>

definition check_preferred :: "byte list \<Rightarrow> Pubkey option \<Rightarrow> unit result" where
  "check_preferred validator_list vote_account_address =
     (case vote_account_address of
        None \<Rightarrow> Inr ()
      | Some vote_account_address \<Rightarrow>
          tri (find_validator validator_list vote_account_address) (\<lambda>maybe_validator_stake_info.
          case maybe_validator_stake_info of
            Some vsi \<Rightarrow> if vsi_status vsi \<noteq> status_to_u8 Active
                        then Inl (spe InvalidPreferredValidator) else Inr ()
          | None \<Rightarrow> Inl (spe ValidatorNotFound)))"

definition process_set_preferred_validator ::
    "env \<Rightarrow> Pubkey \<Rightarrow> AccountInfo list \<Rightarrow> PreferredValidatorType \<Rightarrow> Pubkey option \<Rightarrow> world
      \<Rightarrow> world result" where
  "process_set_preferred_validator E program_id accounts validator_type vote_account_address w =
     tri (next_account_info accounts) (\<lambda>(stake_pool_info, iter).
     tri (next_account_info iter) (\<lambda>(staker_info, iter).
     tri (next_account_info iter) (\<lambda>(validator_list_info, iter).
     tri (check_account_owner w stake_pool_info program_id) (\<lambda>_.
     tri (check_account_owner w validator_list_info program_id) (\<lambda>_.
     tri (load_pool w stake_pool_info) (\<lambda>stake_pool.
     if \<not> sp_is_valid stake_pool then Inl (spe InvalidState) else
     tri (check_staker stake_pool staker_info) (\<lambda>_.
     tri (check_validator_list stake_pool validator_list_info) (\<lambda>_.
     tri (load_list w validator_list_info) (\<lambda>(header, validator_list).
     if \<not> header_is_valid header then Inl (spe InvalidState) else
     tri (check_preferred validator_list vote_account_address) (\<lambda>_.
     store_pool w stake_pool_info
       (case validator_type of
          PreferredDeposit \<Rightarrow>
            stake_pool\<lparr>sp_preferred_deposit_validator_vote_address := vote_account_address\<rparr>
        | PreferredWithdraw \<Rightarrow>
            stake_pool\<lparr>sp_preferred_withdraw_validator_vote_address := vote_account_address\<rparr>)))))))))))"

section \<open>Cleaning up\<close>

text \<open>A preference is dropped unless the list has the validator and it is active.\<close>

definition checked_preference :: "byte list \<Rightarrow> Pubkey option \<Rightarrow> Pubkey option result" where
  "checked_preference validator_list preferred =
     (case preferred of
        None \<Rightarrow> Inr None
      | Some vote \<Rightarrow>
          tri (find_validator validator_list vote) (\<lambda>maybe_validator.
          let should_reset = (case maybe_validator of
                Some validator \<Rightarrow> status_try_from (vsi_status validator) \<noteq> Inr Active
              | None \<Rightarrow> True)
          in Inr (if should_reset then None else Some vote)))"

definition process_cleanup_removed_validator_entries ::
    "env \<Rightarrow> Pubkey \<Rightarrow> AccountInfo list \<Rightarrow> world \<Rightarrow> world result" where
  "process_cleanup_removed_validator_entries E program_id accounts w =
     tri (next_account_info accounts) (\<lambda>(stake_pool_info, iter).
     tri (next_account_info iter) (\<lambda>(validator_list_info, iter).
     tri (check_account_owner w stake_pool_info program_id) (\<lambda>_.
     tri (load_pool w stake_pool_info) (\<lambda>stake_pool.
     if \<not> sp_is_valid stake_pool then Inl (spe InvalidState) else
     tri (check_validator_list stake_pool validator_list_info) (\<lambda>_.
     tri (check_account_owner w validator_list_info program_id) (\<lambda>_.
     tri (load_list w validator_list_info) (\<lambda>(header, validator_list).
     if \<not> header_is_valid header then Inl (spe InvalidState) else
     tri (bv_retain VSI_LEN (\<lambda>x. \<not> is_removed x) validator_list) (\<lambda>validator_list.
     let w = store_list w validator_list_info header validator_list in
     if ai_is_writable stake_pool_info then
       tri (load_pool w stake_pool_info) (\<lambda>stake_pool.
       tri (checked_preference validator_list
              (sp_preferred_deposit_validator_vote_address stake_pool)) (\<lambda>preferred_deposit.
       tri (checked_preference validator_list
              (sp_preferred_withdraw_validator_vote_address stake_pool)) (\<lambda>preferred_withdraw.
       store_pool w stake_pool_info
         (stake_pool\<lparr>sp_preferred_deposit_validator_vote_address := preferred_deposit,
                     sp_preferred_withdraw_validator_vote_address := preferred_withdraw\<rparr>))))
     else Inr w))))))))"

text \<open>An active validator of the list.\<close>

definition active_in :: "byte list \<Rightarrow> Pubkey \<Rightarrow> bool" where
  "active_in bv vote \<longleftrightarrow>
     (\<exists>v \<in> set (vlist bv). vsi_vote_account_address v = vote \<and> vsi_status v = status_to_u8 Active)"

section \<open>Successful runs\<close>

lemma check_can_add_Inr:
  assumes "check_can_add h bv vote = Inr u" "vlist_wf bv"
  shows "header_is_valid h" "bv_count bv \<noteq> unat (vlh_max_validators h)"
    "bv_count bv < unat MAX_VALIDATORS_IN_POOL"
    "vote \<notin> vsi_vote_account_address ` set (vlist bv)"
  using assms bv_count_bound [of bv]
  by (auto simp: check_can_add_def inversions bv_len_ok find_validator_Inr find_None_iff
      unat_of_nat word_le_nat_alt not_le)

lemma find_SomeD: "List.find P xs = Some x \<Longrightarrow> x \<in> set xs \<and> P x"
  by (auto simp: find_Some_iff)

lemma checked_preference_active:
  assumes "vlist_wf bv" "checked_preference bv pref = Inr (Some vote)"
  shows "active_in bv vote" "pref = Some vote"
  using assms
  by (auto simp: checked_preference_def find_validator_Inr Let_def active_in_def status_try_from_def
      status_from_u8_def result_simps dest: find_SomeD split: option.splits if_splits)

lemma check_preferred_active:
  assumes "vlist_wf bv" "check_preferred bv vote = Inr u"
  shows "pred_option (active_in bv) vote"
  using assms
  by (cases vote) (auto simp: check_preferred_def find_validator_Inr active_in_def dest: find_SomeD
      split: option.splits if_splits)

lemma add_validator_success:
  assumes run: "process_add_validator_to_pool E pid accts seed w = Inr w'" and law: "cpi_law E pid"
  obtains pool staker reserve authority list stake vote rest p epoch h bv req bv' w1 where
    "accts = pool # staker # reserve # authority # list # stake # vote # rest"
    "owner_of w pool = pid" "load_pool w pool = Inr p" "sp_is_valid p"
    "ai_key staker = sp_staker p" "ai_is_signer staker" "ai_key reserve = sp_reserve_stake p"
    "ai_key list = sp_validator_list p" "owner_of w list = pid"
    "\<not> sp_last_update_epoch p < epoch"
    "load_list w list = Inr (h, bv)" "check_can_add h bv (ai_key vote) = Inr ()"
    "bv_push VSI_LEN (enc_vsi (new_validator (ai_key vote) req epoch seed)) bv = Inr bv'"
    "MINIMUM_ACTIVE_STAKE \<le> req"
    "w' = store_list w1 list h bv'" "owned_frame pid {} w w1"
proof -
  obtain pool staker reserve authority list stake vote rest p epoch h bv d r seeds n wa wb w1 bv'
      clock history config req where
    accts: "accts = pool # staker # reserve # authority # list # stake # vote # rest"
    and facts: "owner_of w pool = pid" "load_pool w pool = Inr p" "sp_is_valid p"
      "ai_key staker = sp_staker p" "ai_is_signer staker" "ai_key reserve = sp_reserve_stake p"
      "ai_key list = sp_validator_list p" "owner_of w list = pid"
      "\<not> sp_last_update_epoch p < epoch"
      "load_list w list = Inr (h, bv)" "check_can_add h bv (ai_key vote) = Inr ()"
      "bv_push VSI_LEN (enc_vsi (new_validator (ai_key vote) req epoch seed)) bv = Inr bv'"
    and req: "req = saturating_add (minimum_delegation d) r"
    and calls: "create_stake_account E w stake seeds n = Inr wa"
      "stake_split E wa (ai_key pool) reserve authority AUTHORITY_WITHDRAW
         (sp_stake_withdraw_bump_seed p) req stake = Inr wb"
      "stake_delegate E wb stake vote clock history config authority (ai_key pool)
         AUTHORITY_WITHDRAW (sp_stake_withdraw_bump_seed p) = Inr w1"
    and w': "w' = store_list w1 list h bv'"
    using run by (auto simp: process_add_validator_to_pool_def inversions Let_def)
  have "MINIMUM_ACTIVE_STAKE \<le> req"
    unfolding req using minimum_delegation_bounds(1) saturating_add_ge by (rule order_trans)
  moreover have "owned_frame pid {} w w1"
    using calls calls_frame(1,2,4) [OF law] owned_frame_trans by metis
  ultimately show thesis using that [OF accts facts] w' by blast
qed

lemma remove_transient_frame:
  assumes "remove_transient E pid p pool authority transient clock vote v w = Inr (st, w')"
    and law: "cpi_law E pid"
  shows "owned_frame pid {} w w'"
    and "st = (if vsi_transient_stake_lamports v > 0 then DeactivatingAll else DeactivatingValidator)"
  using assms(1)
  by (auto simp: remove_transient_def inversions intro: calls_frame [OF law]
      split: if_splits sum.splits prod.splits)

lemma reset_preferred_step: "pool_step NewPreference p (reset_preferred vote p)"
proof -
  have "reset_preferred vote p =
      p\<lparr>sp_preferred_deposit_validator_vote_address :=
          (if sp_preferred_deposit_validator_vote_address p = Some vote then None
           else sp_preferred_deposit_validator_vote_address p),
        sp_preferred_withdraw_validator_vote_address :=
          (if sp_preferred_withdraw_validator_vote_address p = Some vote then None
           else sp_preferred_withdraw_validator_vote_address p)\<rparr>"
    by (simp add: reset_preferred_def)
  then show ?thesis by (metis step_preference)
qed

lemma remove_validator_success:
  assumes run: "process_remove_validator_from_pool E pid accts w = Inr w'" and law: "cpi_law E pid"
  obtains pool staker authority list stake transient clock rest p epoch h bv meta d i v w1 where
    "accts = pool # staker # authority # list # stake # transient # clock # rest"
    "owner_of w pool = pid" "load_pool w pool = Inr p" "sp_is_valid p"
    "ai_key staker = sp_staker p" "ai_is_signer staker"
    "ai_key list = sp_validator_list p" "owner_of w list = pid"
    "\<not> sp_last_update_epoch p < epoch"
    "load_list w list = Inr (h, bv)" "header_is_valid h"
    "e_decode_stake E (data_of w stake) = Inr (StakeDelegated meta d)"
    "find_validator_mut bv (del_voter_pubkey d) = Inr (Some (i, v))"
    "vsi_status v = status_to_u8 Active"
    "owned_frame pid {} w w1"
    "store_pool (store_validator w1 list h bv i
       (v\<lparr>vsi_status := status_to_u8 (if vsi_transient_stake_lamports v > 0
             then DeactivatingAll else DeactivatingValidator)\<rparr>))
       pool (reset_preferred (del_voter_pubkey d) p) = Inr w'"
proof -
  obtain pool staker authority list stake transient clock rest p epoch h bv meta d i v st wa w1 where
    accts: "accts = pool # staker # authority # list # stake # transient # clock # rest"
    and facts: "owner_of w pool = pid" "load_pool w pool = Inr p" "sp_is_valid p"
      "ai_key staker = sp_staker p" "ai_is_signer staker"
      "ai_key list = sp_validator_list p" "owner_of w list = pid"
      "\<not> sp_last_update_epoch p < epoch" "load_list w list = Inr (h, bv)" "header_is_valid h"
      "e_decode_stake E (data_of w stake) = Inr (StakeDelegated meta d)"
      "find_validator_mut bv (del_voter_pubkey d) = Inr (Some (i, v))"
      "vsi_status v = status_to_u8 Active"
    and rem: "remove_transient E pid p pool authority transient clock (del_voter_pubkey d) v w
        = Inr (st, wa)"
    and dea: "(if del_deactivation_epoch d = EPOCH_MAX
        then stake_deactivate E wa stake clock authority (ai_key pool) AUTHORITY_WITHDRAW
               (sp_stake_withdraw_bump_seed p) else Inr wa) = Inr w1"
    and st: "store_pool (store_validator w1 list h bv i (v\<lparr>vsi_status := status_to_u8 st\<rparr>))
        pool (reset_preferred (del_voter_pubkey d) p) = Inr w'"
    using run by (auto simp: process_remove_validator_from_pool_def inversions Let_def cong: if_cong)
  have "owned_frame pid {} wa w1"
    using dea calls_frame(3) [OF law] by (auto split: if_splits)
  then have "owned_frame pid {} w w1"
    by (rule owned_frame_trans [OF remove_transient_frame(1) [OF rem law]])
  then show thesis
    using that [OF accts facts] st remove_transient_frame(2) [OF rem law] by simp
qed

lemma set_preferred_success:
  assumes "process_set_preferred_validator E pid accts t vote w = Inr w'"
  obtains pool staker list rest p h bv p' where
    "accts = pool # staker # list # rest"
    "owner_of w pool = pid" "load_pool w pool = Inr p" "sp_is_valid p"
    "ai_key staker = sp_staker p" "ai_is_signer staker"
    "ai_key list = sp_validator_list p" "owner_of w list = pid"
    "load_list w list = Inr (h, bv)" "header_is_valid h" "check_preferred bv vote = Inr ()"
    "p' = (case t of
        PreferredDeposit \<Rightarrow> p\<lparr>sp_preferred_deposit_validator_vote_address := vote\<rparr>
      | PreferredWithdraw \<Rightarrow> p\<lparr>sp_preferred_withdraw_validator_vote_address := vote\<rparr>)"
    "store_pool w pool p' = Inr w'"
  using assms by (auto simp: process_set_preferred_validator_def inversions)

lemma cleanup_success:
  assumes "process_cleanup_removed_validator_entries E pid accts w = Inr w'"
  obtains pool list rest p h bv bv' where
    "accts = pool # list # rest"
    "owner_of w pool = pid" "load_pool w pool = Inr p" "sp_is_valid p"
    "ai_key list = sp_validator_list p" "owner_of w list = pid"
    "load_list w list = Inr (h, bv)" "header_is_valid h"
    "bv_retain VSI_LEN (\<lambda>x. \<not> is_removed x) bv = Inr bv'"
    "\<not> ai_is_writable pool \<and> w' = store_list w list h bv'
     \<or> ai_is_writable pool \<and>
       (\<exists>d x. checked_preference bv' (sp_preferred_deposit_validator_vote_address p) = Inr d
          \<and> checked_preference bv' (sp_preferred_withdraw_validator_vote_address p) = Inr x
          \<and> store_pool (store_list w list h bv') pool
               (p\<lparr>sp_preferred_deposit_validator_vote_address := d,
                  sp_preferred_withdraw_validator_vote_address := x\<rparr>) = Inr w')"
proof -
  obtain pool list rest p h bv bv' where
    accts: "accts = pool # list # rest"
    and facts: "owner_of w pool = pid" "load_pool w pool = Inr p" "sp_is_valid p"
      "ai_key list = sp_validator_list p" "owner_of w list = pid"
      "load_list w list = Inr (h, bv)" "header_is_valid h"
      "bv_retain VSI_LEN (\<lambda>x. \<not> is_removed x) bv = Inr bv'"
    and final: "(if ai_is_writable pool then
       tri (load_pool (store_list w list h bv') pool) (\<lambda>stake_pool.
       tri (checked_preference bv' (sp_preferred_deposit_validator_vote_address stake_pool)) (\<lambda>d.
       tri (checked_preference bv' (sp_preferred_withdraw_validator_vote_address stake_pool)) (\<lambda>x.
       store_pool (store_list w list h bv') pool
         (stake_pool\<lparr>sp_preferred_deposit_validator_vote_address := d,
                     sp_preferred_withdraw_validator_vote_address := x\<rparr>))))
       else Inr (store_list w list h bv')) = Inr w'"
    using assms
    by (auto simp: process_cleanup_removed_validator_entries_def inversions Let_def cong: if_cong)
  have "load_pool (store_list w list h bv') pool = Inr p"
    using pool_not_list [OF facts(2,3,6,7)] facts(2) by (simp add: load_pool_def store_list_def)
  then show thesis
    using that [OF accts facts] final by (auto simp: inversions split: if_splits)
qed

section \<open>The handlers implement actions of the pool\<close>

interpretation add_validator: pool_handler
    "\<lambda>E pid accts. process_add_validator_to_pool E pid accts seed" "\<lambda>a. a = Keeping" for seed
proof
  fix E pid accts w w'
  assume law: "cpi_law E pid" and run: "process_add_validator_to_pool E pid accts seed w = Inr w'"
  from run law show "pool_contract pid accts (step_of (\<lambda>a. a = Keeping)) w w'"
    by (rule add_validator_success)
      (auto simp: check_can_add_def inversions intro!: contract_store_list step_ofI [OF step_keep])
qed

interpretation remove_validator: pool_handler process_remove_validator_from_pool
    "\<lambda>a. a = NewPreference"
proof
  fix E pid accts w w'
  assume law: "cpi_law E pid" and run: "process_remove_validator_from_pool E pid accts w = Inr w'"
  from run law show "pool_contract pid accts (step_of (\<lambda>a. a = NewPreference)) w w'"
    by (rule remove_validator_success)
      (auto simp: store_validator_def
        intro!: contract_store_both step_ofI [OF reset_preferred_step]
          step_valid [OF reset_preferred_step])
qed

interpretation set_preferred: pool_handler
    "\<lambda>E pid accts. process_set_preferred_validator E pid accts t vote" "\<lambda>a. a = NewPreference" for t vote
proof
  fix E pid accts w w'
  assume run: "process_set_preferred_validator E pid accts t vote w = Inr w'"
  have st: "pool_step NewPreference p (case t of
        PreferredDeposit \<Rightarrow> p\<lparr>sp_preferred_deposit_validator_vote_address := vote\<rparr>
      | PreferredWithdraw \<Rightarrow> p\<lparr>sp_preferred_withdraw_validator_vote_address := vote\<rparr>)" for p
    using step_preference [of p vote "sp_preferred_deposit_validator_vote_address p"]
      step_preference [of p "sp_preferred_withdraw_validator_vote_address p" vote]
    by (cases t) simp_all
  from run show "pool_contract pid accts (step_of (\<lambda>a. a = NewPreference)) w w'"
    by (rule set_preferred_success)
      (auto intro!: contract_writes [where a = NewPreference] st)
qed

interpretation cleanup: pool_handler process_cleanup_removed_validator_entries
    "\<lambda>a. a \<in> {Keeping, NewPreference}"
proof
  fix E pid accts w w'
  assume run: "process_cleanup_removed_validator_entries E pid accts w = Inr w'"
  let ?R = "step_of (\<lambda>a. a \<in> {Keeping, NewPreference})"
  obtain pool list rest p h bv bv' where
    accts: "accts = pool # list # rest"
    and facts: "owner_of w pool = pid" "load_pool w pool = Inr p" "sp_is_valid p"
      "load_list w list = Inr (h, bv)" "header_is_valid h" "ai_key list = sp_validator_list p"
    and ends: "w' = store_list w list h bv' \<or>
       (\<exists>d x. store_pool (store_list w list h bv') pool
               (p\<lparr>sp_preferred_deposit_validator_vote_address := d,
                  sp_preferred_withdraw_validator_vote_address := x\<rparr>) = Inr w')"
    by (rule cleanup_success [OF run]) blast
  from ends show "pool_contract pid accts ?R w w'"
  proof (elim disjE exE)
    assume "w' = store_list w list h bv'"
    then show ?thesis
      unfolding accts using facts step_ofI [OF step_keep [of p], of "\<lambda>a. a \<in> {Keeping, NewPreference}"]
      by (auto intro!: contract_store_list)
  next
    fix d x
    let ?p = "p\<lparr>sp_preferred_deposit_validator_vote_address := d,
                sp_preferred_withdraw_validator_vote_address := x\<rparr>"
    assume st: "store_pool (store_list w list h bv') pool ?p = Inr w'"
    have "?R p ?p" by (rule step_ofI [OF step_preference]) simp
    moreover have "sp_is_valid ?p" using facts(3) by (simp add: sp_is_valid_def)
    ultimately show ?thesis
      unfolding accts
      by (intro contract_store_both [OF facts owned_frame_refl st(1), where bv' = bv']) simp_all
  qed
qed

section \<open>Properties\<close>

text \<open>
  C19. Adding a validator appends exactly one record to the list: active, with the new vote account,
  no transient stake, the current epoch and at least the minimum active stake, and leaves the pool
  and the other records as they were. The list stays well formed, within its capacity and without
  duplicates, and the staker has signed.
\<close>

theorem add_validator_appends:
  assumes "process_add_validator_to_pool E pid (pool # staker # reserve # authority # list # stake # vote # rest)
      seed w = Inr w'"
    and "cpi_law E pid" and "load_list w list = Inr (h, bv)" and "list_inv h bv"
  shows "\<exists>bv' req epoch. load_list w' list = Inr (h, bv') \<and> list_inv h bv'
    \<and> vlist bv' = vlist bv @ [new_validator (ai_key vote) req epoch seed]
    \<and> MINIMUM_ACTIVE_STAKE \<le> req \<and> bv_count bv < unat MAX_VALIDATORS_IN_POOL
    \<and> load_pool w' pool = load_pool w pool
    \<and> (\<exists>p. load_pool w pool = Inr p \<and> ai_key staker = sp_staker p \<and> ai_is_signer staker)"
  using assms(1,2)
proof (rule add_validator_success)
  fix pool' staker' reserve' authority' list' stake' vote' rest' p epoch h' b req bv' w1
  assume eq: "pool # staker # reserve # authority # list # stake # vote # rest
      = pool' # staker' # reserve' # authority' # list' # stake' # vote' # rest'"
    and o: "owner_of w pool' = pid" and p: "load_pool w pool' = Inr p" "sp_is_valid p"
    and s: "ai_key staker' = sp_staker p" "ai_is_signer staker'"
    and l: "load_list w list' = Inr (h', b)" "check_can_add h' b (ai_key vote') = Inr ()"
    and push: "bv_push VSI_LEN (enc_vsi (new_validator (ai_key vote') req epoch seed)) b = Inr bv'"
    and req: "MINIMUM_ACTIVE_STAKE \<le> req"
    and w': "w' = store_list w1 list' h' bv'" and f: "owned_frame pid {} w w1"
  have b: "h' = h" "b = bv" using eq l(1) assms(3) by simp_all
  have wf: "vlist_wf bv" using assms(4) by (simp add: list_inv_def)
  note add = check_can_add_Inr [OF l(2) [unfolded b] wf]
  note l' = list_inv_push [OF assms(4) add(2) _ push [unfolded b]]
  have inv: "list_inv h bv'" "vlist bv' = vlist bv @ [new_validator (ai_key vote) req epoch seed]"
    using l' add(4) eq by (simp_all add: new_validator_def)
  have "ai_key pool' \<noteq> ai_key list'"
    by (rule pool_not_list [OF p l(1)]) (simp add: b add(1))
  then have "load_pool w' pool = load_pool w pool"
    using eq owned_frame_data(1) [OF f o] by (simp add: w' load_pool_def store_list_def)
  moreover have "load_list w' list = Inr (h, bv')" using eq by (simp add: w' b)
  ultimately show ?thesis using inv req add(3) p(1) s eq by blast
qed

lemma sample_add_runs:
  "\<exists>w'. process_add_validator_to_pool sample_env 99
     [acct 1, signer 12, acct 15, acct 50, acct 14, acct 50, acct 40, acct 70, acct 71, acct 72,
      acct 73, acct 5, acct 6] 0 sample_world = Inr w'"
proof -
  have wf: "vlist_wf sample_vec" by (rule sample_vec_facts)
  have c: "check_can_add sample_header sample_vec 40 = Inr ()"
    by (simp add: check_can_add_def sample_valid bv_len_ok [OF wf] sample_count
        find_validator_Inr [OF wf] sample_vec_facts sample_validators_def default_vsi_def
        sample_header_def MAX_VALIDATORS_IN_POOL_def header_is_valid_def)
  obtain bv where push: "bv_push VSI_LEN (enc_vsi (new_validator 40 3282880 5 0)) sample_vec = Inr bv"
    using vsi.push_refines [OF wf, of "new_validator 40 3282880 5 0"]
    by (auto simp: sample_count sample_vec_facts VEC_SIZE_BYTES_def VSI_LEN_def)
  have req: "saturating_add (minimum_delegation 1000000) 2282880 = 3282880"
    by (simp add: saturating_add_def minimum_delegation_def MINIMUM_ACTIVE_STAKE_def)
  have enough: "\<not> saturating_sub 10000000 3282880 < (2282880 :: u64)"
    by (simp add: saturating_sub_def)
  show ?thesis
    by (simp add: process_add_validator_to_pool_def sample_simps c push req enough
        check_system_program_def check_stake_program_def check_account_owner_def
        check_authority_withdraw_def check_program_derived_authority_def check_staker_def
        check_reserve_stake_def check_validator_list_def find_stake_program_address_def
        create_stake_account_def stake_split_def stake_delegate_def
        cong: tri_weak_cong)
qed

theorem add_validator_appends_witness:
  "\<exists>w' bv'. process_add_validator_to_pool sample_env 99
     [acct 1, signer 12, acct 15, acct 50, acct 14, acct 50, acct 40, acct 70, acct 71, acct 72,
      acct 73, acct 5, acct 6] 0 sample_world = Inr w'
     \<and> load_list w' (acct 14) = Inr (sample_header, bv')
     \<and> map vsi_vote_account_address (vlist bv') = [21, 22, 23, 40]"
proof -
  obtain w' where w': "process_add_validator_to_pool sample_env 99
     [acct 1, signer 12, acct 15, acct 50, acct 14, acct 50, acct 40, acct 70, acct 71, acct 72,
      acct 73, acct 5, acct 6] 0 sample_world = Inr w'"
    using sample_add_runs by blast
  from add_validator_appends [OF w' sample_law sample_load(2) sample_list_inv]
  obtain bv' req epoch where l: "load_list w' (acct 14) = Inr (sample_header, bv')"
    and v: "vlist bv' = sample_validators @ [new_validator 40 req epoch 0]"
    by (auto simp: sample_vec_facts acct_fields)
  have "map vsi_vote_account_address (vlist bv') = [21, 22, 23, 40]"
    unfolding v by (simp add: sample_validators_def new_validator_def)
  with w' l show ?thesis by (intro exI conjI)
qed

text \<open>
  C20. Removing a validator needs the staker's signature and an active record for the vote account
  of the given stake. It changes the status of that record alone, to deactivating with or without
  the transient stake, drops the preferences for that validator and leaves the rest of the pool;
  the list keeps its invariant.
\<close>

theorem remove_validator_marks:
  assumes "process_remove_validator_from_pool E pid (pool # staker # authority # list # stake # rest) w
      = Inr w'"
    and "cpi_law E pid" and "load_list w list = Inr (h, bv)" and "list_inv h bv"
  shows "\<exists>p meta d k v bv'. load_pool w pool = Inr p \<and> ai_key staker = sp_staker p \<and> ai_is_signer staker
    \<and> e_decode_stake E (data_of w stake) = Inr (StakeDelegated meta d)
    \<and> k < bv_count bv \<and> v = vlist bv ! k \<and> vsi_vote_account_address v = del_voter_pubkey d
    \<and> vsi_status v = status_to_u8 Active
    \<and> load_list w' list = Inr (h, bv') \<and> list_inv h bv'
    \<and> vlist bv' = (vlist bv)[k := v\<lparr>vsi_status :=
          status_to_u8 (if vsi_transient_stake_lamports v > 0 then DeactivatingAll
                        else DeactivatingValidator)\<rparr>]
    \<and> load_pool w' pool = Inr (reset_preferred (del_voter_pubkey d) p)"
  using assms(1,2)
proof (rule remove_validator_success)
  fix pool' staker' authority' list' stake' transient clock rest' p epoch h' b meta d i v w1
  assume eq: "pool # staker # authority # list # stake # rest
      = pool' # staker' # authority' # list' # stake' # transient # clock # rest'"
    and p: "load_pool w pool' = Inr p" "sp_is_valid p"
    and s: "ai_key staker' = sp_staker p" "ai_is_signer staker'"
    and l: "load_list w list' = Inr (h', b)" "header_is_valid h'"
    and d: "e_decode_stake E (data_of w stake') = Inr (StakeDelegated meta d)"
    and v: "find_validator_mut b (del_voter_pubkey d) = Inr (Some (i, v))" "vsi_status v = status_to_u8 Active"
    and st: "store_pool (store_validator w1 list' h' b i
       (v\<lparr>vsi_status := status_to_u8 (if vsi_transient_stake_lamports v > 0
             then DeactivatingAll else DeactivatingValidator)\<rparr>))
       pool' (reset_preferred (del_voter_pubkey d) p) = Inr w'"
  let ?v = "v\<lparr>vsi_status := status_to_u8 (if vsi_transient_stake_lamports v > 0
             then DeactivatingAll else DeactivatingValidator)\<rparr>"
  have b: "h' = h" "b = bv" using eq l(1) assms(3) by simp_all
  have "vsi_vote_account_address v = del_voter_pubkey d"
    using find_validator_mut_found [OF _ v(1)] assms(4) b by (auto simp: list_inv_def)
  then have "vsi_vote_account_address ?v = del_voter_pubkey d" by simp
  from list_inv_store [OF assms(4) v(1) [unfolded b] this]
  obtain k where k: "k < bv_count bv" "vlist bv ! k = v" "vsi_vote_account_address v = del_voter_pubkey d"
    "list_inv h (overwrite i (enc_vsi ?v) bv)" "vlist (overwrite i (enc_vsi ?v) bv) = (vlist bv)[k := ?v]"
    by blast
  have "ai_key list' \<noteq> ai_key pool'" using pool_not_list [OF p l] by simp
  then have "load_list w' list = Inr (h, overwrite i (enc_vsi ?v) bv)"
    using store_pool_others(1) [OF st, of list'] eq
    by (simp add: load_list_Inr store_validator_def store_list_def b)
  moreover have "load_pool w' pool = Inr (reset_preferred (del_voter_pubkey d) p)"
    using load_store_pool [OF st] eq by simp
  ultimately show ?thesis using p(1) s d v(2) k eq by blast
qed

lemma sample_remove_runs:
  "\<exists>w'. process_remove_validator_from_pool sample_env 99
     [acct 1, signer 12, acct 50, acct 14, acct 50, acct 50, acct 71, acct 6] sample_world = Inr w'"
proof -
  have v: "vsi_status (sample_validators ! Suc 0) = 0"
    "vsi_transient_stake_lamports (sample_validators ! Suc 0) = 0"
    by (simp_all add: sample_validators_def default_vsi_def)
  have r: "reset_preferred vote sample_pool = sample_pool" for vote
    by (simp add: reset_preferred_def sample_pool_def)
  show ?thesis
    by (simp add: process_remove_validator_from_pool_def sample_simps sample_find v r remove_transient_def
        check_stake_program_def check_account_owner_def get_stake_state_def
        check_authority_withdraw_def check_program_derived_authority_def check_staker_def
        check_validator_list_def check_validator_stake_address_def find_stake_program_address_def
        stake_deactivate_def store_validator_def store_list_def store_pool_def to_writer_def
        cong: tri_weak_cong)
qed

theorem remove_validator_marks_witness:
  "\<exists>w' bv'. process_remove_validator_from_pool sample_env 99
     [acct 1, signer 12, acct 50, acct 14, acct 50, acct 50, acct 71, acct 6] sample_world = Inr w'
     \<and> load_list w' (acct 14) = Inr (sample_header, bv') \<and> map vsi_status (vlist bv') = [2, 3, 2]"
proof -
  obtain w' where w': "process_remove_validator_from_pool sample_env 99
     [acct 1, signer 12, acct 50, acct 14, acct 50, acct 50, acct 71, acct 6] sample_world = Inr w'"
    using sample_remove_runs by blast
  from remove_validator_marks [OF w' sample_law sample_load(2) sample_list_inv]
  obtain k bv' where l: "load_list w' (acct 14) = Inr (sample_header, bv')"
    and k: "k < 3" "vsi_vote_account_address (sample_validators ! k) = 22"
    and v: "vlist bv' = sample_validators[k := (sample_validators ! k)\<lparr>vsi_status :=
          status_to_u8 (if vsi_transient_stake_lamports (sample_validators ! k) > 0 then DeactivatingAll
                        else DeactivatingValidator)\<rparr>]"
    by (auto simp: sample_vec_facts sample_simps sample_count)
  have "k = 1"
    using k by (auto simp: sample_validators_def less_Suc_eq numeral_3_eq_3)
  then have "map vsi_status (vlist bv') = [2, 3, 2]"
    unfolding v by (simp add: sample_validators_def default_vsi_def)
  with w' l show ?thesis by (intro exI conjI)
qed

text \<open>
  C21. Cleaning up removes exactly the records that are ready for removal and hold no stake, keeps
  the others in order, keeps the invariant of the list and, when the pool account is writable,
  leaves each preference empty or on an active validator that is still in the list.
\<close>

theorem cleanup_keeps_live_records:
  assumes "process_cleanup_removed_validator_entries E pid (pool # list # rest) w = Inr w'"
    and "load_list w list = Inr (h, bv)" and "list_inv h bv"
  shows "\<exists>bv' p p'. load_list w' list = Inr (h, bv') \<and> list_inv h bv'
    \<and> vlist bv' = filter (\<lambda>v. \<not> (vsi_status v = status_to_u8 ReadyForRemoval
          \<and> vsi_active_stake_lamports v = 0 \<and> vsi_transient_stake_lamports v = 0)) (vlist bv)
    \<and> load_pool w pool = Inr p \<and> load_pool w' pool = Inr p'
    \<and> (if ai_is_writable pool
       then (\<exists>d x. p' = p\<lparr>sp_preferred_deposit_validator_vote_address := d,
                         sp_preferred_withdraw_validator_vote_address := x\<rparr>
          \<and> pred_option (active_in bv') d \<and> pred_option (active_in bv') x)
       else p' = p)"
  using assms(1)
proof (rule cleanup_success)
  fix pool' list' rest' p h' b bv'
  assume eq: "pool # list # rest = pool' # list' # rest'"
    and p: "load_pool w pool' = Inr p" "sp_is_valid p"
    and l: "load_list w list' = Inr (h', b)" "header_is_valid h'"
    and r: "bv_retain VSI_LEN (\<lambda>x. \<not> is_removed x) b = Inr bv'"
    and ends: "\<not> ai_is_writable pool' \<and> w' = store_list w list' h' bv'
     \<or> ai_is_writable pool' \<and>
       (\<exists>d x. checked_preference bv' (sp_preferred_deposit_validator_vote_address p) = Inr d
          \<and> checked_preference bv' (sp_preferred_withdraw_validator_vote_address p) = Inr x
          \<and> store_pool (store_list w list' h' bv') pool'
               (p\<lparr>sp_preferred_deposit_validator_vote_address := d,
                  sp_preferred_withdraw_validator_vote_address := x\<rparr>) = Inr w')"
  have b: "h' = h" "b = bv" using eq l(1) assms(2) by simp_all
  note inv = list_inv_retain [OF assms(3) r [unfolded b]]
  have wf: "vlist_wf bv'" using inv(1) by (simp add: list_inv_def)
  have ne: "ai_key pool' \<noteq> ai_key list'" by (rule pool_not_list [OF p l])
  have act: "pred_option (active_in bv') d" if "checked_preference bv' pref = Inr d" for pref d
    using checked_preference_active(1) [OF wf] that by (cases d) auto
  have l': "load_list w' list = Inr (h, bv')"
    using ends ne eq store_pool_others(1) [of "store_list w list' h' bv'" pool' _ w' list']
    by (auto simp: load_list_Inr store_list_def b)
  have "\<exists>p'. load_pool w' pool = Inr p' \<and> (if ai_is_writable pool
       then (\<exists>d x. p' = p\<lparr>sp_preferred_deposit_validator_vote_address := d,
                         sp_preferred_withdraw_validator_vote_address := x\<rparr>
          \<and> pred_option (active_in bv') d \<and> pred_option (active_in bv') x)
       else p' = p)"
    using ends
  proof (elim disjE conjE exE)
    assume "\<not> ai_is_writable pool'" "w' = store_list w list' h' bv'"
    then show ?thesis using p(1) ne eq by (simp add: load_pool_def store_list_def)
  next
    fix d x
    assume *: "ai_is_writable pool'"
      "checked_preference bv' (sp_preferred_deposit_validator_vote_address p) = Inr d"
      "checked_preference bv' (sp_preferred_withdraw_validator_vote_address p) = Inr x"
      "store_pool (store_list w list' h' bv') pool'
               (p\<lparr>sp_preferred_deposit_validator_vote_address := d,
                  sp_preferred_withdraw_validator_vote_address := x\<rparr>) = Inr w'"
    from load_store_pool [OF this(4)] show ?thesis using * act eq by auto
  qed
  then show ?thesis using l' inv p(1) eq by (auto simp del: if_split)
qed

lemma sample_retain:
  obtains bv' where "bv_retain VSI_LEN (\<lambda>x. \<not> is_removed x) sample_vec = Inr bv'" "vlist_wf bv'"
  using vsi.retain_refines [OF sample_vec_facts(1), of "\<lambda>x. \<not> is_removed x"]
  by (auto simp: sample_vec_facts usize_max_def)

lemma sample_cleanup_runs:
  "\<exists>w'. process_cleanup_removed_validator_entries sample_env 99 [acct 1, acct 14] sample_world = Inr w'"
proof -
  obtain bv' where r: "bv_retain VSI_LEN (\<lambda>x. \<not> is_removed x) sample_vec = Inr bv'" by (rule sample_retain)
  have no: "checked_preference bv' None = Inr None" "sp_preferred_deposit_validator_vote_address sample_pool = None"
    "sp_preferred_withdraw_validator_vote_address sample_pool = None"
    "sample_pool\<lparr>sp_preferred_deposit_validator_vote_address := None,
       sp_preferred_withdraw_validator_vote_address := None\<rparr> = sample_pool"
    by (simp_all add: checked_preference_def sample_pool_def)
  have "load_pool (store_list sample_world (acct 14) h bv) (acct 1) = Inr sample_pool" for h bv
    using sample_load(1) by (simp add: load_pool_def store_list_def acct_def data_of_def set_data_def)
  then show ?thesis
    by (simp add: process_cleanup_removed_validator_entries_def sample_simps no r check_account_owner_def
        check_validator_list_def store_list_def store_pool_def to_writer_def cong: tri_weak_cong)
qed

theorem cleanup_keeps_live_records_witness:
  "\<exists>w' bv'. process_cleanup_removed_validator_entries sample_env 99 [acct 1, acct 14] sample_world
      = Inr w'
     \<and> load_list w' (acct 14) = Inr (sample_header, bv')
     \<and> map vsi_vote_account_address (vlist bv') = [22, 23]"
proof -
  obtain w' where w': "process_cleanup_removed_validator_entries sample_env 99 [acct 1, acct 14]
      sample_world = Inr w'"
    using sample_cleanup_runs by blast
  from cleanup_keeps_live_records [OF w' sample_load(2) sample_list_inv]
  obtain bv' where l: "load_list w' (acct 14) = Inr (sample_header, bv')"
    and v: "vlist bv' = filter (\<lambda>v. \<not> (vsi_status v = status_to_u8 ReadyForRemoval
          \<and> vsi_active_stake_lamports v = 0 \<and> vsi_transient_stake_lamports v = 0)) (vlist sample_vec)"
    by blast
  have "map vsi_vote_account_address (vlist bv') = [22, 23]"
    unfolding v sample_vec_facts(2) by (simp add: sample_validators_def default_vsi_def)
  with w' l show ?thesis by (intro exI conjI)
qed

text \<open>
  Setting a preferred validator is the staker's, changes the chosen preference only, and the
  new preference is empty or an active validator of the list.
\<close>

lemma set_preferred_is_active:
  assumes "process_set_preferred_validator E pid (pool # staker # list # rest) t vote w = Inr w'"
    and "load_list w list = Inr (h, bv)" and "vlist_wf bv"
  shows "pred_option (active_in bv) vote
    \<and> (\<exists>p. load_pool w pool = Inr p \<and> ai_key staker = sp_staker p \<and> ai_is_signer staker
       \<and> load_pool w' pool = Inr (case t of
           PreferredDeposit \<Rightarrow> p\<lparr>sp_preferred_deposit_validator_vote_address := vote\<rparr>
         | PreferredWithdraw \<Rightarrow> p\<lparr>sp_preferred_withdraw_validator_vote_address := vote\<rparr>))"
  using assms(1) check_preferred_active [OF assms(3)] assms(2)
  by (elim set_preferred_success) (auto dest: load_store_pool)

end
