(* ===== verification/Rebalance.thy ===== *)
theory Rebalance
  imports Sample
begin

text \<open>
  Moving stake between a validator and the reserve (\<^verbatim>\<open>program/src/processor.rs\<close>):
  \<open>process_decrease_validator_stake\<close> and \<open>process_increase_validator_stake\<close>, each split into the
  reading of its accounts and checks, the step through an ephemeral stake account and the step into
  the transient stake account.
\<close>

section \<open>Shared parts\<close>

text \<open>\<open>cond.then(|| next_account_info(iter)).transpose()?\<close>\<close>

definition opt_account ::
    "bool \<Rightarrow> AccountInfo list \<Rightarrow> (AccountInfo option \<times> AccountInfo list) result" where
  "opt_account present iter =
     (if present then tri (next_account_info iter) (\<lambda>(a, iter). Inr (Some a, iter))
      else Inr (None, iter))"

definition ephemeral_signer_seeds :: "Pubkey \<Rightarrow> u64 \<Rightarrow> u8 \<Rightarrow> byte list list" where
  "ephemeral_signer_seeds stake_pool seed bump =
     [EPHEMERAL_STAKE_SEED_PREFIX, key_bytes stake_pool, to_le_bytes seed, [bump]]"

definition transient_signer_seeds :: "Pubkey \<Rightarrow> Pubkey \<Rightarrow> u64 \<Rightarrow> u8 \<Rightarrow> byte list list" where
  "transient_signer_seeds vote stake_pool seed bump =
     [TRANSIENT_STAKE_SEED_PREFIX, key_bytes vote, key_bytes stake_pool, to_le_bytes seed, [bump]]"

section \<open>Decreasing\<close>

text \<open>A pending transient stake must be used again with its own seed, while it deactivates.\<close>

definition decrease_check_transient ::
    "env \<Rightarrow> world \<Rightarrow> ValidatorStakeInfo \<Rightarrow> u64 \<Rightarrow> u64 option \<Rightarrow> AccountInfo \<Rightarrow> Pubkey \<Rightarrow> u64
      \<Rightarrow> unit result" where
  "decrease_check_transient E w validator_stake_info transient_stake_seed
       maybe_ephemeral_stake_seed transient_stake_account_info vote_account_address epoch =
     (if vsi_transient_stake_lamports validator_stake_info > 0 then
        if maybe_ephemeral_stake_seed = None then Inl (spe TransientAccountInUse)
        else if transient_stake_seed \<noteq> vsi_transient_seed_suffix validator_stake_info
        then Inl InvalidSeeds
        else check_if_stake_deactivating E w transient_stake_account_info vote_account_address epoch
      else Inr ())"

text \<open>The amount is at least a delegation and leaves the validator a minimal stake account.\<close>

definition decrease_check_amount ::
    "world \<Rightarrow> AccountInfo \<Rightarrow> Meta \<Rightarrow> u64 \<Rightarrow> u64 \<Rightarrow> unit result" where
  "decrease_check_amount w validator_stake_account_info meta stake_minimum_delegation lamports =
     (let current_minimum_lamports = minimum_delegation stake_minimum_delegation in
      if lamports < current_minimum_lamports then Inl AccountNotRentExempt else
      tri (ok_or (checked_sub (lamports_of w validator_stake_account_info) lamports)
             InsufficientFunds) (\<lambda>remaining_lamports.
      let required_lamports = minimum_stake_lamports meta stake_minimum_delegation in
      if remaining_lamports < required_lamports then
        tri (ok_or (checked_sub (lamports_of w validator_stake_account_info) required_lamports)
               (spe CalculationFailure)) (\<lambda>_. Inl InsufficientFunds)
      else Inr ()))"

definition decrease_via_ephemeral ::
    "env \<Rightarrow> Pubkey \<Rightarrow> StakePool \<Rightarrow> AccountInfo \<Rightarrow> AccountInfo \<Rightarrow> AccountInfo \<Rightarrow> AccountInfo
      \<Rightarrow> AccountInfo option \<Rightarrow> AccountInfo option \<Rightarrow> u64 \<Rightarrow> u64 \<Rightarrow> u64 \<Rightarrow> AccountInfo \<Rightarrow> world
      \<Rightarrow> (AccountInfo \<times> u64 \<times> world) result" where
  "decrease_via_ephemeral E program_id stake_pool stake_pool_info withdraw_authority_info
       validator_stake_account_info clock_info maybe_reserve_stake_info maybe_stake_history_info
       stake_rent lamports ephemeral_stake_seed ephemeral_stake_account_info w =
     tri (check_ephemeral_stake_address E program_id (ai_key stake_pool_info)
            (ai_key ephemeral_stake_account_info) ephemeral_stake_seed)
       (\<lambda>ephemeral_stake_bump_seed.
     tri (create_stake_account E w ephemeral_stake_account_info
            (ephemeral_signer_seeds (ai_key stake_pool_info) ephemeral_stake_seed
               ephemeral_stake_bump_seed) (e_stake_space E)) (\<lambda>w.
     tri (case maybe_reserve_stake_info of
            Some reserve_stake_info \<Rightarrow>
              let required_lamports_for_rent_exemption =
                    saturating_sub stake_rent (lamports_of w ephemeral_stake_account_info) in
              if required_lamports_for_rent_exemption > 0 then
                if required_lamports_for_rent_exemption \<ge> lamports_of w reserve_stake_info
                then Inl (spe ReserveDepleted) else
                tri (ok_or maybe_stake_history_info (spe MissingRequiredSysvar))
                  (\<lambda>stake_history_info.
                stake_withdraw E w (ai_key stake_pool_info) reserve_stake_info
                  withdraw_authority_info AUTHORITY_WITHDRAW
                  (sp_stake_withdraw_bump_seed stake_pool) ephemeral_stake_account_info clock_info
                  stake_history_info required_lamports_for_rent_exemption)
              else Inr w
          | None \<Rightarrow> Inr w) (\<lambda>w.
     tri (stake_split E w (ai_key stake_pool_info) validator_stake_account_info
            withdraw_authority_info AUTHORITY_WITHDRAW (sp_stake_withdraw_bump_seed stake_pool)
            lamports ephemeral_stake_account_info) (\<lambda>w.
     tri (stake_deactivate E w ephemeral_stake_account_info clock_info withdraw_authority_info
            (ai_key stake_pool_info) AUTHORITY_WITHDRAW
            (sp_stake_withdraw_bump_seed stake_pool)) (\<lambda>w.
     Inr (ephemeral_stake_account_info, lamports_of w ephemeral_stake_account_info, w))))))"

definition decrease_into_transient ::
    "env \<Rightarrow> StakePool \<Rightarrow> AccountInfo \<Rightarrow> AccountInfo \<Rightarrow> AccountInfo \<Rightarrow> AccountInfo option
      \<Rightarrow> AccountInfo option \<Rightarrow> u64 \<Rightarrow> u64 \<Rightarrow> u8 \<Rightarrow> Pubkey \<Rightarrow> AccountInfo \<Rightarrow> u64 \<Rightarrow> AccountInfo \<Rightarrow> world
      \<Rightarrow> world result" where
  "decrease_into_transient E stake_pool stake_pool_info withdraw_authority_info clock_info
       maybe_reserve_stake_info maybe_stake_history_info stake_rent transient_stake_seed
       transient_stake_bump_seed vote_account_address source_stake_account_info split_lamports
       transient_stake_account_info w =
     tri (create_stake_account E w transient_stake_account_info
            (transient_signer_seeds vote_account_address (ai_key stake_pool_info)
               transient_stake_seed transient_stake_bump_seed) (e_stake_space E)) (\<lambda>w.
     tri (case maybe_reserve_stake_info of
            Some reserve_stake_info \<Rightarrow>
              let required_lamports =
                    saturating_sub stake_rent (lamports_of w transient_stake_account_info) in
              if lamports_of w source_stake_account_info \<noteq> split_lamports then
                tri (ok_or maybe_stake_history_info (spe MissingRequiredSysvar))
                  (\<lambda>stake_history_info.
                if required_lamports \<ge> lamports_of w reserve_stake_info
                then Inl (spe ReserveDepleted)
                else if required_lamports > 0 then
                  stake_withdraw E w (ai_key stake_pool_info) reserve_stake_info
                    withdraw_authority_info AUTHORITY_WITHDRAW
                    (sp_stake_withdraw_bump_seed stake_pool) transient_stake_account_info
                    clock_info stake_history_info required_lamports
                else Inr w)
              else Inr w
          | None \<Rightarrow> Inr w) (\<lambda>w.
     tri (stake_split E w (ai_key stake_pool_info) source_stake_account_info
            withdraw_authority_info AUTHORITY_WITHDRAW (sp_stake_withdraw_bump_seed stake_pool)
            split_lamports transient_stake_account_info) (\<lambda>w.
     tri (get_stake_state E w transient_stake_account_info) (\<lambda>(_, stake).
     if del_deactivation_epoch stake = EPOCH_MAX
     then stake_deactivate E w transient_stake_account_info clock_info withdraw_authority_info
            (ai_key stake_pool_info) AUTHORITY_WITHDRAW (sp_stake_withdraw_bump_seed stake_pool)
     else Inr w))))"

text \<open>The movement of stake and the new record of the validator.\<close>

definition decrease_move ::
    "env \<Rightarrow> Pubkey \<Rightarrow> StakePool \<Rightarrow> AccountInfo \<Rightarrow> AccountInfo \<Rightarrow> AccountInfo \<Rightarrow> AccountInfo
      \<Rightarrow> AccountInfo option \<Rightarrow> AccountInfo option \<Rightarrow> u64 \<Rightarrow> u64 \<Rightarrow> u64 \<Rightarrow> u64 option
      \<Rightarrow> AccountInfo option \<Rightarrow> AccountInfo \<Rightarrow> Pubkey \<Rightarrow> ValidatorStakeInfo \<Rightarrow> world
      \<Rightarrow> (ValidatorStakeInfo \<times> world) result" where
  "decrease_move E program_id stake_pool stake_pool_info withdraw_authority_info
       validator_stake_account_info clock_info maybe_reserve_stake_info maybe_stake_history_info
       stake_rent lamports transient_stake_seed maybe_ephemeral_stake_seed
       maybe_ephemeral_stake_account_info transient_stake_account_info vote_account_address
       validator_stake_info w =
     tri (case (maybe_ephemeral_stake_seed, maybe_ephemeral_stake_account_info) of
            (Some ephemeral_stake_seed, Some ephemeral_stake_account_info) \<Rightarrow>
              decrease_via_ephemeral E program_id stake_pool stake_pool_info
                withdraw_authority_info validator_stake_account_info clock_info
                maybe_reserve_stake_info maybe_stake_history_info stake_rent lamports
                ephemeral_stake_seed ephemeral_stake_account_info w
          | _ \<Rightarrow> Inr (validator_stake_account_info, lamports, w))
       (\<lambda>(source_stake_account_info, split_lamports, w).
     tri (check_transient_stake_address E program_id (ai_key stake_pool_info)
            (ai_key transient_stake_account_info) vote_account_address transient_stake_seed)
       (\<lambda>transient_stake_bump_seed.
     tri (if vsi_transient_stake_lamports validator_stake_info > 0 then
            case maybe_stake_history_info of
              None \<Rightarrow> Inl Panic
            | Some stake_history_info \<Rightarrow>
                stake_merge E w (ai_key stake_pool_info) source_stake_account_info
                  withdraw_authority_info AUTHORITY_WITHDRAW
                  (sp_stake_withdraw_bump_seed stake_pool) transient_stake_account_info
                  clock_info stake_history_info
          else decrease_into_transient E stake_pool stake_pool_info withdraw_authority_info
                 clock_info maybe_reserve_stake_info maybe_stake_history_info stake_rent
                 transient_stake_seed transient_stake_bump_seed vote_account_address
                 source_stake_account_info split_lamports transient_stake_account_info w) (\<lambda>w.
     tri (ok_or (checked_sub (vsi_active_stake_lamports validator_stake_info) lamports)
            (spe CalculationFailure)) (\<lambda>active_stake_lamports.
     Inr (validator_stake_info\<lparr>
            vsi_active_stake_lamports := active_stake_lamports,
            vsi_transient_stake_lamports := lamports_of w transient_stake_account_info,
            vsi_transient_seed_suffix := transient_stake_seed\<rparr>, w)))))"

text \<open>
  The rent comes from the runtime in the newer forms of the instruction, which also take the stake
  history account; the legacy form takes the rent account instead.
\<close>

definition decrease_rent_and_history ::
    "env \<Rightarrow> world \<Rightarrow> bool \<Rightarrow> AccountInfo list
      \<Rightarrow> (Rent \<times> AccountInfo option \<times> AccountInfo list) result" where
  "decrease_rent_and_history E w newer iter =
     (if newer then
        tri (e_rent_get E) (\<lambda>rent.
        tri (next_account_info iter) (\<lambda>(stake_history_info, iter).
        Inr (rent, Some stake_history_info, iter)))
      else
        tri (next_account_info iter) (\<lambda>(rent_info, iter).
        tri (e_rent_from_account_info E w rent_info) (\<lambda>rent.
        Inr (rent, None, iter))))"

definition process_decrease_validator_stake ::
    "env \<Rightarrow> Pubkey \<Rightarrow> AccountInfo list \<Rightarrow> u64 \<Rightarrow> u64 \<Rightarrow> u64 option \<Rightarrow> bool \<Rightarrow> world \<Rightarrow> world result" where
  "process_decrease_validator_stake E program_id accounts lamports transient_stake_seed
       maybe_ephemeral_stake_seed fund_rent_exempt_reserve w =
     tri (next_account_info accounts) (\<lambda>(stake_pool_info, iter).
     tri (next_account_info iter) (\<lambda>(staker_info, iter).
     tri (next_account_info iter) (\<lambda>(withdraw_authority_info, iter).
     tri (next_account_info iter) (\<lambda>(validator_list_info, iter).
     tri (opt_account fund_rent_exempt_reserve iter) (\<lambda>(maybe_reserve_stake_info, iter).
     tri (next_account_info iter) (\<lambda>(validator_stake_account_info, iter).
     tri (opt_account (maybe_ephemeral_stake_seed \<noteq> None) iter)
       (\<lambda>(maybe_ephemeral_stake_account_info, iter).
     tri (next_account_info iter) (\<lambda>(transient_stake_account_info, iter).
     tri (next_account_info iter) (\<lambda>(clock_info, iter).
     tri (e_clock_from_account_info E w clock_info) (\<lambda>epoch.
     tri (decrease_rent_and_history E w
            (maybe_ephemeral_stake_seed \<noteq> None \<or> fund_rent_exempt_reserve) iter)
       (\<lambda>(rent, maybe_stake_history_info, iter).
     tri (next_account_info iter) (\<lambda>(system_program_info, iter).
     tri (next_account_info iter) (\<lambda>(stake_program_info, iter).
     tri (check_system_program E (ai_key system_program_info)) (\<lambda>_.
     tri (check_stake_program E (ai_key stake_program_info)) (\<lambda>_.
     tri (check_account_owner w stake_pool_info program_id) (\<lambda>_.
     tri (load_pool w stake_pool_info) (\<lambda>stake_pool.
     if \<not> sp_is_valid stake_pool then Inl (spe InvalidState) else
     tri (check_authority_withdraw E stake_pool (ai_key withdraw_authority_info) program_id
            (ai_key stake_pool_info)) (\<lambda>_.
     tri (check_staker stake_pool staker_info) (\<lambda>_.
     if sp_last_update_epoch stake_pool < epoch then Inl (spe StakeListAndPoolOutOfDate) else
     tri (check_validator_list stake_pool validator_list_info) (\<lambda>_.
     tri (check_account_owner w validator_list_info program_id) (\<lambda>_.
     tri (load_list w validator_list_info) (\<lambda>(header, validator_list).
     if \<not> header_is_valid header then Inl (spe InvalidState) else
     tri (case maybe_reserve_stake_info of
            Some reserve_stake_info \<Rightarrow> check_reserve_stake stake_pool reserve_stake_info
          | None \<Rightarrow> Inr ()) (\<lambda>_.
     tri (get_stake_state E w validator_stake_account_info) (\<lambda>(meta, stake).
     let vote_account_address = del_voter_pubkey stake in
     tri (find_validator_mut validator_list vote_account_address) (\<lambda>maybe_validator_stake_info.
     case maybe_validator_stake_info of
       None \<Rightarrow> Inl (spe ValidatorNotFound)
     | Some (offset, validator_stake_info) \<Rightarrow>
     tri (check_validator_stake_address E program_id (ai_key stake_pool_info)
            (ai_key validator_stake_account_info) vote_account_address
            (NonZeroU32_new (vsi_validator_seed_suffix validator_stake_info))) (\<lambda>_.
     tri (decrease_check_transient E w validator_stake_info transient_stake_seed
            maybe_ephemeral_stake_seed transient_stake_account_info vote_account_address epoch) (\<lambda>_.
     if vsi_status validator_stake_info \<noteq> status_to_u8 Active then Inl (spe ValidatorNotFound) else
     let stake_rent = rent_minimum_balance rent (e_stake_space E) in
     tri (e_minimum_delegation E) (\<lambda>stake_minimum_delegation.
     tri (decrease_check_amount w validator_stake_account_info meta stake_minimum_delegation
            lamports) (\<lambda>_.
     tri (decrease_move E program_id stake_pool stake_pool_info withdraw_authority_info
            validator_stake_account_info clock_info maybe_reserve_stake_info
            maybe_stake_history_info stake_rent lamports transient_stake_seed
            maybe_ephemeral_stake_seed maybe_ephemeral_stake_account_info
            transient_stake_account_info vote_account_address validator_stake_info w)
       (\<lambda>(validator_stake_info, w).
     Inr (store_validator w validator_list_info header validator_list offset
            validator_stake_info)))))))))))))))))))))))))))))))"

section \<open>Increasing\<close>

definition increase_check_transient ::
    "env \<Rightarrow> world \<Rightarrow> ValidatorStakeInfo \<Rightarrow> u64 \<Rightarrow> u64 option \<Rightarrow> AccountInfo \<Rightarrow> Pubkey \<Rightarrow> u64
      \<Rightarrow> unit result" where
  "increase_check_transient E w validator_stake_info transient_stake_seed
       maybe_ephemeral_stake_seed transient_stake_account_info vote_account_address epoch =
     (if vsi_transient_stake_lamports validator_stake_info > 0 then
        if maybe_ephemeral_stake_seed = None then Inl (spe TransientAccountInUse)
        else if transient_stake_seed \<noteq> vsi_transient_seed_suffix validator_stake_info
        then Inl InvalidSeeds
        else check_if_stake_activating E w transient_stake_account_info vote_account_address epoch
      else Inr ())"

text \<open>The amount is at least a delegation and leaves the reserve its rent; the total moved.\<close>

definition increase_check_amount ::
    "env \<Rightarrow> world \<Rightarrow> AccountInfo \<Rightarrow> u64 \<Rightarrow> u64 \<Rightarrow> u64 \<Rightarrow> u64 result" where
  "increase_check_amount E w reserve_stake_account_info stake_rent stake_minimum_delegation lamports =
     (let current_minimum_delegation = minimum_delegation stake_minimum_delegation in
      if lamports < current_minimum_delegation
      then Inl (Custom (e_insufficient_delegation_code E)) else
      let total_lamports = saturating_add lamports stake_rent in
      if saturating_sub (lamports_of w reserve_stake_account_info) total_lamports < stake_rent
      then Inl InsufficientFunds
      else Inr total_lamports)"

definition increase_via_ephemeral ::
    "env \<Rightarrow> Pubkey \<Rightarrow> StakePool \<Rightarrow> AccountInfo \<Rightarrow> AccountInfo \<Rightarrow> AccountInfo \<Rightarrow> AccountInfo
      \<Rightarrow> AccountInfo \<Rightarrow> AccountInfo \<Rightarrow> AccountInfo \<Rightarrow> u64 \<Rightarrow> u64 \<Rightarrow> AccountInfo \<Rightarrow> world
      \<Rightarrow> (AccountInfo \<times> world) result" where
  "increase_via_ephemeral E program_id stake_pool stake_pool_info withdraw_authority_info
       reserve_stake_account_info validator_vote_account_info clock_info stake_history_info
       stake_config_info total_lamports ephemeral_stake_seed ephemeral_stake_account_info w =
     tri (check_ephemeral_stake_address E program_id (ai_key stake_pool_info)
            (ai_key ephemeral_stake_account_info) ephemeral_stake_seed)
       (\<lambda>ephemeral_stake_bump_seed.
     tri (create_stake_account E w ephemeral_stake_account_info
            (ephemeral_signer_seeds (ai_key stake_pool_info) ephemeral_stake_seed
               ephemeral_stake_bump_seed) (e_stake_space E)) (\<lambda>w.
     tri (stake_split E w (ai_key stake_pool_info) reserve_stake_account_info
            withdraw_authority_info AUTHORITY_WITHDRAW (sp_stake_withdraw_bump_seed stake_pool)
            total_lamports ephemeral_stake_account_info) (\<lambda>w.
     tri (stake_delegate E w ephemeral_stake_account_info validator_vote_account_info clock_info
            stake_history_info stake_config_info withdraw_authority_info (ai_key stake_pool_info)
            AUTHORITY_WITHDRAW (sp_stake_withdraw_bump_seed stake_pool)) (\<lambda>w.
     Inr (ephemeral_stake_account_info, w)))))"

definition increase_into_transient ::
    "env \<Rightarrow> StakePool \<Rightarrow> AccountInfo \<Rightarrow> AccountInfo \<Rightarrow> AccountInfo \<Rightarrow> AccountInfo \<Rightarrow> AccountInfo
      \<Rightarrow> AccountInfo \<Rightarrow> u64 \<Rightarrow> u64 \<Rightarrow> u64 \<Rightarrow> u8 \<Rightarrow> AccountInfo \<Rightarrow> AccountInfo \<Rightarrow> world \<Rightarrow> world result" where
  "increase_into_transient E stake_pool stake_pool_info withdraw_authority_info
       validator_vote_account_info clock_info stake_history_info stake_config_info epoch
       total_lamports transient_stake_seed transient_stake_bump_seed source_stake_account_info
       transient_stake_account_info w =
     tri (create_stake_account E w transient_stake_account_info
            (transient_signer_seeds (ai_key validator_vote_account_info) (ai_key stake_pool_info)
               transient_stake_seed transient_stake_bump_seed) (e_stake_space E)) (\<lambda>w.
     tri (stake_split E w (ai_key stake_pool_info) source_stake_account_info
            withdraw_authority_info AUTHORITY_WITHDRAW (sp_stake_withdraw_bump_seed stake_pool)
            total_lamports transient_stake_account_info) (\<lambda>w.
     tri (e_decode_stake E (data_of w transient_stake_account_info)) (\<lambda>stake_state.
     if (case stake_state of StakeDelegated _ stake \<Rightarrow> del_activation_epoch stake \<le> epoch
         | _ \<Rightarrow> False)
     then Inr w
     else stake_delegate E w transient_stake_account_info validator_vote_account_info clock_info
            stake_history_info stake_config_info withdraw_authority_info (ai_key stake_pool_info)
            AUTHORITY_WITHDRAW (sp_stake_withdraw_bump_seed stake_pool))))"

definition increase_move ::
    "env \<Rightarrow> Pubkey \<Rightarrow> StakePool \<Rightarrow> AccountInfo \<Rightarrow> AccountInfo \<Rightarrow> AccountInfo \<Rightarrow> AccountInfo
      \<Rightarrow> AccountInfo \<Rightarrow> AccountInfo \<Rightarrow> AccountInfo \<Rightarrow> u64 \<Rightarrow> u64 \<Rightarrow> u64 \<Rightarrow> u64 option
      \<Rightarrow> AccountInfo option \<Rightarrow> AccountInfo \<Rightarrow> ValidatorStakeInfo \<Rightarrow> world
      \<Rightarrow> (ValidatorStakeInfo \<times> world) result" where
  "increase_move E program_id stake_pool stake_pool_info withdraw_authority_info
       reserve_stake_account_info validator_vote_account_info clock_info stake_history_info
       stake_config_info epoch total_lamports transient_stake_seed maybe_ephemeral_stake_seed
       maybe_ephemeral_stake_account_info transient_stake_account_info validator_stake_info w =
     tri (case (maybe_ephemeral_stake_seed, maybe_ephemeral_stake_account_info) of
            (Some ephemeral_stake_seed, Some ephemeral_stake_account_info) \<Rightarrow>
              increase_via_ephemeral E program_id stake_pool stake_pool_info
                withdraw_authority_info reserve_stake_account_info validator_vote_account_info
                clock_info stake_history_info stake_config_info total_lamports
                ephemeral_stake_seed ephemeral_stake_account_info w
          | _ \<Rightarrow> Inr (reserve_stake_account_info, w)) (\<lambda>(source_stake_account_info, w).
     tri (check_transient_stake_address E program_id (ai_key stake_pool_info)
            (ai_key transient_stake_account_info) (ai_key validator_vote_account_info)
            transient_stake_seed) (\<lambda>transient_stake_bump_seed.
     tri (if vsi_transient_stake_lamports validator_stake_info > 0
          then stake_merge E w (ai_key stake_pool_info) source_stake_account_info
                 withdraw_authority_info AUTHORITY_WITHDRAW
                 (sp_stake_withdraw_bump_seed stake_pool) transient_stake_account_info clock_info
                 stake_history_info
          else increase_into_transient E stake_pool stake_pool_info withdraw_authority_info
                 validator_vote_account_info clock_info stake_history_info stake_config_info epoch
                 total_lamports transient_stake_seed transient_stake_bump_seed
                 source_stake_account_info transient_stake_account_info w) (\<lambda>w.
     tri (ok_or (checked_add (vsi_transient_stake_lamports validator_stake_info) total_lamports)
            (spe CalculationFailure)) (\<lambda>transient_stake_lamports.
     Inr (validator_stake_info\<lparr>vsi_transient_stake_lamports := transient_stake_lamports,
                               vsi_transient_seed_suffix := transient_stake_seed\<rparr>, w)))))"

definition increase_rent ::
    "env \<Rightarrow> world \<Rightarrow> u64 option \<Rightarrow> AccountInfo list \<Rightarrow> (Rent \<times> AccountInfo list) result" where
  "increase_rent E w maybe_ephemeral_stake_seed iter =
     (if maybe_ephemeral_stake_seed \<noteq> None
      then tri (e_rent_get E) (\<lambda>rent. Inr (rent, iter))
      else tri (next_account_info iter) (\<lambda>(rent_info, iter).
           tri (e_rent_from_account_info E w rent_info) (\<lambda>rent. Inr (rent, iter))))"

definition process_increase_validator_stake ::
    "env \<Rightarrow> Pubkey \<Rightarrow> AccountInfo list \<Rightarrow> u64 \<Rightarrow> u64 \<Rightarrow> u64 option \<Rightarrow> world \<Rightarrow> world result" where
  "process_increase_validator_stake E program_id accounts lamports transient_stake_seed
       maybe_ephemeral_stake_seed w =
     tri (next_account_info accounts) (\<lambda>(stake_pool_info, iter).
     tri (next_account_info iter) (\<lambda>(staker_info, iter).
     tri (next_account_info iter) (\<lambda>(withdraw_authority_info, iter).
     tri (next_account_info iter) (\<lambda>(validator_list_info, iter).
     tri (next_account_info iter) (\<lambda>(reserve_stake_account_info, iter).
     tri (opt_account (maybe_ephemeral_stake_seed \<noteq> None) iter)
       (\<lambda>(maybe_ephemeral_stake_account_info, iter).
     tri (next_account_info iter) (\<lambda>(transient_stake_account_info, iter).
     tri (next_account_info iter) (\<lambda>(validator_stake_account_info, iter).
     tri (next_account_info iter) (\<lambda>(validator_vote_account_info, iter).
     tri (next_account_info iter) (\<lambda>(clock_info, iter).
     tri (e_clock_from_account_info E w clock_info) (\<lambda>epoch.
     tri (increase_rent E w maybe_ephemeral_stake_seed iter) (\<lambda>(rent, iter).
     tri (next_account_info iter) (\<lambda>(stake_history_info, iter).
     tri (next_account_info iter) (\<lambda>(stake_config_info, iter).
     tri (next_account_info iter) (\<lambda>(system_program_info, iter).
     tri (next_account_info iter) (\<lambda>(stake_program_info, iter).
     tri (check_system_program E (ai_key system_program_info)) (\<lambda>_.
     tri (check_stake_program E (ai_key stake_program_info)) (\<lambda>_.
     tri (check_account_owner w stake_pool_info program_id) (\<lambda>_.
     tri (load_pool w stake_pool_info) (\<lambda>stake_pool.
     if \<not> sp_is_valid stake_pool then Inl (spe InvalidState) else
     tri (check_authority_withdraw E stake_pool (ai_key withdraw_authority_info) program_id
            (ai_key stake_pool_info)) (\<lambda>_.
     tri (check_staker stake_pool staker_info) (\<lambda>_.
     if sp_last_update_epoch stake_pool < epoch then Inl (spe StakeListAndPoolOutOfDate) else
     tri (check_validator_list stake_pool validator_list_info) (\<lambda>_.
     tri (check_reserve_stake stake_pool reserve_stake_account_info) (\<lambda>_.
     tri (check_account_owner w validator_list_info program_id) (\<lambda>_.
     tri (load_list w validator_list_info) (\<lambda>(header, validator_list).
     if \<not> header_is_valid header then Inl (spe InvalidState) else
     let vote_account_address = ai_key validator_vote_account_info in
     tri (find_validator_mut validator_list vote_account_address) (\<lambda>maybe_validator_stake_info.
     case maybe_validator_stake_info of
       None \<Rightarrow> Inl (spe ValidatorNotFound)
     | Some (offset, validator_stake_info) \<Rightarrow>
     tri (increase_check_transient E w validator_stake_info transient_stake_seed
            maybe_ephemeral_stake_seed transient_stake_account_info vote_account_address epoch) (\<lambda>_.
     tri (check_validator_stake_account E w validator_stake_account_info program_id
            (ai_key stake_pool_info) (ai_key withdraw_authority_info) vote_account_address
            (vsi_validator_seed_suffix validator_stake_info) (sp_lockup stake_pool)) (\<lambda>_.
     if vsi_status validator_stake_info \<noteq> status_to_u8 Active then Inl (spe ValidatorNotFound) else
     let stake_rent = rent_minimum_balance rent (e_stake_space E) in
     tri (e_minimum_delegation E) (\<lambda>stake_minimum_delegation.
     tri (increase_check_amount E w reserve_stake_account_info stake_rent
            stake_minimum_delegation lamports) (\<lambda>total_lamports.
     tri (increase_move E program_id stake_pool stake_pool_info withdraw_authority_info
            reserve_stake_account_info validator_vote_account_info clock_info stake_history_info
            stake_config_info epoch total_lamports transient_stake_seed
            maybe_ephemeral_stake_seed maybe_ephemeral_stake_account_info
            transient_stake_account_info validator_stake_info w) (\<lambda>(validator_stake_info, w).
     Inr (store_validator w validator_list_info header validator_list offset
            validator_stake_info)))))))))))))))))))))))))))))))))"

section \<open>Successful runs\<close>

lemma opt_account_Inr [inversions]:
  "opt_account b iter = Inr r \<longleftrightarrow>
     (if b then \<exists>a rest. iter = a # rest \<and> r = (Some a, rest) else r = (None, iter))"
  by (cases iter) (auto simp: opt_account_def next_account_info_def)

lemma rebalance_keeps:
  assumes "cpi_law E pid"
  shows "keeps pid w (decrease_into_transient E p pool auth clock mres mhist rent seed bump vote src l tr w)"
    and "keeps pid w (increase_into_transient E p pool auth vinfo clock hist conf epoch l seed bump src tr w)"
  using assms keeps_calls [OF assms]
  by (auto simp: decrease_into_transient_def increase_into_transient_def Let_def split: option.split prod.split
      intro!: keeps_tri keeps_reads keeps_if)

lemma via_ephemeral_frame:
  assumes law: "cpi_law E pid"
  shows "decrease_via_ephemeral E pid p pool auth stake clock mres mhist rent l s eph w = Inr (src, n, w')
      \<Longrightarrow> owned_frame pid {} w w'"
    and "increase_via_ephemeral E pid p pool auth res vote clock hist conf l s eph w = Inr (src, w')
      \<Longrightarrow> owned_frame pid {} w w'"
proof -
  let ?fund = "\<lambda>w. case mres of
      Some res \<Rightarrow>
        if saturating_sub rent (lamports_of w eph) > 0 then
          if saturating_sub rent (lamports_of w eph) \<ge> lamports_of w res then Inl (spe ReserveDepleted) else
          tri (ok_or mhist (spe MissingRequiredSysvar)) (\<lambda>h.
          stake_withdraw E w (ai_key pool) res auth AUTHORITY_WITHDRAW (sp_stake_withdraw_bump_seed p) eph clock
            h (saturating_sub rent (lamports_of w eph)))
        else Inr w
    | None \<Rightarrow> Inr w"
  have fund: "keeps pid w (?fund w)" for w
    using keeps_calls [OF law] by (auto split: option.split intro!: keeps_reads)
  assume "decrease_via_ephemeral E pid p pool auth stake clock mres mhist rent l s eph w = Inr (src, n, w')"
  then obtain seeds w1 w2 w3 where runs: "create_stake_account E w eph seeds (e_stake_space E) = Inr w1"
    "?fund w1 = Inr w2"
    "stake_split E w2 (ai_key pool) stake auth AUTHORITY_WITHDRAW (sp_stake_withdraw_bump_seed p) l eph = Inr w3"
    "stake_deactivate E w3 eph clock auth (ai_key pool) AUTHORITY_WITHDRAW (sp_stake_withdraw_bump_seed p)
      = Inr w'"
    by (auto simp: decrease_via_ephemeral_def inversions Let_def cong: if_cong option.case_cong)
  show "owned_frame pid {} w w'"
    by (rule calls_trans(1) [OF law runs(1)], rule owned_frame_trans [OF keepsD [OF fund runs(2)]],
        rule calls_trans(4) [OF law runs(3)], rule calls_frame(3) [OF law runs(4)])
next
  assume "increase_via_ephemeral E pid p pool auth res vote clock hist conf l s eph w = Inr (src, w')"
  then show "owned_frame pid {} w w'"
    by (auto simp: increase_via_ephemeral_def inversions)
      (rule calls_trans(1) [OF law], assumption, rule calls_trans(4) [OF law], assumption,
        rule calls_frame(2) [OF law])
qed

lemma decrease_move_success:
  assumes law: "cpi_law E pid"
    and run: "decrease_move E pid p pool auth stake clock mres mhist rent l seed mseed meph tr vote v w
      = Inr (v', w')"
  shows "owned_frame pid {} w w'"
    "\<exists>active. checked_sub (vsi_active_stake_lamports v) l = Some active
      \<and> v' = v\<lparr>vsi_active_stake_lamports := active, vsi_transient_stake_lamports := lamports_of w' tr,
               vsi_transient_seed_suffix := seed\<rparr>"
proof -
  obtain src n w1 bump active where
    src: "(case (mseed, meph) of
        (Some s, Some eph) \<Rightarrow> decrease_via_ephemeral E pid p pool auth stake clock mres mhist rent l s eph w
      | _ \<Rightarrow> Inr (stake, l, w)) = Inr (src, n, w1)"
    and mv: "(if vsi_transient_stake_lamports v > 0 then
         case mhist of None \<Rightarrow> Inl Panic
         | Some h \<Rightarrow> stake_merge E w1 (ai_key pool) src auth AUTHORITY_WITHDRAW
              (sp_stake_withdraw_bump_seed p) tr clock h
       else decrease_into_transient E p pool auth clock mres mhist rent seed bump vote src n tr w1) = Inr w'"
    and act: "checked_sub (vsi_active_stake_lamports v) l = Some active"
      "v' = v\<lparr>vsi_active_stake_lamports := active, vsi_transient_stake_lamports := lamports_of w' tr,
              vsi_transient_seed_suffix := seed\<rparr>"
    using run by (auto simp: decrease_move_def inversions cong: if_cong option.case_cong prod.case_cong)
  have "owned_frame pid {} w w1"
    using src via_ephemeral_frame(1) [OF law] by (auto split: option.splits)
  moreover have "owned_frame pid {} w1 w'"
    using mv calls_frame(5) [OF law] keepsD [OF rebalance_keeps(1) [OF law]] by (auto split: if_splits option.splits)
  ultimately show "owned_frame pid {} w w'" by (rule owned_frame_trans)
  show "\<exists>active. checked_sub (vsi_active_stake_lamports v) l = Some active
      \<and> v' = v\<lparr>vsi_active_stake_lamports := active, vsi_transient_stake_lamports := lamports_of w' tr,
               vsi_transient_seed_suffix := seed\<rparr>"
    using act by blast
qed

lemma increase_move_success:
  assumes law: "cpi_law E pid"
    and run: "increase_move E pid p pool auth res vinfo clock hist conf epoch l seed mseed meph tr v w
      = Inr (v', w')"
  shows "owned_frame pid {} w w'"
    "\<exists>t. checked_add (vsi_transient_stake_lamports v) l = Some t
      \<and> v' = v\<lparr>vsi_transient_stake_lamports := t, vsi_transient_seed_suffix := seed\<rparr>"
proof -
  obtain src w1 bump t where
    src: "(case (mseed, meph) of
        (Some s, Some eph) \<Rightarrow> increase_via_ephemeral E pid p pool auth res vinfo clock hist conf l s eph w
      | _ \<Rightarrow> Inr (res, w)) = Inr (src, w1)"
    and mv: "(if vsi_transient_stake_lamports v > 0
       then stake_merge E w1 (ai_key pool) src auth AUTHORITY_WITHDRAW (sp_stake_withdraw_bump_seed p) tr clock
              hist
       else increase_into_transient E p pool auth vinfo clock hist conf epoch l seed bump src tr w1) = Inr w'"
    and t: "checked_add (vsi_transient_stake_lamports v) l = Some t"
      "v' = v\<lparr>vsi_transient_stake_lamports := t, vsi_transient_seed_suffix := seed\<rparr>"
    using run by (auto simp: increase_move_def inversions cong: if_cong option.case_cong prod.case_cong)
  have "owned_frame pid {} w w1"
    using src via_ephemeral_frame(2) [OF law] by (auto split: option.splits)
  moreover have "owned_frame pid {} w1 w'"
    using mv calls_frame(5) [OF law] keepsD [OF rebalance_keeps(2) [OF law]] by (auto split: if_splits)
  ultimately show "owned_frame pid {} w w'" by (rule owned_frame_trans)
  show "\<exists>t. checked_add (vsi_transient_stake_lamports v) l = Some t
      \<and> v' = v\<lparr>vsi_transient_stake_lamports := t, vsi_transient_seed_suffix := seed\<rparr>"
    using t by blast
qed

text \<open>
  Where the optional accounts come in: the reserve before the stake of the validator when it funds
  the rent, the ephemeral stake before the transient one.
\<close>

definition decrease_stake_at :: "bool \<Rightarrow> nat" where
  "decrease_stake_at fund = (if fund then 1 else 0)"

definition decrease_transient_at :: "bool \<Rightarrow> u64 option \<Rightarrow> nat" where
  "decrease_transient_at fund eph = (if fund then 2 else 1) + (if eph = None then 0 else 1)"

lemma decrease_success:
  assumes run: "process_decrease_validator_stake E pid accts l seed eph fund w = Inr w'" and law: "cpi_law E pid"
  obtains pool staker auth list rest stake tr p epoch h bv meta d i v md active w1 where
    "accts = pool # staker # auth # list # rest"
    "stake = rest ! decrease_stake_at fund" "tr = rest ! decrease_transient_at fund eph"
    "owner_of w pool = pid" "load_pool w pool = Inr p" "sp_is_valid p"
    "ai_key staker = sp_staker p" "ai_is_signer staker"
    "ai_key list = sp_validator_list p" "owner_of w list = pid"
    "load_list w list = Inr (h, bv)" "header_is_valid h"
    "e_decode_stake E (data_of w stake) = Inr (StakeDelegated meta d)"
    "find_validator_mut bv (del_voter_pubkey d) = Inr (Some (i, v))"
    "decrease_check_transient E w v seed eph tr (del_voter_pubkey d) epoch = Inr ()"
    "vsi_status v = status_to_u8 Active"
    "e_minimum_delegation E = Inr md" "decrease_check_amount w stake meta md l = Inr ()"
    "checked_sub (vsi_active_stake_lamports v) l = Some active"
    "w' = store_validator w1 list h bv i (v\<lparr>vsi_active_stake_lamports := active,
        vsi_transient_stake_lamports := lamports_of w1 tr, vsi_transient_seed_suffix := seed\<rparr>)"
    "owned_frame pid {} w w1"
proof -
  obtain pool staker auth list rest stake tr p epoch h bv meta d i v md v' w1
      mres mhist clock rent meph where
    facts: "accts = pool # staker # auth # list # rest"
      "stake = rest ! decrease_stake_at fund" "tr = rest ! decrease_transient_at fund eph"
      "owner_of w pool = pid" "load_pool w pool = Inr p" "sp_is_valid p"
      "ai_key staker = sp_staker p" "ai_is_signer staker"
      "ai_key list = sp_validator_list p" "owner_of w list = pid"
      "load_list w list = Inr (h, bv)" "header_is_valid h"
      "e_decode_stake E (data_of w stake) = Inr (StakeDelegated meta d)"
      "find_validator_mut bv (del_voter_pubkey d) = Inr (Some (i, v))"
      "decrease_check_transient E w v seed eph tr (del_voter_pubkey d) epoch = Inr ()"
      "vsi_status v = status_to_u8 Active"
      "e_minimum_delegation E = Inr md" "decrease_check_amount w stake meta md l = Inr ()"
    and mv: "decrease_move E pid p pool auth stake clock mres mhist rent l seed eph meph tr
        (del_voter_pubkey d) v w = Inr (v', w1)"
    and w': "w' = store_validator w1 list h bv i v'"
    using run
    by (cases fund; cases eph)
      (auto simp: process_decrease_validator_stake_def inversions Let_def decrease_stake_at_def
        decrease_transient_at_def cong: if_cong)
  from decrease_move_success(2) [OF law mv]
  obtain active where "checked_sub (vsi_active_stake_lamports v) l = Some active"
    "v' = v\<lparr>vsi_active_stake_lamports := active, vsi_transient_stake_lamports := lamports_of w1 tr,
             vsi_transient_seed_suffix := seed\<rparr>"
    by blast
  then show thesis
    using that [OF facts] w' decrease_move_success(1) [OF law mv] by blast
qed

definition increase_transient_at :: "u64 option \<Rightarrow> nat" where
  "increase_transient_at eph = (if eph = None then 1 else 2)"

lemma increase_success:
  assumes run: "process_increase_validator_stake E pid accts l seed eph w = Inr w'" and law: "cpi_law E pid"
  obtains pool staker auth list reserve rest tr vote p epoch h bv i v rn rent md total_moved t w1 where
    "accts = pool # staker # auth # list # reserve # rest"
    "tr = (reserve # rest) ! increase_transient_at eph"
    "vote = (reserve # rest) ! (increase_transient_at eph + 2)"
    "owner_of w pool = pid" "load_pool w pool = Inr p" "sp_is_valid p"
    "ai_key staker = sp_staker p" "ai_is_signer staker"
    "ai_key list = sp_validator_list p" "ai_key reserve = sp_reserve_stake p" "owner_of w list = pid"
    "load_list w list = Inr (h, bv)" "header_is_valid h"
    "find_validator_mut bv (ai_key vote) = Inr (Some (i, v))"
    "increase_check_transient E w v seed eph tr (ai_key vote) epoch = Inr ()"
    "vsi_status v = status_to_u8 Active"
    "e_minimum_delegation E = Inr md"
    "(if eph = None then e_rent_from_account_info E w (rest ! 4) else e_rent_get E) = Inr rn"
    "rent = rent_minimum_balance rn (e_stake_space E)"
    "increase_check_amount E w reserve rent md l = Inr total_moved"
    "checked_add (vsi_transient_stake_lamports v) total_moved = Some t"
    "w' = store_validator w1 list h bv i (v\<lparr>vsi_transient_stake_lamports := t,
        vsi_transient_seed_suffix := seed\<rparr>)"
    "owned_frame pid {} w w1"
proof -
  obtain pool staker auth list reserve rest tr vote p epoch h bv i v rn rent md total_moved v' w1
      clock hist conf meph where
    facts: "accts = pool # staker # auth # list # reserve # rest"
      "tr = (reserve # rest) ! increase_transient_at eph"
      "vote = (reserve # rest) ! (increase_transient_at eph + 2)"
      "owner_of w pool = pid" "load_pool w pool = Inr p" "sp_is_valid p"
      "ai_key staker = sp_staker p" "ai_is_signer staker"
      "ai_key list = sp_validator_list p" "ai_key reserve = sp_reserve_stake p" "owner_of w list = pid"
      "load_list w list = Inr (h, bv)" "header_is_valid h"
      "find_validator_mut bv (ai_key vote) = Inr (Some (i, v))"
      "increase_check_transient E w v seed eph tr (ai_key vote) epoch = Inr ()"
      "vsi_status v = status_to_u8 Active"
      "e_minimum_delegation E = Inr md"
      "(if eph = None then e_rent_from_account_info E w (rest ! 4) else e_rent_get E) = Inr rn"
      "rent = rent_minimum_balance rn (e_stake_space E)"
      "increase_check_amount E w reserve rent md l = Inr total_moved"
    and mv: "increase_move E pid p pool auth reserve vote clock hist conf epoch total_moved seed eph meph tr
        v w = Inr (v', w1)"
    and w': "w' = store_validator w1 list h bv i v'"
    using run
    by (cases eph)
      (auto simp: process_increase_validator_stake_def inversions Let_def increase_transient_at_def
        increase_rent_def cong: if_cong)
  from increase_move_success(2) [OF law mv]
  obtain t where "checked_add (vsi_transient_stake_lamports v) total_moved = Some t"
    "v' = v\<lparr>vsi_transient_stake_lamports := t, vsi_transient_seed_suffix := seed\<rparr>"
    by blast
  then show thesis
    using that [OF facts] w' increase_move_success(1) [OF law mv] by blast
qed

section \<open>The handlers implement actions of the pool\<close>

interpretation decrease: pool_handler
    "\<lambda>E pid accts. process_decrease_validator_stake E pid accts l seed eph fund" "\<lambda>a. a = Keeping"
    for l seed eph fund
proof
  fix E pid accts w w'
  assume law: "cpi_law E pid" and run: "process_decrease_validator_stake E pid accts l seed eph fund w = Inr w'"
  from run law show "pool_contract pid accts (step_of (\<lambda>a. a = Keeping)) w w'"
    by (rule decrease_success)
      (auto simp: store_validator_def intro!: contract_store_list step_ofI [OF step_keep])
qed

interpretation increase: pool_handler
    "\<lambda>E pid accts. process_increase_validator_stake E pid accts l seed eph" "\<lambda>a. a = Keeping"
    for l seed eph
proof
  fix E pid accts w w'
  assume law: "cpi_law E pid" and run: "process_increase_validator_stake E pid accts l seed eph w = Inr w'"
  from run law show "pool_contract pid accts (step_of (\<lambda>a. a = Keeping)) w w'"
    by (rule increase_success)
      (auto simp: store_validator_def intro!: contract_store_list step_ofI [OF step_keep])
qed

section \<open>Properties\<close>

text \<open>What it means that a handler ends by storing one record of the list.\<close>

lemma record_stored:
  assumes inv: "list_inv h bv" and find: "find_validator_mut bv vote = Inr (Some (i, v))"
    and same: "vsi_vote_account_address v' = vsi_vote_account_address v"
    and pool: "owner_of w pool = pid" "load_pool w pool = Inr p" "sp_is_valid p"
    and list: "load_list w list = Inr (h, bv)" and f: "owned_frame pid {} w w1"
    and w': "w' = store_validator w1 list h bv i v'"
  obtains k bv' where "k < bv_count bv" "v = vlist bv ! k" "vsi_vote_account_address v = vote"
    "load_list w' list = Inr (h, bv')" "list_inv h bv'" "vlist bv' = (vlist bv)[k := v']"
    "load_pool w' pool = Inr p"
proof -
  have wf: "vlist_wf bv" "header_is_valid h" using inv by (simp_all add: list_inv_def)
  have vote: "vsi_vote_account_address v = vote" using find_validator_mut_found [OF wf(1) find] by auto
  with same have "vsi_vote_account_address v' = vote" by simp
  from list_inv_store [OF inv find this] obtain k where k: "k < bv_count bv" "vlist bv ! k = v"
      "list_inv h (overwrite i (enc_vsi v') bv)" "vlist (overwrite i (enc_vsi v') bv) = (vlist bv)[k := v']"
    by blast
  have "load_pool w' pool = Inr p"
    using owned_frame_data(1) [OF f pool(1)] pool_not_list [OF pool(2,3) list wf(2)] pool(2)
    by (simp add: w' load_pool_def store_validator_def store_list_def)
  moreover have "load_list w' list = Inr (h, overwrite i (enc_vsi v') bv)"
    by (simp add: w' store_validator_def)
  ultimately show thesis using that k vote by metis
qed

lemma decrease_amount_ok:
  assumes "decrease_check_amount w stake meta md l = Inr ()"
  shows "minimum_delegation md \<le> l"
    and "uint l + uint (minimum_stake_lamports meta md) \<le> uint (lamports_of w stake)"
  using assms
  by (auto simp: decrease_check_amount_def inversions checked_simps Let_def not_less word_le_def
      split: if_splits)

text \<open>
  C16. Decreasing a validator's stake needs the staker's signature and an active record for the vote
  account of the given stake. The amount is at least the minimum delegation, leaves the stake account
  what it has to keep, and is taken off the record's active stake without underflow; the record's
  transient stake becomes the balance of the transient account. A pending transient stake is reused
  only under its own seed and through an ephemeral account. No other record changes, the list keeps
  its invariant and the pool is untouched.
\<close>

theorem decrease_moves_stake:
  assumes "process_decrease_validator_stake E pid (pool # staker # auth # list # rest) l seed eph fund w
      = Inr w'"
    and "cpi_law E pid" and "load_list w list = Inr (h, bv)" and "list_inv h bv"
  shows "\<exists>p stake meta d k v md active bv'. load_pool w pool = Inr p
    \<and> ai_key staker = sp_staker p \<and> ai_is_signer staker
    \<and> stake = rest ! decrease_stake_at fund
    \<and> e_decode_stake E (data_of w stake) = Inr (StakeDelegated meta d)
    \<and> k < bv_count bv \<and> v = vlist bv ! k \<and> vsi_vote_account_address v = del_voter_pubkey d
    \<and> vsi_status v = status_to_u8 Active
    \<and> (vsi_transient_stake_lamports v > 0 \<longrightarrow> eph \<noteq> None \<and> seed = vsi_transient_seed_suffix v)
    \<and> e_minimum_delegation E = Inr md \<and> minimum_delegation md \<le> l
    \<and> uint l + uint (minimum_stake_lamports meta md) \<le> uint (lamports_of w stake)
    \<and> uint active = uint (vsi_active_stake_lamports v) - uint l
    \<and> load_list w' list = Inr (h, bv') \<and> list_inv h bv'
    \<and> vlist bv' = (vlist bv)[k := v\<lparr>vsi_active_stake_lamports := active,
         vsi_transient_stake_lamports := lamports_of w' (rest ! decrease_transient_at fund eph),
         vsi_transient_seed_suffix := seed\<rparr>]
    \<and> load_pool w' pool = Inr p"
  using assms(1,2)
proof (rule decrease_success)
  fix pool' staker' auth' list' rest' stake tr p epoch h' b meta d i md active w1
    and v :: ValidatorStakeInfo
  let ?v = "v\<lparr>vsi_active_stake_lamports := active, vsi_transient_stake_lamports := lamports_of w1 tr,
      vsi_transient_seed_suffix := seed\<rparr>"
  assume eq: "pool # staker # auth # list # rest = pool' # staker' # auth' # list' # rest'"
    and at: "stake = rest' ! decrease_stake_at fund" "tr = rest' ! decrease_transient_at fund eph"
    and p: "owner_of w pool' = pid" "load_pool w pool' = Inr p" "sp_is_valid p"
    and s: "ai_key staker' = sp_staker p" "ai_is_signer staker'"
    and l: "load_list w list' = Inr (h', b)"
    and d: "e_decode_stake E (data_of w stake) = Inr (StakeDelegated meta d)"
    and v: "find_validator_mut b (del_voter_pubkey d) = Inr (Some (i, v))"
    and tr: "decrease_check_transient E w v seed eph tr (del_voter_pubkey d) epoch = Inr ()"
    and a: "vsi_status v = status_to_u8 Active"
    and md: "e_minimum_delegation E = Inr md" "decrease_check_amount w stake meta md l = Inr ()"
    and sub: "checked_sub (vsi_active_stake_lamports v) l = Some active"
    and w': "w' = store_validator w1 list' h' b i ?v" and f: "owned_frame pid {} w w1"
  have eqs: "pool' = pool" "staker' = staker" "list' = list" "rest' = rest" "h' = h" "b = bv"
    using eq l assms(3) by simp_all
  have same: "vsi_vote_account_address ?v = vsi_vote_account_address v" by simp
  obtain k bv' where k: "k < bv_count bv" "v = vlist bv ! k" "vsi_vote_account_address v = del_voter_pubkey d"
    "load_list w' list = Inr (h, bv')" "list_inv h bv'" "vlist bv' = (vlist bv)[k := ?v]"
    "load_pool w' pool = Inr p"
    by (rule record_stored [OF assms(4) v [unfolded eqs] same p [unfolded eqs] assms(3) f w' [unfolded eqs]])
  have t: "vsi_transient_stake_lamports v > 0 \<longrightarrow> eph \<noteq> None \<and> seed = vsi_transient_seed_suffix v"
    using tr by (auto simp: decrease_check_transient_def split: if_splits)
  have act: "uint active = uint (vsi_active_stake_lamports v) - uint l"
    using sub by (simp add: checked_simps)
  have bal: "lamports_of w1 tr = lamports_of w' (rest ! decrease_transient_at fund eph)"
    by (simp add: w' at eqs store_validator_def store_list_def)
  from p(2) s at(1) d k a t md(1) decrease_amount_ok [OF md(2)] act show ?thesis
    unfolding eqs bal by - (intro exI conjI, (assumption | rule refl)+)
qed

lemma increase_amount_ok:
  assumes "increase_check_amount E w reserve rent md l = Inr t"
  shows "minimum_delegation md \<le> l" and "t = saturating_add l rent"
    and "rent \<le> saturating_sub (lamports_of w reserve) t"
  using assms by (auto simp: increase_check_amount_def Let_def not_less split: if_splits)

text \<open>
  C17. Increasing a validator's stake needs the staker's signature and an active record for the given
  vote account. The amount is at least the minimum delegation; it and the rent of one stake account
  are what leaves the reserve, which keeps its own rent, and what is added, without overflow, to the
  record's transient stake. A pending transient stake is reused only under its own seed and through
  an ephemeral account. No other record changes, the list keeps its invariant and the pool is
  untouched.
\<close>

theorem increase_moves_stake:
  assumes "process_increase_validator_stake E pid (pool # staker # auth # list # reserve # rest) l seed eph w
      = Inr w'"
    and "cpi_law E pid" and "load_list w list = Inr (h, bv)" and "list_inv h bv"
  shows "\<exists>p k v md rn moved t bv'. load_pool w pool = Inr p
    \<and> ai_key staker = sp_staker p \<and> ai_is_signer staker \<and> ai_key reserve = sp_reserve_stake p
    \<and> k < bv_count bv \<and> v = vlist bv ! k
    \<and> vsi_vote_account_address v = ai_key ((reserve # rest) ! (increase_transient_at eph + 2))
    \<and> vsi_status v = status_to_u8 Active
    \<and> (vsi_transient_stake_lamports v > 0 \<longrightarrow> eph \<noteq> None \<and> seed = vsi_transient_seed_suffix v)
    \<and> e_minimum_delegation E = Inr md \<and> minimum_delegation md \<le> l
    \<and> (if eph = None then e_rent_from_account_info E w (rest ! 4) else e_rent_get E) = Inr rn
    \<and> moved = saturating_add l (rent_minimum_balance rn (e_stake_space E))
    \<and> rent_minimum_balance rn (e_stake_space E) \<le> saturating_sub (lamports_of w reserve) moved
    \<and> uint t = uint (vsi_transient_stake_lamports v) + uint moved
    \<and> load_list w' list = Inr (h, bv') \<and> list_inv h bv'
    \<and> vlist bv' = (vlist bv)[k := v\<lparr>vsi_transient_stake_lamports := t, vsi_transient_seed_suffix := seed\<rparr>]
    \<and> load_pool w' pool = Inr p"
  using assms(1,2)
proof (rule increase_success)
  fix pool' staker' auth' list' reserve' rest' tr vote p epoch h' b i rn rent md moved t w1
    and v :: ValidatorStakeInfo
  let ?v = "v\<lparr>vsi_transient_stake_lamports := t, vsi_transient_seed_suffix := seed\<rparr>"
  assume eq: "pool # staker # auth # list # reserve # rest = pool' # staker' # auth' # list' # reserve' # rest'"
    and at: "vote = (reserve' # rest') ! (increase_transient_at eph + 2)"
    and p: "owner_of w pool' = pid" "load_pool w pool' = Inr p" "sp_is_valid p"
    and s: "ai_key staker' = sp_staker p" "ai_is_signer staker'" "ai_key reserve' = sp_reserve_stake p"
    and l: "load_list w list' = Inr (h', b)"
    and v: "find_validator_mut b (ai_key vote) = Inr (Some (i, v))"
    and tr: "increase_check_transient E w v seed eph tr (ai_key vote) epoch = Inr ()"
    and a: "vsi_status v = status_to_u8 Active" and md: "e_minimum_delegation E = Inr md"
    and rn: "(if eph = None then e_rent_from_account_info E w (rest' ! 4) else e_rent_get E) = Inr rn"
      "rent = rent_minimum_balance rn (e_stake_space E)"
    and amt: "increase_check_amount E w reserve' rent md l = Inr moved"
    and add: "checked_add (vsi_transient_stake_lamports v) moved = Some t"
    and w': "w' = store_validator w1 list' h' b i ?v" and f: "owned_frame pid {} w w1"
  have eqs: "pool' = pool" "staker' = staker" "list' = list" "reserve' = reserve" "rest' = rest" "h' = h" "b = bv"
    using eq l assms(3) by simp_all
  have same: "vsi_vote_account_address ?v = vsi_vote_account_address v" by simp
  obtain k bv' where k: "k < bv_count bv" "v = vlist bv ! k" "vsi_vote_account_address v = ai_key vote"
    "load_list w' list = Inr (h, bv')" "list_inv h bv'" "vlist bv' = (vlist bv)[k := ?v]"
    "load_pool w' pool = Inr p"
    by (rule record_stored [OF assms(4) v [unfolded eqs] same p [unfolded eqs] assms(3) f w' [unfolded eqs]])
  have t: "vsi_transient_stake_lamports v > 0 \<longrightarrow> eph \<noteq> None \<and> seed = vsi_transient_seed_suffix v"
    using tr by (auto simp: increase_check_transient_def split: if_splits)
  have sum: "uint t = uint (vsi_transient_stake_lamports v) + uint moved"
    using add by (simp add: checked_simps)
  from p(2) s k a t md rn(1) increase_amount_ok [OF amt] sum show ?thesis
    unfolding eqs at rn(2) by - (intro exI conjI, (assumption | rule refl)+)
qed

text \<open>For the witnesses: a decrease funded by the reserve and an increase, both of validator 22.\<close>

lemma sample_minimum: "minimum_delegation 1000000 = 1000000"
  "minimum_stake_lamports sample_meta 1000000 = 3282880"
  by (simp_all add: minimum_stake_lamports_def minimum_delegation_def saturating_add_def sample_simps
      MINIMUM_ACTIVE_STAKE_def)

lemma sample_decrease_runs:
  "\<exists>w'. process_decrease_validator_stake sample_env 99
     [acct 1, signer 12, acct 50, acct 14, acct 15, acct 50, acct 50, acct 71, acct 72, acct 5, acct 6]
     1000000 3 None True sample_world = Inr w'"
proof -
  have v: "vsi_status (sample_validators ! Suc 0) = 0"
    "vsi_transient_stake_lamports (sample_validators ! Suc 0) = 0"
    "checked_sub (vsi_active_stake_lamports (sample_validators ! Suc 0)) 1000000 = Some 1000000"
    by (simp_all add: sample_validators_def default_vsi_def checked_sub_def)
  have amt: "decrease_check_amount sample_world (acct 50) sample_meta 1000000 1000000 = Inr ()"
    by (simp add: decrease_check_amount_def sample_minimum sample_simps checked_sub_def)
  have mv: "\<exists>w1 v'. decrease_move sample_env 99 sample_pool (acct 1) (acct 50) (acct 50) (acct 71)
      (Some (acct 15)) (Some (acct 72)) 2282880 1000000 3 None None (acct 50) 22 (sample_validators ! Suc 0)
      sample_world = Inr (v', w1)"
    by (simp add: decrease_move_def decrease_into_transient_def v sample_simps check_transient_stake_address_def
        find_transient_stake_program_address_def create_stake_account_def stake_split_def stake_withdraw_def
        stake_deactivate_def get_stake_state_def saturating_sub_def Let_def cong: tri_weak_cong)
  then show ?thesis
    by (auto simp: process_decrease_validator_stake_def decrease_rent_and_history_def opt_account_def sample_simps
        sample_find v amt check_system_program_def check_stake_program_def check_account_owner_def
        check_authority_withdraw_def check_program_derived_authority_def check_staker_def
        check_validator_list_def check_reserve_stake_def get_stake_state_def check_validator_stake_address_def
        find_stake_program_address_def decrease_check_transient_def cong: tri_weak_cong)
qed

theorem decrease_moves_stake_witness:
  "\<exists>w' bv'. process_decrease_validator_stake sample_env 99
     [acct 1, signer 12, acct 50, acct 14, acct 15, acct 50, acct 50, acct 71, acct 72, acct 5, acct 6]
     1000000 3 None True sample_world = Inr w'
   \<and> load_list w' (acct 14) = Inr (sample_header, bv')
   \<and> map vsi_active_stake_lamports (vlist bv') = [0, 1000000, 0]"
proof -
  obtain w' where w': "process_decrease_validator_stake sample_env 99
     [acct 1, signer 12, acct 50, acct 14, acct 15, acct 50, acct 50, acct 71, acct 72, acct 5, acct 6]
     1000000 3 None True sample_world = Inr w'"
    using sample_decrease_runs by blast
  from decrease_moves_stake [OF w' sample_law sample_load(2) sample_list_inv]
  obtain k active t bv' where l: "load_list w' (acct 14) = Inr (sample_header, bv')"
    and k: "k < 3" "vsi_vote_account_address (sample_validators ! k) = 22"
    and a: "uint active = uint (vsi_active_stake_lamports (sample_validators ! k)) - uint (1000000 :: u64)"
    and v: "vlist bv' = sample_validators[k := (sample_validators ! k)\<lparr>vsi_active_stake_lamports := active,
         vsi_transient_stake_lamports := t, vsi_transient_seed_suffix := 3\<rparr>]"
    by (auto simp: sample_vec_facts sample_simps sample_count decrease_stake_at_def)
  have k1: "k = 1" using k by (auto simp: sample_validators_def less_Suc_eq numeral_3_eq_3)
  have "uint active = uint (1000000 :: u64)"
    using a unfolding k1 by (simp add: sample_validators_def default_vsi_def)
  then have "active = 1000000" by (rule word_uint_eqI)
  then have "map vsi_active_stake_lamports (vlist bv') = [0, 1000000, 0]"
    unfolding v k1 by (simp add: sample_validators_def default_vsi_def)
  with w' l show ?thesis by (intro exI conjI)
qed

lemma sample_increase_runs:
  "\<exists>w'. process_increase_validator_stake sample_env 99
     [acct 1, signer 12, acct 50, acct 14, acct 15, acct 50, acct 50, acct 22, acct 71, acct 70, acct 72,
      acct 73, acct 5, acct 6] 1000000 3 None sample_world = Inr w'"
proof -
  have v: "vsi_status (sample_validators ! Suc 0) = 0"
    "vsi_transient_stake_lamports (sample_validators ! Suc 0) = 0"
    by (simp_all add: sample_validators_def default_vsi_def)
  have amt: "increase_check_amount sample_env sample_world (acct 15) 2282880 1000000 1000000 = Inr 3282880"
    by (simp add: increase_check_amount_def sample_minimum sample_simps saturating_add_def saturating_sub_def
        Let_def)
  have mv: "\<exists>w1 v'. increase_move sample_env 99 sample_pool (acct 1) (acct 50) (acct 15) (acct 22) (acct 71)
      (acct 72) (acct 73) 5 3282880 3 None None (acct 50) (sample_validators ! Suc 0) sample_world = Inr (v', w1)"
    by (simp add: increase_move_def increase_into_transient_def v sample_simps check_transient_stake_address_def
        find_transient_stake_program_address_def create_stake_account_def stake_split_def stake_delegate_def
        checked_add_def cong: tri_weak_cong)
  then show ?thesis
    by (auto simp: process_increase_validator_stake_def increase_rent_def opt_account_def sample_simps
        sample_find v amt check_system_program_def check_stake_program_def check_account_owner_def
        check_authority_withdraw_def check_program_derived_authority_def check_staker_def
        check_validator_list_def check_reserve_stake_def get_stake_state_def check_validator_stake_address_def
        check_validator_stake_account_def check_stake_state_def stake_is_usable_by_pool_def
        find_stake_program_address_def increase_check_transient_def cong: tri_weak_cong)
qed

theorem increase_moves_stake_witness:
  "\<exists>w' bv'. process_increase_validator_stake sample_env 99
     [acct 1, signer 12, acct 50, acct 14, acct 15, acct 50, acct 50, acct 22, acct 71, acct 70, acct 72,
      acct 73, acct 5, acct 6] 1000000 3 None sample_world = Inr w'
   \<and> load_list w' (acct 14) = Inr (sample_header, bv')
   \<and> map vsi_transient_stake_lamports (vlist bv') = [0, 3282880, 5]"
proof -
  obtain w' where w': "process_increase_validator_stake sample_env 99
     [acct 1, signer 12, acct 50, acct 14, acct 15, acct 50, acct 50, acct 22, acct 71, acct 70, acct 72,
      acct 73, acct 5, acct 6] 1000000 3 None sample_world = Inr w'"
    using sample_increase_runs by blast
  from increase_moves_stake [OF w' sample_law sample_load(2) sample_list_inv]
  obtain k t bv' where l: "load_list w' (acct 14) = Inr (sample_header, bv')"
    and k: "k < 3" "vsi_vote_account_address (sample_validators ! k) = 22"
    and t: "uint t = uint (vsi_transient_stake_lamports (sample_validators ! k))
        + uint (saturating_add 1000000 2282880 :: u64)"
    and v: "vlist bv' = sample_validators[k := (sample_validators ! k)\<lparr>vsi_transient_stake_lamports := t,
         vsi_transient_seed_suffix := 3\<rparr>]"
    by (auto simp: sample_vec_facts sample_simps sample_count increase_transient_at_def)
  have k1: "k = 1" using k by (auto simp: sample_validators_def less_Suc_eq numeral_3_eq_3)
  have "uint t = uint (3282880 :: u64)"
    using t unfolding k1 by (simp add: sample_validators_def default_vsi_def saturating_add_def)
  then have "t = 3282880" by (rule word_uint_eqI)
  then have "map vsi_transient_stake_lamports (vlist bv') = [0, 3282880, 5]"
    unfolding v k1 by (simp add: sample_validators_def default_vsi_def)
  with w' l show ?thesis by (intro exI conjI)
qed

end
