(* ===== verification/Balance_Update.thy ===== *)
theory Balance_Update
  imports Sample Admin
begin

text \<open>
  The epoch boundary (\<^verbatim>\<open>program/src/processor.rs\<close>): \<open>process_update_validator_list_balance\<close>, which
  brings the records of a range of validators up to date with their stake accounts and merges what
  can be merged, and \<open>process_update_stake_pool_balance\<close>, which adds up the reserve and all records,
  charges the epoch fee on the rewards and advances the scheduled fees.
\<close>

section \<open>The record of one validator\<close>

definition ok_of :: "'a result \<Rightarrow> 'a option" where
  "ok_of r = (case r of Inr x \<Rightarrow> Some x | Inl _ \<Rightarrow> None)"

text \<open>A merge signed by the pool's withdraw authority.\<close>

definition pool_merge ::
    "env \<Rightarrow> StakePool \<Rightarrow> AccountInfo \<Rightarrow> AccountInfo \<Rightarrow> AccountInfo \<Rightarrow> AccountInfo \<Rightarrow> AccountInfo
      \<Rightarrow> AccountInfo \<Rightarrow> world \<Rightarrow> world result" where
  "pool_merge E stake_pool stake_pool_info withdraw_authority_info clock_info stake_history_info
       source destination w =
     stake_merge E w (ai_key stake_pool_info) source withdraw_authority_info AUTHORITY_WITHDRAW
       (sp_stake_withdraw_bump_seed stake_pool) destination clock_info stake_history_info"

text \<open>
  The transient stake that is delegated and still the pool's: an inactive one goes to the reserve,
  an active one to the validator's account, one that a removed validator left active is
  deactivated.
\<close>

definition update_delegated_transient ::
    "env \<Rightarrow> StakePool \<Rightarrow> AccountInfo \<Rightarrow> AccountInfo \<Rightarrow> AccountInfo \<Rightarrow> AccountInfo \<Rightarrow> AccountInfo
      \<Rightarrow> u64 \<Rightarrow> u8 \<Rightarrow> AccountInfo \<Rightarrow> AccountInfo \<Rightarrow> Delegation \<Rightarrow> StakeStateV2 option \<Rightarrow> world
      \<Rightarrow> (u8 \<times> world) result" where
  "update_delegated_transient E stake_pool stake_pool_info withdraw_authority_info
       reserve_stake_info clock_info stake_history_info epoch status validator_stake_info
       transient_stake_info stake validator_stake_state w =
     (if stake_is_inactive_without_history stake epoch then
        tri (pool_merge E stake_pool stake_pool_info withdraw_authority_info clock_info
               stake_history_info transient_stake_info reserve_stake_info w) (\<lambda>w.
        tri (remove_transient_stake status) (\<lambda>status. Inr (status, w)))
      else if status_try_from status = Inr Active then
        (if del_activation_epoch stake < epoch then
           case validator_stake_state of
             Some (StakeDelegated _ validator_stake) \<Rightarrow>
               if del_activation_epoch validator_stake < epoch then
                 tri (pool_merge E stake_pool stake_pool_info withdraw_authority_info clock_info
                        stake_history_info transient_stake_info validator_stake_info w)
                   (\<lambda>w. Inr (status, w))
               else Inr (status, w)
           | _ \<Rightarrow> Inr (status, w)
         else Inr (status, w))
      else if del_deactivation_epoch stake = EPOCH_MAX then
        tri (stake_deactivate E w transient_stake_info clock_info withdraw_authority_info
               (ai_key stake_pool_info) AUTHORITY_WITHDRAW
               (sp_stake_withdraw_bump_seed stake_pool)) (\<lambda>w. Inr (status, w))
      else Inr (status, w))"

text \<open>The new status byte, the lamports of the transient stake and the world.\<close>

definition update_transient ::
    "env \<Rightarrow> StakePool \<Rightarrow> AccountInfo \<Rightarrow> AccountInfo \<Rightarrow> AccountInfo \<Rightarrow> AccountInfo \<Rightarrow> AccountInfo
      \<Rightarrow> u64 \<Rightarrow> bool \<Rightarrow> ValidatorStakeInfo \<Rightarrow> AccountInfo \<Rightarrow> AccountInfo \<Rightarrow> world
      \<Rightarrow> (u8 \<times> u64 \<times> world) result" where
  "update_transient E stake_pool stake_pool_info withdraw_authority_info reserve_stake_info
       clock_info stake_history_info epoch no_merge validator_stake_record validator_stake_info
       transient_stake_info w =
     (let status = vsi_status validator_stake_record;
          validator_stake_state = ok_of (e_decode_stake E (data_of w validator_stake_info));
          transient_stake_state = ok_of (e_decode_stake E (data_of w transient_stake_info));
          usable = (\<lambda>meta. stake_is_usable_by_pool meta (ai_key withdraw_authority_info)
                            (sp_lockup stake_pool)) in
      if vsi_transient_stake_lamports validator_stake_record \<noteq> 0 then
        (case transient_stake_state of
           Some (StakeInitialized meta) \<Rightarrow>
             if usable meta then
               if no_merge then Inr (status, lamports_of w transient_stake_info, w)
               else
                 tri (pool_merge E stake_pool stake_pool_info withdraw_authority_info clock_info
                        stake_history_info transient_stake_info reserve_stake_info w) (\<lambda>w.
                 tri (remove_transient_stake status) (\<lambda>status. Inr (status, 0, w)))
             else Inr (status, 0, w)
         | Some (StakeDelegated meta stake) \<Rightarrow>
             if usable meta then
               tri (if no_merge then Inr (status, w)
                    else update_delegated_transient E stake_pool stake_pool_info
                           withdraw_authority_info reserve_stake_info clock_info
                           stake_history_info epoch status validator_stake_info
                           transient_stake_info stake validator_stake_state w) (\<lambda>(status, w).
               Inr (status, lamports_of w transient_stake_info, w))
             else Inr (status, 0, w)
         | _ \<Rightarrow> Inr (status, 0, w))
      else Inr (status, 0, w))"

text \<open>
  The validator's own stake account after the transient stake was handled: extra lamports go to the
  reserve, the stake of a removed validator is absorbed when it is inactive.
\<close>

definition update_active ::
    "env \<Rightarrow> StakePool \<Rightarrow> AccountInfo \<Rightarrow> AccountInfo \<Rightarrow> AccountInfo \<Rightarrow> AccountInfo \<Rightarrow> AccountInfo
      \<Rightarrow> u64 \<Rightarrow> bool \<Rightarrow> u8 \<Rightarrow> AccountInfo \<Rightarrow> Meta \<Rightarrow> Delegation \<Rightarrow> world \<Rightarrow> (u8 \<times> u64 \<times> world) result" where
  "update_active E stake_pool stake_pool_info withdraw_authority_info reserve_stake_info
       clock_info stake_history_info epoch no_merge status validator_stake_info meta stake w =
     (let additional_lamports = saturating_sub (saturating_sub
            (lamports_of w validator_stake_info) (del_stake stake)) (meta_rent_exempt_reserve meta) in
      tri (if additional_lamports > 0
           then stake_withdraw E w (ai_key stake_pool_info) validator_stake_info
                  withdraw_authority_info AUTHORITY_WITHDRAW
                  (sp_stake_withdraw_bump_seed stake_pool) reserve_stake_info clock_info
                  stake_history_info additional_lamports
           else Inr w) (\<lambda>w.
      tri (status_try_from status) (\<lambda>stake_status.
      case stake_status of
        Active \<Rightarrow> Inr (status, lamports_of w validator_stake_info, w)
      | DeactivatingTransient \<Rightarrow> Inr (status, 0, w)
      | ReadyForRemoval \<Rightarrow> Inr (status, 0, w)
      | _ \<Rightarrow>
          if no_merge then Inr (status, lamports_of w validator_stake_info, w)
          else if stake_is_inactive_without_history stake epoch then
            tri (pool_merge E stake_pool stake_pool_info withdraw_authority_info clock_info
                   stake_history_info validator_stake_info reserve_stake_info w) (\<lambda>w.
            tri (remove_validator_stake status) (\<lambda>status. Inr (status, 0, w)))
          else Inr (status, lamports_of w validator_stake_info, w))))"

definition update_validator ::
    "env \<Rightarrow> StakePool \<Rightarrow> AccountInfo \<Rightarrow> AccountInfo \<Rightarrow> AccountInfo \<Rightarrow> AccountInfo \<Rightarrow> AccountInfo
      \<Rightarrow> u64 \<Rightarrow> bool \<Rightarrow> u8 \<Rightarrow> u64 \<Rightarrow> AccountInfo \<Rightarrow> world \<Rightarrow> (u8 \<times> u64 \<times> world) result" where
  "update_validator E stake_pool stake_pool_info withdraw_authority_info reserve_stake_info
       clock_info stake_history_info epoch no_merge status transient_stake_lamports
       validator_stake_info w =
     (let usable = (\<lambda>meta. stake_is_usable_by_pool meta (ai_key withdraw_authority_info)
                            (sp_lockup stake_pool)) in
      case ok_of (e_decode_stake E (data_of w validator_stake_info)) of
        Some (StakeDelegated meta stake) \<Rightarrow>
          if usable meta
          then update_active E stake_pool stake_pool_info withdraw_authority_info
                 reserve_stake_info clock_info stake_history_info epoch no_merge status
                 validator_stake_info meta stake w
          else Inr (status, 0, w)
      | Some (StakeInitialized meta) \<Rightarrow>
          if usable meta then
            tri (pool_merge E stake_pool stake_pool_info withdraw_authority_info clock_info
                   stake_history_info validator_stake_info reserve_stake_info w) (\<lambda>w.
            Inr (status_to_u8 (if transient_stake_lamports \<noteq> 0 then DeactivatingTransient
                               else ReadyForRemoval), 0, w))
          else Inr (status, 0, w)
      | _ \<Rightarrow> Inr (status, 0, w))"

text \<open>One iteration of the loop; a pair of accounts that is not the validator's is skipped.\<close>

definition update_record ::
    "env \<Rightarrow> Pubkey \<Rightarrow> StakePool \<Rightarrow> AccountInfo \<Rightarrow> AccountInfo \<Rightarrow> AccountInfo \<Rightarrow> AccountInfo
      \<Rightarrow> AccountInfo \<Rightarrow> u64 \<Rightarrow> bool \<Rightarrow> ValidatorStakeInfo \<Rightarrow> AccountInfo \<Rightarrow> AccountInfo \<Rightarrow> world
      \<Rightarrow> (ValidatorStakeInfo \<times> world) result" where
  "update_record E program_id stake_pool stake_pool_info withdraw_authority_info
       reserve_stake_info clock_info stake_history_info epoch no_merge validator_stake_record
       validator_stake_info transient_stake_info w =
     (if \<not> is_ok (check_validator_stake_address E program_id (ai_key stake_pool_info)
            (ai_key validator_stake_info) (vsi_vote_account_address validator_stake_record)
            (NonZeroU32_new (vsi_validator_seed_suffix validator_stake_record)))
      then Inr (validator_stake_record, w)
      else if \<not> is_ok (check_transient_stake_address E program_id (ai_key stake_pool_info)
            (ai_key transient_stake_info) (vsi_vote_account_address validator_stake_record)
            (vsi_transient_seed_suffix validator_stake_record))
      then Inr (validator_stake_record, w)
      else
        tri (update_transient E stake_pool stake_pool_info withdraw_authority_info
               reserve_stake_info clock_info stake_history_info epoch no_merge
               validator_stake_record validator_stake_info transient_stake_info w)
          (\<lambda>(status, transient_stake_lamports, w).
        tri (update_validator E stake_pool stake_pool_info withdraw_authority_info
               reserve_stake_info clock_info stake_history_info epoch no_merge status
               transient_stake_lamports validator_stake_info w)
          (\<lambda>(status, active_stake_lamports, w).
        Inr (validator_stake_record\<lparr>
               vsi_status := status,
               vsi_last_update_epoch := epoch,
               vsi_active_stake_lamports := active_stake_lamports,
               vsi_transient_stake_lamports := transient_stake_lamports\<rparr>, w))))"

section \<open>The list\<close>

fun chunks2 :: "'a list \<Rightarrow> ('a \<times> 'a) list" where
  "chunks2 (a # b # xs) = (a, b) # chunks2 xs"
| "chunks2 _ = []"

text \<open>
  The loop over the records and the pairs of accounts: \<open>step\<close> is one iteration, the result are the
  records after the loop.
\<close>

fun update_loop ::
    "(ValidatorStakeInfo \<Rightarrow> AccountInfo \<Rightarrow> AccountInfo \<Rightarrow> world \<Rightarrow> (ValidatorStakeInfo \<times> world) result)
      \<Rightarrow> (ValidatorStakeInfo \<times> AccountInfo \<times> AccountInfo) list \<Rightarrow> world
      \<Rightarrow> (ValidatorStakeInfo list \<times> world) result" where
  "update_loop step [] w = Inr ([], w)"
| "update_loop step ((validator_stake_record, validator_stake_info, transient_stake_info) # rest) w =
     tri (step validator_stake_record validator_stake_info transient_stake_info w)
       (\<lambda>(validator_stake_record, w).
     tri (update_loop step rest w) (\<lambda>(records, w).
     Inr (validator_stake_record # records, w)))"

definition process_update_validator_list_balance ::
    "env \<Rightarrow> Pubkey \<Rightarrow> AccountInfo list \<Rightarrow> u32 \<Rightarrow> bool \<Rightarrow> world \<Rightarrow> world result" where
  "process_update_validator_list_balance E program_id accounts start_index no_merge w =
     tri (next_account_info accounts) (\<lambda>(stake_pool_info, iter).
     tri (next_account_info iter) (\<lambda>(withdraw_authority_info, iter).
     tri (next_account_info iter) (\<lambda>(validator_list_info, iter).
     tri (next_account_info iter) (\<lambda>(reserve_stake_info, iter).
     tri (next_account_info iter) (\<lambda>(clock_info, iter).
     tri (e_clock_from_account_info E w clock_info) (\<lambda>epoch.
     tri (next_account_info iter) (\<lambda>(stake_history_info, iter).
     tri (next_account_info iter) (\<lambda>(stake_program_info, validator_stake_accounts).
     tri (check_account_owner w stake_pool_info program_id) (\<lambda>_.
     tri (load_pool w stake_pool_info) (\<lambda>stake_pool.
     if \<not> sp_is_valid stake_pool then Inl (spe InvalidState) else
     tri (check_validator_list stake_pool validator_list_info) (\<lambda>_.
     tri (check_authority_withdraw E stake_pool (ai_key withdraw_authority_info) program_id
            (ai_key stake_pool_info)) (\<lambda>_.
     tri (check_reserve_stake stake_pool reserve_stake_info) (\<lambda>_.
     tri (check_stake_program E (ai_key stake_program_info)) (\<lambda>_.
     tri (e_epoch_rewards_active E) (\<lambda>active.
     if active then Inl (spe EpochRewardDistributionInProgress) else
     if length validator_stake_accounts mod 2 \<noteq> 0
     then Inl (spe UnexpectedValidatorListAccountSize) else
     tri (check_account_owner w validator_list_info program_id) (\<lambda>_.
     tri (load_list w validator_list_info) (\<lambda>(header, big_vec).
     tri (bv_deserialize_mut_slice VSI_LEN dec_vsi (unat start_index)
            (length validator_stake_accounts div 2) big_vec) (\<lambda>(offset, validator_slice).
     if \<not> header_is_valid header then Inl (spe InvalidState) else
     tri (update_loop
            (update_record E program_id stake_pool stake_pool_info withdraw_authority_info
               reserve_stake_info clock_info stake_history_info epoch no_merge)
            (zip validator_slice (chunks2 validator_stake_accounts)) w) (\<lambda>(records, w).
     Inr (store_list w validator_list_info header
            (overwrite offset (concat (map enc_vsi records)) big_vec)))))))))))))))))))))"

section \<open>The pool\<close>

text \<open>The loop that adds up the records, refusing stale ones.\<close>

fun sum_validators :: "u64 \<Rightarrow> ValidatorStakeInfo list \<Rightarrow> u64 \<Rightarrow> u64 result" where
  "sum_validators epoch [] total_lamports = Inr total_lamports"
| "sum_validators epoch (validator_stake_record # rest) total_lamports =
     (if vsi_last_update_epoch validator_stake_record < epoch then Inl (spe StakeListOutOfDate)
      else tri (lift_spe (stake_lamports validator_stake_record)) (\<lambda>l.
           tri (ok_or (checked_add total_lamports l) (spe CalculationFailure)) (\<lambda>total_lamports.
           sum_validators epoch rest total_lamports)))"

definition take_scheduled :: "Fee FutureEpoch \<Rightarrow> Fee \<Rightarrow> Fee" where
  "take_scheduled next current = (case future_epoch_get next of Some fee \<Rightarrow> fee | None \<Rightarrow> current)"

text \<open>The first update in an epoch puts due fees into force and records the previous rate.\<close>

definition advance_epoch :: "StakePool \<Rightarrow> u64 \<Rightarrow> u64 \<Rightarrow> u64 \<Rightarrow> StakePool" where
  "advance_epoch stake_pool epoch previous_lamports previous_pool_token_supply =
     (if sp_last_update_epoch stake_pool < epoch then
        stake_pool\<lparr>
          sp_epoch_fee := take_scheduled (sp_next_epoch_fee stake_pool) (sp_epoch_fee stake_pool),
          sp_next_epoch_fee := update_epoch (sp_next_epoch_fee stake_pool),
          sp_stake_withdrawal_fee := take_scheduled (sp_next_stake_withdrawal_fee stake_pool)
            (sp_stake_withdrawal_fee stake_pool),
          sp_next_stake_withdrawal_fee := update_epoch (sp_next_stake_withdrawal_fee stake_pool),
          sp_sol_withdrawal_fee := take_scheduled (sp_next_sol_withdrawal_fee stake_pool)
            (sp_sol_withdrawal_fee stake_pool),
          sp_next_sol_withdrawal_fee := update_epoch (sp_next_sol_withdrawal_fee stake_pool),
          sp_last_update_epoch := epoch,
          sp_last_epoch_total_lamports := previous_lamports,
          sp_last_epoch_pool_token_supply := previous_pool_token_supply\<rparr>
      else stake_pool)"

definition process_update_stake_pool_balance ::
    "env \<Rightarrow> Pubkey \<Rightarrow> AccountInfo list \<Rightarrow> world \<Rightarrow> world result" where
  "process_update_stake_pool_balance E program_id accounts w =
     tri (next_account_info accounts) (\<lambda>(stake_pool_info, iter).
     tri (next_account_info iter) (\<lambda>(withdraw_info, iter).
     tri (next_account_info iter) (\<lambda>(validator_list_info, iter).
     tri (next_account_info iter) (\<lambda>(reserve_stake_info, iter).
     tri (next_account_info iter) (\<lambda>(manager_fee_info, iter).
     tri (next_account_info iter) (\<lambda>(pool_mint_info, iter).
     tri (next_account_info iter) (\<lambda>(token_program_info, iter).
     tri (e_clock_get E) (\<lambda>epoch.
     tri (check_account_owner w stake_pool_info program_id) (\<lambda>_.
     tri (load_pool w stake_pool_info) (\<lambda>stake_pool.
     if \<not> sp_is_valid stake_pool then Inl (spe InvalidState) else
     tri (check_mint E w stake_pool pool_mint_info) (\<lambda>_.
     tri (check_authority_withdraw E stake_pool (ai_key withdraw_info) program_id
            (ai_key stake_pool_info)) (\<lambda>_.
     tri (check_reserve_stake stake_pool reserve_stake_info) (\<lambda>_.
     if sp_manager_fee_account stake_pool \<noteq> ai_key manager_fee_info
     then Inl (spe InvalidFeeAccount) else
     if ai_key validator_list_info \<noteq> sp_validator_list stake_pool
     then Inl (spe InvalidValidatorStakeList) else
     if sp_token_program_id stake_pool \<noteq> ai_key token_program_info then Inl IncorrectProgramId else
     tri (check_account_owner w validator_list_info program_id) (\<lambda>_.
     tri (load_list w validator_list_info) (\<lambda>(header, validator_list).
     if \<not> header_is_valid header then Inl (spe InvalidState) else
     let previous_lamports = sp_total_lamports stake_pool;
         previous_pool_token_supply = sp_pool_token_supply stake_pool in
     tri (e_decode_stake E (data_of w reserve_stake_info)) (\<lambda>reserve_stake.
     tri (case reserve_stake of
            StakeInitialized meta \<Rightarrow>
              ok_or (checked_sub (lamports_of w reserve_stake_info) (minimum_reserve_lamports meta))
                (spe CalculationFailure)
          | _ \<Rightarrow> Inl (spe WrongStakeStake)) (\<lambda>reserve_lamports.
     tri (bv_len validator_list) (\<lambda>len.
     tri (bv_deserialize_slice VSI_LEN dec_vsi 0 (unat len) validator_list) (\<lambda>records.
     tri (sum_validators epoch records reserve_lamports) (\<lambda>total_lamports.
     let reward_lamports = saturating_sub total_lamports previous_lamports in
     tri (if is_ok (check_manager_fee_info E w stake_pool manager_fee_info)
          then ok_or (calc_epoch_fee_amount stake_pool reward_lamports) (spe CalculationFailure)
          else Inr 0) (\<lambda>fee.
     tri (if fee > 0
          then token_mint_to E w (ai_key stake_pool_info) token_program_info pool_mint_info
                 manager_fee_info withdraw_info AUTHORITY_WITHDRAW
                 (sp_stake_withdraw_bump_seed stake_pool) fee
          else Inr w) (\<lambda>w.
     let stake_pool = (advance_epoch stake_pool epoch previous_lamports
                         previous_pool_token_supply)\<lparr>sp_total_lamports := total_lamports\<rparr> in
     tri (e_unpack_mint E (data_of w pool_mint_info)) (\<lambda>pool_mint.
     store_pool w stake_pool_info
       (stake_pool\<lparr>sp_pool_token_supply := mint_supply pool_mint\<rparr>))))))))))))))))))))))))"

section \<open>Updating the list keeps what the program owns\<close>

lemma pool_merge_frame:
  "cpi_law E pid \<Longrightarrow> pool_merge E p a b c d e f w = Inr w' \<Longrightarrow> owned_frame pid {} w w'"
  unfolding pool_merge_def by (rule calls_frame)

lemma update_delegated_frame:
  assumes "update_delegated_transient E p a b c d e epoch st v t s vs w = Inr (st', w')" "cpi_law E pid"
  shows "owned_frame pid {} w w'"
  using assms(1)
  by (auto simp: update_delegated_transient_def inversions
      intro: calls_frame [OF assms(2)] pool_merge_frame [OF assms(2)]
      split: if_splits option.splits StakeStateV2.splits)

lemma update_transient_frame:
  assumes "update_transient E p a b c d e epoch nm r v t w = Inr (st, l, w')" "cpi_law E pid"
  shows "owned_frame pid {} w w'"
  using assms(1)
  by (auto simp: update_transient_def inversions Let_def
      intro: update_delegated_frame [OF _ assms(2)] pool_merge_frame [OF assms(2)]
      split: if_splits option.splits StakeStateV2.splits)

lemma update_active_frame:
  assumes "update_active E p a b c d e epoch nm st v meta s w = Inr (st', l, w')" "cpi_law E pid"
  shows "owned_frame pid {} w w'"
proof -
  obtain ss wa where wd: "(if saturating_sub (saturating_sub (lamports_of w v) (del_stake s))
        (meta_rent_exempt_reserve meta) > 0
      then stake_withdraw E w (ai_key a) v b AUTHORITY_WITHDRAW (sp_stake_withdraw_bump_seed p) c d e
        (saturating_sub (saturating_sub (lamports_of w v) (del_stake s)) (meta_rent_exempt_reserve meta))
      else Inr w) = Inr wa"
    and rest: "(case ss of Active \<Rightarrow> Inr (st, lamports_of wa v, wa)
      | DeactivatingTransient \<Rightarrow> Inr (st, 0, wa) | ReadyForRemoval \<Rightarrow> Inr (st, 0, wa)
      | _ \<Rightarrow> if nm then Inr (st, lamports_of wa v, wa)
        else if stake_is_inactive_without_history s epoch then
          tri (pool_merge E p a b d e v c wa) (\<lambda>w. tri (remove_validator_stake st) (\<lambda>st. Inr (st, 0, w)))
        else Inr (st, lamports_of wa v, wa)) = Inr (st', l, w')"
    using assms(1) by (auto simp: update_active_def tri_Inr Let_def)
  have "wa = w' \<or> pool_merge E p a b d e v c wa = Inr w'"
    using rest by (cases ss) (auto simp: inversions split: if_splits)
  moreover
  have "owned_frame pid {} w wa"
    using wd calls_frame(8) [OF assms(2)] by (auto split: if_splits)
  ultimately show ?thesis
    using pool_merge_frame [OF assms(2)] owned_frame_trans by blast
qed

lemma update_validator_frame:
  assumes "update_validator E p a b c d e epoch nm st lam v w = Inr (st', l, w')" "cpi_law E pid"
  shows "owned_frame pid {} w w'"
  using assms(1)
  by (auto simp: update_validator_def inversions Let_def
      intro: update_active_frame [OF _ assms(2)] pool_merge_frame [OF assms(2)]
      split: if_splits option.splits StakeStateV2.splits)

lemma update_record_frame:
  assumes "update_record E pid' p a b c d e epoch nm r v t w = Inr (r', w')" "cpi_law E pid"
  shows "owned_frame pid {} w w'" "vsi_vote_account_address r' = vsi_vote_account_address r"
  using assms(1)
  by (auto simp: update_record_def inversions split: if_splits
      dest!: update_transient_frame [OF _ assms(2)] update_validator_frame [OF _ assms(2)]
      intro: owned_frame_trans)

lemma update_loop_frame:
  assumes "\<And>r v t w r' w'. step r v t w = Inr (r', w') \<Longrightarrow>
      owned_frame pid {} w w' \<and> vsi_vote_account_address r' = vsi_vote_account_address r"
    and "update_loop step rs w = Inr (rs', w')"
  shows "owned_frame pid {} w w' \<and>
    map vsi_vote_account_address rs' = map (vsi_vote_account_address \<circ> fst) rs"
  using assms(2)
proof (induction rs arbitrary: rs' w)
  case (Cons z rest)
  obtain r v t where z: "z = (r, v, t)" by (cases z)
  obtain r' w1 rs1 where step: "step r v t w = Inr (r', w1)"
      and loop: "update_loop step rest w1 = Inr (rs1, w')" and rs': "rs' = r' # rs1"
    using Cons.prems by (auto simp: z inversions)
  show ?case
    using assms(1) [OF step] Cons.IH [OF loop] owned_frame_trans by (auto simp: rs' z)
qed simp

section \<open>What the update of a record may change\<close>

text \<open>
  A record is left alone or gets a status, the epoch and two balances; the balance of the stake is
  zero or what the account holds afterwards, and no record becomes active again.
\<close>

definition record_updated :: "u64 \<Rightarrow> ValidatorStakeInfo \<Rightarrow> ValidatorStakeInfo \<Rightarrow> bool" where
  "record_updated epoch r r' \<longleftrightarrow> r' = r \<or>
     (\<exists>st a t. r' = r\<lparr>vsi_status := st, vsi_last_update_epoch := epoch,
          vsi_active_stake_lamports := a, vsi_transient_stake_lamports := t\<rparr>
        \<and> (st = status_to_u8 Active \<longrightarrow> vsi_status r = status_to_u8 Active))"

lemma remove_stake_active:
  "remove_transient_stake st = Inr st' \<Longrightarrow> st' = 0 \<longleftrightarrow> st = 0"
  "remove_validator_stake st = Inr st' \<Longrightarrow> st' = 0 \<longleftrightarrow> st = 0"
  by (cases "status_from_u8 st"; cases "the (status_from_u8 st)";
      auto simp: remove_transient_stake_def remove_validator_stake_def status_try_from_def status_from_u8_def
      split: if_splits)+

lemma update_transient_active:
  "update_delegated_transient E p a b c d e epoch st v t s vs w = Inr (st', w') \<Longrightarrow> st' = 0 \<Longrightarrow> st = 0"
  "update_transient E p a b c d e epoch nm r v t w = Inr (st, l, w') \<Longrightarrow> st = 0 \<Longrightarrow> vsi_status r = 0"
proof -
  show del: "update_delegated_transient E p a b c d e epoch st v t s vs w = Inr (st', w') \<Longrightarrow> st' = 0 \<Longrightarrow> st = 0"
    for st st' v t s vs w w'
    by (auto simp: update_delegated_transient_def inversions dest: remove_stake_active
        split: if_splits option.splits StakeStateV2.splits)
  show "update_transient E p a b c d e epoch nm r v t w = Inr (st, l, w') \<Longrightarrow> st = 0 \<Longrightarrow> vsi_status r = 0"
    by (auto simp: update_transient_def inversions Let_def dest: remove_stake_active del
        split: if_splits option.splits StakeStateV2.splits)
qed

lemma update_active_status:
  assumes "update_active E p a b c d e epoch nm st v meta s w = Inr (st', l, w')"
  shows "st' = 0 \<Longrightarrow> st = 0"
proof -
  assume 0: "st' = 0"
  obtain ss where "st' = st \<or> remove_validator_stake st = Inr st'" "status_try_from st = Inr ss"
  proof (cases "status_try_from st")
    case (Inr ss)
    then show thesis
      using that assms by (cases ss) (auto simp: update_active_def tri_Inr Let_def split: if_splits)
  qed (use assms in \<open>auto simp: update_active_def tri_Inr Let_def\<close>)
  then show "st = 0" using 0 remove_stake_active(2) by auto
qed

lemma update_validator_active:
  "update_validator E p a b c d e epoch nm st lam v w = Inr (st', l, w') \<Longrightarrow> st' = 0 \<Longrightarrow> st = 0"
  by (auto simp: update_validator_def inversions Let_def dest: update_active_status
      split: if_splits option.splits StakeStateV2.splits)

lemma update_record_updated:
  assumes "update_record E pid p a b c d e epoch nm r v t w = Inr (r', w')"
  shows "record_updated epoch r r'"
  using assms
  by (auto simp: update_record_def inversions record_updated_def split: if_splits
      dest!: update_transient_active update_validator_active)

lemma update_loop_nth:
  assumes "update_loop step rs w = Inr (rs', w')"
  shows "length rs' = length rs \<and> (\<forall>i < length rs.
    \<exists>u u'. step (fst (rs ! i)) (fst (snd (rs ! i))) (snd (snd (rs ! i))) u = Inr (rs' ! i, u'))"
  using assms
proof (induction rs arbitrary: rs' w)
  case (Cons z rest)
  obtain r v t where z: "z = (r, v, t)" by (cases z)
  obtain r' wa rs1 where step: "step r v t w = Inr (r', wa)"
      and loop: "update_loop step rest wa = Inr (rs1, w')" and rs': "rs' = r' # rs1"
    using Cons.prems by (auto simp: z inversions)
  then show ?case using Cons.IH [OF loop] by (auto simp: z nth_Cons less_Suc_eq_0_disj)
qed simp

text \<open>The two accounts are the validator's own, by the seeds of its record.\<close>

definition own_accounts ::
    "env \<Rightarrow> Pubkey \<Rightarrow> AccountInfo \<Rightarrow> ValidatorStakeInfo \<Rightarrow> AccountInfo \<Rightarrow> AccountInfo \<Rightarrow> bool" where
  "own_accounts E pid pool r v t \<longleftrightarrow>
     is_ok (check_validator_stake_address E pid (ai_key pool) (ai_key v) (vsi_vote_account_address r)
       (NonZeroU32_new (vsi_validator_seed_suffix r)))
     \<and> is_ok (check_transient_stake_address E pid (ai_key pool) (ai_key t) (vsi_vote_account_address r)
       (vsi_transient_seed_suffix r))"

lemma update_record_current:
  assumes "update_record E pid p a b c d e epoch nm r v t w = Inr (r', w')" "own_accounts E pid a r v t"
  shows "vsi_last_update_epoch r' = epoch"
  using assms by (auto simp: update_record_def own_accounts_def inversions split: if_splits)

section \<open>Successful runs\<close>

lemma update_list_success:
  assumes run: "process_update_validator_list_balance E pid accts start nm w = Inr w'"
    and law: "cpi_law E pid"
  obtains pool auth list reserve clock hist prog stakes p epoch h bv offset sl records w1 where
    "accts = pool # auth # list # reserve # clock # hist # prog # stakes"
    "owner_of w pool = pid" "load_pool w pool = Inr p" "sp_is_valid p"
    "ai_key list = sp_validator_list p" "owner_of w list = pid" "ai_key reserve = sp_reserve_stake p"
    "e_clock_from_account_info E w clock = Inr epoch"
    "load_list w list = Inr (h, bv)" "header_is_valid h"
    "bv_deserialize_mut_slice VSI_LEN dec_vsi (unat start) (length stakes div 2) bv = Inr (offset, sl)"
    "length stakes mod 2 = 0"
    "update_loop (update_record E pid p pool auth reserve clock hist epoch nm)
       (zip sl (chunks2 stakes)) w = Inr (records, w1)"
    "w' = store_list w1 list h (overwrite offset (concat (map enc_vsi records)) bv)"
    "owned_frame pid {} w w1"
proof -
  obtain pool auth list reserve clock hist prog stakes p epoch h bv offset sl records w1 where
    accts: "accts = pool # auth # list # reserve # clock # hist # prog # stakes"
    and facts: "owner_of w pool = pid" "load_pool w pool = Inr p" "sp_is_valid p"
      "ai_key list = sp_validator_list p" "owner_of w list = pid" "ai_key reserve = sp_reserve_stake p"
      "e_clock_from_account_info E w clock = Inr epoch"
      "load_list w list = Inr (h, bv)" "header_is_valid h"
      "bv_deserialize_mut_slice VSI_LEN dec_vsi (unat start) (length stakes div 2) bv = Inr (offset, sl)"
      "length stakes mod 2 = 0"
    and loop: "update_loop (update_record E pid p pool auth reserve clock hist epoch nm)
       (zip sl (chunks2 stakes)) w = Inr (records, w1)"
    and w': "w' = store_list w1 list h (overwrite offset (concat (map enc_vsi records)) bv)"
    using run by (auto simp: process_update_validator_list_balance_def inversions Let_def cong: if_cong)
  have "owned_frame pid {} w w1"
    by (rule update_loop_frame [THEN conjunct1, OF _ loop]) (use update_record_frame [OF _ law] in simp)
  with loop w' show thesis by (rule that [OF accts facts])
qed

interpretation update_list: pool_handler
    "\<lambda>E pid accts. process_update_validator_list_balance E pid accts start nm" "\<lambda>a. a = Keeping"
    for start nm
proof
  fix E pid accts w w'
  assume law: "cpi_law E pid"
    and run: "process_update_validator_list_balance E pid accts start nm w = Inr w'"
  from run law show "pool_contract pid accts (step_of (\<lambda>a. a = Keeping)) w w'"
    by (rule update_list_success) (auto intro!: contract_store_list step_ofI [OF step_keep])
qed

lemma length_chunks2: "length xs mod 2 = 0 \<Longrightarrow> length (chunks2 xs) = length xs div 2"
  by (induction xs rule: chunks2.induct) auto

lemma nth_chunks2: "2 * i + 1 < length xs \<Longrightarrow> chunks2 xs ! i = (xs ! (2 * i), xs ! (2 * i + 1))"
proof (induction xs arbitrary: i rule: chunks2.induct)
  case (1 a b xs)
  then show ?case by (cases i) auto
qed auto

text \<open>The sum over the records, in exact arithmetic.\<close>

definition total_stake :: "ValidatorStakeInfo list \<Rightarrow> int" where
  "total_stake vs =
     (\<Sum>v\<leftarrow>vs. uint (vsi_active_stake_lamports v) + uint (vsi_transient_stake_lamports v))"

lemma total_stake_nonneg: "0 \<le> total_stake vs"
  by (auto simp: total_stake_def intro!: sum_list_nonneg)

lemma sum_validators_Inr:
  "sum_validators epoch vs t = Inr t' \<longleftrightarrow>
     (\<forall>v \<in> set vs. epoch \<le> vsi_last_update_epoch v) \<and> uint t' = uint t + total_stake vs"
proof (induction vs arbitrary: t)
  case Nil
  then show ?case by (auto simp: total_stake_def word_uint_eq_iff)
next
  case (Cons v vs)
  let ?l = "uint (vsi_active_stake_lamports v) + uint (vsi_transient_stake_lamports v)"
  have "sum_validators epoch (v # vs) t = Inr t' \<longleftrightarrow> epoch \<le> vsi_last_update_epoch v \<and>
      (\<exists>(l :: u64) s. uint l = ?l \<and> uint s = uint t + ?l \<and> sum_validators epoch vs s = Inr t')"
    by (auto simp: stake_lamports_def inversions checked_simps not_less) metis
  also have "\<dots> \<longleftrightarrow> epoch \<le> vsi_last_update_epoch v \<and> (\<forall>v \<in> set vs. epoch \<le> vsi_last_update_epoch v)
      \<and> uint t' = uint t + ?l + total_stake vs" (is "?L \<longleftrightarrow> ?R")
  proof
    assume ?L then show ?R by (auto simp: Cons.IH)
  next
    assume R: ?R
    have t: "uint t + ?l < 2 ^ 64" "?l < 2 ^ 64"
      using R uint64_bound [of t'] total_stake_nonneg [of vs] uint_ge_0 [of t] by linarith+
    define l s :: u64 where "l = word_of_int ?l" and "s = word_of_int (uint t + ?l)"
    have "uint l = ?l" "uint s = uint t + ?l"
      unfolding l_def s_def using t uint_ge_0 [of t] uint_ge_0 [of "vsi_active_stake_lamports v"]
        uint_ge_0 [of "vsi_transient_stake_lamports v"]
      by (intro u64_of_int; linarith)+
    then show ?L using R by (auto simp: Cons.IH)
  qed
  finally show ?case by (auto simp: total_stake_def)
qed

lemma take_scheduled_due: "take_scheduled n c = fee_due n c"
  by (cases n) (simp_all add: take_scheduled_def)

lemma advance_epoch_step:
  "pool_step Updating p ((advance_epoch p epoch (sp_total_lamports p) (sp_pool_token_supply p))
      \<lparr>sp_total_lamports := t, sp_pool_token_supply := s\<rparr>)"
proof (cases "sp_last_update_epoch p < epoch")
  case True
  then show ?thesis
    using step_epoch [OF True, of s t] by (simp add: advance_epoch_def take_scheduled_due)
next
  case False
  then show ?thesis using step_update [OF False, of s t] by (simp add: advance_epoch_def)
qed

lemma update_pool_success:
  assumes run: "process_update_stake_pool_balance E pid accts w = Inr w'" and law: "cpi_law E pid"
  obtains pool auth list reserve man mint token rest p epoch h bv meta r len records t fee mi w1 where
    "accts = pool # auth # list # reserve # man # mint # token # rest"
    "owner_of w pool = pid" "load_pool w pool = Inr p" "sp_is_valid p"
    "ai_key list = sp_validator_list p" "owner_of w list = pid" "ai_key reserve = sp_reserve_stake p"
    "ai_key mint = sp_pool_mint p" "ai_key man = sp_manager_fee_account p"
    "e_clock_get E = Inr epoch"
    "load_list w list = Inr (h, bv)" "header_is_valid h"
    "e_decode_stake E (data_of w reserve) = Inr (StakeInitialized meta)"
    "checked_sub (lamports_of w reserve) (meta_rent_exempt_reserve meta) = Some r"
    "bv_len bv = Inr len" "bv_deserialize_slice VSI_LEN dec_vsi 0 (unat len) bv = Inr records"
    "sum_validators epoch records r = Inr t"
    "(if is_ok (check_manager_fee_info E w p man)
      then ok_or (calc_epoch_fee_amount p (saturating_sub t (sp_total_lamports p))) (spe CalculationFailure)
      else Inr 0) = Inr fee"
    "(if fee > 0 then token_mint_to E w (ai_key pool) token mint man auth AUTHORITY_WITHDRAW
        (sp_stake_withdraw_bump_seed p) fee else Inr w) = Inr w1"
    "e_unpack_mint E (data_of w1 mint) = Inr mi"
    "store_pool w1 pool ((advance_epoch p epoch (sp_total_lamports p) (sp_pool_token_supply p))
        \<lparr>sp_total_lamports := t, sp_pool_token_supply := mint_supply mi\<rparr>) = Inr w'"
    "owned_frame pid {} w w1"
proof -
  obtain pool auth list reserve man mint token rest p epoch h bv st r len records t fee mi w1 where
    accts: "accts = pool # auth # list # reserve # man # mint # token # rest"
    and facts: "owner_of w pool = pid" "load_pool w pool = Inr p" "sp_is_valid p"
      "ai_key list = sp_validator_list p" "owner_of w list = pid" "ai_key reserve = sp_reserve_stake p"
      "ai_key mint = sp_pool_mint p" "ai_key man = sp_manager_fee_account p"
      "e_clock_get E = Inr epoch"
      "load_list w list = Inr (h, bv)" "header_is_valid h"
    and st: "e_decode_stake E (data_of w reserve) = Inr st"
      "(case st of StakeInitialized meta \<Rightarrow>
          ok_or (checked_sub (lamports_of w reserve) (minimum_reserve_lamports meta)) (spe CalculationFailure)
        | _ \<Rightarrow> Inl (spe WrongStakeStake)) = Inr r"
    and sums: "bv_len bv = Inr len" "bv_deserialize_slice VSI_LEN dec_vsi 0 (unat len) bv = Inr records"
      "sum_validators epoch records r = Inr t"
      "(if is_ok (check_manager_fee_info E w p man)
        then ok_or (calc_epoch_fee_amount p (saturating_sub t (sp_total_lamports p))) (spe CalculationFailure)
        else Inr 0) = Inr fee"
    and minted: "(if fee > 0 then token_mint_to E w (ai_key pool) token mint man auth AUTHORITY_WITHDRAW
        (sp_stake_withdraw_bump_seed p) fee else Inr w) = Inr w1"
    and ends: "e_unpack_mint E (data_of w1 mint) = Inr mi"
      "store_pool w1 pool ((advance_epoch p epoch (sp_total_lamports p) (sp_pool_token_supply p))
        \<lparr>sp_total_lamports := t, sp_pool_token_supply := mint_supply mi\<rparr>) = Inr w'"
    using run
    by (auto simp: process_update_stake_pool_balance_def inversions Let_def
        cong: if_cong StakeStateV2.case_cong)
  obtain meta where meta: "e_decode_stake E (data_of w reserve) = Inr (StakeInitialized meta)"
      "checked_sub (lamports_of w reserve) (meta_rent_exempt_reserve meta) = Some r"
    using st by (cases st) (auto simp: inversions)
  have "owned_frame pid {} w w1"
    using minted calls_frame(10) [OF law] by (auto split: if_splits)
  then show thesis by (rule that [OF accts facts meta sums minted ends])
qed

interpretation update_pool: pool_handler process_update_stake_pool_balance "\<lambda>a. a = Updating"
proof
  fix E pid accts w w'
  assume law: "cpi_law E pid" and run: "process_update_stake_pool_balance E pid accts w = Inr w'"
  from run law show "pool_contract pid accts (step_of (\<lambda>a. a = Updating)) w w'"
    by (rule update_pool_success) (auto intro!: contract_writes [where a = Updating] advance_epoch_step)
qed

lemma update_list_effect:
  assumes "process_update_validator_list_balance E pid
      (pool # auth # list # reserve # clock # hist # prog # stakes) start nm w = Inr w'"
    and "cpi_law E pid" and "load_list w list = Inr (h, bv)" and "list_inv h bv"
  shows "\<exists>epoch bv' n. e_clock_from_account_info E w clock = Inr epoch \<and> length stakes = 2 * n
    \<and> unat start + n \<le> bv_count bv
    \<and> load_list w' list = Inr (h, bv') \<and> list_inv h bv' \<and> bv_count bv' = bv_count bv
    \<and> (\<forall>k < bv_count bv. if unat start \<le> k \<and> k < unat start + n
          then record_updated epoch (vlist bv ! k) (vlist bv' ! k)
            \<and> (own_accounts E pid pool (vlist bv ! k) (stakes ! (2 * (k - unat start)))
                 (stakes ! (2 * (k - unat start) + 1)) \<longrightarrow> vsi_last_update_epoch (vlist bv' ! k) = epoch)
          else vlist bv' ! k = vlist bv ! k)
    \<and> load_pool w' pool = load_pool w pool"
  using assms(1,2)
proof (rule update_list_success)
  fix pool' auth' list' reserve' clock' hist' prog' stakes' p epoch h' b offset sl records w1
  assume eq: "pool # auth # list # reserve # clock # hist # prog # stakes
      = pool' # auth' # list' # reserve' # clock' # hist' # prog' # stakes'"
    and o: "owner_of w pool' = pid" and p: "load_pool w pool' = Inr p" "sp_is_valid p"
    and clk: "e_clock_from_account_info E w clock' = Inr epoch"
    and l: "load_list w list' = Inr (h', b)" "header_is_valid h'"
    and sl: "bv_deserialize_mut_slice VSI_LEN dec_vsi (unat start) (length stakes' div 2) b = Inr (offset, sl)"
    and even: "length stakes' mod 2 = 0"
    and loop: "update_loop (update_record E pid p pool' auth' reserve' clock' hist' epoch nm)
       (zip sl (chunks2 stakes')) w = Inr (records, w1)"
    and w': "w' = store_list w1 list' h' (overwrite offset (concat (map enc_vsi records)) b)"
    and f: "owned_frame pid {} w w1"
  define n where "n = length stakes div 2"
  have eqs: "h' = h" "b = bv" "stakes' = stakes" using eq l(1) assms(3) by simp_all
  note sl = sl [unfolded eqs, folded n_def]
  have wf: "vlist_wf bv" "length bv \<le> usize_max" using assms(4) by (simp_all add: list_inv_def)
  note d = vsi.deserialize_mut_slice_refines [OF wf sl]
  have fst: "map fst (zip sl (chunks2 stakes)) = sl"
    using d length_chunks2 [of stakes] even eqs by (simp add: map_fst_zip_take n_def)
  have pairs: "length (chunks2 stakes) = n" "length sl = n" "length stakes = 2 * n"
    using d length_chunks2 [of stakes] even eqs by (auto simp: n_def)
  have upd: "record_updated epoch (sl ! i) (records ! i) \<and>
      (own_accounts E pid pool (sl ! i) (stakes ! (2 * i)) (stakes ! (2 * i + 1)) \<longrightarrow>
        vsi_last_update_epoch (records ! i) = epoch)" if i: "i < n" for i
    using update_loop_nth [THEN conjunct2, rule_format, OF loop, of i] pairs i eq
    by (auto simp: nth_chunks2 dest: update_record_updated update_record_current)
  have votes: "map vsi_vote_account_address records = map vsi_vote_account_address sl"
    using update_loop_frame [OF _ loop, of pid] update_record_frame [OF _ assms(2)] fst eqs
    by (metis map_map)
  note st = list_inv_store_slice [OF assms(4) sl votes]
  let ?bv = "overwrite offset (concat (map enc_vsi records)) bv"
  have len: "length records = n" using update_loop_nth [OF loop] pairs eqs by simp
  have c: "bv_count ?bv = bv_count bv"
    using st(4) len arg_cong [OF st(2), of length] by simp
  have nth: "if unat start \<le> k \<and> k < unat start + n
      then record_updated epoch (vlist bv ! k) (vlist ?bv ! k)
        \<and> (own_accounts E pid pool (vlist bv ! k) (stakes ! (2 * (k - unat start)))
             (stakes ! (2 * (k - unat start) + 1)) \<longrightarrow> vsi_last_update_epoch (vlist ?bv ! k) = epoch)
      else vlist ?bv ! k = vlist bv ! k"
    if "k < bv_count bv" for k
  proof (cases "unat start \<le> k \<and> k < unat start + n")
    case True
    then have "k - unat start < n" by linarith
    note u = upd [OF this]
    have "vlist ?bv ! k = records ! (k - unat start)" "sl ! (k - unat start) = vlist bv ! k"
      unfolding st(2) using True st(3,4) len pairs by (simp_all add: nth_append less_diff_conv2)
    then show ?thesis using u True by simp
  next
    case False
    then show ?thesis
      unfolding st(2) using that st(4) len by (auto simp: nth_append)
  qed
  have "load_pool w' pool = load_pool w pool"
    using eq owned_frame_data(1) [OF f o] pool_not_list [OF p l]
    by (simp add: w' load_pool_def store_list_def)
  moreover have "load_list w' list = Inr (h, ?bv)" 
    using eq by (auto simp: w' eqs)
  ultimately show ?thesis
    using clk eq st(1,4) c nth pairs(3) by blast
qed

section \<open>Properties\<close>

text \<open>
  C12. The update of the list touches only the records of the range that the accounts stand for: each
  of them is left alone or brought to the current epoch with its vote account and seeds kept, and
  it is brought to the current epoch when the two accounts are the validator's own. No
  validator that is leaving becomes active again, all other records and the pool stay as they
  were, and the list keeps its invariant.
\<close>

theorem update_list_keeps_records:
  assumes "process_update_validator_list_balance E pid
      (pool # auth # list # reserve # clock # hist # prog # stakes) start nm w = Inr w'"
    and "cpi_law E pid" and "load_list w list = Inr (h, bv)" and "list_inv h bv"
  shows "\<exists>epoch bv' n. e_clock_from_account_info E w clock = Inr epoch \<and> length stakes = 2 * n
    \<and> unat start + n \<le> bv_count bv
    \<and> load_list w' list = Inr (h, bv') \<and> list_inv h bv' \<and> bv_count bv' = bv_count bv
    \<and> (\<forall>k < bv_count bv. if unat start \<le> k \<and> k < unat start + n
          then record_updated epoch (vlist bv ! k) (vlist bv' ! k)
            \<and> (own_accounts E pid pool (vlist bv ! k) (stakes ! (2 * (k - unat start)))
                 (stakes ! (2 * (k - unat start) + 1)) \<longrightarrow> vsi_last_update_epoch (vlist bv' ! k) = epoch)
          else vlist bv' ! k = vlist bv ! k)
    \<and> load_pool w' pool = load_pool w pool"
  by (rule update_list_effect [OF assms])

text \<open>
  C11. The update of the pool succeeds only when every record is of the current epoch, and then sets
  the total to exactly the reserve above its rent plus all active and transient stake. The fee is
  computed on the gain over the previous total (none when the fee account cannot take it) and
  minted before the token supply is read back from the mint; due fees take effect and the list is
  untouched.
\<close>

theorem update_pool_sums:
  assumes "process_update_stake_pool_balance E pid
      (pool # auth # list # reserve # man # mint # token # rest) w = Inr w'"
    and "cpi_law E pid" and "load_list w list = Inr (h, bv)" and "list_inv h bv"
  shows "\<exists>p epoch meta t fee w1 mi p'. load_pool w pool = Inr p \<and> e_clock_get E = Inr epoch
    \<and> e_decode_stake E (data_of w reserve) = Inr (StakeInitialized meta)
    \<and> (\<forall>v \<in> set (vlist bv). epoch \<le> vsi_last_update_epoch v)
    \<and> uint t = uint (lamports_of w reserve) - uint (meta_rent_exempt_reserve meta) + total_stake (vlist bv)
    \<and> (if is_ok (check_manager_fee_info E w p man)
        then calc_epoch_fee_amount p (saturating_sub t (sp_total_lamports p)) = Some fee else fee = 0)
    \<and> (if fee > 0 then token_mint_to E w (ai_key pool) token mint man auth AUTHORITY_WITHDRAW
          (sp_stake_withdraw_bump_seed p) fee else Inr w) = Inr w1
    \<and> e_unpack_mint E (data_of w1 mint) = Inr mi
    \<and> p' = (advance_epoch p epoch (sp_total_lamports p) (sp_pool_token_supply p))
        \<lparr>sp_total_lamports := t, sp_pool_token_supply := mint_supply mi\<rparr>
    \<and> load_pool w' pool = Inr p' \<and> epoch \<le> sp_last_update_epoch p'
    \<and> load_list w' list = Inr (h, bv)"
  using assms(1,2)
proof (rule update_pool_success)
  fix pool' auth' list' reserve' man' mint' token' rest' p epoch h' b meta r len records t fee mi w1
  assume eq: "pool # auth # list # reserve # man # mint # token # rest
      = pool' # auth' # list' # reserve' # man' # mint' # token' # rest'"
    and p: "load_pool w pool' = Inr p" "sp_is_valid p"
    and clk: "e_clock_get E = Inr epoch" and o: "owner_of w list' = pid"
    and l: "load_list w list' = Inr (h', b)" "header_is_valid h'"
    and meta: "e_decode_stake E (data_of w reserve') = Inr (StakeInitialized meta)"
      "checked_sub (lamports_of w reserve') (meta_rent_exempt_reserve meta) = Some r"
    and recs: "bv_len b = Inr len" "bv_deserialize_slice VSI_LEN dec_vsi 0 (unat len) b = Inr records"
    and sum: "sum_validators epoch records r = Inr t"
    and fee: "(if is_ok (check_manager_fee_info E w p man')
      then ok_or (calc_epoch_fee_amount p (saturating_sub t (sp_total_lamports p))) (spe CalculationFailure)
      else Inr 0) = Inr fee"
    and minted: "(if fee > 0 then token_mint_to E w (ai_key pool') token' mint' man' auth' AUTHORITY_WITHDRAW
        (sp_stake_withdraw_bump_seed p) fee else Inr w) = Inr w1"
    and mi: "e_unpack_mint E (data_of w1 mint') = Inr mi"
    and st: "store_pool w1 pool' ((advance_epoch p epoch (sp_total_lamports p) (sp_pool_token_supply p))
        \<lparr>sp_total_lamports := t, sp_pool_token_supply := mint_supply mi\<rparr>) = Inr w'"
    and f: "owned_frame pid {} w w1"
  have eqs: "pool' = pool" "auth' = auth" "list' = list" "reserve' = reserve" "man' = man" "mint' = mint"
      "token' = token" "h' = h" "b = bv"
    using eq l(1) assms(3) by simp_all
  have wf: "vlist_wf bv" "length bv \<le> usize_max" using assms(4) by (simp_all add: list_inv_def)
  have "unat len = bv_count bv" using recs(1) eqs by (simp add: unat_bv_len)
  moreover have "bv_count bv \<le> usize_max" using bv_count_bound [of bv] by (simp add: usize_max_def)
  ultimately have rs: "records = vlist bv"
    using recs(2) vsi.deserialize_slice_refines [OF wf, of 0 "bv_count bv"] eqs by simp
  have t: "\<forall>v \<in> set (vlist bv). epoch \<le> vsi_last_update_epoch v"
    "uint t = uint (lamports_of w reserve) - uint (meta_rent_exempt_reserve meta) + total_stake (vlist bv)"
    using sum meta(2) unfolding sum_validators_Inr rs eqs by (auto simp: checked_simps)
  have fee': "if is_ok (check_manager_fee_info E w p man)
      then calc_epoch_fee_amount p (saturating_sub t (sp_total_lamports p)) = Some fee else fee = 0"
    using fee eqs by (auto simp: inversions split: if_splits)
  have "ai_key list \<noteq> ai_key pool" using pool_not_list [OF p l] eqs by simp
  then have list: "load_list w' list = Inr (h, bv)"
    using owned_frame_data(1) [OF f o] store_pool_others(1) [OF st, of list] assms(3) eqs
    by (simp add: load_list_Inr)
  have ep: "epoch \<le> sp_last_update_epoch ((advance_epoch p epoch (sp_total_lamports p) (sp_pool_token_supply p))
        \<lparr>sp_total_lamports := t, sp_pool_token_supply := mint_supply mi\<rparr>)"
    by (simp add: advance_epoch_def not_less)
  from p(1) clk meta(1) minted mi load_store_pool [OF st]
  show ?thesis unfolding eqs using t fee' list ep by - (intro exI conjI, (assumption | rule refl)+)
qed

text \<open>For the witnesses: the sample pool, whose records are of epoch 0.\<close>

definition sample_env0 :: env where
  "sample_env0 = sample_env\<lparr>e_clock_get := Inr 0\<rparr>"

lemma sample_env0_fields:
  "e_clock_get sample_env0 = Inr 0" "e_decode_stake sample_env0 = e_decode_stake sample_env"
  "e_unpack_mint sample_env0 = e_unpack_mint sample_env"
  "e_unpack_token_account sample_env0 = e_unpack_token_account sample_env"
  "e_create_program_address sample_env0 = e_create_program_address sample_env"
  "e_build_instruction sample_env0 = e_build_instruction sample_env"
  "e_invoke_signed sample_env0 = e_invoke_signed sample_env"
  "e_create_pda_account sample_env0 = e_create_pda_account sample_env"
  by (simp_all add: sample_env0_def)

lemma sample_law0: "cpi_law sample_env0 pid"
  using sample_law by (simp add: cpi_law_def sample_env0_fields)

lemma sample_update_pool_runs:
  "\<exists>w'. process_update_stake_pool_balance sample_env0 99
     [acct 1, acct 50, acct 14, acct 15, acct 17, acct 16, acct 18] sample_world = Inr w'"
proof -
  let ?p = "sample_pool\<lparr>sp_total_lamports := 9717125, sp_pool_token_supply := 2000000\<rparr>"
  have adv: "advance_epoch sample_pool 0 (sp_total_lamports sample_pool) (sp_pool_token_supply sample_pool)
      = sample_pool"
    by (simp add: advance_epoch_def sample_pool_def)
  have sum: "sum_validators 0 sample_validators 7717120 = Inr 9717125"
    unfolding sum_validators_Inr
    by (simp add: total_stake_def sample_validators_def default_vsi_def)
  have wf: "vlist_wf sample_vec" by (rule sample_vec_facts)
  have len: "bv_len sample_vec = Inr 3" by (simp add: bv_len_ok [OF wf] sample_count)
  have recs: "bv_deserialize_slice VSI_LEN dec_vsi 0 3 sample_vec = Inr sample_validators"
    using vsi.deserialize_slice_refines [OF wf, of 0 3] sample_count
    by (simp add: sample_vec_facts usize_max_def sample_validators_def)
  have fee: "calc_epoch_fee_amount sample_pool (saturating_sub 9717125 (sp_total_lamports sample_pool))
      = Some 42354"
    by (simp add: epoch_fee_value fee_above_one_def sample_pool_def ceil_fee_def saturating_sub_def)
  have ok: "is_ok (check_manager_fee_info sample_env0 sample_world sample_pool (acct 17))"
    by (simp add: check_manager_fee_info_def sample_simps sample_env0_fields)
       (simp add: sample_env_def)
  have sub: "checked_sub 10000000 2282880 = Some (7717120 :: u64)" by (simp add: checked_sub_def)
  have "length (ser_stake_pool ?p) \<le> length (ser_stake_pool sample_pool) + 200"
    by (simp add: ser_stake_pool_def ser_u64_def)
  from sample_store [OF this] show ?thesis
    by (simp add: process_update_stake_pool_balance_def sample_simps sample_env0_fields adv sum len recs fee
        ok sub check_account_owner_def check_mint_def check_authority_withdraw_def
        check_program_derived_authority_def check_reserve_stake_def token_mint_to_def
        Let_def cong: tri_weak_cong)
      (simp add: sample_mint_def)
qed

theorem update_pool_sums_witness:
  "\<exists>w' p'. process_update_stake_pool_balance sample_env0 99
     [acct 1, acct 50, acct 14, acct 15, acct 17, acct 16, acct 18] sample_world = Inr w'
   \<and> load_pool w' (acct 1) = Inr p' \<and> pool_total p' = 9717125"
proof -
  obtain w' where w': "process_update_stake_pool_balance sample_env0 99
     [acct 1, acct 50, acct 14, acct 15, acct 17, acct 16, acct 18] sample_world = Inr w'"
    using sample_update_pool_runs by blast
  from update_pool_sums [OF w' sample_law0 sample_load(2) sample_list_inv]
  obtain t p' where "load_pool w' (acct 1) = Inr p'" "sp_total_lamports p' = t"
    "uint t = 10000000 - 2282880 + total_stake (vlist sample_vec)"
    by (auto simp: sample_simps sample_env0_fields)
  moreover have "total_stake (vlist sample_vec) = 2000005"
    unfolding sample_vec_facts(2) by (simp add: total_stake_def sample_validators_def default_vsi_def)
  ultimately show ?thesis using w' by auto
qed

lemma sample_update_list_runs:
  "\<exists>w'. process_update_validator_list_balance sample_env 99
     [acct 1, acct 50, acct 14, acct 15, acct 71, acct 72, acct 6, acct 50, acct 50] 1 False sample_world
   = Inr w'"
proof -
  have wf: "vlist_wf sample_vec" by (rule sample_vec_facts)
  have fit: "(1 :: nat) + 1 \<le> bv_count sample_vec" by (simp add: sample_count)
  have "elements VSI_LEN dec_vsi (VEC_SIZE_BYTES + 1 * VSI_LEN) 1 sample_vec = [sample_validators ! 1]"
    unfolding vsi.elements_slice [OF fit] sample_vec_facts(2) by (simp add: sample_validators_def)
  then obtain off where recs: "bv_deserialize_mut_slice VSI_LEN dec_vsi (Suc 0) (Suc 0) sample_vec
      = Inr (off, [sample_validators ! Suc 0])"
    using vsi.slice_range_ok [OF wf _ fit]
    by (auto simp: bv_deserialize_mut_slice_def sample_vec_facts(3) usize_max_def VSI_LEN_def)
  have upd: "\<exists>r. update_record sample_env 99 sample_pool (acct 1) (acct 50) (acct 15) (acct 71) (acct 72) 5
      False (sample_validators ! Suc 0) (acct 50) (acct 50) sample_world = Inr (r, sample_world)"
    by (simp add: update_record_def update_transient_def update_validator_def update_active_def
        check_validator_stake_address_def check_transient_stake_address_def ok_of_def sample_simps
        find_stake_program_address_def find_transient_stake_program_address_def stake_withdraw_def
        stake_is_usable_by_pool_def sample_validators_def default_vsi_def status_try_from_def
        status_from_u8_def Let_def saturating_sub_def)
  then show ?thesis
    by (auto simp: process_update_validator_list_balance_def sample_simps recs check_account_owner_def
        check_authority_withdraw_def check_program_derived_authority_def check_validator_list_def
        check_reserve_stake_def check_stake_program_def cong: tri_weak_cong)
qed

theorem update_list_keeps_records_witness:
  "\<exists>w' bv'. process_update_validator_list_balance sample_env 99
     [acct 1, acct 50, acct 14, acct 15, acct 71, acct 72, acct 6, acct 50, acct 50] 1 False sample_world
     = Inr w'
   \<and> load_list w' (acct 14) = Inr (sample_header, bv') \<and> list_inv sample_header bv'
   \<and> vlist bv' ! 0 = sample_validators ! 0
   \<and> record_updated 5 (sample_validators ! 1) (vlist bv' ! 1)"
proof -
  obtain w' where w': "process_update_validator_list_balance sample_env 99
     [acct 1, acct 50, acct 14, acct 15, acct 71, acct 72, acct 6, acct 50, acct 50] 1 False sample_world
     = Inr w'"
    using sample_update_list_runs by blast
  from update_list_keeps_records [OF w' sample_law sample_load(2) sample_list_inv]
  obtain epoch bv' n where e: "e_clock_from_account_info sample_env sample_world (acct 71) = Inr epoch"
    and n: "length [acct 50, acct 50] = 2 * n"
    and l: "load_list w' (acct 14) = Inr (sample_header, bv')" "list_inv sample_header bv'"
    and k: "\<forall>k < bv_count sample_vec. if unat (1 :: u32) \<le> k \<and> k < unat (1 :: u32) + n
       then record_updated epoch (vlist sample_vec ! k) (vlist bv' ! k)
       else vlist bv' ! k = vlist sample_vec ! k"
    by metis
  have "epoch = 5" "n = 1" using e n by (simp_all add: sample_simps)
  then have "vlist bv' ! 0 = sample_validators ! 0"
    "record_updated 5 (sample_validators ! 1) (vlist bv' ! 1)"
    using k [unfolded sample_vec_facts(2) sample_count, rule_format, of 0]
      k [unfolded sample_vec_facts(2) sample_count, rule_format, of 1] by simp_all
  with w' l show ?thesis by blast
qed

section \<open>When a new fee takes effect\<close>

text \<open>The rate that a pool charges for a kind of fee, and the rate that a change asks for.\<close>

fun fee_in_force :: "FeeType \<Rightarrow> StakePool \<Rightarrow> Fee option" where
  "fee_in_force (EpochFee _) p = Some (sp_epoch_fee p)"
| "fee_in_force (StakeWithdrawal _) p = Some (sp_stake_withdrawal_fee p)"
| "fee_in_force (SolWithdrawal _) p = Some (sp_sol_withdrawal_fee p)"
| "fee_in_force (StakeDepositFee _) p = Some (sp_stake_deposit_fee p)"
| "fee_in_force (SolDepositFee _) p = Some (sp_sol_deposit_fee p)"
| "fee_in_force _ p = None"

fun requested_fee :: "FeeType \<Rightarrow> Fee option" where
  "requested_fee (EpochFee f) = Some f"
| "requested_fee (StakeWithdrawal f) = Some f"
| "requested_fee (SolWithdrawal f) = Some f"
| "requested_fee (StakeDepositFee f) = Some f"
| "requested_fee (SolDepositFee f) = Some f"
| "requested_fee _ = None"

lemma advance_epoch_fees:
  assumes "sp_last_update_epoch p < e"
  shows "sp_epoch_fee (advance_epoch p e t s) = fee_due (sp_next_epoch_fee p) (sp_epoch_fee p)"
    "sp_next_epoch_fee (advance_epoch p e t s) = update_epoch (sp_next_epoch_fee p)"
    "sp_stake_withdrawal_fee (advance_epoch p e t s)
       = fee_due (sp_next_stake_withdrawal_fee p) (sp_stake_withdrawal_fee p)"
    "sp_next_stake_withdrawal_fee (advance_epoch p e t s) = update_epoch (sp_next_stake_withdrawal_fee p)"
    "sp_sol_withdrawal_fee (advance_epoch p e t s)
       = fee_due (sp_next_sol_withdrawal_fee p) (sp_sol_withdrawal_fee p)"
    "sp_next_sol_withdrawal_fee (advance_epoch p e t s) = update_epoch (sp_next_sol_withdrawal_fee p)"
    "sp_last_update_epoch (advance_epoch p e t s) = e"
  using assms by (simp_all add: advance_epoch_def take_scheduled_due)

lemma scheduled_fee:
  assumes "can_only_change_next_epoch fee" "update_fee p fee = Inr p'" "sp_last_update_epoch p < e1" "e1 < e2"
    and "p1 = advance_epoch p' e1 t1 s1" "p2 = advance_epoch p1 e2 t2 s2"
  shows "fee_in_force fee p' = fee_in_force fee p" "fee_in_force fee p1 = fee_in_force fee p"
    "fee_in_force fee p2 = requested_fee fee"
proof -
  have e: "sp_last_update_epoch p' < e1" "sp_last_update_epoch p1 < e2"
    using assms by (simp_all add: update_fee_fields advance_epoch_fees)
  show "fee_in_force fee p' = fee_in_force fee p" "fee_in_force fee p1 = fee_in_force fee p"
    "fee_in_force fee p2 = requested_fee fee"
    using assms(1,2) e unfolding assms(5,6)
    by (cases fee; clarsimp simp: future_epoch_new_def result_simps advance_epoch_fees)+
qed

text \<open>
  C22. A change of a fee on rewards or on withdrawals needs the manager's signature, is refused above
  one and while the pool is behind the epoch, and takes effect only after two epoch boundaries: the
  rate in force stays what it was when the change is stored and after the next epoch's update, and
  is the requested one after the update of the epoch after that.
\<close>

theorem set_fee_takes_two_epochs:
  assumes "can_only_change_next_epoch fee"
    and "process_set_fee E pid (pool # manager # rest) fee w = Inr w'"
    and "load_pool w pool = Inr p" and "sp_last_update_epoch p < e1" and "e1 < e2"
  shows "\<exists>p' p1 p2 epoch. ai_key manager = sp_manager p \<and> ai_is_signer manager
    \<and> check_too_high fee = Inr () \<and> e_clock_get E = Inr epoch \<and> epoch \<le> sp_last_update_epoch p
    \<and> load_pool w' pool = Inr p'
    \<and> p1 = (advance_epoch p' e1 t1 s1)\<lparr>sp_total_lamports := lam, sp_pool_token_supply := toks\<rparr>
    \<and> p2 = advance_epoch p1 e2 t2 s2
    \<and> fee_in_force fee p' = fee_in_force fee p \<and> fee_in_force fee p1 = fee_in_force fee p
    \<and> fee_in_force fee p2 = requested_fee fee"
  using assms(2)
proof (rule set_fee_success)
  fix pool' manager' rest' epoch q p'
  assume eq: "pool # manager # rest = pool' # manager' # rest'" and q: "load_pool w pool' = Inr q"
    and m: "ai_key manager' = sp_manager q" "ai_is_signer manager'"
    and e: "e_clock_get E = Inr epoch" "can_only_change_next_epoch fee \<longrightarrow> \<not> sp_last_update_epoch q < epoch"
    and f: "check_too_high fee = Inr ()" "update_fee q fee = Inr p'" and st: "store_pool w pool' p' = Inr w'"
  let ?p1 = "(advance_epoch p' e1 t1 s1)\<lparr>sp_total_lamports := lam, sp_pool_token_supply := toks\<rparr>"
  have q': "q = p" using eq q assms(3) by simp
  note fees = scheduled_fee [OF assms(1) f(2) [unfolded q'] assms(4,5) refl refl]
  have "advance_epoch ?p1 e2 t2 s2
      = (advance_epoch (advance_epoch p' e1 t1 s1) e2 t2 s2)\<lparr>sp_total_lamports := lam, sp_pool_token_supply := toks\<rparr>"
    by (simp add: advance_epoch_def)
  moreover have inert: "fee_in_force fee (x\<lparr>sp_total_lamports := lam, sp_pool_token_supply := toks\<rparr>)
      = fee_in_force fee x" for x
    by (cases fee) simp_all
  ultimately have "fee_in_force fee ?p1 = fee_in_force fee p"
    "fee_in_force fee (advance_epoch ?p1 e2 t2 s2) = requested_fee fee"
    using fees(2,3) by simp_all
  moreover have "epoch \<le> sp_last_update_epoch p" using e(2) assms(1) q' by (simp add: not_less)
  moreover have "load_pool w' pool = Inr p'" using load_store_pool [OF st] eq by simp
  ultimately show ?thesis using m f(1) e(1) fees(1) eq q' by auto
qed

theorem set_fee_takes_two_epochs_witness:
  "\<exists>w' p'. process_set_fee sample_env 99 [acct 1, signer 11] (EpochFee \<lparr>fee_denominator = 10, fee_numerator = 1\<rparr>)
      sample_world = Inr w'
   \<and> load_pool w' (acct 1) = Inr p'
   \<and> fee_in_force (EpochFee \<lparr>fee_denominator = 10, fee_numerator = 1\<rparr>)
       (advance_epoch ((advance_epoch p' 6 0 0)\<lparr>sp_total_lamports := 3, sp_pool_token_supply := 4\<rparr>) 7 0 0)
     = Some \<lparr>fee_denominator = 10, fee_numerator = 1\<rparr>"
proof -
  let ?f = "EpochFee \<lparr>fee_denominator = 10, fee_numerator = 1\<rparr>"
  let ?p = "sample_pool\<lparr>sp_next_epoch_fee := FE_Two \<lparr>fee_denominator = 10, fee_numerator = 1\<rparr>\<rparr>"
  have "length (ser_stake_pool ?p) \<le> length (ser_stake_pool sample_pool) + 200"
    by (simp add: ser_stake_pool_def sample_pool_def ser_fee_def ser_u64_def)
  from sample_store [OF this]
  obtain w' where w': "process_set_fee sample_env 99 [acct 1, signer 11] ?f sample_world = Inr w'"
    by (auto simp: process_set_fee_def sample_simps check_account_owner_def check_manager_def lift_spe_def
        check_too_high_def future_epoch_new_def cong: tri_weak_cong)
  have e: "sp_last_update_epoch sample_pool < 6" "(6 :: u64) < 7" by (simp_all add: sample_simps)
  from set_fee_takes_two_epochs [OF _ w' sample_load(1) e, where lam = 3 and toks = 4
      and ?t1.0 = 0 and ?s1.0 = 0 and ?t2.0 = 0 and ?s2.0 = 0]
  obtain p' where "load_pool w' (acct 1) = Inr p'"
    "fee_in_force ?f (advance_epoch ((advance_epoch p' 6 0 0)
         \<lparr>sp_total_lamports := 3, sp_pool_token_supply := 4\<rparr>) 7 0 0) = requested_fee ?f"
    by auto
  then show ?thesis using w' by auto
qed

end
