(* ===== verification/Deposits.thy ===== *)
theory Deposits
  imports Sample
begin

text \<open>
  Deposits (\<^verbatim>\<open>program/src/processor.rs\<close>): \<open>process_deposit_stake\<close>, \<open>process_deposit_sol\<close> and
  \<open>process_deposit_wsol_with_session\<close>. The pool tokens of a deposit and their division between the
  depositor, the manager and the referrer are definitions of their own.
\<close>

section \<open>The division of the minted tokens\<close>

record token_split =
  ts_new :: u64
  ts_user :: u64
  ts_manager :: u64
  ts_referral :: u64

text \<open>The last checks of both deposits: nothing lost, something minted, slippage respected.\<close>

definition check_split :: "u64 option \<Rightarrow> token_split \<Rightarrow> token_split result" where
  "check_split minimum_pool_tokens_out s =
     (if saturating_add (saturating_add (ts_user s) (ts_manager s)) (ts_referral s) \<noteq> ts_new s
      then Inl (spe CalculationFailure)
      else if ts_user s = 0 then Inl (spe DepositTooSmall)
      else case minimum_pool_tokens_out of
        Some minimum_pool_tokens_out \<Rightarrow>
          if ts_user s < minimum_pool_tokens_out then Inl (spe ExceededSlippage) else Inr s
      | None \<Rightarrow> Inr s)"

definition sol_deposit_split :: "StakePool \<Rightarrow> u64 \<Rightarrow> u64 option \<Rightarrow> token_split result" where
  "sol_deposit_split stake_pool deposit_lamports minimum_pool_tokens_out =
     tri (ok_or (calc_pool_tokens_for_deposit stake_pool deposit_lamports) (spe CalculationFailure))
       (\<lambda>new_pool_tokens.
     tri (ok_or (calc_pool_tokens_sol_deposit_fee stake_pool new_pool_tokens)
            (spe CalculationFailure)) (\<lambda>pool_tokens_sol_deposit_fee.
     tri (ok_or (checked_sub new_pool_tokens pool_tokens_sol_deposit_fee) (spe CalculationFailure))
       (\<lambda>pool_tokens_user.
     tri (ok_or (calc_pool_tokens_sol_referral_fee stake_pool pool_tokens_sol_deposit_fee)
            (spe CalculationFailure)) (\<lambda>pool_tokens_referral_fee.
     tri (ok_or (checked_sub pool_tokens_sol_deposit_fee pool_tokens_referral_fee)
            (spe CalculationFailure)) (\<lambda>pool_tokens_manager_deposit_fee.
     check_split minimum_pool_tokens_out
       \<lparr>ts_new = new_pool_tokens, ts_user = pool_tokens_user,
        ts_manager = pool_tokens_manager_deposit_fee, ts_referral = pool_tokens_referral_fee\<rparr>)))))"

definition stake_deposit_split ::
    "StakePool \<Rightarrow> u64 \<Rightarrow> u64 \<Rightarrow> u64 option \<Rightarrow> token_split result" where
  "stake_deposit_split stake_pool total_deposit_lamports stake_deposit_lamports
       minimum_pool_tokens_out =
     tri (ok_or (calc_pool_tokens_for_deposit stake_pool total_deposit_lamports)
            (spe CalculationFailure)) (\<lambda>new_pool_tokens.
     tri (ok_or (calc_pool_tokens_for_deposit stake_pool stake_deposit_lamports)
            (spe CalculationFailure)) (\<lambda>new_pool_tokens_from_stake.
     tri (ok_or (checked_sub new_pool_tokens new_pool_tokens_from_stake) (spe CalculationFailure))
       (\<lambda>new_pool_tokens_from_sol.
     tri (ok_or (calc_pool_tokens_stake_deposit_fee stake_pool new_pool_tokens_from_stake)
            (spe CalculationFailure)) (\<lambda>stake_deposit_fee.
     tri (ok_or (calc_pool_tokens_sol_deposit_fee stake_pool new_pool_tokens_from_sol)
            (spe CalculationFailure)) (\<lambda>sol_deposit_fee.
     tri (ok_or (checked_add stake_deposit_fee sol_deposit_fee) (spe CalculationFailure))
       (\<lambda>total_fee.
     tri (ok_or (checked_sub new_pool_tokens total_fee) (spe CalculationFailure))
       (\<lambda>pool_tokens_user.
     tri (ok_or (calc_pool_tokens_stake_referral_fee stake_pool total_fee) (spe CalculationFailure))
       (\<lambda>pool_tokens_referral_fee.
     tri (ok_or (checked_sub total_fee pool_tokens_referral_fee) (spe CalculationFailure))
       (\<lambda>pool_tokens_manager_deposit_fee.
     check_split minimum_pool_tokens_out
       \<lparr>ts_new = new_pool_tokens, ts_user = pool_tokens_user,
        ts_manager = pool_tokens_manager_deposit_fee, ts_referral = pool_tokens_referral_fee\<rparr>)))))))))"

text \<open>The tokens are minted to the depositor and, where there is a fee, to manager and referrer.\<close>

definition mint_split ::
    "env \<Rightarrow> StakePool \<Rightarrow> AccountInfo \<Rightarrow> AccountInfo \<Rightarrow> AccountInfo \<Rightarrow> AccountInfo \<Rightarrow> AccountInfo
      \<Rightarrow> AccountInfo \<Rightarrow> AccountInfo \<Rightarrow> token_split \<Rightarrow> world \<Rightarrow> world result" where
  "mint_split E stake_pool stake_pool_info token_program_info pool_mint_info
       withdraw_authority_info dest_user_pool_info manager_fee_info referrer_fee_info s w =
     (let mint = (\<lambda>w destination amount.
            token_mint_to E w (ai_key stake_pool_info) token_program_info pool_mint_info
              destination withdraw_authority_info AUTHORITY_WITHDRAW
              (sp_stake_withdraw_bump_seed stake_pool) amount) in
      tri (mint w dest_user_pool_info (ts_user s)) (\<lambda>w.
      tri (if ts_manager s > 0 then mint w manager_fee_info (ts_manager s) else Inr w) (\<lambda>w.
      if ts_referral s > 0 then mint w referrer_fee_info (ts_referral s) else Inr w)))"

text \<open>The accounting of a deposit.\<close>

definition credit_pool :: "StakePool \<Rightarrow> u64 \<Rightarrow> u64 \<Rightarrow> StakePool result" where
  "credit_pool stake_pool new_pool_tokens deposit_lamports =
     tri (ok_or (checked_add (sp_pool_token_supply stake_pool) new_pool_tokens)
            (spe CalculationFailure)) (\<lambda>pool_token_supply.
     tri (ok_or (checked_add (sp_total_lamports stake_pool) deposit_lamports)
            (spe CalculationFailure)) (\<lambda>total_lamports.
     Inr (stake_pool\<lparr>sp_pool_token_supply := pool_token_supply,
                      sp_total_lamports := total_lamports\<rparr>)))"

section \<open>Depositing lamports\<close>

definition process_deposit_sol ::
    "env \<Rightarrow> Pubkey \<Rightarrow> AccountInfo list \<Rightarrow> u64 \<Rightarrow> u64 option \<Rightarrow> bool \<Rightarrow> world \<Rightarrow> world result" where
  "process_deposit_sol E program_id accounts deposit_lamports minimum_pool_tokens_out
       is_wsol_path w =
     tri (next_account_info accounts) (\<lambda>(stake_pool_info, iter).
     tri (next_account_info iter) (\<lambda>(withdraw_authority_info, iter).
     tri (next_account_info iter) (\<lambda>(reserve_stake_account_info, iter).
     tri (next_account_info iter) (\<lambda>(from_user_lamports_info, iter).
     tri (next_account_info iter) (\<lambda>(dest_user_pool_info, iter).
     tri (next_account_info iter) (\<lambda>(manager_fee_info, iter).
     tri (next_account_info iter) (\<lambda>(referrer_fee_info, iter).
     tri (next_account_info iter) (\<lambda>(pool_mint_info, iter).
     tri (next_account_info iter) (\<lambda>(system_program_info, iter).
     tri (next_account_info iter) (\<lambda>(token_program_info, iter).
     let sol_deposit_authority_info = next_account_info iter in
     tri (e_clock_get E) (\<lambda>epoch.
     tri (check_account_owner w stake_pool_info program_id) (\<lambda>_.
     tri (load_pool w stake_pool_info) (\<lambda>stake_pool.
     if \<not> sp_is_valid stake_pool then Inl (spe InvalidState) else
     tri (check_authority_withdraw E stake_pool (ai_key withdraw_authority_info) program_id
            (ai_key stake_pool_info)) (\<lambda>_.
     tri (check_sol_deposit_authority stake_pool sol_deposit_authority_info) (\<lambda>_.
     tri (check_mint E w stake_pool pool_mint_info) (\<lambda>_.
     tri (check_reserve_stake stake_pool reserve_stake_account_info) (\<lambda>_.
     if sp_token_program_id stake_pool \<noteq> ai_key token_program_info then Inl IncorrectProgramId else
     tri (check_system_program E (ai_key system_program_info)) (\<lambda>_.
     if sp_manager_fee_account stake_pool \<noteq> ai_key manager_fee_info
     then Inl (spe InvalidFeeAccount) else
     if sp_last_update_epoch stake_pool < epoch then Inl (spe StakeListAndPoolOutOfDate) else
     tri (sol_deposit_split stake_pool deposit_lamports minimum_pool_tokens_out) (\<lambda>s.
     tri (if is_wsol_path then Inr w
          else sol_transfer E w from_user_lamports_info reserve_stake_account_info
                 deposit_lamports) (\<lambda>w.
     tri (mint_split E stake_pool stake_pool_info token_program_info pool_mint_info
            withdraw_authority_info dest_user_pool_info manager_fee_info referrer_fee_info s w) (\<lambda>w.
     tri (credit_pool stake_pool (ts_new s) deposit_lamports) (\<lambda>stake_pool.
     store_pool w stake_pool_info stake_pool))))))))))))))))))))))"

section \<open>Depositing stake\<close>

definition check_preferred_deposit :: "StakePool \<Rightarrow> Pubkey \<Rightarrow> unit result" where
  "check_preferred_deposit stake_pool vote_account_address =
     (case sp_preferred_deposit_validator_vote_address stake_pool of
        Some preferred_deposit \<Rightarrow>
          if preferred_deposit \<noteq> vote_account_address then Inl (spe IncorrectDepositVoteAddress)
          else Inr ()
      | None \<Rightarrow> Inr ())"

text \<open>The deposited stake account is handed to the pool.\<close>

definition take_deposited_stake ::
    "env \<Rightarrow> Pubkey \<Rightarrow> AccountInfo \<Rightarrow> AccountInfo \<Rightarrow> AccountInfo \<Rightarrow> AccountInfo \<Rightarrow> AccountInfo
      \<Rightarrow> world \<Rightarrow> world result" where
  "take_deposited_stake E program_id stake_pool_info stake_info stake_deposit_authority_info
       withdraw_authority_info clock_info w =
     (let (stake_deposit_authority_program_address, deposit_bump_seed) =
            find_deposit_authority_program_address E program_id (ai_key stake_pool_info) in
      if ai_key stake_deposit_authority_info = stake_deposit_authority_program_address
      then stake_authorize_signed E w (ai_key stake_pool_info) stake_info
             stake_deposit_authority_info AUTHORITY_DEPOSIT deposit_bump_seed
             (ai_key withdraw_authority_info) clock_info
      else stake_authorize E w stake_info stake_deposit_authority_info
             (ai_key withdraw_authority_info) clock_info)"

definition process_deposit_stake ::
    "env \<Rightarrow> Pubkey \<Rightarrow> AccountInfo list \<Rightarrow> u64 option \<Rightarrow> world \<Rightarrow> world result" where
  "process_deposit_stake E program_id accounts minimum_pool_tokens_out w =
     tri (next_account_info accounts) (\<lambda>(stake_pool_info, iter).
     tri (next_account_info iter) (\<lambda>(validator_list_info, iter).
     tri (next_account_info iter) (\<lambda>(stake_deposit_authority_info, iter).
     tri (next_account_info iter) (\<lambda>(withdraw_authority_info, iter).
     tri (next_account_info iter) (\<lambda>(stake_info, iter).
     tri (next_account_info iter) (\<lambda>(validator_stake_account_info, iter).
     tri (next_account_info iter) (\<lambda>(reserve_stake_account_info, iter).
     tri (next_account_info iter) (\<lambda>(dest_user_pool_info, iter).
     tri (next_account_info iter) (\<lambda>(manager_fee_info, iter).
     tri (next_account_info iter) (\<lambda>(referrer_fee_info, iter).
     tri (next_account_info iter) (\<lambda>(pool_mint_info, iter).
     tri (next_account_info iter) (\<lambda>(clock_info, iter).
     tri (e_clock_from_account_info E w clock_info) (\<lambda>epoch.
     tri (next_account_info iter) (\<lambda>(stake_history_info, iter).
     tri (next_account_info iter) (\<lambda>(token_program_info, iter).
     tri (next_account_info iter) (\<lambda>(stake_program_info, iter).
     tri (check_stake_program E (ai_key stake_program_info)) (\<lambda>_.
     tri (check_account_owner w stake_pool_info program_id) (\<lambda>_.
     tri (load_pool w stake_pool_info) (\<lambda>stake_pool.
     if \<not> sp_is_valid stake_pool then Inl (spe InvalidState) else
     tri (check_authority_withdraw E stake_pool (ai_key withdraw_authority_info) program_id
            (ai_key stake_pool_info)) (\<lambda>_.
     tri (check_stake_deposit_authority stake_pool (ai_key stake_deposit_authority_info)) (\<lambda>_.
     tri (check_mint E w stake_pool pool_mint_info) (\<lambda>_.
     tri (check_validator_list stake_pool validator_list_info) (\<lambda>_.
     tri (check_reserve_stake stake_pool reserve_stake_account_info) (\<lambda>_.
     if sp_token_program_id stake_pool \<noteq> ai_key token_program_info then Inl IncorrectProgramId else
     if sp_manager_fee_account stake_pool \<noteq> ai_key manager_fee_info
     then Inl (spe InvalidFeeAccount) else
     if sp_last_update_epoch stake_pool < epoch then Inl (spe StakeListAndPoolOutOfDate) else
     tri (check_account_owner w validator_list_info program_id) (\<lambda>_.
     tri (load_list w validator_list_info) (\<lambda>(header, validator_list).
     if \<not> header_is_valid header then Inl (spe InvalidState) else
     tri (get_stake_state E w validator_stake_account_info) (\<lambda>(_, validator_stake).
     let pre_all_validator_lamports = lamports_of w validator_stake_account_info;
         vote_account_address = del_voter_pubkey validator_stake in
     tri (check_preferred_deposit stake_pool vote_account_address) (\<lambda>_.
     tri (find_validator_mut validator_list vote_account_address) (\<lambda>maybe_validator_stake_info.
     tri (ok_or maybe_validator_stake_info (spe ValidatorNotFound))
       (\<lambda>(offset, validator_stake_info).
     tri (check_validator_stake_address E program_id (ai_key stake_pool_info)
            (ai_key validator_stake_account_info) vote_account_address
            (NonZeroU32_new (vsi_validator_seed_suffix validator_stake_info))) (\<lambda>_.
     if vsi_status validator_stake_info \<noteq> status_to_u8 Active then Inl (spe ValidatorNotFound) else
     tri (take_deposited_stake E program_id stake_pool_info stake_info
            stake_deposit_authority_info withdraw_authority_info clock_info w) (\<lambda>w.
     tri (stake_merge E w (ai_key stake_pool_info) stake_info withdraw_authority_info
            AUTHORITY_WITHDRAW (sp_stake_withdraw_bump_seed stake_pool)
            validator_stake_account_info clock_info stake_history_info) (\<lambda>w.
     tri (get_stake_state E w validator_stake_account_info) (\<lambda>(_, post_validator_stake).
     let post_all_validator_lamports = lamports_of w validator_stake_account_info in
     tri (ok_or (checked_sub post_all_validator_lamports pre_all_validator_lamports)
            (spe CalculationFailure)) (\<lambda>total_deposit_lamports.
     tri (ok_or (checked_sub (del_stake post_validator_stake) (del_stake validator_stake))
            (spe CalculationFailure)) (\<lambda>stake_deposit_lamports.
     tri (ok_or (checked_sub total_deposit_lamports stake_deposit_lamports)
            (spe CalculationFailure)) (\<lambda>sol_deposit_lamports.
     tri (stake_deposit_split stake_pool total_deposit_lamports stake_deposit_lamports
            minimum_pool_tokens_out) (\<lambda>s.
     tri (mint_split E stake_pool stake_pool_info token_program_info pool_mint_info
            withdraw_authority_info dest_user_pool_info manager_fee_info referrer_fee_info s w) (\<lambda>w.
     tri (if sol_deposit_lamports > 0
          then stake_withdraw E w (ai_key stake_pool_info) validator_stake_account_info
                 withdraw_authority_info AUTHORITY_WITHDRAW
                 (sp_stake_withdraw_bump_seed stake_pool) reserve_stake_account_info clock_info
                 stake_history_info sol_deposit_lamports
          else Inr w) (\<lambda>w.
     tri (credit_pool stake_pool (ts_new s) total_deposit_lamports) (\<lambda>stake_pool.
     tri (store_pool w stake_pool_info stake_pool) (\<lambda>w.
     Inr (store_validator w validator_list_info header validator_list offset
            (validator_stake_info\<lparr>vsi_active_stake_lamports :=
               lamports_of w validator_stake_account_info\<rparr>))))))))))))))))))))))))))))))))))))))))))))"

section \<open>Depositing wrapped lamports\<close>

definition TRANSIENT_WSOL :: "byte list" where
  "TRANSIENT_WSOL = bytes_of_string ''transient_wsol''"

text \<open>
  The checks of the wrapped token accounts against the user behind the signer or session; the user
  and the signer seeds of the program's own address.
\<close>

definition check_wsol_accounts ::
    "env \<Rightarrow> Pubkey \<Rightarrow> world \<Rightarrow> AccountInfo \<Rightarrow> AccountInfo \<Rightarrow> AccountInfo \<Rightarrow> AccountInfo \<Rightarrow> Pubkey result" where
  "check_wsol_accounts E program_id w wsol_mint_info token_program_info user_wsol_info
       signer_or_session_info =
     (if ai_key wsol_mint_info \<noteq> e_native_mint_id E then Inl InvalidAccountData
      else if owner_of w wsol_mint_info \<noteq> ai_key token_program_info then Inl InvalidAccountData
      else if owner_of w user_wsol_info \<noteq> ai_key token_program_info then Inl InvalidAccountData
      else tri (e_extract_user E w signer_or_session_info program_id) (\<lambda>user_pubkey.
      if e_associated_token_address E user_pubkey (ai_key wsol_mint_info) \<noteq> ai_key user_wsol_info
      then Inl InvalidAccountData else Inr user_pubkey))"

text \<open>The user's wrapped tokens move into a temporary account of the program and are unwrapped.\<close>

definition unwrap_wsol ::
    "env \<Rightarrow> AccountInfo \<Rightarrow> AccountInfo \<Rightarrow> AccountInfo \<Rightarrow> AccountInfo \<Rightarrow> AccountInfo \<Rightarrow> AccountInfo
      \<Rightarrow> byte list list \<Rightarrow> u64 \<Rightarrow> world \<Rightarrow> world result" where
  "unwrap_wsol E token_program_info wsol_mint_info user_wsol_info transient_wsol_info
       signer_or_session_info program_signer_info program_signer_seeds deposit_lamports w =
     (let init_ix = TokenInitializeAccount3 (ai_key token_program_info)
            (ai_key transient_wsol_info) (ai_key wsol_mint_info) (ai_key program_signer_info);
          transfer_ix = SessionTransferChecked (ai_key token_program_info)
            (ai_key user_wsol_info) (ai_key wsol_mint_info) (ai_key transient_wsol_info)
            (ai_key signer_or_session_info) (Some (ai_key program_signer_info)) deposit_lamports 9;
          close_ix = TokenCloseAccount (ai_key token_program_info) (ai_key transient_wsol_info)
            (ai_key program_signer_info) (ai_key program_signer_info) in
      tri (e_build_instruction E init_ix) (\<lambda>_.
      tri (invoke E init_ix [transient_wsol_info, wsol_mint_info] w) (\<lambda>w.
      tri (e_build_instruction E transfer_ix) (\<lambda>_.
      tri (e_invoke_signed E transfer_ix
             [user_wsol_info, wsol_mint_info, transient_wsol_info, signer_or_session_info,
              program_signer_info, token_program_info] [program_signer_seeds] w) (\<lambda>w.
      tri (e_unpack_token_amount E (data_of w transient_wsol_info)) (\<lambda>transient_wsol_balance.
      if transient_wsol_balance \<noteq> deposit_lamports then Inl InvalidAccountData else
      tri (e_build_instruction E close_ix) (\<lambda>_.
      e_invoke_signed E close_ix
        [transient_wsol_info, program_signer_info, program_signer_info]
        [program_signer_seeds] w)))))))"

definition process_deposit_wsol_with_session ::
    "env \<Rightarrow> Pubkey \<Rightarrow> AccountInfo list \<Rightarrow> u64 \<Rightarrow> world \<Rightarrow> world result" where
  "process_deposit_wsol_with_session E program_id accounts deposit_lamports w =
     tri (next_account_info accounts) (\<lambda>(stake_pool_info, iter).
     tri (next_account_info iter) (\<lambda>(stake_pool_withdraw_auth_info, iter).
     tri (next_account_info iter) (\<lambda>(reserve_stake_info, iter).
     tri (next_account_info iter) (\<lambda>(pool_tokens_to_info, iter).
     tri (next_account_info iter) (\<lambda>(manager_fee_info, iter).
     tri (next_account_info iter) (\<lambda>(referrer_pool_tokens_info, iter).
     tri (next_account_info iter) (\<lambda>(pool_mint_info, iter).
     tri (next_account_info iter) (\<lambda>(system_program_info, iter).
     tri (next_account_info iter) (\<lambda>(token_program_info, iter).
     tri (next_account_info iter) (\<lambda>(signer_or_session_info, iter).
     tri (next_account_info iter) (\<lambda>(wsol_mint_info, iter).
     tri (next_account_info iter) (\<lambda>(fee_payer_info, iter).
     tri (next_account_info iter) (\<lambda>(user_wsol_info, iter).
     tri (next_account_info iter) (\<lambda>(transient_wsol_info, iter).
     tri (next_account_info iter) (\<lambda>(program_signer_info, iter).
     let sol_deposit_auth_info = (case iter of [] \<Rightarrow> [] | auth # _ \<Rightarrow> [auth]) in
     tri (check_system_program E (ai_key system_program_info)) (\<lambda>_.
     tri (check_wsol_accounts E program_id w wsol_mint_info token_program_info user_wsol_info
            signer_or_session_info) (\<lambda>user_pubkey.
     let (expected_pda, pda_bump) =
           e_find_program_address E [e_program_signer_seed E] program_id in
     if expected_pda \<noteq> ai_key program_signer_info then Inl InvalidSeeds else
     let program_signer_seeds = [e_program_signer_seed E, [pda_bump]];
         (expected_transient_pda, transient_bump) =
           e_find_program_address E [TRANSIENT_WSOL, key_bytes user_pubkey] program_id in
     if expected_transient_pda \<noteq> ai_key transient_wsol_info then Inl InvalidSeeds else
     let transient_seeds = [TRANSIENT_WSOL, key_bytes user_pubkey, [transient_bump]] in
     tri (e_rent_get E) (\<lambda>rent.
     tri (e_create_pda_account E fee_payer_info rent (e_token_account_len E)
            (ai_key token_program_info) system_program_info transient_wsol_info
            transient_seeds w) (\<lambda>w.
     tri (unwrap_wsol E token_program_info wsol_mint_info user_wsol_info transient_wsol_info
            signer_or_session_info program_signer_info program_signer_seeds deposit_lamports w) (\<lambda>w.
     let rent_lamports = rent_minimum_balance rent (e_token_account_len E) in
     tri (e_invoke_signed E
            (SystemTransfer (ai_key program_signer_info) (ai_key fee_payer_info) rent_lamports)
            [program_signer_info, fee_payer_info, system_program_info]
            [program_signer_seeds] w) (\<lambda>w.
     tri (e_invoke_signed E
            (SystemTransfer (ai_key program_signer_info) (ai_key reserve_stake_info)
               deposit_lamports)
            [program_signer_info, reserve_stake_info, system_program_info]
            [program_signer_seeds] w) (\<lambda>w.
     process_deposit_sol E program_id
       ([stake_pool_info, stake_pool_withdraw_auth_info, reserve_stake_info, reserve_stake_info,
         pool_tokens_to_info, manager_fee_info, referrer_pool_tokens_info, pool_mint_info,
         system_program_info, token_program_info] @ sol_deposit_auth_info)
       deposit_lamports None True w))))))))))))))))))))))"

section \<open>Exact amounts\<close>

text \<open>
  The division in exact arithmetic: \<open>T\<close> new tokens, of which \<open>F\<close> are the fee and \<open>pct\<close> percent of
  the fee, rounded down, are the referrer's.
\<close>

definition split_spec :: "int \<Rightarrow> int \<Rightarrow> int \<Rightarrow> u64 option \<Rightarrow> token_split result" where
  "split_spec T F pct minimum =
     (if 2 ^ 64 \<le> T then Inl (spe CalculationFailure)
      else if T = F then Inl (spe DepositTooSmall)
      else if minimum \<noteq> None \<and> T - F < uint (the minimum) then Inl (spe ExceededSlippage)
      else Inr \<lparr>ts_new = word_of_int T, ts_user = word_of_int (T - F),
                ts_manager = word_of_int (F - F * pct div 100),
                ts_referral = word_of_int (F * pct div 100)\<rparr>)"

lemma percent_share:
  assumes "0 \<le> F" "0 \<le> pct" "pct \<le> (100 :: int)"
  shows "0 \<le> F * pct div 100" "F * pct div 100 \<le> F"
  using assms mult_left_mono [of pct 100 F] by (simp_all add: pos_imp_zdiv_nonneg_iff)

lemma split_tail:
  assumes "0 \<le> F" "F \<le> T" "T < 2 ^ 64" "uint pct \<le> 100" "uint new = T" "uint fee = F"
  shows "tri (ok_or (checked_sub new fee) e) (\<lambda>user.
         tri (ok_or (referral_share fee pct) e) (\<lambda>ref.
         tri (ok_or (checked_sub fee ref) e) (\<lambda>man.
         check_split m \<lparr>ts_new = new, ts_user = user, ts_manager = man, ts_referral = ref\<rparr>)))
    = split_spec T F (uint pct) m"
proof -
  define R where "R = F * uint pct div 100"
  have R: "0 \<le> R" "R \<le> F" unfolding R_def using percent_share [OF assms(1) _ assms(4)] by simp_all
  define user ref man :: u64 where "user = word_of_int (T - F)" and "ref = word_of_int R"
    and "man = word_of_int (F - R)"
  have w: "uint user = T - F" "uint ref = R" "uint man = F - R"
    unfolding user_def ref_def man_def using R assms by (intro u64_of_int; linarith)+
  have new: "new = word_of_int T" using assms(5) by auto
  have steps: "checked_sub new fee = Some user" "referral_share fee pct = Some ref"
      "checked_sub fee ref = Some man"
    using w assms by (simp_all add: checked_simps referral_share_Some R_def)
  have sum: "saturating_add (saturating_add user man) ref = new"
    using w R assms by (simp add: word_uint_eq_iff uint_saturating_add)
  have user0: "user = 0 \<longleftrightarrow> T = F" and less: "user < k \<longleftrightarrow> T - F < uint k" for k
    using w by (simp_all add: word_zero_uint word_less_def)
  show ?thesis
    unfolding split_spec_def steps ok_or_simps tri_simps new [symmetric] R_def [symmetric]
      user_def [symmetric] ref_def [symmetric] man_def [symmetric]
    using assms(3) by (simp add: check_split_def sum user0 less split: option.split)
qed

lemma sol_deposit_split_eq:
  assumes "fees_ok p"
  shows "sol_deposit_split p l m =
    (let T = deposit_value p (uint l)
     in split_spec T (ceil_fee (sp_sol_deposit_fee p) T) (uint (sp_sol_referral_fee p)) m)"
proof -
  let ?T = "deposit_value p (uint l)" let ?F = "ceil_fee (sp_sol_deposit_fee p) ?T"
  have T: "0 \<le> ?T" by (simp add: deposit_value_nonneg)
  have F: "0 \<le> ?F" "?F \<le> ?T" using assms T by (simp_all add: fees_ok_def ceil_fee_nonneg ceil_fee_le)
  have pct: "uint (sp_sol_referral_fee p) \<le> 100" using assms by (simp add: fees_ok_def word_le_def)
  note new = option_of_uint [OF calc_pool_tokens_for_deposit_Some T]
  show ?thesis
  proof (cases "?T < 2 ^ 64")
    case True
    obtain fee where fee: "calc_pool_tokens_sol_deposit_fee p (word_of_int ?T) = Some fee" "uint fee = ?F"
      using u64_of_int [of ?F] u64_of_int [of ?T] T F True by (simp add: fee_calcs_Some)
    show ?thesis
      using split_tail [OF F True pct u64_of_int [OF T True] fee(2), of "spe CalculationFailure" m] True
      by (simp add: sol_deposit_split_def new fee calc_pool_tokens_sol_referral_fee_def Let_def)
  next
    case False
    then show ?thesis by (simp add: sol_deposit_split_def new split_spec_def)
  qed
qed

lemma deposit_value_mono:
  assumes "0 \<le> a" "a \<le> b"
  shows "deposit_value p a \<le> deposit_value p b"
  using assms by (auto simp: deposit_value_def intro!: zdiv_mono1 mult_right_mono simp: order_less_le)

lemma stake_deposit_split_eq:
  assumes "fees_ok p" "stake \<le> whole"
  shows "stake_deposit_split p whole stake m =
    (let T = deposit_value p (uint whole); S = deposit_value p (uint stake)
     in split_spec T (ceil_fee (sp_stake_deposit_fee p) S + ceil_fee (sp_sol_deposit_fee p) (T - S))
          (uint (sp_stake_referral_fee p)) m)"
proof -
  let ?T = "deposit_value p (uint whole)" let ?S = "deposit_value p (uint stake)"
  let ?A = "ceil_fee (sp_stake_deposit_fee p) ?S" let ?B = "ceil_fee (sp_sol_deposit_fee p) (?T - ?S)"
  have S: "0 \<le> ?S" "?S \<le> ?T" 
    using assms(2) by (simp_all add: deposit_value_nonneg deposit_value_mono word_le_def)
  then have T: "0 \<le> ?T" by linarith
  have A: "0 \<le> ?A" "?A \<le> ?S" using assms S by (simp_all add: fees_ok_def ceil_fee_nonneg ceil_fee_le)
  have B: "0 \<le> ?B" "?B \<le> ?T - ?S" using assms S by (simp_all add: fees_ok_def ceil_fee_nonneg ceil_fee_le)
  have pct: "uint (sp_stake_referral_fee p) \<le> 100" using assms by (simp add: fees_ok_def word_le_def)
  note new = option_of_uint [OF calc_pool_tokens_for_deposit_Some T]
  show ?thesis
  proof (cases "?T < 2 ^ 64")
    case True
    define t s d a b f :: u64 where "t = word_of_int ?T" and "s = word_of_int ?S"
      and "d = word_of_int (?T - ?S)" and "a = word_of_int ?A" and "b = word_of_int ?B"
      and "f = word_of_int (?A + ?B)"
    have u: "uint t = ?T" "uint s = ?S" "uint d = ?T - ?S" "uint a = ?A" "uint b = ?B" "uint f = ?A + ?B"
      unfolding t_def s_def d_def a_def b_def f_def using True S A B by (intro u64_of_int; linarith)+
    have steps: "calc_pool_tokens_for_deposit p whole = Some t" "calc_pool_tokens_for_deposit p stake = Some s"
        "checked_sub t s = Some d" "calc_pool_tokens_stake_deposit_fee p s = Some a"
        "calc_pool_tokens_sol_deposit_fee p d = Some b" "checked_add a b = Some f"
      using u by (simp_all add: calc_pool_tokens_for_deposit_Some checked_simps fee_calcs_Some)
    have "0 \<le> ?A + ?B" "?A + ?B \<le> ?T" using A B by linarith+
    from split_tail [OF this True pct u(1,6), of "spe CalculationFailure" m] show ?thesis
      by (simp add: stake_deposit_split_def steps calc_pool_tokens_stake_referral_fee_def Let_def)
  next
    case False
    then show ?thesis by (simp add: stake_deposit_split_def new split_spec_def)
  qed
qed

section \<open>Successful runs\<close>

lemma check_split_Inr [inversions]:
  "check_split m s = Inr s' \<longleftrightarrow> s' = s
     \<and> saturating_add (saturating_add (ts_user s) (ts_manager s)) (ts_referral s) = ts_new s
     \<and> ts_user s \<noteq> 0 \<and> pred_option (\<lambda>k. k \<le> ts_user s) m"
  by (auto simp: check_split_def not_less split: option.splits)

text \<open>What every successful division guarantees, whatever the fees are.\<close>

definition good_split :: "u64 option \<Rightarrow> token_split \<Rightarrow> bool" where
  "good_split m s \<longleftrightarrow>
     uint (ts_user s) + uint (ts_manager s) + uint (ts_referral s) = uint (ts_new s)
     \<and> ts_user s \<noteq> 0 \<and> pred_option (\<lambda>k. k \<le> ts_user s) m"

lemma sol_split_good:
  assumes "sol_deposit_split p l m = Inr s"
  shows "uint (ts_new s) = deposit_value p (uint l)" "good_split m s"
  using assms
  by (auto simp: sol_deposit_split_def inversions calc_pool_tokens_for_deposit_Some checked_simps good_split_def)

lemma stake_split_good:
  assumes "stake_deposit_split p l sl m = Inr s"
  shows "uint (ts_new s) = deposit_value p (uint l)" "good_split m s"
  using assms
  by (auto simp: stake_deposit_split_def inversions calc_pool_tokens_for_deposit_Some checked_simps good_split_def)

lemma credit_pool_step:
  assumes "credit_pool p t l = Inr p'" "uint t = deposit_value p (uint l)"
  shows "pool_step (Depositing (uint l)) p p'"
  using assms
  by (auto simp: credit_pool_def inversions checked_simps intro!: step_deposit)

lemma deposit_keeps:
  assumes "cpi_law E pid"
  shows "keeps pid w (mint_split E p pool token mint auth user man ref s w)"
    and "keeps pid w (take_deposited_stake E k pool stake dep auth clock w)"
    and "keeps pid w (unwrap_wsol E a b c d e f seeds n w)"
  using assms keeps_calls [OF assms]
  by (auto simp: mint_split_def take_deposited_stake_def unwrap_wsol_def Let_def split: prod.split
      intro!: keeps_tri keeps_reads keeps_if keeps_invoke)

lemmas deposit_frame = deposit_keeps [THEN keepsD]

lemma deposit_sol_success:
  assumes run: "process_deposit_sol E pid accts l m wsol w = Inr w'" and law: "cpi_law E pid"
  obtains pool auth reserve src user man ref mint sys token rest p epoch s p' wa w1 where
    "accts = pool # auth # reserve # src # user # man # ref # mint # sys # token # rest"
    "owner_of w pool = pid" "load_pool w pool = Inr p" "sp_is_valid p"
    "e_clock_get E = Inr epoch" "\<not> sp_last_update_epoch p < epoch"
    "ai_key reserve = sp_reserve_stake p" "ai_key mint = sp_pool_mint p"
    "ai_key man = sp_manager_fee_account p"
    "sol_deposit_split p l m = Inr s" "credit_pool p (ts_new s) l = Inr p'"
    "(if wsol then Inr w else sol_transfer E w src reserve l) = Inr wa"
    "mint_split E p pool token mint auth user man ref s wa = Inr w1"
    "store_pool w1 pool p' = Inr w'" "owned_frame pid {} w w1"
proof -
  obtain pool auth reserve src user man ref mint sys token rest p epoch s p' wa w1 where
    accts: "accts = pool # auth # reserve # src # user # man # ref # mint # sys # token # rest"
    and facts: "owner_of w pool = pid" "load_pool w pool = Inr p" "sp_is_valid p"
      "e_clock_get E = Inr epoch" "\<not> sp_last_update_epoch p < epoch"
      "ai_key reserve = sp_reserve_stake p" "ai_key mint = sp_pool_mint p"
      "ai_key man = sp_manager_fee_account p"
      "sol_deposit_split p l m = Inr s" "credit_pool p (ts_new s) l = Inr p'"
    and tr: "(if wsol then Inr w else sol_transfer E w src reserve l) = Inr wa"
    and mints: "mint_split E p pool token mint auth user man ref s wa = Inr w1"
    and st: "store_pool w1 pool p' = Inr w'"
    using run by (auto simp: process_deposit_sol_def inversions Let_def cong: if_cong)
  have "owned_frame pid {} w wa"
    using tr calls_frame(12) [OF law] by (auto split: if_splits)
  then have "owned_frame pid {} w w1"
    by (rule owned_frame_trans [OF _ deposit_frame(1) [OF law mints]])
  then show thesis by (rule that [OF accts facts tr mints st])
qed

text \<open>Every step of a successful deposit of stake: the stores between the calls and the amounts read from them.\<close>

lemma deposit_stake_run:
  assumes run: "process_deposit_stake E pid accts m w = Inr w'"
  obtains pool list dep auth stake vstake reserve user man ref mint clock hist token prog rest
      p epoch h bv meta d i v wa wb meta' d' l sl x s wc w1 p' w2 where
    "accts = pool # list # dep # auth # stake # vstake # reserve # user # man # ref # mint
       # clock # hist # token # prog # rest"
    "owner_of w pool = pid" "load_pool w pool = Inr p" "sp_is_valid p"
    "e_clock_from_account_info E w clock = Inr epoch" "\<not> sp_last_update_epoch p < epoch"
    "ai_key dep = sp_stake_deposit_authority p" "ai_key list = sp_validator_list p"
    "ai_key reserve = sp_reserve_stake p" "ai_key mint = sp_pool_mint p" "ai_key man = sp_manager_fee_account p"
    "owner_of w list = pid" "load_list w list = Inr (h, bv)" "header_is_valid h"
    "e_decode_stake E (data_of w vstake) = Inr (StakeDelegated meta d)"
    "pred_option (\<lambda>k. k = del_voter_pubkey d) (sp_preferred_deposit_validator_vote_address p)"
    "find_validator_mut bv (del_voter_pubkey d) = Inr (Some (i, v))"
    "check_validator_stake_address E pid (ai_key pool) (ai_key vstake) (del_voter_pubkey d)
       (NonZeroU32_new (vsi_validator_seed_suffix v)) = Inr ()"
    "vsi_status v = status_to_u8 Active"
    "take_deposited_stake E pid pool stake dep auth clock w = Inr wa"
    "stake_merge E wa (ai_key pool) stake auth AUTHORITY_WITHDRAW (sp_stake_withdraw_bump_seed p)
       vstake clock hist = Inr wb"
    "e_decode_stake E (data_of wb vstake) = Inr (StakeDelegated meta' d')"
    "uint (lamports_of wb vstake) = uint (lamports_of w vstake) + uint l"
    "uint (del_stake d') = uint (del_stake d) + uint sl" "uint l = uint sl + uint x"
    "stake_deposit_split p l sl m = Inr s"
    "mint_split E p pool token mint auth user man ref s wb = Inr wc"
    "(if x > 0 then stake_withdraw E wc (ai_key pool) vstake auth AUTHORITY_WITHDRAW
        (sp_stake_withdraw_bump_seed p) reserve clock hist x else Inr wc) = Inr w1"
    "credit_pool p (ts_new s) l = Inr p'" "store_pool w1 pool p' = Inr w2"
    "w' = store_validator w2 list h bv i (v\<lparr>vsi_active_stake_lamports := lamports_of w2 vstake\<rparr>)"
proof -
  obtain pool list dep auth stake vstake reserve user man ref mint clock hist token prog rest
      p epoch h bv meta d i v wa wb meta' d' l sl x s wc w1 p' w2 dec where
    accts: "accts = pool # list # dep # auth # stake # vstake # reserve # user # man # ref # mint
        # clock # hist # token # prog # rest"
    and facts: "owner_of w pool = pid" "load_pool w pool = Inr p" "sp_is_valid p"
      "e_clock_from_account_info E w clock = Inr epoch" "\<not> sp_last_update_epoch p < epoch"
      "ai_key dep = sp_stake_deposit_authority p" "ai_key list = sp_validator_list p"
      "ai_key reserve = sp_reserve_stake p"
    and mint: "check_mint E w p mint = Inr dec" and man: "ai_key man = sp_manager_fee_account p"
    and facts2: "owner_of w list = pid" "load_list w list = Inr (h, bv)" "header_is_valid h"
      "e_decode_stake E (data_of w vstake) = Inr (StakeDelegated meta d)"
    and pref: "check_preferred_deposit p (del_voter_pubkey d) = Inr ()"
    and found: "find_validator_mut bv (del_voter_pubkey d) = Inr (Some (i, v))"
      "check_validator_stake_address E pid (ai_key pool) (ai_key vstake) (del_voter_pubkey d)
         (NonZeroU32_new (vsi_validator_seed_suffix v)) = Inr ()"
      "vsi_status v = status_to_u8 Active"
      "take_deposited_stake E pid pool stake dep auth clock w = Inr wa"
      "stake_merge E wa (ai_key pool) stake auth AUTHORITY_WITHDRAW
        (sp_stake_withdraw_bump_seed p) vstake clock hist = Inr wb"
      "e_decode_stake E (data_of wb vstake) = Inr (StakeDelegated meta' d')"
    and subs: "checked_sub (lamports_of wb vstake) (lamports_of w vstake) = Some l"
      "checked_sub (del_stake d') (del_stake d) = Some sl" "checked_sub l sl = Some x"
    and ends: "stake_deposit_split p l sl m = Inr s" "mint_split E p pool token mint auth user man ref s wb = Inr wc"
      "(if x > 0 then stake_withdraw E wc (ai_key pool) vstake auth AUTHORITY_WITHDRAW
          (sp_stake_withdraw_bump_seed p) reserve clock hist x else Inr wc) = Inr w1"
      "credit_pool p (ts_new s) l = Inr p'" "store_pool w1 pool p' = Inr w2"
      "w' = store_validator w2 list h bv i (v\<lparr>vsi_active_stake_lamports := lamports_of w2 vstake\<rparr>)"
    using run by (auto simp: process_deposit_stake_def inversions Let_def cong: if_cong)
  have sums: "uint (lamports_of wb vstake) = uint (lamports_of w vstake) + uint l"
      "uint (del_stake d') = uint (del_stake d) + uint sl" "uint l = uint sl + uint x"
    using subs by (auto simp: checked_simps)
  have mint': "ai_key mint = sp_pool_mint p" using mint by (auto simp: check_mint_def split: if_splits)
  have pref': "pred_option (\<lambda>k. k = del_voter_pubkey d) (sp_preferred_deposit_validator_vote_address p)"
    using pref by (auto simp: check_preferred_deposit_def split: option.splits if_splits)
  show thesis by (rule that [OF accts facts mint' man facts2 pref' found sums ends])
qed

lemma deposit_stake_success:
  assumes run: "process_deposit_stake E pid accts m w = Inr w'" and law: "cpi_law E pid"
  obtains pool list dep auth stake vstake rest p epoch h bv meta d i v l sl s p' w1 w2 where
    "accts = pool # list # dep # auth # stake # vstake # rest"
    "owner_of w pool = pid" "load_pool w pool = Inr p" "sp_is_valid p"
    "\<not> sp_last_update_epoch p < epoch" "ai_key dep = sp_stake_deposit_authority p"
    "ai_key list = sp_validator_list p" "owner_of w list = pid"
    "load_list w list = Inr (h, bv)" "header_is_valid h"
    "e_decode_stake E (data_of w vstake) = Inr (StakeDelegated meta d)"
    "pred_option (\<lambda>k. k = del_voter_pubkey d) (sp_preferred_deposit_validator_vote_address p)"
    "find_validator_mut bv (del_voter_pubkey d) = Inr (Some (i, v))"
    "vsi_status v = status_to_u8 Active"
    "sl \<le> l" "stake_deposit_split p l sl m = Inr s" "credit_pool p (ts_new s) l = Inr p'"
    "store_pool w1 pool p' = Inr w2"
    "w' = store_validator w2 list h bv i (v\<lparr>vsi_active_stake_lamports := lamports_of w2 vstake\<rparr>)"
    "owned_frame pid {} w w1"
  using run
proof (rule deposit_stake_run)
  fix pool list dep auth stake vstake reserve user man ref mint clock hist token prog rest
    p epoch h bv meta d i v wa wb meta' d' l sl x s wc w1 p' w2
  assume accts: "accts = pool # list # dep # auth # stake # vstake # reserve # user # man # ref # mint
       # clock # hist # token # prog # rest"
    and facts: "owner_of w pool = pid" "load_pool w pool = Inr p" "sp_is_valid p"
      "\<not> sp_last_update_epoch p < epoch" "ai_key dep = sp_stake_deposit_authority p"
      "ai_key list = sp_validator_list p" "owner_of w list = pid" "load_list w list = Inr (h, bv)"
      "header_is_valid h" "e_decode_stake E (data_of w vstake) = Inr (StakeDelegated meta d)"
      "pred_option (\<lambda>k. k = del_voter_pubkey d) (sp_preferred_deposit_validator_vote_address p)"
      "find_validator_mut bv (del_voter_pubkey d) = Inr (Some (i, v))" "vsi_status v = status_to_u8 Active"
    and take: "take_deposited_stake E pid pool stake dep auth clock w = Inr wa"
    and merge: "stake_merge E wa (ai_key pool) stake auth AUTHORITY_WITHDRAW
        (sp_stake_withdraw_bump_seed p) vstake clock hist = Inr wb"
    and sum: "uint l = uint sl + uint x"
    and mints: "mint_split E p pool token mint auth user man ref s wb = Inr wc"
    and refund: "(if x > 0 then stake_withdraw E wc (ai_key pool) vstake auth AUTHORITY_WITHDRAW
        (sp_stake_withdraw_bump_seed p) reserve clock hist x else Inr wc) = Inr w1"
    and ends: "stake_deposit_split p l sl m = Inr s" "credit_pool p (ts_new s) l = Inr p'"
      "store_pool w1 pool p' = Inr w2"
      "w' = store_validator w2 list h bv i (v\<lparr>vsi_active_stake_lamports := lamports_of w2 vstake\<rparr>)"
  have "owned_frame pid {} wc w1"
    using refund calls_frame(8) [OF law] by (auto split: if_splits)
  then have frame: "owned_frame pid {} w w1"
    using deposit_frame(2) [OF law take] calls_frame(5) [OF law merge] deposit_frame(1) [OF law mints]
    by (blast intro: owned_frame_trans)
  have "sl \<le> l" using sum by (simp add: word_le_def)
  then show thesis by (rule that [OF accts facts _ ends frame])
qed

lemma deposit_wsol_success:
  assumes run: "process_deposit_wsol_with_session E pid accts l w = Inr w'" and law: "cpi_law E pid"
  obtains pool rest rest' w1 where "accts = pool # rest" "owned_frame pid {} w w1"
    "process_deposit_sol E pid (pool # rest') l None True w1 = Inr w'"
proof -
  obtain pool auth reserve to man ref mint sys token sess wmint payer uw tw ps rest rent ss seeds
      wa wb wc w1 where
    accts: "accts = pool # auth # reserve # to # man # ref # mint # sys # token # sess # wmint
        # payer # uw # tw # ps # rest"
    and pda: "e_create_pda_account E payer rent (e_token_account_len E) (ai_key token) sys tw ss w = Inr wa"
    and unwrap: "unwrap_wsol E token wmint uw tw sess ps seeds l wa = Inr wb"
    and calls: "e_invoke_signed E (SystemTransfer (ai_key ps) (ai_key payer)
          (rent_minimum_balance rent (e_token_account_len E))) [ps, payer, sys] [seeds] wb = Inr wc"
      "e_invoke_signed E (SystemTransfer (ai_key ps) (ai_key reserve) l) [ps, reserve, sys] [seeds] wc
         = Inr w1"
    and dep: "process_deposit_sol E pid (pool # auth # reserve # reserve # to # man # ref # mint # sys
        # token # (case rest of [] \<Rightarrow> [] | a # _ \<Rightarrow> [a])) l None True w1 = Inr w'"
    using run by (auto simp: process_deposit_wsol_with_session_def inversions Let_def cong: if_cong)
  have "owned_frame pid {} wb wc" "owned_frame pid {} wc w1"
    using calls keeps_invoke [OF law, THEN keepsD] by blast+
  then have "owned_frame pid {} w w1"
    using calls_frame(14) [OF law pda] deposit_frame(3) [OF law unwrap] by (blast intro: owned_frame_trans)
  then show thesis using that accts dep by blast
qed

section \<open>The handlers implement deposits\<close>

definition depositing :: "action \<Rightarrow> bool" where
  "depositing a \<longleftrightarrow> (\<exists>l\<ge>0. a = Depositing l)"

lemma depositing_uint [simp]: "depositing (Depositing (uint l))"
  by (simp add: depositing_def)

interpretation deposit_sol: pool_handler
    "\<lambda>E pid accts. process_deposit_sol E pid accts l m wsol" depositing for l m wsol
proof
  fix E pid accts w w'
  assume law: "cpi_law E pid" and run: "process_deposit_sol E pid accts l m wsol w = Inr w'"
  from run law show "pool_contract pid accts (step_of depositing) w w'"
    by (rule deposit_sol_success)
      (auto intro!: contract_writes [where a = "Depositing (uint l)"] credit_pool_step sol_split_good(1))
qed

interpretation deposit_wsol: pool_handler
    "\<lambda>E pid accts. process_deposit_wsol_with_session E pid accts l" depositing for l
proof
  fix E pid accts w w'
  assume law: "cpi_law E pid" and run: "process_deposit_wsol_with_session E pid accts l w = Inr w'"
  from run law show "pool_contract pid accts (step_of depositing) w w'"
  proof (rule deposit_wsol_success)
    fix pool rest rest' w1
    assume accts: "accts = pool # rest" and f: "owned_frame pid {} w w1"
      and dep: "process_deposit_sol E pid (pool # rest') l None True w1 = Inr w'"
    from contract_after_frame [OF f deposit_sol.contract [OF law dep]]
    show ?thesis unfolding accts by (rule pool_contract_pool) 
  qed
qed

lemma stake_deposit_step:
  assumes "stake_deposit_split p l sl m = Inr s" "credit_pool p (ts_new s) l = Inr p'"
  shows "step_of depositing p p'" and "sp_is_valid p \<Longrightarrow> sp_is_valid p'"
proof -
  have st: "pool_step (Depositing (uint l)) p p'"
    by (rule credit_pool_step [OF assms(2) stake_split_good(1) [OF assms(1)]])
  show "step_of depositing p p'" by (rule step_ofI [OF st]) simp
  show "sp_is_valid p \<Longrightarrow> sp_is_valid p'" by (rule step_valid [OF st])
qed

interpretation deposit_stake: pool_handler
    "\<lambda>E pid accts. process_deposit_stake E pid accts m" depositing for m
proof
  fix E pid accts w w'
  assume law: "cpi_law E pid" and run: "process_deposit_stake E pid accts m w = Inr w'"
  from run law show "pool_contract pid accts (step_of depositing) w w'"
    by (rule deposit_stake_success)
      (auto simp: store_validator_def stake_deposit_step intro!: contract_store_both)
qed

section \<open>Properties\<close>

text \<open>
  C23. The division of the tokens that a deposit mints, exactly and with every error: the tokens are
  the deposit's share of the pool rounded down, the fee is rounded up, the referrer's part of the
  fee is rounded down, manager and depositor get the rest. A deposit of stake pays the stake fee on
  the part that is delegated and the other fee on the part that is not. The only failures are an
  amount beyond 64 bits, nothing left for the depositor, and less than the depositor demands.
\<close>

theorem deposit_split_exact:
  assumes "fees_ok p"
  shows "sol_deposit_split p l m =
      (let T = deposit_value p (uint l)
       in split_spec T (ceil_fee (sp_sol_deposit_fee p) T) (uint (sp_sol_referral_fee p)) m)
    \<and> (stake \<le> l \<longrightarrow> stake_deposit_split p l stake m =
      (let T = deposit_value p (uint l); S = deposit_value p (uint stake)
       in split_spec T
            (ceil_fee (sp_stake_deposit_fee p) S + ceil_fee (sp_sol_deposit_fee p) (T - S))
            (uint (sp_stake_referral_fee p)) m))"
  using sol_deposit_split_eq [OF assms] stake_deposit_split_eq [OF assms] by blast

theorem deposit_split_exact_witness:
  "sol_deposit_split sample_pool 100000 (Some 66000)
     = Inr \<lparr>ts_new = 66666, ts_user = 66599, ts_manager = 34, ts_referral = 33\<rparr>
   \<and> stake_deposit_split sample_pool 100000 40000 (Some 66000)
     = Inr \<lparr>ts_new = 66666, ts_user = 66599, ts_manager = 34, ts_referral = 33\<rparr>"
  using deposit_split_exact [OF sample_fees_ok, of 100000 "Some 66000" 40000]
  by (simp add: deposit_value_def ceil_fee_def split_spec_def sample_pool_def)

text \<open>
  C7. A successful deposit of lamports to an up-to-date pool moves the lamports into the reserve
  (unless they were moved before) and then mints to depositor, manager and referrer parts that add
  up exactly to the tokens the deposit is worth; the pool's record grows by those tokens and those
  lamports and by nothing else, and the depositor gets at least what was demanded.
\<close>

theorem deposit_sol_credits:
  assumes "process_deposit_sol E pid
      (pool # auth # reserve # src # user # man # ref # mint # sys # token # rest) l m wsol w = Inr w'"
    and "cpi_law E pid"
  shows "\<exists>p t n epoch s wa w1. load_pool w pool = Inr p \<and> e_clock_get E = Inr epoch
    \<and> epoch \<le> sp_last_update_epoch p
    \<and> ai_key reserve = sp_reserve_stake p \<and> ai_key mint = sp_pool_mint p
    \<and> ai_key man = sp_manager_fee_account p
    \<and> sol_deposit_split p l m = Inr s \<and> uint (ts_new s) = deposit_value p (uint l) \<and> good_split m s
    \<and> (if wsol then Inr w else sol_transfer E w src reserve l) = Inr wa
    \<and> mint_split E p pool token mint auth user man ref s wa = Inr w1
    \<and> uint t = pool_total p + uint l \<and> uint n = pool_supply p + uint (ts_new s)
    \<and> load_pool w' pool = Inr (p\<lparr>sp_pool_token_supply := n, sp_total_lamports := t\<rparr>)"
  using assms
proof (rule deposit_sol_success)
  fix pool' auth' reserve' src' user' man' ref' mint' sys' token' rest' p epoch s p' wa w1
  assume eq: "pool # auth # reserve # src # user # man # ref # mint # sys # token # rest
      = pool' # auth' # reserve' # src' # user' # man' # ref' # mint' # sys' # token' # rest'"
    and facts: "load_pool w pool' = Inr p" "e_clock_get E = Inr epoch" "\<not> sp_last_update_epoch p < epoch"
      "ai_key reserve' = sp_reserve_stake p" "ai_key mint' = sp_pool_mint p"
      "ai_key man' = sp_manager_fee_account p"
      "(if wsol then Inr w else sol_transfer E w src' reserve' l) = Inr wa"
      "mint_split E p pool' token' mint' auth' user' man' ref' s wa = Inr w1"
    and split: "sol_deposit_split p l m = Inr s"
    and credit: "credit_pool p (ts_new s) l = Inr p'" and st: "store_pool w1 pool' p' = Inr w'"
  obtain t n where "uint t = pool_total p + uint l" "uint n = pool_supply p + uint (ts_new s)"
      "p' = p\<lparr>sp_pool_token_supply := n, sp_total_lamports := t\<rparr>"
    using credit by (auto simp: credit_pool_def inversions checked_simps)
  with facts split sol_split_good [OF split] load_store_pool [OF st] eq show ?thesis
    unfolding not_less list.inject by (elim conjE, hypsubst) (intro exI conjI)
qed

lemma sample_deposit_runs:
  "\<exists>w'. process_deposit_sol sample_env 99 [acct 1, acct 50, acct 15, signer 30, acct 31, acct 17,
     acct 32, acct 16, acct 5, acct 18] 100000 (Some 66000) False sample_world = Inr w'"
proof -
  have split: "sol_deposit_split sample_pool 100000 (Some 66000)
     = Inr \<lparr>ts_new = 66666, ts_user = 66599, ts_manager = 34, ts_referral = 33\<rparr>"
    unfolding sol_deposit_split_eq [OF sample_fees_ok]
    by (simp add: deposit_value_def ceil_fee_def split_spec_def sample_pool_def)
  have credit: "credit_pool sample_pool 66666 100000
     = Inr (sample_pool\<lparr>sp_pool_token_supply := 2066666, sp_total_lamports := 3100000\<rparr>)"
    by (simp add: credit_pool_def sample_pool_def checked_add_def)
  have "length (ser_stake_pool (sample_pool\<lparr>sp_pool_token_supply := 2066666, sp_total_lamports := 3100000\<rparr>))
      \<le> length (ser_stake_pool sample_pool) + 200"
    by (simp add: ser_stake_pool_def ser_u64_def)
  from sample_store [OF this] show ?thesis
    by (simp add: process_deposit_sol_def sample_simps split credit check_account_owner_def
        check_authority_withdraw_def check_program_derived_authority_def check_mint_def
        check_sol_deposit_authority_def sample_pool_def [THEN arg_cong [where f = sp_sol_deposit_authority]]
        check_reserve_stake_def check_system_program_def sol_transfer_def invoke_def mint_split_def
        token_mint_to_def cong: tri_weak_cong)
qed

theorem deposit_sol_credits_witness:
  "\<exists>w' p'. process_deposit_sol sample_env 99 [acct 1, acct 50, acct 15, signer 30, acct 31, acct 17,
     acct 32, acct 16, acct 5, acct 18] 100000 (Some 66000) False sample_world = Inr w'
   \<and> load_pool w' (acct 1) = Inr p' \<and> pool_total p' = 3100000 \<and> pool_supply p' = 2066666"
proof -
  obtain w' where w': "process_deposit_sol sample_env 99 [acct 1, acct 50, acct 15, signer 30, acct 31,
      acct 17, acct 32, acct 16, acct 5, acct 18] 100000 (Some 66000) False sample_world = Inr w'"
    using sample_deposit_runs by blast
  from deposit_sol_credits [OF w' sample_law] show ?thesis
    using w' by (auto simp: sample_load deposit_value_def) (auto simp: sample_pool_def)
qed

text \<open>
  C8. A successful deposit of stake needs the deposit authority of the pool and an active validator,
  the preferred one if there is a preference, whose account is the one given. The stake is taken over and merged into that
  account. What counts as deposited is what the account's balance gained by that; it is minted for by the
  exact division, to the user, the manager and the referrer, and added to the pool. What the gain
  exceeds the gained delegation by moves on to the reserve. In the list only the record of that
  validator changes, and its active lamports are then what its account holds; the list keeps its invariant.
\<close>

theorem deposit_stake_credits:
  assumes "process_deposit_stake E pid (pool # list # dep # auth # stake # vstake # reserve # user # man # ref
      # mint # clock # hist # token # prog # rest) m w = Inr w'"
    and "cpi_law E pid" and "load_list w list = Inr (h, bv)" and "list_inv h bv"
  shows "\<exists>p epoch meta d k v wa wb meta' d' l sl x s wc w1 t n bv'. load_pool w pool = Inr p
    \<and> e_clock_from_account_info E w clock = Inr epoch \<and> epoch \<le> sp_last_update_epoch p
    \<and> ai_key dep = sp_stake_deposit_authority p \<and> ai_key reserve = sp_reserve_stake p
    \<and> ai_key mint = sp_pool_mint p \<and> ai_key man = sp_manager_fee_account p
    \<and> e_decode_stake E (data_of w vstake) = Inr (StakeDelegated meta d)
    \<and> pred_option (\<lambda>vote. vote = del_voter_pubkey d) (sp_preferred_deposit_validator_vote_address p)
    \<and> k < bv_count bv \<and> v = vlist bv ! k \<and> vsi_vote_account_address v = del_voter_pubkey d
    \<and> vsi_status v = status_to_u8 Active
    \<and> check_validator_stake_address E pid (ai_key pool) (ai_key vstake) (del_voter_pubkey d)
        (NonZeroU32_new (vsi_validator_seed_suffix v)) = Inr ()
    \<and> take_deposited_stake E pid pool stake dep auth clock w = Inr wa
    \<and> stake_merge E wa (ai_key pool) stake auth AUTHORITY_WITHDRAW (sp_stake_withdraw_bump_seed p)
        vstake clock hist = Inr wb
    \<and> e_decode_stake E (data_of wb vstake) = Inr (StakeDelegated meta' d')
    \<and> uint (lamports_of wb vstake) = uint (lamports_of w vstake) + uint l
    \<and> uint (del_stake d') = uint (del_stake d) + uint sl \<and> uint l = uint sl + uint x
    \<and> stake_deposit_split p l sl m = Inr s \<and> uint (ts_new s) = deposit_value p (uint l) \<and> good_split m s
    \<and> mint_split E p pool token mint auth user man ref s wb = Inr wc
    \<and> (if x > 0 then stake_withdraw E wc (ai_key pool) vstake auth AUTHORITY_WITHDRAW
          (sp_stake_withdraw_bump_seed p) reserve clock hist x else Inr wc) = Inr w1
    \<and> uint t = pool_total p + uint l \<and> uint n = pool_supply p + uint (ts_new s)
    \<and> load_pool w' pool = Inr (p\<lparr>sp_pool_token_supply := n, sp_total_lamports := t\<rparr>)
    \<and> load_list w' list = Inr (h, bv') \<and> list_inv h bv'
    \<and> vlist bv' = (vlist bv)[k := v\<lparr>vsi_active_stake_lamports := lamports_of w1 vstake\<rparr>]
    \<and> lamports_of w' vstake = lamports_of w1 vstake"
  using assms(1)
proof (rule deposit_stake_run)
  fix pool' list' dep' auth' stake' vstake' reserve' user' man' ref' mint' clock' hist' token' prog' rest'
    p epoch h' b meta d i v wa wb meta' d' l sl x s wc w1 p' w2
  assume eq: "pool # list # dep # auth # stake # vstake # reserve # user # man # ref # mint # clock # hist
        # token # prog # rest
      = pool' # list' # dep' # auth' # stake' # vstake' # reserve' # user' # man' # ref' # mint' # clock' # hist'
        # token' # prog' # rest'"
    and p: "load_pool w pool' = Inr p" "sp_is_valid p"
    and l: "load_list w list' = Inr (h', b)" "header_is_valid h'"
    and facts: "e_clock_from_account_info E w clock' = Inr epoch" "\<not> sp_last_update_epoch p < epoch"
      "ai_key dep' = sp_stake_deposit_authority p" "ai_key reserve' = sp_reserve_stake p"
      "ai_key mint' = sp_pool_mint p" "ai_key man' = sp_manager_fee_account p"
      "e_decode_stake E (data_of w vstake') = Inr (StakeDelegated meta d)"
      "pred_option (\<lambda>vote. vote = del_voter_pubkey d) (sp_preferred_deposit_validator_vote_address p)"
      "vsi_status v = status_to_u8 Active"
      "check_validator_stake_address E pid (ai_key pool') (ai_key vstake') (del_voter_pubkey d)
        (NonZeroU32_new (vsi_validator_seed_suffix v)) = Inr ()"
      "take_deposited_stake E pid pool' stake' dep' auth' clock' w = Inr wa"
      "stake_merge E wa (ai_key pool') stake' auth' AUTHORITY_WITHDRAW (sp_stake_withdraw_bump_seed p)
        vstake' clock' hist' = Inr wb"
      "e_decode_stake E (data_of wb vstake') = Inr (StakeDelegated meta' d')"
      "uint (lamports_of wb vstake') = uint (lamports_of w vstake') + uint l"
      "uint (del_stake d') = uint (del_stake d) + uint sl" "uint l = uint sl + uint x"
      "mint_split E p pool' token' mint' auth' user' man' ref' s wb = Inr wc"
      "(if x > 0 then stake_withdraw E wc (ai_key pool') vstake' auth' AUTHORITY_WITHDRAW
          (sp_stake_withdraw_bump_seed p) reserve' clock' hist' x else Inr wc) = Inr w1"
    and found: "find_validator_mut b (del_voter_pubkey d) = Inr (Some (i, v))"
    and split: "stake_deposit_split p l sl m = Inr s"
    and credit: "credit_pool p (ts_new s) l = Inr p'" and st: "store_pool w1 pool' p' = Inr w2"
    and w': "w' = store_validator w2 list' h' b i (v\<lparr>vsi_active_stake_lamports := lamports_of w2 vstake'\<rparr>)"
  note lam = store_pool_others(2) [OF st]
  let ?v = "v\<lparr>vsi_active_stake_lamports := lamports_of w1 vstake'\<rparr>"
  have b: "h' = h" "b = bv" using eq l(1) assms(3) by simp_all
  have "vsi_vote_account_address ?v = del_voter_pubkey d"
    using find_validator_mut_found [OF _ found] assms(4) b by (auto simp: list_inv_def)
  from list_inv_store [OF assms(4) found [unfolded b] this]
  obtain k where k: "k < bv_count bv" "v = vlist bv ! k" "vsi_vote_account_address v = del_voter_pubkey d"
    "list_inv h (overwrite i (enc_vsi ?v) bv)" "vlist (overwrite i (enc_vsi ?v) bv) = (vlist bv)[k := ?v]"
    by metis
  obtain t n where tn: "uint t = pool_total p + uint l" "uint n = pool_supply p + uint (ts_new s)"
      "p' = p\<lparr>sp_pool_token_supply := n, sp_total_lamports := t\<rparr>"
    using credit by (auto simp: credit_pool_def inversions checked_simps)
  have ne: "ai_key pool' \<noteq> ai_key list'" by (rule pool_not_list [OF p l])
  have pool: "load_pool w' pool' = Inr (p\<lparr>sp_pool_token_supply := n, sp_total_lamports := t\<rparr>)"
    using load_store_pool [OF st] ne by (simp add: w' tn(3) load_pool_def store_validator_def store_list_def)
  have list: "load_list w' list' = Inr (h, overwrite i (enc_vsi ?v) bv)"
    by (simp add: w' store_validator_def b lam)
  have holds: "lamports_of w' vstake' = lamports_of w1 vstake'"
    by (simp add: w' store_validator_def store_list_def lam)
  have eqs: "pool = pool'" "list = list'" "dep = dep'" "auth = auth'" "stake = stake'" "vstake = vstake'"
      "reserve = reserve'" "user = user'" "man = man'" "ref = ref'" "mint = mint'" "clock = clock'"
      "hist = hist'" "token = token'"
    using eq by simp_all
  from p(1) facts k split stake_split_good [OF split] tn(1,2) pool list holds show ?thesis
    unfolding eqs not_less
    by - (rule exI [of _ p], rule exI [of _ epoch], rule exI [of _ meta], rule exI [of _ d],
      rule exI [of _ k], rule exI [of _ v], rule exI [of _ wa], rule exI [of _ wb],
      rule exI [of _ meta'], rule exI [of _ d'], rule exI [of _ l], rule exI [of _ sl],
      rule exI [of _ x], rule exI [of _ s], rule exI [of _ wc], rule exI [of _ w1],
      rule exI [of _ t], rule exI [of _ n],
      rule exI [of _ "overwrite i (enc_vsi ?v) bv"], intro conjI)
qed

text \<open>
  For the witness the stake program merges: the account of the validator gains 100000 lamports, of
  which 40000 are delegated.
\<close>

definition sample_merged :: "world \<Rightarrow> world" where
  "sample_merged w = (if acc_owner (w 50) = 6
     then w(50 := \<lparr>acc_lamports = 8665760, acc_data = [5], acc_owner = 6\<rparr>) else w)"

definition sample_merge_env :: env where
  "sample_merge_env = sample_env\<lparr>
     e_decode_stake := (\<lambda>d. if d = [5]
       then Inr (StakeDelegated sample_meta (sample_delegation\<lparr>del_stake := 2040000\<rparr>))
       else e_decode_stake sample_env d),
     e_invoke_signed := (\<lambda>ix _ _ w. case ix of MergeStake _ _ _ \<Rightarrow> Inr (sample_merged w) | _ \<Rightarrow> Inr w)\<rparr>"

lemma sample_merge_law: "cpi_law sample_merge_env 99"
  by (auto simp: cpi_law_def sample_merge_env_def sample_merged_def owned_frame_def sample_env_def
      split: Instruction.splits)

lemma sample_merge_fields:
  "e_system_program_id sample_merge_env = 5" "e_stake_program_id sample_merge_env = 6"
  "e_find_program_address sample_merge_env ss k = (50, 7)"
  "e_create_program_address sample_merge_env ss k = Inr 50"
  "e_clock_from_account_info sample_merge_env w a = Inr 5"
  "e_decode_stake sample_merge_env [2] = Inr (StakeDelegated sample_meta sample_delegation)"
  "e_decode_stake sample_merge_env [5]
     = Inr (StakeDelegated sample_meta (sample_delegation\<lparr>del_stake := 2040000\<rparr>))"
  "e_unpack_mint sample_merge_env [3] = Inr sample_mint"
  "e_build_instruction sample_merge_env ix = Inr ()"
  "e_invoke_signed sample_merge_env (MergeStake a1 b1 c1) infos seeds w = Inr (sample_merged w)"
  "e_invoke_signed sample_merge_env (AuthorizeStake a1 b1 c1 d1) infos seeds w = Inr w"
  "e_invoke_signed sample_merge_env (TokenMintTo a1 b1 c1 d1' n1) infos seeds w = Inr w"
  "e_invoke_signed sample_merge_env (WithdrawStakeLamports a1 b1 c1 n1) infos seeds w = Inr w"
  by (simp_all add: sample_merge_env_def sample_env_def)

lemma sample_deposit_stake_runs:
  "\<exists>w'. process_deposit_stake sample_merge_env 99 [acct 1, acct 14, acct 13, acct 50, acct 61, acct 50,
     acct 15, acct 31, acct 17, acct 32, acct 16, acct 71, acct 72, acct 18, acct 6] None sample_world
   = Inr w'"
proof -
  let ?p = "sample_pool\<lparr>sp_pool_token_supply := 2066666, sp_total_lamports := 3100000\<rparr>"
  have split: "stake_deposit_split sample_pool 100000 40000 None
     = Inr \<lparr>ts_new = 66666, ts_user = 66599, ts_manager = 34, ts_referral = 33\<rparr>"
    using stake_deposit_split_eq [OF sample_fees_ok, of 40000 100000 None]
    by (simp add: deposit_value_def ceil_fee_def split_spec_def sample_pool_def)
  have credit: "credit_pool sample_pool 66666 100000 = Inr ?p"
    by (simp add: credit_pool_def sample_pool_def checked_add_def)
  have merged: "data_of (sample_merged sample_world) (acct 50) = [5]"
    "lamports_of (sample_merged sample_world) (acct 50) = 8665760"
    "data_of (sample_merged sample_world) (acct 1) = data_of sample_world (acct 1)"
    by (simp_all add: sample_merged_def sample_world_def data_of_def lamports_of_def acct_def)
  have "length (ser_stake_pool ?p) \<le> length (ser_stake_pool sample_pool) + 200"
    by (simp add: ser_stake_pool_def ser_u64_def)
  then have store: "\<exists>w'. store_pool (sample_merged sample_world) (acct 1) ?p = Inr w'"
    by (simp add: store_pool_def to_writer_def merged sample_accounts)
  have v: "vsi_status (sample_validators ! Suc 0) = 0"
    "sp_preferred_deposit_validator_vote_address sample_pool = None" "sp_stake_deposit_authority sample_pool = 13"
    by (simp_all add: sample_validators_def default_vsi_def sample_pool_def)
  have sub: "checked_sub 8665760 8565760 = Some (100000 :: u64)" "checked_sub 2040000 2000000 = Some (40000 :: u64)"
    "checked_sub 100000 40000 = Some (60000 :: u64)"
    by (simp_all add: checked_sub_def)
  show ?thesis
    using store
    by (auto simp: process_deposit_stake_def sample_simps sample_merge_fields split credit merged v sub
        sample_find check_account_owner_def get_stake_state_def check_authority_withdraw_def
        check_program_derived_authority_def check_mint_def check_stake_deposit_authority_def
        check_validator_list_def check_reserve_stake_def check_preferred_deposit_def
        check_stake_program_def check_validator_stake_address_def find_stake_program_address_def
        find_deposit_authority_program_address_def take_deposited_stake_def stake_authorize_def
        stake_merge_def mint_split_def token_mint_to_def stake_withdraw_def invoke_def cong: tri_weak_cong)
qed

theorem deposit_stake_credits_witness:
  "\<exists>w' bv'. process_deposit_stake sample_merge_env 99 [acct 1, acct 14, acct 13, acct 50, acct 61, acct 50,
     acct 15, acct 31, acct 17, acct 32, acct 16, acct 71, acct 72, acct 18, acct 6] None sample_world
   = Inr w' \<and> load_list w' (acct 14) = Inr (sample_header, bv') \<and> list_inv sample_header bv'"
proof -
  obtain w' where w': "process_deposit_stake sample_merge_env 99 [acct 1, acct 14, acct 13, acct 50, acct 61,
     acct 50, acct 15, acct 31, acct 17, acct 32, acct 16, acct 71, acct 72, acct 18, acct 6] None
     sample_world = Inr w'"
    using sample_deposit_stake_runs by blast
  from deposit_stake_credits [OF w' sample_merge_law sample_load(2) sample_list_inv] w'
  show ?thesis by metis
qed

end
