(* ===== verification/Withdrawals.thy ===== *)
theory Withdrawals
  imports Validators Deposits
begin

text \<open>
  Withdrawals (\<^verbatim>\<open>program/src/processor.rs\<close>): \<open>process_withdraw_stake\<close>, \<open>process_withdraw_sol\<close> and
  \<open>process_withdraw_wsol_with_session\<close>. The tokens burnt, the fee and the lamports paid out, and the
  choice of the stake account that a withdrawal must use, are definitions of their own.
\<close>

section \<open>Amounts\<close>

record withdrawal =
  wd_fee :: u64
  wd_burnt :: u64
  wd_lamports :: u64

text \<open>
  No fee is taken from the manager's own fee account, and none when that account cannot receive
  tokens, so that a bad fee account does not block withdrawals.
\<close>

definition withdrawal_fee_tokens ::
    "env \<Rightarrow> world \<Rightarrow> (StakePool \<Rightarrow> u64 \<Rightarrow> u64 option) \<Rightarrow> StakePool \<Rightarrow> AccountInfo \<Rightarrow> AccountInfo \<Rightarrow> u64
      \<Rightarrow> u64 result" where
  "withdrawal_fee_tokens E w calc_fee stake_pool burn_from_pool_info manager_fee_info pool_tokens =
     (if sp_manager_fee_account stake_pool = ai_key burn_from_pool_info
         \<or> \<not> is_ok (check_manager_fee_info E w stake_pool manager_fee_info)
      then Inr 0
      else ok_or (calc_fee stake_pool pool_tokens) (spe CalculationFailure))"

definition withdrawal_amounts ::
    "StakePool \<Rightarrow> u64 \<Rightarrow> u64 \<Rightarrow> u64 option \<Rightarrow> withdrawal result" where
  "withdrawal_amounts stake_pool pool_tokens pool_tokens_fee minimum_lamports_out =
     tri (ok_or (checked_sub pool_tokens pool_tokens_fee) (spe CalculationFailure))
       (\<lambda>pool_tokens_burnt.
     tri (ok_or (calc_lamports_withdraw_amount stake_pool pool_tokens_burnt)
            (spe CalculationFailure)) (\<lambda>withdraw_lamports.
     if withdraw_lamports = 0 then Inl (spe WithdrawalTooSmall) else
     let result = \<lparr>wd_fee = pool_tokens_fee, wd_burnt = pool_tokens_burnt,
                   wd_lamports = withdraw_lamports\<rparr> in
     case minimum_lamports_out of
       Some minimum_lamports_out \<Rightarrow>
         if withdraw_lamports < minimum_lamports_out then Inl (spe ExceededSlippage) else Inr result
     | None \<Rightarrow> Inr result))"

text \<open>The accounting of a withdrawal.\<close>

definition debit_pool :: "StakePool \<Rightarrow> u64 \<Rightarrow> u64 \<Rightarrow> StakePool result" where
  "debit_pool stake_pool pool_tokens_burnt withdraw_lamports =
     tri (ok_or (checked_sub (sp_pool_token_supply stake_pool) pool_tokens_burnt)
            (spe CalculationFailure)) (\<lambda>pool_token_supply.
     tri (ok_or (checked_sub (sp_total_lamports stake_pool) withdraw_lamports)
            (spe CalculationFailure)) (\<lambda>total_lamports.
     Inr (stake_pool\<lparr>sp_pool_token_supply := pool_token_supply,
                      sp_total_lamports := total_lamports\<rparr>)))"

section \<open>Withdrawing stake\<close>

text \<open>The reserve may be used when no validator has stake to give and it stays rent exempt.\<close>

definition check_reserve_withdrawal ::
    "world \<Rightarrow> AccountInfo \<Rightarrow> Meta \<Rightarrow> bool \<Rightarrow> bool \<Rightarrow> u64 \<Rightarrow> unit result" where
  "check_reserve_withdrawal w stake_split_from meta has_active_stake has_transient_stake
       withdraw_lamports =
     (if has_transient_stake \<or> has_active_stake then Inl (spe StakeLamportsNotEqualToMinimum)
      else if saturating_sub (lamports_of w stake_split_from) withdraw_lamports
              < minimum_reserve_lamports meta
      then Inl (spe SolWithdrawalTooLarge) else Inr ())"

text \<open>A preferred validator with stake to give comes first.\<close>

definition check_preferred_withdraw ::
    "byte list \<Rightarrow> StakePool \<Rightarrow> Pubkey \<Rightarrow> u64 \<Rightarrow> unit result" where
  "check_preferred_withdraw validator_list stake_pool vote_account_address
       minimum_lamports_with_tolerance =
     (case sp_preferred_withdraw_validator_vote_address stake_pool of
        None \<Rightarrow> Inr ()
      | Some preferred_withdraw_validator \<Rightarrow>
          tri (find_validator validator_list preferred_withdraw_validator) (\<lambda>maybe_info.
          case maybe_info of
            None \<Rightarrow> Inr ()
          | Some preferred_validator_info \<Rightarrow>
              let available_lamports = saturating_sub
                    (vsi_active_stake_lamports preferred_validator_info)
                    minimum_lamports_with_tolerance in
              if preferred_withdraw_validator \<noteq> vote_account_address \<and> available_lamports > 0
              then Inl (spe IncorrectWithdrawVoteAddress) else Inr ()))"

text \<open>
  Active stake first, then transient stake, then the whole account of a validator, which removes
  the validator; the account must be the one that the choice calls for.
\<close>

definition withdraw_source_of ::
    "env \<Rightarrow> Pubkey \<Rightarrow> Pubkey \<Rightarrow> AccountInfo \<Rightarrow> Pubkey \<Rightarrow> ValidatorStakeInfo \<Rightarrow> bool \<Rightarrow> bool
      \<Rightarrow> StakeWithdrawSource result" where
  "withdraw_source_of E program_id stake_pool_address stake_split_from vote_account_address
       validator_stake_info has_active_stake has_transient_stake =
     (let check_validator = check_validator_stake_address E program_id stake_pool_address
            (ai_key stake_split_from) vote_account_address
            (NonZeroU32_new (vsi_validator_seed_suffix validator_stake_info)) in
      if has_active_stake then tri check_validator (\<lambda>_. Inr SourceActive)
      else if has_transient_stake \<or> vsi_transient_stake_lamports validator_stake_info \<noteq> 0 then
        tri (check_transient_stake_address E program_id stake_pool_address
               (ai_key stake_split_from) vote_account_address
               (vsi_transient_seed_suffix validator_stake_info)) (\<lambda>_. Inr SourceTransient)
      else tri check_validator (\<lambda>_. Inr SourceValidatorRemoval))"

text \<open>The lamports that leave the account, and the pool (a removed validator is not preferred).\<close>

definition limit_withdrawal ::
    "StakeWithdrawSource \<Rightarrow> u64 \<Rightarrow> u64 \<Rightarrow> u64 \<Rightarrow> u64 \<Rightarrow> Pubkey \<Rightarrow> StakePool
      \<Rightarrow> (u64 \<times> StakePool) result" where
  "limit_withdrawal withdraw_source split_from_lamports withdraw_lamports required_lamports
       lamports_per_pool_token vote_account_address stake_pool =
     (case withdraw_source of
        SourceValidatorRemoval \<Rightarrow>
          let upper_bound = saturating_add split_from_lamports lamports_per_pool_token in
          if withdraw_lamports < split_from_lamports \<or> withdraw_lamports > upper_bound
          then Inl (spe StakeLamportsNotEqualToMinimum)
          else Inr (split_from_lamports, reset_preferred vote_account_address stake_pool)
      | _ \<Rightarrow>
          let remaining_lamports = saturating_sub split_from_lamports withdraw_lamports in
          if remaining_lamports < required_lamports then Inl (spe StakeLamportsNotEqualToMinimum)
          else Inr (withdraw_lamports, stake_pool))"

text \<open>The record of the validator after the withdrawal.\<close>

definition debit_validator ::
    "StakeWithdrawSource \<Rightarrow> u64 \<Rightarrow> ValidatorStakeInfo \<Rightarrow> ValidatorStakeInfo result" where
  "debit_validator withdraw_source withdraw_lamports v =
     (case withdraw_source of
        SourceActive \<Rightarrow>
          tri (ok_or (checked_sub (vsi_active_stake_lamports v) withdraw_lamports)
                 (spe CalculationFailure)) (\<lambda>l.
          Inr (v\<lparr>vsi_active_stake_lamports := l\<rparr>))
      | SourceTransient \<Rightarrow>
          tri (ok_or (checked_sub (vsi_transient_stake_lamports v) withdraw_lamports)
                 (spe CalculationFailure)) (\<lambda>l.
          Inr (v\<lparr>vsi_transient_stake_lamports := l\<rparr>))
      | SourceValidatorRemoval \<Rightarrow>
          tri (ok_or (checked_sub (vsi_active_stake_lamports v) withdraw_lamports)
                 (spe CalculationFailure)) (\<lambda>l.
          if l \<noteq> 0 then Inl (spe StakeListAndPoolOutOfDate)
          else Inr (v\<lparr>vsi_active_stake_lamports := l,
                      vsi_status := status_to_u8 ReadyForRemoval\<rparr>)))"

text \<open>Whether some active validator has more active (transient) stake than must stay.\<close>

definition has_stake ::
    "(byte list \<Rightarrow> u64 \<Rightarrow> bool) \<Rightarrow> u64 \<Rightarrow> byte list \<Rightarrow> bool result" where
  "has_stake greater_than minimum_lamports_with_tolerance validator_list =
     tri (bv_find VSI_LEN dec_vsi
            (\<lambda>x. greater_than x minimum_lamports_with_tolerance \<and> is_active x) validator_list)
       (\<lambda>r. Inr (r \<noteq> None))"

text \<open>
  The source of a stake withdrawal: nothing for the reserve, else the offset and record of the
  validator; with the lamports that leave and the pool.
\<close>

definition choose_source ::
    "env \<Rightarrow> Pubkey \<Rightarrow> StakePool \<Rightarrow> AccountInfo \<Rightarrow> AccountInfo \<Rightarrow> StakeStateV2 \<Rightarrow> Meta \<Rightarrow> byte list
      \<Rightarrow> u64 \<Rightarrow> u64 \<Rightarrow> u64 \<Rightarrow> world
      \<Rightarrow> ((nat \<times> ValidatorStakeInfo \<times> StakeWithdrawSource) option \<times> u64 \<times> StakePool) result" where
  "choose_source E program_id stake_pool stake_pool_info stake_split_from stake_state meta
       validator_list required_lamports lamports_per_pool_token withdraw_lamports w =
     (let minimum_lamports_with_tolerance =
            saturating_add required_lamports lamports_per_pool_token in
      tri (has_stake active_lamports_greater_than minimum_lamports_with_tolerance
             validator_list) (\<lambda>has_active_stake.
      tri (has_stake transient_lamports_greater_than minimum_lamports_with_tolerance
             validator_list) (\<lambda>has_transient_stake.
      if ai_key stake_split_from = sp_reserve_stake stake_pool then
        tri (check_reserve_withdrawal w stake_split_from meta has_active_stake
               has_transient_stake withdraw_lamports) (\<lambda>_.
        Inr (None, withdraw_lamports, stake_pool))
      else
        tri (ok_or (stake_delegation stake_state) (spe WrongStakeStake)) (\<lambda>delegation.
        let vote_account_address = del_voter_pubkey delegation in
        tri (check_preferred_withdraw validator_list stake_pool vote_account_address
               minimum_lamports_with_tolerance) (\<lambda>_.
        tri (find_validator_mut validator_list vote_account_address) (\<lambda>maybe_validator_stake_info.
        tri (ok_or maybe_validator_stake_info (spe ValidatorNotFound))
          (\<lambda>(offset, validator_stake_info).
        tri (withdraw_source_of E program_id (ai_key stake_pool_info) stake_split_from
               vote_account_address validator_stake_info has_active_stake has_transient_stake)
          (\<lambda>withdraw_source.
        if vsi_status validator_stake_info \<noteq> status_to_u8 Active
        then Inl (spe ValidatorNotFound) else
        tri (limit_withdrawal withdraw_source (lamports_of w stake_split_from) withdraw_lamports
               required_lamports lamports_per_pool_token vote_account_address stake_pool)
          (\<lambda>(withdraw_lamports, stake_pool).
        Inr (Some (offset, validator_stake_info, withdraw_source), withdraw_lamports,
             stake_pool))))))))))"

definition process_withdraw_stake ::
    "env \<Rightarrow> Pubkey \<Rightarrow> AccountInfo list \<Rightarrow> u64 \<Rightarrow> u64 option \<Rightarrow> world \<Rightarrow> world result" where
  "process_withdraw_stake E program_id accounts pool_tokens minimum_lamports_out w =
     tri (next_account_info accounts) (\<lambda>(stake_pool_info, iter).
     tri (next_account_info iter) (\<lambda>(validator_list_info, iter).
     tri (next_account_info iter) (\<lambda>(withdraw_authority_info, iter).
     tri (next_account_info iter) (\<lambda>(stake_split_from, iter).
     tri (next_account_info iter) (\<lambda>(stake_split_to, iter).
     tri (next_account_info iter) (\<lambda>(user_stake_authority_info, iter).
     tri (next_account_info iter) (\<lambda>(user_transfer_authority_info, iter).
     tri (next_account_info iter) (\<lambda>(burn_from_pool_info, iter).
     tri (next_account_info iter) (\<lambda>(manager_fee_info, iter).
     tri (next_account_info iter) (\<lambda>(pool_mint_info, iter).
     tri (next_account_info iter) (\<lambda>(clock_info, iter).
     tri (e_clock_from_account_info E w clock_info) (\<lambda>epoch.
     tri (next_account_info iter) (\<lambda>(token_program_info, iter).
     tri (next_account_info iter) (\<lambda>(stake_program_info, iter).
     tri (check_stake_program E (ai_key stake_program_info)) (\<lambda>_.
     tri (check_account_owner w stake_pool_info program_id) (\<lambda>_.
     tri (load_pool w stake_pool_info) (\<lambda>stake_pool.
     if \<not> sp_is_valid stake_pool then Inl (spe InvalidState) else
     tri (check_mint E w stake_pool pool_mint_info) (\<lambda>decimals.
     tri (check_validator_list stake_pool validator_list_info) (\<lambda>_.
     tri (check_authority_withdraw E stake_pool (ai_key withdraw_authority_info) program_id
            (ai_key stake_pool_info)) (\<lambda>_.
     if sp_manager_fee_account stake_pool \<noteq> ai_key manager_fee_info
     then Inl (spe InvalidFeeAccount) else
     if sp_token_program_id stake_pool \<noteq> ai_key token_program_info then Inl IncorrectProgramId else
     if sp_last_update_epoch stake_pool < epoch then Inl (spe StakeListAndPoolOutOfDate) else
     tri (check_account_owner w validator_list_info program_id) (\<lambda>_.
     tri (load_list w validator_list_info) (\<lambda>(header, validator_list).
     if \<not> header_is_valid header then Inl (spe InvalidState) else
     tri (withdrawal_fee_tokens E w calc_pool_tokens_stake_withdrawal_fee stake_pool
            burn_from_pool_info manager_fee_info pool_tokens) (\<lambda>pool_tokens_fee.
     tri (withdrawal_amounts stake_pool pool_tokens pool_tokens_fee minimum_lamports_out) (\<lambda>a.
     tri (e_minimum_delegation E) (\<lambda>stake_minimum_delegation.
     tri (e_decode_stake E (data_of w stake_split_from)) (\<lambda>stake_state.
     tri (ok_or (stake_meta stake_state) (spe WrongStakeStake)) (\<lambda>meta.
     let required_lamports = minimum_stake_lamports meta stake_minimum_delegation in
     tri (ok_or (get_lamports_per_pool_token stake_pool) (spe CalculationFailure))
       (\<lambda>lamports_per_pool_token.
     tri (choose_source E program_id stake_pool stake_pool_info stake_split_from stake_state meta
            validator_list required_lamports lamports_per_pool_token (wd_lamports a) w)
       (\<lambda>(validator_list_item_info, withdraw_lamports, stake_pool).
     tri (token_burn E w token_program_info burn_from_pool_info pool_mint_info
            user_transfer_authority_info (wd_burnt a)) (\<lambda>w.
     tri (stake_split E w (ai_key stake_pool_info) stake_split_from withdraw_authority_info
            AUTHORITY_WITHDRAW (sp_stake_withdraw_bump_seed stake_pool) withdraw_lamports
            stake_split_to) (\<lambda>w.
     tri (stake_authorize_signed E w (ai_key stake_pool_info) stake_split_to
            withdraw_authority_info AUTHORITY_WITHDRAW (sp_stake_withdraw_bump_seed stake_pool)
            (ai_key user_stake_authority_info) clock_info) (\<lambda>w.
     tri (if wd_fee a > 0
          then token_transfer E w token_program_info burn_from_pool_info pool_mint_info
                 manager_fee_info user_transfer_authority_info (wd_fee a) decimals
          else Inr w) (\<lambda>w.
     tri (debit_pool stake_pool (wd_burnt a) withdraw_lamports) (\<lambda>stake_pool.
     tri (store_pool w stake_pool_info stake_pool) (\<lambda>w.
     case validator_list_item_info of
       None \<Rightarrow> Inr w
     | Some (offset, validator_list_item, withdraw_source) \<Rightarrow>
         tri (debit_validator withdraw_source withdraw_lamports validator_list_item)
           (\<lambda>validator_list_item.
         Inr (store_validator w validator_list_info header validator_list offset
                validator_list_item)))))))))))))))))))))))))))))))))))))"

section \<open>Withdrawing lamports\<close>

definition check_reserve_keeps_rent :: "env \<Rightarrow> world \<Rightarrow> AccountInfo \<Rightarrow> u64 \<Rightarrow> unit result" where
  "check_reserve_keeps_rent E w reserve_stake_info withdraw_lamports =
     (let new_reserve_lamports = saturating_sub (lamports_of w reserve_stake_info) withdraw_lamports in
      tri (e_decode_stake E (data_of w reserve_stake_info)) (\<lambda>stake_state.
      case stake_state of
        StakeInitialized meta \<Rightarrow>
          if new_reserve_lamports < minimum_reserve_lamports meta
          then Inl (spe SolWithdrawalTooLarge) else Inr ()
      | _ \<Rightarrow> Inl (spe WrongStakeStake)))"

text \<open>
  The tokens leave the user's account: burnt, and the fee transferred to the manager. Inside a
  session the program's own address signs along.
\<close>

definition burn_and_pay_fee ::
    "env \<Rightarrow> Pubkey \<Rightarrow> bool \<Rightarrow> (AccountInfo \<times> AccountInfo list) result \<Rightarrow> AccountInfo \<Rightarrow> AccountInfo
      \<Rightarrow> AccountInfo \<Rightarrow> AccountInfo \<Rightarrow> AccountInfo \<Rightarrow> u8 \<Rightarrow> withdrawal \<Rightarrow> world \<Rightarrow> world result" where
  "burn_and_pay_fee E program_id is_wsol_path maybe_program_signer_info token_program_info
       burn_from_pool_info pool_mint_info manager_fee_info user_transfer_authority_info decimals
       a w =
     (if is_wsol_path \<and> is_ok maybe_program_signer_info then
        let (expected_pda, pda_bump) =
              e_find_program_address E [e_program_signer_seed E] program_id in
        tri maybe_program_signer_info (\<lambda>(program_signer_info, _).
        if expected_pda \<noteq> ai_key program_signer_info then Inl InvalidSeeds else
        let program_signer_seeds = [e_program_signer_seed E, [pda_bump]];
            burn_ix = SessionBurn (ai_key token_program_info) (ai_key burn_from_pool_info)
              (ai_key pool_mint_info) (ai_key user_transfer_authority_info)
              (Some (ai_key program_signer_info)) (wd_burnt a);
            fee_ix = SessionTransferChecked (ai_key token_program_info)
              (ai_key burn_from_pool_info) (ai_key pool_mint_info) (ai_key manager_fee_info)
              (ai_key user_transfer_authority_info) (Some (ai_key program_signer_info))
              (wd_fee a) decimals in
        tri (e_build_instruction E burn_ix) (\<lambda>_.
        tri (e_invoke_signed E burn_ix
               [burn_from_pool_info, pool_mint_info, user_transfer_authority_info,
                program_signer_info] [program_signer_seeds] w) (\<lambda>w.
        if wd_fee a > 0 then
          tri (e_build_instruction E fee_ix) (\<lambda>_.
          e_invoke_signed E fee_ix
            [burn_from_pool_info, pool_mint_info, manager_fee_info, user_transfer_authority_info,
             program_signer_info] [program_signer_seeds] w)
        else Inr w)))
      else
        tri (token_burn E w token_program_info burn_from_pool_info pool_mint_info
               user_transfer_authority_info (wd_burnt a)) (\<lambda>w.
        if wd_fee a > 0
        then token_transfer E w token_program_info burn_from_pool_info pool_mint_info
               manager_fee_info user_transfer_authority_info (wd_fee a) decimals
        else Inr w))"

definition process_withdraw_sol ::
    "env \<Rightarrow> Pubkey \<Rightarrow> AccountInfo list \<Rightarrow> u64 \<Rightarrow> u64 option \<Rightarrow> bool \<Rightarrow> world \<Rightarrow> world result" where
  "process_withdraw_sol E program_id accounts pool_tokens minimum_lamports_out is_wsol_path w =
     tri (next_account_info accounts) (\<lambda>(stake_pool_info, iter).
     tri (next_account_info iter) (\<lambda>(withdraw_authority_info, iter).
     tri (next_account_info iter) (\<lambda>(user_transfer_authority_info, iter).
     tri (next_account_info iter) (\<lambda>(burn_from_pool_info, iter).
     tri (next_account_info iter) (\<lambda>(reserve_stake_info, iter).
     tri (next_account_info iter) (\<lambda>(destination_lamports_info, iter).
     tri (next_account_info iter) (\<lambda>(manager_fee_info, iter).
     tri (next_account_info iter) (\<lambda>(pool_mint_info, iter).
     tri (next_account_info iter) (\<lambda>(clock_info, iter).
     tri (next_account_info iter) (\<lambda>(stake_history_info, iter).
     tri (next_account_info iter) (\<lambda>(stake_program_info, iter).
     tri (next_account_info iter) (\<lambda>(token_program_info, iter).
     let sol_withdraw_authority_info = next_account_info iter;
         maybe_program_signer_info = next_account_info (drop 1 iter) in
     tri (check_account_owner w stake_pool_info program_id) (\<lambda>_.
     tri (load_pool w stake_pool_info) (\<lambda>stake_pool.
     if \<not> sp_is_valid stake_pool then Inl (spe InvalidState) else
     tri (check_authority_withdraw E stake_pool (ai_key withdraw_authority_info) program_id
            (ai_key stake_pool_info)) (\<lambda>_.
     tri (check_sol_withdraw_authority stake_pool sol_withdraw_authority_info) (\<lambda>_.
     tri (check_mint E w stake_pool pool_mint_info) (\<lambda>decimals.
     tri (check_reserve_stake stake_pool reserve_stake_info) (\<lambda>_.
     if sp_token_program_id stake_pool \<noteq> ai_key token_program_info then Inl IncorrectProgramId else
     tri (check_stake_program E (ai_key stake_program_info)) (\<lambda>_.
     if sp_manager_fee_account stake_pool \<noteq> ai_key manager_fee_info
     then Inl (spe InvalidFeeAccount) else
     tri (e_clock_get E) (\<lambda>epoch.
     if sp_last_update_epoch stake_pool < epoch then Inl (spe StakeListAndPoolOutOfDate) else
     tri (withdrawal_fee_tokens E w calc_pool_tokens_sol_withdrawal_fee stake_pool burn_from_pool_info
            manager_fee_info pool_tokens) (\<lambda>pool_tokens_fee.
     tri (withdrawal_amounts stake_pool pool_tokens pool_tokens_fee minimum_lamports_out) (\<lambda>a.
     tri (check_reserve_keeps_rent E w reserve_stake_info (wd_lamports a)) (\<lambda>_.
     tri (burn_and_pay_fee E program_id is_wsol_path maybe_program_signer_info
            token_program_info burn_from_pool_info pool_mint_info manager_fee_info
            user_transfer_authority_info decimals a w) (\<lambda>w.
     tri (stake_withdraw E w (ai_key stake_pool_info) reserve_stake_info withdraw_authority_info
            AUTHORITY_WITHDRAW (sp_stake_withdraw_bump_seed stake_pool) destination_lamports_info
            clock_info stake_history_info (wd_lamports a)) (\<lambda>w.
     tri (debit_pool stake_pool (wd_burnt a) (wd_lamports a)) (\<lambda>stake_pool.
     store_pool w stake_pool_info stake_pool))))))))))))))))))))))))))"

section \<open>Withdrawing wrapped lamports\<close>

definition process_withdraw_wsol_with_session ::
    "env \<Rightarrow> Pubkey \<Rightarrow> AccountInfo list \<Rightarrow> u64 \<Rightarrow> world \<Rightarrow> world result" where
  "process_withdraw_wsol_with_session E program_id accounts pool_tokens w =
     tri (next_account_info accounts) (\<lambda>(stake_pool_info, iter).
     tri (next_account_info iter) (\<lambda>(withdraw_authority_info, iter).
     tri (next_account_info iter) (\<lambda>(signer_or_session, iter).
     tri (next_account_info iter) (\<lambda>(burn_from_pool_info, iter).
     tri (next_account_info iter) (\<lambda>(reserve_stake_info, iter).
     tri (next_account_info iter) (\<lambda>(user_wsol_info, iter).
     tri (next_account_info iter) (\<lambda>(manager_fee_info, iter).
     tri (next_account_info iter) (\<lambda>(pool_mint_info, iter).
     tri (next_account_info iter) (\<lambda>(clock_info, iter).
     tri (next_account_info iter) (\<lambda>(stake_history_info, iter).
     tri (next_account_info iter) (\<lambda>(stake_program_info, iter).
     tri (next_account_info iter) (\<lambda>(token_program_info, iter).
     tri (next_account_info iter) (\<lambda>(wsol_mint_info, iter).
     tri (next_account_info iter) (\<lambda>(fee_payer_info, iter).
     tri (next_account_info iter) (\<lambda>(user_owner_info, iter).
     tri (next_account_info iter) (\<lambda>(system_program_info, iter).
     tri (next_account_info iter) (\<lambda>(program_signer_info, iter).
     tri (next_account_info iter) (\<lambda>(associated_token_program_info, iter).
     let sol_withdraw_auth_res = next_account_info iter in
     tri (check_system_program E (ai_key system_program_info)) (\<lambda>_.
     if ai_key associated_token_program_info \<noteq> e_associated_token_program_id E
     then Inl IncorrectProgramId else
     tri (check_wsol_accounts E program_id w wsol_mint_info token_program_info user_wsol_info
            signer_or_session) (\<lambda>user_pubkey.
     if ai_key user_owner_info \<noteq> user_pubkey then Inl InvalidAccountData else
     tri (invoke E
            (CreateAssociatedTokenAccountIdempotent (ai_key fee_payer_info) user_pubkey
               (ai_key wsol_mint_info) (ai_key token_program_info))
            [fee_payer_info, user_wsol_info, user_owner_info, wsol_mint_info,
             system_program_info, token_program_info] w) (\<lambda>w.
     let withdraw_sol_accts =
           [stake_pool_info, withdraw_authority_info, signer_or_session, burn_from_pool_info,
            reserve_stake_info, user_wsol_info, manager_fee_info, pool_mint_info, clock_info,
            stake_history_info, stake_program_info, token_program_info,
            (case sol_withdraw_auth_res of
               Inr (sol_withdraw_auth_info, _) \<Rightarrow> sol_withdraw_auth_info
             | Inl _ \<Rightarrow> system_program_info),
            program_signer_info] in
     tri (process_withdraw_sol E program_id withdraw_sol_accts pool_tokens None True w) (\<lambda>w.
     let sync_ix = TokenSyncNative (ai_key token_program_info) (ai_key user_wsol_info) in
     tri (e_build_instruction E sync_ix) (\<lambda>_.
     tri (invoke E sync_ix [user_wsol_info] w) (\<lambda>w.
     Inr w))))))))))))))))))))))))"

section \<open>Exact amounts\<close>

text \<open>
  A withdrawal in exact arithmetic: of \<open>t\<close> tokens \<open>F\<close> are the fee, the rest is burnt and paid out at
  the rate of the pool, rounded down.
\<close>

definition withdrawal_spec :: "StakePool \<Rightarrow> int \<Rightarrow> int \<Rightarrow> u64 option \<Rightarrow> withdrawal result" where
  "withdrawal_spec p t F minimum =
     (let L = withdraw_value p (t - F)
      in if t < F \<or> 2 ^ 64 \<le> L then Inl (spe CalculationFailure)
         else if L = 0 then Inl (spe WithdrawalTooSmall)
         else if minimum \<noteq> None \<and> L < uint (the minimum) then Inl (spe ExceededSlippage)
         else Inr \<lparr>wd_fee = word_of_int F, wd_burnt = word_of_int (t - F), wd_lamports = word_of_int L\<rparr>)"

lemma withdrawal_amounts_eq:
  "withdrawal_amounts p t f m = withdrawal_spec p (uint t) (uint f) m"
proof (cases "uint t < uint f")
  case True
  then have "checked_sub t f = None" by (simp add: checked_simps)
  then show ?thesis using True by (simp add: withdrawal_amounts_def withdrawal_spec_def)
next
  case False
  define b where "b = t - f"
  define L where "L = withdraw_value p (uint t - uint f)"
  have b: "checked_sub t f = Some b" "uint b = uint t - uint f" and bi: "b = word_of_int (uint t - uint f)"
    using False by (simp_all add: b_def checked_sub_def uint_sub_exact)
  have L: "0 \<le> L" using False by (simp add: L_def withdraw_value_nonneg)
  have opt: "calc_lamports_withdraw_amount p b = (if L < 2 ^ 64 then Some (word_of_int L) else None)"
    by (rule option_of_uint [OF _ L]) (simp add: calc_lamports_withdraw_amount_Some b L_def)
  show ?thesis
  proof (cases "L < 2 ^ 64")
    case True
    define l :: u64 where "l = word_of_int L"
    have l: "uint l = L" unfolding l_def by (rule u64_of_int [OF L True])
    have "l = 0 \<longleftrightarrow> L = 0" "l < k \<longleftrightarrow> L < uint k" for k
      by (simp_all add: l [symmetric] word_zero_uint word_less_def)
    then show ?thesis
      using True False b(1) opt
      unfolding withdrawal_spec_def bi [symmetric] L_def [symmetric] Let_def l_def [symmetric]
      by (simp add: withdrawal_amounts_def Let_def l_def [symmetric] split: option.split)
  next
    case too_big: False
    then show ?thesis
      using b(1) opt by (simp add: withdrawal_amounts_def withdrawal_spec_def L_def [symmetric])
  qed
qed

section \<open>Successful runs\<close>

text \<open>What every successful computation of the amounts guarantees.\<close>

definition good_withdrawal :: "StakePool \<Rightarrow> u64 \<Rightarrow> u64 option \<Rightarrow> withdrawal \<Rightarrow> bool" where
  "good_withdrawal p t m a \<longleftrightarrow>
     uint (wd_burnt a) + uint (wd_fee a) = uint t
     \<and> uint (wd_lamports a) = withdraw_value p (uint (wd_burnt a)) \<and> wd_lamports a \<noteq> 0
     \<and> pred_option (\<lambda>k. k \<le> wd_lamports a) m"

lemma withdrawal_amounts_good:
  assumes "withdrawal_amounts p t f m = Inr a"
  shows "good_withdrawal p t m a" "wd_fee a = f"
  using assms
  by (cases m; auto simp: withdrawal_amounts_def good_withdrawal_def inversions checked_simps Let_def not_less
      calc_lamports_withdraw_amount_Some split: if_splits)+

lemma debit_pool_step:
  fixes p :: StakePool
  assumes "debit_pool (p\<lparr>sp_preferred_deposit_validator_vote_address := a,
        sp_preferred_withdraw_validator_vote_address := b\<rparr>) burnt l = Inr p'"
    and "uint l \<le> withdraw_value p (uint burnt)"
  shows "pool_step (Withdrawing (uint burnt)) p p'"
proof -
  obtain s t where "pool_supply p = uint s + uint burnt" "pool_total p = uint t + uint l"
    and p': "p' = p\<lparr>sp_preferred_deposit_validator_vote_address := a,
        sp_preferred_withdraw_validator_vote_address := b, sp_pool_token_supply := s,
        sp_total_lamports := t\<rparr>"
    using assms(1) by (auto simp: debit_pool_def inversions checked_simps)
  then show ?thesis
    unfolding p' using assms(2) by (intro step_withdraw [of _ "uint l"]) simp_all
qed

lemma debit_pool_step_same:
  assumes "debit_pool p burnt l = Inr p'" "uint l \<le> withdraw_value p (uint burnt)"
  shows "pool_step (Withdrawing (uint burnt)) p p'"
  using debit_pool_step [where p = p and a = "sp_preferred_deposit_validator_vote_address p"
      and b = "sp_preferred_withdraw_validator_vote_address p"] assms
  by simp

lemma withdraw_keeps:
  assumes "cpi_law E pid"
  shows "keeps pid w (burn_and_pay_fee E k wsol sig token burn mint man auth d a w)"
  using assms keeps_calls [OF assms]
  by (auto simp: burn_and_pay_fee_def Let_def split: prod.split
      intro!: keeps_tri keeps_reads keeps_if keeps_invoke)

lemmas withdraw_frame = withdraw_keeps [THEN keepsD]

lemma withdraw_sol_success:
  assumes run: "process_withdraw_sol E pid accts t m wsol w = Inr w'" and law: "cpi_law E pid"
  obtains pool auth user burn reserve dest man mint clock hist prog token rest p epoch meta f a d
      wa w1 p' where
    "accts = pool # auth # user # burn # reserve # dest # man # mint # clock # hist # prog # token # rest"
    "owner_of w pool = pid" "load_pool w pool = Inr p" "sp_is_valid p"
    "e_clock_get E = Inr epoch" "\<not> sp_last_update_epoch p < epoch"
    "ai_key reserve = sp_reserve_stake p" "ai_key mint = sp_pool_mint p"
    "ai_key man = sp_manager_fee_account p"
    "withdrawal_fee_tokens E w calc_pool_tokens_sol_withdrawal_fee p burn man t = Inr f"
    "withdrawal_amounts p t f m = Inr a"
    "e_decode_stake E (data_of w reserve) = Inr (StakeInitialized meta)"
    "\<not> saturating_sub (lamports_of w reserve) (wd_lamports a) < meta_rent_exempt_reserve meta"
    "burn_and_pay_fee E pid wsol (next_account_info (drop 1 rest)) token burn mint man user d a w = Inr wa"
    "stake_withdraw E wa (ai_key pool) reserve auth AUTHORITY_WITHDRAW
       (sp_stake_withdraw_bump_seed p) dest clock hist (wd_lamports a) = Inr w1"
    "debit_pool p (wd_burnt a) (wd_lamports a) = Inr p'"
    "store_pool w1 pool p' = Inr w'" "owned_frame pid {} w w1"
proof -
  obtain pool auth user burn reserve dest man mint clock hist prog token rest p epoch f a d wa w1 p' where
    accts: "accts = pool # auth # user # burn # reserve # dest # man # mint # clock # hist # prog
        # token # rest"
    and facts: "owner_of w pool = pid" "load_pool w pool = Inr p" "sp_is_valid p"
      "e_clock_get E = Inr epoch" "\<not> sp_last_update_epoch p < epoch"
      "ai_key reserve = sp_reserve_stake p" "ai_key mint = sp_pool_mint p"
      "ai_key man = sp_manager_fee_account p"
      "withdrawal_fee_tokens E w calc_pool_tokens_sol_withdrawal_fee p burn man t = Inr f"
      "withdrawal_amounts p t f m = Inr a"
    and rent: "check_reserve_keeps_rent E w reserve (wd_lamports a) = Inr ()"
    and calls: "burn_and_pay_fee E pid wsol (next_account_info (drop 1 rest)) token burn mint man user d a w
        = Inr wa"
      "stake_withdraw E wa (ai_key pool) reserve auth AUTHORITY_WITHDRAW
         (sp_stake_withdraw_bump_seed p) dest clock hist (wd_lamports a) = Inr w1"
    and ends: "debit_pool p (wd_burnt a) (wd_lamports a) = Inr p'" "store_pool w1 pool p' = Inr w'"
    using run by (auto simp: process_withdraw_sol_def inversions Let_def cong: if_cong)
  obtain meta where meta: "e_decode_stake E (data_of w reserve) = Inr (StakeInitialized meta)"
      "\<not> saturating_sub (lamports_of w reserve) (wd_lamports a) < meta_rent_exempt_reserve meta"
    using rent
    by (cases "e_decode_stake E (data_of w reserve)")
      (auto simp: check_reserve_keeps_rent_def inversions Let_def split: StakeStateV2.splits)
  have "owned_frame pid {} w w1"
    by (rule owned_frame_trans [OF withdraw_frame [OF law calls(1)] calls_frame(8) [OF law calls(2)]])
  then show thesis by (rule that [OF accts facts meta calls ends])
qed

lemma reset_preferred_fields:
  "reset_preferred vote p = p\<lparr>sp_preferred_deposit_validator_vote_address :=
       sp_preferred_deposit_validator_vote_address (reset_preferred vote p),
     sp_preferred_withdraw_validator_vote_address :=
       sp_preferred_withdraw_validator_vote_address (reset_preferred vote p)\<rparr>"
  by (simp add: reset_preferred_def)

text \<open>Where a stake withdrawal takes from, and how much: never more than the tokens are worth.\<close>

lemma limit_withdrawal_Inr:
  assumes "limit_withdrawal src avail l req lpt vote p = Inr (l', q)"
  shows "l' \<le> l" "q = (if src = SourceValidatorRemoval then reset_preferred vote p else p)"
    "if src = SourceValidatorRemoval then l' = avail else l' = l \<and> req \<le> saturating_sub avail l"
  using assms by (cases src; auto simp: limit_withdrawal_def Let_def inversions not_less split: if_splits)+

lemma choose_source_reserve:
  assumes "choose_source E pid p pool acc st meta bv req lpt l w = Inr (None, l', q)"
  shows "l' = l" "q = p" "ai_key acc = sp_reserve_stake p"
    "has_stake active_lamports_greater_than (saturating_add req lpt) bv = Inr False"
    "has_stake transient_lamports_greater_than (saturating_add req lpt) bv = Inr False"
    "meta_rent_exempt_reserve meta \<le> saturating_sub (lamports_of w acc) l"
  using assms
  by (auto simp: choose_source_def Let_def inversions check_reserve_withdrawal_def not_less split: if_splits)

lemma choose_source_validator:
  assumes "choose_source E pid p pool acc st meta bv req lpt l w = Inr (Some (i, v, src), l', q)"
  obtains d act tra where "stake_delegation st = Some d" "ai_key acc \<noteq> sp_reserve_stake p"
    "has_stake active_lamports_greater_than (saturating_add req lpt) bv = Inr act"
    "has_stake transient_lamports_greater_than (saturating_add req lpt) bv = Inr tra"
    "find_validator_mut bv (del_voter_pubkey d) = Inr (Some (i, v))" "vsi_status v = status_to_u8 Active"
    "withdraw_source_of E pid (ai_key pool) acc (del_voter_pubkey d) v act tra = Inr src"
    "limit_withdrawal src (lamports_of w acc) l req lpt (del_voter_pubkey d) p = Inr (l', q)"
    "check_preferred_withdraw bv p (del_voter_pubkey d) (saturating_add req lpt) = Inr ()"
  using assms
  by (auto simp: choose_source_def Let_def inversions split: if_splits)

lemma withdraw_source_cases:
  assumes "withdraw_source_of E pid pool acc vote v act tra = Inr src"
  shows "src = (if act then SourceActive
      else if tra \<or> vsi_transient_stake_lamports v \<noteq> 0 then SourceTransient
      else SourceValidatorRemoval)"
  using assms by (auto simp: withdraw_source_of_def Let_def inversions split: if_splits)

lemma has_stake_Inr:
  assumes "vlist_wf bv"
  shows "has_stake active_lamports_greater_than n bv = Inr b \<longleftrightarrow>
      b = (\<exists>v \<in> set (vlist bv). n < vsi_active_stake_lamports v \<and> vsi_status v = status_to_u8 Active)"
    and "has_stake transient_lamports_greater_than n bv = Inr b \<longleftrightarrow>
      b = (\<exists>v \<in> set (vlist bv). n < vsi_transient_stake_lamports v \<and> vsi_status v = status_to_u8 Active)"
  unfolding has_stake_def vsi.find_refines [OF assms] tri_simps
  by (auto simp: find_None_iff simp flip: not_None_eq)

lemma choose_source_pool:
  assumes "choose_source E pid p pool acc st meta bv req lpt l w = Inr (item, l', q)"
  obtains a b where "q = p\<lparr>sp_preferred_deposit_validator_vote_address := a,
      sp_preferred_withdraw_validator_vote_address := b\<rparr>" "l' \<le> l"
proof (cases item)
  case None
  note same = choose_source_reserve(1,2) [OF assms [unfolded None]]
  have "q = p\<lparr>sp_preferred_deposit_validator_vote_address := sp_preferred_deposit_validator_vote_address p,
      sp_preferred_withdraw_validator_vote_address := sp_preferred_withdraw_validator_vote_address p\<rparr>"
    unfolding same(2) by simp
  then show thesis by (rule that) (simp add: same(1))
next
  case (Some x)
  obtain i v src where x: "x = (i, v, src)" by (cases x)
  obtain d :: Delegation where
      "limit_withdrawal src (lamports_of w acc) l req lpt (del_voter_pubkey d) p = Inr (l', q)"
    by (rule choose_source_validator [OF assms [unfolded Some x]]) blast
  note lim = limit_withdrawal_Inr [OF this]
  have "q = p\<lparr>sp_preferred_deposit_validator_vote_address := sp_preferred_deposit_validator_vote_address q,
      sp_preferred_withdraw_validator_vote_address := sp_preferred_withdraw_validator_vote_address q\<rparr>"
    using lim(2) reset_preferred_fields [of "del_voter_pubkey d" p] by (simp split: if_splits)
  then show thesis using that lim(1) by blast
qed

lemma debit_validator_vote:
  "debit_validator src l v = Inr v' \<Longrightarrow> vsi_vote_account_address v' = vsi_vote_account_address v"
  by (cases src) (auto simp: debit_validator_def inversions)

text \<open>Every step of a successful stake withdrawal: the amounts, the choice of the source and the calls.\<close>

lemma withdraw_stake_run:
  assumes run: "process_withdraw_stake E pid accts t m w = Inr w'"
  obtains pool list auth acc dst sauth tauth burn man mint clock token prog rest p epoch h bv f a n st meta
      lpt item l q d wa wb wc w1 p' w2 where
    "accts = pool # list # auth # acc # dst # sauth # tauth # burn # man # mint # clock # token # prog # rest"
    "owner_of w pool = pid" "load_pool w pool = Inr p" "sp_is_valid p"
    "e_clock_from_account_info E w clock = Inr epoch" "\<not> sp_last_update_epoch p < epoch"
    "ai_key list = sp_validator_list p" "ai_key man = sp_manager_fee_account p"
    "owner_of w list = pid" "load_list w list = Inr (h, bv)" "header_is_valid h"
    "withdrawal_fee_tokens E w calc_pool_tokens_stake_withdrawal_fee p burn man t = Inr f"
    "withdrawal_amounts p t f m = Inr a" "e_minimum_delegation E = Inr n"
    "e_decode_stake E (data_of w acc) = Inr st" "stake_meta st = Some meta"
    "get_lamports_per_pool_token p = Some lpt"
    "choose_source E pid p pool acc st meta bv (minimum_stake_lamports meta n) lpt (wd_lamports a) w
       = Inr (item, l, q)"
    "check_mint E w p mint = Inr d" "ai_key mint = sp_pool_mint p"
    "token_burn E w token burn mint tauth (wd_burnt a) = Inr wa"
    "stake_split E wa (ai_key pool) acc auth AUTHORITY_WITHDRAW (sp_stake_withdraw_bump_seed q) l dst = Inr wb"
    "stake_authorize_signed E wb (ai_key pool) dst auth AUTHORITY_WITHDRAW
       (sp_stake_withdraw_bump_seed q) (ai_key sauth) clock = Inr wc"
    "(if wd_fee a > 0 then token_transfer E wc token burn mint man tauth (wd_fee a) d else Inr wc) = Inr w1"
    "debit_pool q (wd_burnt a) l = Inr p'" "store_pool w1 pool p' = Inr w2"
    "case item of None \<Rightarrow> w' = w2 | Some (i, v, src) \<Rightarrow>
       (\<exists>v'. debit_validator src l v = Inr v' \<and> w' = store_validator w2 list h bv i v')"
proof -
  obtain pool list auth acc dst sauth tauth burn man mint clock token prog rest p epoch h bv f a n st meta
      lpt item l q d wa wb wc w1 p' w2 where
    accts: "accts = pool # list # auth # acc # dst # sauth # tauth # burn # man # mint # clock # token
        # prog # rest"
    and facts: "owner_of w pool = pid" "load_pool w pool = Inr p" "sp_is_valid p"
      "e_clock_from_account_info E w clock = Inr epoch" "\<not> sp_last_update_epoch p < epoch"
      "ai_key list = sp_validator_list p" "ai_key man = sp_manager_fee_account p" "owner_of w list = pid"
      "load_list w list = Inr (h, bv)" "header_is_valid h"
      "withdrawal_fee_tokens E w calc_pool_tokens_stake_withdrawal_fee p burn man t = Inr f"
      "withdrawal_amounts p t f m = Inr a" "e_minimum_delegation E = Inr n"
      "e_decode_stake E (data_of w acc) = Inr st" "stake_meta st = Some meta"
      "get_lamports_per_pool_token p = Some lpt"
      "choose_source E pid p pool acc st meta bv (minimum_stake_lamports meta n) lpt (wd_lamports a) w
         = Inr (item, l, q)"
    and mint: "check_mint E w p mint = Inr d"
    and calls: "token_burn E w token burn mint tauth (wd_burnt a) = Inr wa"
      "stake_split E wa (ai_key pool) acc auth AUTHORITY_WITHDRAW (sp_stake_withdraw_bump_seed q) l dst
        = Inr wb"
      "stake_authorize_signed E wb (ai_key pool) dst auth AUTHORITY_WITHDRAW
        (sp_stake_withdraw_bump_seed q) (ai_key sauth) clock = Inr wc"
      "(if wd_fee a > 0 then token_transfer E wc token burn mint man tauth (wd_fee a) d else Inr wc) = Inr w1"
      "debit_pool q (wd_burnt a) l = Inr p'" "store_pool w1 pool p' = Inr w2"
    and final: "(case item of None \<Rightarrow> Inr w2 | Some (i, v, src) \<Rightarrow>
        tri (debit_validator src l v) (\<lambda>v'. Inr (store_validator w2 list h bv i v'))) = Inr w'"
    using run by (auto simp: process_withdraw_stake_def inversions Let_def cong: if_cong option.case_cong)
  have mint': "ai_key mint = sp_pool_mint p" using mint by (auto simp: check_mint_def split: if_splits)
  have "case item of None \<Rightarrow> w' = w2 | Some (i, v, src) \<Rightarrow>
       (\<exists>v'. debit_validator src l v = Inr v' \<and> w' = store_validator w2 list h bv i v')"
    using final by (cases item) (auto simp: inversions)
  then show thesis by (rule that [OF accts facts mint mint' calls])
qed

lemma withdraw_stake_calls_frame:
  assumes "cpi_law E pid" "token_burn E w token burn mint tauth n = Inr wa"
    and "stake_split E wa key acc auth AUTHORITY_WITHDRAW bump l dst = Inr wb"
    and "stake_authorize_signed E wb key dst auth AUTHORITY_WITHDRAW bump new clock = Inr wc"
    and "(if f > 0 then token_transfer E wc token burn mint man tauth f d else Inr wc) = Inr w1"
  shows "owned_frame pid {} w w1"
proof -
  have "owned_frame pid {} wc w1" using assms(5) calls_frame(11) [OF assms(1)] by (auto split: if_splits)
  then show ?thesis
    using calls_frame(9) [OF assms(1,2)] calls_frame(4) [OF assms(1,3)] calls_frame(7) [OF assms(1,4)]
    by (blast intro: owned_frame_trans)
qed

lemma withdraw_stake_success:
  assumes run: "process_withdraw_stake E pid accts t m w = Inr w'" and law: "cpi_law E pid"
  obtains pool list auth acc rest p epoch h bv burn man f a st meta req lpt item l q p' w1 w2 where
    "accts = pool # list # auth # acc # rest"
    "owner_of w pool = pid" "load_pool w pool = Inr p" "sp_is_valid p"
    "\<not> sp_last_update_epoch p < epoch"
    "ai_key list = sp_validator_list p" "owner_of w list = pid"
    "load_list w list = Inr (h, bv)" "header_is_valid h"
    "withdrawal_fee_tokens E w calc_pool_tokens_stake_withdrawal_fee p burn man t = Inr f"
    "withdrawal_amounts p t f m = Inr a"
    "e_decode_stake E (data_of w acc) = Inr st" "stake_meta st = Some meta"
    "get_lamports_per_pool_token p = Some lpt"
    "choose_source E pid p pool acc st meta bv req lpt (wd_lamports a) w = Inr (item, l, q)"
    "debit_pool q (wd_burnt a) l = Inr p'" "store_pool w1 pool p' = Inr w2"
    "case item of None \<Rightarrow> w' = w2 | Some (i, v, src) \<Rightarrow>
       (\<exists>v'. debit_validator src l v = Inr v' \<and> w' = store_validator w2 list h bv i v')"
    "owned_frame pid {} w w1"
  using run
proof (rule withdraw_stake_run)
  fix pool list auth acc dst sauth tauth burn man mint clock token prog rest p epoch h bv f a n st meta
    lpt item l q d wa wb wc w1 p' w2
  assume accts: "accts = pool # list # auth # acc # dst # sauth # tauth # burn # man # mint # clock # token
      # prog # rest"
    and facts: "owner_of w pool = pid" "load_pool w pool = Inr p" "sp_is_valid p"
      "\<not> sp_last_update_epoch p < epoch" "ai_key list = sp_validator_list p" "owner_of w list = pid"
      "load_list w list = Inr (h, bv)" "header_is_valid h"
      "withdrawal_fee_tokens E w calc_pool_tokens_stake_withdrawal_fee p burn man t = Inr f"
      "withdrawal_amounts p t f m = Inr a"
      "e_decode_stake E (data_of w acc) = Inr st" "stake_meta st = Some meta"
      "get_lamports_per_pool_token p = Some lpt"
      "choose_source E pid p pool acc st meta bv (minimum_stake_lamports meta n) lpt (wd_lamports a) w
         = Inr (item, l, q)"
    and calls: "token_burn E w token burn mint tauth (wd_burnt a) = Inr wa"
      "stake_split E wa (ai_key pool) acc auth AUTHORITY_WITHDRAW (sp_stake_withdraw_bump_seed q) l dst
        = Inr wb"
      "stake_authorize_signed E wb (ai_key pool) dst auth AUTHORITY_WITHDRAW
        (sp_stake_withdraw_bump_seed q) (ai_key sauth) clock = Inr wc"
      "(if wd_fee a > 0 then token_transfer E wc token burn mint man tauth (wd_fee a) d else Inr wc) = Inr w1"
    and ends: "debit_pool q (wd_burnt a) l = Inr p'" "store_pool w1 pool p' = Inr w2"
      "case item of None \<Rightarrow> w' = w2 | Some (i, v, src) \<Rightarrow>
       (\<exists>v'. debit_validator src l v = Inr v' \<and> w' = store_validator w2 list h bv i v')"
  show thesis by (rule that [OF accts facts ends withdraw_stake_calls_frame [OF law calls]])
qed

lemma withdraw_wsol_success:
  assumes run: "process_withdraw_wsol_with_session E pid accts t w = Inr w'" and law: "cpi_law E pid"
  obtains pool rest rest' wa wb where "accts = pool # rest" "owned_frame pid {} w wa"
    "process_withdraw_sol E pid (pool # rest') t None True wa = Inr wb" "owned_frame pid {} wb w'"
proof -
  obtain pool auth sess burn reserve uw man mint clock hist prog token wmint payer owner sys ps assoc rest
      user wa wb where
    accts: "accts = pool # auth # sess # burn # reserve # uw # man # mint # clock # hist # prog # token
        # wmint # payer # owner # sys # ps # assoc # rest"
    and ata: "invoke E (CreateAssociatedTokenAccountIdempotent (ai_key payer) user (ai_key wmint)
          (ai_key token)) [payer, uw, owner, wmint, sys, token] w = Inr wa"
    and run: "process_withdraw_sol E pid [pool, auth, sess, burn, reserve, uw, man, mint, clock, hist, prog,
          token, (case next_account_info rest of Inr (a, _) \<Rightarrow> a | Inl _ \<Rightarrow> sys), ps] t None True wa = Inr wb"
    and sync: "invoke E (TokenSyncNative (ai_key token) (ai_key uw)) [uw] wb = Inr w'"
    using run by (auto simp: process_withdraw_wsol_with_session_def inversions Let_def
        cong: if_cong sum.case_cong)
  show thesis
    using that [OF accts calls_frame(13) [OF law ata] run calls_frame(13) [OF law sync]] .
qed

section \<open>The handlers implement withdrawals\<close>

definition withdrawing :: "action \<Rightarrow> bool" where
  "withdrawing a \<longleftrightarrow> (\<exists>t\<ge>0. a = Withdrawing t)"

lemma withdrawing_uint [simp]: "withdrawing (Withdrawing (uint t))"
  by (simp add: withdrawing_def)

interpretation withdraw_sol: pool_handler
    "\<lambda>E pid accts. process_withdraw_sol E pid accts t m wsol" withdrawing for t m wsol
proof
  fix E pid accts w w'
  assume law: "cpi_law E pid" and run: "process_withdraw_sol E pid accts t m wsol w = Inr w'"
  have st: "pool_step (Withdrawing (uint (wd_burnt a))) p p'"
    if "withdrawal_amounts p t f m = Inr a" "debit_pool p (wd_burnt a) (wd_lamports a) = Inr p'" for p p' f a
    using withdrawal_amounts_good(1) [OF that(1)]
    by (intro debit_pool_step_same [OF that(2)]) (simp add: good_withdrawal_def)
  from run law show "pool_contract pid accts (step_of withdrawing) w w'"
    by (rule withdraw_sol_success) (auto intro!: contract_writes [OF _ _ _ _ _ st])
qed

interpretation withdraw_wsol: pool_handler
    "\<lambda>E pid accts. process_withdraw_wsol_with_session E pid accts t" withdrawing for t
proof
  fix E pid accts w w'
  assume law: "cpi_law E pid" and run: "process_withdraw_wsol_with_session E pid accts t w = Inr w'"
  from run law show "pool_contract pid accts (step_of withdrawing) w w'"
  proof (rule withdraw_wsol_success)
    fix pool rest rest' wa wb
    assume accts: "accts = pool # rest" and f: "owned_frame pid {} w wa" "owned_frame pid {} wb w'"
      and wd: "process_withdraw_sol E pid (pool # rest') t None True wa = Inr wb"
    from contract_before_frame [OF contract_after_frame [OF f(1) withdraw_sol.contract [OF law wd]] f(2)]
    show ?thesis unfolding accts by (rule pool_contract_pool)
  qed
qed

lemma withdraw_stake_step:
  assumes "withdrawal_amounts p t f m = Inr a"
    and "choose_source E pid p pool acc st meta bv req lpt (wd_lamports a) w = Inr (item, l, q)"
    and "debit_pool q (wd_burnt a) l = Inr p'"
  shows "pool_step (Withdrawing (uint (wd_burnt a))) p p'"
proof -
  obtain x y where q: "q = p\<lparr>sp_preferred_deposit_validator_vote_address := x,
      sp_preferred_withdraw_validator_vote_address := y\<rparr>" and l: "l \<le> wd_lamports a"
    by (rule choose_source_pool [OF assms(2)])
  show ?thesis
    using withdrawal_amounts_good(1) [OF assms(1)] l
    by (intro debit_pool_step [OF assms(3) [unfolded q]]) (simp add: good_withdrawal_def word_le_def)
qed

interpretation withdraw_stake: pool_handler
    "\<lambda>E pid accts. process_withdraw_stake E pid accts t m" withdrawing for t m
proof
  fix E pid accts w w'
  assume law: "cpi_law E pid" and run: "process_withdraw_stake E pid accts t m w = Inr w'"
  from run law show "pool_contract pid accts (step_of withdrawing) w w'"
  proof (rule withdraw_stake_success)
    fix pool list auth acc rest p epoch h bv burn man f a st meta req lpt item l q p' w1 w2
    assume accts: "accts = pool # list # auth # acc # rest"
      and pool: "owner_of w pool = pid" "load_pool w pool = Inr p" "sp_is_valid p"
      and list: "load_list w list = Inr (h, bv)" "header_is_valid h" "ai_key list = sp_validator_list p"
      and steps: "withdrawal_amounts p t f m = Inr a"
        "choose_source E pid p pool acc st meta bv req lpt (wd_lamports a) w = Inr (item, l, q)"
        "debit_pool q (wd_burnt a) l = Inr p'"
      and st: "store_pool w1 pool p' = Inr w2"
      and ends: "case item of None \<Rightarrow> w' = w2 | Some (i, v, src) \<Rightarrow>
        (\<exists>v'. debit_validator src l v = Inr v' \<and> w' = store_validator w2 list h bv i v')"
      and f: "owned_frame pid {} w w1"
    note step = withdraw_stake_step [OF steps]
    show ?thesis
    proof (cases item)
      case None
      then show ?thesis
        unfolding accts using contract_writes [OF pool f st step, of withdrawing] ends by simp
    next
      case (Some x)
      then obtain i v' where w': "w' = store_list w2 list h (overwrite i (enc_vsi v') bv)"
        using ends by (cases x) (auto simp: store_validator_def)
      show ?thesis
        unfolding accts
        by (rule contract_store_both [where R = "step_of withdrawing" and bv' = "overwrite i (enc_vsi v') bv", OF pool list f st
              step_valid [OF step pool(3)] step_ofI [OF step]]) (use w' in simp_all)
    qed
  qed
qed

section \<open>Properties\<close>

text \<open>
  C24. The amounts of a withdrawal, exactly and with every error: the fee is the rate rounded up, the
  rest of the tokens is burnt and paid out at the rate of the pool rounded down; the failures are a
  fee above the tokens, an amount beyond 64 bits, nothing to pay out, and less than is demanded.
\<close>

theorem withdrawal_amounts_exact:
  "withdrawal_amounts p t f m = withdrawal_spec p (uint t) (uint f) m
   \<and> (calc_pool_tokens_sol_withdrawal_fee p t = Some f \<longleftrightarrow>
        uint f = ceil_fee (sp_sol_withdrawal_fee p) (uint t))
   \<and> (calc_pool_tokens_stake_withdrawal_fee p t = Some f \<longleftrightarrow>
        uint f = ceil_fee (sp_stake_withdrawal_fee p) (uint t))"
  by (simp add: withdrawal_amounts_eq fee_calcs_Some)

text \<open>
  The fee never blocks a withdrawal: its computation always succeeds with at most the tokens,
  and it is zero for the manager's own account and when the fee account cannot take tokens.
\<close>

lemma withdrawal_fee_never_blocks:
  assumes "fees_ok p"
    and "calc = calc_pool_tokens_sol_withdrawal_fee \<or> calc = calc_pool_tokens_stake_withdrawal_fee"
  shows "\<exists>f. withdrawal_fee_tokens E w calc p burn man t = Inr f \<and> f \<le> t
    \<and> (ai_key burn = sp_manager_fee_account p \<or> \<not> is_ok (check_manager_fee_info E w p man)
         \<longrightarrow> f = 0)"
proof -
  have le: "ceil_fee fee (uint t) \<le> uint t" "0 \<le> ceil_fee fee (uint t)"
    if "fee = sp_sol_withdrawal_fee p \<or> fee = sp_stake_withdrawal_fee p" for fee
    using that assms(1) by (auto simp: fees_ok_def ceil_fee_le ceil_fee_nonneg)
  have "\<exists>f. calc p t = Some f \<and> f \<le> t"
  proof -
    obtain fee where fee: "fee = sp_sol_withdrawal_fee p \<or> fee = sp_stake_withdrawal_fee p"
      "\<And>f. calc p t = Some f \<longleftrightarrow> uint f = ceil_fee fee (uint t)"
      using assms(2) fee_calcs_Some by metis
    have "uint (word_of_int (ceil_fee fee (uint t)) :: u64) = ceil_fee fee (uint t)"
      using le [OF fee(1)] uint64_bound [of t] by (intro u64_of_int) linarith+
    then show ?thesis using fee(2) le [OF fee(1)] by (metis word_le_def)
  qed
  then show ?thesis by (auto simp: withdrawal_fee_tokens_def)
qed

text \<open>
  C9. A successful withdrawal of lamports from an up-to-date pool burns and transfers exactly the
  tokens given, pays out of the reserve exactly what the burnt tokens are worth and not less than
  demanded, leaves the reserve rent exempt, and debits the pool by the burnt tokens and the paid
  lamports and by nothing else.
\<close>

theorem withdraw_sol_debits:
  assumes "process_withdraw_sol E pid (pool # auth # user # burn # reserve # dest # man # mint # clock
      # hist # prog # token # rest) t m wsol w = Inr w'"
    and "cpi_law E pid"
  shows "\<exists>p epoch meta f a d wa w1 s l. load_pool w pool = Inr p \<and> e_clock_get E = Inr epoch
    \<and> epoch \<le> sp_last_update_epoch p
    \<and> ai_key reserve = sp_reserve_stake p \<and> ai_key mint = sp_pool_mint p
    \<and> withdrawal_fee_tokens E w calc_pool_tokens_sol_withdrawal_fee p burn man t = Inr f
    \<and> wd_fee a = f \<and> good_withdrawal p t m a
    \<and> e_decode_stake E (data_of w reserve) = Inr (StakeInitialized meta)
    \<and> meta_rent_exempt_reserve meta \<le> saturating_sub (lamports_of w reserve) (wd_lamports a)
    \<and> burn_and_pay_fee E pid wsol (next_account_info (drop 1 rest)) token burn mint man user d a w = Inr wa
    \<and> stake_withdraw E wa (ai_key pool) reserve auth AUTHORITY_WITHDRAW
        (sp_stake_withdraw_bump_seed p) dest clock hist (wd_lamports a) = Inr w1
    \<and> pool_supply p = uint s + uint (wd_burnt a) \<and> pool_total p = uint l + uint (wd_lamports a)
    \<and> load_pool w' pool = Inr (p\<lparr>sp_pool_token_supply := s, sp_total_lamports := l\<rparr>)"
  using assms
proof (rule withdraw_sol_success)
  fix pool' auth' user' burn' reserve' dest' man' mint' clock' hist' prog' token' rest' p epoch meta f a d
    wa w1 p'
  assume eq: "pool # auth # user # burn # reserve # dest # man # mint # clock # hist # prog # token # rest
      = pool' # auth' # user' # burn' # reserve' # dest' # man' # mint' # clock' # hist' # prog' # token'
        # rest'"
    and facts: "load_pool w pool' = Inr p" "e_clock_get E = Inr epoch" "\<not> sp_last_update_epoch p < epoch"
      "ai_key reserve' = sp_reserve_stake p" "ai_key mint' = sp_pool_mint p"
      "withdrawal_fee_tokens E w calc_pool_tokens_sol_withdrawal_fee p burn' man' t = Inr f"
      "e_decode_stake E (data_of w reserve') = Inr (StakeInitialized meta)"
      "\<not> saturating_sub (lamports_of w reserve') (wd_lamports a) < meta_rent_exempt_reserve meta"
      "burn_and_pay_fee E pid wsol (next_account_info (drop 1 rest')) token' burn' mint' man' user' d a w
        = Inr wa"
      "stake_withdraw E wa (ai_key pool') reserve' auth' AUTHORITY_WITHDRAW
        (sp_stake_withdraw_bump_seed p) dest' clock' hist' (wd_lamports a) = Inr w1"
    and amounts: "withdrawal_amounts p t f m = Inr a"
    and debit: "debit_pool p (wd_burnt a) (wd_lamports a) = Inr p'" and st: "store_pool w1 pool' p' = Inr w'"
  obtain s l where "pool_supply p = uint s + uint (wd_burnt a)" "pool_total p = uint l + uint (wd_lamports a)"
      "p' = p\<lparr>sp_pool_token_supply := s, sp_total_lamports := l\<rparr>"
    using debit by (auto simp: debit_pool_def inversions checked_simps)
  with facts withdrawal_amounts_good [OF amounts] load_store_pool [OF st] eq show ?thesis
    unfolding not_less list.inject by (elim conjE, hypsubst) (intro exI conjI, (assumption | rule refl)+)
qed

lemma sample_withdraw_amounts:
  "withdrawal_amounts sample_pool 1000 0 (Some 1500)
     = Inr \<lparr>wd_fee = 0, wd_burnt = 1000, wd_lamports = 1500\<rparr>"
  unfolding withdrawal_amounts_eq by (simp add: withdrawal_spec_def withdraw_value_def sample_pool_def)

lemma sample_withdraw_runs:
  "\<exists>w'. process_withdraw_sol sample_env 99 [acct 1, acct 50, signer 30, acct 17, acct 15, acct 33, acct 17,
     acct 16, acct 71, acct 72, acct 6, acct 18] 1000 (Some 1500) False sample_world = Inr w'"
proof -
  let ?p = "sample_pool\<lparr>sp_pool_token_supply := 1999000, sp_total_lamports := 2998500\<rparr>"
  have debit: "debit_pool sample_pool 1000 1500 = Inr ?p"
    by (simp add: debit_pool_def sample_pool_def checked_sub_def)
  have "length (ser_stake_pool ?p) \<le> length (ser_stake_pool sample_pool) + 200"
    by (simp add: ser_stake_pool_def ser_u64_def)
  note store = sample_store [OF this]
  have fee: "withdrawal_fee_tokens sample_env sample_world calc_pool_tokens_sol_withdrawal_fee sample_pool
      (acct 17) (acct 17) 1000 = Inr 0"
    by (simp add: withdrawal_fee_tokens_def sample_simps)
  have auth: "sp_sol_withdraw_authority sample_pool = None" by (simp add: sample_pool_def)
  have enough: "\<not> saturating_sub 10000000 1500 < (2282880 :: u64)" by (simp add: saturating_sub_def)
  from store show ?thesis
    by (simp add: process_withdraw_sol_def sample_simps debit fee auth sample_withdraw_amounts enough
        check_account_owner_def check_authority_withdraw_def check_program_derived_authority_def
        check_mint_def check_sol_withdraw_authority_def check_reserve_stake_def check_stake_program_def
        check_reserve_keeps_rent_def burn_and_pay_fee_def token_burn_def stake_withdraw_def invoke_def
        cong: tri_weak_cong)
qed

theorem withdraw_sol_debits_witness:
  "\<exists>w' p'. process_withdraw_sol sample_env 99 [acct 1, acct 50, signer 30, acct 17, acct 15, acct 33,
     acct 17, acct 16, acct 71, acct 72, acct 6, acct 18] 1000 (Some 1500) False sample_world = Inr w'
   \<and> load_pool w' (acct 1) = Inr p' \<and> pool_total p' < 3000000 \<and> pool_supply p' \<le> 2000000"
proof -
  obtain w' where w': "process_withdraw_sol sample_env 99 [acct 1, acct 50, signer 30, acct 17, acct 15,
     acct 33, acct 17, acct 16, acct 71, acct 72, acct 6, acct 18] 1000 (Some 1500) False sample_world
     = Inr w'"
    using sample_withdraw_runs by blast
  from withdraw_sol_debits [OF w' sample_law] obtain a s l where
    "good_withdrawal sample_pool 1000 (Some 1500) a"
    "pool_supply sample_pool = uint s + uint (wd_burnt a)"
    "pool_total sample_pool = uint l + uint (wd_lamports a)"
    "load_pool w' (acct 1) = Inr (sample_pool\<lparr>sp_pool_token_supply := s, sp_total_lamports := l\<rparr>)"
    by (auto simp: sample_load)
  moreover from this have "0 < uint (wd_lamports a)"
    by (auto simp: good_withdrawal_def word_zero_uint order_less_le withdraw_value_nonneg)
  moreover have "pool_total sample_pool = 3000000" "pool_supply sample_pool = 2000000"
    by (simp_all add: sample_pool_def)
  ultimately have "uint l < 3000000" "uint s \<le> 2000000"
    using uint_ge_0 [of "wd_burnt a"] by linarith+
  then have "pool_total (sample_pool\<lparr>sp_pool_token_supply := s, sp_total_lamports := l\<rparr>) < 3000000"
    "pool_supply (sample_pool\<lparr>sp_pool_token_supply := s, sp_total_lamports := l\<rparr>) \<le> 2000000"
    by simp_all
  with w' \<open>load_pool w' (acct 1) = _\<close> show ?thesis by (intro exI conjI)
qed

text \<open>
  C27. A withdrawal through a session needs the wrapped-token account of the user to exist already:
  when the account does not belong to the token program the instruction fails, before it would
  create the account.
\<close>

theorem withdraw_wsol_needs_account:
  assumes "owner_of w user_wsol \<noteq> ai_key token"
  shows "\<not> is_ok (process_withdraw_wsol_with_session E pid
     (pool # auth # sess # burn # reserve # user_wsol # man # mint # clock # hist # prog # token # rest) t w)"
proof
  assume "is_ok (process_withdraw_wsol_with_session E pid
     (pool # auth # sess # burn # reserve # user_wsol # man # mint # clock # hist # prog # token # rest) t w)"
  then show False
    using assms
    by (auto simp: is_ok_iff process_withdraw_wsol_with_session_def inversions Let_def check_wsol_accounts_def
        cong: if_cong sum.case_cong)
qed

theorem withdraw_wsol_needs_account_witness:
  "\<not> is_ok (process_withdraw_wsol_with_session sample_env 99
     (acct 1 # acct 50 # signer 30 # acct 31 # acct 15 # acct 60 # acct 17 # acct 16 # acct 71 # acct 72
      # acct 6 # acct 18 # [acct 8, acct 73, acct 30, acct 5, acct 74, acct 9]) 1000 sample_world)"
  by (rule withdraw_wsol_needs_account) (simp add: owner_of_def sample_world_def acct_def)

text \<open>
  The rules for the source of a stake withdrawal, over the records of the list. Stake above \<open>tol\<close>, which
  is what must stay in an account and the price of one token, can be spared. While some active
  validator has active stake to spare, active stake is taken; else transient stake; else a
  whole account.
\<close>

definition can_spare :: "(ValidatorStakeInfo \<Rightarrow> u64) \<Rightarrow> u64 \<Rightarrow> ValidatorStakeInfo list \<Rightarrow> bool" where
  "can_spare stake tol vs \<longleftrightarrow> (\<exists>v \<in> set vs. tol < stake v \<and> vsi_status v = status_to_u8 Active)"

definition source_order :: "u64 \<Rightarrow> ValidatorStakeInfo list \<Rightarrow> ValidatorStakeInfo \<Rightarrow> StakeWithdrawSource" where
  "source_order tol vs v =
     (if can_spare vsi_active_stake_lamports tol vs then SourceActive
      else if can_spare vsi_transient_stake_lamports tol vs \<or> vsi_transient_stake_lamports v \<noteq> 0
      then SourceTransient else SourceValidatorRemoval)"

definition preference_served :: "u64 \<Rightarrow> ValidatorStakeInfo list \<Rightarrow> Pubkey \<Rightarrow> Pubkey option \<Rightarrow> bool" where
  "preference_served tol vs vote preferred \<longleftrightarrow>
     pred_option (\<lambda>u. u = vote
       \<or> (\<forall>v \<in> set vs. vsi_vote_account_address v = u \<longrightarrow> vsi_active_stake_lamports v \<le> tol)) preferred"

text \<open>
  A withdrawal worth \<open>offered\<close> lamports takes \<open>l\<close> of the \<open>held\<close> lamports of the account \<open>key\<close>, of which \<open>req\<close>
  must stay: the pool before and after (without the amounts), and the records before and after.
\<close>

definition source_ok :: "env \<Rightarrow> Pubkey \<Rightarrow> Pubkey \<Rightarrow> Pubkey \<Rightarrow> u64 \<Rightarrow> StakeStateV2 \<Rightarrow> Meta \<Rightarrow> u64 \<Rightarrow> u64 \<Rightarrow> u64 \<Rightarrow> u64
      \<Rightarrow> StakePool \<Rightarrow> StakePool \<Rightarrow> ValidatorStakeInfo list \<Rightarrow> ValidatorStakeInfo list \<Rightarrow> bool" where
  "source_ok E pid pool key held st meta req lpt offered l p q vs vs' \<longleftrightarrow>
     (let tol = saturating_add req lpt in
      if key = sp_reserve_stake p
      then \<not> can_spare vsi_active_stake_lamports tol vs \<and> \<not> can_spare vsi_transient_stake_lamports tol vs
        \<and> l = offered \<and> meta_rent_exempt_reserve meta \<le> saturating_sub held l \<and> q = p \<and> vs' = vs
      else \<exists>k v d rem. k < length vs \<and> v = vs ! k \<and> vsi_status v = status_to_u8 Active
        \<and> stake_delegation st = Some d \<and> vsi_vote_account_address v = del_voter_pubkey d
        \<and> preference_served tol vs (del_voter_pubkey d) (sp_preferred_withdraw_validator_vote_address p)
        \<and> (case source_order tol vs v of
             SourceActive \<Rightarrow>
               check_validator_stake_address E pid pool key (del_voter_pubkey d)
                 (NonZeroU32_new (vsi_validator_seed_suffix v)) = Inr ()
               \<and> l = offered \<and> req \<le> saturating_sub held l
               \<and> uint (vsi_active_stake_lamports v) = uint rem + uint l
               \<and> q = p \<and> vs' = vs[k := v\<lparr>vsi_active_stake_lamports := rem\<rparr>]
           | SourceTransient \<Rightarrow>
               is_ok (check_transient_stake_address E pid pool key (del_voter_pubkey d)
                 (vsi_transient_seed_suffix v))
               \<and> l = offered \<and> req \<le> saturating_sub held l
               \<and> uint (vsi_transient_stake_lamports v) = uint rem + uint l
               \<and> q = p \<and> vs' = vs[k := v\<lparr>vsi_transient_stake_lamports := rem\<rparr>]
           | SourceValidatorRemoval \<Rightarrow>
               check_validator_stake_address E pid pool key (del_voter_pubkey d)
                 (NonZeroU32_new (vsi_validator_seed_suffix v)) = Inr ()
               \<and> l = held \<and> l \<le> offered \<and> offered \<le> saturating_add l lpt
               \<and> vsi_active_stake_lamports v = l \<and> q = reset_preferred (del_voter_pubkey d) p
               \<and> vs' = vs[k := v\<lparr>vsi_active_stake_lamports := 0,
                   vsi_status := status_to_u8 ReadyForRemoval\<rparr>]))"

lemma has_stake_can_spare:
  assumes "vlist_wf bv"
  shows "has_stake active_lamports_greater_than n bv = Inr (can_spare vsi_active_stake_lamports n (vlist bv))"
    and "has_stake transient_lamports_greater_than n bv
      = Inr (can_spare vsi_transient_stake_lamports n (vlist bv))"
  by (simp_all add: has_stake_Inr [OF assms] can_spare_def)

lemma preference_check:
  assumes "check_preferred_withdraw bv p vote tol = Inr ()" "list_inv h bv"
  shows "preference_served tol (vlist bv) vote (sp_preferred_withdraw_validator_vote_address p)"
proof (cases "sp_preferred_withdraw_validator_vote_address p")
  case (Some u)
  have wf: "vlist_wf bv" and dist: "distinct (map vsi_vote_account_address (vlist bv))"
    using assms(2) by (simp_all add: list_inv_def)
  have "vsi_active_stake_lamports v \<le> tol"
    if ne: "u \<noteq> vote" and v: "v \<in> set (vlist bv)" "vsi_vote_account_address v = u" for v
  proof -
    obtain v' where v': "find (\<lambda>x. vsi_vote_account_address x = u) (vlist bv) = Some v'"
      using v by (cases "find (\<lambda>x. vsi_vote_account_address x = u) (vlist bv)") (auto simp: find_None_iff)
    have "v' = v"
      using find_SomeD [OF v'] v dist by (auto simp: distinct_map dest: inj_onD)
    then have "\<not> saturating_sub (vsi_active_stake_lamports v) tol > 0"
      using assms(1) ne v'
      by (simp add: check_preferred_withdraw_def Some find_validator_Inr [OF wf] Let_def
          cong: tri_weak_cong split: if_splits)
    then show ?thesis by (simp add: word_less_def word_le_def uint_saturating_sub)
  qed
  then show ?thesis by (auto simp: preference_served_def Some)
qed (simp add: preference_served_def)

lemma debit_validator_cases:
  assumes "debit_validator src l v = Inr v'"
  obtains rem where "uint (case src of SourceTransient \<Rightarrow> vsi_transient_stake_lamports v
      | _ \<Rightarrow> vsi_active_stake_lamports v) = uint rem + uint l"
    "v' = (case src of SourceActive \<Rightarrow> v\<lparr>vsi_active_stake_lamports := rem\<rparr>
      | SourceTransient \<Rightarrow> v\<lparr>vsi_transient_stake_lamports := rem\<rparr>
      | SourceValidatorRemoval \<Rightarrow> v\<lparr>vsi_active_stake_lamports := 0, vsi_status := status_to_u8 ReadyForRemoval\<rparr>)"
    "src = SourceValidatorRemoval \<longrightarrow> vsi_active_stake_lamports v = l"
  using assms
  by (cases src) (auto simp: debit_validator_def inversions checked_simps word_uint_eq_iff split: if_splits)

lemma source_ok_reserve:
  assumes "choose_source E pid p pool acc st meta bv req lpt offered w = Inr (None, l, q)" "vlist_wf bv"
  shows "source_ok E pid (ai_key pool) (ai_key acc) (lamports_of w acc) st meta req lpt offered l p q
    (vlist bv) (vlist bv)"
  using choose_source_reserve [OF assms(1)] has_stake_can_spare [OF assms(2)]
  by (simp add: source_ok_def Let_def)

lemma source_ok_validator:
  assumes choice: "choose_source E pid p pool acc st meta bv req lpt offered w = Inr (Some (i, v, src), l, q)"
    and inv: "list_inv h bv" and debit: "debit_validator src l v = Inr v'"
  obtains "list_inv h (overwrite i (enc_vsi v') bv)"
    "source_ok E pid (ai_key pool) (ai_key acc) (lamports_of w acc) st meta req lpt offered l p q
      (vlist bv) (vlist (overwrite i (enc_vsi v') bv))"
  using choice
proof (rule choose_source_validator)
  let ?tol = "saturating_add req lpt"
  fix d act tra
  assume d: "stake_delegation st = Some d" "ai_key acc \<noteq> sp_reserve_stake p"
    and has: "has_stake active_lamports_greater_than ?tol bv = Inr act"
      "has_stake transient_lamports_greater_than ?tol bv = Inr tra"
    and found: "find_validator_mut bv (del_voter_pubkey d) = Inr (Some (i, v))"
    and active: "vsi_status v = status_to_u8 Active"
    and src: "withdraw_source_of E pid (ai_key pool) acc (del_voter_pubkey d) v act tra = Inr src"
    and lim: "limit_withdrawal src (lamports_of w acc) offered req lpt (del_voter_pubkey d) p = Inr (l, q)"
    and pref: "check_preferred_withdraw bv p (del_voter_pubkey d) ?tol = Inr ()"
  have wf: "vlist_wf bv" using inv by (simp add: list_inv_def)
  have "vsi_vote_account_address v' = del_voter_pubkey d"
    using find_validator_mut_found [OF wf found] debit_validator_vote [OF debit] by metis
  from list_inv_store [OF inv found this] obtain k where k: "k < bv_count bv" "v = vlist bv ! k"
      "vsi_vote_account_address v = del_voter_pubkey d"
      "list_inv h (overwrite i (enc_vsi v') bv)" "vlist (overwrite i (enc_vsi v') bv) = (vlist bv)[k := v']"
    by metis
  have order: "source_order ?tol (vlist bv) v = src"
    using has has_stake_can_spare [OF wf] withdraw_source_cases [OF src] by (simp add: source_order_def)
  obtain rem where rem: "uint (case src of SourceTransient \<Rightarrow> vsi_transient_stake_lamports v
      | _ \<Rightarrow> vsi_active_stake_lamports v) = uint rem + uint l"
    "v' = (case src of SourceActive \<Rightarrow> v\<lparr>vsi_active_stake_lamports := rem\<rparr>
      | SourceTransient \<Rightarrow> v\<lparr>vsi_transient_stake_lamports := rem\<rparr>
      | SourceValidatorRemoval \<Rightarrow> v\<lparr>vsi_active_stake_lamports := 0, vsi_status := status_to_u8 ReadyForRemoval\<rparr>)"
    "src = SourceValidatorRemoval \<longrightarrow> vsi_active_stake_lamports v = l"
    by (rule debit_validator_cases [OF debit])
  note parts = d active k(1) k(2) [symmetric] k(3) preference_check [OF pref inv]
  have "source_ok E pid (ai_key pool) (ai_key acc) (lamports_of w acc) st meta req lpt offered l p q
      (vlist bv) ((vlist bv)[k := v'])"
    using parts order src lim rem
    by (cases src) (auto simp: source_ok_def Let_def withdraw_source_of_def limit_withdrawal_def inversions not_less
        split: if_splits intro!: exI [of _ k] exI [of _ rem])
  with k(4,5) that show thesis by simp
qed

text \<open>The stores that end a stake withdrawal leave both records as the choice of the source says.\<close>

lemma withdraw_stake_stored:
  assumes choice: "choose_source E pid p pool acc st meta bv req lpt offered w = Inr (item, l, q)"
    and inv: "list_inv h bv" and ne: "ai_key pool \<noteq> ai_key list"
    and pool2: "load_pool w2 pool = Inr p'" and list2: "load_list w2 list = Inr (h, bv)"
    and ends: "case item of None \<Rightarrow> w' = w2 | Some (i, v, src) \<Rightarrow>
       (\<exists>v'. debit_validator src l v = Inr v' \<and> w' = store_validator w2 list h bv i v')"
  obtains bv' where "load_pool w' pool = Inr p'" "load_list w' list = Inr (h, bv')" "list_inv h bv'"
    "source_ok E pid (ai_key pool) (ai_key acc) (lamports_of w acc) st meta req lpt offered l p q
      (vlist bv) (vlist bv')"
proof (cases item)
  case None
  have "vlist_wf bv" using inv by (simp add: list_inv_def)
  from source_ok_reserve [OF choice [unfolded None] this] show thesis
    using that [of bv] ends None pool2 list2 inv by simp
next
  case (Some z)
  obtain i v src where z: "z = (i, v, src)" by (cases z)
  obtain v' where v': "debit_validator src l v = Inr v'" "w' = store_validator w2 list h bv i v'"
    using ends Some z by auto
  have loads: "load_pool w' pool = Inr p'" "load_list w' list = Inr (h, overwrite i (enc_vsi v') bv)"
    using pool2 ne by (simp_all add: v'(2) load_pool_def store_validator_def store_list_def load_list_Inr)
  show thesis
    by (rule source_ok_validator [OF choice [unfolded Some z] inv v'(1)]) (rule that [OF loads])
qed

text \<open>
  C10. A successful stake withdrawal from an up-to-date pool takes the fee and burns the rest of the
  tokens given, splits \<open>l\<close> lamports off the account given, hands them to the user and pays the fee to the
  manager. The account and \<open>l\<close> obey the order of the sources: what must stay is the account's rent
  and the minimum delegation, and one token's price counts as tolerance. The reserve serves only when no active validator has
  active or transient stake to spare, and it stays rent exempt. Otherwise the account belongs to the active
  validator it is delegated to, which is the preferred one unless that one has nothing to spare: its
  active stake account while active stake can be spared, else its transient account while there is transient stake,
  each keeping what must stay, else the whole active account, which readies the validator for removal. Only the
  record of that validator changes, by \<open>l\<close>; the pool is debited by the burnt tokens and by \<open>l\<close>, which
  is never above what the burnt tokens are worth; and the list keeps its invariant.
\<close>

theorem withdraw_stake_debits:
  assumes "process_withdraw_stake E pid (pool # list # auth # acc # dst # sauth # tauth # burn # man # mint
      # clock # token # prog # rest) t m w = Inr w'"
    and "cpi_law E pid" and "load_list w list = Inr (h, bv)" and "list_inv h bv"
  shows "\<exists>p epoch f a n st meta lpt l q d wa wb wc w1 b c bv'. load_pool w pool = Inr p
    \<and> e_clock_from_account_info E w clock = Inr epoch \<and> epoch \<le> sp_last_update_epoch p
    \<and> ai_key man = sp_manager_fee_account p \<and> check_mint E w p mint = Inr d \<and> ai_key mint = sp_pool_mint p
    \<and> withdrawal_fee_tokens E w calc_pool_tokens_stake_withdrawal_fee p burn man t = Inr f
    \<and> wd_fee a = f \<and> good_withdrawal p t m a
    \<and> e_minimum_delegation E = Inr n \<and> e_decode_stake E (data_of w acc) = Inr st \<and> stake_meta st = Some meta
    \<and> uint lpt = (pool_total p + pool_supply p - 1) div pool_supply p
    \<and> l \<le> wd_lamports a
    \<and> source_ok E pid (ai_key pool) (ai_key acc) (lamports_of w acc) st meta (minimum_stake_lamports meta n)
        lpt (wd_lamports a) l p q (vlist bv) (vlist bv')
    \<and> token_burn E w token burn mint tauth (wd_burnt a) = Inr wa
    \<and> stake_split E wa (ai_key pool) acc auth AUTHORITY_WITHDRAW (sp_stake_withdraw_bump_seed q) l dst = Inr wb
    \<and> stake_authorize_signed E wb (ai_key pool) dst auth AUTHORITY_WITHDRAW
        (sp_stake_withdraw_bump_seed q) (ai_key sauth) clock = Inr wc
    \<and> (if wd_fee a > 0 then token_transfer E wc token burn mint man tauth (wd_fee a) d else Inr wc) = Inr w1
    \<and> pool_supply p = uint b + uint (wd_burnt a) \<and> pool_total p = uint c + uint l
    \<and> load_pool w' pool = Inr (q\<lparr>sp_pool_token_supply := b, sp_total_lamports := c\<rparr>)
    \<and> load_list w' list = Inr (h, bv') \<and> list_inv h bv'"
  using assms(1)
proof (rule withdraw_stake_run)
  fix pool' list' auth' acc' dst' sauth' tauth' burn' man' mint' clock' token' prog' rest' p epoch h' b f a n
    st meta lpt item l q d wa wb wc w1 p' w2
  assume eq: "pool # list # auth # acc # dst # sauth # tauth # burn # man # mint # clock # token # prog # rest
      = pool' # list' # auth' # acc' # dst' # sauth' # tauth' # burn' # man' # mint' # clock' # token' # prog'
        # rest'"
    and p: "load_pool w pool' = Inr p" "sp_is_valid p"
    and ls: "owner_of w list' = pid" "load_list w list' = Inr (h', b)" "header_is_valid h'"
    and facts: "e_clock_from_account_info E w clock' = Inr epoch" "\<not> sp_last_update_epoch p < epoch"
      "ai_key man' = sp_manager_fee_account p" "check_mint E w p mint' = Inr d" "ai_key mint' = sp_pool_mint p"
      "withdrawal_fee_tokens E w calc_pool_tokens_stake_withdrawal_fee p burn' man' t = Inr f"
      "e_minimum_delegation E = Inr n" "e_decode_stake E (data_of w acc') = Inr st" "stake_meta st = Some meta"
    and amounts: "withdrawal_amounts p t f m = Inr a" and lpt: "get_lamports_per_pool_token p = Some lpt"
    and choice: "choose_source E pid p pool' acc' st meta b (minimum_stake_lamports meta n) lpt
        (wd_lamports a) w = Inr (item, l, q)"
    and calls: "token_burn E w token' burn' mint' tauth' (wd_burnt a) = Inr wa"
      "stake_split E wa (ai_key pool') acc' auth' AUTHORITY_WITHDRAW (sp_stake_withdraw_bump_seed q) l dst'
        = Inr wb"
      "stake_authorize_signed E wb (ai_key pool') dst' auth' AUTHORITY_WITHDRAW
        (sp_stake_withdraw_bump_seed q) (ai_key sauth') clock' = Inr wc"
      "(if wd_fee a > 0 then token_transfer E wc token' burn' mint' man' tauth' (wd_fee a) d else Inr wc) = Inr w1"
    and debit: "debit_pool q (wd_burnt a) l = Inr p'" and st: "store_pool w1 pool' p' = Inr w2"
    and ends: "case item of None \<Rightarrow> w' = w2 | Some (i, v, src) \<Rightarrow>
       (\<exists>v'. debit_validator src l v = Inr v' \<and> w' = store_validator w2 list' h' b i v')"
  have eqs: "pool = pool'" "list = list'" "auth = auth'" "acc = acc'" "dst = dst'" "sauth = sauth'"
      "tauth = tauth'" "burn = burn'" "man = man'" "mint = mint'" "clock = clock'" "token = token'"
      "h' = h" "b = bv"
    using eq ls(2) assms(3) by simp_all
  have ne: "ai_key pool' \<noteq> ai_key list'" by (rule pool_not_list [OF p ls(2,3)])
  obtain x y where q: "q = p\<lparr>sp_preferred_deposit_validator_vote_address := x,
      sp_preferred_withdraw_validator_vote_address := y\<rparr>" and le: "l \<le> wd_lamports a"
    by (rule choose_source_pool [OF choice])
  obtain bb c where amounts': "pool_supply p = uint bb + uint (wd_burnt a)" "pool_total p = uint c + uint l"
      and p': "p' = q\<lparr>sp_pool_token_supply := bb, sp_total_lamports := c\<rparr>"
    using debit q by (auto simp: debit_pool_def inversions checked_simps)
  have list2: "load_list w2 list' = Inr (h, bv)"
    using owned_frame_data(1) [OF withdraw_stake_calls_frame [OF assms(2) calls] ls(1)]
      store_pool_others(1) [OF st, of list'] ls(2) ne eqs
    by (simp add: load_list_Inr)
  obtain bv' where stored: "load_pool w' pool' = Inr (q\<lparr>sp_pool_token_supply := bb, sp_total_lamports := c\<rparr>)"
      "load_list w' list' = Inr (h, bv')" "list_inv h bv'"
      "source_ok E pid (ai_key pool') (ai_key acc') (lamports_of w acc') st meta (minimum_stake_lamports meta n)
        lpt (wd_lamports a) l p q (vlist bv) (vlist bv')"
    using withdraw_stake_stored [OF choice [unfolded eqs(14)] assms(4) ne load_store_pool [OF st] list2
        ends [unfolded eqs(13,14)]] p' by metis
  from p(1) facts withdrawal_amounts_good [OF amounts] get_lamports_per_pool_token_Some(2) [OF lpt] le calls
    amounts' stored show ?thesis
    unfolding eqs(1-12) not_less
    by - (rule exI [of _ p], rule exI [of _ epoch], rule exI [of _ f], rule exI [of _ a], rule exI [of _ n],
      rule exI [of _ st], rule exI [of _ meta], rule exI [of _ lpt], rule exI [of _ l], rule exI [of _ q],
      rule exI [of _ d], rule exI [of _ wa], rule exI [of _ wb], rule exI [of _ wc], rule exI [of _ w1],
      rule exI [of _ bb], rule exI [of _ c], rule exI [of _ bv'], intro conjI)
qed

lemma sample_withdraw_stake_runs:
  "\<exists>w'. process_withdraw_stake sample_env 99 [acct 1, acct 14, acct 50, acct 15, acct 34, acct 35, signer 30,
     acct 17, acct 17, acct 16, acct 71, acct 18, acct 6] 1000 (Some 1500) sample_world = Inr w'"
proof -
  let ?p = "sample_pool\<lparr>sp_pool_token_supply := 1999000, sp_total_lamports := 2998500\<rparr>"
  have debit: "debit_pool sample_pool 1000 1500 = Inr ?p"
    by (simp add: debit_pool_def sample_pool_def checked_sub_def)
  have "length (ser_stake_pool ?p) \<le> length (ser_stake_pool sample_pool) + 200"
    by (simp add: ser_stake_pool_def ser_u64_def)
  note store = sample_store [OF this]
  have fee: "withdrawal_fee_tokens sample_env sample_world calc_pool_tokens_stake_withdrawal_fee sample_pool
      (acct 17) (acct 17) 1000 = Inr 0"
    by (simp add: withdrawal_fee_tokens_def sample_simps)
  have lpt: "get_lamports_per_pool_token sample_pool = Some 2"
    by (simp add: get_lamports_per_pool_token_def sample_pool_def checked_add_def checked_sub_def
        checked_div_def)
  have none: "\<not> can_spare vsi_active_stake_lamports 3282882 (vlist sample_vec)"
    "\<not> can_spare vsi_transient_stake_lamports 3282882 (vlist sample_vec)"
    unfolding sample_vec_facts(2) by (simp_all add: can_spare_def sample_validators_def default_vsi_def)
  have req: "saturating_add (minimum_stake_lamports sample_meta 1000000) 2 = 3282882"
    by (simp add: minimum_stake_lamports_def minimum_delegation_def saturating_add_def sample_simps
        MINIMUM_ACTIVE_STAKE_def)
  have enough: "\<not> saturating_sub 10000000 1500 < (2282880 :: u64)" by (simp add: saturating_sub_def)
  have src: "choose_source sample_env 99 sample_pool (acct 1) (acct 15) (StakeInitialized sample_meta)
      sample_meta sample_vec (minimum_stake_lamports sample_meta 1000000) 2 1500 sample_world
      = Inr (None, 1500, sample_pool)"
    by (simp add: choose_source_def req has_stake_can_spare [OF sample_vec_facts(1)] none sample_simps
        check_reserve_withdrawal_def enough)
  from store show ?thesis
    by (auto simp: process_withdraw_stake_def sample_simps debit fee lpt src sample_withdraw_amounts
        check_account_owner_def check_authority_withdraw_def check_program_derived_authority_def
        check_mint_def check_validator_list_def check_stake_program_def
        token_burn_def stake_split_def stake_authorize_signed_def invoke_def cong: tri_weak_cong)
qed

theorem withdraw_stake_debits_witness:
  "\<exists>w' p'. process_withdraw_stake sample_env 99 [acct 1, acct 14, acct 50, acct 15, acct 34, acct 35, signer 30,
     acct 17, acct 17, acct 16, acct 71, acct 18, acct 6] 1000 (Some 1500) sample_world = Inr w'
   \<and> load_pool w' (acct 1) = Inr p' \<and> pool_total p' \<le> 3000000"
proof -
  obtain w' where w': "process_withdraw_stake sample_env 99 [acct 1, acct 14, acct 50, acct 15, acct 34,
     acct 35, signer 30, acct 17, acct 17, acct 16, acct 71, acct 18, acct 6] 1000 (Some 1500) sample_world
     = Inr w'"
    using sample_withdraw_stake_runs by blast
  from withdraw_stake_debits [OF w' sample_law sample_load(2) sample_list_inv] obtain p' :: StakePool and l :: u64
    where "load_pool w' (acct 1) = Inr p'" and p': "pool_total sample_pool = pool_total p' + uint l"
    by (auto simp: sample_load)
  moreover have "pool_total sample_pool = 3000000" by (simp add: sample_pool_def)
  moreover have "pool_total p' \<le> pool_total sample_pool" using p' uint_ge_0 [of l] by linarith
  ultimately show ?thesis using w' by auto
qed

end
