(* ===== verification/List_Invariant.thy ===== *)
theory List_Invariant
  imports Admin Validators Rebalance Balance_Update Deposits Withdrawals
begin

text \<open>
  The invariant of all validator lists that the program owns: each is well formed, within the
  capacity of its account, has at most one record for a vote account, and every status byte is a status. The locale
  \<open>list_handler\<close> is the contract of a handler towards that invariant; every handler of
  \<^verbatim>\<open>program/src/processor.rs\<close> is an interpretation of it, whether it writes the list or not.
\<close>

section \<open>Status bytes\<close>

definition valid_status :: "u8 \<Rightarrow> bool" where
  "valid_status b \<longleftrightarrow> is_ok (status_try_from b)"

lemma valid_status_to_u8 [simp]: "valid_status (status_to_u8 s)"
  by (cases s) (simp_all add: valid_status_def status_try_from_def status_from_u8_def)

lemma remove_stake_valid:
  "remove_transient_stake st = Inr st' \<Longrightarrow> valid_status st'"
  "remove_validator_stake st = Inr st' \<Longrightarrow> valid_status st'"
  by (auto simp: remove_transient_stake_def remove_validator_stake_def inversions Let_def)

lemma update_transient_valid:
  "update_delegated_transient E p a b c d e epoch st v t s vs w = Inr (st', w') \<Longrightarrow> valid_status st
     \<Longrightarrow> valid_status st'"
  "update_transient E p a b c d e epoch nm r v t w = Inr (st, l, w') \<Longrightarrow> valid_status (vsi_status r)
     \<Longrightarrow> valid_status st"
proof -
  show del: "update_delegated_transient E p a b c d e epoch st v t s vs w = Inr (st', w')
      \<Longrightarrow> valid_status st \<Longrightarrow> valid_status st'" for st st' v t s vs w w'
    by (auto simp: update_delegated_transient_def inversions dest: remove_stake_valid
        split: if_splits option.splits StakeStateV2.splits)
  show "update_transient E p a b c d e epoch nm r v t w = Inr (st, l, w') \<Longrightarrow> valid_status (vsi_status r)
      \<Longrightarrow> valid_status st"
    by (auto simp: update_transient_def inversions Let_def dest: remove_stake_valid del
        split: if_splits option.splits StakeStateV2.splits)
qed

lemma update_validator_valid:
  "update_validator E p a b c d e epoch nm st lam v w = Inr (st', l, w') \<Longrightarrow> valid_status st
     \<Longrightarrow> valid_status st'"
proof -
  have act: "valid_status st'"
    if "update_active E p a b c d e epoch nm st v meta s w = Inr (st', l, w')" "valid_status st" for meta s
  proof (cases "status_try_from st")
    case (Inr ss)
    then show ?thesis
      using that by (cases ss) (auto simp: update_active_def tri_Inr Let_def dest: remove_stake_valid split: if_splits)
  qed (use that in \<open>auto simp: update_active_def tri_Inr Let_def\<close>)
  show "update_validator E p a b c d e epoch nm st lam v w = Inr (st', l, w') \<Longrightarrow> valid_status st
     \<Longrightarrow> valid_status st'"
    by (auto simp: update_validator_def inversions Let_def dest: act simp del: status_to_u8.simps
        split: if_splits option.splits StakeStateV2.splits)
qed

lemma update_record_valid:
  assumes "update_record E pid p a b c d e epoch nm r v t w = Inr (r', w')" "valid_status (vsi_status r)"
  shows "valid_status (vsi_status r')"
  using assms
  by (auto simp: update_record_def inversions split: if_splits
      dest!: update_transient_valid(2) update_validator_valid)

lemma debit_validator_valid:
  "debit_validator src l v = Inr v' \<Longrightarrow> valid_status (vsi_status v) \<Longrightarrow> valid_status (vsi_status v')"
  by (cases src) (auto simp: debit_validator_def inversions simp del: status_to_u8.simps split: if_splits)

section \<open>The invariant and how writes keep it\<close>

definition list_good :: "ValidatorListHeader \<Rightarrow> byte list \<Rightarrow> bool" where
  "list_good h bv \<longleftrightarrow> list_inv h bv \<and> (\<forall>v \<in> set (vlist bv). valid_status (vsi_status v))"

definition all_lists :: "Pubkey \<Rightarrow> world \<Rightarrow> bool" where
  "all_lists pid w \<longleftrightarrow>
     (\<forall>a h bv. owner_of w a = pid \<longrightarrow> load_list w a = Inr (h, bv) \<longrightarrow> header_is_valid h \<longrightarrow> list_good h bv)"

lemma all_listsI:
  assumes "\<And>a h bv. owner_of w a = pid \<Longrightarrow> load_list w a = Inr (h, bv) \<Longrightarrow> header_is_valid h \<Longrightarrow> list_good h bv"
  shows "all_lists pid w"
  using assms unfolding all_lists_def by blast

lemma all_listsD:
  "all_lists pid w \<Longrightarrow> owner_of w a = pid \<Longrightarrow> load_list w a = Inr (h, bv) \<Longrightarrow> header_is_valid h \<Longrightarrow> list_good h bv"
  unfolding all_lists_def by blast

lemma zeroed_is_no_list:
  assumes "set (data_of w a) \<subseteq> {0}" "load_list w a = Inr (h, bv)"
  shows "\<not> header_is_valid h"
  using assms by (auto simp: load_list_Inr ser_header_def header_is_valid_def)

lemma lists_frame:
  assumes "all_lists pid w" "owned_frame pid {} w w'"
  shows "all_lists pid w'"
proof (rule all_listsI)
  fix a h bv assume a: "owner_of w' a = pid" "load_list w' a = Inr (h, bv)" "header_is_valid h"
  show "list_good h bv"
  proof (cases "owner_of w a = pid")
    case True
    then have "load_list w a = Inr (h, bv)"
      using owned_frame_data(1) [OF assms(2)] a(2) by (simp add: load_list_Inr)
    then show ?thesis by (rule all_listsD [OF assms(1) True _ a(3)])
  next
    case False
    then have "set (data_of w' a) \<subseteq> {0}"
      using assms(2) a(1) by (simp add: owned_frame_def owner_of_def data_of_def)
    then show ?thesis using zeroed_is_no_list a by blast
  qed
qed

lemma lists_store_pool:
  assumes "all_lists pid w" and st: "store_pool w pool p = Inr w'" and "sp_is_valid p"
  shows "all_lists pid w'"
proof (rule all_listsI)
  fix a h bv assume a: "owner_of w' a = pid" "load_list w' a = Inr (h, bv)" "header_is_valid h"
  have "ai_key a \<noteq> ai_key pool"
    using pool_not_list [OF load_store_pool [OF st] assms(3) a(2,3)] by simp
  then have "load_list w a = Inr (h, bv)" "owner_of w a = pid"
    using store_pool_others(1) [OF st, of a] store_pool_others(3) [OF st, of a] a(1,2)
    by (simp_all add: load_list_Inr)
  then show "list_good h bv" using all_listsD [OF assms(1) _ _ a(3)] by blast
qed

lemma owner_store_list [simp]: "owner_of (store_list w l h bv) a = owner_of w a"
  by (simp add: store_list_def)

lemma lists_store_list:
  assumes "all_lists pid w" "list_good h bv"
  shows "all_lists pid (store_list w l h bv)"
  by (rule all_listsI) (use assms in \<open>auto split: if_splits dest: all_listsD\<close>)

lemma lists_writes:
  "all_lists pid w \<Longrightarrow> owned_frame pid {} w w1 \<Longrightarrow> store_pool w1 pool p = Inr w' \<Longrightarrow> sp_is_valid p
     \<Longrightarrow> all_lists pid w'"
  by (rule lists_store_pool [OF lists_frame])

text \<open>The record of a validator is written back where it was found, after other writes.\<close>

lemma lists_record:
  assumes "all_lists pid w" "w' = store_validator w1 list h bv i v'" "all_lists pid w1"
    and "owner_of w list = pid" "load_list w list = Inr (h, bv)" "header_is_valid h"
    and "find_validator_mut bv vote = Inr (Some (i, v))"
    and "vsi_vote_account_address v' = vsi_vote_account_address v"
    and "valid_status (vsi_status v) \<Longrightarrow> valid_status (vsi_status v')"
  shows "all_lists pid w'"
proof -
  have good: "list_good h bv" by (rule all_listsD [OF assms(1,4-6)])
  then have inv: "list_inv h bv" by (simp add: list_good_def)
  then have "vsi_vote_account_address v = vote"
    using find_validator_mut_found [OF _ assms(7)] by (auto simp: list_inv_def)
  with list_inv_store [OF inv assms(7), of v'] assms(8) obtain k where k: "k < bv_count bv"
      "vlist bv ! k = v" "list_inv h (overwrite i (enc_vsi v') bv)"
      "vlist (overwrite i (enc_vsi v') bv) = (vlist bv)[k := v']"
    by auto
  have "valid_status (vsi_status v)"
    using good k(1,2) nth_mem [of k "vlist bv"] by (auto simp: list_good_def)
  then have "list_good h (overwrite i (enc_vsi v') bv)"
    using good k(3) assms(9) unfolding list_good_def k(4) by (auto dest!: set_update_subset_insert [THEN subsetD])
  then show ?thesis
    unfolding assms(2) store_validator_def by (rule lists_store_list [OF assms(3)])
qed

section \<open>The contract of a handler\<close>

locale list_handler =
  fixes run :: "env \<Rightarrow> Pubkey \<Rightarrow> AccountInfo list \<Rightarrow> world \<Rightarrow> world result"
  assumes keeps_lists:
    "cpi_law E pid \<Longrightarrow> run E pid accts w = Inr w' \<Longrightarrow> all_lists pid w \<Longrightarrow> all_lists pid w'"
begin

lemma keeps_own_list:
  assumes "cpi_law E pid" "run E pid accts w = Inr w'" "all_lists pid w" "owner_of w' l = pid"
    and "load_list w' l = Inr (h, bv)" "header_is_valid h"
  shows "distinct (map vsi_vote_account_address (vlist bv))" "bv_count bv \<le> unat (vlh_max_validators h)"
  using all_listsD [OF keeps_lists [OF assms(1-3)] assms(4-6)] by (simp_all add: list_good_def list_inv_def)

end

section \<open>The handlers that write only the pool\<close>

interpretation l_set_manager: list_handler process_set_manager
  by unfold_locales
    (auto elim!: set_manager_success elim: lists_writes simp: sp_is_valid_def)

interpretation l_set_fee: list_handler "\<lambda>E pid accts. process_set_fee E pid accts fee" for fee
  by unfold_locales
    (erule set_fee_success, erule (1) lists_store_pool, rule step_valid [OF step_fee])

interpretation l_set_staker: list_handler process_set_staker
  by unfold_locales (auto elim!: set_staker_success elim: lists_writes simp: sp_is_valid_def)

interpretation l_set_funding: list_handler "\<lambda>E pid accts. process_set_funding_authority E pid accts t" for t
  by unfold_locales (auto elim!: set_funding_success intro: lists_store_pool step_valid)

interpretation l_create_metadata: list_handler
    "\<lambda>E pid accts. process_create_pool_token_metadata E pid accts n s u" for n s u
  by unfold_locales (erule create_metadata_success, assumption, erule (1) lists_frame)

interpretation l_update_metadata: list_handler
    "\<lambda>E pid accts. process_update_pool_token_metadata E pid accts n s u" for n s u
  by unfold_locales (erule update_metadata_success, assumption, erule (1) lists_frame)

lemma credit_valid: "credit_pool p n l = Inr p' \<Longrightarrow> sp_is_valid p \<Longrightarrow> sp_is_valid p'"
  by (auto simp: credit_pool_def inversions sp_is_valid_def)

lemma debit_valid: "debit_pool p n l = Inr p' \<Longrightarrow> sp_is_valid p \<Longrightarrow> sp_is_valid p'"
  by (auto simp: debit_pool_def inversions sp_is_valid_def)

interpretation l_deposit_sol: list_handler "\<lambda>E pid accts. process_deposit_sol E pid accts l m wsol" for l m wsol
  by unfold_locales
    (erule deposit_sol_success, assumption, erule (2) lists_writes, erule (1) credit_valid)

interpretation l_deposit_wsol: list_handler "\<lambda>E pid accts. process_deposit_wsol_with_session E pid accts l" for l
  by unfold_locales
    (erule deposit_wsol_success, assumption, rule l_deposit_sol.keeps_lists, assumption+, erule (1) lists_frame)

interpretation l_withdraw_sol: list_handler "\<lambda>E pid accts. process_withdraw_sol E pid accts t m wsol" for t m wsol
  by unfold_locales
    (erule withdraw_sol_success, assumption, erule (2) lists_writes, erule (1) debit_valid)

interpretation l_withdraw_wsol: list_handler "\<lambda>E pid accts. process_withdraw_wsol_with_session E pid accts t" for t
proof
  fix E pid accts w w'
  assume law: "cpi_law E pid" and inv: "all_lists pid w"
    and run: "process_withdraw_wsol_with_session E pid accts t w = Inr w'"
  from run law obtain pool rest' wa wb where "owned_frame pid {} w wa"
    "process_withdraw_sol E pid (pool # rest') t None True wa = Inr wb" "owned_frame pid {} wb w'"
    by (rule withdraw_wsol_success)
  then show "all_lists pid w'"
    using l_withdraw_sol.keeps_lists [OF law] inv lists_frame by blast
qed

interpretation l_set_preferred: list_handler
    "\<lambda>E pid accts. process_set_preferred_validator E pid accts t vote" for t vote
  by unfold_locales
    (erule set_preferred_success, erule (1) lists_store_pool, simp add: sp_is_valid_def split: PreferredValidatorType.split)

interpretation l_update_pool: list_handler process_update_stake_pool_balance
  by unfold_locales
    (erule update_pool_success, assumption, erule (2) lists_writes, erule step_valid [OF advance_epoch_step])

section \<open>The handlers that write the list\<close>

interpretation l_add_validator: list_handler "\<lambda>E pid accts. process_add_validator_to_pool E pid accts seed" for seed
proof
  fix E pid accts w w'
  assume law: "cpi_law E pid" and inv: "all_lists pid w"
    and run: "process_add_validator_to_pool E pid accts seed w = Inr w'"
  from run law obtain list vote :: AccountInfo and h bv bv' w1 req epoch where
      l: "owner_of w list = pid" "load_list w list = Inr (h, bv)" "check_can_add h bv (ai_key vote) = Inr ()"
        "bv_push VSI_LEN (enc_vsi (new_validator (ai_key vote) req epoch seed)) bv = Inr bv'"
      and w': "w' = store_list w1 list h bv'" "owned_frame pid {} w w1"
    by (rule add_validator_success)
  have "header_is_valid h" using l(3) by (auto simp: check_can_add_def inversions)
  then have good: "list_good h bv" by (rule all_listsD [OF inv l(1,2)])
  then have i: "list_inv h bv" by (simp add: list_good_def)
  have "list_inv h bv' \<and> vlist bv' = vlist bv @ [new_validator (ai_key vote) req epoch seed]"
    using i l(3,4) list_inv_push [OF i _ _ l(4)] check_can_add_Inr
    by (auto simp: list_inv_def new_validator_def)
  then have "list_good h bv'"
    using good by (auto simp: list_good_def new_validator_def simp del: status_to_u8.simps)
  then show "all_lists pid w'"
    unfolding w' by (rule lists_store_list [OF lists_frame [OF inv w'(2)]])
qed

interpretation l_remove_validator: list_handler process_remove_validator_from_pool
proof
  fix E pid accts w w'
  assume law: "cpi_law E pid" and inv: "all_lists pid w"
    and run: "process_remove_validator_from_pool E pid accts w = Inr w'"
  from run law show "all_lists pid w'"
    by (rule remove_validator_success)
      (erule lists_store_pool [rotated], erule step_valid [OF reset_preferred_step],
        rule lists_record [OF inv refl lists_frame [OF inv]], assumption+, simp, simp del: status_to_u8.simps)
qed

interpretation l_cleanup: list_handler process_cleanup_removed_validator_entries
proof
  fix E pid accts w w'
  assume inv: "all_lists pid w" and run: "process_cleanup_removed_validator_entries E pid accts w = Inr w'"
  from run show "all_lists pid w'"
  proof (rule cleanup_success)
    fix pool list rest p h bv bv'
    assume l: "owner_of w list = pid" "load_list w list = Inr (h, bv)" "header_is_valid h"
      and p: "sp_is_valid p"
      and r: "bv_retain VSI_LEN (\<lambda>x. \<not> is_removed x) bv = Inr bv'"
      and ends: "\<not> ai_is_writable pool \<and> w' = store_list w list h bv'
       \<or> ai_is_writable pool \<and>
         (\<exists>d x. checked_preference bv' (sp_preferred_deposit_validator_vote_address p) = Inr d
            \<and> checked_preference bv' (sp_preferred_withdraw_validator_vote_address p) = Inr x
            \<and> store_pool (store_list w list h bv') pool
                 (p\<lparr>sp_preferred_deposit_validator_vote_address := d,
                    sp_preferred_withdraw_validator_vote_address := x\<rparr>) = Inr w')"
    have good: "list_good h bv" by (rule all_listsD [OF inv l])
    have "list_good h bv'"
      using good list_inv_retain [OF _ r, of h] by (auto simp: list_good_def)
    then have "all_lists pid (store_list w list h bv')" by (rule lists_store_list [OF inv])
    then show ?thesis using ends p lists_store_pool by (auto simp: sp_is_valid_def)
  qed
qed

interpretation l_decrease: list_handler
    "\<lambda>E pid accts. process_decrease_validator_stake E pid accts l seed eph fund" for l seed eph fund
proof
  fix E pid accts w w'
  assume law: "cpi_law E pid" and inv: "all_lists pid w"
    and run: "process_decrease_validator_stake E pid accts l seed eph fund w = Inr w'"
  from run law show "all_lists pid w'"
    by (rule decrease_success)
      (erule lists_record [OF inv], erule lists_frame [OF inv], assumption+, simp, simp)
qed

interpretation l_increase: list_handler
    "\<lambda>E pid accts. process_increase_validator_stake E pid accts l seed eph" for l seed eph
proof
  fix E pid accts w w'
  assume law: "cpi_law E pid" and inv: "all_lists pid w"
    and run: "process_increase_validator_stake E pid accts l seed eph w = Inr w'"
  from run law show "all_lists pid w'"
    by (rule increase_success)
      (erule lists_record [OF inv], erule lists_frame [OF inv], assumption+, simp, simp)
qed

interpretation l_deposit_stake: list_handler "\<lambda>E pid accts. process_deposit_stake E pid accts m" for m
proof
  fix E pid accts w w'
  assume law: "cpi_law E pid" and inv: "all_lists pid w"
    and run: "process_deposit_stake E pid accts m w = Inr w'"
  from run law show "all_lists pid w'"
    by (rule deposit_stake_success)
      (erule lists_record [OF inv], erule (1) lists_writes [OF inv], erule (1) credit_valid, assumption+, simp, simp)
qed

interpretation l_withdraw_stake: list_handler "\<lambda>E pid accts. process_withdraw_stake E pid accts t m" for t m
proof
  fix E pid accts w w'
  assume law: "cpi_law E pid" and inv: "all_lists pid w"
    and run: "process_withdraw_stake E pid accts t m w = Inr w'"
  from run law show "all_lists pid w'"
  proof (rule withdraw_stake_success)
    fix pool list acc h bv a item l q p' w1 w2 and p :: StakePool and st meta req lpt
    assume p: "sp_is_valid p" and fr: "owned_frame pid {} w w1"
      and src: "choose_source E pid p pool acc st meta bv req lpt (wd_lamports a) w = Inr (item, l, q)"
      and st: "debit_pool q (wd_burnt a) l = Inr p'" "store_pool w1 pool p' = Inr w2"
      and l: "owner_of w list = pid" "load_list w list = Inr (h, bv)" "header_is_valid h"
      and ends: "case item of None \<Rightarrow> w' = w2 | Some (i, v, src) \<Rightarrow>
         (\<exists>v'. debit_validator src l v = Inr v' \<and> w' = store_validator w2 list h bv i v')"
    have "sp_is_valid q" by (rule choose_source_pool [OF src]) (use p in \<open>simp add: sp_is_valid_def\<close>)
    then have w2: "all_lists pid w2" by (rule lists_writes [OF inv fr st(2) debit_valid [OF st(1)]])
    show ?thesis
    proof (cases item)
      case None
      then show ?thesis using ends w2 by simp
    next
      case (Some z)
      obtain i v s where z: "z = (i, v, s)" by (cases z)
      obtain v' where v': "debit_validator s l v = Inr v'" "w' = store_validator w2 list h bv i v'"
        using ends Some z by auto
      obtain d :: Delegation where "find_validator_mut bv (del_voter_pubkey d) = Inr (Some (i, v))"
        by (rule choose_source_validator [OF src [unfolded Some z]]) blast
      then show ?thesis
        by (rule lists_record [OF inv v'(2) w2 l])
          (rule debit_validator_vote [OF v'(1)], rule debit_validator_valid [OF v'(1)])
    qed
  qed
qed

interpretation l_update_list: list_handler
    "\<lambda>E pid accts. process_update_validator_list_balance E pid accts start nm" for start nm
proof
  fix E pid accts w w'
  assume law: "cpi_law E pid" and inv: "all_lists pid w"
    and run: "process_update_validator_list_balance E pid accts start nm w = Inr w'"
  from run law show "all_lists pid w'"
  proof (rule update_list_success)
    fix pool auth list reserve clock hist prog stakes p epoch h bv offset sl records w1
    assume l: "owner_of w list = pid" "load_list w list = Inr (h, bv)" "header_is_valid h"
      and sl: "bv_deserialize_mut_slice VSI_LEN dec_vsi (unat start) (length stakes div 2) bv = Inr (offset, sl)"
      and even: "length stakes mod 2 = 0"
      and loop: "update_loop (update_record E pid p pool auth reserve clock hist epoch nm)
         (zip sl (chunks2 stakes)) w = Inr (records, w1)"
      and w': "w' = store_list w1 list h (overwrite offset (concat (map enc_vsi records)) bv)"
      and f: "owned_frame pid {} w w1"
    have good: "list_good h bv" by (rule all_listsD [OF inv l])
    then have i: "list_inv h bv" by (simp add: list_good_def)
    then have lsl: "length sl = length stakes div 2"
      using vsi.deserialize_mut_slice_refines [OF _ _ sl] by (simp add: list_inv_def)
    then have fst: "map fst (zip sl (chunks2 stakes)) = sl"
      using length_chunks2 [of stakes] even by (simp add: map_fst_zip_take)
    then have votes: "map vsi_vote_account_address records = map vsi_vote_account_address sl"
      using update_loop_frame [OF _ loop, of pid] update_record_frame [OF _ law] by (metis map_map)
    note st = list_inv_store_slice [OF i sl votes]
    have sl_valid: "valid_status (vsi_status v)" if "v \<in> set sl" for v
      using that good st(3) by (auto simp: list_good_def dest!: in_set_takeD in_set_dropD)
    have "valid_status (vsi_status (records ! k))" if "k < length records" for k
    proof -
      have k: "k < length (zip sl (chunks2 stakes))" "fst (zip sl (chunks2 stakes) ! k) = sl ! k" "k < length sl"
        using that update_loop_nth [OF loop] fst by (metis length_map nth_map)+
      then show ?thesis
        using update_loop_nth [THEN conjunct2, rule_format, OF loop, of k] sl_valid [of "sl ! k"]
        by (auto dest: update_record_valid)
    qed
    then have "valid_status (vsi_status v)" if "v \<in> set records" for v
      using that by (auto simp: in_set_conv_nth)
    then have "list_good h (overwrite offset (concat (map enc_vsi records)) bv)"
      using good st(1) unfolding list_good_def st(2) by (auto dest: in_set_takeD in_set_dropD)
    then show ?thesis unfolding w' by (rule lists_store_list [OF lists_frame [OF inv f]])
  qed
qed

interpretation l_initialize: list_handler
    "\<lambda>E pid accts. process_initialize E pid accts epf wdf dpf rf m" for epf wdf dpf rf m
proof
  fix E pid accts w w'
  assume law: "cpi_law E pid" and inv: "all_lists pid w"
    and run: "process_initialize E pid accts epf wdf dpf rf m w = Inr w'"
  from run law show "all_lists pid w'"
  proof (rule initialize_success)
    fix pool list p bv
    let ?h = "\<lparr>vlh_account_type = ValidatorListAccount, vlh_max_validators = m\<rparr>"
    assume p: "load_pool w' pool = Inr p" "fresh_pool p epf wdf dpf rf"
      and l: "load_list w' list = Inr (?h, bv)" "list_inv ?h bv" and nil: "vlist bv = []"
      and f: "owned_frame pid {ai_key pool, ai_key list} w w'"
    have pv: "sp_is_valid p" using p(2) by (simp add: fresh_pool_def)
    show ?thesis
    proof (rule all_listsI)
      fix a h b assume a: "owner_of w' a = pid" "load_list w' a = Inr (h, b)" "header_is_valid h"
      have ne: "ai_key a \<noteq> ai_key pool" using pool_not_list [OF p(1) pv a(2,3)] by simp
      show "list_good h b"
      proof (cases "ai_key a = ai_key list")
        case True
        then have "load_list w' a = load_list w' list" by (simp add: load_list_def data_of_def)
        then show ?thesis using a(2) l nil by (simp add: list_good_def)
      next
        case False
        note ka = ne False
        show ?thesis
        proof (cases "owner_of w a = pid")
          case True
          then have "data_of w' a = data_of w a"
            using f ka by (simp add: owned_frame_def owner_of_def data_of_def)
          then show ?thesis using all_listsD [OF inv True _ a(3)] a(2) by (simp add: load_list_Inr)
        next
          case False
          then have "set (data_of w' a) \<subseteq> {0}"
            using f a(1) ka by (simp add: owned_frame_def owner_of_def data_of_def)
          then show ?thesis using zeroed_is_no_list a by blast
        qed
      qed
    qed
  qed
qed

end
