(* ===== verification/Dispatch.thy ===== *)
theory Dispatch
  imports List_Invariant
begin

text \<open>
  The dispatch of an instruction (\<open>Processor::process\<close>, \<^verbatim>\<open>program/src/processor.rs\<close>): the input is
  decoded and handed to its handler with the arguments of the source. The lemmas collect the
  contracts of the handlers into contracts of the whole program: which actions of the abstract
  pool an instruction may take, that fees stay fractions and that lists keep their invariant.
\<close>

definition process_instruction ::
    "env \<Rightarrow> Pubkey \<Rightarrow> AccountInfo list \<Rightarrow> StakePoolInstruction \<Rightarrow> world \<Rightarrow> world result" where
  "process_instruction E program_id accounts ix w =
     (case ix of
        Initialize fee withdrawal_fee deposit_fee referral_fee max_validators \<Rightarrow>
          process_initialize E program_id accounts fee withdrawal_fee deposit_fee referral_fee
            max_validators w
      | AddValidatorToPool seed \<Rightarrow> process_add_validator_to_pool E program_id accounts seed w
      | RemoveValidatorFromPool \<Rightarrow> process_remove_validator_from_pool E program_id accounts w
      | DecreaseValidatorStake lamports transient_stake_seed \<Rightarrow>
          process_decrease_validator_stake E program_id accounts lamports transient_stake_seed
            None False w
      | DecreaseValidatorStakeWithReserve lamports transient_stake_seed \<Rightarrow>
          process_decrease_validator_stake E program_id accounts lamports transient_stake_seed
            None True w
      | DecreaseAdditionalValidatorStake lamports transient_stake_seed ephemeral_stake_seed \<Rightarrow>
          process_decrease_validator_stake E program_id accounts lamports transient_stake_seed
            (Some ephemeral_stake_seed) True w
      | IncreaseValidatorStake lamports transient_stake_seed \<Rightarrow>
          process_increase_validator_stake E program_id accounts lamports transient_stake_seed
            None w
      | IncreaseAdditionalValidatorStake lamports transient_stake_seed ephemeral_stake_seed \<Rightarrow>
          process_increase_validator_stake E program_id accounts lamports transient_stake_seed
            (Some ephemeral_stake_seed) w
      | SetPreferredValidator validator_type validator_vote_address \<Rightarrow>
          process_set_preferred_validator E program_id accounts validator_type
            validator_vote_address w
      | UpdateValidatorListBalance start_index no_merge \<Rightarrow>
          process_update_validator_list_balance E program_id accounts start_index no_merge w
      | UpdateStakePoolBalance \<Rightarrow> process_update_stake_pool_balance E program_id accounts w
      | CleanupRemovedValidatorEntries \<Rightarrow>
          process_cleanup_removed_validator_entries E program_id accounts w
      | DepositStake \<Rightarrow> process_deposit_stake E program_id accounts None w
      | WithdrawStake amount \<Rightarrow> process_withdraw_stake E program_id accounts amount None w
      | SetFee fee \<Rightarrow> process_set_fee E program_id accounts fee w
      | SetManager \<Rightarrow> process_set_manager E program_id accounts w
      | SetStaker \<Rightarrow> process_set_staker E program_id accounts w
      | SetFundingAuthority funding_type \<Rightarrow>
          process_set_funding_authority E program_id accounts funding_type w
      | DepositSol lamports \<Rightarrow> process_deposit_sol E program_id accounts lamports None False w
      | DepositWsolWithSession lamports \<Rightarrow>
          process_deposit_wsol_with_session E program_id accounts lamports w
      | WithdrawSol pool_tokens \<Rightarrow>
          process_withdraw_sol E program_id accounts pool_tokens None False w
      | CreateTokenMetadata name symbol uri \<Rightarrow>
          process_create_pool_token_metadata E program_id accounts name symbol uri w
      | UpdateTokenMetadata name symbol uri \<Rightarrow>
          process_update_pool_token_metadata E program_id accounts name symbol uri w
      | Redelegate _ _ _ _ \<Rightarrow> Inl InvalidInstructionData
      | DepositStakeWithSlippage minimum_pool_tokens_out \<Rightarrow>
          process_deposit_stake E program_id accounts (Some minimum_pool_tokens_out) w
      | WithdrawStakeWithSlippage pool_tokens_in minimum_lamports_out \<Rightarrow>
          process_withdraw_stake E program_id accounts pool_tokens_in (Some minimum_lamports_out) w
      | DepositSolWithSlippage lamports_in minimum_pool_tokens_out \<Rightarrow>
          process_deposit_sol E program_id accounts lamports_in (Some minimum_pool_tokens_out)
            False w
      | WithdrawSolWithSlippage pool_tokens_in minimum_lamports_out \<Rightarrow>
          process_withdraw_sol E program_id accounts pool_tokens_in (Some minimum_lamports_out)
            False w
      | WithdrawWsolWithSession pool_tokens_in \<Rightarrow>
          process_withdraw_wsol_with_session E program_id accounts pool_tokens_in w)"

definition process ::
    "env \<Rightarrow> Pubkey \<Rightarrow> AccountInfo list \<Rightarrow> byte list \<Rightarrow> world \<Rightarrow> world result" where
  "process E program_id accounts input w =
     tri (try_from_slice de_instruction input) (\<lambda>instruction.
     process_instruction E program_id accounts instruction w)"

section \<open>What an instruction may do\<close>

text \<open>The actions of the abstract pool that an instruction implements.\<close>

definition allowed :: "StakePoolInstruction \<Rightarrow> action \<Rightarrow> bool" where
  "allowed ix a =
     (case ix of
        Initialize _ _ _ _ _ \<Rightarrow> False
      | Redelegate _ _ _ _ \<Rightarrow> False
      | RemoveValidatorFromPool \<Rightarrow> a = NewPreference
      | SetPreferredValidator _ _ \<Rightarrow> a = NewPreference
      | CleanupRemovedValidatorEntries \<Rightarrow> a \<in> {Keeping, NewPreference}
      | UpdateStakePoolBalance \<Rightarrow> a = Updating
      | SetFee fee \<Rightarrow> a = NewFee fee
      | SetManager \<Rightarrow> a = NewManager
      | SetStaker \<Rightarrow> a = NewStaker
      | SetFundingAuthority _ \<Rightarrow> a = NewFunding
      | DepositStake \<Rightarrow> depositing a
      | DepositStakeWithSlippage _ \<Rightarrow> depositing a
      | DepositSol _ \<Rightarrow> depositing a
      | DepositSolWithSlippage _ _ \<Rightarrow> depositing a
      | DepositWsolWithSession _ \<Rightarrow> depositing a
      | WithdrawStake _ \<Rightarrow> withdrawing a
      | WithdrawStakeWithSlippage _ _ \<Rightarrow> withdrawing a
      | WithdrawSol _ \<Rightarrow> withdrawing a
      | WithdrawSolWithSlippage _ _ \<Rightarrow> withdrawing a
      | WithdrawWsolWithSession _ \<Rightarrow> withdrawing a
      | _ \<Rightarrow> a = Keeping)"

lemmas handler_contracts =
  set_manager.contract set_fee.contract set_staker.contract set_funding.contract
  create_metadata.contract update_metadata.contract add_validator.contract remove_validator.contract
  set_preferred.contract cleanup.contract [simplified] decrease.contract increase.contract update_list.contract
  update_pool.contract deposit_sol.contract deposit_wsol.contract deposit_stake.contract
  withdraw_sol.contract withdraw_wsol.contract withdraw_stake.contract

lemmas handlers_keep_lists =
  l_initialize.keeps_lists l_set_manager.keeps_lists l_set_fee.keeps_lists l_set_staker.keeps_lists
  l_set_funding.keeps_lists l_create_metadata.keeps_lists l_update_metadata.keeps_lists
  l_add_validator.keeps_lists l_remove_validator.keeps_lists l_set_preferred.keeps_lists
  l_cleanup.keeps_lists l_decrease.keeps_lists l_increase.keeps_lists l_update_list.keeps_lists
  l_update_pool.keeps_lists l_deposit_sol.keeps_lists l_deposit_wsol.keeps_lists
  l_deposit_stake.keeps_lists l_withdraw_sol.keeps_lists l_withdraw_wsol.keeps_lists
  l_withdraw_stake.keeps_lists

definition is_initialize :: "StakePoolInstruction \<Rightarrow> bool" where
  "is_initialize ix = (case ix of Initialize _ _ _ _ _ \<Rightarrow> True | _ \<Rightarrow> False)"

lemma instruction_contract:
  assumes law: "cpi_law E pid" and run: "process_instruction E pid accts ix w = Inr w'"
    and "\<not> is_initialize ix"
  shows "pool_contract pid accts (step_of (allowed ix)) w w'"
  using assms(3) run
  by (cases ix; simp add: process_instruction_def allowed_def [abs_def] is_initialize_def)
    (erule handler_contracts [OF law])+

lemma instruction_keeps_lists:
  assumes law: "cpi_law E pid" and run: "process_instruction E pid accts ix w = Inr w'"
    and inv: "all_lists pid w"
  shows "all_lists pid w'"
  using run by (cases ix; simp add: process_instruction_def) (erule handlers_keep_lists [OF law _ inv])+

lemma process_Inr:
  "process E pid accts input w = Inr w' \<longleftrightarrow>
     (\<exists>ix. try_from_slice de_instruction input = Inr ix \<and> process_instruction E pid accts ix w = Inr w')"
  by (auto simp: process_def inversions)

lemma initialize_keeps_fees:
  assumes law: "cpi_law E pid" and run: "process_initialize E pid accts epf wdf dpf rf m w = Inr w'"
    and inv: "all_pools pid fees_ok w"
  shows "all_pools pid fees_ok w'"
  unfolding all_pools_def
proof (intro allI impI)
  fix a q assume a: "owner_of w' a = pid" "load_pool w' a = Inr q" "sp_is_valid q"
  from run law show "fees_ok q"
  proof (rule initialize_success)
    fix pool list p bv
    let ?h = "\<lparr>vlh_account_type = ValidatorListAccount, vlh_max_validators = m\<rparr>"
    assume p: "load_pool w' pool = Inr p" "fresh_pool p epf wdf dpf rf"
      and fees: "\<not> fee_above_one epf" "\<not> fee_above_one wdf" "\<not> fee_above_one dpf" "rf \<le> 100"
      and l: "load_list w' list = Inr (?h, bv)"
      and f: "owned_frame pid {ai_key pool, ai_key list} w w'"
    have ne: "ai_key a \<noteq> ai_key list"
      using pool_not_list [OF a(2,3) l] by (simp add: header_is_valid_def)
    show ?thesis
    proof (cases "ai_key a = ai_key pool")
      case True
      then have "q = p" using a(2) p(1) by (simp add: load_pool_def data_of_def)
      then show ?thesis using fresh_fees_ok [OF p(2) fees] by simp
    next
      case other: False
      show ?thesis
      proof (cases "owner_of w a = pid")
        case True
        then have "data_of w' a = data_of w a"
          using f ne other by (simp add: owned_frame_def owner_of_def data_of_def)
        then show ?thesis using inv True a by (simp add: all_pools_def load_pool_def)
      next
        case False
        then have "set (data_of w' a) \<subseteq> {0}"
          using f a(1) ne other by (simp add: owned_frame_def owner_of_def data_of_def)
        then show ?thesis using zeroed_is_no_pool a by blast
      qed
    qed
  qed
qed

lemma instruction_keeps_fees:
  assumes law: "cpi_law E pid" and run: "process_instruction E pid accts ix w = Inr w'"
    and inv: "all_pools pid fees_ok w"
  shows "all_pools pid fees_ok w'"
proof (cases "is_initialize ix")
  case True
  then show ?thesis
    using run initialize_keeps_fees [OF law _ inv]
    by (cases ix) (simp_all add: is_initialize_def process_instruction_def)
next
  case False
  show ?thesis
    by (rule all_pools_contract [OF inv instruction_contract [OF law run False]])
      (auto simp: step_of_def intro: step_fees_ok)
qed

text \<open>A pool that exists is not initialized again, so every instruction on it is an action of it.\<close>

lemma valid_pool_contract:
  assumes law: "cpi_law E pid" and run: "process_instruction E pid (pool # rest) ix w = Inr w'"
    and p: "load_pool w pool = Inr p" "sp_is_valid p"
  obtains p' where "load_pool w' pool = Inr p'" "sp_is_valid p'" "step_of (allowed ix) p p'"
    "owned_frame pid {ai_key pool, sp_validator_list p} w w'"
proof -
  have "\<not> is_initialize ix"
  proof
    assume "is_initialize ix"
    then obtain e f d r m where "process_initialize E pid (pool # rest) e f d r m w = Inr w'"
      using run by (cases ix) (simp_all add: is_initialize_def process_instruction_def)
    then obtain q where "load_pool w pool = Inr q" "sp_is_uninitialized q"
      by (rule initialize_success [OF _ law]) simp
    then show False using p by (simp add: sp_is_uninitialized_def sp_is_valid_def)
  qed
  from instruction_contract [OF law run this] show thesis
    using that p(1) unfolding pool_contract_def by auto
qed

end
