(* ===== verification/Builders.thy ===== *)
theory Builders
  imports Dispatch "HOL-Library.Multiset"
begin

text \<open>
  The instruction builders of \<^verbatim>\<open>program/src/instruction.rs\<close>: what clients send to the program. An
  instruction is the program's address, the accounts with their flags, and the encoded
  instruction. The addresses of the sysvars and of the stake configuration and the builder
  \<open>stake::instruction::authorize\<close> belong to the SDK and are fields of the record \<open>sdk\<close>. The lemmas
  compose the builders with the handlers that receive their instructions.
\<close>

record BuiltInstruction =
  bi_program_id :: Pubkey
  bi_accounts :: "AccountMeta list"
  bi_data :: "byte list"

record sdk =
  sdk_rent_id :: Pubkey
  sdk_clock_id :: Pubkey
  sdk_stake_history_id :: Pubkey
  sdk_stake_config_id :: Pubkey
  sdk_authorize :: "Pubkey \<Rightarrow> Pubkey \<Rightarrow> Pubkey \<Rightarrow> StakeAuthorize \<Rightarrow> BuiltInstruction"

text \<open>The \<open>Instruction\<close> that every builder ends with.\<close>

definition build :: "Pubkey \<Rightarrow> AccountMeta list \<Rightarrow> StakePoolInstruction \<Rightarrow> BuiltInstruction" where
  "build program_id accounts ix =
     \<lparr>bi_program_id = program_id, bi_accounts = accounts, bi_data = ser_instruction ix\<rparr>"

section \<open>Pool and validators\<close>

definition initialize ::
    "env \<Rightarrow> sdk \<Rightarrow> Pubkey \<Rightarrow> Pubkey \<Rightarrow> Pubkey \<Rightarrow> Pubkey \<Rightarrow>
     Pubkey \<Rightarrow> Pubkey \<Rightarrow> Pubkey \<Rightarrow> Pubkey \<Rightarrow> Pubkey \<Rightarrow>
     Pubkey \<Rightarrow> Pubkey option \<Rightarrow> Fee \<Rightarrow> Fee \<Rightarrow> Fee \<Rightarrow> u8 \<Rightarrow>
     u32 \<Rightarrow> BuiltInstruction" where
  "initialize E S program_id stake_pool manager staker stake_pool_withdraw_authority
       validator_list reserve_stake pool_mint manager_pool_account token_program_id
       deposit_authority fee withdrawal_fee deposit_fee referral_fee max_validators =
     build program_id
       ([account_meta stake_pool False, account_meta_readonly manager True,
        account_meta_readonly staker False,
        account_meta_readonly stake_pool_withdraw_authority False,
        account_meta validator_list False, account_meta_readonly reserve_stake False,
        account_meta pool_mint False, account_meta manager_pool_account False,
        account_meta_readonly token_program_id False]
       @ (case deposit_authority of
            Some deposit_authority \<Rightarrow> [account_meta_readonly deposit_authority True]
          | None \<Rightarrow> []))
       (Initialize fee withdrawal_fee deposit_fee referral_fee max_validators)"

definition add_validator_to_pool ::
    "env \<Rightarrow> sdk \<Rightarrow> Pubkey \<Rightarrow> Pubkey \<Rightarrow> Pubkey \<Rightarrow> Pubkey \<Rightarrow>
     Pubkey \<Rightarrow> Pubkey \<Rightarrow> Pubkey \<Rightarrow> Pubkey \<Rightarrow> u32 option \<Rightarrow>
     BuiltInstruction" where
  "add_validator_to_pool E S program_id stake_pool staker reserve stake_pool_withdraw
       validator_list stake validator seed =
     build program_id
       ([account_meta stake_pool False, account_meta_readonly staker True,
        account_meta reserve False, account_meta_readonly stake_pool_withdraw False,
        account_meta validator_list False, account_meta stake False,
        account_meta_readonly validator False, account_meta_readonly (sdk_rent_id S) False,
        account_meta_readonly (sdk_clock_id S) False,
        account_meta_readonly (sdk_stake_history_id S) False,
        account_meta_readonly (sdk_stake_config_id S) False,
        account_meta_readonly (e_system_program_id E) False,
        account_meta_readonly (e_stake_program_id E) False])
       (AddValidatorToPool (case seed of Some s \<Rightarrow> s | None \<Rightarrow> 0))"

definition remove_validator_from_pool ::
    "env \<Rightarrow> sdk \<Rightarrow> Pubkey \<Rightarrow> Pubkey \<Rightarrow> Pubkey \<Rightarrow> Pubkey \<Rightarrow>
     Pubkey \<Rightarrow> Pubkey \<Rightarrow> Pubkey \<Rightarrow> BuiltInstruction" where
  "remove_validator_from_pool E S program_id stake_pool staker stake_pool_withdraw
       validator_list stake_account transient_stake_account =
     build program_id
       ([account_meta stake_pool False, account_meta_readonly staker True,
        account_meta_readonly stake_pool_withdraw False, account_meta validator_list False,
        account_meta stake_account False, account_meta transient_stake_account False,
        account_meta_readonly (sdk_clock_id S) False,
        account_meta_readonly (e_stake_program_id E) False])
       RemoveValidatorFromPool"

definition decrease_validator_stake ::
    "env \<Rightarrow> sdk \<Rightarrow> Pubkey \<Rightarrow> Pubkey \<Rightarrow> Pubkey \<Rightarrow> Pubkey \<Rightarrow>
     Pubkey \<Rightarrow> Pubkey \<Rightarrow> Pubkey \<Rightarrow> u64 \<Rightarrow> u64 \<Rightarrow> BuiltInstruction" where
  "decrease_validator_stake E S program_id stake_pool staker stake_pool_withdraw_authority
       validator_list validator_stake transient_stake lamports transient_stake_seed =
     build program_id
       ([account_meta_readonly stake_pool False, account_meta_readonly staker True,
        account_meta_readonly stake_pool_withdraw_authority False,
        account_meta validator_list False, account_meta validator_stake False,
        account_meta transient_stake False, account_meta_readonly (sdk_clock_id S) False,
        account_meta_readonly (sdk_rent_id S) False,
        account_meta_readonly (e_system_program_id E) False,
        account_meta_readonly (e_stake_program_id E) False])
       (DecreaseValidatorStake lamports transient_stake_seed)"

definition decrease_additional_validator_stake ::
    "env \<Rightarrow> sdk \<Rightarrow> Pubkey \<Rightarrow> Pubkey \<Rightarrow> Pubkey \<Rightarrow> Pubkey \<Rightarrow>
     Pubkey \<Rightarrow> Pubkey \<Rightarrow> Pubkey \<Rightarrow> Pubkey \<Rightarrow> Pubkey \<Rightarrow> u64 \<Rightarrow>
     u64 \<Rightarrow> u64 \<Rightarrow> BuiltInstruction" where
  "decrease_additional_validator_stake E S program_id stake_pool staker
       stake_pool_withdraw_authority validator_list reserve_stake validator_stake ephemeral_stake
       transient_stake lamports transient_stake_seed ephemeral_stake_seed =
     build program_id
       ([account_meta_readonly stake_pool False, account_meta_readonly staker True,
        account_meta_readonly stake_pool_withdraw_authority False,
        account_meta validator_list False, account_meta reserve_stake False,
        account_meta validator_stake False, account_meta ephemeral_stake False,
        account_meta transient_stake False, account_meta_readonly (sdk_clock_id S) False,
        account_meta_readonly (sdk_stake_history_id S) False,
        account_meta_readonly (e_system_program_id E) False,
        account_meta_readonly (e_stake_program_id E) False])
       (DecreaseAdditionalValidatorStake lamports transient_stake_seed ephemeral_stake_seed)"

definition decrease_validator_stake_with_reserve ::
    "env \<Rightarrow> sdk \<Rightarrow> Pubkey \<Rightarrow> Pubkey \<Rightarrow> Pubkey \<Rightarrow> Pubkey \<Rightarrow>
     Pubkey \<Rightarrow> Pubkey \<Rightarrow> Pubkey \<Rightarrow> Pubkey \<Rightarrow> u64 \<Rightarrow> u64 \<Rightarrow>
     BuiltInstruction" where
  "decrease_validator_stake_with_reserve E S program_id stake_pool staker
       stake_pool_withdraw_authority validator_list reserve_stake validator_stake transient_stake
       lamports transient_stake_seed =
     build program_id
       ([account_meta_readonly stake_pool False, account_meta_readonly staker True,
        account_meta_readonly stake_pool_withdraw_authority False,
        account_meta validator_list False, account_meta reserve_stake False,
        account_meta validator_stake False, account_meta transient_stake False,
        account_meta_readonly (sdk_clock_id S) False,
        account_meta_readonly (sdk_stake_history_id S) False,
        account_meta_readonly (e_system_program_id E) False,
        account_meta_readonly (e_stake_program_id E) False])
       (DecreaseValidatorStakeWithReserve lamports transient_stake_seed)"

definition increase_validator_stake ::
    "env \<Rightarrow> sdk \<Rightarrow> Pubkey \<Rightarrow> Pubkey \<Rightarrow> Pubkey \<Rightarrow> Pubkey \<Rightarrow>
     Pubkey \<Rightarrow> Pubkey \<Rightarrow> Pubkey \<Rightarrow> Pubkey \<Rightarrow> Pubkey \<Rightarrow> u64 \<Rightarrow>
     u64 \<Rightarrow> BuiltInstruction" where
  "increase_validator_stake E S program_id stake_pool staker stake_pool_withdraw_authority
       validator_list reserve_stake transient_stake validator_stake validator lamports
       transient_stake_seed =
     build program_id
       ([account_meta_readonly stake_pool False, account_meta_readonly staker True,
        account_meta_readonly stake_pool_withdraw_authority False,
        account_meta validator_list False, account_meta reserve_stake False,
        account_meta transient_stake False, account_meta_readonly validator_stake False,
        account_meta_readonly validator False, account_meta_readonly (sdk_clock_id S) False,
        account_meta_readonly (sdk_rent_id S) False,
        account_meta_readonly (sdk_stake_history_id S) False,
        account_meta_readonly (sdk_stake_config_id S) False,
        account_meta_readonly (e_system_program_id E) False,
        account_meta_readonly (e_stake_program_id E) False])
       (IncreaseValidatorStake lamports transient_stake_seed)"

definition increase_additional_validator_stake ::
    "env \<Rightarrow> sdk \<Rightarrow> Pubkey \<Rightarrow> Pubkey \<Rightarrow> Pubkey \<Rightarrow> Pubkey \<Rightarrow>
     Pubkey \<Rightarrow> Pubkey \<Rightarrow> Pubkey \<Rightarrow> Pubkey \<Rightarrow> Pubkey \<Rightarrow>
     Pubkey \<Rightarrow> u64 \<Rightarrow> u64 \<Rightarrow> u64 \<Rightarrow> BuiltInstruction" where
  "increase_additional_validator_stake E S program_id stake_pool staker
       stake_pool_withdraw_authority validator_list reserve_stake ephemeral_stake transient_stake
       validator_stake validator lamports transient_stake_seed ephemeral_stake_seed =
     build program_id
       ([account_meta_readonly stake_pool False, account_meta_readonly staker True,
        account_meta_readonly stake_pool_withdraw_authority False,
        account_meta validator_list False, account_meta reserve_stake False,
        account_meta ephemeral_stake False, account_meta transient_stake False,
        account_meta_readonly validator_stake False, account_meta_readonly validator False,
        account_meta_readonly (sdk_clock_id S) False,
        account_meta_readonly (sdk_stake_history_id S) False,
        account_meta_readonly (sdk_stake_config_id S) False,
        account_meta_readonly (e_system_program_id E) False,
        account_meta_readonly (e_stake_program_id E) False])
       (IncreaseAdditionalValidatorStake lamports transient_stake_seed ephemeral_stake_seed)"

definition redelegate ::
    "env \<Rightarrow> sdk \<Rightarrow> Pubkey \<Rightarrow> Pubkey \<Rightarrow> Pubkey \<Rightarrow> Pubkey \<Rightarrow>
     Pubkey \<Rightarrow> Pubkey \<Rightarrow> Pubkey \<Rightarrow> Pubkey \<Rightarrow> Pubkey \<Rightarrow>
     Pubkey \<Rightarrow> Pubkey \<Rightarrow> Pubkey \<Rightarrow> u64 \<Rightarrow> u64 \<Rightarrow> u64 \<Rightarrow>
     u64 \<Rightarrow> BuiltInstruction" where
  "redelegate E S program_id stake_pool staker stake_pool_withdraw_authority validator_list
       reserve_stake source_validator_stake source_transient_stake ephemeral_stake
       destination_transient_stake destination_validator_stake validator lamports
       source_transient_stake_seed ephemeral_stake_seed destination_transient_stake_seed =
     build program_id
       ([account_meta_readonly stake_pool False, account_meta_readonly staker True,
        account_meta_readonly stake_pool_withdraw_authority False,
        account_meta validator_list False, account_meta reserve_stake False,
        account_meta source_validator_stake False, account_meta source_transient_stake False,
        account_meta ephemeral_stake False, account_meta destination_transient_stake False,
        account_meta_readonly destination_validator_stake False,
        account_meta_readonly validator False, account_meta_readonly (sdk_clock_id S) False,
        account_meta_readonly (sdk_stake_history_id S) False,
        account_meta_readonly (sdk_stake_config_id S) False,
        account_meta_readonly (e_system_program_id E) False,
        account_meta_readonly (e_stake_program_id E) False])
       (Redelegate lamports source_transient_stake_seed ephemeral_stake_seed
          destination_transient_stake_seed)"

definition set_preferred_validator ::
    "env \<Rightarrow> sdk \<Rightarrow> Pubkey \<Rightarrow> Pubkey \<Rightarrow> Pubkey \<Rightarrow> Pubkey \<Rightarrow>
     PreferredValidatorType \<Rightarrow> Pubkey option \<Rightarrow> BuiltInstruction" where
  "set_preferred_validator E S program_id stake_pool_address staker validator_list_address
       validator_type validator_vote_address =
     build program_id
       ([account_meta stake_pool_address False, account_meta_readonly staker True,
        account_meta_readonly validator_list_address False])
       (SetPreferredValidator validator_type validator_vote_address)"

definition add_validator_to_pool_with_vote ::
    "env \<Rightarrow> sdk \<Rightarrow> Pubkey \<Rightarrow> StakePool \<Rightarrow> Pubkey \<Rightarrow> Pubkey \<Rightarrow>
     u32 option \<Rightarrow> BuiltInstruction" where
  "add_validator_to_pool_with_vote E S program_id stake_pool stake_pool_address
       vote_account_address seed =
     (let pool_withdraw_authority =
               fst (find_withdraw_authority_program_address E program_id stake_pool_address);
          stake_account_address =
                    fst (find_stake_program_address E program_id vote_account_address
                      stake_pool_address seed)
      in add_validator_to_pool E S program_id stake_pool_address (sp_staker stake_pool)
        (sp_reserve_stake stake_pool) pool_withdraw_authority (sp_validator_list stake_pool)
        stake_account_address vote_account_address seed)"

definition remove_validator_from_pool_with_vote ::
    "env \<Rightarrow> sdk \<Rightarrow> Pubkey \<Rightarrow> StakePool \<Rightarrow> Pubkey \<Rightarrow> Pubkey \<Rightarrow>
     u32 option \<Rightarrow> u64 \<Rightarrow> BuiltInstruction" where
  "remove_validator_from_pool_with_vote E S program_id stake_pool stake_pool_address
       vote_account_address validator_stake_seed transient_stake_seed =
     (let pool_withdraw_authority =
               fst (find_withdraw_authority_program_address E program_id stake_pool_address);
          stake_account_address =
                    fst (find_stake_program_address E program_id vote_account_address
                      stake_pool_address validator_stake_seed);
          transient_stake_account =
                    fst (find_transient_stake_program_address E program_id vote_account_address
                      stake_pool_address transient_stake_seed)
      in remove_validator_from_pool E S program_id stake_pool_address (sp_staker stake_pool)
        pool_withdraw_authority (sp_validator_list stake_pool) stake_account_address
        transient_stake_account)"

definition increase_validator_stake_with_vote ::
    "env \<Rightarrow> sdk \<Rightarrow> Pubkey \<Rightarrow> StakePool \<Rightarrow> Pubkey \<Rightarrow> Pubkey \<Rightarrow>
     u64 \<Rightarrow> u32 option \<Rightarrow> u64 \<Rightarrow> BuiltInstruction" where
  "increase_validator_stake_with_vote E S program_id stake_pool stake_pool_address
       vote_account_address lamports validator_stake_seed transient_stake_seed =
     (let pool_withdraw_authority =
               fst (find_withdraw_authority_program_address E program_id stake_pool_address);
          transient_stake_address =
                    fst (find_transient_stake_program_address E program_id vote_account_address
                      stake_pool_address transient_stake_seed);
          validator_stake_address =
                    fst (find_stake_program_address E program_id vote_account_address
                      stake_pool_address validator_stake_seed)
      in increase_validator_stake E S program_id stake_pool_address (sp_staker stake_pool)
        pool_withdraw_authority (sp_validator_list stake_pool) (sp_reserve_stake stake_pool)
        transient_stake_address validator_stake_address vote_account_address lamports
        transient_stake_seed)"

definition increase_additional_validator_stake_with_vote ::
    "env \<Rightarrow> sdk \<Rightarrow> Pubkey \<Rightarrow> StakePool \<Rightarrow> Pubkey \<Rightarrow> Pubkey \<Rightarrow>
     u64 \<Rightarrow> u32 option \<Rightarrow> u64 \<Rightarrow> u64 \<Rightarrow> BuiltInstruction" where
  "increase_additional_validator_stake_with_vote E S program_id stake_pool stake_pool_address
       vote_account_address lamports validator_stake_seed transient_stake_seed
       ephemeral_stake_seed =
     (let pool_withdraw_authority =
               fst (find_withdraw_authority_program_address E program_id stake_pool_address);
          ephemeral_stake_address =
                    fst (find_ephemeral_stake_program_address E program_id stake_pool_address
                      ephemeral_stake_seed);
          transient_stake_address =
                    fst (find_transient_stake_program_address E program_id vote_account_address
                      stake_pool_address transient_stake_seed);
          validator_stake_address =
                    fst (find_stake_program_address E program_id vote_account_address
                      stake_pool_address validator_stake_seed)
      in increase_additional_validator_stake E S program_id stake_pool_address
        (sp_staker stake_pool) pool_withdraw_authority (sp_validator_list stake_pool)
        (sp_reserve_stake stake_pool) ephemeral_stake_address transient_stake_address
        validator_stake_address vote_account_address lamports transient_stake_seed
        ephemeral_stake_seed)"

definition decrease_validator_stake_with_vote ::
    "env \<Rightarrow> sdk \<Rightarrow> Pubkey \<Rightarrow> StakePool \<Rightarrow> Pubkey \<Rightarrow> Pubkey \<Rightarrow>
     u64 \<Rightarrow> u32 option \<Rightarrow> u64 \<Rightarrow> BuiltInstruction" where
  "decrease_validator_stake_with_vote E S program_id stake_pool stake_pool_address
       vote_account_address lamports validator_stake_seed transient_stake_seed =
     (let pool_withdraw_authority =
               fst (find_withdraw_authority_program_address E program_id stake_pool_address);
          validator_stake_address =
                    fst (find_stake_program_address E program_id vote_account_address
                      stake_pool_address validator_stake_seed);
          transient_stake_address =
                    fst (find_transient_stake_program_address E program_id vote_account_address
                      stake_pool_address transient_stake_seed)
      in decrease_validator_stake_with_reserve E S program_id stake_pool_address
        (sp_staker stake_pool) pool_withdraw_authority (sp_validator_list stake_pool)
        (sp_reserve_stake stake_pool) validator_stake_address transient_stake_address lamports
        transient_stake_seed)"

definition decrease_additional_validator_stake_with_vote ::
    "env \<Rightarrow> sdk \<Rightarrow> Pubkey \<Rightarrow> StakePool \<Rightarrow> Pubkey \<Rightarrow> Pubkey \<Rightarrow>
     u64 \<Rightarrow> u32 option \<Rightarrow> u64 \<Rightarrow> u64 \<Rightarrow> BuiltInstruction" where
  "decrease_additional_validator_stake_with_vote E S program_id stake_pool stake_pool_address
       vote_account_address lamports validator_stake_seed transient_stake_seed
       ephemeral_stake_seed =
     (let pool_withdraw_authority =
               fst (find_withdraw_authority_program_address E program_id stake_pool_address);
          validator_stake_address =
                    fst (find_stake_program_address E program_id vote_account_address
                      stake_pool_address validator_stake_seed);
          ephemeral_stake_address =
                    fst (find_ephemeral_stake_program_address E program_id stake_pool_address
                      ephemeral_stake_seed);
          transient_stake_address =
                    fst (find_transient_stake_program_address E program_id vote_account_address
                      stake_pool_address transient_stake_seed)
      in decrease_additional_validator_stake E S program_id stake_pool_address
        (sp_staker stake_pool) pool_withdraw_authority (sp_validator_list stake_pool)
        (sp_reserve_stake stake_pool) validator_stake_address ephemeral_stake_address
        transient_stake_address lamports transient_stake_seed ephemeral_stake_seed)"

text \<open>The same given the validator list, from which the seeds are taken.\<close>

definition increase_additional_validator_stake_with_list ::
    "env \<Rightarrow> sdk \<Rightarrow> Pubkey \<Rightarrow> StakePool \<Rightarrow> ValidatorList \<Rightarrow> Pubkey \<Rightarrow> Pubkey \<Rightarrow> u64 \<Rightarrow> u64
      \<Rightarrow> BuiltInstruction result" where
  "increase_additional_validator_stake_with_list E S program_id stake_pool validator_list
       stake_pool_address vote_account_address lamports ephemeral_stake_seed =
     tri (ok_or (vl_find validator_list vote_account_address) InvalidInstructionData)
       (\<lambda>validator_info.
     let transient_stake_seed = vsi_transient_seed_suffix validator_info;
         validator_stake_seed = NonZeroU32_new (vsi_validator_seed_suffix validator_info) in
     Inr (increase_additional_validator_stake_with_vote E S program_id stake_pool
            stake_pool_address vote_account_address lamports validator_stake_seed
            transient_stake_seed ephemeral_stake_seed))"

definition decrease_additional_validator_stake_with_list ::
    "env \<Rightarrow> sdk \<Rightarrow> Pubkey \<Rightarrow> StakePool \<Rightarrow> ValidatorList \<Rightarrow> Pubkey \<Rightarrow> Pubkey \<Rightarrow> u64 \<Rightarrow> u64
      \<Rightarrow> BuiltInstruction result" where
  "decrease_additional_validator_stake_with_list E S program_id stake_pool validator_list
       stake_pool_address vote_account_address lamports ephemeral_stake_seed =
     tri (ok_or (vl_find validator_list vote_account_address) InvalidInstructionData)
       (\<lambda>validator_info.
     let transient_stake_seed = vsi_transient_seed_suffix validator_info;
         validator_stake_seed = NonZeroU32_new (vsi_validator_seed_suffix validator_info) in
     Inr (decrease_additional_validator_stake_with_vote E S program_id stake_pool
            stake_pool_address vote_account_address lamports validator_stake_seed
            transient_stake_seed ephemeral_stake_seed))"

section \<open>The update of an epoch\<close>

definition MAX_VALIDATORS_TO_UPDATE :: nat where
  "MAX_VALIDATORS_TO_UPDATE = 4"

text \<open>The fixed accounts of \<open>UpdateValidatorListBalance\<close> and the two accounts of a validator.\<close>

definition update_list_accounts ::
    "env \<Rightarrow> sdk \<Rightarrow> Pubkey \<Rightarrow> Pubkey \<Rightarrow> Pubkey \<Rightarrow> Pubkey \<Rightarrow> AccountMeta list" where
  "update_list_accounts E S stake_pool stake_pool_withdraw_authority validator_list_address
       reserve_stake =
     [account_meta_readonly stake_pool False,
      account_meta_readonly stake_pool_withdraw_authority False,
      account_meta validator_list_address False, account_meta reserve_stake False,
      account_meta_readonly (sdk_clock_id S) False,
      account_meta_readonly (sdk_stake_history_id S) False,
      account_meta_readonly (e_stake_program_id E) False]"

definition validator_accounts ::
    "env \<Rightarrow> Pubkey \<Rightarrow> Pubkey \<Rightarrow> ValidatorStakeInfo \<Rightarrow> AccountMeta list" where
  "validator_accounts E program_id stake_pool info =
     (let validator_stake_account =
            fst (find_stake_program_address E program_id (vsi_vote_account_address info) stake_pool
                   (NonZeroU32_new (vsi_validator_seed_suffix info)));
          transient_stake_account =
            fst (find_transient_stake_program_address E program_id
                   (vsi_vote_account_address info) stake_pool (vsi_transient_seed_suffix info))
      in [account_meta validator_stake_account False, account_meta transient_stake_account False])"

definition update_validator_list_balance ::
    "env \<Rightarrow> sdk \<Rightarrow> Pubkey \<Rightarrow> Pubkey \<Rightarrow> Pubkey \<Rightarrow> Pubkey \<Rightarrow> Pubkey \<Rightarrow> ValidatorList \<Rightarrow> Pubkey list
      \<Rightarrow> u32 \<Rightarrow> bool \<Rightarrow> BuiltInstruction" where
  "update_validator_list_balance E S program_id stake_pool stake_pool_withdraw_authority
       validator_list_address reserve_stake validator_list validator_vote_accounts start_index
       no_merge =
     build program_id
       (update_list_accounts E S stake_pool stake_pool_withdraw_authority validator_list_address
          reserve_stake
        @ concat (map (\<lambda>vote_account_address.
            case vl_find validator_list vote_account_address of
              Some validator_stake_info \<Rightarrow>
                validator_accounts E program_id stake_pool
                  (validator_stake_info\<lparr>vsi_vote_account_address := vote_account_address\<rparr>)
            | None \<Rightarrow> []) validator_vote_accounts))
       (UpdateValidatorListBalance start_index no_merge)"

text \<open>\<open>slice.get(a..b)\<close>\<close>

definition vec_get :: "'a list \<Rightarrow> nat \<Rightarrow> nat \<Rightarrow> 'a list option" where
  "vec_get xs a b = (if a \<le> b \<and> b \<le> length xs then Some (take (b - a) (drop a xs)) else None)"

definition update_validator_list_balance_chunk ::
    "env \<Rightarrow> sdk \<Rightarrow> Pubkey \<Rightarrow> Pubkey \<Rightarrow> Pubkey \<Rightarrow> Pubkey \<Rightarrow> Pubkey \<Rightarrow> ValidatorList \<Rightarrow> nat \<Rightarrow> nat \<Rightarrow> bool
      \<Rightarrow> BuiltInstruction result" where
  "update_validator_list_balance_chunk E S program_id stake_pool stake_pool_withdraw_authority
       validator_list_address reserve_stake validator_list len start_index no_merge =
     tri (ok_or (vec_get (vl_validators validator_list) start_index
                   (usize_sat_add start_index len)) InvalidInstructionData)
       (\<lambda>validator_list_subslice.
     if start_index \<ge> 2 ^ 32 then Inl Panic else
     Inr (build program_id
            (update_list_accounts E S stake_pool stake_pool_withdraw_authority
               validator_list_address reserve_stake
             @ concat (map (validator_accounts E program_id stake_pool) validator_list_subslice))
            (UpdateValidatorListBalance (of_nat start_index) no_merge)))"

definition update_stale_validator_list_balance_chunk ::
    "env \<Rightarrow> sdk \<Rightarrow> Pubkey \<Rightarrow> Pubkey \<Rightarrow> Pubkey \<Rightarrow> Pubkey \<Rightarrow> Pubkey \<Rightarrow> ValidatorList \<Rightarrow> nat \<Rightarrow> nat \<Rightarrow> bool
      \<Rightarrow> u64 \<Rightarrow> BuiltInstruction option result" where
  "update_stale_validator_list_balance_chunk E S program_id stake_pool
       stake_pool_withdraw_authority validator_list_address reserve_stake validator_list len
       start_index no_merge current_epoch =
     tri (ok_or (vec_get (vl_validators validator_list) start_index
                   (usize_sat_add start_index len)) InvalidInstructionData)
       (\<lambda>validator_list_subslice.
     if list_all (\<lambda>info. vsi_last_update_epoch info \<ge> current_epoch) validator_list_subslice
     then Inr None
     else tri (update_validator_list_balance_chunk E S program_id stake_pool
                 stake_pool_withdraw_authority validator_list_address reserve_stake
                 validator_list len start_index no_merge) (\<lambda>ix. Inr (Some ix)))"

definition update_stake_pool_balance ::
    "env \<Rightarrow> sdk \<Rightarrow> Pubkey \<Rightarrow> Pubkey \<Rightarrow> Pubkey \<Rightarrow> Pubkey \<Rightarrow>
     Pubkey \<Rightarrow> Pubkey \<Rightarrow> Pubkey \<Rightarrow> Pubkey \<Rightarrow> BuiltInstruction" where
  "update_stake_pool_balance E S program_id stake_pool withdraw_authority
       validator_list_storage reserve_stake manager_fee_account stake_pool_mint token_program_id =
     build program_id
       ([account_meta stake_pool False, account_meta_readonly withdraw_authority False,
        account_meta validator_list_storage False, account_meta_readonly reserve_stake False,
        account_meta manager_fee_account False, account_meta stake_pool_mint False,
        account_meta_readonly token_program_id False])
       UpdateStakePoolBalance"

definition cleanup_removed_validator_entries ::
    "env \<Rightarrow> sdk \<Rightarrow> Pubkey \<Rightarrow> Pubkey \<Rightarrow> Pubkey \<Rightarrow> BuiltInstruction" where
  "cleanup_removed_validator_entries E S program_id stake_pool validator_list_storage =
     build program_id
       ([account_meta stake_pool False, account_meta validator_list_storage False])
       CleanupRemovedValidatorEntries"

text \<open>\<open>slice.chunks(n)\<close>, and the collection of a sequence of results that are unwrapped.\<close>

function chunks_of :: "nat \<Rightarrow> 'a list \<Rightarrow> 'a list list" where
  "chunks_of n xs = (if n = 0 \<or> xs = [] then [] else take n xs # chunks_of n (drop n xs))"
  by pat_completeness auto
termination by (relation "measure (\<lambda>(n, xs). length xs)") auto

declare chunks_of.simps [simp del]

fun collect_unwrap :: "'a result list \<Rightarrow> 'a list result" where
  "collect_unwrap [] = Inr []"
| "collect_unwrap (Inl e # rs) = Inl Panic"
| "collect_unwrap (Inr x # rs) = tri (collect_unwrap rs) (\<lambda>xs. Inr (x # xs))"

definition final_instructions ::
    "env \<Rightarrow> sdk \<Rightarrow> Pubkey \<Rightarrow> StakePool \<Rightarrow> Pubkey \<Rightarrow> Pubkey \<Rightarrow> BuiltInstruction list" where
  "final_instructions E S program_id stake_pool stake_pool_address withdraw_authority =
     [update_stake_pool_balance E S program_id stake_pool_address withdraw_authority
        (sp_validator_list stake_pool) (sp_reserve_stake stake_pool)
        (sp_manager_fee_account stake_pool) (sp_pool_mint stake_pool)
        (sp_token_program_id stake_pool),
      cleanup_removed_validator_entries E S program_id stake_pool_address
        (sp_validator_list stake_pool)]"

definition update_stake_pool ::
    "env \<Rightarrow> sdk \<Rightarrow> Pubkey \<Rightarrow> StakePool \<Rightarrow> ValidatorList \<Rightarrow> Pubkey \<Rightarrow> bool
      \<Rightarrow> (BuiltInstruction list \<times> BuiltInstruction list) result" where
  "update_stake_pool E S program_id stake_pool validator_list stake_pool_address no_merge =
     (let withdraw_authority =
            fst (find_withdraw_authority_program_address E program_id stake_pool_address) in
      tri (collect_unwrap
             (map (\<lambda>(i, chunk).
                update_validator_list_balance_chunk E S program_id stake_pool_address
                  withdraw_authority (sp_validator_list stake_pool) (sp_reserve_stake stake_pool)
                  validator_list (length chunk) (usize_sat_mul i MAX_VALIDATORS_TO_UPDATE) no_merge)
                (enumerate 0 (chunks_of MAX_VALIDATORS_TO_UPDATE (vl_validators validator_list)))))
        (\<lambda>update_list_instructions.
      Inr (update_list_instructions,
           final_instructions E S program_id stake_pool stake_pool_address withdraw_authority)))"

definition update_stale_stake_pool ::
    "env \<Rightarrow> sdk \<Rightarrow> Pubkey \<Rightarrow> StakePool \<Rightarrow> ValidatorList \<Rightarrow> Pubkey \<Rightarrow> bool \<Rightarrow> u64
      \<Rightarrow> (BuiltInstruction list \<times> BuiltInstruction list) result" where
  "update_stale_stake_pool E S program_id stake_pool validator_list stake_pool_address no_merge
       current_epoch =
     (let withdraw_authority =
            fst (find_withdraw_authority_program_address E program_id stake_pool_address) in
      tri (collect_unwrap
             (map (\<lambda>(i, chunk).
                update_stale_validator_list_balance_chunk E S program_id stake_pool_address
                  withdraw_authority (sp_validator_list stake_pool) (sp_reserve_stake stake_pool)
                  validator_list (length chunk) (usize_sat_mul i MAX_VALIDATORS_TO_UPDATE) no_merge
                  current_epoch)
                (enumerate 0 (chunks_of MAX_VALIDATORS_TO_UPDATE (vl_validators validator_list)))))
        (\<lambda>update_list_instructions.
      Inr (List.map_filter id update_list_instructions,
           final_instructions E S program_id stake_pool stake_pool_address withdraw_authority)))"

section \<open>Deposits\<close>

definition deposit_stake_internal ::
    "env \<Rightarrow> sdk \<Rightarrow> Pubkey \<Rightarrow> Pubkey \<Rightarrow> Pubkey \<Rightarrow> Pubkey option \<Rightarrow> Pubkey \<Rightarrow> Pubkey \<Rightarrow> Pubkey \<Rightarrow> Pubkey \<Rightarrow>
     Pubkey \<Rightarrow> Pubkey \<Rightarrow> Pubkey \<Rightarrow> Pubkey \<Rightarrow> Pubkey \<Rightarrow> Pubkey \<Rightarrow> u64 option \<Rightarrow> BuiltInstruction list" where
  "deposit_stake_internal E S program_id stake_pool validator_list_storage
       stake_pool_deposit_authority stake_pool_withdraw_authority deposit_stake_address
       deposit_stake_withdraw_authority validator_stake_account reserve_stake_account
       pool_tokens_to manager_fee_account referrer_pool_tokens_account pool_mint token_program_id
       minimum_pool_tokens_out =
     (let (stake_pool_deposit_authority, signs) =
            (case stake_pool_deposit_authority of
               Some stake_pool_deposit_authority \<Rightarrow> (stake_pool_deposit_authority, True)
             | None \<Rightarrow> (fst (find_deposit_authority_program_address E program_id stake_pool), False))
      in [sdk_authorize S deposit_stake_address deposit_stake_withdraw_authority
            stake_pool_deposit_authority StakeAuthorizeStaker,
          sdk_authorize S deposit_stake_address deposit_stake_withdraw_authority
            stake_pool_deposit_authority StakeAuthorizeWithdrawer,
          build program_id
            [account_meta stake_pool False, account_meta validator_list_storage False,
             account_meta_readonly stake_pool_deposit_authority signs,
             account_meta_readonly stake_pool_withdraw_authority False,
             account_meta deposit_stake_address False, account_meta validator_stake_account False,
             account_meta reserve_stake_account False, account_meta pool_tokens_to False,
             account_meta manager_fee_account False,
             account_meta referrer_pool_tokens_account False, account_meta pool_mint False,
             account_meta_readonly (sdk_clock_id S) False,
             account_meta_readonly (sdk_stake_history_id S) False,
             account_meta_readonly token_program_id False,
             account_meta_readonly (e_stake_program_id E) False]
            (case minimum_pool_tokens_out of
               Some minimum_pool_tokens_out \<Rightarrow> DepositStakeWithSlippage minimum_pool_tokens_out
             | None \<Rightarrow> DepositStake)])"

definition deposit_stake ::
    "env \<Rightarrow> sdk \<Rightarrow> Pubkey \<Rightarrow> Pubkey \<Rightarrow> Pubkey \<Rightarrow> Pubkey \<Rightarrow>
     Pubkey \<Rightarrow> Pubkey \<Rightarrow> Pubkey \<Rightarrow> Pubkey \<Rightarrow> Pubkey \<Rightarrow>
     Pubkey \<Rightarrow> Pubkey \<Rightarrow> Pubkey \<Rightarrow> Pubkey \<Rightarrow> BuiltInstruction list" where
  "deposit_stake E S program_id stake_pool validator_list_storage
       stake_pool_withdraw_authority deposit_stake_address deposit_stake_withdraw_authority
       validator_stake_account reserve_stake_account pool_tokens_to manager_fee_account
       referrer_pool_tokens_account pool_mint token_program_id =
     deposit_stake_internal E S program_id stake_pool validator_list_storage None
        stake_pool_withdraw_authority deposit_stake_address deposit_stake_withdraw_authority
        validator_stake_account reserve_stake_account pool_tokens_to manager_fee_account
        referrer_pool_tokens_account pool_mint token_program_id None"

definition deposit_stake_with_slippage ::
    "env \<Rightarrow> sdk \<Rightarrow> Pubkey \<Rightarrow> Pubkey \<Rightarrow> Pubkey \<Rightarrow> Pubkey \<Rightarrow>
     Pubkey \<Rightarrow> Pubkey \<Rightarrow> Pubkey \<Rightarrow> Pubkey \<Rightarrow> Pubkey \<Rightarrow>
     Pubkey \<Rightarrow> Pubkey \<Rightarrow> Pubkey \<Rightarrow> Pubkey \<Rightarrow> u64 \<Rightarrow> BuiltInstruction list" where
  "deposit_stake_with_slippage E S program_id stake_pool validator_list_storage
       stake_pool_withdraw_authority deposit_stake_address deposit_stake_withdraw_authority
       validator_stake_account reserve_stake_account pool_tokens_to manager_fee_account
       referrer_pool_tokens_account pool_mint token_program_id minimum_pool_tokens_out =
     deposit_stake_internal E S program_id stake_pool validator_list_storage None
        stake_pool_withdraw_authority deposit_stake_address deposit_stake_withdraw_authority
        validator_stake_account reserve_stake_account pool_tokens_to manager_fee_account
        referrer_pool_tokens_account pool_mint token_program_id (Some minimum_pool_tokens_out)"

definition deposit_stake_with_authority ::
    "env \<Rightarrow> sdk \<Rightarrow> Pubkey \<Rightarrow> Pubkey \<Rightarrow> Pubkey \<Rightarrow> Pubkey \<Rightarrow>
     Pubkey \<Rightarrow> Pubkey \<Rightarrow> Pubkey \<Rightarrow> Pubkey \<Rightarrow> Pubkey \<Rightarrow>
     Pubkey \<Rightarrow> Pubkey \<Rightarrow> Pubkey \<Rightarrow> Pubkey \<Rightarrow> Pubkey \<Rightarrow>
     BuiltInstruction list" where
  "deposit_stake_with_authority E S program_id stake_pool validator_list_storage
       stake_pool_deposit_authority stake_pool_withdraw_authority deposit_stake_address
       deposit_stake_withdraw_authority validator_stake_account reserve_stake_account
       pool_tokens_to manager_fee_account referrer_pool_tokens_account pool_mint token_program_id =
     deposit_stake_internal E S program_id stake_pool validator_list_storage
        (Some stake_pool_deposit_authority) stake_pool_withdraw_authority deposit_stake_address
        deposit_stake_withdraw_authority validator_stake_account reserve_stake_account
        pool_tokens_to manager_fee_account referrer_pool_tokens_account pool_mint
        token_program_id None"

definition deposit_stake_with_authority_and_slippage ::
    "env \<Rightarrow> sdk \<Rightarrow> Pubkey \<Rightarrow> Pubkey \<Rightarrow> Pubkey \<Rightarrow> Pubkey \<Rightarrow>
     Pubkey \<Rightarrow> Pubkey \<Rightarrow> Pubkey \<Rightarrow> Pubkey \<Rightarrow> Pubkey \<Rightarrow>
     Pubkey \<Rightarrow> Pubkey \<Rightarrow> Pubkey \<Rightarrow> Pubkey \<Rightarrow> Pubkey \<Rightarrow> u64 \<Rightarrow>
     BuiltInstruction list" where
  "deposit_stake_with_authority_and_slippage E S program_id stake_pool validator_list_storage
       stake_pool_deposit_authority stake_pool_withdraw_authority deposit_stake_address
       deposit_stake_withdraw_authority validator_stake_account reserve_stake_account
       pool_tokens_to manager_fee_account referrer_pool_tokens_account pool_mint token_program_id
       minimum_pool_tokens_out =
     deposit_stake_internal E S program_id stake_pool validator_list_storage
        (Some stake_pool_deposit_authority) stake_pool_withdraw_authority deposit_stake_address
        deposit_stake_withdraw_authority validator_stake_account reserve_stake_account
        pool_tokens_to manager_fee_account referrer_pool_tokens_account pool_mint
        token_program_id (Some minimum_pool_tokens_out)"

definition deposit_sol_internal ::
    "env \<Rightarrow> sdk \<Rightarrow> Pubkey \<Rightarrow> Pubkey \<Rightarrow> Pubkey \<Rightarrow> Pubkey \<Rightarrow>
     Pubkey \<Rightarrow> Pubkey \<Rightarrow> Pubkey \<Rightarrow> Pubkey \<Rightarrow> Pubkey \<Rightarrow>
     Pubkey \<Rightarrow> Pubkey option \<Rightarrow> u64 \<Rightarrow> u64 option \<Rightarrow> BuiltInstruction" where
  "deposit_sol_internal E S program_id stake_pool stake_pool_withdraw_authority
       reserve_stake_account lamports_from pool_tokens_to manager_fee_account
       referrer_pool_tokens_account pool_mint token_program_id sol_deposit_authority lamports_in
       minimum_pool_tokens_out =
     build program_id
       ([account_meta stake_pool False,
        account_meta_readonly stake_pool_withdraw_authority False,
        account_meta reserve_stake_account False, account_meta lamports_from True,
        account_meta pool_tokens_to False, account_meta manager_fee_account False,
        account_meta referrer_pool_tokens_account False, account_meta pool_mint False,
        account_meta_readonly (e_system_program_id E) False,
        account_meta_readonly token_program_id False]
       @ (case sol_deposit_authority of
            Some sol_deposit_authority \<Rightarrow> [account_meta_readonly sol_deposit_authority True]
          | None \<Rightarrow> []))
       (case minimum_pool_tokens_out of
            Some minimum_pool_tokens_out \<Rightarrow> DepositSolWithSlippage lamports_in minimum_pool_tokens_out
          | None \<Rightarrow> DepositSol lamports_in)"

definition deposit_sol ::
    "env \<Rightarrow> sdk \<Rightarrow> Pubkey \<Rightarrow> Pubkey \<Rightarrow> Pubkey \<Rightarrow> Pubkey \<Rightarrow>
     Pubkey \<Rightarrow> Pubkey \<Rightarrow> Pubkey \<Rightarrow> Pubkey \<Rightarrow> Pubkey \<Rightarrow>
     Pubkey \<Rightarrow> u64 \<Rightarrow> BuiltInstruction" where
  "deposit_sol E S program_id stake_pool stake_pool_withdraw_authority reserve_stake_account
       lamports_from pool_tokens_to manager_fee_account referrer_pool_tokens_account pool_mint
       token_program_id lamports_in =
     deposit_sol_internal E S program_id stake_pool stake_pool_withdraw_authority
        reserve_stake_account lamports_from pool_tokens_to manager_fee_account
        referrer_pool_tokens_account pool_mint token_program_id None lamports_in None"

definition deposit_sol_with_slippage ::
    "env \<Rightarrow> sdk \<Rightarrow> Pubkey \<Rightarrow> Pubkey \<Rightarrow> Pubkey \<Rightarrow> Pubkey \<Rightarrow>
     Pubkey \<Rightarrow> Pubkey \<Rightarrow> Pubkey \<Rightarrow> Pubkey \<Rightarrow> Pubkey \<Rightarrow>
     Pubkey \<Rightarrow> u64 \<Rightarrow> u64 \<Rightarrow> BuiltInstruction" where
  "deposit_sol_with_slippage E S program_id stake_pool stake_pool_withdraw_authority
       reserve_stake_account lamports_from pool_tokens_to manager_fee_account
       referrer_pool_tokens_account pool_mint token_program_id lamports_in
       minimum_pool_tokens_out =
     deposit_sol_internal E S program_id stake_pool stake_pool_withdraw_authority
        reserve_stake_account lamports_from pool_tokens_to manager_fee_account
        referrer_pool_tokens_account pool_mint token_program_id None lamports_in
        (Some minimum_pool_tokens_out)"

definition deposit_sol_with_authority ::
    "env \<Rightarrow> sdk \<Rightarrow> Pubkey \<Rightarrow> Pubkey \<Rightarrow> Pubkey \<Rightarrow> Pubkey \<Rightarrow>
     Pubkey \<Rightarrow> Pubkey \<Rightarrow> Pubkey \<Rightarrow> Pubkey \<Rightarrow> Pubkey \<Rightarrow>
     Pubkey \<Rightarrow> Pubkey \<Rightarrow> u64 \<Rightarrow> BuiltInstruction" where
  "deposit_sol_with_authority E S program_id stake_pool sol_deposit_authority
       stake_pool_withdraw_authority reserve_stake_account lamports_from pool_tokens_to
       manager_fee_account referrer_pool_tokens_account pool_mint token_program_id lamports_in =
     deposit_sol_internal E S program_id stake_pool stake_pool_withdraw_authority
        reserve_stake_account lamports_from pool_tokens_to manager_fee_account
        referrer_pool_tokens_account pool_mint token_program_id (Some sol_deposit_authority)
        lamports_in None"

definition deposit_sol_with_authority_and_slippage ::
    "env \<Rightarrow> sdk \<Rightarrow> Pubkey \<Rightarrow> Pubkey \<Rightarrow> Pubkey \<Rightarrow> Pubkey \<Rightarrow>
     Pubkey \<Rightarrow> Pubkey \<Rightarrow> Pubkey \<Rightarrow> Pubkey \<Rightarrow> Pubkey \<Rightarrow>
     Pubkey \<Rightarrow> Pubkey \<Rightarrow> u64 \<Rightarrow> u64 \<Rightarrow> BuiltInstruction" where
  "deposit_sol_with_authority_and_slippage E S program_id stake_pool sol_deposit_authority
       stake_pool_withdraw_authority reserve_stake_account lamports_from pool_tokens_to
       manager_fee_account referrer_pool_tokens_account pool_mint token_program_id lamports_in
       minimum_pool_tokens_out =
     deposit_sol_internal E S program_id stake_pool stake_pool_withdraw_authority
        reserve_stake_account lamports_from pool_tokens_to manager_fee_account
        referrer_pool_tokens_account pool_mint token_program_id (Some sol_deposit_authority)
        lamports_in (Some minimum_pool_tokens_out)"

definition deposit_wsol_with_session ::
    "env \<Rightarrow> sdk \<Rightarrow> Pubkey \<Rightarrow> Pubkey \<Rightarrow> Pubkey \<Rightarrow> Pubkey \<Rightarrow>
     Pubkey \<Rightarrow> Pubkey \<Rightarrow> Pubkey \<Rightarrow> Pubkey \<Rightarrow> Pubkey \<Rightarrow>
     Pubkey option \<Rightarrow> Pubkey \<Rightarrow> Pubkey \<Rightarrow> Pubkey \<Rightarrow> Pubkey \<Rightarrow>
     Pubkey \<Rightarrow> Pubkey \<Rightarrow> Pubkey \<Rightarrow> u64 \<Rightarrow> BuiltInstruction" where
  "deposit_wsol_with_session E S program_id signer_or_session fee_payer program_signer
       user_wsol_account transient_wsol_account wsol_mint stake_pool
       stake_pool_withdraw_authority sol_deposit_authority reserve_stake_account pool_tokens_to
       manager_fee_account referrer_pool_tokens_account pool_mint token_program_id
       system_program_id lamports_in =
     build program_id
       ([account_meta stake_pool False,
        account_meta_readonly stake_pool_withdraw_authority False,
        account_meta reserve_stake_account False, account_meta pool_tokens_to False,
        account_meta manager_fee_account False,
        account_meta referrer_pool_tokens_account False, account_meta pool_mint False,
        account_meta_readonly system_program_id False,
        account_meta_readonly token_program_id False, account_meta signer_or_session True,
        account_meta_readonly wsol_mint False, account_meta fee_payer True,
        account_meta user_wsol_account False, account_meta transient_wsol_account False,
        account_meta program_signer False]
       @ (case sol_deposit_authority of
            Some auth \<Rightarrow> [account_meta_readonly auth True]
          | None \<Rightarrow> []))
       (DepositWsolWithSession lamports_in)"

section \<open>Withdrawals\<close>

definition withdraw_stake_internal ::
    "env \<Rightarrow> sdk \<Rightarrow> Pubkey \<Rightarrow> Pubkey \<Rightarrow> Pubkey \<Rightarrow> Pubkey \<Rightarrow>
     Pubkey \<Rightarrow> Pubkey \<Rightarrow> Pubkey \<Rightarrow> Pubkey \<Rightarrow> Pubkey \<Rightarrow>
     Pubkey \<Rightarrow> Pubkey \<Rightarrow> Pubkey \<Rightarrow> u64 \<Rightarrow> u64 option \<Rightarrow> BuiltInstruction" where
  "withdraw_stake_internal E S program_id stake_pool validator_list_storage
       stake_pool_withdraw stake_to_split stake_to_receive user_stake_authority
       user_transfer_authority user_pool_token_account manager_fee_account pool_mint
       token_program_id pool_tokens_in minimum_lamports_out =
     build program_id
       ([account_meta stake_pool False, account_meta validator_list_storage False,
        account_meta_readonly stake_pool_withdraw False, account_meta stake_to_split False,
        account_meta stake_to_receive False, account_meta_readonly user_stake_authority False,
        account_meta_readonly user_transfer_authority True,
        account_meta user_pool_token_account False, account_meta manager_fee_account False,
        account_meta pool_mint False, account_meta_readonly (sdk_clock_id S) False,
        account_meta_readonly token_program_id False,
        account_meta_readonly (e_stake_program_id E) False])
       (case minimum_lamports_out of
            Some minimum_lamports_out \<Rightarrow> WithdrawStakeWithSlippage pool_tokens_in minimum_lamports_out
          | None \<Rightarrow> WithdrawStake pool_tokens_in)"

definition withdraw_stake ::
    "env \<Rightarrow> sdk \<Rightarrow> Pubkey \<Rightarrow> Pubkey \<Rightarrow> Pubkey \<Rightarrow> Pubkey \<Rightarrow>
     Pubkey \<Rightarrow> Pubkey \<Rightarrow> Pubkey \<Rightarrow> Pubkey \<Rightarrow> Pubkey \<Rightarrow>
     Pubkey \<Rightarrow> Pubkey \<Rightarrow> Pubkey \<Rightarrow> u64 \<Rightarrow> BuiltInstruction" where
  "withdraw_stake E S program_id stake_pool validator_list_storage stake_pool_withdraw
       stake_to_split stake_to_receive user_stake_authority user_transfer_authority
       user_pool_token_account manager_fee_account pool_mint token_program_id pool_tokens_in =
     withdraw_stake_internal E S program_id stake_pool validator_list_storage
        stake_pool_withdraw stake_to_split stake_to_receive user_stake_authority
        user_transfer_authority user_pool_token_account manager_fee_account pool_mint
        token_program_id pool_tokens_in None"

definition withdraw_stake_with_slippage ::
    "env \<Rightarrow> sdk \<Rightarrow> Pubkey \<Rightarrow> Pubkey \<Rightarrow> Pubkey \<Rightarrow> Pubkey \<Rightarrow>
     Pubkey \<Rightarrow> Pubkey \<Rightarrow> Pubkey \<Rightarrow> Pubkey \<Rightarrow> Pubkey \<Rightarrow>
     Pubkey \<Rightarrow> Pubkey \<Rightarrow> Pubkey \<Rightarrow> u64 \<Rightarrow> u64 \<Rightarrow> BuiltInstruction" where
  "withdraw_stake_with_slippage E S program_id stake_pool validator_list_storage
       stake_pool_withdraw stake_to_split stake_to_receive user_stake_authority
       user_transfer_authority user_pool_token_account manager_fee_account pool_mint
       token_program_id pool_tokens_in minimum_lamports_out =
     withdraw_stake_internal E S program_id stake_pool validator_list_storage
        stake_pool_withdraw stake_to_split stake_to_receive user_stake_authority
        user_transfer_authority user_pool_token_account manager_fee_account pool_mint
        token_program_id pool_tokens_in (Some minimum_lamports_out)"

definition withdraw_sol_internal ::
    "env \<Rightarrow> sdk \<Rightarrow> Pubkey \<Rightarrow> Pubkey \<Rightarrow> Pubkey \<Rightarrow> Pubkey \<Rightarrow>
     Pubkey \<Rightarrow> Pubkey \<Rightarrow> Pubkey \<Rightarrow> Pubkey \<Rightarrow> Pubkey \<Rightarrow>
     Pubkey \<Rightarrow> Pubkey option \<Rightarrow> u64 \<Rightarrow> u64 option \<Rightarrow> BuiltInstruction" where
  "withdraw_sol_internal E S program_id stake_pool stake_pool_withdraw_authority
       user_transfer_authority pool_tokens_from reserve_stake_account lamports_to
       manager_fee_account pool_mint token_program_id sol_withdraw_authority pool_tokens_in
       minimum_lamports_out =
     build program_id
       ([account_meta stake_pool False,
        account_meta_readonly stake_pool_withdraw_authority False,
        account_meta_readonly user_transfer_authority True,
        account_meta pool_tokens_from False, account_meta reserve_stake_account False,
        account_meta lamports_to False, account_meta manager_fee_account False,
        account_meta pool_mint False, account_meta_readonly (sdk_clock_id S) False,
        account_meta_readonly (sdk_stake_history_id S) False,
        account_meta_readonly (e_stake_program_id E) False,
        account_meta_readonly token_program_id False]
       @ (case sol_withdraw_authority of
            Some sol_withdraw_authority \<Rightarrow> [account_meta_readonly sol_withdraw_authority True]
          | None \<Rightarrow> []))
       (case minimum_lamports_out of
            Some minimum_lamports_out \<Rightarrow> WithdrawSolWithSlippage pool_tokens_in minimum_lamports_out
          | None \<Rightarrow> WithdrawSol pool_tokens_in)"

definition withdraw_sol ::
    "env \<Rightarrow> sdk \<Rightarrow> Pubkey \<Rightarrow> Pubkey \<Rightarrow> Pubkey \<Rightarrow> Pubkey \<Rightarrow>
     Pubkey \<Rightarrow> Pubkey \<Rightarrow> Pubkey \<Rightarrow> Pubkey \<Rightarrow> Pubkey \<Rightarrow>
     Pubkey \<Rightarrow> u64 \<Rightarrow> BuiltInstruction" where
  "withdraw_sol E S program_id stake_pool stake_pool_withdraw_authority
       user_transfer_authority pool_tokens_from reserve_stake_account lamports_to
       manager_fee_account pool_mint token_program_id pool_tokens_in =
     withdraw_sol_internal E S program_id stake_pool stake_pool_withdraw_authority
        user_transfer_authority pool_tokens_from reserve_stake_account lamports_to
        manager_fee_account pool_mint token_program_id None pool_tokens_in None"

definition withdraw_wsol_with_session ::
    "env \<Rightarrow> sdk \<Rightarrow> Pubkey \<Rightarrow> Pubkey \<Rightarrow> Pubkey \<Rightarrow> Pubkey \<Rightarrow>
     Pubkey \<Rightarrow> Pubkey \<Rightarrow> Pubkey \<Rightarrow> Pubkey \<Rightarrow> Pubkey \<Rightarrow>
     Pubkey \<Rightarrow> Pubkey option \<Rightarrow> Pubkey \<Rightarrow> Pubkey \<Rightarrow> Pubkey \<Rightarrow>
     Pubkey \<Rightarrow> Pubkey \<Rightarrow> Pubkey \<Rightarrow> u64 \<Rightarrow> BuiltInstruction" where
  "withdraw_wsol_with_session E S program_id stake_pool stake_pool_withdraw_authority
       user_transfer_authority pool_tokens_from reserve_stake_account user_wsol_account
       manager_fee_account pool_mint token_program_id sol_withdraw_authority wsol_mint fee_payer
       user_owner system_program_id program_signer associated_token_program_id pool_tokens_in =
     build program_id
       ([account_meta stake_pool False,
        account_meta_readonly stake_pool_withdraw_authority False,
        account_meta_readonly user_transfer_authority True,
        account_meta pool_tokens_from False, account_meta reserve_stake_account False,
        account_meta user_wsol_account False, account_meta manager_fee_account False,
        account_meta pool_mint False, account_meta_readonly (sdk_clock_id S) False,
        account_meta_readonly (sdk_stake_history_id S) False,
        account_meta_readonly (e_stake_program_id E) False,
        account_meta_readonly token_program_id False, account_meta_readonly wsol_mint False,
        account_meta fee_payer True, account_meta_readonly user_owner False,
        account_meta_readonly system_program_id False, account_meta program_signer False,
        account_meta_readonly associated_token_program_id False]
       @ (case sol_withdraw_authority of
            Some sol_withdraw_authority \<Rightarrow> [account_meta_readonly sol_withdraw_authority True]
          | None \<Rightarrow> []))
       (WithdrawWsolWithSession pool_tokens_in)"

definition withdraw_sol_with_slippage ::
    "env \<Rightarrow> sdk \<Rightarrow> Pubkey \<Rightarrow> Pubkey \<Rightarrow> Pubkey \<Rightarrow> Pubkey \<Rightarrow>
     Pubkey \<Rightarrow> Pubkey \<Rightarrow> Pubkey \<Rightarrow> Pubkey \<Rightarrow> Pubkey \<Rightarrow>
     Pubkey \<Rightarrow> u64 \<Rightarrow> u64 \<Rightarrow> BuiltInstruction" where
  "withdraw_sol_with_slippage E S program_id stake_pool stake_pool_withdraw_authority
       user_transfer_authority pool_tokens_from reserve_stake_account lamports_to
       manager_fee_account pool_mint token_program_id pool_tokens_in minimum_lamports_out =
     withdraw_sol_internal E S program_id stake_pool stake_pool_withdraw_authority
        user_transfer_authority pool_tokens_from reserve_stake_account lamports_to
        manager_fee_account pool_mint token_program_id None pool_tokens_in
        (Some minimum_lamports_out)"

definition withdraw_sol_with_authority ::
    "env \<Rightarrow> sdk \<Rightarrow> Pubkey \<Rightarrow> Pubkey \<Rightarrow> Pubkey \<Rightarrow> Pubkey \<Rightarrow>
     Pubkey \<Rightarrow> Pubkey \<Rightarrow> Pubkey \<Rightarrow> Pubkey \<Rightarrow> Pubkey \<Rightarrow>
     Pubkey \<Rightarrow> Pubkey \<Rightarrow> u64 \<Rightarrow> BuiltInstruction" where
  "withdraw_sol_with_authority E S program_id stake_pool sol_withdraw_authority
       stake_pool_withdraw_authority user_transfer_authority pool_tokens_from
       reserve_stake_account lamports_to manager_fee_account pool_mint token_program_id
       pool_tokens_in =
     withdraw_sol_internal E S program_id stake_pool stake_pool_withdraw_authority
        user_transfer_authority pool_tokens_from reserve_stake_account lamports_to
        manager_fee_account pool_mint token_program_id (Some sol_withdraw_authority)
        pool_tokens_in None"

definition withdraw_sol_with_authority_and_slippage ::
    "env \<Rightarrow> sdk \<Rightarrow> Pubkey \<Rightarrow> Pubkey \<Rightarrow> Pubkey \<Rightarrow> Pubkey \<Rightarrow>
     Pubkey \<Rightarrow> Pubkey \<Rightarrow> Pubkey \<Rightarrow> Pubkey \<Rightarrow> Pubkey \<Rightarrow>
     Pubkey \<Rightarrow> Pubkey \<Rightarrow> u64 \<Rightarrow> u64 \<Rightarrow> BuiltInstruction" where
  "withdraw_sol_with_authority_and_slippage E S program_id stake_pool sol_withdraw_authority
       stake_pool_withdraw_authority user_transfer_authority pool_tokens_from
       reserve_stake_account lamports_to manager_fee_account pool_mint token_program_id
       pool_tokens_in minimum_lamports_out =
     withdraw_sol_internal E S program_id stake_pool stake_pool_withdraw_authority
        user_transfer_authority pool_tokens_from reserve_stake_account lamports_to
        manager_fee_account pool_mint token_program_id (Some sol_withdraw_authority)
        pool_tokens_in (Some minimum_lamports_out)"

section \<open>Administration\<close>

definition set_manager ::
    "env \<Rightarrow> sdk \<Rightarrow> Pubkey \<Rightarrow> Pubkey \<Rightarrow> Pubkey \<Rightarrow> Pubkey \<Rightarrow>
     Pubkey \<Rightarrow> BuiltInstruction" where
  "set_manager E S program_id stake_pool manager new_manager new_fee_receiver =
     build program_id
       ([account_meta stake_pool False, account_meta_readonly manager True,
        account_meta_readonly new_manager True, account_meta_readonly new_fee_receiver False])
       SetManager"

definition set_fee ::
    "env \<Rightarrow> sdk \<Rightarrow> Pubkey \<Rightarrow> Pubkey \<Rightarrow> Pubkey \<Rightarrow> FeeType \<Rightarrow>
     BuiltInstruction" where
  "set_fee E S program_id stake_pool manager fee =
     build program_id
       ([account_meta stake_pool False, account_meta_readonly manager True])
       (SetFee fee)"

definition set_staker ::
    "env \<Rightarrow> sdk \<Rightarrow> Pubkey \<Rightarrow> Pubkey \<Rightarrow> Pubkey \<Rightarrow> Pubkey \<Rightarrow>
     BuiltInstruction" where
  "set_staker E S program_id stake_pool set_staker_authority new_staker =
     build program_id
       ([account_meta stake_pool False, account_meta_readonly set_staker_authority True,
        account_meta_readonly new_staker False])
       SetStaker"

definition set_funding_authority ::
    "env \<Rightarrow> sdk \<Rightarrow> Pubkey \<Rightarrow> Pubkey \<Rightarrow> Pubkey \<Rightarrow>
     Pubkey option \<Rightarrow> FundingType \<Rightarrow> BuiltInstruction" where
  "set_funding_authority E S program_id stake_pool manager new_sol_deposit_authority
       funding_type =
     build program_id
       ([account_meta stake_pool False, account_meta_readonly manager True]
       @ (case new_sol_deposit_authority of
            Some auth \<Rightarrow> [account_meta_readonly auth False]
          | None \<Rightarrow> []))
       (SetFundingAuthority funding_type)"

definition update_token_metadata ::
    "env \<Rightarrow> sdk \<Rightarrow> Pubkey \<Rightarrow> Pubkey \<Rightarrow> Pubkey \<Rightarrow> Pubkey \<Rightarrow>
     rust_string \<Rightarrow> rust_string \<Rightarrow> rust_string \<Rightarrow> BuiltInstruction" where
  "update_token_metadata E S program_id stake_pool manager pool_mint name symbol uri =
     (let stake_pool_withdraw_authority =
               fst (find_withdraw_authority_program_address E program_id stake_pool);
          token_metadata = fst (find_metadata_account E pool_mint)
      in build program_id
       ([account_meta_readonly stake_pool False, account_meta_readonly manager True,
        account_meta_readonly stake_pool_withdraw_authority False,
        account_meta token_metadata False,
        account_meta_readonly (e_mpl_token_metadata_id E) False])
       (UpdateTokenMetadata name symbol uri))"

definition create_token_metadata ::
    "env \<Rightarrow> sdk \<Rightarrow> Pubkey \<Rightarrow> Pubkey \<Rightarrow> Pubkey \<Rightarrow> Pubkey \<Rightarrow>
     Pubkey \<Rightarrow> rust_string \<Rightarrow> rust_string \<Rightarrow> rust_string \<Rightarrow> BuiltInstruction" where
  "create_token_metadata E S program_id stake_pool manager pool_mint payer name symbol uri =
     (let stake_pool_withdraw_authority =
               fst (find_withdraw_authority_program_address E program_id stake_pool);
          token_metadata = fst (find_metadata_account E pool_mint)
      in build program_id
       ([account_meta_readonly stake_pool False, account_meta_readonly manager True,
        account_meta_readonly stake_pool_withdraw_authority False,
        account_meta_readonly pool_mint False, account_meta payer True,
        account_meta token_metadata False,
        account_meta_readonly (e_mpl_token_metadata_id E) False,
        account_meta_readonly (e_system_program_id E) False])
       (CreateTokenMetadata name symbol uri))"

section \<open>Building a full update\<close>

lemma concat_chunks_of: "0 < n \<Longrightarrow> concat (chunks_of n xs) = xs"
  by (induction n xs rule: chunks_of.induct) (subst chunks_of.simps, auto)

lemma chunks_of_Nil [simp]: "chunks_of n [] = []"
  by (subst chunks_of.simps) simp

lemma chunks_of_nth:
  "0 < n \<Longrightarrow> i < length (chunks_of n xs) \<Longrightarrow>
     chunks_of n xs ! i = take n (drop (i * n) xs) \<and> i * n < length xs"
proof (induction n xs arbitrary: i rule: chunks_of.induct)
  case (1 n xs)
  show ?case
  proof (cases "xs = []")
    case True
    then show ?thesis using "1.prems" by simp
  next
    case False
    then have ch: "chunks_of n xs = take n xs # chunks_of n (drop n xs)"
      using "1.prems"(1) by (subst chunks_of.simps) simp
    show ?thesis
    proof (cases i)
      case 0
      then show ?thesis using False by (simp add: ch)
    next
      case (Suc j)
      then have "j < length (chunks_of n (drop n xs))" using "1.prems"(2) by (simp add: ch)
      then have "chunks_of n (drop n xs) ! j = take n (drop (j * n) (drop n xs)) \<and> j * n < length (drop n xs)"
        using "1.IH" False "1.prems"(1) by simp
      then show ?thesis by (simp add: Suc ch add.commute) linarith
    qed
  qed
qed

lemma length_chunks_of: "0 < n \<Longrightarrow> length (chunks_of n xs) = (length xs + n - 1) div n"
proof (induction n xs rule: chunks_of.induct)
  case (1 n xs)
  show ?case
  proof (cases "xs = []")
    case True
    then show ?thesis using "1.prems" by simp
  next
    case False
    then have ch: "chunks_of n xs = take n xs # chunks_of n (drop n xs)"
      using "1.prems" by (subst chunks_of.simps) simp
    have IH: "length (chunks_of n (drop n xs)) = (length (drop n xs) + n - 1) div n"
      using "1.IH" False "1.prems" by simp
    show ?thesis
    proof (cases "length xs \<le> n")
      case True
      moreover have "1 \<le> length xs" using False by (cases xs) auto
      ultimately have "(length xs + n - 1) div n = 1"
        using "1.prems" by (intro div_nat_eqI) auto
      then show ?thesis using True by (simp add: ch)
    next
      case len: False
      then have "length xs + n - 1 = (length (drop n xs) + n - 1) + n" by simp
      then have "(length xs + n - 1) div n = (length (drop n xs) + n - 1) div n + 1"
        using div_add_self2 [of n "length (drop n xs) + n - 1"] "1.prems" by (simp only: neq0_conv)
      then show ?thesis by (simp add: ch IH)
    qed
  qed
qed

lemma chunk_range:
  assumes "0 < n" "i < length (chunks_of n xs)"
  shows "i * n + length (chunks_of n xs ! i) \<le> length xs" "vec_get xs (i * n) (i * n + length (chunks_of n xs ! i))
    = Some (chunks_of n xs ! i)"
  using chunks_of_nth [OF assms] by (auto simp: vec_get_def min_def)

lemma chunks_cover:
  assumes "0 < n" "k < length xs"
  shows "k div n < length (chunks_of n xs)" "k div n * n \<le> k"
    "k < k div n * n + length (chunks_of n xs ! (k div n))"
proof -
  have "k div n < (length xs + n - 1) div n"
  proof -
    have "(k + n) div n \<le> (length xs + n - 1) div n" using assms by (intro div_le_mono) simp
    moreover have "(k + n) div n = k div n + 1" using assms(1) by (simp add: div_add_self2)
    ultimately show ?thesis by simp
  qed
  then show i: "k div n < length (chunks_of n xs)" by (simp add: length_chunks_of [OF assms(1)])
  show le: "k div n * n \<le> k" by simp
  have "k - k div n * n < n" using assms(1) by (simp add: minus_div_mult_eq_mod)
  then show "k < k div n * n + length (chunks_of n xs ! (k div n))"
    using chunks_of_nth [OF assms(1) i] assms(2) le by auto
qed

lemma in_chunk:
  assumes "0 < n" "k < length xs"
  shows "xs ! k \<in> set (chunks_of n xs ! (k div n))"
proof -
  note c = chunks_cover [OF assms]
  have j: "k - k div n * n < length (chunks_of n xs ! (k div n))" using c(2,3) by linarith
  have "chunks_of n xs ! (k div n) ! (k - k div n * n) = xs ! (k div n * n + (k - k div n * n))"
    using chunks_of_nth [OF assms(1) c(1)] j by simp
  also have "\<dots> = xs ! k" using c(2) by simp
  finally show ?thesis using nth_mem [OF j] by simp
qed

lemma collect_unwrap_Inr: "collect_unwrap (map (\<lambda>x. Inr (f x)) xs) = Inr (map f xs)"
  by (induction xs) simp_all

text \<open>The instruction for one chunk of the list.\<close>

definition chunk_instruction ::
    "env \<Rightarrow> sdk \<Rightarrow> Pubkey \<Rightarrow> StakePool \<Rightarrow> Pubkey \<Rightarrow> bool \<Rightarrow> nat \<Rightarrow> ValidatorStakeInfo list \<Rightarrow> BuiltInstruction" where
  "chunk_instruction E S pid p pool nm start vs =
     build pid
       (update_list_accounts E S pool (fst (find_withdraw_authority_program_address E pid pool))
          (sp_validator_list p) (sp_reserve_stake p)
        @ concat (map (validator_accounts E pid pool) vs))
       (UpdateValidatorListBalance (of_nat start) nm)"

text \<open>The instruction for the chunk of number \<open>i\<close>, and whether a chunk has a record to update.\<close>

definition chunk_at ::
    "env \<Rightarrow> sdk \<Rightarrow> Pubkey \<Rightarrow> StakePool \<Rightarrow> Pubkey \<Rightarrow> bool \<Rightarrow> ValidatorStakeInfo list \<Rightarrow> nat \<Rightarrow> BuiltInstruction" where
  "chunk_at E S pid p pool nm xs i =
     chunk_instruction E S pid p pool nm (i * MAX_VALIDATORS_TO_UPDATE) (chunks_of MAX_VALIDATORS_TO_UPDATE xs ! i)"

definition chunk_stale :: "u64 \<Rightarrow> ValidatorStakeInfo list \<Rightarrow> nat \<Rightarrow> bool" where
  "chunk_stale epoch xs i \<longleftrightarrow>
     (\<exists>v \<in> set (chunks_of MAX_VALIDATORS_TO_UPDATE xs ! i). vsi_last_update_epoch v < epoch)"

definition chunk_count :: "ValidatorStakeInfo list \<Rightarrow> nat" where
  "chunk_count xs = length (chunks_of MAX_VALIDATORS_TO_UPDATE xs)"

lemma max_validators_pos: "0 < MAX_VALIDATORS_TO_UPDATE"
  by (simp add: MAX_VALIDATORS_TO_UPDATE_def)

lemma chunk_builds:
  fixes E :: env and pid pool :: Pubkey and l :: ValidatorList and i :: nat
  assumes small: "length (vl_validators l) < 2 ^ 32" and i: "i < chunk_count (vl_validators l)"
  defines "chunk \<equiv> chunks_of MAX_VALIDATORS_TO_UPDATE (vl_validators l) ! i"
    and "auth \<equiv> fst (find_withdraw_authority_program_address E pid pool)"
  shows "update_validator_list_balance_chunk E S pid pool auth (sp_validator_list p) (sp_reserve_stake p) l
      (length chunk) (usize_sat_mul i MAX_VALIDATORS_TO_UPDATE) nm
        = Inr (chunk_at E S pid p pool nm (vl_validators l) i)" (is ?full)
    "update_stale_validator_list_balance_chunk E S pid pool auth (sp_validator_list p) (sp_reserve_stake p) l
      (length chunk) (usize_sat_mul i MAX_VALIDATORS_TO_UPDATE) nm epoch
        = Inr (if chunk_stale epoch (vl_validators l) i
               then Some (chunk_at E S pid p pool nm (vl_validators l) i) else None)"
proof -
  let ?n = MAX_VALIDATORS_TO_UPDATE and ?xs = "vl_validators l"
  have i: "i < length (chunks_of ?n ?xs)" using i by (simp add: chunk_count_def)
  note r = chunk_range [OF max_validators_pos i] chunks_of_nth [OF max_validators_pos i]
  then have b: "i * ?n \<le> usize_max" "i * ?n + length chunk \<le> usize_max" "i * ?n < 2 ^ 32"
    using small by (auto simp: usize_max_def chunk_def)
  then have sat: "usize_sat_mul i ?n = i * ?n" "usize_sat_add (i * ?n) (length chunk) = i * ?n + length chunk"
    by (simp_all add: usize_sat_mul_def usize_sat_add_def)
  show full: ?full
    unfolding sat(1) update_validator_list_balance_chunk_def sat(2)
    using r b(3) by (simp add: chunk_def chunk_at_def chunk_instruction_def auth_def)
  show "update_stale_validator_list_balance_chunk E S pid pool auth (sp_validator_list p) (sp_reserve_stake p) l
      (length chunk) (usize_sat_mul i ?n) nm epoch
        = Inr (if chunk_stale epoch ?xs i then Some (chunk_at E S pid p pool nm ?xs i) else None)"
    unfolding update_stale_validator_list_balance_chunk_def full unfolding sat
    using r by (auto simp: chunk_def chunk_stale_def list_all_iff not_le)
qed

lemma enumerate_upt: "map (\<lambda>(i, x). f i x) (enumerate 0 xs) = map (\<lambda>i. f i (xs ! i)) [0..<length xs]"
  by (rule nth_equalityI) (simp_all add: nth_enumerate_eq)

lemma map_filter_upt: "List.map_filter id (map (\<lambda>i. if P i then Some (f i) else None) is) = map f (filter P is)"
  by (induction "is") (simp_all add: List.map_filter_simps)

text \<open>
  The builders of a whole update never panic on lists that fit 32 bits, and the instructions they
  give are those of all chunks, respectively of the chunks with a stale record.
\<close>

lemma update_stake_pool_eq:
  assumes "length (vl_validators l) < 2 ^ 32"
  shows "update_stake_pool E S pid p l pool nm =
    Inr (map (chunk_at E S pid p pool nm (vl_validators l)) [0..<chunk_count (vl_validators l)],
         final_instructions E S pid p pool (fst (find_withdraw_authority_program_address E pid pool)))"
  unfolding update_stake_pool_def Let_def enumerate_upt chunk_count_def [symmetric]
  by (subst map_cong [OF refl chunk_builds(1) [OF assms]])
    (simp_all add: collect_unwrap_Inr)

lemma update_stale_stake_pool_eq:
  assumes "length (vl_validators l) < 2 ^ 32"
  shows "update_stale_stake_pool E S pid p l pool nm epoch =
    Inr (map (chunk_at E S pid p pool nm (vl_validators l))
           (filter (chunk_stale epoch (vl_validators l)) [0..<chunk_count (vl_validators l)]),
         final_instructions E S pid p pool (fst (find_withdraw_authority_program_address E pid pool)))"
  unfolding update_stale_stake_pool_def Let_def enumerate_upt chunk_count_def [symmetric]
  by (subst map_cong [OF refl chunk_builds(2) [OF assms]])
    (simp_all add: collect_unwrap_Inr map_filter_upt)

section \<open>Running what was built\<close>

text \<open>
  The run-time hands a program the accounts of an instruction with their flags and its data; the
  instructions of a sequence run in order and the first that fails ends it.
\<close>

definition info_of :: "AccountMeta \<Rightarrow> AccountInfo" where
  "info_of m = \<lparr>ai_key = am_pubkey m, ai_is_signer = am_is_signer m, ai_is_writable = am_is_writable m\<rparr>"

definition run_built :: "env \<Rightarrow> BuiltInstruction \<Rightarrow> world \<Rightarrow> world result" where
  "run_built E b w = process E (bi_program_id b) (map info_of (bi_accounts b)) (bi_data b) w"

fun run_all :: "env \<Rightarrow> BuiltInstruction list \<Rightarrow> world \<Rightarrow> world result" where
  "run_all E [] w = Inr w"
| "run_all E (b # bs) w = tri (run_built E b w) (run_all E bs)"

lemma info_of_meta [simp]:
  "ai_key (info_of (account_meta k s)) = k" "ai_key (info_of (account_meta_readonly k s)) = k"
  "ai_is_signer (info_of (account_meta k s)) = s" "ai_is_signer (info_of (account_meta_readonly k s)) = s"
  by (simp_all add: info_of_def account_meta_def account_meta_readonly_def)

text \<open>Building and decoding cancel: the program runs the handler of the instruction that was built.\<close>

lemma run_build:
  "instruction_ok ix \<Longrightarrow> run_built E (build pid accts ix) w
     = process_instruction E pid (map info_of accts) ix w"
  using de_ser_instruction [of ix "[]"]
  by (simp add: run_built_def build_def process_def try_from_slice_def del: ser_instruction.simps)

text \<open>What identifies the stake accounts of a record.\<close>

definition stake_ids :: "ValidatorStakeInfo \<Rightarrow> Pubkey \<times> u32 \<times> u64" where
  "stake_ids r = (vsi_vote_account_address r, vsi_validator_seed_suffix r, vsi_transient_seed_suffix r)"

lemma record_updated_ids: "record_updated epoch r r' \<Longrightarrow> stake_ids r' = stake_ids r"
  by (auto simp: record_updated_def stake_ids_def)

lemma stakes_nth:
  "length (concat (map (validator_accounts E pid pool) vs)) = 2 * length vs"
  "i < length vs \<Longrightarrow> concat (map (validator_accounts E pid pool) vs) ! (2 * i)
     = validator_accounts E pid pool (vs ! i) ! 0"
  "i < length vs \<Longrightarrow> concat (map (validator_accounts E pid pool) vs) ! (2 * i + 1)
     = validator_accounts E pid pool (vs ! i) ! 1"
proof (induction vs arbitrary: i)
  case (Cons v vs)
  {
    case 1 then show ?case using Cons.IH(1) by (simp add: validator_accounts_def Let_def)
  next
    case 2 then show ?case using Cons.IH(2) [of "i - 1"]
      by (cases i) (simp_all add: validator_accounts_def Let_def)
  next
    case 3 then show ?case using Cons.IH(3) [of "i - 1"]
      by (cases i) (simp_all add: validator_accounts_def Let_def)
  }
qed simp_all

lemma own_accounts_built:
  assumes "stake_ids r = stake_ids v" "ai_key a = pool"
  shows "own_accounts E pid a r (info_of (validator_accounts E pid pool v ! 0))
    (info_of (validator_accounts E pid pool v ! 1))"
  using assms
  by (auto simp: own_accounts_def validator_accounts_def Let_def stake_ids_def is_ok_def
      check_validator_stake_address_def check_transient_stake_address_def split: prod.splits)

abbreviation list_info :: "StakePool \<Rightarrow> AccountInfo" where
  "list_info p \<equiv> info_of (account_meta (sp_validator_list p) False)"

abbreviation pool_info :: "Pubkey \<Rightarrow> AccountInfo" where
  "pool_info k \<equiv> info_of (account_meta_readonly k False)"

abbreviation clock_info_of :: "sdk \<Rightarrow> AccountInfo" where
  "clock_info_of S \<equiv> info_of (account_meta_readonly (sdk_clock_id S) False)"

lemma run_chunk:
  assumes run: "run_built E (chunk_instruction E S pid p pool nm start vs) w = Inr w'"
    and law: "cpi_law E pid"
    and list: "load_list w (list_info p) = Inr (h, bv)" "list_inv h bv"
    and clock: "e_clock_from_account_info E w (clock_info_of S) = Inr epoch"
    and ids: "start < 2 ^ 32" "map stake_ids vs = map stake_ids (take (length vs) (drop start (vlist bv)))"
  obtains bv' where "load_list w' (list_info p) = Inr (h, bv')" "list_inv h bv'"
    "map stake_ids (vlist bv') = map stake_ids (vlist bv)" "load_pool w' (pool_info pool) = load_pool w (pool_info pool)"
    "\<forall>k < bv_count bv. vsi_last_update_epoch (vlist bv' ! k) =
       (if start \<le> k \<and> k < start + length vs then epoch else vsi_last_update_epoch (vlist bv ! k))"
proof -
  let ?metas = "concat (map (validator_accounts E pid pool) vs)"
  let ?stakes = "map info_of ?metas"
  have start: "unat (of_nat start :: u32) = start" using ids(1) by (simp add: unat_of_nat)
  have "process_update_validator_list_balance E pid
      (pool_info pool # info_of (account_meta_readonly (fst (find_withdraw_authority_program_address E pid pool)) False)
       # list_info p # info_of (account_meta (sp_reserve_stake p) False) # clock_info_of S
       # info_of (account_meta_readonly (sdk_stake_history_id S) False)
       # info_of (account_meta_readonly (e_stake_program_id E) False) # ?stakes) (of_nat start) nm w = Inr w'"
    using run by (simp add: chunk_instruction_def run_build process_instruction_def update_list_accounts_def)
  from update_list_effect [OF this law list]
  obtain bv' n where eff: "length ?stakes = 2 * n" "start + n \<le> bv_count bv"
      "load_list w' (list_info p) = Inr (h, bv')" "list_inv h bv'" "bv_count bv' = bv_count bv"
      "load_pool w' (pool_info pool) = load_pool w (pool_info pool)"
    and recs: "\<And>k. k < bv_count bv \<Longrightarrow> if start \<le> k \<and> k < start + n
        then record_updated epoch (vlist bv ! k) (vlist bv' ! k)
          \<and> (own_accounts E pid (pool_info pool) (vlist bv ! k) (?stakes ! (2 * (k - start)))
               (?stakes ! (2 * (k - start) + 1)) \<longrightarrow> vsi_last_update_epoch (vlist bv' ! k) = epoch)
        else vlist bv' ! k = vlist bv ! k"
    unfolding start using clock by auto
  have n: "n = length vs" using eff(1) by (simp add: stakes_nth(1))
  have own: "own_accounts E pid (pool_info pool) (vlist bv ! k) (?stakes ! (2 * (k - start)))
      (?stakes ! (2 * (k - start) + 1))" if k: "start \<le> k" "k < start + n" for k
  proof -
    have i: "k - start < length vs" using k n by linarith
    then have "stake_ids (vs ! (k - start)) = stake_ids (vlist bv ! k)"
      using arg_cong [OF ids(2), of "\<lambda>xs. xs ! (k - start)"] k eff(2) n by simp
    then show ?thesis
      using own_accounts_built [of "vlist bv ! k" "vs ! (k - start)" "pool_info pool" pool E pid] i
      by (simp add: stakes_nth stakes_nth(3) [simplified])
  qed
  have "stake_ids (vlist bv' ! k) = stake_ids (vlist bv ! k)" if "k < bv_count bv" for k
    using recs [OF that] by (auto intro: record_updated_ids split: if_splits)
  then have "map stake_ids (vlist bv') = map stake_ids (vlist bv)"
    using eff(5) by (intro nth_equalityI) simp_all
  moreover have "vsi_last_update_epoch (vlist bv' ! k) =
       (if start \<le> k \<and> k < start + length vs then epoch else vsi_last_update_epoch (vlist bv ! k))"
    if "k < bv_count bv" for k
    using recs [OF that] own n by auto
  ultimately show thesis using that eff(3,4,6) by blast
qed

text \<open>
  A sequence of chunk instructions brings every record of these chunks up to date and sets no record
  back.
\<close>

lemma run_chunks:
  assumes "run_all E (map (chunk_at E S pid p pool nm xs) is) w = Inr w'"
    and law: "cpi_law E pid"
    and "load_list w (list_info p) = Inr (h, bv)" "list_inv h bv"
    and clock: "\<And>w. e_clock_from_account_info E w (clock_info_of S) = Inr epoch"
    and "map stake_ids xs = map stake_ids (vlist bv)"
    and "\<forall>i \<in> set is. i < chunk_count xs"
  shows "\<exists>bv'. load_list w' (list_info p) = Inr (h, bv') \<and> list_inv h bv'
    \<and> map stake_ids (vlist bv') = map stake_ids (vlist bv)
    \<and> load_pool w' (pool_info pool) = load_pool w (pool_info pool)
    \<and> (\<forall>k < length xs. k div MAX_VALIDATORS_TO_UPDATE \<in> set is \<or> epoch \<le> vsi_last_update_epoch (vlist bv ! k)
         \<longrightarrow> epoch \<le> vsi_last_update_epoch (vlist bv' ! k))"
  using assms(1,3,4,6,7)
proof (induction "is" arbitrary: w bv)
  case (Cons i rest)
  let ?n = MAX_VALIDATORS_TO_UPDATE
  let ?c = "chunks_of ?n xs ! i"
  obtain wa where wa: "run_built E (chunk_at E S pid p pool nm xs i) w = Inr wa"
      and rest: "run_all E (map (chunk_at E S pid p pool nm xs) rest) wa = Inr w'"
    using Cons.prems(1) by (auto simp: inversions)
  have i: "i < length (chunks_of ?n xs)" using Cons.prems(5) by (simp add: chunk_count_def)
  note c = chunks_of_nth [OF max_validators_pos i] chunk_range(1) [OF max_validators_pos i]
  have len: "length xs = bv_count bv" using arg_cong [OF Cons.prems(4), of length] by simp
  have small: "i * ?n < 2 ^ 32" using c bv_count_bound [of bv] len by linarith
  have "map stake_ids ?c = take (length ?c) (drop (i * ?n) (map stake_ids xs))"
    using c by (simp add: take_map drop_map min_def)
  then have ids: "map stake_ids ?c = map stake_ids (take (length ?c) (drop (i * ?n) (vlist bv)))"
    by (simp only: Cons.prems(4) take_map drop_map)
  obtain bv1 where l1: "load_list wa (list_info p) = Inr (h, bv1)" "list_inv h bv1"
      "map stake_ids (vlist bv1) = map stake_ids (vlist bv)"
      "load_pool wa (pool_info pool) = load_pool w (pool_info pool)"
    and e1: "\<forall>k < bv_count bv. vsi_last_update_epoch (vlist bv1 ! k) =
       (if i * ?n \<le> k \<and> k < i * ?n + length ?c then epoch else vsi_last_update_epoch (vlist bv ! k))"
    by (rule run_chunk [OF wa [unfolded chunk_at_def] law Cons.prems(2,3) clock small ids])
  obtain bv' where l': "load_list w' (list_info p) = Inr (h, bv')" "list_inv h bv'"
      "map stake_ids (vlist bv') = map stake_ids (vlist bv1)"
      "load_pool w' (pool_info pool) = load_pool wa (pool_info pool)"
    and e': "\<forall>k < length xs. k div ?n \<in> set rest \<or> epoch \<le> vsi_last_update_epoch (vlist bv1 ! k)
         \<longrightarrow> epoch \<le> vsi_last_update_epoch (vlist bv' ! k)"
    using Cons.IH [OF rest l1(1,2)] Cons.prems(4,5) l1(3) by auto
  have "epoch \<le> vsi_last_update_epoch (vlist bv' ! k)"
    if k: "k < length xs" "k div ?n \<in> set (i # rest) \<or> epoch \<le> vsi_last_update_epoch (vlist bv ! k)" for k
    using e' e1 k len chunks_cover [OF max_validators_pos k(1)] by (cases "k div ?n = i") auto
  then show ?case using l' l1 by auto
qed auto

lemma mset_map_order:
  "mset ys = mset (map f xs) \<Longrightarrow> \<exists>zs. ys = map f zs \<and> set zs = set xs"
proof (induction xs arbitrary: ys)
  case (Cons x xs)
  have "f x \<in> set ys" using arg_cong [OF Cons.prems, of set_mset] by simp
  then obtain as bs where ys: "ys = as @ f x # bs" by (meson split_list)
  then have "mset (as @ bs) = mset (map f xs)" using Cons.prems by simp
  then obtain zs where zs: "as @ bs = map f zs" "set zs = set xs" using Cons.IH by blast
  then obtain us vs where "zs = us @ vs" "as = map f us" "bs = map f vs"
    by (auto simp: append_eq_map_conv)
  then have "ys = map f (us @ x # vs) \<and> set (us @ x # vs) = set (x # xs)"
    using ys zs(2) by auto
  then show ?case by blast
qed simp

lemma concat_map_concat: "concat (map (\<lambda>c. concat (map f c)) xss) = concat (map f (concat xss))"
  by (induction xss) simp_all

section \<open>Properties\<close>

text \<open>
  C14. For every pool and every list that fits the 32-bit index, the builder of a full update never
  panics. It gives one instruction per four validators, numbered from the first, and the accounts
  of these instructions are the stake and transient stake account of every validator, in the order
  of the list and each exactly once; the two instructions that end the update follow.
\<close>

theorem update_stake_pool_builds:
  assumes "length (vl_validators l) < 2 ^ 32"
  shows "\<exists>ups finals. update_stake_pool E S pid p l pool nm = Inr (ups, finals)
    \<and> length ups = (length (vl_validators l) + 3) div 4 \<and> length finals = 2
    \<and> (\<forall>i < length ups. bi_program_id (ups ! i) = pid
        \<and> try_from_slice de_instruction (bi_data (ups ! i))
            = Inr (UpdateValidatorListBalance (of_nat (4 * i)) nm))
    \<and> concat (map (\<lambda>b. drop 7 (bi_accounts b)) ups)
        = concat (map (validator_accounts E pid pool) (vl_validators l))"
proof -
  let ?xs = "vl_validators l"
  let ?ups = "map (chunk_at E S pid p pool nm ?xs) [0..<chunk_count ?xs]"
  have count: "chunk_count ?xs = (length ?xs + 3) div 4"
    using length_chunks_of [OF max_validators_pos, of ?xs]
    by (simp add: chunk_count_def MAX_VALIDATORS_TO_UPDATE_def)
  have data: "try_from_slice de_instruction (ser_instruction (UpdateValidatorListBalance s nm))
      = Inr (UpdateValidatorListBalance s nm)" for s
    using de_ser_instruction [of "UpdateValidatorListBalance s nm" "[]"]
    by (simp add: try_from_slice_def del: ser_instruction.simps)
  have "concat (map (\<lambda>b. drop 7 (bi_accounts b)) ?ups)
      = concat (map (\<lambda>c. concat (map (validator_accounts E pid pool) c)) (chunks_of MAX_VALIDATORS_TO_UPDATE ?xs))"
    by (rule arg_cong [where f = concat], rule nth_equalityI)
      (simp_all add: chunk_count_def chunk_at_def chunk_instruction_def build_def update_list_accounts_def)
  also have "\<dots> = concat (map (validator_accounts E pid pool) (concat (chunks_of MAX_VALIDATORS_TO_UPDATE ?xs)))"
    by (rule concat_map_concat)
  finally have accts: "concat (map (\<lambda>b. drop 7 (bi_accounts b)) ?ups)
      = concat (map (validator_accounts E pid pool) ?xs)"
    by (simp add: concat_chunks_of max_validators_pos)
  show ?thesis
    unfolding update_stake_pool_eq [OF assms]
    by (intro exI conjI, rule refl)
      (use accts in \<open>simp_all add: count final_instructions_def chunk_at_def chunk_instruction_def build_def data
        MAX_VALIDATORS_TO_UPDATE_def mult.commute del: ser_instruction.simps\<close>)
qed

text \<open>
  When the instructions of a full update, built from the pool and a copy of its list that has the
  validators and seeds of the stored one, all succeed in an epoch, in whatever order they land
  (the client sends them without waiting), then every record of the list
  is at that epoch, with its validator and seeds kept; the list keeps its invariant and the pool is
  untouched.
\<close>

lemma full_update_effect:
  assumes "update_stake_pool E S pid p l pool nm = Inr (ups, finals)"
    and "mset ups' = mset ups" and "run_all E ups' w = Inr w'" and "cpi_law E pid"
    and "load_list w (list_info p) = Inr (h, bv)" and "list_inv h bv"
    and "map stake_ids (vl_validators l) = map stake_ids (vlist bv)"
    and "\<And>w. e_clock_from_account_info E w (clock_info_of S) = Inr epoch"
  shows "\<exists>bv'. load_list w' (list_info p) = Inr (h, bv') \<and> list_inv h bv'
    \<and> map stake_ids (vlist bv') = map stake_ids (vlist bv)
    \<and> (\<forall>v \<in> set (vlist bv'). epoch \<le> vsi_last_update_epoch v)
    \<and> load_pool w' (pool_info pool) = load_pool w (pool_info pool)"
proof -
  let ?xs = "vl_validators l"
  have len: "length ?xs = bv_count bv" using arg_cong [OF assms(7), of length] by simp
  then have "length ?xs < 2 ^ 32" using bv_count_bound [of bv] by simp
  then have "mset ups' = mset (map (chunk_at E S pid p pool nm ?xs) [0..<chunk_count ?xs])"
    using assms(1,2) update_stake_pool_eq by simp
  then obtain "is" where "is": "ups' = map (chunk_at E S pid p pool nm ?xs) is" "set is = set [0..<chunk_count ?xs]"
    using mset_map_order by blast
  have run: "run_all E (map (chunk_at E S pid p pool nm ?xs) is) w = Inr w'"
    using assms(3) "is"(1) by simp
  obtain bv' where l': "load_list w' (list_info p) = Inr (h, bv')" "list_inv h bv'"
      "map stake_ids (vlist bv') = map stake_ids (vlist bv)"
      "load_pool w' (pool_info pool) = load_pool w (pool_info pool)"
    and e': "\<forall>k < length ?xs. k div MAX_VALIDATORS_TO_UPDATE < chunk_count ?xs
        \<longrightarrow> epoch \<le> vsi_last_update_epoch (vlist bv' ! k)"
    using run_chunks [OF run assms(4-6,8,7)] "is"(2) by auto
  have "epoch \<le> vsi_last_update_epoch (vlist bv' ! k)" if "k < length (vlist bv')" for k
    using e' that chunks_cover(1) [OF max_validators_pos, of k ?xs] arg_cong [OF l'(3), of length] len
    by (simp add: chunk_count_def)
  then show ?thesis using l' by (auto simp: in_set_conv_nth)
qed

text \<open>
  The update of stale records only, built from a copy of the list, leaves out chunks of four that
  are already at the epoch, and when its instructions all succeed every record is at that epoch
  nevertheless, with the same guarantees as the full update.
\<close>

lemma stale_update_effect:
  assumes "update_stale_stake_pool E S pid p l pool nm epoch = Inr (ups, finals)"
    and "mset ups' = mset ups" and "run_all E ups' w = Inr w'" and "cpi_law E pid"
    and "load_list w (list_info p) = Inr (h, bv)" and "list_inv h bv"
    and "vl_validators l = vlist bv"
    and "\<And>w. e_clock_from_account_info E w (clock_info_of S) = Inr epoch"
  shows "\<exists>bv'. load_list w' (list_info p) = Inr (h, bv') \<and> list_inv h bv'
    \<and> map stake_ids (vlist bv') = map stake_ids (vlist bv)
    \<and> (\<forall>v \<in> set (vlist bv'). epoch \<le> vsi_last_update_epoch v)
    \<and> load_pool w' (pool_info pool) = load_pool w (pool_info pool)"
proof -
  let ?n = MAX_VALIDATORS_TO_UPDATE and ?xs = "vl_validators l"
  let ?is = "filter (chunk_stale epoch ?xs) [0..<chunk_count ?xs]"
  have len: "length ?xs = bv_count bv" using assms(7) by simp
  then have "length ?xs < 2 ^ 32" using bv_count_bound [of bv] by simp
  then have "mset ups' = mset (map (chunk_at E S pid p pool nm ?xs) ?is)"
    using assms(1,2) update_stale_stake_pool_eq by simp
  then obtain js where js: "ups' = map (chunk_at E S pid p pool nm ?xs) js" "set js = set ?is"
    using mset_map_order by blast
  have run: "run_all E (map (chunk_at E S pid p pool nm ?xs) js) w = Inr w'"
    using assms(3) js(1) by simp
  obtain bv' where l': "load_list w' (list_info p) = Inr (h, bv')" "list_inv h bv'"
      "map stake_ids (vlist bv') = map stake_ids (vlist bv)"
      "load_pool w' (pool_info pool) = load_pool w (pool_info pool)"
    and e': "\<forall>k < length ?xs. k div ?n \<in> set ?is \<or> epoch \<le> vsi_last_update_epoch (vlist bv ! k)
        \<longrightarrow> epoch \<le> vsi_last_update_epoch (vlist bv' ! k)"
    using run_chunks [OF run assms(4-6,8) arg_cong [OF assms(7)]] js(2) by auto
  have "epoch \<le> vsi_last_update_epoch (vlist bv' ! k)" if "k < length (vlist bv')" for k
  proof -
    have k: "k < length ?xs" using that arg_cong [OF l'(3), of length] len by simp
    note c = chunks_cover [OF max_validators_pos k]
    have "k div ?n \<in> set ?is \<or> epoch \<le> vsi_last_update_epoch (?xs ! k)"
    proof (cases "chunk_stale epoch ?xs (k div ?n)")
      case False
      then show ?thesis using in_chunk [OF max_validators_pos k] by (auto simp: chunk_stale_def)
    qed (use c(1) in \<open>simp add: chunk_count_def\<close>)
    then show ?thesis using e' k unfolding assms(7) by auto
  qed
  then show ?thesis using l' by (auto simp: in_set_conv_nth)
qed

text \<open>
  C13. When all instructions that the builders of an update give, for the whole list or for the chunks
  with a stale record only, succeed in an epoch, in whatever order they land (the client sends them
  without waiting), then every record of the list is at that epoch, with its validator and seeds kept;
  the list keeps its invariant and the pool is untouched. The copy of the list that the builder is
  given is the stored one.
\<close>

theorem update_brings_list_current:
  assumes "(if stale_only then update_stale_stake_pool E S pid p l pool nm epoch
      else update_stake_pool E S pid p l pool nm) = Inr (ups, finals)"
    and "mset ups' = mset ups" and "run_all E ups' w = Inr w'" and "cpi_law E pid"
    and "load_list w (list_info p) = Inr (h, bv)" and "list_inv h bv"
    and "vl_validators l = vlist bv"
    and "\<And>w. e_clock_from_account_info E w (clock_info_of S) = Inr epoch"
  shows "\<exists>bv'. load_list w' (list_info p) = Inr (h, bv') \<and> list_inv h bv'
    \<and> map stake_ids (vlist bv') = map stake_ids (vlist bv)
    \<and> (\<forall>v \<in> set (vlist bv'). epoch \<le> vsi_last_update_epoch v)
    \<and> load_pool w' (pool_info pool) = load_pool w (pool_info pool)"
proof (cases stale_only)
  case True
  then show ?thesis using stale_update_effect [OF _ assms(2-8)] assms(1) by simp
next
  case False
  then show ?thesis
    using full_update_effect [OF _ assms(2-6) arg_cong [OF assms(7)] assms(8)] assms(1) by simp
qed

text \<open>
  From the client's call to the stored pool: on a valid pool whose account has the size of a pool,
  the instruction that names a new staker always succeeds when the manager or the staker in office
  signs it, and then the stored pool is the old one with the new staker; signed by anybody else it
  is refused for the missing signature.
\<close>

lemma set_staker_runs:
  assumes "owner_of w (info_of (account_meta k False)) = pid"
    and "load_pool w (info_of (account_meta k False)) = Inr p" and "sp_is_valid p"
    and "611 \<le> length (data_of w (info_of (account_meta k False)))"
  shows "if authority \<in> {sp_manager p, sp_staker p}
    then \<exists>w'. run_built E (set_staker E S pid k authority new_staker) w = Inr w'
      \<and> load_pool w' (info_of (account_meta k False)) = Inr (p\<lparr>sp_staker := new_staker\<rparr>)
    else run_built E (set_staker E S pid k authority new_staker) w = Inl (spe SignatureMissing)"
proof -
  let ?pool = "info_of (account_meta k False)" and ?p = "p\<lparr>sp_staker := new_staker\<rparr>"
  have run: "run_built E (set_staker E S pid k authority new_staker) w =
      (if authority \<in> {sp_manager p, sp_staker p} then store_pool w ?pool ?p else Inl (spe SignatureMissing))"
    using assms(1-3)
    by (auto simp: set_staker_def run_build process_instruction_def process_set_staker_def Let_def is_ok_def
        check_account_owner_def check_staker_def check_manager_def)
  have "length (ser_stake_pool ?p) \<le> length (data_of w ?pool)"
    using length_ser_stake_pool [of ?p] assms(4) by linarith
  then obtain w' where "store_pool w ?pool ?p = Inr w'" by (simp add: store_pool_def to_writer_def)
  moreover from this have "load_pool w' ?pool = Inr ?p" by (rule load_store_pool)
  ultimately show ?thesis by (auto simp: run)
qed

section \<open>A concrete update\<close>

definition sample_sdk :: sdk where
  "sample_sdk = \<lparr>sdk_rent_id = 70, sdk_clock_id = 71, sdk_stake_history_id = 72, sdk_stake_config_id = 73,
     sdk_authorize = (\<lambda>stake _ _ _. \<lparr>bi_program_id = 6, bi_accounts = [account_meta stake False], bi_data = []\<rparr>)\<rparr>"

definition sample_list :: ValidatorList where
  "sample_list = \<lparr>vl_header = sample_header, vl_validators = sample_validators\<rparr>"

lemma info_acct [simp]:
  "owner_of w (info_of (account_meta k s)) = owner_of w (acct k)"
  "owner_of w (info_of (account_meta_readonly k s)) = owner_of w (acct k)"
  "lamports_of w (info_of (account_meta k s)) = lamports_of w (acct k)"
  "data_of w (info_of (account_meta k s)) = data_of w (acct k)"
  "load_pool w (info_of (account_meta k s)) = load_pool w (acct k)"
  "load_pool w (info_of (account_meta_readonly k s)) = load_pool w (acct k)"
  "load_list w (info_of (account_meta k s)) = load_list w (acct k)"
  by (simp_all add: owner_of_def lamports_of_def data_of_def load_pool_def load_list_def
      acct_def info_of_def account_meta_def account_meta_readonly_def)

lemma sample_list_facts:
  "vl_validators sample_list = vlist sample_vec" "length (vl_validators sample_list) < 2 ^ 32"
  by (simp_all add: sample_list_def sample_vec_facts(2)) (simp add: sample_validators_def)

lemma sample_chunks:
  "chunks_of MAX_VALIDATORS_TO_UPDATE (vl_validators sample_list) = [sample_validators]"
  "chunk_count (vl_validators sample_list) = 1"
proof -
  show c: "chunks_of MAX_VALIDATORS_TO_UPDATE (vl_validators sample_list) = [sample_validators]"
    by (subst chunks_of.simps) (simp add: sample_list_def sample_validators_def MAX_VALIDATORS_TO_UPDATE_def)
  then show "chunk_count (vl_validators sample_list) = 1" by (simp add: chunk_count_def)
qed

lemma sample_chunk_runs:
  "\<exists>w'. run_built sample_env (chunk_at sample_env sample_sdk 99 sample_pool 1 False (vl_validators sample_list) 0)
     sample_world = Inr w'"
proof -
  have wf: "vlist_wf sample_vec" by (rule sample_vec_facts)
  have fit: "(0 :: nat) + 3 \<le> bv_count sample_vec" by (simp add: sample_count)
  have "elements VSI_LEN dec_vsi (VEC_SIZE_BYTES + 0 * VSI_LEN) 3 sample_vec = sample_validators"
    unfolding vsi.elements_slice [OF fit] sample_vec_facts(2) by (simp add: sample_validators_def)
  then obtain off where recs: "bv_deserialize_mut_slice VSI_LEN dec_vsi 0 3 sample_vec
      = Inr (off, sample_validators)"
    using vsi.slice_range_ok [OF wf _ fit]
    by (auto simp: bv_deserialize_mut_slice_def sample_vec_facts(3) usize_max_def VSI_LEN_def)
  have upd: "\<exists>r. update_record sample_env 99 sample_pool (pool_info 1) auth reserve clock hist 5
      False v (info_of (account_meta 50 False)) (info_of (account_meta 50 False)) sample_world = Inr (r, sample_world)"
    if "v \<in> set sample_validators" "ai_key auth = 50" for v auth reserve clock hist
    using that
    by (auto simp: update_record_def update_transient_def update_validator_def update_active_def
        check_validator_stake_address_def check_transient_stake_address_def ok_of_def sample_simps
        find_stake_program_address_def find_transient_stake_program_address_def stake_withdraw_def
        stake_is_usable_by_pool_def sample_validators_def default_vsi_def status_try_from_def
        status_from_u8_def Let_def saturating_sub_def update_delegated_transient_def stake_deactivate_def
        stake_is_inactive_without_history_def EPOCH_MAX_def)
  have loop: "\<exists>rs. update_loop (update_record sample_env 99 sample_pool (pool_info 1) auth reserve clock hist 5 False)
      (map (\<lambda>v. (v, info_of (account_meta 50 False), info_of (account_meta 50 False))) vs) sample_world
      = Inr (rs, sample_world)"
    if "set vs \<subseteq> set sample_validators" "ai_key auth = 50" for vs auth reserve clock hist
    using that
  proof (induction vs)
    case (Cons v vs)
    then show ?case using upd [of v auth reserve clock hist] by (auto simp del: info_acct)
  qed simp
  have accts: "validator_accounts sample_env 99 1 v = [account_meta 50 False, account_meta 50 False]" for v
    by (simp add: validator_accounts_def find_stake_program_address_def
        find_transient_stake_program_address_def sample_simps Let_def)
  have three: "sample_validators = [sample_validators ! 0, sample_validators ! 1, sample_validators ! 2]"
    by (simp add: sample_validators_def)
  then have len: "length sample_validators = 3" by (metis length_Cons list.size(3) numeral_3_eq_3)
  have stakes: "map info_of (concat (map (validator_accounts sample_env 99 1) sample_validators))
      = replicate 6 (info_of (account_meta 50 False))"
    unfolding accts using len by (subst three) (simp add: numeral_eq_Suc)
  have zip: "zip sample_validators (chunks2 (replicate 6 x)) = map (\<lambda>v. (v, x, x)) sample_validators" for x :: AccountInfo
    by (subst (1 2) three) (simp add: numeral_eq_Suc)
  define I :: AccountInfo where "I = info_of (account_meta 50 False)"
  define auth reserve clock hist where "auth = info_of (account_meta_readonly 50 False)"
    and "reserve = info_of (account_meta 15 False)" and "clock = info_of (account_meta_readonly 71 False)"
    and "hist = info_of (account_meta_readonly 72 False)"
  obtain rs where rs: "update_loop (update_record sample_env 99 sample_pool (pool_info 1) auth reserve clock hist 5 False)
      (zip sample_validators (chunks2 (replicate 6 I))) sample_world = Inr (rs, sample_world)"
    using loop [of sample_validators auth reserve clock hist] unfolding zip I_def
    by (auto simp: auth_def)
  have "run_built sample_env (chunk_at sample_env sample_sdk 99 sample_pool 1 False (vl_validators sample_list) 0)
        sample_world
      = process_update_validator_list_balance sample_env 99
          (pool_info 1 # auth # info_of (account_meta 14 False) # reserve # clock # hist
           # info_of (account_meta_readonly 6 False) # replicate 6 I) 0 False sample_world"
    unfolding chunk_at_def sample_chunks chunk_instruction_def
    by (simp add: run_build process_instruction_def update_list_accounts_def stakes sample_sdk_def
        find_withdraw_authority_program_address_def sample_simps auth_def reserve_def clock_def hist_def I_def)
  also have "\<exists>w'. \<dots> = Inr w'"
    using rs
    by (simp add: process_update_validator_list_balance_def sample_simps recs check_account_owner_def
        check_authority_withdraw_def check_program_derived_authority_def check_validator_list_def
        check_reserve_stake_def check_stake_program_def auth_def reserve_def
        cong: tri_weak_cong)
  finally show ?thesis .
qed

text \<open>The witnesses run the one instruction that updates the three sample validators.\<close>

theorem update_stake_pool_builds_witness:
  "\<exists>ups finals. update_stake_pool sample_env sample_sdk 99 sample_pool sample_list 1 False = Inr (ups, finals)
    \<and> length ups = 1
    \<and> try_from_slice de_instruction (bi_data (ups ! 0)) = Inr (UpdateValidatorListBalance 0 False)"
proof -
  have "length (vl_validators sample_list) = 3" by (simp add: sample_list_def sample_validators_def)
  then show ?thesis
    using update_stake_pool_builds [OF sample_list_facts(2), of sample_env sample_sdk 99 sample_pool 1 False]
    by auto
qed

lemma sample_update_eq:
  "update_stake_pool sample_env sample_sdk 99 sample_pool sample_list 1 False =
     Inr ([chunk_at sample_env sample_sdk 99 sample_pool 1 False (vl_validators sample_list) 0],
          final_instructions sample_env sample_sdk 99 sample_pool 1 50)"
  "update_stale_stake_pool sample_env sample_sdk 99 sample_pool sample_list 1 False 5 =
     Inr ([chunk_at sample_env sample_sdk 99 sample_pool 1 False (vl_validators sample_list) 0],
          final_instructions sample_env sample_sdk 99 sample_pool 1 50)"
  unfolding update_stake_pool_eq [OF sample_list_facts(2)] update_stale_stake_pool_eq [OF sample_list_facts(2)]
    sample_chunks chunk_stale_def
  by (simp_all add: find_withdraw_authority_program_address_def sample_simps)
    (simp add: sample_validators_def default_vsi_def)

lemma sample_all_runs:
  "\<exists>w'. run_all sample_env [chunk_at sample_env sample_sdk 99 sample_pool 1 False (vl_validators sample_list) 0]
     sample_world = Inr w'"
  using sample_chunk_runs by auto

lemma sample_list_loaded: "load_list sample_world (list_info sample_pool) = Inr (sample_header, sample_vec)"
  by (simp add: sample_simps)

theorem update_brings_list_current_witness:
  "\<exists>ups finals w' bv'.
    update_stale_stake_pool sample_env sample_sdk 99 sample_pool sample_list 1 False 5 = Inr (ups, finals)
    \<and> run_all sample_env ups sample_world = Inr w'
    \<and> load_list w' (list_info sample_pool) = Inr (sample_header, bv')
    \<and> (\<forall>v \<in> set (vlist bv'). 5 \<le> vsi_last_update_epoch v)"
proof -
  obtain w' where w': "run_all sample_env
      [chunk_at sample_env sample_sdk 99 sample_pool 1 False (vl_validators sample_list) 0] sample_world = Inr w'"
    using sample_all_runs by blast
  have clock: "e_clock_from_account_info sample_env w (clock_info_of sample_sdk) = Inr 5" for w
    by (simp add: sample_simps)
  have built: "(if True then update_stale_stake_pool sample_env sample_sdk 99 sample_pool sample_list 1 False 5
      else update_stake_pool sample_env sample_sdk 99 sample_pool sample_list 1 False)
    = Inr ([chunk_at sample_env sample_sdk 99 sample_pool 1 False (vl_validators sample_list) 0],
          final_instructions sample_env sample_sdk 99 sample_pool 1 50)"
    by (simp add: sample_update_eq)
  from update_brings_list_current [OF built refl w' sample_law sample_list_loaded sample_list_inv
      sample_list_facts(1) clock]
  show ?thesis using w' sample_update_eq(2) by blast
qed

definition roomy_world :: world where
  "roomy_world = sample_world(1 := \<lparr>acc_lamports = 5000000,
     acc_data = ser_stake_pool sample_pool @ replicate 611 0, acc_owner = 99\<rparr>)"

end
