(* ===== verification/Client.thy ===== *)
theory Client
  imports Builders
begin

text \<open>
  The command line client (\<^verbatim>\<open>clients/cli/src/main.rs\<close>, \<^verbatim>\<open>client.rs\<close>), first part: reading and sending,
  the update of an epoch, and the commands of the staker and the manager. The RPC node and the other
  crates are fields of the record \<open>config\<close>; a command reads the
  chain's accounts (\<open>world\<close>) through the node and returns the accounts after what it sent. Integers wrap,
  as in a release build; a division by zero or an \<open>unwrap\<close> of nothing is \<open>ClientPanic\<close>. Printing is left out.
\<close>

datatype client_error =
    RpcError | InvalidAccount | ClientPanic | InsufficientFeePayer | EpochFeeZero | FeesZero
  | VoteAccountNotFound | DifferentMint | NoStakeAccounts | NotEnoughLamports | NotEnoughTokens
  | NoUnitsConsumed | ConversionError | WrongMintAuthority | NotAMint | WrongStakeState
  | WrongAuthority | NoAuthorityInPool | VoteAccountMismatch | InvalidAmount | ArgumentExit

datatype ComputeUnitLimit = CulDefault | CulStatic u32 | CulSimulated

record transaction =
  tx_signers :: "Pubkey set"
  tx_instructions :: "BuiltInstruction list"

record TokenBalance =
  tb_mint :: Pubkey
  tb_amount :: u64

text \<open>The instructions that the client gets from builders of other crates, with their arguments.\<close>

datatype foreign_instruction =
    SystemCreateAccount Pubkey Pubkey u64 u64 Pubkey
  | SystemTransfer Pubkey Pubkey u64
  | StakeInitialize Pubkey Pubkey Pubkey Lockup
  | StakeMerge Pubkey Pubkey Pubkey
  | TokenInitializeMint Pubkey Pubkey Pubkey "Pubkey option" u8
  | TokenApprove Pubkey Pubkey Pubkey Pubkey u64
  | CreateAssociatedTokenAccount Pubkey Pubkey Pubkey Pubkey

type_synonym ui_amount = string

text \<open>
  The configuration. The fields from \<open>c_get_account_with_commitment\<close> on are calls of the RPC client
  and of other crates: reads of the chain, decoding of foreign accounts, conversion of amounts,
  derivation of token accounts, foreign instructions (\<open>c_checked_instruction\<close> those that may fail), signing
  (\<open>Transaction::new\<close>), simulation and sending.
\<close>

record config =
  c_program_id :: Pubkey
  c_no_update :: bool
  c_dry_run :: bool
  c_manager :: Pubkey
  c_staker :: Pubkey
  c_funding_authority :: "Pubkey option"
  c_token_owner :: Pubkey
  c_fee_payer :: Pubkey
  c_compute_unit_price :: "u64 option"
  c_compute_unit_limit :: ComputeUnitLimit
  c_get_account_with_commitment :: "world \<Rightarrow> Pubkey \<Rightarrow> client_error + account option"
  c_get_balance :: "world \<Rightarrow> Pubkey \<Rightarrow> client_error + u64"
  c_get_token_account_balance :: "world \<Rightarrow> Pubkey \<Rightarrow> client_error + u64 option"
  c_get_epoch :: "world \<Rightarrow> client_error + u64"
  c_get_rent_exemption :: "nat \<Rightarrow> client_error + u64"
  c_get_stake_minimum_delegation :: "client_error + u64"
  c_get_latest_blockhash :: "world \<Rightarrow> client_error + unit"
  c_get_fee_for_message :: "world \<Rightarrow> BuiltInstruction list \<Rightarrow> client_error + u64"
  c_get_program_accounts ::
    "world \<Rightarrow> Pubkey \<Rightarrow> nat \<Rightarrow> byte list \<Rightarrow> client_error + (Pubkey \<times> account) list"
  c_unpack_mint_decimals :: "byte list \<Rightarrow> client_error + u8"
  c_unpack_account :: "byte list \<Rightarrow> client_error + TokenBalance"
  c_deserialize_stake :: "byte list \<Rightarrow> client_error + StakeStateV2"
  c_ui_amount_to_amount :: "ui_amount \<Rightarrow> u8 \<Rightarrow> u64"
  c_sol_str_to_lamports :: "ui_amount \<Rightarrow> u64 option"
  c_spl_token_id :: Pubkey
  c_mint_len :: nat
  c_account_len :: nat
  c_native_decimals :: u8
  c_associated_token_address :: "Pubkey \<Rightarrow> Pubkey \<Rightarrow> Pubkey \<Rightarrow> Pubkey"
  c_instructions :: "foreign_instruction \<Rightarrow> BuiltInstruction list"
  c_checked_instruction :: "foreign_instruction \<Rightarrow> client_error + BuiltInstruction"
  c_set_compute_unit_price :: "u64 \<Rightarrow> BuiltInstruction"
  c_set_compute_unit_limit :: "u32 \<Rightarrow> BuiltInstruction"
  c_sign :: "Pubkey set \<Rightarrow> BuiltInstruction list \<Rightarrow> client_error + transaction"
  c_simulate_unsigned :: "world \<Rightarrow> BuiltInstruction list \<Rightarrow> client_error + u64 option"
  c_simulate :: "world \<Rightarrow> transaction \<Rightarrow> client_error + unit"
  c_send_and_confirm :: "transaction \<Rightarrow> world \<Rightarrow> client_error + world"
  c_send :: "transaction \<Rightarrow> world \<Rightarrow> client_error + world"

definition STAKE_STATE_LEN :: nat where
  "STAKE_STATE_LEN = 200"

definition unwrap :: "'a option \<Rightarrow> client_error + 'a" where
  "unwrap x = ok_or x ClientPanic"

definition unwrap_result :: "'a result \<Rightarrow> client_error + 'a" where
  "unwrap_result r = (case r of Inl _ \<Rightarrow> Inl ClientPanic | Inr x \<Rightarrow> Inr x)"

section \<open>Reading accounts\<close>

definition get_account :: "config \<Rightarrow> world \<Rightarrow> Pubkey \<Rightarrow> client_error + account" where
  "get_account C w k = tri (c_get_account_with_commitment C w k) (\<lambda>a. ok_or a RpcError)"

definition get_stake_pool :: "config \<Rightarrow> world \<Rightarrow> Pubkey \<Rightarrow> client_error + StakePool" where
  "get_stake_pool C w stake_pool_address =
     tri (get_account C w stake_pool_address) (\<lambda>account.
     case try_from_slice_unchecked de_stake_pool (acc_data account) of
       Inl _ \<Rightarrow> Inl InvalidAccount | Inr stake_pool \<Rightarrow> Inr stake_pool)"

definition get_validator_list :: "config \<Rightarrow> world \<Rightarrow> Pubkey \<Rightarrow> client_error + ValidatorList" where
  "get_validator_list C w validator_list_address =
     tri (get_account C w validator_list_address) (\<lambda>account.
     case try_from_slice_unchecked de_validator_list (acc_data account) of
       Inl _ \<Rightarrow> Inl InvalidAccount | Inr validator_list \<Rightarrow> Inr validator_list)"

definition get_token_account :: "config \<Rightarrow> world \<Rightarrow> Pubkey \<Rightarrow> Pubkey \<Rightarrow> client_error + TokenBalance" where
  "get_token_account C w token_account_address expected_token_mint =
     tri (get_account C w token_account_address) (\<lambda>account.
     tri (c_unpack_account C (acc_data account)) (\<lambda>token_account.
     if tb_mint token_account \<noteq> expected_token_mint then Inl DifferentMint
     else Inr token_account))"

definition get_token_mint :: "config \<Rightarrow> world \<Rightarrow> Pubkey \<Rightarrow> client_error + u8" where
  "get_token_mint C w token_mint_address =
     tri (get_account C w token_mint_address) (\<lambda>account. c_unpack_mint_decimals C (acc_data account))"

definition get_client_stake_state :: "config \<Rightarrow> world \<Rightarrow> Pubkey \<Rightarrow> client_error + StakeStateV2" where
  "get_client_stake_state C w stake_address =
     tri (get_account C w stake_address) (\<lambda>account. c_deserialize_stake C (acc_data account))"

text \<open>
  The accounts of the stake program whose authorized staker, at offset 12, is the given one. The set that
  the source collects is iterated in the order in which the node gave the accounts, which is any order.
\<close>

definition get_all_stake :: "env \<Rightarrow> config \<Rightarrow> world \<Rightarrow> Pubkey \<Rightarrow> client_error + Pubkey list" where
  "get_all_stake E C w authorized_staker =
     tri (c_get_program_accounts C w (e_stake_program_id E) 12 (ser_pubkey authorized_staker))
       (\<lambda>all_stake_accounts. Inr (remdups (map fst all_stake_accounts)))"

section \<open>Sending transactions\<close>

definition check_fee_payer_balance :: "config \<Rightarrow> world \<Rightarrow> u64 \<Rightarrow> client_error + unit" where
  "check_fee_payer_balance C w required_balance =
     tri (c_get_balance C w (c_fee_payer C)) (\<lambda>balance.
     if balance < required_balance then Inl InsufficientFeePayer else Inr ())"

definition add_compute_unit_limit_from_simulation ::
    "config \<Rightarrow> world \<Rightarrow> BuiltInstruction list \<Rightarrow> client_error + BuiltInstruction list" where
  "add_compute_unit_limit_from_simulation C w instructions =
     (let limit_instruction = c_set_compute_unit_limit C 1400000 in
      tri (c_simulate_unsigned C w (instructions @ [limit_instruction])) (\<lambda>units_consumed.
      tri (ok_or units_consumed NoUnitsConsumed) (\<lambda>units_consumed.
      if unat units_consumed \<ge> 2 ^ 32 then Inl ConversionError else
      Inr (instructions @
             [limit_instruction\<lparr>bi_data :=
                bi_data (c_set_compute_unit_limit C (ucast units_consumed))\<rparr>]))))"

definition checked_transaction_with_signers_and_additional_fee ::
    "config \<Rightarrow> world \<Rightarrow> BuiltInstruction list \<Rightarrow> Pubkey set \<Rightarrow> u64 \<Rightarrow> client_error + transaction" where
  "checked_transaction_with_signers_and_additional_fee C w instructions signers additional_fee =
     tri (c_get_latest_blockhash C w) (\<lambda>_.
     let instructions = instructions @ (case c_compute_unit_price C of
           Some compute_unit_price \<Rightarrow> [c_set_compute_unit_price C compute_unit_price] | None \<Rightarrow> []) in
     tri (case c_compute_unit_limit C of
            CulDefault \<Rightarrow> Inr instructions
          | CulStatic compute_unit_limit \<Rightarrow>
              Inr (instructions @ [c_set_compute_unit_limit C compute_unit_limit])
          | CulSimulated \<Rightarrow> add_compute_unit_limit_from_simulation C w instructions) (\<lambda>instructions.
     tri (c_get_fee_for_message C w instructions) (\<lambda>fee.
     tri (check_fee_payer_balance C w (saturating_add additional_fee fee)) (\<lambda>_.
     c_sign C signers instructions))))"

definition checked_transaction_with_signers ::
    "config \<Rightarrow> world \<Rightarrow> BuiltInstruction list \<Rightarrow> Pubkey set \<Rightarrow> client_error + transaction" where
  "checked_transaction_with_signers C w instructions signers =
     checked_transaction_with_signers_and_additional_fee C w instructions signers 0"

definition send_transaction_no_wait :: "config \<Rightarrow> transaction \<Rightarrow> world \<Rightarrow> client_error + world" where
  "send_transaction_no_wait C transaction w =
     (if c_dry_run C then tri (c_simulate C w transaction) (\<lambda>_. Inr w) else c_send C transaction w)"

definition send_transaction :: "config \<Rightarrow> transaction \<Rightarrow> world \<Rightarrow> client_error + world" where
  "send_transaction C transaction w =
     (if c_dry_run C then tri (c_simulate C w transaction) (\<lambda>_. Inr w)
      else c_send_and_confirm C transaction w)"

text \<open>The end of every command: build, check, sign and send, and wait for the confirmation.\<close>

definition send_checked_with_fee ::
    "config \<Rightarrow> BuiltInstruction list \<Rightarrow> Pubkey set \<Rightarrow> u64 \<Rightarrow> world \<Rightarrow> client_error + world" where
  "send_checked_with_fee C instructions signers additional_fee w =
     tri (checked_transaction_with_signers_and_additional_fee C w instructions signers additional_fee)
       (\<lambda>transaction. send_transaction C transaction w)"

definition send_checked :: "config \<Rightarrow> BuiltInstruction list \<Rightarrow> Pubkey set \<Rightarrow> world \<Rightarrow> client_error + world" where
  "send_checked C instructions signers w =
     tri (checked_transaction_with_signers C w instructions signers) (\<lambda>transaction.
     send_transaction C transaction w)"

section \<open>The update of an epoch\<close>

fun send_no_wait_all :: "config \<Rightarrow> BuiltInstruction list \<Rightarrow> world \<Rightarrow> client_error + world" where
  "send_no_wait_all C [] w = Inr w"
| "send_no_wait_all C (instruction # rest) w =
     tri (checked_transaction_with_signers C w [instruction] {c_fee_payer C}) (\<lambda>transaction.
     tri (send_transaction_no_wait C transaction w) (\<lambda>w.
     send_no_wait_all C rest w))"

definition command_update ::
    "env \<Rightarrow> sdk \<Rightarrow> config \<Rightarrow> Pubkey \<Rightarrow> bool \<Rightarrow> bool \<Rightarrow> bool \<Rightarrow> world \<Rightarrow> client_error + world" where
  "command_update E S C stake_pool_address force no_merge stale_only w =
     (if c_no_update C then Inr w else
      tri (get_stake_pool C w stake_pool_address) (\<lambda>stake_pool.
      tri (c_get_epoch C w) (\<lambda>epoch.
      if sp_last_update_epoch stake_pool = epoch \<and> \<not> force then Inr w else
      tri (get_validator_list C w (sp_validator_list stake_pool)) (\<lambda>validator_list.
      tri (unwrap_result
             (if stale_only
              then update_stale_stake_pool E S (c_program_id C) stake_pool validator_list
                     stake_pool_address no_merge epoch
              else update_stake_pool E S (c_program_id C) stake_pool validator_list
                     stake_pool_address no_merge)) (\<lambda>(update_list_instructions, final_instructions).
      tri (if update_list_instructions \<noteq> [] then
             tri (send_no_wait_all C (butlast update_list_instructions) w) (\<lambda>w.
             send_checked C [last update_list_instructions] {c_fee_payer C} w)
           else Inr w) (\<lambda>w.
      send_checked C final_instructions {c_fee_payer C} w))))))"

definition update_first :: "env \<Rightarrow> sdk \<Rightarrow> config \<Rightarrow> Pubkey \<Rightarrow> world \<Rightarrow> client_error + world" where
  "update_first E S C stake_pool_address w =
     (if \<not> c_no_update C then command_update E S C stake_pool_address False False False w else Inr w)"

section \<open>Validators\<close>

text \<open>
  The search of \<open>command_vsa_add\<close> for a free stake account; the value \<open>None\<close> stands for a search that
  never ends.
\<close>

partial_function (option) find_free_account ::
    "env \<Rightarrow> config \<Rightarrow> StakePool \<Rightarrow> Pubkey \<Rightarrow> Pubkey \<Rightarrow> world \<Rightarrow> u32
      \<Rightarrow> (client_error + Pubkey \<times> u32 option) option" where
  "find_free_account E C stake_pool stake_pool_address vote_account w i =
     (let seed = NonZeroU32_new i;
          address = fst (find_stake_program_address E (c_program_id C) vote_account
                           stake_pool_address seed)
      in case c_get_account_with_commitment C w (sp_reserve_stake stake_pool) of
           Inl e \<Rightarrow> Some (Inl e)
         | Inr maybe_account \<Rightarrow>
             if maybe_account \<noteq> None then Some (Inr (address, seed))
             else find_free_account E C stake_pool stake_pool_address vote_account w (i + 1))"

definition command_vsa_add ::
    "env \<Rightarrow> sdk \<Rightarrow> config \<Rightarrow> Pubkey \<Rightarrow> Pubkey \<Rightarrow> world \<Rightarrow> (client_error + world) option" where
  "command_vsa_add E S C stake_pool_address vote_account w =
     (case tri (get_stake_pool C w stake_pool_address) (\<lambda>stake_pool.
           tri (get_validator_list C w (sp_validator_list stake_pool)) (\<lambda>validator_list.
           if vl_contains validator_list vote_account then Inr (stake_pool, True, w)
           else tri (update_first E S C stake_pool_address w) (\<lambda>w. Inr (stake_pool, False, w)))) of
        Inl e \<Rightarrow> Some (Inl e)
      | Inr (stake_pool, already, w) \<Rightarrow>
          if already then Some (Inr w) else
          map_option (\<lambda>found.
            tri found (\<lambda>(stake_account_address, validator_seed).
            send_checked C
              [add_validator_to_pool_with_vote E S (c_program_id C) stake_pool
                 stake_pool_address vote_account validator_seed]
              {c_fee_payer C, c_staker C} w))
            (find_free_account E C stake_pool stake_pool_address vote_account w 0))"

definition command_vsa_remove ::
    "env \<Rightarrow> sdk \<Rightarrow> config \<Rightarrow> Pubkey \<Rightarrow> Pubkey \<Rightarrow> world \<Rightarrow> client_error + world" where
  "command_vsa_remove E S C stake_pool_address vote_account w =
     tri (update_first E S C stake_pool_address w) (\<lambda>w.
     tri (get_stake_pool C w stake_pool_address) (\<lambda>stake_pool.
     tri (get_validator_list C w (sp_validator_list stake_pool)) (\<lambda>validator_list.
     tri (ok_or (vl_find validator_list vote_account) VoteAccountNotFound) (\<lambda>validator_stake_info.
     send_checked C
       [remove_validator_from_pool_with_vote E S (c_program_id C) stake_pool stake_pool_address
          vote_account (NonZeroU32_new (vsi_validator_seed_suffix validator_stake_info))
          (vsi_transient_seed_suffix validator_stake_info)]
       {c_fee_payer C, c_staker C} w))))"

definition command_increase_validator_stake ::
    "env \<Rightarrow> sdk \<Rightarrow> config \<Rightarrow> Pubkey \<Rightarrow> Pubkey \<Rightarrow> u64 \<Rightarrow> world \<Rightarrow> client_error + world" where
  "command_increase_validator_stake E S C stake_pool_address vote_account lamports w =
     tri (update_first E S C stake_pool_address w) (\<lambda>w.
     tri (get_stake_pool C w stake_pool_address) (\<lambda>stake_pool.
     tri (get_validator_list C w (sp_validator_list stake_pool)) (\<lambda>validator_list.
     tri (ok_or (vl_find validator_list vote_account) VoteAccountNotFound) (\<lambda>validator_stake_info.
     send_checked C
       [increase_validator_stake_with_vote E S (c_program_id C) stake_pool stake_pool_address
          vote_account lamports (NonZeroU32_new (vsi_validator_seed_suffix validator_stake_info))
          (vsi_transient_seed_suffix validator_stake_info)]
       {c_fee_payer C, c_staker C} w))))"

definition command_decrease_validator_stake ::
    "env \<Rightarrow> sdk \<Rightarrow> config \<Rightarrow> Pubkey \<Rightarrow> Pubkey \<Rightarrow> u64 \<Rightarrow> world \<Rightarrow> client_error + world" where
  "command_decrease_validator_stake E S C stake_pool_address vote_account lamports w =
     tri (update_first E S C stake_pool_address w) (\<lambda>w.
     tri (get_stake_pool C w stake_pool_address) (\<lambda>stake_pool.
     tri (get_validator_list C w (sp_validator_list stake_pool)) (\<lambda>validator_list.
     tri (ok_or (vl_find validator_list vote_account) VoteAccountNotFound) (\<lambda>validator_stake_info.
     send_checked C
       [decrease_validator_stake_with_vote E S (c_program_id C) stake_pool stake_pool_address
          vote_account lamports (NonZeroU32_new (vsi_validator_seed_suffix validator_stake_info))
          (vsi_transient_seed_suffix validator_stake_info)]
       {c_fee_payer C, c_staker C} w))))"

definition command_set_preferred_validator ::
    "env \<Rightarrow> sdk \<Rightarrow> config \<Rightarrow> Pubkey \<Rightarrow> PreferredValidatorType \<Rightarrow> Pubkey option \<Rightarrow> world
      \<Rightarrow> client_error + world" where
  "command_set_preferred_validator E S C stake_pool_address preferred_type vote_address w =
     tri (get_stake_pool C w stake_pool_address) (\<lambda>stake_pool.
     send_checked C
       [set_preferred_validator E S (c_program_id C) stake_pool_address (c_staker C)
          (sp_validator_list stake_pool) preferred_type vote_address]
       {c_fee_payer C, c_staker C} w)"

section \<open>Administration\<close>

definition command_set_manager ::
    "env \<Rightarrow> sdk \<Rightarrow> config \<Rightarrow> Pubkey \<Rightarrow> Pubkey option \<Rightarrow> Pubkey option \<Rightarrow> world \<Rightarrow> client_error + world" where
  "command_set_manager E S C stake_pool_address new_manager new_fee_receiver w =
     tri (update_first E S C stake_pool_address w) (\<lambda>w.
     tri (get_stake_pool C w stake_pool_address) (\<lambda>stake_pool.
     let (new_manager_pubkey, signers) =
           (case new_manager of None \<Rightarrow> (sp_manager stake_pool, {}) | Some value \<Rightarrow> (value, {value})) in
     tri (case new_fee_receiver of
            None \<Rightarrow> Inr (sp_manager_fee_account stake_pool)
          | Some value \<Rightarrow>
              tri (get_token_account C w value (sp_pool_mint stake_pool)) (\<lambda>token_account.
              if tb_mint token_account \<noteq> sp_pool_mint stake_pool then Inl DifferentMint else Inr value))
       (\<lambda>new_fee_receiver.
     send_checked C
       [set_manager E S (c_program_id C) stake_pool_address (c_manager C) new_manager_pubkey
          new_fee_receiver]
       (signers \<union> {c_fee_payer C, c_manager C}) w)))"

definition command_set_staker ::
    "env \<Rightarrow> sdk \<Rightarrow> config \<Rightarrow> Pubkey \<Rightarrow> Pubkey \<Rightarrow> world \<Rightarrow> client_error + world" where
  "command_set_staker E S C stake_pool_address new_staker w =
     tri (update_first E S C stake_pool_address w) (\<lambda>w.
     send_checked C
       [set_staker E S (c_program_id C) stake_pool_address (c_manager C) new_staker]
       {c_fee_payer C, c_manager C} w)"

definition command_set_funding_authority ::
    "env \<Rightarrow> sdk \<Rightarrow> config \<Rightarrow> Pubkey \<Rightarrow> Pubkey option \<Rightarrow> FundingType \<Rightarrow> world \<Rightarrow> client_error + world" where
  "command_set_funding_authority E S C stake_pool_address new_authority funding_type w =
     tri (update_first E S C stake_pool_address w) (\<lambda>w.
     send_checked C
       [set_funding_authority E S (c_program_id C) stake_pool_address (c_manager C)
          new_authority funding_type]
       {c_fee_payer C, c_manager C} w)"

definition command_set_fee ::
    "env \<Rightarrow> sdk \<Rightarrow> config \<Rightarrow> Pubkey \<Rightarrow> FeeType \<Rightarrow> world \<Rightarrow> client_error + world" where
  "command_set_fee E S C stake_pool_address new_fee w =
     tri (update_first E S C stake_pool_address w) (\<lambda>w.
     send_checked C
       [set_fee E S (c_program_id C) stake_pool_address (c_manager C) new_fee]
       {c_fee_payer C, c_manager C} w)"

definition create_token_metadata_command ::
    "env \<Rightarrow> sdk \<Rightarrow> config \<Rightarrow> Pubkey \<Rightarrow> rust_string \<Rightarrow> rust_string \<Rightarrow> rust_string \<Rightarrow> world
      \<Rightarrow> client_error + world" where
  "create_token_metadata_command E S C stake_pool_address name symbol uri w =
     tri (get_stake_pool C w stake_pool_address) (\<lambda>stake_pool.
     send_checked C
       [create_token_metadata E S (c_program_id C) stake_pool_address (sp_manager stake_pool)
          (sp_pool_mint stake_pool) (c_fee_payer C) name symbol uri]
       {c_fee_payer C, c_manager C} w)"

definition update_token_metadata_command ::
    "env \<Rightarrow> sdk \<Rightarrow> config \<Rightarrow> Pubkey \<Rightarrow> rust_string \<Rightarrow> rust_string \<Rightarrow> rust_string \<Rightarrow> world
      \<Rightarrow> client_error + world" where
  "update_token_metadata_command E S C stake_pool_address name symbol uri w =
     tri (get_stake_pool C w stake_pool_address) (\<lambda>stake_pool.
     send_checked C
       [update_token_metadata E S (c_program_id C) stake_pool_address (sp_manager stake_pool)
          (sp_pool_mint stake_pool) name symbol uri]
       {c_fee_payer C, c_manager C} w)"

definition check_stake_pool_fees :: "Fee \<Rightarrow> Fee \<Rightarrow> Fee \<Rightarrow> client_error + unit" where
  "check_stake_pool_fees epoch_fee withdrawal_fee deposit_fee =
     (if fee_numerator epoch_fee = 0 \<or> fee_denominator epoch_fee = 0 then Inl EpochFeeZero else
      let is_withdrawal_fee_zero = fee_numerator withdrawal_fee = 0 \<or> fee_denominator withdrawal_fee = 0;
          is_deposit_fee_zero = fee_numerator deposit_fee = 0 \<or> fee_denominator deposit_fee = 0 in
      if is_withdrawal_fee_zero \<and> is_deposit_fee_zero then Inl FeesZero else Inr ())"


section \<open>Dry runs\<close>

lemma dry_send:
  "c_dry_run C \<Longrightarrow> send_checked_with_fee C ixs signers fee w = Inr w' \<Longrightarrow> w' = w"
  "c_dry_run C \<Longrightarrow> send_checked C ixs signers w = Inr w' \<Longrightarrow> w' = w"
  by (auto simp: send_checked_with_fee_def send_checked_def send_transaction_def inversions)

lemma dry_send_no_wait_all: "c_dry_run C \<Longrightarrow> send_no_wait_all C ixs w = Inr w' \<Longrightarrow> w' = w"
  by (induction ixs arbitrary: w) (auto simp: send_transaction_no_wait_def inversions)

lemma dry_update:
  assumes dry: "c_dry_run C" and "command_update E S C k force nm stale w = Inr w'"
  shows "w' = w"
  using assms(2)
  by (auto simp: command_update_def inversions split: if_splits
      dest!: dry_send [OF dry] dry_send_no_wait_all [OF dry])

lemma dry_update_first: "c_dry_run C \<Longrightarrow> update_first E S C k w = Inr w' \<Longrightarrow> w' = w"
  by (auto simp: update_first_def dest: dry_update split: if_splits)

lemma dry_vsa_add:
  assumes dry: "c_dry_run C" and "command_vsa_add E S C k v w = Some (Inr w')"
  shows "w' = w"
  using assms(2)
  by (auto simp: command_vsa_add_def inversions split: sum.splits if_splits
      dest!: dry_send [OF dry] dry_update_first [OF dry])

lemma dry_commands:
  assumes dry: "c_dry_run C"
  shows "command_vsa_remove E S C k v w = Inr w' \<Longrightarrow> w' = w"
    "command_increase_validator_stake E S C k v l w = Inr w' \<Longrightarrow> w' = w"
    "command_decrease_validator_stake E S C k v l w = Inr w' \<Longrightarrow> w' = w"
    "command_set_preferred_validator E S C k t v' w = Inr w' \<Longrightarrow> w' = w"
    "command_set_manager E S C k m r w = Inr w' \<Longrightarrow> w' = w"
    "command_set_staker E S C k v w = Inr w' \<Longrightarrow> w' = w"
    "command_set_funding_authority E S C k v' ft w = Inr w' \<Longrightarrow> w' = w"
    "command_set_fee E S C k fee w = Inr w' \<Longrightarrow> w' = w"
    "create_token_metadata_command E S C k n s u w = Inr w' \<Longrightarrow> w' = w"
    "update_token_metadata_command E S C k n s u w = Inr w' \<Longrightarrow> w' = w"
  by (auto simp: command_vsa_remove_def command_increase_validator_stake_def
      command_decrease_validator_stake_def command_set_preferred_validator_def command_set_manager_def
      command_set_staker_def command_set_funding_authority_def command_set_fee_def
      create_token_metadata_command_def update_token_metadata_command_def inversions Let_def
      split: option.splits dest!: dry_send [OF dry] dry_update_first [OF dry])

section \<open>The search for a free account\<close>

lemma find_free_account_ends:
  assumes "find_free_account E C p k vote w i = Some y"
  shows "c_get_account_with_commitment C w (sp_reserve_stake p) \<noteq> Inr None"
  by (rule find_free_account.raw_induct [where P = "\<lambda>E C p k vote w i y.
      c_get_account_with_commitment C w (sp_reserve_stake p) \<noteq> Inr None", OF _ assms])
    (auto simp: Let_def split: sum.splits if_splits)

text \<open>
  The search for a free stake account never looks at the candidate address: it takes the first
  seed when the reserve exists, whether or not that stake account is in use already, and never ends
  when the reserve does not exist.
\<close>

lemma find_free_account_takes_first:
  "find_free_account E C p k vote w i =
     (case c_get_account_with_commitment C w (sp_reserve_stake p) of
        Inl e \<Rightarrow> Some (Inl e)
      | Inr None \<Rightarrow> None
      | Inr (Some a) \<Rightarrow>
          Some (Inr (fst (find_stake_program_address E (c_program_id C) vote k (NonZeroU32_new i)),
                     NonZeroU32_new i)))"
proof (cases "c_get_account_with_commitment C w (sp_reserve_stake p) = Inr None")
  case True
  then have "find_free_account E C p k vote w i \<noteq> Some y" for y
    using find_free_account_ends by auto
  then show ?thesis using True by (cases "find_free_account E C p k vote w i") auto
next
  case False
  then show ?thesis
    by (subst find_free_account.simps) (auto simp: Let_def split: sum.split option.split)
qed

end
