(* ===== verification/Client_Funds.thy ===== *)
theory Client_Funds
  imports Client
begin

text \<open>
  The command line client, second part (\<^verbatim>\<open>clients/cli/src/main.rs\<close>): the creation of a pool, deposits and
  withdrawals. Each command is split into the transaction it prepares and the sending of it. The
  argument \<open>fresh\<close> supplies the keys of \<open>Keypair::new()\<close>, one index for each call in the source.
\<close>

text \<open>A transaction that is ready: instructions, signers, and lamports that the fee payer needs besides the fee.\<close>

type_synonym prepared = "BuiltInstruction list \<times> Pubkey set \<times> u64"

definition send_prepared :: "config \<Rightarrow> prepared \<Rightarrow> world \<Rightarrow> client_error + world" where
  "send_prepared C t w = (case t of (instructions, signers, additional_fee) \<Rightarrow>
     send_checked_with_fee C instructions signers additional_fee w)"

section \<open>Creating a pool\<close>

definition setup_reserve_stake_account ::
    "env \<Rightarrow> config \<Rightarrow> Pubkey \<Rightarrow> u64 \<Rightarrow> Pubkey \<Rightarrow> world \<Rightarrow> client_error + world" where
  "setup_reserve_stake_account E C reserve_keypair reserve_stake_balance withdraw_authority w =
     (let initialize_instruction = c_instructions C (StakeInitialize reserve_keypair
            withdraw_authority withdraw_authority default_lockup);
          create = send_checked C
            (c_instructions C (SystemCreateAccount (c_fee_payer C) reserve_keypair
               reserve_stake_balance (of_nat STAKE_STATE_LEN) (e_stake_program_id E))
             @ initialize_instruction) {c_fee_payer C, reserve_keypair} w
      in case get_account C w reserve_keypair of
           Inr account \<Rightarrow>
             if acc_owner account = e_stake_program_id E then
               if list_ex (\<lambda>x. x \<noteq> 0) (acc_data account) then Inr w
               else send_checked C initialize_instruction {c_fee_payer C} w
             else create
         | Inl _ \<Rightarrow> create)"

definition setup_mint_account ::
    "env \<Rightarrow> config \<Rightarrow> Pubkey \<Rightarrow> u64 \<Rightarrow> Pubkey \<Rightarrow> u8 \<Rightarrow> world \<Rightarrow> client_error + Pubkey \<times> world" where
  "setup_mint_account E C mint_keypair mint_account_balance withdraw_authority default_decimals w =
     (let create =
            tri (c_checked_instruction C (TokenInitializeMint (c_spl_token_id C) mint_keypair
                   withdraw_authority None default_decimals)) (\<lambda>initialize_mint.
            tri (send_checked C
                   (c_instructions C (SystemCreateAccount (c_fee_payer C) mint_keypair
                      mint_account_balance (of_nat (c_mint_len C)) (c_spl_token_id C)) @ [initialize_mint])
                   {c_fee_payer C, mint_keypair} w) (\<lambda>w.
            Inr (c_spl_token_id C, w)))
      in case get_account C w mint_keypair of
           Inr account \<Rightarrow>
             if is_ok (e_check_spl_token_program E (acc_owner account)) then
               tri (if list_ex (\<lambda>x. x \<noteq> 0) (acc_data account) then
                      (case e_unpack_mint E (acc_data account) of
                         Inr mint \<Rightarrow>
                           if mint_authority mint \<noteq> Some withdraw_authority
                           then Inl WrongMintAuthority else Inr w
                       | Inl _ \<Rightarrow> Inl NotAMint)
                    else
                      tri (c_checked_instruction C (TokenInitializeMint (acc_owner account)
                             mint_keypair withdraw_authority None default_decimals))
                        (\<lambda>initialize_mint.
                      send_checked C [initialize_mint] {c_fee_payer C} w)) (\<lambda>w.
               Inr (acc_owner account, w))
             else create
         | Inl _ \<Rightarrow> create)"

text \<open>
  \<open>add_associated_token_account\<close>: the account, the instructions with the creation appended when the account
  cannot be read, and the balance for its rent added.
\<close>

definition add_associated_token_account ::
    "config \<Rightarrow> Pubkey \<Rightarrow> Pubkey \<Rightarrow> Pubkey \<Rightarrow> BuiltInstruction list \<Rightarrow> u64 \<Rightarrow> world
      \<Rightarrow> client_error + Pubkey \<times> BuiltInstruction list \<times> u64" where
  "add_associated_token_account C mint token_program_id owner instructions rent_free_balances w =
     (let account = c_associated_token_address C owner mint token_program_id in
      if \<not> is_ok (get_token_account C w account mint) then
        (case c_get_rent_exemption C (c_account_len C) of
           Inl _ \<Rightarrow> Inl ClientPanic
         | Inr min_account_balance \<Rightarrow>
             Inr (account,
                  instructions @ c_instructions C
                    (CreateAssociatedTokenAccount (c_fee_payer C) owner mint token_program_id),
                  rent_free_balances + min_account_balance))
      else Inr (account, instructions, rent_free_balances))"

definition setup_pool_fee_account ::
    "env \<Rightarrow> config \<Rightarrow> Pubkey \<Rightarrow> Pubkey \<Rightarrow> u64 \<Rightarrow> world \<Rightarrow> client_error + world" where
  "setup_pool_fee_account E C mint_pubkey token_program_id total_rent_free_balances w =
     (let pool_fee_account = c_associated_token_address C (c_manager C) mint_pubkey token_program_id;
          create =
            tri (add_associated_token_account C mint_pubkey token_program_id (c_manager C) []
                   total_rent_free_balances w) (\<lambda>(_, instructions, _).
            send_checked C instructions {c_fee_payer C} w)
      in case get_account C w pool_fee_account of
           Inr account \<Rightarrow>
             if is_ok (e_check_spl_token_program E (acc_owner account)) then Inr w else create
         | Inl _ \<Rightarrow> create)"

text \<open>\<open>get_packed_len::<StakePool>()\<close>\<close>

definition STAKE_POOL_PACKED_LEN :: nat where
  "STAKE_POOL_PACKED_LEN = 611"

text \<open>
  What the state of an account that is to be created means for \<open>Initialize\<close>: it is created, it is there
  and ready, or it is in use and nothing is done.
\<close>

datatype account_state = AbsentAccount | ReadyAccount | UsedAccount

definition account_state_of :: "config \<Rightarrow> client_error + account \<Rightarrow> account_state" where
  "account_state_of C info =
     (case info of
        Inr account \<Rightarrow>
          if acc_owner account = c_program_id C \<and> \<not> list_all (\<lambda>x. x = 0) (acc_data account)
          then UsedAccount else ReadyAccount
      | Inl _ \<Rightarrow> AbsentAccount)"

definition setup_and_initialize_validator_list_with_stake_pool ::
    "env \<Rightarrow> sdk \<Rightarrow> config \<Rightarrow> Pubkey \<Rightarrow> Pubkey \<Rightarrow> Pubkey \<Rightarrow> Pubkey \<Rightarrow> Pubkey \<Rightarrow> Pubkey \<Rightarrow> Pubkey option
      \<Rightarrow> Fee \<Rightarrow> Fee \<Rightarrow> Fee \<Rightarrow> u8 \<Rightarrow> u32 \<Rightarrow> Pubkey \<Rightarrow> u64 \<Rightarrow> nat \<Rightarrow> world \<Rightarrow> client_error + world" where
  "setup_and_initialize_validator_list_with_stake_pool E S C stake_pool_keypair
       validator_list_keypair reserve_keypair mint_keypair token_program_id pool_fee_account
       deposit_authority epoch_fee withdrawal_fee deposit_fee referral_fee max_validators
       withdraw_authority validator_list_balance validator_list_size w =
     tri (c_get_rent_exemption C STAKE_POOL_PACKED_LEN) (\<lambda>stake_pool_account_lamports.
     let list_state = account_state_of C (get_account C w validator_list_keypair);
         pool_state = account_state_of C (get_account C w stake_pool_keypair) in
     if list_state = UsedAccount \<or> pool_state = UsedAccount then Inr w else
     send_checked C
       ((if list_state = AbsentAccount
         then c_instructions C (SystemCreateAccount (c_fee_payer C) validator_list_keypair
                validator_list_balance (of_nat validator_list_size) (c_program_id C)) else [])
        @ (if pool_state = AbsentAccount
           then c_instructions C (SystemCreateAccount (c_fee_payer C) stake_pool_keypair
                  stake_pool_account_lamports (of_nat STAKE_POOL_PACKED_LEN) (c_program_id C)) else [])
        @ [initialize E S (c_program_id C) stake_pool_keypair (c_manager C) (c_staker C)
             withdraw_authority validator_list_keypair reserve_keypair mint_keypair
             pool_fee_account token_program_id deposit_authority epoch_fee withdrawal_fee
             deposit_fee referral_fee max_validators])
       ({c_fee_payer C, c_manager C}
        \<union> (if list_state = AbsentAccount then {validator_list_keypair} else {})
        \<union> {stake_pool_keypair} \<union> set_option deposit_authority) w)"

definition command_create_pool ::
    "env \<Rightarrow> sdk \<Rightarrow> config \<Rightarrow> Pubkey option \<Rightarrow> Fee \<Rightarrow> Fee \<Rightarrow> Fee \<Rightarrow> u8 \<Rightarrow> u32 \<Rightarrow> Pubkey option \<Rightarrow> Pubkey option
      \<Rightarrow> Pubkey option \<Rightarrow> Pubkey option \<Rightarrow> bool \<Rightarrow> (nat \<Rightarrow> Pubkey) \<Rightarrow> world \<Rightarrow> client_error + world" where
  "command_create_pool E S C deposit_authority epoch_fee withdrawal_fee deposit_fee referral_fee
       max_validators stake_pool_keypair validator_list_keypair mint_keypair reserve_keypair
       unsafe_fees fresh w =
     tri (if \<not> unsafe_fees then check_stake_pool_fees epoch_fee withdrawal_fee deposit_fee
          else Inr ()) (\<lambda>_.
     let key_or = (\<lambda>key i. case key of Some k \<Rightarrow> k | None \<Rightarrow> fresh i);
         reserve_keypair = key_or reserve_keypair 0;
         mint_keypair = key_or mint_keypair 1;
         stake_pool_keypair = key_or stake_pool_keypair 2;
         validator_list_keypair = key_or validator_list_keypair 3 in
     tri (c_get_rent_exemption C STAKE_STATE_LEN) (\<lambda>stake_rent.
     let reserve_stake_balance = stake_rent + MINIMUM_RESERVE_LAMPORTS in
     tri (c_get_rent_exemption C (c_mint_len C)) (\<lambda>mint_account_balance.
     tri (c_get_rent_exemption C (c_account_len C)) (\<lambda>pool_fee_account_balance.
     tri (c_get_rent_exemption C STAKE_POOL_PACKED_LEN) (\<lambda>stake_pool_account_lamports.
     let validator_list_size = length (ser_validator_list (validator_list_new max_validators)) in
     tri (c_get_rent_exemption C validator_list_size) (\<lambda>validator_list_balance.
     let total_rent_free_balances = reserve_stake_balance + mint_account_balance
           + pool_fee_account_balance + stake_pool_account_lamports + validator_list_balance;
         withdraw_authority =
           fst (find_withdraw_authority_program_address E (c_program_id C) stake_pool_keypair) in
     tri (setup_reserve_stake_account E C reserve_keypair reserve_stake_balance
            withdraw_authority w) (\<lambda>w.
     tri (setup_mint_account E C mint_keypair mint_account_balance withdraw_authority
            (c_native_decimals C) w)
       (\<lambda>(token_program_id, w).
     tri (setup_pool_fee_account E C mint_keypair token_program_id total_rent_free_balances w) (\<lambda>w.
     let pool_fee_account = c_associated_token_address C (c_manager C) mint_keypair token_program_id in
     setup_and_initialize_validator_list_with_stake_pool E S C stake_pool_keypair
       validator_list_keypair reserve_keypair mint_keypair token_program_id pool_fee_account
       deposit_authority epoch_fee withdrawal_fee deposit_fee referral_fee max_validators
       withdraw_authority validator_list_balance validator_list_size w)))))))))"

section \<open>Deposits\<close>

text \<open>
  The token account that receives the pool tokens. As in the source, whose \<open>unwrap_or\<close> evaluates its
  argument first, the associated account is added to the instructions even when a receiver is given.
\<close>

definition token_receiver ::
    "config \<Rightarrow> StakePool \<Rightarrow> Pubkey \<Rightarrow> Pubkey option \<Rightarrow> BuiltInstruction list \<Rightarrow> world
      \<Rightarrow> client_error + Pubkey \<times> BuiltInstruction list \<times> u64" where
  "token_receiver C stake_pool owner pool_token_receiver_account instructions w =
     tri (add_associated_token_account C (sp_pool_mint stake_pool) (sp_token_program_id stake_pool)
            owner instructions 0 w) (\<lambda>(account, instructions, rent_free_balances).
     Inr (case pool_token_receiver_account of Some given \<Rightarrow> given | None \<Rightarrow> account,
          instructions, rent_free_balances))"

text \<open>The vote account that a stake account delegates to, and the pool's stake account for it.\<close>

definition delegated_vote :: "config \<Rightarrow> Pubkey \<Rightarrow> world \<Rightarrow> client_error + Pubkey" where
  "delegated_vote C stake w =
     tri (get_client_stake_state C w stake) (\<lambda>stake_state.
     case stake_state of StakeDelegated _ delegation \<Rightarrow> Inr (del_voter_pubkey delegation)
     | _ \<Rightarrow> Inl WrongStakeState)"

definition deposit_target ::
    "env \<Rightarrow> config \<Rightarrow> ValidatorList \<Rightarrow> Pubkey \<Rightarrow> Pubkey \<Rightarrow> world \<Rightarrow> client_error + Pubkey" where
  "deposit_target E C validator_list stake_pool_address vote_account w =
     tri (ok_or (vl_find validator_list vote_account) VoteAccountNotFound) (\<lambda>validator_stake_info.
     let validator_stake_account =
           fst (find_stake_program_address E (c_program_id C) vote_account stake_pool_address
                  (NonZeroU32_new (vsi_validator_seed_suffix validator_stake_info))) in
     tri (get_client_stake_state C w validator_stake_account) (\<lambda>_.
     Inr validator_stake_account))"

definition check_deposit_authority :: "config \<Rightarrow> StakePool \<Rightarrow> client_error + unit" where
  "check_deposit_authority C stake_pool =
     (case c_funding_authority C of
        Some stake_deposit_authority \<Rightarrow>
          if stake_deposit_authority \<noteq> sp_stake_deposit_authority stake_pool
          then Inl WrongAuthority else Inr ()
      | None \<Rightarrow> Inr ())"

definition deposit_stake_instructions ::
    "env \<Rightarrow> sdk \<Rightarrow> config \<Rightarrow> StakePool \<Rightarrow> Pubkey \<Rightarrow> Pubkey \<Rightarrow> Pubkey \<Rightarrow> Pubkey \<Rightarrow> Pubkey \<Rightarrow> Pubkey
      \<Rightarrow> BuiltInstruction list" where
  "deposit_stake_instructions E S C stake_pool stake_pool_address stake withdraw_authority
       validator_stake_account pool_token_receiver_account referrer_token_account =
     (let pool_withdraw_authority =
            fst (find_withdraw_authority_program_address E (c_program_id C) stake_pool_address)
      in case c_funding_authority C of
           Some stake_deposit_authority \<Rightarrow>
             deposit_stake_with_authority E S (c_program_id C) stake_pool_address
               (sp_validator_list stake_pool) stake_deposit_authority pool_withdraw_authority stake
               withdraw_authority validator_stake_account (sp_reserve_stake stake_pool)
               pool_token_receiver_account (sp_manager_fee_account stake_pool)
               referrer_token_account (sp_pool_mint stake_pool) (sp_token_program_id stake_pool)
         | None \<Rightarrow>
             deposit_stake E S (c_program_id C) stake_pool_address (sp_validator_list stake_pool)
               pool_withdraw_authority stake withdraw_authority validator_stake_account
               (sp_reserve_stake stake_pool) pool_token_receiver_account
               (sp_manager_fee_account stake_pool) referrer_token_account
               (sp_pool_mint stake_pool) (sp_token_program_id stake_pool))"

definition prepare_deposit_stake ::
    "env \<Rightarrow> sdk \<Rightarrow> config \<Rightarrow> Pubkey \<Rightarrow> Pubkey \<Rightarrow> Pubkey \<Rightarrow> Pubkey option \<Rightarrow> Pubkey option \<Rightarrow> world
      \<Rightarrow> client_error + prepared" where
  "prepare_deposit_stake E S C stake_pool_address stake withdraw_authority
       pool_token_receiver_account referrer_token_account w =
     tri (get_stake_pool C w stake_pool_address) (\<lambda>stake_pool.
     tri (delegated_vote C stake w) (\<lambda>vote_account.
     tri (get_validator_list C w (sp_validator_list stake_pool)) (\<lambda>validator_list.
     tri (deposit_target E C validator_list stake_pool_address vote_account w) (\<lambda>validator_stake_account.
     tri (token_receiver C stake_pool (c_token_owner C) pool_token_receiver_account [] w)
       (\<lambda>(pool_token_receiver_account, instructions, total_rent_free_balances).
     let referrer_token_account =
           (case referrer_token_account of Some given \<Rightarrow> given | None \<Rightarrow> pool_token_receiver_account) in
     tri (check_deposit_authority C stake_pool) (\<lambda>_.
     Inr (instructions @ deposit_stake_instructions E S C stake_pool stake_pool_address stake
            withdraw_authority validator_stake_account pool_token_receiver_account
            referrer_token_account,
          {c_fee_payer C, withdraw_authority} \<union> set_option (c_funding_authority C),
          total_rent_free_balances)))))))"

definition command_deposit_stake ::
    "env \<Rightarrow> sdk \<Rightarrow> config \<Rightarrow> Pubkey \<Rightarrow> Pubkey \<Rightarrow> Pubkey \<Rightarrow> Pubkey option \<Rightarrow> Pubkey option \<Rightarrow> world
      \<Rightarrow> client_error + world" where
  "command_deposit_stake E S C stake_pool_address stake withdraw_authority
       pool_token_receiver_account referrer_token_account w =
     tri (update_first E S C stake_pool_address w) (\<lambda>w.
     tri (prepare_deposit_stake E S C stake_pool_address stake withdraw_authority
            pool_token_receiver_account referrer_token_account w) (\<lambda>t.
     send_prepared C t w))"

text \<open>The loop of \<open>command_deposit_all_stake\<close> over the stake accounts of an authority.\<close>

fun deposit_stakes ::
    "env \<Rightarrow> sdk \<Rightarrow> config \<Rightarrow> StakePool \<Rightarrow> ValidatorList \<Rightarrow> Pubkey \<Rightarrow> Pubkey \<Rightarrow> Pubkey \<Rightarrow> Pubkey \<Rightarrow> Pubkey list
      \<Rightarrow> world \<Rightarrow> client_error + world" where
  "deposit_stakes E S C stake_pool validator_list stake_pool_address withdraw_authority
     pool_token_receiver_account referrer_token_account [] w = Inr w"
| "deposit_stakes E S C stake_pool validator_list stake_pool_address withdraw_authority
     pool_token_receiver_account referrer_token_account (stake_address # stake_addresses) w =
     tri (delegated_vote C stake_address w) (\<lambda>vote_account.
     tri (deposit_target E C validator_list stake_pool_address vote_account w)
       (\<lambda>validator_stake_account.
     tri (send_checked C
            (deposit_stake_instructions E S C stake_pool stake_pool_address stake_address
               withdraw_authority validator_stake_account pool_token_receiver_account
               referrer_token_account)
            ({c_fee_payer C, withdraw_authority} \<union> set_option (c_funding_authority C)) w) (\<lambda>w.
     deposit_stakes E S C stake_pool validator_list stake_pool_address withdraw_authority
       pool_token_receiver_account referrer_token_account stake_addresses w)))"

definition command_deposit_all_stake ::
    "env \<Rightarrow> sdk \<Rightarrow> config \<Rightarrow> Pubkey \<Rightarrow> Pubkey \<Rightarrow> Pubkey \<Rightarrow> Pubkey option \<Rightarrow> Pubkey option \<Rightarrow> world
      \<Rightarrow> client_error + world" where
  "command_deposit_all_stake E S C stake_pool_address stake_authority withdraw_authority
       pool_token_receiver_account referrer_token_account w =
     tri (update_first E S C stake_pool_address w) (\<lambda>w.
     tri (get_all_stake E C w stake_authority) (\<lambda>stake_addresses.
     tri (get_stake_pool C w stake_pool_address) (\<lambda>stake_pool.
     tri (token_receiver C stake_pool (c_token_owner C) pool_token_receiver_account [] w)
       (\<lambda>(pool_token_receiver_account, create_token_account_instructions, total_rent_free_balances).
     tri (if create_token_account_instructions \<noteq> []
          then send_checked_with_fee C create_token_account_instructions {c_fee_payer C}
                 total_rent_free_balances w
          else Inr w) (\<lambda>w.
     let referrer_token_account =
           (case referrer_token_account of Some given \<Rightarrow> given | None \<Rightarrow> pool_token_receiver_account) in
     tri (get_validator_list C w (sp_validator_list stake_pool)) (\<lambda>validator_list.
     tri (check_deposit_authority C stake_pool) (\<lambda>_.
     deposit_stakes E S C stake_pool validator_list stake_pool_address withdraw_authority
       pool_token_receiver_account referrer_token_account stake_addresses w)))))))"

text \<open>The funding authority of SOL deposits or withdrawals that the command names, against the pool's.\<close>

definition check_funding_authority :: "config \<Rightarrow> Pubkey option \<Rightarrow> client_error + Pubkey option" where
  "check_funding_authority C expected =
     (case c_funding_authority C of
        Some authority \<Rightarrow>
          tri (ok_or expected NoAuthorityInPool) (\<lambda>expected_authority.
          if authority \<noteq> expected_authority then Inl WrongAuthority else Inr (Some authority))
      | None \<Rightarrow> Inr None)"

definition prepare_deposit_sol ::
    "env \<Rightarrow> sdk \<Rightarrow> config \<Rightarrow> Pubkey \<Rightarrow> Pubkey option \<Rightarrow> Pubkey option \<Rightarrow> Pubkey option \<Rightarrow> u64 \<Rightarrow> (nat \<Rightarrow> Pubkey)
      \<Rightarrow> world \<Rightarrow> client_error + prepared" where
  "prepare_deposit_sol E S C stake_pool_address sender pool_token_receiver_account
       referrer_token_account lamports fresh w =
     (let from_pubkey = (case sender of Some keypair \<Rightarrow> keypair | None \<Rightarrow> c_fee_payer C) in
      tri (c_get_balance C w from_pubkey) (\<lambda>from_balance.
      if from_balance < lamports then Inl NotEnoughLamports else
      tri (get_stake_pool C w stake_pool_address) (\<lambda>stake_pool.
      let user_sol_transfer = fresh 0;
          instructions = c_instructions C (SystemTransfer from_pubkey user_sol_transfer lamports) in
      tri (token_receiver C stake_pool (c_token_owner C) pool_token_receiver_account instructions w)
        (\<lambda>(pool_token_receiver_account, instructions, total_rent_free_balances).
      let referrer_token_account =
            (case referrer_token_account of Some given \<Rightarrow> given | None \<Rightarrow> pool_token_receiver_account);
          pool_withdraw_authority =
            fst (find_withdraw_authority_program_address E (c_program_id C) stake_pool_address) in
      tri (check_funding_authority C (sp_sol_deposit_authority stake_pool)) (\<lambda>authority.
      let deposit_instruction =
            (case authority of
               Some deposit_authority \<Rightarrow>
                 deposit_sol_with_authority E S (c_program_id C) stake_pool_address
                   deposit_authority pool_withdraw_authority (sp_reserve_stake stake_pool)
                   user_sol_transfer pool_token_receiver_account
                   (sp_manager_fee_account stake_pool) referrer_token_account
                   (sp_pool_mint stake_pool) (sp_token_program_id stake_pool) lamports
             | None \<Rightarrow>
                 deposit_sol E S (c_program_id C) stake_pool_address pool_withdraw_authority
                   (sp_reserve_stake stake_pool) user_sol_transfer pool_token_receiver_account
                   (sp_manager_fee_account stake_pool) referrer_token_account
                   (sp_pool_mint stake_pool) (sp_token_program_id stake_pool) lamports) in
      Inr (instructions @ [deposit_instruction],
           {c_fee_payer C, user_sol_transfer} \<union> set_option sender \<union> set_option authority,
           total_rent_free_balances))))))"

definition command_deposit_sol ::
    "env \<Rightarrow> sdk \<Rightarrow> config \<Rightarrow> Pubkey \<Rightarrow> Pubkey option \<Rightarrow> Pubkey option \<Rightarrow> Pubkey option \<Rightarrow> u64 \<Rightarrow> (nat \<Rightarrow> Pubkey)
      \<Rightarrow> world \<Rightarrow> client_error + world" where
  "command_deposit_sol E S C stake_pool_address sender pool_token_receiver_account
       referrer_token_account lamports fresh w =
     tri (update_first E S C stake_pool_address w) (\<lambda>w.
     tri (prepare_deposit_sol E S C stake_pool_address sender pool_token_receiver_account
            referrer_token_account lamports fresh w) (\<lambda>t.
     send_prepared C t w))"

definition prepare_deposit_wsol ::
    "env \<Rightarrow> sdk \<Rightarrow> config \<Rightarrow> Pubkey \<Rightarrow> Pubkey option \<Rightarrow> Pubkey option \<Rightarrow> Pubkey option \<Rightarrow> ui_amount \<Rightarrow> world
      \<Rightarrow> client_error + prepared" where
  "prepare_deposit_wsol E S C stake_pool_address sender pool_token_receiver_account
       referrer_token_account amount w =
     tri (ok_or (c_sol_str_to_lamports C amount) InvalidAmount) (\<lambda>amount.
     let user_pubkey = (case sender of Some keypair \<Rightarrow> keypair | None \<Rightarrow> c_fee_payer C) in
     tri (get_stake_pool C w stake_pool_address) (\<lambda>stake_pool.
     let user_wsol_account =
           c_associated_token_address C user_pubkey (e_native_mint_id E) (c_spl_token_id C);
         wsol_balance = (case c_get_token_account_balance C w user_wsol_account of
             Inr (Some balance) \<Rightarrow> balance | _ \<Rightarrow> 0) in
     if wsol_balance < amount then Inl NotEnoughTokens else
     let program_signer = fst (e_find_program_address E [e_program_signer_seed E] (c_program_id C));
         transient_wsol_pda = fst (e_find_program_address E
           [TRANSIENT_WSOL, key_bytes user_pubkey] (c_program_id C)) in
     tri (token_receiver C stake_pool user_pubkey pool_token_receiver_account [] w)
       (\<lambda>(pool_token_receiver_account, instructions, total_rent_free_balances).
     let referrer_token_account =
           (case referrer_token_account of Some given \<Rightarrow> given | None \<Rightarrow> pool_token_receiver_account);
         pool_withdraw_authority =
           fst (find_withdraw_authority_program_address E (c_program_id C) stake_pool_address) in
     tri (check_funding_authority C (sp_sol_deposit_authority stake_pool)) (\<lambda>authority.
     Inr (instructions @
            [deposit_wsol_with_session E S (c_program_id C) user_pubkey user_pubkey program_signer
               user_wsol_account transient_wsol_pda (e_native_mint_id E) stake_pool_address
               pool_withdraw_authority authority (sp_reserve_stake stake_pool)
               pool_token_receiver_account (sp_manager_fee_account stake_pool)
               referrer_token_account (sp_pool_mint stake_pool) (sp_token_program_id stake_pool)
               (e_system_program_id E) amount],
          {c_fee_payer C} \<union> set_option sender \<union> set_option authority,
          total_rent_free_balances)))))"

definition command_deposit_wsol_with_session ::
    "env \<Rightarrow> sdk \<Rightarrow> config \<Rightarrow> Pubkey \<Rightarrow> Pubkey option \<Rightarrow> Pubkey option \<Rightarrow> Pubkey option \<Rightarrow> ui_amount \<Rightarrow> world
      \<Rightarrow> client_error + world" where
  "command_deposit_wsol_with_session E S C stake_pool_address sender pool_token_receiver_account
       referrer_token_account amount w =
     tri (update_first E S C stake_pool_address w) (\<lambda>w.
     tri (prepare_deposit_wsol E S C stake_pool_address sender pool_token_receiver_account
            referrer_token_account amount w) (\<lambda>t.
     send_prepared C t w))"

section \<open>Withdrawals of SOL\<close>

text \<open>The account that the pool tokens come from, the amount of them, and what the account holds.\<close>

definition tokens_to_withdraw ::
    "config \<Rightarrow> StakePool \<Rightarrow> Pubkey \<Rightarrow> Pubkey option \<Rightarrow> ui_amount \<Rightarrow> world
      \<Rightarrow> client_error + Pubkey \<times> u64 \<times> u64" where
  "tokens_to_withdraw C stake_pool owner pool_token_account pool_amount w =
     tri (get_token_mint C w (sp_pool_mint stake_pool)) (\<lambda>decimals.
     let pool_amount = c_ui_amount_to_amount C pool_amount decimals;
         pool_token_account = (case pool_token_account of Some given \<Rightarrow> given | None \<Rightarrow>
           c_associated_token_address C owner (sp_pool_mint stake_pool)
             (sp_token_program_id stake_pool)) in
     tri (get_token_account C w pool_token_account (sp_pool_mint stake_pool)) (\<lambda>token_account.
     Inr (pool_token_account, pool_amount, tb_amount token_account)))"

definition prepare_withdraw_wsol ::
    "env \<Rightarrow> sdk \<Rightarrow> config \<Rightarrow> Pubkey \<Rightarrow> Pubkey option \<Rightarrow> Pubkey option \<Rightarrow> ui_amount \<Rightarrow> world
      \<Rightarrow> client_error + prepared" where
  "prepare_withdraw_wsol E S C stake_pool_address sender pool_token_account pool_amount w =
     tri (get_stake_pool C w stake_pool_address) (\<lambda>stake_pool.
     let user_pubkey = (case sender of Some keypair \<Rightarrow> keypair | None \<Rightarrow> c_fee_payer C) in
     tri (tokens_to_withdraw C stake_pool user_pubkey pool_token_account pool_amount w)
       (\<lambda>(pool_token_account, pool_amount_tokens, available).
     if available < pool_amount_tokens then Inl NotEnoughTokens else
     let user_wsol_account =
           c_associated_token_address C user_pubkey (e_native_mint_id E) (c_spl_token_id C) in
     tri (add_associated_token_account C (e_native_mint_id E) (c_spl_token_id C) user_pubkey [] 0 w)
       (\<lambda>(_, instructions, total_rent_free_balances).
     let pool_withdraw_authority =
           fst (find_withdraw_authority_program_address E (c_program_id C) stake_pool_address);
         program_signer = fst (e_find_program_address E [e_program_signer_seed E] (c_program_id C)) in
     tri (check_funding_authority C (sp_sol_withdraw_authority stake_pool)) (\<lambda>authority.
     Inr (instructions @
            [withdraw_wsol_with_session E S (c_program_id C) stake_pool_address
               pool_withdraw_authority user_pubkey pool_token_account (sp_reserve_stake stake_pool)
               user_wsol_account (sp_manager_fee_account stake_pool) (sp_pool_mint stake_pool)
               (sp_token_program_id stake_pool) authority (e_native_mint_id E)
               (if authority \<noteq> None then user_pubkey else c_fee_payer C) user_pubkey
               (e_system_program_id E) program_signer (e_associated_token_program_id E)
               pool_amount_tokens],
          {c_fee_payer C} \<union> set_option sender \<union> set_option authority,
          total_rent_free_balances)))))"

definition command_withdraw_wsol_with_session ::
    "env \<Rightarrow> sdk \<Rightarrow> config \<Rightarrow> Pubkey \<Rightarrow> Pubkey option \<Rightarrow> Pubkey option \<Rightarrow> ui_amount \<Rightarrow> world
      \<Rightarrow> client_error + world" where
  "command_withdraw_wsol_with_session E S C stake_pool_address sender pool_token_account
       pool_amount w =
     tri (update_first E S C stake_pool_address w) (\<lambda>w.
     tri (prepare_withdraw_wsol E S C stake_pool_address sender pool_token_account pool_amount w) (\<lambda>t.
     send_prepared C t w))"

definition prepare_withdraw_sol ::
    "env \<Rightarrow> sdk \<Rightarrow> config \<Rightarrow> Pubkey \<Rightarrow> Pubkey option \<Rightarrow> Pubkey \<Rightarrow> ui_amount \<Rightarrow> (nat \<Rightarrow> Pubkey) \<Rightarrow> world
      \<Rightarrow> client_error + prepared" where
  "prepare_withdraw_sol E S C stake_pool_address pool_token_account sol_receiver pool_amount fresh w =
     tri (get_stake_pool C w stake_pool_address) (\<lambda>stake_pool.
     tri (tokens_to_withdraw C stake_pool (c_token_owner C) pool_token_account pool_amount w)
       (\<lambda>(pool_token_account, pool_amount, available).
     if available < pool_amount then Inl NotEnoughTokens else
     let user_transfer_authority = fresh 0 in
     tri (c_checked_instruction C (TokenApprove (sp_token_program_id stake_pool) pool_token_account
            user_transfer_authority (c_token_owner C) pool_amount)) (\<lambda>approve.
     let pool_withdraw_authority =
           fst (find_withdraw_authority_program_address E (c_program_id C) stake_pool_address) in
     tri (check_funding_authority C (sp_sol_withdraw_authority stake_pool)) (\<lambda>authority.
     let withdraw_instruction =
           (case authority of
              Some withdraw_authority \<Rightarrow>
                withdraw_sol_with_authority E S (c_program_id C) stake_pool_address
                  withdraw_authority pool_withdraw_authority user_transfer_authority
                  pool_token_account (sp_reserve_stake stake_pool) sol_receiver
                  (sp_manager_fee_account stake_pool) (sp_pool_mint stake_pool)
                  (sp_token_program_id stake_pool) pool_amount
            | None \<Rightarrow>
                withdraw_sol E S (c_program_id C) stake_pool_address pool_withdraw_authority
                  user_transfer_authority pool_token_account (sp_reserve_stake stake_pool)
                  sol_receiver (sp_manager_fee_account stake_pool) (sp_pool_mint stake_pool)
                  (sp_token_program_id stake_pool) pool_amount) in
     Inr ([approve, withdraw_instruction],
          {c_fee_payer C, c_token_owner C, user_transfer_authority} \<union> set_option authority, 0)))))"

definition command_withdraw_sol ::
    "env \<Rightarrow> sdk \<Rightarrow> config \<Rightarrow> Pubkey \<Rightarrow> Pubkey option \<Rightarrow> Pubkey \<Rightarrow> ui_amount \<Rightarrow> (nat \<Rightarrow> Pubkey) \<Rightarrow> world
      \<Rightarrow> client_error + world" where
  "command_withdraw_sol E S C stake_pool_address pool_token_account sol_receiver pool_amount fresh w =
     tri (update_first E S C stake_pool_address w) (\<lambda>w.
     tri (prepare_withdraw_sol E S C stake_pool_address pool_token_account sol_receiver pool_amount
            fresh w) (\<lambda>t.
     send_prepared C t w))"

section \<open>The accounts of a stake withdrawal\<close>

record WithdrawAccount =
  wa_stake_address :: Pubkey
  wa_vote_address :: "Pubkey option"
  wa_pool_amount :: u64

type_synonym candidate = "Pubkey \<times> u64 \<times> Pubkey option"

text \<open>\<open>sort_by\<close> of the standard library: a stable sort by a comparison, here by insertion.\<close>

datatype ordering = OLess | OEqual | OGreater

fun insert_by :: "('a \<Rightarrow> 'a \<Rightarrow> ordering) \<Rightarrow> 'a \<Rightarrow> 'a list \<Rightarrow> 'a list" where
  "insert_by cmp x [] = [x]"
| "insert_by cmp x (y # ys) = (if cmp y x = OLess then y # insert_by cmp x ys else x # y # ys)"

definition sort_by :: "('a \<Rightarrow> 'a \<Rightarrow> ordering) \<Rightarrow> 'a list \<Rightarrow> 'a list" where
  "sort_by cmp xs = foldr (insert_by cmp) xs []"

definition compare_candidates :: "Pubkey option \<Rightarrow> candidate \<Rightarrow> candidate \<Rightarrow> ordering" where
  "compare_candidates preferred left right =
     (if snd (snd left) = preferred then OLess
      else if snd (snd right) = preferred then OGreater
      else if fst (snd right) < fst (snd left) then OLess
      else if fst (snd right) = fst (snd left) then OEqual
      else OGreater)"

definition sorted_accounts ::
    "ValidatorList \<Rightarrow> StakePool \<Rightarrow> (ValidatorStakeInfo \<Rightarrow> candidate) \<Rightarrow> candidate list" where
  "sorted_accounts validator_list stake_pool get_info =
     sort_by (compare_candidates (sp_preferred_withdraw_validator_vote_address stake_pool))
       (map get_info (vl_validators validator_list))"

text \<open>The loop over the candidates: what is taken and what remains.\<close>

fun withdraw_loop ::
    "StakePool \<Rightarrow> u64 \<Rightarrow> bool \<Rightarrow> Fee \<Rightarrow> candidate list \<Rightarrow> u64 \<Rightarrow> client_error + WithdrawAccount list \<times> u64" where
  "withdraw_loop stake_pool min_balance skip_fee inverse_fee [] remaining_amount =
     Inr ([], remaining_amount)"
| "withdraw_loop stake_pool min_balance skip_fee inverse_fee
     ((stake_address, lamports, vote_address_opt) # accounts) remaining_amount =
     (if lamports \<le> min_balance
      then withdraw_loop stake_pool min_balance skip_fee inverse_fee accounts remaining_amount
      else
        tri (unwrap (calc_pool_tokens_for_deposit stake_pool lamports))
          (\<lambda>available_for_withdrawal_wo_fee.
        tri (if skip_fee then Inr available_for_withdrawal_wo_fee
             else if fee_numerator inverse_fee = 0 then Inl ClientPanic
             else Inr (available_for_withdrawal_wo_fee * fee_denominator inverse_fee
                         div fee_numerator inverse_fee)) (\<lambda>available_for_withdrawal.
        let pool_amount = min available_for_withdrawal remaining_amount;
            account = \<lparr>wa_stake_address = stake_address, wa_vote_address = vote_address_opt,
                       wa_pool_amount = pool_amount\<rparr>;
            remaining_amount = remaining_amount - pool_amount in
        if remaining_amount = 0 then Inr ([account], remaining_amount)
        else tri (withdraw_loop stake_pool min_balance skip_fee inverse_fee accounts
                    remaining_amount) (\<lambda>(withdraw_from, remaining_amount).
             Inr (account # withdraw_from, remaining_amount)))))"

text \<open>The candidates: the stakes of the validators, the transient stakes, the reserve.\<close>

definition withdraw_candidates ::
    "env \<Rightarrow> config \<Rightarrow> StakePool \<Rightarrow> Pubkey \<Rightarrow> ValidatorList \<Rightarrow> u64 \<Rightarrow> u64 \<Rightarrow> candidate list" where
  "withdraw_candidates E C stake_pool stake_pool_address validator_list min_balance reserve =
     sorted_accounts validator_list stake_pool (\<lambda>validator.
       (fst (find_stake_program_address E (c_program_id C) (vsi_vote_account_address validator)
               stake_pool_address (NonZeroU32_new (vsi_validator_seed_suffix validator))),
        vsi_active_stake_lamports validator, Some (vsi_vote_account_address validator)))
     @ sorted_accounts validator_list stake_pool (\<lambda>validator.
       (fst (find_transient_stake_program_address E (c_program_id C)
               (vsi_vote_account_address validator) stake_pool_address
               (vsi_transient_seed_suffix validator)),
        saturating_sub (vsi_transient_stake_lamports validator) min_balance,
        Some (vsi_vote_account_address validator)))
     @ [(sp_reserve_stake stake_pool, reserve, None)]"

definition prepare_withdraw_accounts ::
    "env \<Rightarrow> config \<Rightarrow> StakePool \<Rightarrow> u64 \<Rightarrow> Pubkey \<Rightarrow> bool \<Rightarrow> world \<Rightarrow> client_error + WithdrawAccount list" where
  "prepare_withdraw_accounts E C stake_pool pool_amount stake_pool_address skip_fee w =
     tri (c_get_stake_minimum_delegation C) (\<lambda>stake_minimum_delegation.
     tri (c_get_rent_exemption C STAKE_STATE_LEN) (\<lambda>rent_exemption.
     let min_balance = saturating_add rent_exemption (minimum_delegation stake_minimum_delegation) in
     tri (get_token_mint C w (sp_pool_mint stake_pool)) (\<lambda>pool_mint.
     tri (get_validator_list C w (sp_validator_list stake_pool)) (\<lambda>validator_list.
     tri (get_account C w (sp_reserve_stake stake_pool)) (\<lambda>reserve_stake.
     tri (c_get_rent_exemption C STAKE_STATE_LEN) (\<lambda>rent_exemption.
     let accounts = withdraw_candidates E C stake_pool stake_pool_address validator_list min_balance
           (acc_lamports reserve_stake - rent_exemption - MINIMUM_RESERVE_LAMPORTS);
         fee = sp_stake_withdrawal_fee stake_pool;
         inverse_fee = \<lparr>fee_denominator = fee_denominator fee,
                        fee_numerator = fee_denominator fee - fee_numerator fee\<rparr> in
     tri (withdraw_loop stake_pool min_balance skip_fee inverse_fee accounts pool_amount)
       (\<lambda>(withdraw_from, remaining_amount).
     if remaining_amount > 0 then Inl NoStakeAccounts else Inr withdraw_from)))))))"


text \<open>
  The withdrawal from the stake of one validator, which \<open>command_withdraw_stake\<close> has once for a named
  vote account and once for the vote account of the receiving stake.
\<close>

definition withdraw_from_validator ::
    "env \<Rightarrow> config \<Rightarrow> StakePool \<Rightarrow> u64 \<Rightarrow> Pubkey \<Rightarrow> Pubkey \<Rightarrow> u64 \<Rightarrow> u64 \<Rightarrow> world
      \<Rightarrow> client_error + WithdrawAccount list" where
  "withdraw_from_validator E C stake_pool pool_amount stake_pool_address vote_account_address
       stake_pool_minimum_delegation stake_account_rent_exemption w =
     tri (get_validator_list C w (sp_validator_list stake_pool)) (\<lambda>validator_list.
     tri (ok_or (vl_find validator_list vote_account_address) VoteAccountNotFound)
       (\<lambda>validator_stake_info.
     let stake_account_address =
           fst (find_stake_program_address E (c_program_id C) vote_account_address
                  stake_pool_address (NonZeroU32_new (vsi_validator_seed_suffix validator_stake_info))) in
     tri (get_account C w stake_account_address) (\<lambda>stake_account.
     tri (unwrap (calc_lamports_withdraw_amount stake_pool
            (saturating_sub (saturating_sub (acc_lamports stake_account)
               stake_pool_minimum_delegation) stake_account_rent_exemption)))
       (\<lambda>available_for_withdrawal.
     if available_for_withdrawal < pool_amount then Inl NotEnoughLamports else
     Inr [\<lparr>wa_stake_address = stake_account_address,
           wa_vote_address = Some vote_account_address, wa_pool_amount = pool_amount\<rparr>]))))"

section \<open>Withdrawals of stake\<close>

text \<open>The delegation of the stake account that is to receive, when it is one of the stake program.\<close>

definition delegated_receiver ::
    "env \<Rightarrow> config \<Rightarrow> Pubkey option \<Rightarrow> world \<Rightarrow> Delegation option" where
  "delegated_receiver E C stake_receiver_param w =
     (case stake_receiver_param of
        None \<Rightarrow> None
      | Some stake_receiver_pubkey \<Rightarrow>
          (case get_account C w stake_receiver_pubkey of
             Inl _ \<Rightarrow> None
           | Inr stake_account \<Rightarrow>
               (case c_deserialize_stake C (acc_data stake_account) of
                  Inr (StakeDelegated _ delegation) \<Rightarrow>
                    if acc_owner stake_account = e_stake_program_id E then Some delegation else None
                | _ \<Rightarrow> None)))"

definition choose_withdraw_accounts ::
    "env \<Rightarrow> config \<Rightarrow> StakePool \<Rightarrow> Pubkey \<Rightarrow> bool \<Rightarrow> Pubkey option \<Rightarrow> Delegation option \<Rightarrow> Pubkey \<Rightarrow> u64 \<Rightarrow> u64
      \<Rightarrow> u64 \<Rightarrow> world \<Rightarrow> client_error + WithdrawAccount list" where
  "choose_withdraw_accounts E C stake_pool stake_pool_address use_reserve vote_account_address
       receiver_delegation pool_token_account pool_amount stake_pool_minimum_delegation
       stake_account_rent_exemption w =
     (if use_reserve then
        Inr [\<lparr>wa_stake_address = sp_reserve_stake stake_pool, wa_vote_address = None,
              wa_pool_amount = pool_amount\<rparr>]
      else case receiver_delegation of
        Some delegation \<Rightarrow>
          let vote_account = del_voter_pubkey delegation in
          if vote_account_address \<noteq> None \<and> vote_account_address \<noteq> Some vote_account
          then Inl VoteAccountMismatch
          else withdraw_from_validator E C stake_pool pool_amount stake_pool_address vote_account
                 stake_pool_minimum_delegation stake_account_rent_exemption w
      | None \<Rightarrow>
          (case vote_account_address of
             Some vote_account_address \<Rightarrow>
               withdraw_from_validator E C stake_pool pool_amount stake_pool_address
                 vote_account_address stake_pool_minimum_delegation
                 stake_account_rent_exemption w
           | None \<Rightarrow>
               prepare_withdraw_accounts E C stake_pool pool_amount stake_pool_address
                 (sp_manager_fee_account stake_pool = pool_token_account) w))"

text \<open>The instruction that creates a stake account for a new key pair.\<close>

definition new_stake_account :: "env \<Rightarrow> config \<Rightarrow> Pubkey \<Rightarrow> Pubkey \<Rightarrow> u64 \<Rightarrow> BuiltInstruction list" where
  "new_stake_account E C fee_payer stake_receiver_pubkey lamports =
     c_instructions C (SystemCreateAccount fee_payer stake_receiver_pubkey lamports
       (of_nat STAKE_STATE_LEN) (e_stake_program_id E))"

text \<open>
  The loop over the accounts: the instructions, the keys of new stake accounts and their rent. The
  argument \<open>receiver\<close> is the account that receives when none is created.
\<close>

fun withdraw_instructions ::
    "env \<Rightarrow> sdk \<Rightarrow> config \<Rightarrow> StakePool \<Rightarrow> Pubkey \<Rightarrow> Pubkey \<Rightarrow> Pubkey \<Rightarrow> Pubkey option \<Rightarrow> u64 \<Rightarrow> (nat \<Rightarrow> Pubkey)
      \<Rightarrow> WithdrawAccount list \<Rightarrow> client_error + BuiltInstruction list \<times> Pubkey list \<times> u64" where
  "withdraw_instructions E S C stake_pool stake_pool_address user_transfer_authority
     pool_token_account receiver stake_account_rent_exemption fresh [] = Inr ([], [], 0)"
| "withdraw_instructions E S C stake_pool stake_pool_address user_transfer_authority
     pool_token_account receiver stake_account_rent_exemption fresh (withdraw_account # rest) =
     tri (unwrap (calc_lamports_withdraw_amount stake_pool (wa_pool_amount withdraw_account))) (\<lambda>_.
     let (stake_receiver, create, new_keys, rent) =
           (case receiver of
              None \<Rightarrow> (fresh 0,
                new_stake_account E C (c_fee_payer C) (fresh 0) stake_account_rent_exemption,
                [fresh 0], stake_account_rent_exemption)
            | Some stake_receiver \<Rightarrow> (stake_receiver, [], [], 0)) in
     tri (withdraw_instructions E S C stake_pool stake_pool_address user_transfer_authority
            pool_token_account receiver stake_account_rent_exemption (\<lambda>i. fresh (Suc i)) rest)
       (\<lambda>(instructions, keys, total_rent_free_balances).
     Inr (create @
            withdraw_stake E S (c_program_id C) stake_pool_address (sp_validator_list stake_pool)
              (fst (find_withdraw_authority_program_address E (c_program_id C) stake_pool_address))
              (wa_stake_address withdraw_account) stake_receiver (c_staker C)
              user_transfer_authority pool_token_account (sp_manager_fee_account stake_pool)
              (sp_pool_mint stake_pool) (sp_token_program_id stake_pool)
              (wa_pool_amount withdraw_account) # instructions,
          new_keys @ keys, rent + total_rent_free_balances)))"

text \<open>The new stake accounts are merged into a delegated receiver.\<close>

definition merge_instructions ::
    "config \<Rightarrow> Pubkey option \<Rightarrow> Delegation option \<Rightarrow> Pubkey list \<Rightarrow> BuiltInstruction list" where
  "merge_instructions C stake_receiver_param receiver_delegation new_stake_keypairs =
     (case (stake_receiver_param, receiver_delegation) of
        (Some stake_receiver, Some _) \<Rightarrow>
          concat (map (\<lambda>new_stake_keypair.
            c_instructions C (StakeMerge stake_receiver new_stake_keypair (c_fee_payer C)))
            new_stake_keypairs)
      | _ \<Rightarrow> [])"

definition prepare_withdraw_stake ::
    "env \<Rightarrow> sdk \<Rightarrow> config \<Rightarrow> Pubkey \<Rightarrow> bool \<Rightarrow> Pubkey option \<Rightarrow> Pubkey option \<Rightarrow> Pubkey option \<Rightarrow> ui_amount
      \<Rightarrow> (nat \<Rightarrow> Pubkey) \<Rightarrow> world \<Rightarrow> client_error + prepared" where
  "prepare_withdraw_stake E S C stake_pool_address use_reserve vote_account_address
       stake_receiver_param pool_token_account pool_amount fresh w =
     tri (get_stake_pool C w stake_pool_address) (\<lambda>stake_pool.
     tri (tokens_to_withdraw C stake_pool (c_token_owner C) pool_token_account pool_amount w)
       (\<lambda>(pool_token_account, pool_amount, available).
     tri (c_get_rent_exemption C STAKE_STATE_LEN) (\<lambda>stake_account_rent_exemption.
     if available < pool_amount then Inl NotEnoughTokens else
     let receiver_delegation = delegated_receiver E C stake_receiver_param w in
     tri (c_get_stake_minimum_delegation C) (\<lambda>stake_minimum_delegation.
     tri (choose_withdraw_accounts E C stake_pool stake_pool_address use_reserve
            vote_account_address receiver_delegation pool_token_account pool_amount
            (minimum_delegation stake_minimum_delegation) stake_account_rent_exemption w)
       (\<lambda>withdraw_accounts.
     let user_transfer_authority = fresh 0 in
     tri (c_checked_instruction C (TokenApprove (sp_token_program_id stake_pool) pool_token_account
            user_transfer_authority (c_token_owner C) pool_amount)) (\<lambda>approve.
     tri (withdraw_instructions E S C stake_pool stake_pool_address user_transfer_authority
            pool_token_account (if receiver_delegation = None then stake_receiver_param else None)
            stake_account_rent_exemption (\<lambda>i. fresh (Suc i)) withdraw_accounts)
       (\<lambda>(instructions, new_stake_keypairs, total_rent_free_balances).
     Inr (approve # instructions
            @ merge_instructions C stake_receiver_param receiver_delegation new_stake_keypairs,
          {c_fee_payer C, c_token_owner C, user_transfer_authority} \<union> set new_stake_keypairs,
          total_rent_free_balances))))))))"

definition command_withdraw_stake ::
    "env \<Rightarrow> sdk \<Rightarrow> config \<Rightarrow> Pubkey \<Rightarrow> bool \<Rightarrow> Pubkey option \<Rightarrow> Pubkey option \<Rightarrow> Pubkey option \<Rightarrow> ui_amount
      \<Rightarrow> (nat \<Rightarrow> Pubkey) \<Rightarrow> world \<Rightarrow> client_error + world" where
  "command_withdraw_stake E S C stake_pool_address use_reserve vote_account_address
       stake_receiver_param pool_token_account pool_amount fresh w =
     tri (update_first E S C stake_pool_address w) (\<lambda>w.
     tri (prepare_withdraw_stake E S C stake_pool_address use_reserve vote_account_address
            stake_receiver_param pool_token_account pool_amount fresh w) (\<lambda>t.
     send_prepared C t w))"


section \<open>Dry runs\<close>

text \<open>All commands that send something, with their arguments.\<close>

datatype command =
    Update Pubkey bool bool bool
  | CreatePool "Pubkey option" Fee Fee Fee u8 u32 "Pubkey option" "Pubkey option" "Pubkey option" "Pubkey option" bool
  | VsaAdd Pubkey Pubkey
  | VsaRemove Pubkey Pubkey
  | IncreaseStake Pubkey Pubkey u64
  | DecreaseStake Pubkey Pubkey u64
  | SetPreferred Pubkey PreferredValidatorType "Pubkey option"
  | ChangeManager Pubkey "Pubkey option" "Pubkey option"
  | ChangeStaker Pubkey Pubkey
  | ChangeFunding Pubkey "Pubkey option" FundingType
  | ChangeFee Pubkey FeeType
  | CreateMetadata Pubkey rust_string rust_string rust_string
  | ChangeMetadata Pubkey rust_string rust_string rust_string
  | DepositStakeAccount Pubkey Pubkey Pubkey "Pubkey option" "Pubkey option"
  | DepositAllStake Pubkey Pubkey Pubkey "Pubkey option" "Pubkey option"
  | DepositLamports Pubkey "Pubkey option" "Pubkey option" "Pubkey option" u64
  | DepositWsol Pubkey "Pubkey option" "Pubkey option" "Pubkey option" ui_amount
  | WithdrawWsol Pubkey "Pubkey option" "Pubkey option" ui_amount
  | WithdrawLamports Pubkey "Pubkey option" Pubkey ui_amount
  | WithdrawStakeAccount Pubkey bool "Pubkey option" "Pubkey option" "Pubkey option" ui_amount

fun run_command ::
    "env \<Rightarrow> sdk \<Rightarrow> config \<Rightarrow> (nat \<Rightarrow> Pubkey) \<Rightarrow> command \<Rightarrow> world \<Rightarrow> (client_error + world) option" where
  "run_command E S C fr (Update k force nm stale) w = Some (command_update E S C k force nm stale w)"
| "run_command E S C fr (CreatePool a e wi df rf m p l mi r unsafe) w =
     Some (command_create_pool E S C a e wi df rf m p l mi r unsafe fr w)"
| "run_command E S C fr (VsaAdd k v) w = command_vsa_add E S C k v w"
| "run_command E S C fr (VsaRemove k v) w = Some (command_vsa_remove E S C k v w)"
| "run_command E S C fr (IncreaseStake k v l) w = Some (command_increase_validator_stake E S C k v l w)"
| "run_command E S C fr (DecreaseStake k v l) w = Some (command_decrease_validator_stake E S C k v l w)"
| "run_command E S C fr (SetPreferred k t v) w = Some (command_set_preferred_validator E S C k t v w)"
| "run_command E S C fr (ChangeManager k m r) w = Some (command_set_manager E S C k m r w)"
| "run_command E S C fr (ChangeStaker k s) w = Some (command_set_staker E S C k s w)"
| "run_command E S C fr (ChangeFunding k a t) w = Some (command_set_funding_authority E S C k a t w)"
| "run_command E S C fr (ChangeFee k f) w = Some (command_set_fee E S C k f w)"
| "run_command E S C fr (CreateMetadata k n s u) w = Some (create_token_metadata_command E S C k n s u w)"
| "run_command E S C fr (ChangeMetadata k n s u) w = Some (update_token_metadata_command E S C k n s u w)"
| "run_command E S C fr (DepositStakeAccount k s a t r) w = Some (command_deposit_stake E S C k s a t r w)"
| "run_command E S C fr (DepositAllStake k s a t r) w = Some (command_deposit_all_stake E S C k s a t r w)"
| "run_command E S C fr (DepositLamports k f t r l) w = Some (command_deposit_sol E S C k f t r l fr w)"
| "run_command E S C fr (DepositWsol k f t r a) w = Some (command_deposit_wsol_with_session E S C k f t r a w)"
| "run_command E S C fr (WithdrawWsol k f t a) w = Some (command_withdraw_wsol_with_session E S C k f t a w)"
| "run_command E S C fr (WithdrawLamports k t r a) w = Some (command_withdraw_sol E S C k t r a fr w)"
| "run_command E S C fr (WithdrawStakeAccount k b v r t a) w = Some (command_withdraw_stake E S C k b v r t a fr w)"

lemma dry_prepared: "c_dry_run C \<Longrightarrow> send_prepared C t w = Inr w' \<Longrightarrow> w' = w"
  by (cases t) (auto simp: send_prepared_def dest: dry_send)

lemma dry_setup:
  assumes dry: "c_dry_run C"
  shows "setup_reserve_stake_account E C r b a w = Inr w' \<Longrightarrow> w' = w"
    "setup_mint_account E C m b a d w = Inr (k, w') \<Longrightarrow> w' = w"
    "setup_pool_fee_account E C m tp b w = Inr w' \<Longrightarrow> w' = w"
    "setup_and_initialize_validator_list_with_stake_pool E S C p l r m tp f da ef wi df rf mv wa lb ls w = Inr w'
       \<Longrightarrow> w' = w"
  by (auto simp: setup_reserve_stake_account_def setup_mint_account_def setup_pool_fee_account_def
      setup_and_initialize_validator_list_with_stake_pool_def inversions Let_def
      split: sum.splits if_splits dest!: dry_send [OF dry])

lemma dry_deposit_stakes:
  "c_dry_run C \<Longrightarrow> deposit_stakes E S C p l k a t r ss w = Inr w' \<Longrightarrow> w' = w"
  by (induction ss arbitrary: w) (auto simp: inversions dest: dry_send)

lemma dry_funds:
  assumes dry: "c_dry_run C"
  shows "command_create_pool E S C a e wi df rf m p l mi r unsafe fr w = Inr w' \<Longrightarrow> w' = w"
    "command_deposit_stake E S C k st au rc rf' w = Inr w' \<Longrightarrow> w' = w"
    "command_deposit_all_stake E S C k st au rc rf' w = Inr w' \<Longrightarrow> w' = w"
    "command_deposit_sol E S C k snd' rc rf' lam fr w = Inr w' \<Longrightarrow> w' = w"
    "command_deposit_wsol_with_session E S C k snd' rc rf' am w = Inr w' \<Longrightarrow> w' = w"
    "command_withdraw_wsol_with_session E S C k snd' rc am w = Inr w' \<Longrightarrow> w' = w"
    "command_withdraw_sol E S C k rc dst am fr w = Inr w' \<Longrightarrow> w' = w"
    "command_withdraw_stake E S C k b v' rc' rc am fr w = Inr w' \<Longrightarrow> w' = w"
  by (auto simp: command_create_pool_def command_deposit_stake_def command_deposit_all_stake_def
      command_deposit_sol_def command_deposit_wsol_with_session_def command_withdraw_wsol_with_session_def
      command_withdraw_sol_def command_withdraw_stake_def inversions Let_def split: if_splits
      dest!: dry_send [OF dry] dry_prepared [OF dry] dry_setup [OF dry] dry_update_first [OF dry]
      dry_deposit_stakes [OF dry])

text \<open>A dry run changes nothing on the chain, whatever command is given.\<close>

lemma dry_run_changes_nothing:
  assumes "c_dry_run C" and "run_command E S C fr cmd w = Some (Inr w')"
  shows "w' = w"
  using assms(2)
  by (cases cmd)
    (auto dest: dry_vsa_add [OF assms(1)] dry_update [OF assms(1)] dry_commands [OF assms(1)]
      dry_funds [OF assms(1)])

section \<open>Sorting candidates\<close>

lemma mset_insert_by [simp]: "mset (insert_by cmp x ys) = add_mset x (mset ys)"
  by (induction ys) auto

lemma mset_sort_by [simp]: "mset (sort_by cmp xs) = mset xs"
  unfolding sort_by_def by (induction xs) simp_all

lemma set_insert_by [simp]: "set (insert_by cmp x ys) = insert x (set ys)"
  by (induction ys) auto

lemma set_sort_by [simp]: "set (sort_by cmp xs) = set xs"
  unfolding sort_by_def by (induction xs) simp_all

text \<open>A candidate may precede another: it is preferred, or neither is and it holds at least as much.\<close>

definition precedes :: "Pubkey option \<Rightarrow> candidate \<Rightarrow> candidate \<Rightarrow> bool" where
  "precedes preferred a b \<longleftrightarrow> snd (snd a) = preferred
     \<or> (snd (snd b) \<noteq> preferred \<and> fst (snd b) \<le> fst (snd a))"

lemma sorted_insert_by:
  assumes "sorted_wrt (precedes p) ys"
  shows "sorted_wrt (precedes p) (insert_by (compare_candidates p) x ys)"
  using assms
proof (induction ys)
  case (Cons y ys)
  show ?case
  proof (cases "compare_candidates p y x = OLess")
    case True
    then have "precedes p y x"
      by (auto simp: compare_candidates_def precedes_def split: if_splits)
    then show ?thesis using Cons True by auto
  next
    case False
    then have "precedes p x y" "snd (snd y) \<noteq> p"
      by (auto simp: compare_candidates_def precedes_def not_less split: if_splits)
    then have "precedes p x z" if "precedes p y z" for z
      using that by (auto simp: precedes_def intro: order_trans)
    then show ?thesis using Cons.prems False \<open>precedes p x y\<close> by auto
  qed
qed simp

lemma sorted_sort_by: "sorted_wrt (precedes p) (sort_by (compare_candidates p) xs)"
  unfolding sort_by_def by (induction xs) (simp_all add: sorted_insert_by)

section \<open>The plan of a withdrawal\<close>

text \<open>The tokens that a candidate can serve, as the loop computes them.\<close>

definition serves :: "StakePool \<Rightarrow> bool \<Rightarrow> Fee \<Rightarrow> candidate \<Rightarrow> u64" where
  "serves p skip_fee inv_fee c =
     (let t = the (calc_pool_tokens_for_deposit p (fst (snd c)))
      in if skip_fee then t else t * fee_denominator inv_fee div fee_numerator inv_fee)"

lemma withdraw_loop_plan:
  assumes "withdraw_loop p m skip_fee inv_fee cs r = Inr (was, r')"
  defines "es \<equiv> filter (\<lambda>c. m < fst (snd c)) cs"
  shows "length was \<le> length es
    \<and> (\<Sum>a\<leftarrow>was. uint (wa_pool_amount a)) + uint r' = uint r
    \<and> (\<forall>i < length was. wa_stake_address (was ! i) = fst (es ! i) \<and> wa_vote_address (was ! i) = snd (snd (es ! i))
        \<and> wa_pool_amount (was ! i) \<le> serves p skip_fee inv_fee (es ! i)
        \<and> (Suc i < length was \<longrightarrow> wa_pool_amount (was ! i) = serves p skip_fee inv_fee (es ! i)))"
  using assms(1) unfolding es_def
proof (induction cs arbitrary: r was)
  case (Cons c cs)
  obtain k l v where c: "c = (k, l, v)" by (cases c)
  show ?case
  proof (cases "l \<le> m")
    case True
    then have skip: "filter (\<lambda>c. m < fst (snd c)) (c # cs) = filter (\<lambda>c. m < fst (snd c)) cs"
      by (simp add: c leD)
    show ?thesis unfolding skip by (rule Cons.IH) (use Cons.prems True in \<open>simp add: c\<close>)
  next
    case elig: False
    let ?s = "serves p skip_fee inv_fee c"
    let ?a = "\<lparr>wa_stake_address = k, wa_vote_address = v, wa_pool_amount = min ?s r\<rparr>"
    have sub: "uint (r - min ?s r) + uint (min ?s r) = uint r"
      by (simp add: uint_sub_if' min_def word_le_def)
    have step: "if r - min ?s r = 0 then was = [?a] \<and> r' = 0
      else \<exists>was'. withdraw_loop p m skip_fee inv_fee cs (r - min ?s r) = Inr (was', r') \<and> was = ?a # was'"
      using Cons.prems elig
      by (auto simp: c unwrap_def serves_def inversions Let_def split: if_splits)
    show ?thesis
    proof (cases "r - min ?s r = 0")
      case True
      then have "r \<le> ?s" by (metis min.cobounded1 right_minus_eq)
      then show ?thesis using True step elig by (auto simp: c min_def)
    next
      case False
      then obtain was' where was: "withdraw_loop p m skip_fee inv_fee cs (r - min ?s r) = Inr (was', r')" "was = ?a # was'"
        using step by auto
      have "min ?s r = ?s" using False by (auto simp: min_def)
      then show ?thesis
        using Cons.IH [OF was(1)] sub elig
        by (auto simp: was(2) c nth_Cons less_Suc_eq_0_disj not_le split: nat.split)
    qed
  qed
qed simp

lemma withdraw_loop_panics:
  assumes "\<not> skip_fee" "fee_numerator inv_fee = 0" "c \<in> set cs" "m < fst (snd c)"
  shows "withdraw_loop p m skip_fee inv_fee cs r = Inl ClientPanic"
  using assms
proof (induction cs arbitrary: r)
  case (Cons a cs)
  obtain k l v where a: "a = (k, l, v)" by (cases a)
  then show ?case
    using Cons by (cases "l \<le> m"; cases "calc_pool_tokens_for_deposit p l") (auto simp: unwrap_def ok_or_def)
qed simp

lemma candidate_of_validator:
  "v \<in> set (vl_validators l) \<Longrightarrow>
     (fst (find_stake_program_address E (c_program_id C) (vsi_vote_account_address v) k
        (NonZeroU32_new (vsi_validator_seed_suffix v))),
      vsi_active_stake_lamports v, Some (vsi_vote_account_address v))
     \<in> set (withdraw_candidates E C p k l m res)"
  by (auto simp: withdraw_candidates_def sorted_accounts_def)

text \<open>
  The candidates of a withdrawal are all validators' accounts, the preferred validator's first and
  the others from the largest to the smallest.
\<close>

lemma sorted_accounts_order:
  "mset (sorted_accounts l p f) = image_mset f (mset (vl_validators l))
   \<and> sorted_wrt (precedes (sp_preferred_withdraw_validator_vote_address p)) (sorted_accounts l p f)"
  by (simp add: sorted_accounts_def sorted_sort_by)

lemma prepare_withdraw_loop:
  assumes "prepare_withdraw_accounts E C p amount k skip_fee w = Inr was"
  obtains d r l res where "c_get_stake_minimum_delegation C = Inr d"
    "c_get_rent_exemption C STAKE_STATE_LEN = Inr r"
    "get_validator_list C w (sp_validator_list p) = Inr l" "get_account C w (sp_reserve_stake p) = Inr res"
    "withdraw_loop p (saturating_add r (minimum_delegation d)) skip_fee
        \<lparr>fee_denominator = fee_denominator (sp_stake_withdrawal_fee p),
         fee_numerator = fee_denominator (sp_stake_withdrawal_fee p) - fee_numerator (sp_stake_withdrawal_fee p)\<rparr>
        (withdraw_candidates E C p k l (saturating_add r (minimum_delegation d))
          (acc_lamports res - r - MINIMUM_RESERVE_LAMPORTS)) amount = Inr (was, 0)"
  using assms
  by (auto simp: prepare_withdraw_accounts_def inversions Let_def word_greater_zero_iff split: if_splits)

lemma prepared_amounts:
  "prepare_withdraw_accounts E C p amount k skip_fee w = Inr was \<Longrightarrow>
     (\<Sum>a\<leftarrow>was. uint (wa_pool_amount a)) = uint amount"
  by (erule prepare_withdraw_loop) (drule withdraw_loop_plan, simp)

section \<open>What a transaction takes\<close>

text \<open>The pool tokens that an instruction of the program with this address withdraws as stake.\<close>

definition tokens_taken :: "Pubkey \<Rightarrow> BuiltInstruction \<Rightarrow> int" where
  "tokens_taken pid b =
     (if bi_program_id b \<noteq> pid then 0 else
      case try_from_slice de_instruction (bi_data b) of Inr (WithdrawStake n) \<Rightarrow> uint n | _ \<Rightarrow> 0)"

lemma foreign_takes_nothing:
  "\<forall>b \<in> set bs. bi_program_id b \<noteq> pid \<Longrightarrow> (\<Sum>b\<leftarrow>bs. tokens_taken pid b) = 0"
  by (induction bs) (simp_all add: tokens_taken_def)

lemma withdraw_stake_takes:
  "tokens_taken pid (withdraw_stake E S pid k l a sp sr ua ut t f m tp n) = uint n"
  using de_ser_instruction [of "WithdrawStake n" "[]"]
  by (simp add: withdraw_stake_def withdraw_stake_internal_def build_def tokens_taken_def try_from_slice_def
      del: ser_instruction.simps)

text \<open>The builders of other crates build no instructions for the stake pool program.\<close>

definition foreign_only :: "config \<Rightarrow> bool" where
  "foreign_only C \<longleftrightarrow> (\<forall>f. \<forall>b \<in> set (c_instructions C f). bi_program_id b \<noteq> c_program_id C)
     \<and> (\<forall>f b. c_checked_instruction C f = Inr b \<longrightarrow> bi_program_id b \<noteq> c_program_id C)"

lemma foreign_onlyD:
  "foreign_only C \<Longrightarrow> b \<in> set (c_instructions C f) \<Longrightarrow> bi_program_id b \<noteq> c_program_id C"
  "foreign_only C \<Longrightarrow> c_checked_instruction C f = Inr b \<Longrightarrow> bi_program_id b \<noteq> c_program_id C"
  by (simp_all add: foreign_only_def)

lemma foreign_merges:
  "foreign_only C \<Longrightarrow> \<forall>b \<in> set (merge_instructions C r d ns). bi_program_id b \<noteq> c_program_id C"
  by (auto simp: foreign_only_def merge_instructions_def split: option.splits)

lemma withdraw_instructions_take:
  assumes "foreign_only C"
    and "withdraw_instructions E S C p k ut t r rent fresh accounts = Inr (ixs, keys, sum_rent)"
  shows "(\<Sum>b\<leftarrow>ixs. tokens_taken (c_program_id C) b) = (\<Sum>x\<leftarrow>accounts. uint (wa_pool_amount x))"
  using assms(2)
proof (induction accounts arbitrary: fresh ixs keys sum_rent)
  case (Cons x accounts)
  have "(\<Sum>b\<leftarrow>c_instructions C f. tokens_taken (c_program_id C) b) = 0" for f
    by (rule foreign_takes_nothing) (use foreign_onlyD(1) [OF assms(1)] in blast)
  then show ?case
    using Cons by (cases r) (auto simp: inversions Let_def withdraw_stake_takes new_stake_account_def)
qed simp

text \<open>The accounts of a withdrawal are chosen for exactly the amount.\<close>

lemma chosen_amounts:
  assumes "choose_withdraw_accounts E C p k use_reserve vote receiver a amount d r w = Inr accounts"
  shows "(\<Sum>x\<leftarrow>accounts. uint (wa_pool_amount x)) = uint amount"
  using assms
  by (auto simp: choose_withdraw_accounts_def withdraw_from_validator_def inversions Let_def prepared_amounts
      split: if_splits option.splits)

text \<open>
  A receiver that is given does not keep the client from creating the associated account of the token
  owner, and from charging its rent, when that account cannot be read.
\<close>

lemma given_receiver_creates_account:
  assumes "\<not> is_ok (get_token_account C w (c_associated_token_address C owner (sp_pool_mint p) (sp_token_program_id p))
      (sp_pool_mint p))"
    and "c_get_rent_exemption C (c_account_len C) = Inr rent"
  shows "token_receiver C p owner (Some given) ixs w = Inr (given,
    ixs @ c_instructions C (CreateAssociatedTokenAccount (c_fee_payer C) owner (sp_pool_mint p) (sp_token_program_id p)),
    rent)"
  using assms by (simp add: token_receiver_def add_associated_token_account_def Let_def)

section \<open>Properties\<close>

text \<open>
  C32. The plan of a stake withdrawal, when the client finds one: the accounts are the first candidates
  that hold more than the minimum balance, in the order of the candidates, the amounts add up to
  exactly the tokens asked for, no account is asked for more than it serves, and every account but
  the last is used up.
\<close>

theorem prepare_withdraw_plan:
  assumes "prepare_withdraw_accounts E C p amount k skip_fee w = Inr was"
  shows "\<exists>d r l res. c_get_stake_minimum_delegation C = Inr d \<and> c_get_rent_exemption C STAKE_STATE_LEN = Inr r
    \<and> get_validator_list C w (sp_validator_list p) = Inr l
    \<and> get_account C w (sp_reserve_stake p) = Inr res
    \<and> (let m = saturating_add r (minimum_delegation d);
            es = filter (\<lambda>c. m < fst (snd c)) (withdraw_candidates E C p k l m
                   (acc_lamports res - r - MINIMUM_RESERVE_LAMPORTS));
            fee = sp_stake_withdrawal_fee p;
            s = serves p skip_fee \<lparr>fee_denominator = fee_denominator fee,
                  fee_numerator = fee_denominator fee - fee_numerator fee\<rparr>
        in length was \<le> length es
         \<and> (\<Sum>a\<leftarrow>was. uint (wa_pool_amount a)) = uint amount
         \<and> (\<forall>i < length was. wa_stake_address (was ! i) = fst (es ! i)
              \<and> wa_vote_address (was ! i) = snd (snd (es ! i))
              \<and> wa_pool_amount (was ! i) \<le> s (es ! i)
              \<and> (Suc i < length was \<longrightarrow> wa_pool_amount (was ! i) = s (es ! i))))"
  using assms
proof (rule prepare_withdraw_loop)
  fix d r l res
  assume "c_get_stake_minimum_delegation C = Inr d" "c_get_rent_exemption C STAKE_STATE_LEN = Inr r"
    "get_validator_list C w (sp_validator_list p) = Inr l" "get_account C w (sp_reserve_stake p) = Inr res"
    and loop: "withdraw_loop p (saturating_add r (minimum_delegation d)) skip_fee
        \<lparr>fee_denominator = fee_denominator (sp_stake_withdrawal_fee p),
         fee_numerator = fee_denominator (sp_stake_withdrawal_fee p) - fee_numerator (sp_stake_withdrawal_fee p)\<rparr>
        (withdraw_candidates E C p k l (saturating_add r (minimum_delegation d))
          (acc_lamports res - r - MINIMUM_RESERVE_LAMPORTS)) amount = Inr (was, 0)"
  then show ?thesis
    using withdraw_loop_plan [OF loop] by (simp add: Let_def)
qed

text \<open>
  A pool whose stake withdrawal fee has equal numerator and denominator makes the client panic with a
  division by zero as soon as a validator holds more than the minimum balance.
\<close>

lemma withdraw_without_fee_panics:
  assumes "fee_numerator (sp_stake_withdrawal_fee p) = fee_denominator (sp_stake_withdrawal_fee p)"
    and "c_get_stake_minimum_delegation C = Inr d" and "c_get_rent_exemption C STAKE_STATE_LEN = Inr r"
    and "get_token_mint C w (sp_pool_mint p) = Inr decimals"
    and "get_validator_list C w (sp_validator_list p) = Inr l"
    and "get_account C w (sp_reserve_stake p) = Inr res"
    and "v \<in> set (vl_validators l)"
    and "saturating_add r (minimum_delegation d) < vsi_active_stake_lamports v"
  shows "prepare_withdraw_accounts E C p amount k False w = Inl ClientPanic"
proof -
  let ?m = "saturating_add r (minimum_delegation d)"
  let ?cs = "withdraw_candidates E C p k l ?m (acc_lamports res - r - MINIMUM_RESERVE_LAMPORTS)"
  have "withdraw_loop p ?m False inv_fee ?cs amount = Inl ClientPanic" if "fee_numerator inv_fee = 0" for inv_fee
    by (rule withdraw_loop_panics [OF _ that candidate_of_validator [OF assms(7)]]) (use assms(8) in simp_all)
  then show ?thesis
    using assms(1-6) by (simp add: prepare_withdraw_accounts_def Let_def)
qed

text \<open>
  C31. The transaction of a stake withdrawal approves the transfer authority for some amount of pool
  tokens, and its withdrawals, from however many accounts, together take exactly that amount, which
  the token account holds; the instructions of other crates, which are not for this program, take none.
\<close>

theorem withdraw_stake_takes_approved:
  assumes "prepare_withdraw_stake E S C k use_reserve vote receiver account ui fresh w
      = Inr (instructions, signers, fee)"
    and "foreign_only C"
  shows "\<exists>p a amount available approve rest.
    get_stake_pool C w k = Inr p
    \<and> tokens_to_withdraw C p (c_token_owner C) account ui w = Inr (a, amount, available)
    \<and> amount \<le> available
    \<and> instructions = approve # rest
    \<and> c_checked_instruction C (TokenApprove (sp_token_program_id p) a (fresh 0) (c_token_owner C) amount)
        = Inr approve
    \<and> (\<Sum>b\<leftarrow>instructions. tokens_taken (c_program_id C) b) = uint amount"
proof -
  obtain p a amount available r d accounts approve ixs keys rent where
    run: "get_stake_pool C w k = Inr p"
      "tokens_to_withdraw C p (c_token_owner C) account ui w = Inr (a, amount, available)"
      "\<not> available < amount"
    and accounts: "choose_withdraw_accounts E C p k use_reserve vote (delegated_receiver E C receiver w) a amount
        (minimum_delegation d) r w = Inr accounts"
    and approve: "c_checked_instruction C (TokenApprove (sp_token_program_id p) a (fresh 0) (c_token_owner C) amount)
        = Inr approve"
    and ixs: "withdraw_instructions E S C p k (fresh 0) a
        (if delegated_receiver E C receiver w = None then receiver else None) r (\<lambda>i. fresh (Suc i)) accounts
        = Inr (ixs, keys, rent)"
    and ixs': "instructions = approve # ixs @ merge_instructions C receiver (delegated_receiver E C receiver w) keys"
    using assms(1) by (auto simp: prepare_withdraw_stake_def inversions Let_def split: if_splits)
  have "(\<Sum>b\<leftarrow>instructions. tokens_taken (c_program_id C) b) = (\<Sum>b\<leftarrow>ixs. tokens_taken (c_program_id C) b)"
    using foreign_takes_nothing [OF foreign_merges [OF assms(2)]] foreign_onlyD(2) [OF assms(2) approve]
    by (simp add: ixs') (simp add: tokens_taken_def)
  also have "\<dots> = (\<Sum>x\<leftarrow>accounts. uint (wa_pool_amount x))"
    by (rule withdraw_instructions_take [OF assms(2) ixs])
  also have "\<dots> = uint amount" by (rule chosen_amounts [OF accounts])
  finally show ?thesis using run approve ixs' by (auto simp: not_less)
qed

text \<open>
  C33. The accounts that the client allocates for a new pool are exactly what the program needs: in a
  zeroed list account of the size computed for \<open>n\<close> validators the program's checks on the list of a new
  pool pass for \<open>n\<close>, and an account of the size of a pool takes every pool record that the program may
  store later.
\<close>

theorem created_accounts_fit:
  assumes "0 < n" and "n \<le> MAX_VALIDATORS_IN_POOL" and "owner_of w list = pid"
    and "data_of w list = replicate (length (ser_validator_list (validator_list_new n))) 0"
    and "length (data_of w pool) = STAKE_POOL_PACKED_LEN"
  shows "initialize_validator_list w pid list n =
      Inr \<lparr>vl_header = \<lparr>vlh_account_type = ValidatorListAccount, vlh_max_validators = n\<rparr>, vl_validators = []\<rparr>
    \<and> (\<forall>p. \<exists>w'. store_pool w pool p = Inr w')"
proof -
  let ?m = "unat n * VSI_LEN"
  have size: "length (ser_validator_list (validator_list_new n)) = 9 + ?m"
    by (simp add: length_ser_validator_list validator_list_new_def HEADER_LEN_def)
  have "ser_validator_list empty_list = replicate 9 0"
    using fresh_zeroed(2) by (intro replicate_eqI) (auto simp: length_ser_validator_list empty_list_def HEADER_LEN_def)
  then have data: "data_of w list = ser_validator_list empty_list @ replicate ?m 0"
    using assms(4) by (simp add: size replicate_add)
  have "calculate_max_validators (length (data_of w list)) = unat n"
    using assms(4) by (simp add: size calculate_max_validators_def HEADER_LEN_def usize_sat_add_def
        usize_max_def VSI_LEN_def)
  moreover have "de_validator_list (data_of w list) = Some (empty_list, replicate ?m 0)"
    unfolding data by (rule de_ser_validator_list) (simp add: empty_list_def)
  ultimately have "initialize_validator_list w pid list n =
      Inr \<lparr>vl_header = \<lparr>vlh_account_type = ValidatorListAccount, vlh_max_validators = n\<rparr>, vl_validators = []\<rparr>"
    using assms(1-3)
    by (simp add: initialize_validator_list_def check_account_owner_def try_from_slice_unchecked_def
        header_is_uninitialized_def empty_list_def Let_def not_less)
  moreover have "length (ser_stake_pool p) \<le> length (data_of w pool)" for p
    using length_ser_stake_pool [of p] assms(5) by (simp add: STAKE_POOL_PACKED_LEN_def)
  ultimately show ?thesis by (simp add: store_pool_def to_writer_def)
qed

section \<open>Concrete runs of the client\<close>

definition sample_config :: config where
  "sample_config =
     \<lparr>c_program_id = 99, c_no_update = True, c_dry_run = True, c_manager = 11, c_staker = 12,
      c_funding_authority = None, c_token_owner = 19, c_fee_payer = 13,
      c_compute_unit_price = Some 1, c_compute_unit_limit = CulStatic 200000,
      c_get_account_with_commitment = (\<lambda>w k. Inr (Some (w k))),
      c_get_balance = (\<lambda>_ _. Inr 1000000), c_get_token_account_balance = (\<lambda>_ _. Inr None),
      c_get_epoch = (\<lambda>_. Inr 5), c_get_rent_exemption = (\<lambda>_. Inr 100),
      c_get_stake_minimum_delegation = Inr 1, c_get_latest_blockhash = (\<lambda>_. Inr ()),
      c_get_fee_for_message = (\<lambda>_ _. Inr 5000), c_get_program_accounts = (\<lambda>_ _ _ _. Inr []),
      c_unpack_mint_decimals = (\<lambda>_. Inr 9),
      c_unpack_account = (\<lambda>_. Inr \<lparr>tb_mint = 16, tb_amount = 5000\<rparr>),
      c_deserialize_stake = (\<lambda>_. Inl InvalidAccount), c_ui_amount_to_amount = (\<lambda>_ _. 1000),
      c_sol_str_to_lamports = (\<lambda>_. Some 1000), c_spl_token_id = 18, c_mint_len = 82,
      c_account_len = 165, c_native_decimals = 9, c_associated_token_address = (\<lambda>_ _ _. 17),
      c_instructions = (\<lambda>_. [\<lparr>bi_program_id = 5, bi_accounts = [], bi_data = []\<rparr>]),
      c_checked_instruction = (\<lambda>_. Inr \<lparr>bi_program_id = 18, bi_accounts = [], bi_data = []\<rparr>),
      c_set_compute_unit_price = (\<lambda>_. \<lparr>bi_program_id = 3, bi_accounts = [], bi_data = [3]\<rparr>),
      c_set_compute_unit_limit = (\<lambda>_. \<lparr>bi_program_id = 3, bi_accounts = [], bi_data = [2]\<rparr>),
      c_sign = (\<lambda>s ixs. Inr \<lparr>tx_signers = s, tx_instructions = ixs\<rparr>),
      c_simulate_unsigned = (\<lambda>_ _. Inr None), c_simulate = (\<lambda>_ _. Inr ()),
      c_send_and_confirm = (\<lambda>_ w. Inr w), c_send = (\<lambda>_ w. Inr w)\<rparr>"

lemma sample_reads:
  "get_stake_pool sample_config sample_world 1 = Inr sample_pool"
  "get_validator_list sample_config sample_world 14 = Inr sample_list"
  "get_account sample_config sample_world 15 = Inr (sample_world 15)"
  "get_token_mint sample_config sample_world 16 = Inr 9"
proof -
  have len: "length (vl_validators sample_list) < 2 ^ 32" by (rule sample_list_facts)
  have data: "ser_header sample_header @ sample_vec = ser_validator_list sample_list @ replicate 73 0"
    by (simp add: ser_validator_list_def sample_vec_def sample_list_def ser_u32_def)
  show "get_stake_pool sample_config sample_world 1 = Inr sample_pool"
    using b_pool.read_prefix [of sample_pool "replicate 200 0"]
    by (simp add: get_stake_pool_def get_account_def sample_config_def sample_world_def ok_or_def)
  show "get_validator_list sample_config sample_world 14 = Inr sample_list"
    using de_ser_validator_list [OF len, of "replicate 73 0"]
    by (simp add: get_validator_list_def get_account_def sample_config_def sample_world_def ok_or_def data
        try_from_slice_unchecked_def)
  show "get_account sample_config sample_world 15 = Inr (sample_world 15)"
    "get_token_mint sample_config sample_world 16 = Inr 9"
    by (simp_all add: get_account_def get_token_mint_def sample_config_def ok_or_def)
qed

lemma sample_config_fields:
  "c_dry_run sample_config" "c_fee_payer sample_config = 13" "c_compute_unit_price sample_config = Some 1"
  "c_compute_unit_limit sample_config = CulStatic 200000" "c_get_latest_blockhash sample_config w = Inr ()"
  "c_get_balance sample_config w k = Inr 1000000" "c_get_fee_for_message sample_config w ixs = Inr 5000"
  "c_sign sample_config ss ixs = Inr \<lparr>tx_signers = ss, tx_instructions = ixs\<rparr>"
  "c_simulate sample_config w tx = Inr ()"
  "c_get_account_with_commitment sample_config w k = Inr (Some (w k))"
  "c_unpack_account sample_config bs = Inr \<lparr>tb_mint = 16, tb_amount = 5000\<rparr>"
  "c_ui_amount_to_amount sample_config ui d = 1000" "c_associated_token_address sample_config a b c = 17"
  "c_get_stake_minimum_delegation sample_config = Inr 1" "c_get_rent_exemption sample_config n = Inr 100"
  by (simp_all add: sample_config_def)

theorem prepare_withdraw_plan_witness:
  "\<exists>was. prepare_withdraw_accounts sample_env sample_config sample_pool 1000 1 True sample_world = Inr was
    \<and> (\<Sum>a\<leftarrow>was. uint (wa_pool_amount a)) = 1000"
proof -
  have m: "saturating_add 100 (minimum_delegation 1) = (1000100 :: u64)"
    by (simp add: saturating_add_def minimum_delegation_def MINIMUM_ACTIVE_STAKE_def max_def)
  have calc: "calc_pool_tokens_for_deposit sample_pool 2000000 = Some 1333333"
    by (simp add: exchange_amounts sample_pool_def)
  have cands: "\<exists>cs. withdraw_candidates sample_env sample_config sample_pool 1 sample_list 1000100 r
      = (50, 2000000, Some 22) # cs" for r
    by (simp add: withdraw_candidates_def sorted_accounts_def sort_by_def compare_candidates_def sample_list_def
        sample_validators_def default_vsi_def sample_pool_def find_stake_program_address_def sample_simps)
  have "\<exists>was. prepare_withdraw_accounts sample_env sample_config sample_pool 1000 1 True sample_world = Inr was"
  proof -
    obtain cs where cs: "withdraw_candidates sample_env sample_config sample_pool 1 sample_list 1000100
        (acc_lamports (sample_world 15) - 100 - MINIMUM_RESERVE_LAMPORTS) = (50, 2000000, Some 22) # cs"
      using cands by blast
    show ?thesis
      by (simp add: prepare_withdraw_accounts_def sample_reads sample_simps sample_config_fields m cs calc
          unwrap_def ok_or_def)
  qed
  then obtain was where was: "prepare_withdraw_accounts sample_env sample_config sample_pool 1000 1 True sample_world = Inr was"
    by blast
  from prepare_withdraw_plan [OF was] was show ?thesis by (auto simp: Let_def)
qed

lemma sample_tokens:
  "tokens_to_withdraw sample_config sample_pool 19 None ui sample_world = Inr (17, 1000, 5000)"
  by (simp add: tokens_to_withdraw_def sample_reads sample_pool_fields get_token_account_def get_account_def
      sample_config_fields ok_or_def)

theorem withdraw_stake_takes_approved_witness:
  "\<exists>ixs signers fee. prepare_withdraw_stake sample_env sample_sdk sample_config 1 True None None None ''1'' (\<lambda>i. of_nat (80 + i))
      sample_world = Inr (ixs, signers, fee)
    \<and> (\<Sum>b\<leftarrow>ixs. tokens_taken 99 b) = 1000"
proof -
  let ?fresh = "\<lambda>i. of_nat (80 + i) :: Pubkey"
  have calc: "calc_lamports_withdraw_amount sample_pool 1000 = Some 1500"
    by (simp add: exchange_amounts sample_pool_def)
  have foreign: "foreign_only sample_config"
    by (auto simp: foreign_only_def sample_config_def)
  have owner: "c_token_owner sample_config = 19" "c_program_id sample_config = 99"
    and approve: "\<exists>b. c_checked_instruction sample_config f = Inr b" for f
    by (simp_all add: sample_config_def)
  obtain b where b: "c_checked_instruction sample_config (TokenApprove 18 17 (?fresh 0) 19 1000) = Inr b"
    using approve by blast
  have "\<exists>ixs signers fee. prepare_withdraw_stake sample_env sample_sdk sample_config 1 True None None None ''1'' ?fresh
      sample_world = Inr (ixs, signers, fee)"
    using b by (simp add: prepare_withdraw_stake_def sample_reads sample_tokens owner sample_config_fields
        sample_pool_fields delegated_receiver_def choose_withdraw_accounts_def calc unwrap_def ok_or_def)
  then obtain ixs signers fee where run: "prepare_withdraw_stake sample_env sample_sdk sample_config 1 True None None
      None ''1'' ?fresh sample_world = Inr (ixs, signers, fee)" by blast
  from withdraw_stake_takes_approved [OF run foreign] have "(\<Sum>b\<leftarrow>ixs. tokens_taken 99 b) = 1000"
    by (auto simp: sample_reads sample_tokens owner)
  with run show ?thesis by blast
qed

theorem created_accounts_fit_witness:
  "\<exists>w. initialize_validator_list w 99 (acct 14) 4 =
      Inr \<lparr>vl_header = \<lparr>vlh_account_type = ValidatorListAccount, vlh_max_validators = 4\<rparr>, vl_validators = []\<rparr>
    \<and> (\<exists>w'. store_pool w (acct 1) sample_pool = Inr w')"
proof -
  define w where "w = sample_world
     (1 := \<lparr>acc_lamports = 1, acc_data = replicate 611 0, acc_owner = 99\<rparr>,
      14 := \<lparr>acc_lamports = 1, acc_data = replicate (length (ser_validator_list (validator_list_new 4))) 0,
             acc_owner = 99\<rparr>)"
  have "owner_of w (acct 14) = 99" "length (data_of w (acct 1)) = STAKE_POOL_PACKED_LEN"
    "data_of w (acct 14) = replicate (length (ser_validator_list (validator_list_new 4))) 0"
    by (simp_all add: w_def owner_of_def data_of_def acct_def STAKE_POOL_PACKED_LEN_def)
  moreover have "(0 :: u32) < 4" "(4 :: u32) \<le> MAX_VALIDATORS_IN_POOL"
    by (simp_all add: MAX_VALIDATORS_IN_POOL_def)
  ultimately show ?thesis using created_accounts_fit [of 4 w "acct 14" 99 "acct 1"] by blast
qed

end
