(* ===== verification/Text_Numbers.thy ===== *)
theory Text_Numbers
  imports Prelude
begin

text \<open>
  What the client uses of Rust's strings: printing of unsigned integers, \<open>str::parse\<close> of them, \<open>contains\<close>,
  and the lines of \<open>writeln!\<close>. Strings are lists of characters.
\<close>

section \<open>Printing\<close>

definition digit_char :: "nat \<Rightarrow> char" where
  "digit_char d = char_of (48 + d)"

fun show_nat :: "nat \<Rightarrow> string" where
  "show_nat n =
     (if n \<ge> 10 then show_nat (n div 10) @ [digit_char (n mod 10)] else [digit_char n])"

declare show_nat.simps [simp del]

definition show_word :: "'a::len word \<Rightarrow> string" where
  "show_word w = show_nat (unat w)"

definition newline :: string where
  "newline = [CHR 0x0A]"

definition tab :: string where
  "tab = [CHR 0x09]"

text \<open>\<open>writeln!\<close> of the given parts.\<close>

definition writeln :: "string list \<Rightarrow> string" where
  "writeln parts = concat parts @ newline"

section \<open>Parsing\<close>

definition digit_value :: "char \<Rightarrow> nat option" where
  "digit_value c = (let n = of_char c in if 48 \<le> n \<and> n < 58 then Some (n - 48) else None)"

fun parse_digits :: "nat \<Rightarrow> nat \<Rightarrow> string \<Rightarrow> nat option" where
  "parse_digits limit acc [] = Some acc"
| "parse_digits limit acc (c # cs) =
     (case digit_value c of
        None \<Rightarrow> None
      | Some d \<Rightarrow> if acc * 10 + d > limit then None else parse_digits limit (acc * 10 + d) cs)"

text \<open>
  \<open>parse\<close> of an unsigned type with the given maximum: one plus sign may stand before at least one
  digit, nothing else is accepted, and a value above the maximum is an error.
\<close>

definition parse_unsigned :: "nat \<Rightarrow> string \<Rightarrow> nat option" where
  "parse_unsigned limit s =
     (case s of
        [] \<Rightarrow> None
      | c # cs \<Rightarrow> parse_digits limit 0 (if c = CHR ''+'' \<and> cs \<noteq> [] then cs else s))"

definition parse_word :: "string \<Rightarrow> 'a::len word option" where
  "parse_word s = map_option of_nat (parse_unsigned (2 ^ LENGTH('a) - 1) s)"

fun str_contains :: "string \<Rightarrow> string \<Rightarrow> bool" where
  "str_contains pattern [] = (pattern = [])"
| "str_contains pattern (c # cs) =
     (take (length pattern) (c # cs) = pattern \<or> str_contains pattern cs)"

section \<open>Parsing reads what was printed\<close>

lemma digit_value_char [simp]: "d < 10 \<Longrightarrow> digit_value (digit_char d) = Some d"
  by (simp add: digit_value_def digit_char_def Let_def)

lemma digit_char_plus: "d < 10 \<Longrightarrow> digit_char d \<noteq> CHR ''+''"
  using digit_value_char [of d] by (auto simp: digit_value_def)

lemma show_nat_not_Nil [simp]: "show_nat n \<noteq> []"
  by (subst show_nat.simps) simp

lemma hd_show_nat: "hd (show_nat n) \<noteq> CHR ''+''"
proof (induction n rule: show_nat.induct)
  case (1 n)
  show ?case
    using 1 by (subst show_nat.simps) (auto simp: digit_char_plus)
qed

lemma parse_digits_append:
  "parse_digits limit acc (xs @ ys) =
     (case parse_digits limit acc xs of None \<Rightarrow> None | Some a \<Rightarrow> parse_digits limit a ys)"
  by (induction xs arbitrary: acc) (auto split: option.split)

lemma parse_digits_show: "n \<le> limit \<Longrightarrow> parse_digits limit 0 (show_nat n) = Some n"
proof (induction n rule: show_nat.induct)
  case (1 n)
  show ?case
  proof (cases "n \<ge> 10")
    case True
    have "n div 10 * 10 + n mod 10 = n" by simp
    moreover have "n div 10 \<le> limit" using "1.prems" by (meson div_le_dividend le_trans)
    ultimately show ?thesis
      using 1 True by (subst show_nat.simps) (simp add: parse_digits_append)
  next
    case False
    then show ?thesis using "1.prems" by (subst show_nat.simps) simp
  qed
qed

lemma parse_show_word: "parse_word (show_word (w :: 'a::len word)) = Some w"
proof -
  have le: "unat w \<le> 2 ^ LENGTH('a) - 1"
    using unsigned_less [of w, where ?'a = nat] by linarith
  obtain c cs where s: "show_nat (unat w) = c # cs" by (cases "show_nat (unat w)") auto
  have "c \<noteq> CHR ''+''" using hd_show_nat [of "unat w"] s by simp
  then show ?thesis
    using parse_digits_show [OF le] s by (simp add: parse_word_def parse_unsigned_def show_word_def)
qed

end
