(* ===== verification/Client_Output.thy ===== *)
theory Client_Output
  imports Client_Funds Text_Numbers
begin

text \<open>
  The listing commands of the client and what they print (\<^verbatim>\<open>clients/cli/src/output.rs\<close>, \<open>command_list\<close>
  and \<open>command_list_all_pools\<close> of \<^verbatim>\<open>main.rs\<close>, \<open>get_stake_pools\<close> of \<^verbatim>\<open>client.rs\<close>): the records shown, how
  they are made of a pool and its list, and their text. The text of keys, amounts of SOL and floating
  point numbers and JSON belong to other crates and are fields of the record \<open>display\<close>.
\<close>

section \<open>The records shown\<close>

record CliStakePoolFee =
  clf_denominator :: u64
  clf_numerator :: u64

record CliStakePoolLockup =
  cll_unix_timestamp :: i64
  cll_epoch :: u64
  cll_custodian :: string

datatype CliStakePoolValidatorStakeStatus =
    CliActive | CliDeactivatingTransient | CliReadyForRemoval | CliDeactivatingValidator
  | CliDeactivatingAll

record CliStakePoolValidator =
  clv_active_stake_lamports :: u64
  clv_transient_stake_lamports :: u64
  clv_last_update_epoch :: u64
  clv_transient_seed_suffix :: u64
  clv_unused :: u32
  clv_validator_seed_suffix :: u32
  clv_status :: CliStakePoolValidatorStakeStatus
  clv_vote_account_address :: string

record CliStakePoolStakeAccountInfo =
  cla_vote_account_address :: string
  cla_stake_account_address :: string
  cla_validator_active_stake_lamports :: u64
  cla_validator_last_update_epoch :: u64
  cla_validator_lamports :: u64
  cla_validator_transient_stake_account_address :: string
  cla_validator_transient_stake_lamports :: u64
  cla_update_required :: bool

record CliStakePoolDetails =
  cld_reserve_stake_account_address :: string
  cld_reserve_stake_lamports :: u64
  cld_minimum_reserve_stake_balance :: u64
  cld_stake_accounts :: "CliStakePoolStakeAccountInfo list"
  cld_total_lamports :: u64
  cld_total_pool_tokens :: ui_amount
  cld_current_number_of_validators :: u32
  cld_max_number_of_validators :: u32
  cld_update_required :: bool

record CliStakePool =
  cl_address :: string
  cl_pool_withdraw_authority :: string
  cl_manager :: string
  cl_staker :: string
  cl_stake_deposit_authority :: string
  cl_stake_withdraw_bump_seed :: u8
  cl_max_validators :: u32
  cl_validator_list :: "CliStakePoolValidator list"
  cl_validator_list_storage_account :: string
  cl_reserve_stake :: string
  cl_pool_mint :: string
  cl_manager_fee_account :: string
  cl_token_program_id :: string
  cl_total_lamports :: u64
  cl_pool_token_supply :: u64
  cl_last_update_epoch :: u64
  cl_lockup :: CliStakePoolLockup
  cl_epoch_fee :: CliStakePoolFee
  cl_next_epoch_fee :: "CliStakePoolFee option"
  cl_preferred_deposit_validator_vote_address :: "string option"
  cl_preferred_withdraw_validator_vote_address :: "string option"
  cl_stake_deposit_fee :: CliStakePoolFee
  cl_stake_withdrawal_fee :: CliStakePoolFee
  cl_next_stake_withdrawal_fee :: "CliStakePoolFee option"
  cl_stake_referral_fee :: u8
  cl_sol_deposit_authority :: "string option"
  cl_sol_deposit_fee :: CliStakePoolFee
  cl_sol_referral_fee :: u8
  cl_sol_withdraw_authority :: "string option"
  cl_sol_withdrawal_fee :: CliStakePoolFee
  cl_next_sol_withdrawal_fee :: "CliStakePoolFee option"
  cl_last_epoch_pool_token_supply :: u64
  cl_last_epoch_total_lamports :: u64
  cl_details :: "CliStakePoolDetails option"

datatype OutputFormat = OutDisplay | OutDisplayVerbose | OutJson | OutJsonCompact

record display =
  d_key :: "Pubkey \<Rightarrow> string"
  d_sol :: "u64 \<Rightarrow> string"
  d_f64 :: "ui_amount \<Rightarrow> string"
  d_amount_to_ui_amount :: "u64 \<Rightarrow> u8 \<Rightarrow> ui_amount"
  d_json :: "bool \<Rightarrow> CliStakePool \<Rightarrow> string"
  d_json_all :: "bool \<Rightarrow> CliStakePool list \<Rightarrow> string"

section \<open>From the accounts to the records\<close>

definition cli_fee :: "Fee \<Rightarrow> CliStakePoolFee" where
  "cli_fee f = \<lparr>clf_denominator = fee_denominator f, clf_numerator = fee_numerator f\<rparr>"

definition cli_lockup :: "display \<Rightarrow> Lockup \<Rightarrow> CliStakePoolLockup" where
  "cli_lockup D l =
     \<lparr>cll_unix_timestamp = lockup_unix_timestamp l, cll_epoch = lockup_epoch l,
      cll_custodian = d_key D (lockup_custodian l)\<rparr>"

fun cli_stake_status :: "StakeStatus \<Rightarrow> CliStakePoolValidatorStakeStatus" where
  "cli_stake_status Active = CliActive"
| "cli_stake_status DeactivatingTransient = CliDeactivatingTransient"
| "cli_stake_status ReadyForRemoval = CliReadyForRemoval"
| "cli_stake_status DeactivatingValidator = CliDeactivatingValidator"
| "cli_stake_status DeactivatingAll = CliDeactivatingAll"

definition cli_status :: "u8 \<Rightarrow> client_error + CliStakePoolValidatorStakeStatus" where
  "cli_status s = tri (unwrap_result (status_try_from s)) (\<lambda>s. Inr (cli_stake_status s))"

definition cli_validator :: "display \<Rightarrow> ValidatorStakeInfo \<Rightarrow> client_error + CliStakePoolValidator" where
  "cli_validator D v =
     tri (cli_status (vsi_status v)) (\<lambda>status.
     Inr \<lparr>clv_active_stake_lamports = vsi_active_stake_lamports v,
          clv_transient_stake_lamports = vsi_transient_stake_lamports v,
          clv_last_update_epoch = vsi_last_update_epoch v,
          clv_transient_seed_suffix = vsi_transient_seed_suffix v, clv_unused = vsi_unused v,
          clv_validator_seed_suffix = vsi_validator_seed_suffix v, clv_status = status,
          clv_vote_account_address = d_key D (vsi_vote_account_address v)\<rparr>)"

text \<open>\<open>map\<close> and \<open>collect\<close> with a function that may panic.\<close>

fun collect_map :: "('a \<Rightarrow> client_error + 'b) \<Rightarrow> 'a list \<Rightarrow> client_error + 'b list" where
  "collect_map f [] = Inr []"
| "collect_map f (x # xs) = tri (f x) (\<lambda>y. tri (collect_map f xs) (\<lambda>ys. Inr (y # ys)))"

definition cli_stake_pool ::
    "display \<Rightarrow> Pubkey \<Rightarrow> StakePool \<Rightarrow> ValidatorList \<Rightarrow> Pubkey \<Rightarrow> client_error + CliStakePool" where
  "cli_stake_pool D address stake_pool validator_list pool_withdraw_authority =
     tri (collect_map (cli_validator D) (vl_validators validator_list)) (\<lambda>validators.
     Inr \<lparr>cl_address = d_key D address,
          cl_pool_withdraw_authority = d_key D pool_withdraw_authority,
          cl_manager = d_key D (sp_manager stake_pool), cl_staker = d_key D (sp_staker stake_pool),
          cl_stake_deposit_authority = d_key D (sp_stake_deposit_authority stake_pool),
          cl_stake_withdraw_bump_seed = sp_stake_withdraw_bump_seed stake_pool,
          cl_max_validators = vlh_max_validators (vl_header validator_list),
          cl_validator_list = validators,
          cl_validator_list_storage_account = d_key D (sp_validator_list stake_pool),
          cl_reserve_stake = d_key D (sp_reserve_stake stake_pool),
          cl_pool_mint = d_key D (sp_pool_mint stake_pool),
          cl_manager_fee_account = d_key D (sp_manager_fee_account stake_pool),
          cl_token_program_id = d_key D (sp_token_program_id stake_pool),
          cl_total_lamports = sp_total_lamports stake_pool,
          cl_pool_token_supply = sp_pool_token_supply stake_pool,
          cl_last_update_epoch = sp_last_update_epoch stake_pool,
          cl_lockup = cli_lockup D (sp_lockup stake_pool),
          cl_epoch_fee = cli_fee (sp_epoch_fee stake_pool),
          cl_next_epoch_fee =
            map_option cli_fee (option_of_future_epoch (sp_next_epoch_fee stake_pool)),
          cl_preferred_deposit_validator_vote_address =
            map_option (d_key D) (sp_preferred_deposit_validator_vote_address stake_pool),
          cl_preferred_withdraw_validator_vote_address =
            map_option (d_key D) (sp_preferred_withdraw_validator_vote_address stake_pool),
          cl_stake_deposit_fee = cli_fee (sp_stake_deposit_fee stake_pool),
          cl_stake_withdrawal_fee = cli_fee (sp_stake_withdrawal_fee stake_pool),
          cl_next_stake_withdrawal_fee =
            map_option cli_fee (option_of_future_epoch (sp_next_stake_withdrawal_fee stake_pool)),
          cl_stake_referral_fee = sp_stake_referral_fee stake_pool,
          cl_sol_deposit_authority = map_option (d_key D) (sp_sol_deposit_authority stake_pool),
          cl_sol_deposit_fee = cli_fee (sp_sol_deposit_fee stake_pool),
          cl_sol_referral_fee = sp_sol_referral_fee stake_pool,
          cl_sol_withdraw_authority = map_option (d_key D) (sp_sol_withdraw_authority stake_pool),
          cl_sol_withdrawal_fee = cli_fee (sp_sol_withdrawal_fee stake_pool),
          cl_next_sol_withdrawal_fee =
            map_option cli_fee (option_of_future_epoch (sp_next_sol_withdrawal_fee stake_pool)),
          cl_last_epoch_pool_token_supply = sp_last_epoch_pool_token_supply stake_pool,
          cl_last_epoch_total_lamports = sp_last_epoch_total_lamports stake_pool,
          cl_details = None\<rparr>)"

section \<open>The text\<close>

definition fmt_fee :: "CliStakePoolFee \<Rightarrow> string" where
  "fmt_fee f = show_word (clf_numerator f) @ ''/'' @ show_word (clf_denominator f)"

definition fmt_stake_pools :: "CliStakePool list \<Rightarrow> string" where
  "fmt_stake_pools pools =
     concat (map (\<lambda>pool. writeln
       [''Address: '', cl_address pool, tab, ''Manager: '', cl_manager pool, tab,
        ''Lamports: '', show_word (cl_total_lamports pool), tab,
        ''Pool tokens: '', show_word (cl_pool_token_supply pool), tab,
        ''Validators: '', show_nat (length (cl_validator_list pool))]) pools)
     @ writeln [''Total number of pools: '', show_nat (length pools)]"

definition optional_line :: "string \<Rightarrow> string option \<Rightarrow> string" where
  "optional_line label x = (case x of None \<Rightarrow> [] | Some s \<Rightarrow> writeln [label, s])"

definition or_none :: "string option \<Rightarrow> string" where
  "or_none x = (case x of None \<Rightarrow> ''None'' | Some s \<Rightarrow> s)"

definition optional_fee_line :: "string \<Rightarrow> string \<Rightarrow> CliStakePoolFee option \<Rightarrow> string" where
  "optional_fee_line label of_what x =
     (case x of None \<Rightarrow> [] | Some f \<Rightarrow> writeln [label, fmt_fee f, of_what])"

definition update_mark :: "bool \<Rightarrow> string" where
  "update_mark required = (if required then '' [UPDATE REQUIRED]'' else [])"

text \<open>The end of both texts of the details, and the balance of the reserve, which wraps.\<close>

definition fmt_details_totals :: "display \<Rightarrow> CliStakePoolDetails \<Rightarrow> string" where
  "fmt_details_totals D self =
     writeln [''Total Pool Stake: '', d_sol D (cld_total_lamports self), '' '',
              update_mark (cld_update_required self)]
     @ writeln [''Total Pool Tokens: '', d_f64 D (cld_total_pool_tokens self)]
     @ writeln [''Current Number of Validators: '',
                show_word (cld_current_number_of_validators self)]
     @ writeln [''Max Number of Validators: '', show_word (cld_max_number_of_validators self)]"

definition fmt_reserve :: "display \<Rightarrow> CliStakePoolDetails \<Rightarrow> string" where
  "fmt_reserve D self =
     writeln [''Reserve Account: '', cld_reserve_stake_account_address self, tab,
              ''Available Balance: '',
              d_sol D (cld_reserve_stake_lamports self - cld_minimum_reserve_stake_balance self)]"

definition fmt_details :: "display \<Rightarrow> CliStakePoolDetails \<Rightarrow> string" where
  "fmt_details D self =
     fmt_reserve D self
     @ concat (map (\<lambda>stake_account. writeln
         [''Vote Account: '', cla_vote_account_address stake_account, tab,
          ''Balance: '', d_sol D (cla_validator_lamports stake_account), tab,
          ''Last Update Epoch: '', show_word (cla_validator_last_update_epoch stake_account)])
         (cld_stake_accounts self))
     @ fmt_details_totals D self"

definition verbose_details :: "display \<Rightarrow> CliStakePoolDetails \<Rightarrow> string" where
  "verbose_details D self =
     writeln [''Stake Accounts''] @ writeln [''--------------''] @ fmt_reserve D self
     @ concat (map (\<lambda>stake_account. writeln
         [''Vote Account: '', cla_vote_account_address stake_account, tab,
          ''Stake Account: '', cla_stake_account_address stake_account, tab,
          ''Active Balance: '', d_sol D (cla_validator_active_stake_lamports stake_account), tab,
          ''Transient Stake Account: '', cla_validator_transient_stake_account_address stake_account, tab,
          ''Transient Balance: '', d_sol D (cla_validator_transient_stake_lamports stake_account), tab,
          ''Last Update Epoch: '', show_word (cla_validator_last_update_epoch stake_account),
          update_mark (cla_update_required stake_account)])
         (cld_stake_accounts self))
     @ fmt_details_totals D self"

text \<open>The lines on deposit and referral fees, which end both texts of a pool.\<close>

definition fmt_deposit_fees :: "CliStakePool \<Rightarrow> string" where
  "fmt_deposit_fees self =
     writeln [''Stake Deposit Fee: '', fmt_fee (cl_stake_deposit_fee self), '' of deposit amount'']
     @ writeln [''SOL Deposit Fee: '', fmt_fee (cl_sol_deposit_fee self), '' of deposit amount'']
     @ writeln [''Stake Deposit Referral Fee: '', show_word (cl_stake_referral_fee self),
                ''% of Stake Deposit Fee'']
     @ writeln [''SOL Deposit Referral Fee: '', show_word (cl_sol_referral_fee self),
                ''% of SOL Deposit Fee'']"

definition fmt_preferred :: "CliStakePool \<Rightarrow> string" where
  "fmt_preferred self =
     optional_line ''Preferred Deposit Validator: '' (cl_preferred_deposit_validator_vote_address self)
     @ optional_line ''Preferred Withdraw Validator: ''
         (cl_preferred_withdraw_validator_vote_address self)"

definition fmt_stake_pool :: "CliStakePool \<Rightarrow> string" where
  "fmt_stake_pool self =
     writeln [''Stake Pool: '', cl_address self]
     @ writeln [''Validator List: '', cl_validator_list_storage_account self]
     @ writeln [''Pool Token Mint: '', cl_pool_mint self]
     @ fmt_preferred self
     @ writeln [''Epoch Fee: '', fmt_fee (cl_epoch_fee self), '' of epoch rewards'']
     @ writeln [''Stake Withdrawal Fee: '', fmt_fee (cl_stake_withdrawal_fee self),
                '' of withdrawal amount'']
     @ writeln [''SOL Withdrawal Fee: '', fmt_fee (cl_sol_withdrawal_fee self),
                '' of withdrawal amount'']
     @ fmt_deposit_fees self"

definition verbose_stake_pool :: "display \<Rightarrow> CliStakePool \<Rightarrow> string" where
  "verbose_stake_pool D self =
     writeln [''Stake Pool Info''] @ writeln [''==============='']
     @ writeln [''Stake Pool: '', cl_address self]
     @ writeln [''Validator List: '', cl_validator_list_storage_account self]
     @ writeln [''Manager: '', cl_manager self] @ writeln [''Staker: '', cl_staker self]
     @ writeln [''Depositor: '', cl_stake_deposit_authority self]
     @ writeln [''SOL Deposit Authority: '', or_none (cl_sol_deposit_authority self)]
     @ writeln [''SOL Withdraw Authority: '', or_none (cl_sol_withdraw_authority self)]
     @ writeln [''Withdraw Authority: '', cl_pool_withdraw_authority self]
     @ writeln [''Pool Token Mint: '', cl_pool_mint self]
     @ writeln [''Fee Account: '', cl_manager_fee_account self]
     @ fmt_preferred self
     @ writeln [''Epoch Fee: '', fmt_fee (cl_epoch_fee self), '' of epoch rewards'']
     @ optional_fee_line ''Next Epoch Fee: '' '' of epoch rewards'' (cl_next_epoch_fee self)
     @ writeln [''Stake Withdrawal Fee: '', fmt_fee (cl_stake_withdrawal_fee self),
                '' of withdrawal amount'']
     @ optional_fee_line ''Next Stake Withdrawal Fee: '' '' of withdrawal amount''
         (cl_next_stake_withdrawal_fee self)
     @ writeln [''SOL Withdrawal Fee: '', fmt_fee (cl_sol_withdrawal_fee self),
                '' of withdrawal amount'']
     @ optional_fee_line ''Next SOL Withdrawal Fee: '' '' of withdrawal amount''
         (cl_next_sol_withdrawal_fee self)
     @ fmt_deposit_fees self @ newline
     @ (case cl_details self of None \<Rightarrow> [] | Some details \<Rightarrow> verbose_details D details)"

section \<open>The listing commands\<close>

definition formatted_string :: "display \<Rightarrow> OutputFormat \<Rightarrow> CliStakePool \<Rightarrow> string" where
  "formatted_string D output_format pool =
     (case output_format of
        OutDisplay \<Rightarrow> fmt_stake_pool pool
      | OutDisplayVerbose \<Rightarrow> verbose_stake_pool D pool
      | OutJson \<Rightarrow> d_json D False pool
      | OutJsonCompact \<Rightarrow> d_json D True pool)"

text \<open>One line of the details; \<open>stake_lamports().unwrap()\<close> may panic.\<close>

definition cli_stake_account ::
    "env \<Rightarrow> display \<Rightarrow> config \<Rightarrow> Pubkey \<Rightarrow> u64 \<Rightarrow> ValidatorStakeInfo
      \<Rightarrow> client_error + CliStakePoolStakeAccountInfo" where
  "cli_stake_account E D C stake_pool_address epoch validator =
     (let stake_account_address = fst (find_stake_program_address E (c_program_id C)
            (vsi_vote_account_address validator) stake_pool_address
            (NonZeroU32_new (vsi_validator_seed_suffix validator)));
          transient_stake_account_address = fst (find_transient_stake_program_address E
            (c_program_id C) (vsi_vote_account_address validator) stake_pool_address
            (vsi_transient_seed_suffix validator));
          update_required = vsi_last_update_epoch validator \<noteq> epoch in
      tri (unwrap_result (lift_spe (stake_lamports validator))) (\<lambda>validator_lamports.
      Inr \<lparr>cla_vote_account_address = d_key D (vsi_vote_account_address validator),
           cla_stake_account_address = d_key D stake_account_address,
           cla_validator_active_stake_lamports = vsi_active_stake_lamports validator,
           cla_validator_last_update_epoch = vsi_last_update_epoch validator,
           cla_validator_lamports = validator_lamports,
           cla_validator_transient_stake_account_address = d_key D transient_stake_account_address,
           cla_validator_transient_stake_lamports = vsi_transient_stake_lamports validator,
           cla_update_required = update_required\<rparr>))"

text \<open>The record that \<open>command_list\<close> shows, and the command.\<close>

definition listed_pool ::
    "env \<Rightarrow> display \<Rightarrow> config \<Rightarrow> Pubkey \<Rightarrow> world \<Rightarrow> client_error + CliStakePool" where
  "listed_pool E D C stake_pool_address w =
     tri (get_stake_pool C w stake_pool_address) (\<lambda>stake_pool.
     tri (get_validator_list C w (sp_validator_list stake_pool)) (\<lambda>validator_list.
     tri (get_token_mint C w (sp_pool_mint stake_pool)) (\<lambda>decimals.
     tri (c_get_epoch C w) (\<lambda>epoch.
     let pool_withdraw_authority =
           fst (find_withdraw_authority_program_address E (c_program_id C) stake_pool_address) in
     tri (get_account C w (sp_reserve_stake stake_pool)) (\<lambda>reserve_stake.
     tri (c_get_rent_exemption C STAKE_STATE_LEN) (\<lambda>rent.
     let minimum_reserve_stake_balance = rent + MINIMUM_RESERVE_LAMPORTS in
     tri (collect_map (cli_stake_account E D C stake_pool_address epoch)
            (vl_validators validator_list)) (\<lambda>stake_accounts.
     tri (cli_stake_pool D stake_pool_address stake_pool validator_list pool_withdraw_authority)
       (\<lambda>pool.
     Inr (pool\<lparr>cl_details := Some
       \<lparr>cld_reserve_stake_account_address = d_key D (sp_reserve_stake stake_pool),
        cld_reserve_stake_lamports = acc_lamports reserve_stake,
        cld_minimum_reserve_stake_balance = minimum_reserve_stake_balance,
        cld_stake_accounts = stake_accounts, cld_total_lamports = sp_total_lamports stake_pool,
        cld_total_pool_tokens =
          d_amount_to_ui_amount D (sp_pool_token_supply stake_pool) decimals,
        cld_current_number_of_validators = of_nat (length (vl_validators validator_list)),
        cld_max_number_of_validators = vlh_max_validators (vl_header validator_list),
        cld_update_required = (sp_last_update_epoch stake_pool \<noteq> epoch)\<rparr>\<rparr>)))))))))"

definition command_list ::
    "env \<Rightarrow> display \<Rightarrow> config \<Rightarrow> OutputFormat \<Rightarrow> Pubkey \<Rightarrow> world \<Rightarrow> client_error + string" where
  "command_list E D C output_format stake_pool_address w =
     tri (listed_pool E D C stake_pool_address w) (\<lambda>pool.
     Inr (formatted_string D output_format pool @ newline))"

text \<open>
  All pools of the program: the accounts that begin with the byte of a pool (\<open>"2"\<close> in base 58 is the
  byte 1); an account that does not decode, or whose list cannot be read, is left out.
\<close>

definition get_stake_pools ::
    "env \<Rightarrow> config \<Rightarrow> world
      \<Rightarrow> client_error + (Pubkey \<times> StakePool \<times> ValidatorList \<times> Pubkey) list" where
  "get_stake_pools E C w =
     tri (c_get_program_accounts C w (c_program_id C) 0 [1]) (\<lambda>accounts.
     Inr (List.map_filter (\<lambda>(address, account).
       let pool_withdraw_authority =
             fst (find_withdraw_authority_program_address E (c_program_id C) address) in
       case try_from_slice_unchecked de_stake_pool (acc_data account) of
         Inr stake_pool \<Rightarrow>
           (case get_validator_list C w (sp_validator_list stake_pool) of
              Inr validator_list \<Rightarrow>
                Some (address, stake_pool, validator_list, pool_withdraw_authority)
            | Inl _ \<Rightarrow> None)
       | Inl _ \<Rightarrow> None) accounts))"

definition command_list_all_pools ::
    "env \<Rightarrow> display \<Rightarrow> config \<Rightarrow> OutputFormat \<Rightarrow> world \<Rightarrow> client_error + string" where
  "command_list_all_pools E D C output_format w =
     tri (get_stake_pools E C w) (\<lambda>all_pools.
     tri (collect_map (\<lambda>(address, stake_pool, validator_list, pool_withdraw_authority).
            cli_stake_pool D address stake_pool validator_list pool_withdraw_authority) all_pools)
       (\<lambda>pools.
     Inr ((case output_format of
             OutJson \<Rightarrow> d_json_all D False pools
           | OutJsonCompact \<Rightarrow> d_json_all D True pools
           | _ \<Rightarrow> fmt_stake_pools pools) @ newline)))"

section \<open>When a pool can be listed\<close>

lemma collect_map_Inr:
  "collect_map f xs = Inr ys \<longleftrightarrow> list_all2 (\<lambda>x y. f x = Inr y) xs ys"
  by (induction xs arbitrary: ys) (auto simp: inversions list_all2_Cons1)

lemma collect_map_total:
  assumes "\<And>x. x \<in> set xs \<Longrightarrow> f x = Inr (g x)"
  shows "collect_map f xs = Inr (map g xs)"
  using assms by (simp add: collect_map_Inr list_all2_conv_all_nth)

lemma cli_status_Inr: "status_try_from s = Inr st \<Longrightarrow> cli_status s = Inr (cli_stake_status st)"
  by (simp add: cli_status_def unwrap_result_def)

lemma cli_status_valid: "is_ok (status_try_from s) \<longleftrightarrow> is_ok (cli_status s)"
  by (cases "status_try_from s") (simp_all add: cli_status_def unwrap_result_def)

text \<open>The client decodes the whole list where the program keeps a view of its bytes: both see the same records.\<close>

lemma view_decodes:
  assumes "vlist_wf bv"
  shows "try_from_slice_unchecked de_validator_list (ser_header h @ bv)
    = Inr \<lparr>vl_header = h, vl_validators = vlist bv\<rparr>"
proof -
  let ?n = "bv_count bv"
  have len: "VEC_SIZE_BYTES + ?n * VSI_LEN \<le> length bv" using assms by (simp add: bv_wf_def)
  have "elements VSI_LEN dec_vsi 0 ?n (drop 4 bv) = vlist bv"
    by (rule nth_equalityI)
      (simp_all add: bv_list_def elements_nth slice_def VEC_SIZE_BYTES_def add.commute)
  moreover have "de_u32 bv = Some (from_le_bytes (slice 0 VEC_SIZE_BYTES bv), drop 4 bv)"
    using len by (simp add: de_u32_def de_fixed_def slice_def VEC_SIZE_BYTES_def)
  ultimately show ?thesis
    using len by (simp add: try_from_slice_unchecked_def de_validator_list_def b_header.de_ser
        VEC_SIZE_BYTES_def bv_count_def)
qed

lemma truthful_reads:
  assumes "\<forall>k. c_get_account_with_commitment C w k = Inr (Some (w k))"
  shows "get_account C w k = Inr (w k)"
    and "load_pool w a = Inr p \<Longrightarrow> get_stake_pool C w (ai_key a) = Inr p"
    and "load_list w a = Inr (h, bv) \<Longrightarrow> vlist_wf bv \<Longrightarrow>
      get_validator_list C w (ai_key a) = Inr \<lparr>vl_header = h, vl_validators = vlist bv\<rparr>"
    and "get_token_mint C w k = c_unpack_mint_decimals C (acc_data (w k))"
  using assms view_decodes [of bv h]
  by (simp_all add: get_account_def get_stake_pool_def get_validator_list_def get_token_mint_def ok_or_def
      load_pool_def load_list_Inr data_of_def)

text \<open>What the listing shows of a pool, once the node has answered.\<close>

lemma listed_pool_shows:
  assumes reads: "get_stake_pool C w k = Inr p" "get_validator_list C w (sp_validator_list p) = Inr l"
      "get_token_mint C w (sp_pool_mint p) = Inr decimals" "c_get_epoch C w = Inr epoch"
      "get_account C w (sp_reserve_stake p) = Inr reserve" "c_get_rent_exemption C STAKE_STATE_LEN = Inr rent"
    and status: "\<And>v. v \<in> set (vl_validators l) \<Longrightarrow> is_ok (status_try_from (vsi_status v))"
    and sums: "\<And>v. v \<in> set (vl_validators l) \<Longrightarrow>
      uint (vsi_active_stake_lamports v) + uint (vsi_transient_stake_lamports v) < 2 ^ 64"
  shows "\<exists>pool d. listed_pool E D C k w = Inr pool \<and> cl_details pool = Some d
    \<and> map (Inr \<circ> clv_status) (cl_validator_list pool) = map (cli_status \<circ> vsi_status) (vl_validators l)
    \<and> map cla_vote_account_address (cld_stake_accounts d) = map (d_key D \<circ> vsi_vote_account_address) (vl_validators l)
    \<and> map cla_validator_lamports (cld_stake_accounts d)
        = map (\<lambda>v. vsi_active_stake_lamports v + vsi_transient_stake_lamports v) (vl_validators l)
    \<and> map cla_update_required (cld_stake_accounts d) = map (\<lambda>v. vsi_last_update_epoch v \<noteq> epoch) (vl_validators l)
    \<and> cld_update_required d = (sp_last_update_epoch p \<noteq> epoch)"
proof -
  let ?vs = "vl_validators l"
  let ?st = "\<lambda>v. projr (cli_status (vsi_status v))"
  let ?cv = "\<lambda>v. projr (cli_validator D v)"
  let ?ca = "\<lambda>v. projr (cli_stake_account E D C k epoch v)"
  have st: "cli_status (vsi_status v) = Inr (?st v)" if "v \<in> set ?vs" for v
    using status [OF that] cli_status_Inr by (auto simp: is_ok_iff)
  have cv: "cli_validator D v = Inr (?cv v) \<and> clv_status (?cv v) = ?st v" if "v \<in> set ?vs" for v
    using st [OF that] by (cases "cli_status (vsi_status v)") (simp_all add: cli_validator_def)
  have ca: "cli_stake_account E D C k epoch v = Inr (?ca v)"
      "cla_vote_account_address (?ca v) = d_key D (vsi_vote_account_address v)"
      "cla_validator_lamports (?ca v) = vsi_active_stake_lamports v + vsi_transient_stake_lamports v"
      "cla_update_required (?ca v) = (vsi_last_update_epoch v \<noteq> epoch)" if "v \<in> set ?vs" for v
    using sums [OF that]
    by (simp_all add: cli_stake_account_def stake_lamports_def checked_add_def lift_spe_def ok_or_def
        unwrap_result_def Let_def)
  have "collect_map (cli_validator D) ?vs = Inr (map ?cv ?vs)"
    "collect_map (cli_stake_account E D C k epoch) ?vs = Inr (map ?ca ?vs)"
    by (rule collect_map_total, erule cv [THEN conjunct1] ca(1))+
  moreover have "map (clv_status \<circ> ?cv) ?vs = map ?st ?vs"
    "map (Inr \<circ> (clv_status \<circ> ?cv)) ?vs = map (cli_status \<circ> vsi_status) ?vs"
    "map (cla_vote_account_address \<circ> ?ca) ?vs = map (d_key D \<circ> vsi_vote_account_address) ?vs"
    "map (cla_validator_lamports \<circ> ?ca) ?vs = map (\<lambda>v. vsi_active_stake_lamports v + vsi_transient_stake_lamports v) ?vs"
    "map (cla_update_required \<circ> ?ca) ?vs = map (\<lambda>v. vsi_last_update_epoch v \<noteq> epoch) ?vs"
    unfolding o_apply map_eq_conv using cv ca(2-4) st [symmetric] by (simp_all add: o_def)
  ultimately show ?thesis
    by (simp add: listed_pool_def reads cli_stake_pool_def Let_def o_assoc comp_def)
qed

end
