(* ===== verification/Client_Args.thy ===== *)
theory Client_Args
  imports Client_Output
begin

text \<open>
  The command line that the client declares (\<^verbatim>\<open>clients/cli/src/main.rs\<close>, the first half of \<open>main\<close>): every
  argument with its switches, position, validator, permitted values and dependencies, and every
  subcommand with its groups. The declarations are data; \<open>accepted\<close> is what the parser of command lines
  (the crate \<open>clap\<close>) documents of the matches that it hands to \<open>main\<close>. Help texts are left out.
\<close>

section \<open>Arguments and matches\<close>

datatype arg_validator =
    IsUrl | IsValidSigner | IsValidPubkey | IsPubkey | IsParsableU64 | IsParsableU32 | IsValidPercentage
  | IsKeypairOrAskKeyword | IsAmount | IsComputeUnitLimitOrSimulated

record Arg =
  arg_name :: string
  arg_short :: "string option"
  arg_long :: "string option"
  arg_index :: "nat option"
  arg_takes_value :: bool
  arg_required :: bool
  arg_global :: bool
  arg_validator :: "arg_validator option"
  arg_possible_values :: "string list"
  arg_requires :: "string list"
  arg_default :: "string option"

definition with_name :: "string \<Rightarrow> Arg" where
  "with_name n =
     \<lparr>arg_name = n, arg_short = None, arg_long = None, arg_index = None, arg_takes_value = False,
      arg_required = False, arg_global = False, arg_validator = None, arg_possible_values = [],
      arg_requires = [], arg_default = None\<rparr>"

record ArgGroup =
  group_name :: string
  group_args :: "string list"
  group_required :: bool
  group_multiple :: bool

record SubCommand =
  sub_name :: string
  sub_args :: "Arg list"
  sub_groups :: "ArgGroup list"

text \<open>What \<open>main\<close> reads of the matches. Strings are the bytes of UTF-8.\<close>

record ArgMatches =
  m_value_of :: "string \<Rightarrow> string option"
  m_is_present :: "string \<Rightarrow> bool"

text \<open>
  Functions of other crates that \<open>main\<close> calls: validators, readers of keys and key pairs from the value
  of an argument (\<open>u_signer_from_path\<close> gets the path, the name of the argument and whether a signer
  without key is allowed), the parsing of floating point numbers, the configuration file with its URL and key pair
  path, the file's default place, an argument declared elsewhere, \<open>declare_id!\<close>, and the
  configuration with the RPC client for a URL.
\<close>

record clap_utils =
  u_is_url :: "string \<Rightarrow> bool"
  u_is_valid_signer :: "string \<Rightarrow> bool"
  u_is_valid_pubkey :: "string \<Rightarrow> bool"
  u_is_pubkey :: "string \<Rightarrow> bool"
  u_is_valid_percentage :: "string \<Rightarrow> bool"
  u_is_keypair_or_ask_keyword :: "string \<Rightarrow> bool"
  u_is_amount :: "string \<Rightarrow> bool"
  u_pubkey :: "string \<Rightarrow> Pubkey option"
  u_keypair :: "string \<Rightarrow> Pubkey option"
  u_signer_from_path :: "string \<Rightarrow> string \<Rightarrow> bool \<Rightarrow> Pubkey option"
  u_parse_f64 :: "string \<Rightarrow> ui_amount option"
  u_config_file :: "string option"
  u_load_config :: "string \<Rightarrow> (string \<times> string) option"
  u_default_config :: "string \<times> string"
  u_compute_unit_price_arg :: Arg
  u_declare_id :: "string \<Rightarrow> Pubkey"
  u_rpc_client :: "string \<Rightarrow> config"

section \<open>The compute unit limit\<close>

definition is_compute_unit_limit_or_simulated :: "string \<Rightarrow> bool" where
  "is_compute_unit_limit_or_simulated s \<longleftrightarrow>
     (parse_word s :: u32 option) \<noteq> None \<or> s = ''DEFAULT''"

definition parse_compute_unit_limit :: "string \<Rightarrow> ComputeUnitLimit option" where
  "parse_compute_unit_limit s =
     (case parse_word s of
        Some compute_unit_limit \<Rightarrow> Some (CulStatic compute_unit_limit)
      | None \<Rightarrow> if s = ''DEFAULT'' then Some CulDefault else None)"

section \<open>The declarations\<close>

definition app_args :: "clap_utils \<Rightarrow> Arg list" where
  "app_args U =
    [(with_name ''config_file'')\<lparr>arg_short := Some ''C'', arg_long := Some ''config'',
        arg_takes_value := True, arg_global := True, arg_default := u_config_file U\<rparr>,
     (with_name ''verbose'')\<lparr>arg_long := Some ''verbose'', arg_short := Some ''v'',
        arg_takes_value := False, arg_global := True\<rparr>,
     (with_name ''output_format'')\<lparr>arg_long := Some ''output'', arg_global := True,
        arg_takes_value := True, arg_possible_values := [''json'', ''json-compact'']\<rparr>,
     (with_name ''dry_run'')\<lparr>arg_long := Some ''dry-run'', arg_takes_value := False,
        arg_global := True\<rparr>,
     (with_name ''no_update'')\<lparr>arg_long := Some ''no-update'', arg_takes_value := False,
        arg_global := True\<rparr>,
     (with_name ''json_rpc_url'')\<lparr>arg_long := Some ''url'', arg_takes_value := True,
        arg_validator := Some IsUrl, arg_global := True\<rparr>,
     (with_name ''staker'')\<lparr>arg_long := Some ''staker'', arg_validator := Some IsValidSigner,
        arg_takes_value := True, arg_global := True\<rparr>,
     (with_name ''manager'')\<lparr>arg_long := Some ''manager'', arg_validator := Some IsValidSigner,
        arg_takes_value := True, arg_global := True\<rparr>,
     (with_name ''funding_authority'')\<lparr>arg_long := Some ''funding-authority'',
        arg_validator := Some IsValidSigner, arg_takes_value := True, arg_global := True\<rparr>,
     (with_name ''token_owner'')\<lparr>arg_long := Some ''token-owner'',
        arg_validator := Some IsValidSigner, arg_takes_value := True, arg_global := True\<rparr>,
     (with_name ''fee_payer'')\<lparr>arg_long := Some ''fee-payer'',
        arg_validator := Some IsValidSigner, arg_takes_value := True, arg_global := True\<rparr>,
     (u_compute_unit_price_arg U)\<lparr>arg_validator := Some IsParsableU64, arg_global := True\<rparr>,
     (with_name ''compute_unit_limit'')\<lparr>arg_long := Some ''--with-compute-unit-limit'',
        arg_takes_value := True, arg_validator := Some IsComputeUnitLimitOrSimulated,
        arg_global := True\<rparr>,
     (with_name ''program_id'')\<lparr>arg_long := Some ''program-id'', arg_validator := Some IsPubkey,
        arg_takes_value := True, arg_global := True\<rparr>]"

definition args_create_pool :: SubCommand where
  "args_create_pool =
    \<lparr>sub_name = ''create-pool'',
     sub_args =
      [(with_name ''epoch_fee_numerator'')\<lparr>arg_long := Some ''epoch-fee-numerator'',
        arg_short := Some ''n'', arg_validator := Some IsParsableU64, arg_takes_value := True,
        arg_required := True\<rparr>,
       (with_name ''epoch_fee_denominator'')\<lparr>arg_long := Some ''epoch-fee-denominator'',
        arg_short := Some ''d'', arg_validator := Some IsParsableU64, arg_takes_value := True,
        arg_required := True\<rparr>,
       (with_name ''withdrawal_fee_numerator'')\<lparr>arg_long := Some ''withdrawal-fee-numerator'',
        arg_validator := Some IsParsableU64, arg_takes_value := True,
        arg_requires := [''withdrawal_fee_denominator'']\<rparr>,
       (with_name ''withdrawal_fee_denominator'')\<lparr>arg_long := Some ''withdrawal-fee-denominator'',
        arg_validator := Some IsParsableU64, arg_takes_value := True,
        arg_requires := [''withdrawal_fee_numerator'']\<rparr>,
       (with_name ''deposit_fee_numerator'')\<lparr>arg_long := Some ''deposit-fee-numerator'',
        arg_validator := Some IsParsableU64, arg_takes_value := True,
        arg_requires := [''deposit_fee_denominator'']\<rparr>,
       (with_name ''deposit_fee_denominator'')\<lparr>arg_long := Some ''deposit-fee-denominator'',
        arg_validator := Some IsParsableU64, arg_takes_value := True,
        arg_requires := [''deposit_fee_numerator'']\<rparr>,
       (with_name ''referral_fee'')\<lparr>arg_long := Some ''referral-fee'',
        arg_validator := Some IsValidPercentage, arg_takes_value := True\<rparr>,
       (with_name ''max_validators'')\<lparr>arg_long := Some ''max-validators'', arg_short := Some ''m'',
        arg_validator := Some IsParsableU32, arg_takes_value := True, arg_required := True\<rparr>,
       (with_name ''deposit_authority'')\<lparr>arg_long := Some ''deposit-authority'',
        arg_short := Some ''a'', arg_validator := Some IsValidSigner, arg_takes_value := True\<rparr>,
       (with_name ''pool_keypair'')\<lparr>arg_long := Some ''pool-keypair'', arg_short := Some ''p'',
        arg_validator := Some IsKeypairOrAskKeyword, arg_takes_value := True\<rparr>,
       (with_name ''validator_list_keypair'')\<lparr>arg_long := Some ''validator-list-keypair'',
        arg_validator := Some IsKeypairOrAskKeyword, arg_takes_value := True\<rparr>,
       (with_name ''mint_keypair'')\<lparr>arg_long := Some ''mint-keypair'',
        arg_validator := Some IsKeypairOrAskKeyword, arg_takes_value := True\<rparr>,
       (with_name ''reserve_keypair'')\<lparr>arg_long := Some ''reserve-keypair'',
        arg_validator := Some IsKeypairOrAskKeyword, arg_takes_value := True\<rparr>,
       (with_name ''unsafe_fees'')\<lparr>arg_long := Some ''unsafe-fees'',
        arg_takes_value := False\<rparr>],
     sub_groups =
      []\<rparr>"

definition args_create_token_metadata :: SubCommand where
  "args_create_token_metadata =
    \<lparr>sub_name = ''create-token-metadata'',
     sub_args =
      [(with_name ''pool'')\<lparr>arg_index := Some 1, arg_validator := Some IsPubkey,
        arg_takes_value := True, arg_required := True\<rparr>,
       (with_name ''name'')\<lparr>arg_index := Some 2, arg_takes_value := True,
        arg_required := True\<rparr>,
       (with_name ''symbol'')\<lparr>arg_index := Some 3, arg_takes_value := True,
        arg_required := True\<rparr>,
       (with_name ''uri'')\<lparr>arg_index := Some 4, arg_takes_value := True,
        arg_required := True\<rparr>],
     sub_groups =
      []\<rparr>"

definition args_update_token_metadata :: SubCommand where
  "args_update_token_metadata =
    \<lparr>sub_name = ''update-token-metadata'',
     sub_args =
      [(with_name ''pool'')\<lparr>arg_index := Some 1, arg_validator := Some IsPubkey,
        arg_takes_value := True, arg_required := True\<rparr>,
       (with_name ''name'')\<lparr>arg_index := Some 2, arg_takes_value := True,
        arg_required := True\<rparr>,
       (with_name ''symbol'')\<lparr>arg_index := Some 3, arg_takes_value := True,
        arg_required := True\<rparr>,
       (with_name ''uri'')\<lparr>arg_index := Some 4, arg_takes_value := True,
        arg_required := True\<rparr>],
     sub_groups =
      []\<rparr>"

definition args_add_validator :: SubCommand where
  "args_add_validator =
    \<lparr>sub_name = ''add-validator'',
     sub_args =
      [(with_name ''pool'')\<lparr>arg_index := Some 1, arg_validator := Some IsPubkey,
        arg_takes_value := True, arg_required := True\<rparr>,
       (with_name ''vote_account'')\<lparr>arg_index := Some 2, arg_validator := Some IsPubkey,
        arg_takes_value := True, arg_required := True\<rparr>],
     sub_groups =
      []\<rparr>"

definition args_remove_validator :: SubCommand where
  "args_remove_validator =
    \<lparr>sub_name = ''remove-validator'',
     sub_args =
      [(with_name ''pool'')\<lparr>arg_index := Some 1, arg_validator := Some IsPubkey,
        arg_takes_value := True, arg_required := True\<rparr>,
       (with_name ''vote_account'')\<lparr>arg_index := Some 2, arg_validator := Some IsPubkey,
        arg_takes_value := True, arg_required := True\<rparr>],
     sub_groups =
      []\<rparr>"

definition args_increase_validator_stake :: SubCommand where
  "args_increase_validator_stake =
    \<lparr>sub_name = ''increase-validator-stake'',
     sub_args =
      [(with_name ''pool'')\<lparr>arg_index := Some 1, arg_validator := Some IsPubkey,
        arg_takes_value := True, arg_required := True\<rparr>,
       (with_name ''vote_account'')\<lparr>arg_index := Some 2, arg_validator := Some IsPubkey,
        arg_takes_value := True, arg_required := True\<rparr>,
       (with_name ''amount'')\<lparr>arg_index := Some 3, arg_validator := Some IsAmount,
        arg_takes_value := True\<rparr>],
     sub_groups =
      []\<rparr>"

definition args_decrease_validator_stake :: SubCommand where
  "args_decrease_validator_stake =
    \<lparr>sub_name = ''decrease-validator-stake'',
     sub_args =
      [(with_name ''pool'')\<lparr>arg_index := Some 1, arg_validator := Some IsPubkey,
        arg_takes_value := True, arg_required := True\<rparr>,
       (with_name ''vote_account'')\<lparr>arg_index := Some 2, arg_validator := Some IsPubkey,
        arg_takes_value := True, arg_required := True\<rparr>,
       (with_name ''amount'')\<lparr>arg_index := Some 3, arg_validator := Some IsAmount,
        arg_takes_value := True\<rparr>],
     sub_groups =
      []\<rparr>"

definition args_set_preferred_validator :: SubCommand where
  "args_set_preferred_validator =
    \<lparr>sub_name = ''set-preferred-validator'',
     sub_args =
      [(with_name ''pool'')\<lparr>arg_index := Some 1, arg_validator := Some IsPubkey,
        arg_takes_value := True, arg_required := True\<rparr>,
       (with_name ''preferred_type'')\<lparr>arg_index := Some 2,
        arg_possible_values := [''deposit'', ''withdraw''], arg_takes_value := True,
        arg_required := True\<rparr>,
       (with_name ''vote_account'')\<lparr>arg_long := Some ''vote-account'',
        arg_validator := Some IsPubkey, arg_takes_value := True\<rparr>,
       (with_name ''unset'')\<lparr>arg_long := Some ''unset'', arg_takes_value := False\<rparr>],
     sub_groups =
      [\<lparr>group_name = ''validator'', group_args = [''vote_account'', ''unset''], group_required = True, group_multiple = False\<rparr>]\<rparr>"

definition args_deposit_stake :: SubCommand where
  "args_deposit_stake =
    \<lparr>sub_name = ''deposit-stake'',
     sub_args =
      [(with_name ''pool'')\<lparr>arg_index := Some 1, arg_validator := Some IsPubkey,
        arg_takes_value := True, arg_required := True\<rparr>,
       (with_name ''stake_account'')\<lparr>arg_index := Some 2, arg_validator := Some IsPubkey,
        arg_takes_value := True, arg_required := True\<rparr>,
       (with_name ''withdraw_authority'')\<lparr>arg_long := Some ''withdraw-authority'',
        arg_validator := Some IsValidSigner, arg_takes_value := True\<rparr>,
       (with_name ''token_receiver'')\<lparr>arg_long := Some ''token-receiver'',
        arg_validator := Some IsPubkey, arg_takes_value := True\<rparr>,
       (with_name ''referrer'')\<lparr>arg_validator := Some IsPubkey, arg_takes_value := True\<rparr>],
     sub_groups =
      []\<rparr>"

definition args_deposit_all_stake :: SubCommand where
  "args_deposit_all_stake =
    \<lparr>sub_name = ''deposit-all-stake'',
     sub_args =
      [(with_name ''pool'')\<lparr>arg_index := Some 1, arg_validator := Some IsPubkey,
        arg_takes_value := True, arg_required := True\<rparr>,
       (with_name ''stake_authority'')\<lparr>arg_index := Some 2, arg_validator := Some IsPubkey,
        arg_takes_value := True, arg_required := True\<rparr>,
       (with_name ''withdraw_authority'')\<lparr>arg_long := Some ''withdraw-authority'',
        arg_validator := Some IsValidSigner, arg_takes_value := True\<rparr>,
       (with_name ''token_receiver'')\<lparr>arg_long := Some ''token-receiver'',
        arg_validator := Some IsPubkey, arg_takes_value := True\<rparr>,
       (with_name ''referrer'')\<lparr>arg_validator := Some IsPubkey, arg_takes_value := True\<rparr>],
     sub_groups =
      []\<rparr>"

definition args_deposit_sol :: SubCommand where
  "args_deposit_sol =
    \<lparr>sub_name = ''deposit-sol'',
     sub_args =
      [(with_name ''pool'')\<lparr>arg_index := Some 1, arg_validator := Some IsPubkey,
        arg_takes_value := True, arg_required := True\<rparr>,
       (with_name ''amount'')\<lparr>arg_index := Some 2, arg_validator := Some IsAmount,
        arg_takes_value := True\<rparr>,
       (with_name ''from'')\<lparr>arg_long := Some ''from'', arg_validator := Some IsValidSigner,
        arg_takes_value := True\<rparr>,
       (with_name ''token_receiver'')\<lparr>arg_long := Some ''token-receiver'',
        arg_validator := Some IsPubkey, arg_takes_value := True\<rparr>,
       (with_name ''referrer'')\<lparr>arg_long := Some ''referrer'', arg_validator := Some IsPubkey,
        arg_takes_value := True\<rparr>],
     sub_groups =
      []\<rparr>"

definition args_deposit_wsol :: SubCommand where
  "args_deposit_wsol =
    \<lparr>sub_name = ''deposit-wsol'',
     sub_args =
      [(with_name ''pool'')\<lparr>arg_index := Some 1, arg_validator := Some IsPubkey,
        arg_takes_value := True, arg_required := True\<rparr>,
       (with_name ''amount'')\<lparr>arg_index := Some 2, arg_validator := Some IsAmount,
        arg_takes_value := True\<rparr>,
       (with_name ''from'')\<lparr>arg_long := Some ''from'', arg_validator := Some IsValidSigner,
        arg_takes_value := True\<rparr>,
       (with_name ''token_receiver'')\<lparr>arg_long := Some ''token-receiver'',
        arg_validator := Some IsPubkey, arg_takes_value := True\<rparr>,
       (with_name ''referrer'')\<lparr>arg_long := Some ''referrer'', arg_validator := Some IsPubkey,
        arg_takes_value := True\<rparr>],
     sub_groups =
      []\<rparr>"

definition args_deposit_wsol_with_session :: SubCommand where
  "args_deposit_wsol_with_session =
    \<lparr>sub_name = ''deposit-wsol-with-session'',
     sub_args =
      [(with_name ''pool'')\<lparr>arg_index := Some 1, arg_validator := Some IsPubkey,
        arg_takes_value := True, arg_required := True\<rparr>,
       (with_name ''amount'')\<lparr>arg_index := Some 2, arg_validator := Some IsAmount,
        arg_takes_value := True\<rparr>,
       (with_name ''from'')\<lparr>arg_long := Some ''from'', arg_validator := Some IsValidSigner,
        arg_takes_value := True\<rparr>],
     sub_groups =
      []\<rparr>"

definition args_withdraw_wsol_with_session :: SubCommand where
  "args_withdraw_wsol_with_session =
    \<lparr>sub_name = ''withdraw-wsol-with-session'',
     sub_args =
      [(with_name ''pool'')\<lparr>arg_index := Some 1, arg_validator := Some IsPubkey,
        arg_takes_value := True, arg_required := True\<rparr>,
       (with_name ''amount'')\<lparr>arg_index := Some 2, arg_validator := Some IsAmount,
        arg_takes_value := True, arg_required := True\<rparr>,
       (with_name ''from'')\<lparr>arg_long := Some ''from'', arg_validator := Some IsValidSigner,
        arg_takes_value := True\<rparr>,
       (with_name ''pool_account'')\<lparr>arg_long := Some ''pool-account'',
        arg_validator := Some IsPubkey, arg_takes_value := True\<rparr>],
     sub_groups =
      []\<rparr>"

definition args_list :: SubCommand where
  "args_list =
    \<lparr>sub_name = ''list'',
     sub_args =
      [(with_name ''pool'')\<lparr>arg_index := Some 1, arg_validator := Some IsPubkey,
        arg_takes_value := True, arg_required := True\<rparr>],
     sub_groups =
      []\<rparr>"

definition args_update :: SubCommand where
  "args_update =
    \<lparr>sub_name = ''update'',
     sub_args =
      [(with_name ''pool'')\<lparr>arg_index := Some 1, arg_validator := Some IsPubkey,
        arg_takes_value := True, arg_required := True\<rparr>,
       (with_name ''force'')\<lparr>arg_long := Some ''force'', arg_takes_value := False\<rparr>,
       (with_name ''no_merge'')\<lparr>arg_long := Some ''no-merge'', arg_takes_value := False\<rparr>,
       (with_name ''stale_only'')\<lparr>arg_long := Some ''stale-only'', arg_takes_value := False\<rparr>],
     sub_groups =
      []\<rparr>"

definition args_withdraw_stake :: SubCommand where
  "args_withdraw_stake =
    \<lparr>sub_name = ''withdraw-stake'',
     sub_args =
      [(with_name ''pool'')\<lparr>arg_index := Some 1, arg_validator := Some IsPubkey,
        arg_takes_value := True, arg_required := True\<rparr>,
       (with_name ''amount'')\<lparr>arg_index := Some 2, arg_validator := Some IsAmount,
        arg_takes_value := True, arg_required := True\<rparr>,
       (with_name ''pool_account'')\<lparr>arg_long := Some ''pool-account'',
        arg_validator := Some IsPubkey, arg_takes_value := True\<rparr>,
       (with_name ''stake_receiver'')\<lparr>arg_long := Some ''stake-receiver'',
        arg_validator := Some IsPubkey, arg_takes_value := True, arg_requires := [''withdraw_from'']\<rparr>,
       (with_name ''vote_account'')\<lparr>arg_long := Some ''vote-account'',
        arg_validator := Some IsPubkey, arg_takes_value := True\<rparr>,
       (with_name ''use_reserve'')\<lparr>arg_long := Some ''use-reserve'',
        arg_takes_value := False\<rparr>],
     sub_groups =
      [\<lparr>group_name = ''withdraw_from'', group_args = [''use_reserve'', ''vote_account''], group_required = False, group_multiple = False\<rparr>]\<rparr>"

definition args_withdraw_sol :: SubCommand where
  "args_withdraw_sol =
    \<lparr>sub_name = ''withdraw-sol'',
     sub_args =
      [(with_name ''pool'')\<lparr>arg_index := Some 1, arg_validator := Some IsPubkey,
        arg_takes_value := True, arg_required := True\<rparr>,
       (with_name ''sol_receiver'')\<lparr>arg_index := Some 2, arg_validator := Some IsValidPubkey,
        arg_takes_value := True, arg_required := True\<rparr>,
       (with_name ''amount'')\<lparr>arg_index := Some 3, arg_validator := Some IsAmount,
        arg_takes_value := True, arg_required := True\<rparr>,
       (with_name ''pool_account'')\<lparr>arg_long := Some ''pool-account'',
        arg_validator := Some IsPubkey, arg_takes_value := True\<rparr>],
     sub_groups =
      []\<rparr>"

definition args_set_manager :: SubCommand where
  "args_set_manager =
    \<lparr>sub_name = ''set-manager'',
     sub_args =
      [(with_name ''pool'')\<lparr>arg_index := Some 1, arg_validator := Some IsPubkey,
        arg_takes_value := True, arg_required := True\<rparr>,
       (with_name ''new_manager'')\<lparr>arg_long := Some ''new-manager'',
        arg_validator := Some IsValidSigner, arg_takes_value := True\<rparr>,
       (with_name ''new_fee_receiver'')\<lparr>arg_long := Some ''new-fee-receiver'',
        arg_validator := Some IsPubkey, arg_takes_value := True\<rparr>],
     sub_groups =
      [\<lparr>group_name = ''new_accounts'', group_args = [''new_manager'', ''new_fee_receiver''], group_required = True, group_multiple = True\<rparr>]\<rparr>"

definition args_set_staker :: SubCommand where
  "args_set_staker =
    \<lparr>sub_name = ''set-staker'',
     sub_args =
      [(with_name ''pool'')\<lparr>arg_index := Some 1, arg_validator := Some IsPubkey,
        arg_takes_value := True, arg_required := True\<rparr>,
       (with_name ''new_staker'')\<lparr>arg_index := Some 2, arg_validator := Some IsPubkey,
        arg_takes_value := True\<rparr>],
     sub_groups =
      []\<rparr>"

definition args_set_funding_authority :: SubCommand where
  "args_set_funding_authority =
    \<lparr>sub_name = ''set-funding-authority'',
     sub_args =
      [(with_name ''pool'')\<lparr>arg_index := Some 1, arg_validator := Some IsPubkey,
        arg_takes_value := True, arg_required := True\<rparr>,
       (with_name ''funding_type'')\<lparr>arg_index := Some 2,
        arg_possible_values := [''stake-deposit'', ''sol-deposit'', ''sol-withdraw''],
        arg_takes_value := True, arg_required := True\<rparr>,
       (with_name ''new_authority'')\<lparr>arg_index := Some 3, arg_validator := Some IsPubkey,
        arg_takes_value := True\<rparr>,
       (with_name ''unset'')\<lparr>arg_long := Some ''unset'', arg_takes_value := False\<rparr>],
     sub_groups =
      [\<lparr>group_name = ''validator'', group_args = [''new_authority'', ''unset''], group_required = True, group_multiple = False\<rparr>]\<rparr>"

definition args_set_fee :: SubCommand where
  "args_set_fee =
    \<lparr>sub_name = ''set-fee'',
     sub_args =
      [(with_name ''pool'')\<lparr>arg_index := Some 1, arg_validator := Some IsPubkey,
        arg_takes_value := True, arg_required := True\<rparr>,
       (with_name ''fee_type'')\<lparr>arg_index := Some 2,
        arg_possible_values := [''epoch'', ''stake-deposit'', ''sol-deposit'', ''stake-withdrawal'', ''sol-withdrawal''],
        arg_takes_value := True, arg_required := True\<rparr>,
       (with_name ''fee_numerator'')\<lparr>arg_index := Some 3, arg_validator := Some IsParsableU64,
        arg_takes_value := True, arg_required := True\<rparr>,
       (with_name ''fee_denominator'')\<lparr>arg_index := Some 4, arg_validator := Some IsParsableU64,
        arg_takes_value := True, arg_required := True\<rparr>],
     sub_groups =
      []\<rparr>"

definition args_set_referral_fee :: SubCommand where
  "args_set_referral_fee =
    \<lparr>sub_name = ''set-referral-fee'',
     sub_args =
      [(with_name ''pool'')\<lparr>arg_index := Some 1, arg_validator := Some IsPubkey,
        arg_takes_value := True, arg_required := True\<rparr>,
       (with_name ''fee_type'')\<lparr>arg_index := Some 2, arg_possible_values := [''stake'', ''sol''],
        arg_takes_value := True, arg_required := True\<rparr>,
       (with_name ''fee'')\<lparr>arg_index := Some 3, arg_validator := Some IsValidPercentage,
        arg_takes_value := True, arg_required := True\<rparr>],
     sub_groups =
      []\<rparr>"

definition args_list_all :: SubCommand where
  "args_list_all =
    \<lparr>sub_name = ''list-all'',
     sub_args =
      [],
     sub_groups =
      []\<rparr>"

definition app_subcommands :: "SubCommand list" where
  "app_subcommands =
    [args_create_pool, args_create_token_metadata, args_update_token_metadata, args_add_validator,
     args_remove_validator, args_increase_validator_stake, args_decrease_validator_stake,
     args_set_preferred_validator, args_deposit_stake, args_deposit_all_stake, args_deposit_sol,
     args_deposit_wsol, args_deposit_wsol_with_session, args_withdraw_wsol_with_session, args_list,
     args_update, args_withdraw_stake, args_withdraw_sol, args_set_manager, args_set_staker,
     args_set_funding_authority, args_set_fee, args_set_referral_fee, args_list_all]"

section \<open>What the parser accepts\<close>

fun validates :: "clap_utils \<Rightarrow> arg_validator \<Rightarrow> string \<Rightarrow> bool" where
  "validates U IsUrl v = u_is_url U v"
| "validates U IsValidSigner v = u_is_valid_signer U v"
| "validates U IsValidPubkey v = u_is_valid_pubkey U v"
| "validates U IsPubkey v = u_is_pubkey U v"
| "validates U IsParsableU64 v = ((parse_word v :: u64 option) \<noteq> None)"
| "validates U IsParsableU32 v = ((parse_word v :: u32 option) \<noteq> None)"
| "validates U IsValidPercentage v = u_is_valid_percentage U v"
| "validates U IsKeypairOrAskKeyword v = u_is_keypair_or_ask_keyword U v"
| "validates U IsAmount v = u_is_amount U v"
| "validates U IsComputeUnitLimitOrSimulated v = is_compute_unit_limit_or_simulated v"

text \<open>
  A required argument is there; what is there has the arguments (or one argument of the groups) that it
  requires; a value stands only where the argument takes one, is one of the permitted values and has passed the validator. Of
  a group at most one argument is there unless several may be, and of a required group at least one.
\<close>

definition group_present :: "ArgMatches \<Rightarrow> ArgGroup \<Rightarrow> bool" where
  "group_present M g = list_ex (m_is_present M) (group_args g)"

definition value_ok :: "clap_utils \<Rightarrow> Arg \<Rightarrow> string \<Rightarrow> bool" where
  "value_ok U a v \<longleftrightarrow>
     (case arg_validator a of None \<Rightarrow> True | Some c \<Rightarrow> validates U c v)
     \<and> (arg_possible_values a = [] \<or> v \<in> set (arg_possible_values a))"

definition arg_accepted :: "clap_utils \<Rightarrow> ArgGroup list \<Rightarrow> ArgMatches \<Rightarrow> Arg \<Rightarrow> bool" where
  "arg_accepted U groups M a \<longleftrightarrow>
     (arg_required a \<longrightarrow> m_is_present M (arg_name a))
     \<and> (m_is_present M (arg_name a) \<longrightarrow>
          list_all (\<lambda>r. m_is_present M r \<or> list_ex (\<lambda>g. group_name g = r \<and> group_present M g) groups)
            (arg_requires a))
     \<and> (case m_value_of M (arg_name a) of
          None \<Rightarrow> arg_takes_value a \<longrightarrow> \<not> m_is_present M (arg_name a)
        | Some v \<Rightarrow> arg_takes_value a \<and> m_is_present M (arg_name a) \<and> value_ok U a v)"

definition group_accepted :: "ArgMatches \<Rightarrow> ArgGroup \<Rightarrow> bool" where
  "group_accepted M g \<longleftrightarrow>
     (group_required g \<longrightarrow> group_present M g)
     \<and> (\<not> group_multiple g \<longrightarrow> length (filter (m_is_present M) (group_args g)) \<le> 1)"

definition accepted :: "clap_utils \<Rightarrow> Arg list \<Rightarrow> ArgGroup list \<Rightarrow> ArgMatches \<Rightarrow> bool" where
  "accepted U args groups M \<longleftrightarrow>
     list_all (arg_accepted U groups M) args \<and> list_all (group_accepted M) groups"

section \<open>Consequences\<close>

text \<open>The validator of the compute unit limit accepts exactly what the client can parse.\<close>

lemma compute_unit_limit_parses:
  "is_compute_unit_limit_or_simulated s \<longleftrightarrow> parse_compute_unit_limit s \<noteq> None"
  by (auto simp: is_compute_unit_limit_or_simulated_def parse_compute_unit_limit_def split: option.split)

lemma compute_unit_limit_shown: "parse_compute_unit_limit (show_word n) = Some (CulStatic n)"
  by (simp add: parse_compute_unit_limit_def parse_show_word)

lemma value_of_declared:
  assumes "accepted U args groups M" "a \<in> set args" "m_value_of M (arg_name a) = Some v"
  shows "value_ok U a v"
  using assms by (auto simp: accepted_def arg_accepted_def list_all_iff split: option.splits)

lemma required_has_value:
  assumes "accepted U args groups M" "a \<in> set args" "arg_required a" "arg_takes_value a"
  obtains v where "m_value_of M (arg_name a) = Some v" "value_ok U a v"
proof -
  have "arg_accepted U groups M a" using assms(1,2) by (simp add: accepted_def list_all_iff)
  then show thesis using assms(3,4) that by (auto simp: arg_accepted_def split: option.splits)
qed

text \<open>Within a subcommand, no two arguments share a name, and groups and dependencies name declared ones.\<close>

definition declared_well :: "SubCommand \<Rightarrow> bool" where
  "declared_well s \<longleftrightarrow>
     distinct (map arg_name (sub_args s)) \<and> distinct (map group_name (sub_groups s))
     \<and> list_all (\<lambda>g. list_all (\<lambda>n. n \<in> set (map arg_name (sub_args s))) (group_args g)) (sub_groups s)
     \<and> list_all (\<lambda>a. list_all (\<lambda>n. n \<in> set (map arg_name (sub_args s) @ map group_name (sub_groups s)))
         (arg_requires a)) (sub_args s)"

end
