(* ===== verification/Client_Main.thy ===== *)
theory Client_Main
  imports Client_Args
begin

text \<open>
  The function \<open>main\<close> of the client (\<^verbatim>\<open>clients/cli/src/main.rs\<close>): from the matches of the command line to
  the configuration and the command, which is then run. The key pairs behind arguments are their public keys.
  \<open>value_t_or_exit!\<close> and a missing signer end the program with an error
  message (\<open>ArgumentExit\<close>); an \<open>unwrap\<close> of nothing, a failed \<open>assert!\<close> and \<open>unreachable!\<close> are \<open>ClientPanic\<close>.
\<close>

section \<open>Reading arguments\<close>

definition default_stake_pool_id :: "clap_utils \<Rightarrow> string \<Rightarrow> Pubkey" where
  "default_stake_pool_id U json_rpc_url =
     (if str_contains ''devnet'' json_rpc_url
      then u_declare_id U ''DPoo15wWDqpPJJtS2MUZ49aRxqz5ZaaJCJP4z8bLuib''
      else u_declare_id U ''SPoo1Ku8WFXoNDMHPsrGSTSG1Y47rzgn41SLUNakuHy'')"

text \<open>\<open>value_t!\<close>, \<open>value_t_or_exit!\<close>, \<open>pubkey_of\<close> and \<open>keypair_of\<close>, for an argument's name.\<close>

definition value_t :: "(string \<Rightarrow> 'a option) \<Rightarrow> ArgMatches \<Rightarrow> string \<Rightarrow> 'a option" where
  "value_t parse M name = Option.bind (m_value_of M name) parse"

definition value_t_or_exit :: "(string \<Rightarrow> 'a option) \<Rightarrow> ArgMatches \<Rightarrow> string \<Rightarrow> client_error + 'a" where
  "value_t_or_exit parse M name = ok_or (value_t parse M name) ArgumentExit"

definition pubkey_of :: "clap_utils \<Rightarrow> ArgMatches \<Rightarrow> string \<Rightarrow> Pubkey option" where
  "pubkey_of U = value_t (u_pubkey U)"

definition keypair_of :: "clap_utils \<Rightarrow> ArgMatches \<Rightarrow> string \<Rightarrow> Pubkey option" where
  "keypair_of U = value_t (u_keypair U)"

definition unwrap_or :: "'a option \<Rightarrow> 'a \<Rightarrow> 'a" where
  "unwrap_or x d = (case x of Some y \<Rightarrow> y | None \<Rightarrow> d)"

definition get_signer :: "clap_utils \<Rightarrow> ArgMatches \<Rightarrow> string \<Rightarrow> string \<Rightarrow> bool \<Rightarrow> client_error + Pubkey" where
  "get_signer U M keypair_name keypair_path allow_null_signer =
     ok_or (u_signer_from_path U (unwrap_or (m_value_of M keypair_name) keypair_path) keypair_name
              allow_null_signer) ArgumentExit"

definition string_bytes :: "string \<Rightarrow> rust_string" where
  "string_bytes s = map of_char s"

definition value_string :: "ArgMatches \<Rightarrow> string \<Rightarrow> client_error + rust_string" where
  "value_string = value_t_or_exit (\<lambda>v. Some (string_bytes v))"

section \<open>The configuration\<close>

definition main_cli_config :: "clap_utils \<Rightarrow> ArgMatches \<Rightarrow> string \<times> string" where
  "main_cli_config U M =
     (case m_value_of M ''config_file'' of
        Some config_file \<Rightarrow> unwrap_or (u_load_config U config_file) (u_default_config U)
      | None \<Rightarrow> u_default_config U)"

definition main_output_format :: "ArgMatches \<Rightarrow> client_error + OutputFormat" where
  "main_output_format M =
     (case m_value_of M ''output_format'' of
        Some value \<Rightarrow>
          if value = ''json'' then Inr OutJson
          else if value = ''json-compact'' then Inr OutJsonCompact
          else Inl ClientPanic
      | None \<Rightarrow> Inr (if m_is_present M ''verbose'' then OutDisplayVerbose else OutDisplay))"

definition main_compute_unit_limit :: "ArgMatches \<Rightarrow> u64 option \<Rightarrow> client_error + ComputeUnitLimit" where
  "main_compute_unit_limit M compute_unit_price =
     (case m_value_of M ''compute_unit_limit'' of
        Some x \<Rightarrow> unwrap (parse_compute_unit_limit x)
      | None \<Rightarrow> Inr (if compute_unit_price \<noteq> None then CulSimulated else CulDefault))"

definition main_config ::
    "clap_utils \<Rightarrow> ArgMatches \<Rightarrow> client_error + (config \<times> OutputFormat)" where
  "main_config U M =
     (let (config_url, keypair_path) = main_cli_config U M;
          json_rpc_url = unwrap_or (m_value_of M ''json_rpc_url'') config_url in
      tri (get_signer U M ''staker'' keypair_path False) (\<lambda>staker.
      tri (if m_is_present M ''funding_authority''
           then tri (get_signer U M ''funding_authority'' keypair_path False) (\<lambda>s. Inr (Some s))
           else Inr None) (\<lambda>funding_authority.
      tri (get_signer U M ''manager'' keypair_path False) (\<lambda>manager.
      tri (get_signer U M ''token_owner'' keypair_path False) (\<lambda>token_owner.
      tri (get_signer U M ''fee_payer'' keypair_path False) (\<lambda>fee_payer.
      let stake_pool_program_id =
            unwrap_or (pubkey_of U M ''program_id'') (default_stake_pool_id U json_rpc_url) in
      tri (main_output_format M) (\<lambda>output_format.
      let compute_unit_price = value_t parse_word M (arg_name (u_compute_unit_price_arg U)) in
      tri (main_compute_unit_limit M compute_unit_price) (\<lambda>compute_unit_limit.
      Inr ((u_rpc_client U json_rpc_url)
             \<lparr>c_program_id := stake_pool_program_id, c_manager := manager, c_staker := staker,
              c_funding_authority := funding_authority, c_token_owner := token_owner,
              c_fee_payer := fee_payer, c_dry_run := m_is_present M ''dry_run'',
              c_no_update := m_is_present M ''no_update'', c_compute_unit_price := compute_unit_price,
              c_compute_unit_limit := compute_unit_limit\<rparr>,
           output_format)))))))))"

section \<open>The subcommands\<close>

datatype main_command = Send command | ListPool Pubkey | ListAllPools

abbreviation u64_arg :: "ArgMatches \<Rightarrow> string \<Rightarrow> client_error + u64" where
  "u64_arg \<equiv> value_t_or_exit parse_word"

definition pool_arg :: "clap_utils \<Rightarrow> ArgMatches \<Rightarrow> client_error + Pubkey" where
  "pool_arg U M = unwrap (pubkey_of U M ''pool'')"

definition parse_create_pool :: "clap_utils \<Rightarrow> ArgMatches \<Rightarrow> client_error + command" where
  "parse_create_pool U M =
     (let deposit_authority = keypair_of U M ''deposit_authority'' in
      tri (u64_arg M ''epoch_fee_numerator'') (\<lambda>e_numerator.
      tri (u64_arg M ''epoch_fee_denominator'') (\<lambda>e_denominator.
      let w_numerator = value_t parse_word M ''withdrawal_fee_numerator'';
          w_denominator = value_t parse_word M ''withdrawal_fee_denominator'';
          d_numerator = value_t parse_word M ''deposit_fee_numerator'';
          d_denominator = value_t parse_word M ''deposit_fee_denominator'';
          referral_fee = value_t parse_word M ''referral_fee'' in
      tri (value_t_or_exit parse_word M ''max_validators'') (\<lambda>max_validators.
      Inr (CreatePool deposit_authority
        \<lparr>fee_denominator = e_denominator, fee_numerator = e_numerator\<rparr>
        \<lparr>fee_denominator = unwrap_or w_denominator 0, fee_numerator = unwrap_or w_numerator 0\<rparr>
        \<lparr>fee_denominator = unwrap_or d_denominator 0, fee_numerator = unwrap_or d_numerator 0\<rparr>
        (unwrap_or referral_fee 0) max_validators
        (keypair_of U M ''pool_keypair'') (keypair_of U M ''validator_list_keypair'')
        (keypair_of U M ''mint_keypair'') (keypair_of U M ''reserve_keypair'')
        (m_is_present M ''unsafe_fees''))))))"

definition parse_create_token_metadata :: "clap_utils \<Rightarrow> ArgMatches \<Rightarrow> client_error + command" where
  "parse_create_token_metadata U M =
     tri (pool_arg U M) (\<lambda>pool.
     tri (value_string M ''name'') (\<lambda>name.
     tri (value_string M ''symbol'') (\<lambda>symbol.
     tri (value_string M ''uri'') (\<lambda>uri.
     Inr (CreateMetadata pool name symbol uri)))))"

definition parse_update_token_metadata :: "clap_utils \<Rightarrow> ArgMatches \<Rightarrow> client_error + command" where
  "parse_update_token_metadata U M =
     tri (pool_arg U M) (\<lambda>pool.
     tri (value_string M ''name'') (\<lambda>name.
     tri (value_string M ''symbol'') (\<lambda>symbol.
     tri (value_string M ''uri'') (\<lambda>uri.
     Inr (ChangeMetadata pool name symbol uri)))))"

definition parse_add_validator :: "clap_utils \<Rightarrow> ArgMatches \<Rightarrow> client_error + command" where
  "parse_add_validator U M =
     tri (pool_arg U M) (\<lambda>pool.
     tri (unwrap (pubkey_of U M ''vote_account'')) (\<lambda>vote_account.
     Inr (VsaAdd pool vote_account)))"

definition parse_remove_validator :: "clap_utils \<Rightarrow> ArgMatches \<Rightarrow> client_error + command" where
  "parse_remove_validator U M =
     tri (pool_arg U M) (\<lambda>pool.
     tri (unwrap (pubkey_of U M ''vote_account'')) (\<lambda>vote_account.
     Inr (VsaRemove pool vote_account)))"

definition amount_lamports :: "config \<Rightarrow> ArgMatches \<Rightarrow> client_error + u64" where
  "amount_lamports C M =
     tri (unwrap (m_value_of M ''amount'')) (\<lambda>amount_str. unwrap (c_sol_str_to_lamports C amount_str))"

definition parse_increase_validator_stake ::
    "clap_utils \<Rightarrow> config \<Rightarrow> ArgMatches \<Rightarrow> client_error + command" where
  "parse_increase_validator_stake U C M =
     tri (pool_arg U M) (\<lambda>pool.
     tri (unwrap (pubkey_of U M ''vote_account'')) (\<lambda>vote_account.
     tri (amount_lamports C M) (\<lambda>lamports.
     Inr (IncreaseStake pool vote_account lamports))))"

definition parse_decrease_validator_stake ::
    "clap_utils \<Rightarrow> config \<Rightarrow> ArgMatches \<Rightarrow> client_error + command" where
  "parse_decrease_validator_stake U C M =
     tri (pool_arg U M) (\<lambda>pool.
     tri (unwrap (pubkey_of U M ''vote_account'')) (\<lambda>vote_account.
     tri (amount_lamports C M) (\<lambda>lamports.
     Inr (DecreaseStake pool vote_account lamports))))"

definition parse_set_preferred_validator :: "clap_utils \<Rightarrow> ArgMatches \<Rightarrow> client_error + command" where
  "parse_set_preferred_validator U M =
     tri (pool_arg U M) (\<lambda>pool.
     tri (unwrap (m_value_of M ''preferred_type'')) (\<lambda>preferred_type.
     tri (if preferred_type = ''deposit'' then Inr PreferredDeposit
          else if preferred_type = ''withdraw'' then Inr PreferredWithdraw
          else Inl ClientPanic) (\<lambda>preferred_type.
     Inr (SetPreferred pool preferred_type (pubkey_of U M ''vote_account'')))))"

definition parse_deposit_stake :: "clap_utils \<Rightarrow> string \<Rightarrow> ArgMatches \<Rightarrow> client_error + command" where
  "parse_deposit_stake U keypair_path M =
     tri (pool_arg U M) (\<lambda>pool.
     tri (unwrap (pubkey_of U M ''stake_account'')) (\<lambda>stake_account.
     tri (get_signer U M ''withdraw_authority'' keypair_path False) (\<lambda>withdraw_authority.
     Inr (DepositStakeAccount pool stake_account withdraw_authority (pubkey_of U M ''token_receiver'')
            (pubkey_of U M ''referrer'')))))"

definition parse_deposit_sol :: "clap_utils \<Rightarrow> config \<Rightarrow> ArgMatches \<Rightarrow> client_error + command" where
  "parse_deposit_sol U C M =
     tri (pool_arg U M) (\<lambda>pool.
     tri (amount_lamports C M) (\<lambda>lamports.
     Inr (DepositLamports pool (keypair_of U M ''from'') (pubkey_of U M ''token_receiver'')
            (pubkey_of U M ''referrer'') lamports)))"

definition parse_deposit_wsol_with_session :: "clap_utils \<Rightarrow> ArgMatches \<Rightarrow> client_error + command" where
  "parse_deposit_wsol_with_session U M =
     tri (pool_arg U M) (\<lambda>pool.
     tri (value_t_or_exit (u_parse_f64 U) M ''amount'') (\<lambda>amount.
     Inr (DepositWsol pool (keypair_of U M ''from'') None None amount)))"

definition parse_withdraw_wsol_with_session :: "clap_utils \<Rightarrow> ArgMatches \<Rightarrow> client_error + command" where
  "parse_withdraw_wsol_with_session U M =
     tri (pool_arg U M) (\<lambda>pool.
     tri (value_t_or_exit (u_parse_f64 U) M ''amount'') (\<lambda>amount.
     Inr (WithdrawWsol pool (keypair_of U M ''from'') (pubkey_of U M ''pool_account'') amount)))"

definition parse_update :: "clap_utils \<Rightarrow> ArgMatches \<Rightarrow> client_error + command" where
  "parse_update U M =
     tri (pool_arg U M) (\<lambda>pool.
     Inr (Update pool (m_is_present M ''force'') (m_is_present M ''no_merge'')
            (m_is_present M ''stale_only'')))"

definition parse_withdraw_stake :: "clap_utils \<Rightarrow> ArgMatches \<Rightarrow> client_error + command" where
  "parse_withdraw_stake U M =
     tri (pool_arg U M) (\<lambda>pool.
     tri (value_t_or_exit (u_parse_f64 U) M ''amount'') (\<lambda>pool_amount.
     Inr (WithdrawStakeAccount pool (m_is_present M ''use_reserve'') (pubkey_of U M ''vote_account'')
            (pubkey_of U M ''stake_receiver'') (pubkey_of U M ''pool_account'') pool_amount)))"

definition parse_withdraw_sol :: "clap_utils \<Rightarrow> string \<Rightarrow> ArgMatches \<Rightarrow> client_error + command" where
  "parse_withdraw_sol U keypair_path M =
     tri (pool_arg U M) (\<lambda>pool.
     tri (value_t_or_exit (u_parse_f64 U) M ''amount'') (\<lambda>pool_amount.
     tri (get_signer U M ''sol_receiver'' keypair_path True) (\<lambda>sol_receiver.
     Inr (WithdrawLamports pool (pubkey_of U M ''pool_account'') sol_receiver pool_amount))))"

text \<open>The new manager is looked up under another name than it is declared with, with its value as default.\<close>

definition parse_set_manager :: "clap_utils \<Rightarrow> ArgMatches \<Rightarrow> client_error + command" where
  "parse_set_manager U M =
     tri (pool_arg U M) (\<lambda>pool.
     tri (case m_value_of M ''new_manager'' of
            Some path \<Rightarrow> tri (get_signer U M ''new-manager'' path True) (\<lambda>signer. Inr (Some signer))
          | None \<Rightarrow> Inr None) (\<lambda>new_manager.
     Inr (ChangeManager pool new_manager (pubkey_of U M ''new_fee_receiver''))))"

definition parse_set_staker :: "clap_utils \<Rightarrow> ArgMatches \<Rightarrow> client_error + command" where
  "parse_set_staker U M =
     tri (pool_arg U M) (\<lambda>pool.
     tri (unwrap (pubkey_of U M ''new_staker'')) (\<lambda>new_staker.
     Inr (ChangeStaker pool new_staker)))"

definition parse_set_funding_authority :: "clap_utils \<Rightarrow> ArgMatches \<Rightarrow> client_error + command" where
  "parse_set_funding_authority U M =
     tri (pool_arg U M) (\<lambda>pool.
     tri (unwrap (m_value_of M ''funding_type'')) (\<lambda>funding_type.
     tri (if funding_type = ''sol-deposit'' then Inr FundSolDeposit
          else if funding_type = ''stake-deposit'' then Inr FundStakeDeposit
          else if funding_type = ''sol-withdraw'' then Inr FundSolWithdraw
          else Inl ClientPanic) (\<lambda>funding_type.
     Inr (ChangeFunding pool (pubkey_of U M ''new_authority'') funding_type))))"

definition parse_set_fee :: "clap_utils \<Rightarrow> ArgMatches \<Rightarrow> client_error + command" where
  "parse_set_fee U M =
     tri (pool_arg U M) (\<lambda>pool.
     tri (u64_arg M ''fee_numerator'') (\<lambda>numerator.
     tri (u64_arg M ''fee_denominator'') (\<lambda>denominator.
     let new_fee = \<lparr>fee_denominator = denominator, fee_numerator = numerator\<rparr> in
     tri (unwrap (m_value_of M ''fee_type'')) (\<lambda>fee_type.
     if fee_type = ''epoch'' then Inr (ChangeFee pool (EpochFee new_fee))
     else if fee_type = ''stake-deposit'' then Inr (ChangeFee pool (StakeDepositFee new_fee))
     else if fee_type = ''sol-deposit'' then Inr (ChangeFee pool (SolDepositFee new_fee))
     else if fee_type = ''stake-withdrawal'' then Inr (ChangeFee pool (StakeWithdrawal new_fee))
     else if fee_type = ''sol-withdrawal'' then Inr (ChangeFee pool (SolWithdrawal new_fee))
     else Inl ClientPanic))))"

definition parse_set_referral_fee :: "clap_utils \<Rightarrow> ArgMatches \<Rightarrow> client_error + command" where
  "parse_set_referral_fee U M =
     tri (pool_arg U M) (\<lambda>pool.
     tri (value_t_or_exit parse_word M ''fee'') (\<lambda>fee.
     if \<not> fee \<le> 100 then Inl ClientPanic
     else
       tri (unwrap (m_value_of M ''fee_type'')) (\<lambda>fee_type.
       if fee_type = ''sol'' then Inr (ChangeFee pool (SolReferral fee))
       else if fee_type = ''stake'' then Inr (ChangeFee pool (StakeReferral fee))
       else Inl ClientPanic)))"

definition parse_deposit_all_stake :: "clap_utils \<Rightarrow> string \<Rightarrow> ArgMatches \<Rightarrow> client_error + command" where
  "parse_deposit_all_stake U keypair_path M =
     tri (pool_arg U M) (\<lambda>pool.
     tri (unwrap (pubkey_of U M ''stake_authority'')) (\<lambda>stake_authority.
     tri (get_signer U M ''withdraw_authority'' keypair_path False) (\<lambda>withdraw_authority.
     Inr (DepositAllStake pool stake_authority withdraw_authority (pubkey_of U M ''token_receiver'')
            (pubkey_of U M ''referrer'')))))"

text \<open>The arms of the \<open>match\<close> that send something, in the order of the source.\<close>

definition sending_arms ::
    "clap_utils \<Rightarrow> config \<Rightarrow> string \<Rightarrow> (string \<times> (ArgMatches \<Rightarrow> client_error + command)) list" where
  "sending_arms U C keypair_path =
     [(''create-pool'', parse_create_pool U),
      (''create-token-metadata'', parse_create_token_metadata U),
      (''update-token-metadata'', parse_update_token_metadata U),
      (''add-validator'', parse_add_validator U),
      (''remove-validator'', parse_remove_validator U),
      (''increase-validator-stake'', parse_increase_validator_stake U C),
      (''decrease-validator-stake'', parse_decrease_validator_stake U C),
      (''set-preferred-validator'', parse_set_preferred_validator U),
      (''deposit-stake'', parse_deposit_stake U keypair_path),
      (''deposit-sol'', parse_deposit_sol U C),
      (''deposit-wsol-with-session'', parse_deposit_wsol_with_session U),
      (''withdraw-wsol-with-session'', parse_withdraw_wsol_with_session U),
      (''update'', parse_update U),
      (''withdraw-stake'', parse_withdraw_stake U),
      (''withdraw-sol'', parse_withdraw_sol U keypair_path),
      (''set-manager'', parse_set_manager U),
      (''set-staker'', parse_set_staker U),
      (''set-funding-authority'', parse_set_funding_authority U),
      (''set-fee'', parse_set_fee U),
      (''set-referral-fee'', parse_set_referral_fee U),
      (''deposit-all-stake'', parse_deposit_all_stake U keypair_path)]"

definition parse_subcommand ::
    "clap_utils \<Rightarrow> config \<Rightarrow> string \<Rightarrow> string \<times> ArgMatches option \<Rightarrow> client_error + main_command" where
  "parse_subcommand U C keypair_path subcommand =
     (case subcommand of (name, arg_matches) \<Rightarrow>
      if name = ''list-all'' then Inr ListAllPools
      else case arg_matches of
        None \<Rightarrow> Inl ClientPanic
      | Some M \<Rightarrow>
          if name = ''list'' then tri (pool_arg U M) (\<lambda>pool. Inr (ListPool pool))
          else case map_of (sending_arms U C keypair_path) name of
            None \<Rightarrow> Inl ClientPanic
          | Some arm \<Rightarrow> tri (arm M) (\<lambda>cmd. Inr (Send cmd)))"

section \<open>The client\<close>

text \<open>
  A run of the client on the accounts of the chain: the accounts afterwards and what the listings print;
  \<open>None\<close> only for the search for a free account that does not end.
\<close>

fun run_main_command ::
    "env \<Rightarrow> sdk \<Rightarrow> display \<Rightarrow> config \<Rightarrow> OutputFormat \<Rightarrow> (nat \<Rightarrow> Pubkey) \<Rightarrow> main_command \<Rightarrow> world
      \<Rightarrow> (client_error + (world \<times> string)) option" where
  "run_main_command E S D C output_format fresh (Send cmd) w =
     map_option (\<lambda>r. tri r (\<lambda>w'. Inr (w', ''''))) (run_command E S C fresh cmd w)"
| "run_main_command E S D C output_format fresh (ListPool pool) w =
     Some (tri (command_list E D C output_format pool w) (\<lambda>text. Inr (w, text)))"
| "run_main_command E S D C output_format fresh ListAllPools w =
     Some (tri (command_list_all_pools E D C output_format w) (\<lambda>text. Inr (w, text)))"

definition client_main ::
    "env \<Rightarrow> sdk \<Rightarrow> display \<Rightarrow> clap_utils \<Rightarrow> (nat \<Rightarrow> Pubkey) \<Rightarrow> ArgMatches \<Rightarrow> string \<times> ArgMatches option
      \<Rightarrow> world \<Rightarrow> (client_error + (world \<times> string)) option" where
  "client_main E S D U fresh matches subcommand w =
     (case main_config U matches of
        Inl e \<Rightarrow> Some (Inl e)
      | Inr (config, output_format) \<Rightarrow>
          (case parse_subcommand U config (snd (main_cli_config U matches)) subcommand of
             Inl e \<Rightarrow> Some (Inl e)
           | Inr cmd \<Rightarrow> run_main_command E S D config output_format fresh cmd w))"

section \<open>Which command lines make the client panic\<close>

text \<open>
  The documented behaviour of validators of other crates that \<open>main\<close> relies on: what passed as a public key can be read
  as one, and what passed as a percentage is a byte of at most 100.
\<close>

definition validators_sound :: "clap_utils \<Rightarrow> bool" where
  "validators_sound U \<longleftrightarrow>
     (\<forall>v. u_is_pubkey U v \<longrightarrow> u_pubkey U v \<noteq> None)
     \<and> (\<forall>v. u_is_valid_percentage U v \<longrightarrow> (\<exists>n::u8. parse_word v = Some n \<and> n \<le> 100))"

definition panic :: "client_error + 'a \<Rightarrow> bool" where
  "panic r \<longleftrightarrow> r = Inl ClientPanic"

lemma panic_tri:
  "panic (tri r f) \<longleftrightarrow> panic r \<or> (\<exists>x. r = Inr x \<and> panic (f x))"
  by (cases r) (simp_all add: panic_def)

lemma panic_simps [simp]:
  "\<not> panic (Inr x)" "panic (Inl e) \<longleftrightarrow> e = ClientPanic" "panic (unwrap y) \<longleftrightarrow> y = None"
  "\<not> panic (value_t_or_exit parse M n)" "\<not> panic (get_signer U M n path b)" "\<not> panic (value_string M n)"
  by (auto simp: panic_def unwrap_def ok_or_def value_t_or_exit_def get_signer_def value_string_def
      split: option.splits)

text \<open>A required public key can be unwrapped; other required values are there and have been checked.\<close>

lemma required_pubkey:
  assumes "validators_sound U" "accepted U args groups M" "a \<in> set args" "arg_required a" "arg_takes_value a"
    and "arg_validator a = Some IsPubkey"
  shows "pubkey_of U M (arg_name a) \<noteq> None"
proof -
  obtain v where "m_value_of M (arg_name a) = Some v" "value_ok U a v"
    by (rule required_has_value [OF assms(2-5)])
  then show ?thesis
    using assms(1,6) by (simp add: validators_sound_def value_ok_def pubkey_of_def value_t_def)
qed

lemma unwrap_Inr [simp]: "unwrap y = Inr x \<longleftrightarrow> y = Some x"
  by (cases y) (simp_all add: unwrap_def ok_or_def)

lemma value_t_or_exit_Inr [simp]: "value_t_or_exit parse M n = Inr x \<longleftrightarrow> value_t parse M n = Some x"
  by (cases "value_t parse M n") (simp_all add: value_t_or_exit_def ok_or_def)

lemma panic_if [simp]: "panic (if b then r else r') \<longleftrightarrow> (if b then panic r else panic r')"
  by simp

text \<open>When each arm panics.\<close>

lemma panic_amount:
  "panic (amount_lamports C M) \<longleftrightarrow> Option.bind (m_value_of M ''amount'') (c_sol_str_to_lamports C) = None"
  by (cases "m_value_of M ''amount''") (simp_all add: amount_lamports_def panic_tri)

lemma panic_arms:
  "\<not> panic (parse_create_pool U M)"
  "panic (parse_create_token_metadata U M) \<longleftrightarrow> pubkey_of U M ''pool'' = None"
  "panic (parse_update_token_metadata U M) \<longleftrightarrow> pubkey_of U M ''pool'' = None"
  "panic (parse_add_validator U M) \<longleftrightarrow> pubkey_of U M ''pool'' = None \<or> pubkey_of U M ''vote_account'' = None"
  "panic (parse_remove_validator U M) \<longleftrightarrow> pubkey_of U M ''pool'' = None \<or> pubkey_of U M ''vote_account'' = None"
  "panic (parse_deposit_stake U path M) \<longleftrightarrow> pubkey_of U M ''pool'' = None \<or> pubkey_of U M ''stake_account'' = None"
  "panic (parse_deposit_all_stake U path M) \<longleftrightarrow>
     pubkey_of U M ''pool'' = None \<or> pubkey_of U M ''stake_authority'' = None"
  "panic (parse_deposit_wsol_with_session U M) \<longleftrightarrow> pubkey_of U M ''pool'' = None"
  "panic (parse_withdraw_wsol_with_session U M) \<longleftrightarrow> pubkey_of U M ''pool'' = None"
  "panic (parse_update U M) \<longleftrightarrow> pubkey_of U M ''pool'' = None"
  "panic (parse_withdraw_stake U M) \<longleftrightarrow> pubkey_of U M ''pool'' = None"
  "panic (parse_withdraw_sol U path M) \<longleftrightarrow> pubkey_of U M ''pool'' = None"
  "panic (parse_set_manager U M) \<longleftrightarrow> pubkey_of U M ''pool'' = None"
  "panic (parse_set_staker U M) \<longleftrightarrow> pubkey_of U M ''pool'' = None \<or> pubkey_of U M ''new_staker'' = None"
  by (auto simp: parse_create_pool_def parse_create_token_metadata_def parse_update_token_metadata_def
      parse_add_validator_def parse_remove_validator_def parse_deposit_stake_def
      parse_deposit_all_stake_def parse_deposit_wsol_with_session_def parse_withdraw_wsol_with_session_def
      parse_update_def parse_withdraw_stake_def parse_withdraw_sol_def parse_set_manager_def
      parse_set_staker_def pool_arg_def panic_tri Let_def split: option.split)

lemma panic_amount_arms:
  "panic (parse_increase_validator_stake U C M) \<longleftrightarrow>
     pubkey_of U M ''pool'' = None \<or> pubkey_of U M ''vote_account'' = None \<or> panic (amount_lamports C M)"
  "panic (parse_decrease_validator_stake U C M) \<longleftrightarrow>
     pubkey_of U M ''pool'' = None \<or> pubkey_of U M ''vote_account'' = None \<or> panic (amount_lamports C M)"
  "panic (parse_deposit_sol U C M) \<longleftrightarrow> pubkey_of U M ''pool'' = None \<or> panic (amount_lamports C M)"
  by (auto simp: parse_increase_validator_stake_def parse_decrease_validator_stake_def parse_deposit_sol_def
      pool_arg_def panic_tri)

lemma panic_choice_arms:
  "m_value_of M ''preferred_type'' = Some v \<Longrightarrow> v \<in> {''deposit'', ''withdraw''} \<Longrightarrow>
     panic (parse_set_preferred_validator U M) \<longleftrightarrow> pubkey_of U M ''pool'' = None"
  "m_value_of M ''funding_type'' = Some v \<Longrightarrow> v \<in> {''stake-deposit'', ''sol-deposit'', ''sol-withdraw''} \<Longrightarrow>
     panic (parse_set_funding_authority U M) \<longleftrightarrow> pubkey_of U M ''pool'' = None"
  "m_value_of M ''fee_type'' = Some v \<Longrightarrow>
     v \<in> {''epoch'', ''stake-deposit'', ''sol-deposit'', ''stake-withdrawal'', ''sol-withdrawal''} \<Longrightarrow>
     panic (parse_set_fee U M) \<longleftrightarrow> pubkey_of U M ''pool'' = None"
  "m_value_of M ''fee_type'' = Some v \<Longrightarrow> v \<in> {''stake'', ''sol''} \<Longrightarrow>
     value_t parse_word M ''fee'' = Some (n::u8) \<Longrightarrow> n \<le> 100 \<Longrightarrow>
     panic (parse_set_referral_fee U M) \<longleftrightarrow> pubkey_of U M ''pool'' = None"
  by (auto simp: parse_set_preferred_validator_def parse_set_funding_authority_def parse_set_fee_def
      parse_set_referral_fee_def pool_arg_def panic_tri Let_def)

text \<open>What the declarations demand, checked by evaluation.\<close>

definition demands :: "SubCommand \<Rightarrow> string \<Rightarrow> arg_validator option \<Rightarrow> string list \<Rightarrow> bool" where
  "demands s n c vs \<longleftrightarrow>
     list_ex (\<lambda>a. arg_name a = n \<and> arg_required a \<and> arg_takes_value a \<and> arg_validator a = c
       \<and> arg_possible_values a = vs) (sub_args s)"

lemmas declarations =
  args_create_pool_def args_create_token_metadata_def args_update_token_metadata_def args_add_validator_def
  args_remove_validator_def args_increase_validator_stake_def args_decrease_validator_stake_def
  args_set_preferred_validator_def args_deposit_stake_def args_deposit_all_stake_def args_deposit_sol_def
  args_deposit_wsol_def args_deposit_wsol_with_session_def args_withdraw_wsol_with_session_def args_list_def
  args_update_def args_withdraw_stake_def args_withdraw_sol_def args_set_manager_def args_set_staker_def
  args_set_funding_authority_def args_set_fee_def args_set_referral_fee_def args_list_all_def

lemma pools_demanded:
  "s \<in> set app_subcommands \<Longrightarrow> sub_name s \<notin> {''create-pool'', ''list-all''} \<Longrightarrow>
     demands s ''pool'' (Some IsPubkey) []"
  by (auto simp: app_subcommands_def declarations demands_def with_name_def)

lemma others_demanded:
  "demands args_add_validator ''vote_account'' (Some IsPubkey) []"
  "demands args_remove_validator ''vote_account'' (Some IsPubkey) []"
  "demands args_increase_validator_stake ''vote_account'' (Some IsPubkey) []"
  "demands args_decrease_validator_stake ''vote_account'' (Some IsPubkey) []"
  "demands args_deposit_stake ''stake_account'' (Some IsPubkey) []"
  "demands args_deposit_all_stake ''stake_authority'' (Some IsPubkey) []"
  "demands args_set_preferred_validator ''preferred_type'' None [''deposit'', ''withdraw'']"
  "demands args_set_funding_authority ''funding_type'' None [''stake-deposit'', ''sol-deposit'', ''sol-withdraw'']"
  "demands args_set_fee ''fee_type'' None
     [''epoch'', ''stake-deposit'', ''sol-deposit'', ''stake-withdrawal'', ''sol-withdrawal'']"
  "demands args_set_referral_fee ''fee_type'' None [''stake'', ''sol'']"
  "demands args_set_referral_fee ''fee'' (Some IsValidPercentage) []"
  by (simp_all add: declarations demands_def with_name_def)

lemma sub_names:
  "sub_name args_create_pool = ''create-pool''"
  "sub_name args_create_token_metadata = ''create-token-metadata''"
  "sub_name args_update_token_metadata = ''update-token-metadata''"
  "sub_name args_add_validator = ''add-validator''"
  "sub_name args_remove_validator = ''remove-validator''"
  "sub_name args_increase_validator_stake = ''increase-validator-stake''"
  "sub_name args_decrease_validator_stake = ''decrease-validator-stake''"
  "sub_name args_set_preferred_validator = ''set-preferred-validator''"
  "sub_name args_deposit_stake = ''deposit-stake''"
  "sub_name args_deposit_all_stake = ''deposit-all-stake''"
  "sub_name args_deposit_sol = ''deposit-sol''"
  "sub_name args_deposit_wsol = ''deposit-wsol''"
  "sub_name args_deposit_wsol_with_session = ''deposit-wsol-with-session''"
  "sub_name args_withdraw_wsol_with_session = ''withdraw-wsol-with-session''"
  "sub_name args_list = ''list''"
  "sub_name args_update = ''update''"
  "sub_name args_withdraw_stake = ''withdraw-stake''"
  "sub_name args_withdraw_sol = ''withdraw-sol''"
  "sub_name args_set_manager = ''set-manager''"
  "sub_name args_set_staker = ''set-staker''"
  "sub_name args_set_funding_authority = ''set-funding-authority''"
  "sub_name args_set_fee = ''set-fee''"
  "sub_name args_set_referral_fee = ''set-referral-fee''"
  "sub_name args_list_all = ''list-all''"
  by (simp_all add: declarations)

lemma demanded_pubkey:
  assumes "validators_sound U" "accepted U (sub_args s) groups M" "demands s n (Some IsPubkey) []"
  shows "pubkey_of U M n \<noteq> None"
  using assms(3) required_pubkey [OF assms(1,2)] by (auto simp: demands_def list_ex_iff)

lemma demanded_value:
  assumes "accepted U (sub_args s) groups M" "demands s n c vs"
  obtains v where "m_value_of M n = Some v" "case c of None \<Rightarrow> True | Some c \<Rightarrow> validates U c v"
    "vs = [] \<or> v \<in> set vs"
proof -
  obtain a where a: "a \<in> set (sub_args s)" "arg_name a = n" "arg_required a" "arg_takes_value a"
      "arg_validator a = c" "arg_possible_values a = vs"
    using assms(2) by (auto simp: demands_def list_ex_iff)
  obtain v where "m_value_of M n = Some v" "value_ok U a v"
    using required_has_value [OF assms(1) a(1,3,4)] a(2) by blast
  then show thesis using that a(5,6) by (auto simp: value_ok_def)
qed

lemma choice_arms_safe:
  assumes "validators_sound U"
  shows "accepted U (sub_args args_set_preferred_validator) groups M \<Longrightarrow>
      panic (parse_set_preferred_validator U M) \<longleftrightarrow> pubkey_of U M ''pool'' = None"
    and "accepted U (sub_args args_set_funding_authority) groups M \<Longrightarrow>
      panic (parse_set_funding_authority U M) \<longleftrightarrow> pubkey_of U M ''pool'' = None"
    and "accepted U (sub_args args_set_fee) groups M \<Longrightarrow>
      panic (parse_set_fee U M) \<longleftrightarrow> pubkey_of U M ''pool'' = None"
    and "accepted U (sub_args args_set_referral_fee) groups M \<Longrightarrow>
      panic (parse_set_referral_fee U M) \<longleftrightarrow> pubkey_of U M ''pool'' = None"
proof -
  show "accepted U (sub_args args_set_preferred_validator) groups M \<Longrightarrow>
      panic (parse_set_preferred_validator U M) \<longleftrightarrow> pubkey_of U M ''pool'' = None"
    by (erule demanded_value [OF _ others_demanded(7)], rule panic_choice_arms) auto
  show "accepted U (sub_args args_set_funding_authority) groups M \<Longrightarrow>
      panic (parse_set_funding_authority U M) \<longleftrightarrow> pubkey_of U M ''pool'' = None"
    by (erule demanded_value [OF _ others_demanded(8)], rule panic_choice_arms) auto
  show "accepted U (sub_args args_set_fee) groups M \<Longrightarrow>
      panic (parse_set_fee U M) \<longleftrightarrow> pubkey_of U M ''pool'' = None"
    by (erule demanded_value [OF _ others_demanded(9)], rule panic_choice_arms) auto
  assume acc: "accepted U (sub_args args_set_referral_fee) groups M"
  obtain v where "m_value_of M ''fee_type'' = Some v" "v \<in> {''stake'', ''sol''}"
    by (rule demanded_value [OF acc others_demanded(10)]) simp
  moreover obtain w where w: "m_value_of M ''fee'' = Some w" "u_is_valid_percentage U w"
    by (rule demanded_value [OF acc others_demanded(11)]) simp
  moreover from w(2) obtain n :: u8 where "parse_word w = Some n" "n \<le> 100"
    using assms by (auto simp: validators_sound_def)
  ultimately show "panic (parse_set_referral_fee U M) \<longleftrightarrow> pubkey_of U M ''pool'' = None"
    by (intro panic_choice_arms) (auto simp: value_t_def)
qed

lemma new_staker_read:
  assumes "validators_sound U" "accepted U (sub_args args_set_staker) groups M"
  shows "pubkey_of U M ''new_staker'' = None \<longleftrightarrow> m_value_of M ''new_staker'' = None"
  using assms
  by (auto simp: accepted_def args_set_staker_def with_name_def arg_accepted_def value_ok_def validators_sound_def
      pubkey_of_def value_t_def split: option.splits)

lemma config_safe:
  assumes "accepted U (app_args U) [] G"
  shows "\<not> panic (main_config U G)"
proof -
  have "v = ''json'' \<or> v = ''json-compact''" if "m_value_of G ''output_format'' = Some v" for v
    using assms that by (auto simp: accepted_def app_args_def with_name_def arg_accepted_def value_ok_def)
  then have f: "\<not> panic (main_output_format G)"
    by (auto simp: main_output_format_def split: option.split)
  have "is_compute_unit_limit_or_simulated v" if "m_value_of G ''compute_unit_limit'' = Some v" for v
    using assms that by (auto simp: accepted_def app_args_def with_name_def arg_accepted_def value_ok_def)
  then have l: "\<not> panic (main_compute_unit_limit G price)" for price
    by (auto simp: main_compute_unit_limit_def compute_unit_limit_parses split: option.split)
  show ?thesis
    using f l by (auto simp: main_config_def panic_tri Let_def split: prod.split)
qed

lemma arms_by_name:
  "map_of (sending_arms U C keypair_path) ''create-pool'' = Some (parse_create_pool U)"
  "map_of (sending_arms U C keypair_path) ''create-token-metadata'' = Some (parse_create_token_metadata U)"
  "map_of (sending_arms U C keypair_path) ''update-token-metadata'' = Some (parse_update_token_metadata U)"
  "map_of (sending_arms U C keypair_path) ''add-validator'' = Some (parse_add_validator U)"
  "map_of (sending_arms U C keypair_path) ''remove-validator'' = Some (parse_remove_validator U)"
  "map_of (sending_arms U C keypair_path) ''increase-validator-stake'' = Some (parse_increase_validator_stake U C)"
  "map_of (sending_arms U C keypair_path) ''decrease-validator-stake'' = Some (parse_decrease_validator_stake U C)"
  "map_of (sending_arms U C keypair_path) ''set-preferred-validator'' = Some (parse_set_preferred_validator U)"
  "map_of (sending_arms U C keypair_path) ''deposit-stake'' = Some (parse_deposit_stake U keypair_path)"
  "map_of (sending_arms U C keypair_path) ''deposit-sol'' = Some (parse_deposit_sol U C)"
  "map_of (sending_arms U C keypair_path) ''deposit-wsol-with-session'' = Some (parse_deposit_wsol_with_session U)"
  "map_of (sending_arms U C keypair_path) ''withdraw-wsol-with-session'' = Some (parse_withdraw_wsol_with_session U)"
  "map_of (sending_arms U C keypair_path) ''update'' = Some (parse_update U)"
  "map_of (sending_arms U C keypair_path) ''withdraw-stake'' = Some (parse_withdraw_stake U)"
  "map_of (sending_arms U C keypair_path) ''withdraw-sol'' = Some (parse_withdraw_sol U keypair_path)"
  "map_of (sending_arms U C keypair_path) ''set-manager'' = Some (parse_set_manager U)"
  "map_of (sending_arms U C keypair_path) ''set-staker'' = Some (parse_set_staker U)"
  "map_of (sending_arms U C keypair_path) ''set-funding-authority'' = Some (parse_set_funding_authority U)"
  "map_of (sending_arms U C keypair_path) ''set-fee'' = Some (parse_set_fee U)"
  "map_of (sending_arms U C keypair_path) ''set-referral-fee'' = Some (parse_set_referral_fee U)"
  "map_of (sending_arms U C keypair_path) ''deposit-all-stake'' = Some (parse_deposit_all_stake U keypair_path)"
  "map_of (sending_arms U C keypair_path) ''deposit-wsol'' = None"
  by (simp_all add: sending_arms_def)

lemma panic_subcommand:
  "panic (parse_subcommand U C path (name, Some M)) \<longleftrightarrow> name \<noteq> ''list-all''
     \<and> (if name = ''list'' then pubkey_of U M ''pool'' = None
        else case map_of (sending_arms U C path) name of None \<Rightarrow> True | Some arm \<Rightarrow> panic (arm M))"
  by (auto simp: parse_subcommand_def pool_arg_def panic_tri split: option.split)

text \<open>
  C29. Which command lines make the client panic before it does anything, when the parser of command
  lines has accepted them: the global arguments never do, and of the subcommands exactly these do.
  \<open>deposit-wsol\<close> is declared and has no arm in the \<open>match\<close>, so it always ends in \<open>unreachable!\<close>; \<open>set-staker\<close> does not
  demand its new staker and unwraps it; \<open>increase-validator-stake\<close>, \<open>decrease-validator-stake\<close> and
  \<open>deposit-sol\<close> do not demand their amount and unwrap it and its conversion to lamports.
\<close>

theorem accepted_line_panics_iff:
  assumes sound: "validators_sound U" and s: "s \<in> set app_subcommands"
    and acc: "accepted U (sub_args s) (sub_groups s) M" and main: "accepted U (app_args U) [] G"
  shows "main_config U G \<noteq> Inl ClientPanic
    \<and> (parse_subcommand U C path (sub_name s, Some M) = Inl ClientPanic \<longleftrightarrow>
        sub_name s = ''deposit-wsol''
      \<or> sub_name s = ''set-staker'' \<and> m_value_of M ''new_staker'' = None
      \<or> sub_name s \<in> {''increase-validator-stake'', ''decrease-validator-stake'', ''deposit-sol''}
        \<and> Option.bind (m_value_of M ''amount'') (c_sol_str_to_lamports C) = None)"
proof -
  have pool: "sub_name s \<notin> {''create-pool'', ''list-all''} \<Longrightarrow> pubkey_of U M ''pool'' \<noteq> None"
    by (rule demanded_pubkey [OF sound acc pools_demanded [OF s]])
  note keys = others_demanded(1-6) [THEN demanded_pubkey [OF sound, rotated]]
  have "panic (parse_subcommand U C path (sub_name s, Some M)) \<longleftrightarrow>
        sub_name s = ''deposit-wsol''
      \<or> sub_name s = ''set-staker'' \<and> m_value_of M ''new_staker'' = None
      \<or> sub_name s \<in> {''increase-validator-stake'', ''decrease-validator-stake'', ''deposit-sol''}
        \<and> Option.bind (m_value_of M ''amount'') (c_sol_str_to_lamports C) = None"
    unfolding panic_subcommand using s acc pool unfolding app_subcommands_def list.set insert_iff empty_iff
    by (elim disjE) (simp_all add: arms_by_name sub_names panic_arms panic_amount_arms panic_amount keys
        choice_arms_safe [OF sound] new_staker_read [OF sound] del: not_None_eq)
  then show ?thesis using config_safe [OF main] by (simp add: panic_def)
qed

text \<open>The declarations fit together, as the parser of command lines asserts of them.\<close>

lemma declarations_well: "list_all declared_well app_subcommands"
  by (simp add: app_subcommands_def declarations declared_well_def with_name_def)

text \<open>
  A comment in \<open>main\<close> says that the vote account is missing whenever \<open>--unset\<close> is given, which is why the flag is not
  read. It is so: of a command line that the parser accepts, \<open>set-preferred-validator\<close> names no validator exactly when
  the flag is given, and \<open>set-funding-authority\<close> no authority exactly when the flag is given.
\<close>

lemma unset_names_nothing:
  assumes "validators_sound U"
    and "accepted U (sub_args args_set_preferred_validator) (sub_groups args_set_preferred_validator) M"
    and "parse_set_preferred_validator U M = Inr (SetPreferred pool t vote)"
    and "accepted U (sub_args args_set_funding_authority) (sub_groups args_set_funding_authority) N"
    and "parse_set_funding_authority U N = Inr (ChangeFunding pool' authority f)"
  shows "(vote = None \<longleftrightarrow> m_is_present M ''unset'') \<and> (authority = None \<longleftrightarrow> m_is_present N ''unset'')"
proof -
  have "vote = pubkey_of U M ''vote_account''" "authority = pubkey_of U N ''new_authority''"
    using assms(3,5)
    by (auto simp: parse_set_preferred_validator_def parse_set_funding_authority_def inversions split: if_splits)
  moreover have "pubkey_of U M ''vote_account'' = None \<longleftrightarrow> m_is_present M ''unset''"
    using assms(1,2)
    by (auto simp: accepted_def args_set_preferred_validator_def with_name_def arg_accepted_def value_ok_def
        group_accepted_def group_present_def validators_sound_def pubkey_of_def value_t_def split: option.splits if_splits)
  moreover have "pubkey_of U N ''new_authority'' = None \<longleftrightarrow> m_is_present N ''unset''"
    using assms(1,4)
    by (auto simp: accepted_def args_set_funding_authority_def with_name_def arg_accepted_def value_ok_def
        group_accepted_def group_present_def validators_sound_def pubkey_of_def value_t_def split: option.splits if_splits)
  ultimately show ?thesis by simp
qed

text \<open>
  C30. The flag \<open>--dry-run\<close> is honoured by every command line: when it is given, a run of the client that
  succeeds leaves the accounts of the chain as they were, whatever the subcommand and its arguments.
\<close>

theorem main_dry_run:
  assumes "m_is_present matches ''dry_run''"
    and "client_main E S D U fresh matches subcommand w = Some (Inr (w', out))"
  shows "w' = w"
proof -
  obtain C fmt cmd where C: "main_config U matches = Inr (C, fmt)"
      and run: "run_main_command E S D C fmt fresh cmd w = Some (Inr (w', out))"
    using assms(2) by (auto simp: client_main_def split: sum.splits)
  have dry: "c_dry_run C"
    using C assms(1) by (auto simp: main_config_def inversions Let_def split: prod.splits)
  show ?thesis
    using run by (cases cmd) (auto simp: inversions dest: dry_run_changes_nothing [OF dry])
qed

text \<open>
  C34. A pool created by the client without the arguments for a withdrawal fee cannot be withdrawn from with the
  client: \<open>create-pool\<close> then asks for the fee 0/0, the program stores it, and as long as the pool
  keeps it, the client's plan of a stake withdrawal panics with a division by zero as soon as a validator
  holds more than the minimum balance.
\<close>

theorem default_pool_withdrawals_panic:
  assumes parsed: "parse_create_pool U M = Inr (CreatePool auth epf wdf dpf rf m k1 k2 k3 k4 unsafe)"
    and unset: "m_value_of M ''withdrawal_fee_numerator'' = None" "m_value_of M ''withdrawal_fee_denominator'' = None"
    and created: "process_initialize E pid (pool # accts) epf wdf dpf rf m w = Inr w'" "cpi_law E pid"
      "load_pool w' pool = Inr p0"
    and kept: "sp_stake_withdrawal_fee p = sp_stake_withdrawal_fee p0"
    and node: "c_get_stake_minimum_delegation C = Inr d" "c_get_rent_exemption C STAKE_STATE_LEN = Inr r"
      "get_token_mint C w2 (sp_pool_mint p) = Inr decimals" "get_validator_list C w2 (sp_validator_list p) = Inr l"
      "get_account C w2 (sp_reserve_stake p) = Inr res"
    and stake: "v \<in> set (vl_validators l)" "saturating_add r (minimum_delegation d) < vsi_active_stake_lamports v"
  shows "sp_stake_withdrawal_fee p = \<lparr>fee_denominator = 0, fee_numerator = 0\<rparr>
    \<and> prepare_withdraw_accounts E2 C p amount k False w2 = Inl ClientPanic"
proof -
  have "wdf = \<lparr>fee_denominator = 0, fee_numerator = 0\<rparr>"
    using parsed unset by (auto simp: parse_create_pool_def inversions Let_def value_t_def unwrap_or_def)
  moreover have "sp_stake_withdrawal_fee p0 = wdf"
    using created(1,2) by (rule initialize_success) (use created(3) in \<open>auto simp: fresh_pool_def\<close>)
  ultimately have fee: "sp_stake_withdrawal_fee p = \<lparr>fee_denominator = 0, fee_numerator = 0\<rparr>"
    using kept by simp
  then show ?thesis by (simp add: withdraw_without_fee_panics [OF _ node stake])
qed

text \<open>
  A node that serves the client: it gives a blockhash and the fee of every message, the payer can
  pay, every signer has a key at hand, and sending a transaction runs its instructions for the program one after the
  other, all or nothing; the instructions of the compute budget are for another program.
\<close>

definition node_serves :: "env \<Rightarrow> config \<Rightarrow> world \<Rightarrow> bool" where
  "node_serves E C w \<longleftrightarrow>
     c_get_latest_blockhash C w = Inr ()
     \<and> (\<forall>ixs. \<exists>fee b. c_get_fee_for_message C w ixs = Inr fee \<and> c_get_balance C w (c_fee_payer C) = Inr b \<and> fee \<le> b)
     \<and> (\<forall>ss ixs. c_sign C ss ixs = Inr \<lparr>tx_signers = ss, tx_instructions = ixs\<rparr>)
     \<and> (\<forall>n. bi_program_id (c_set_compute_unit_price C n) \<noteq> c_program_id C)
     \<and> (\<forall>n. bi_program_id (c_set_compute_unit_limit C n) \<noteq> c_program_id C)
     \<and> (\<forall>tx. c_send_and_confirm C tx w =
           (case run_all E (filter (\<lambda>b. bi_program_id b = c_program_id C) (tx_instructions tx)) w of
              Inl _ \<Rightarrow> Inl RpcError | Inr w' \<Rightarrow> Inr w'))"

lemma saturating_add_0: "saturating_add 0 (x :: u64) = x"
  using uint_lt2p [of x] by (simp add: saturating_add_def max_def)

lemma send_checked_serves:
  assumes node: "node_serves E C w" and live: "\<not> c_dry_run C" "c_compute_unit_limit C \<noteq> CulSimulated"
    and own: "\<forall>b \<in> set ixs. bi_program_id b = c_program_id C"
  shows "send_checked C ixs ss w = (case run_all E ixs w of Inl _ \<Rightarrow> Inl RpcError | Inr w' \<Rightarrow> Inr w')"
proof -
  have pay: "\<exists>fee b. c_get_fee_for_message C w m = Inr fee \<and> c_get_balance C w (c_fee_payer C) = Inr b \<and> fee \<le> b" for m
    using node by (simp add: node_serves_def)
  have serves: "c_get_latest_blockhash C w = Inr ()" "c_sign C ss m = Inr \<lparr>tx_signers = ss, tx_instructions = m\<rparr>"
      "c_send_and_confirm C tx w = (case run_all E (filter (\<lambda>b. bi_program_id b = c_program_id C) (tx_instructions tx)) w of
         Inl _ \<Rightarrow> Inl RpcError | Inr w' \<Rightarrow> Inr w')" for m tx
    using node unfolding node_serves_def by blast+
  obtain b where b: "c_get_balance C w (c_fee_payer C) = Inr b" using pay by blast
  have fee: "\<exists>fee. c_get_fee_for_message C w m = Inr fee \<and> check_fee_payer_balance C w fee = Inr ()" for m
    using pay [of m] b by (auto simp: check_fee_payer_balance_def not_less)
  obtain extra where tx: "checked_transaction_with_signers C w ixs ss
        = Inr \<lparr>tx_signers = ss, tx_instructions = ixs @ extra\<rparr>"
      and extra: "\<forall>b \<in> set extra. bi_program_id b \<noteq> c_program_id C"
  proof -
    let ?price = "case c_compute_unit_price C of Some n \<Rightarrow> [c_set_compute_unit_price C n] | None \<Rightarrow> []"
    let ?limit = "case c_compute_unit_limit C of CulStatic n \<Rightarrow> [c_set_compute_unit_limit C n] | _ \<Rightarrow> []"
    show thesis
    proof (rule that [of "?price @ ?limit"])
      obtain f where "c_get_fee_for_message C w (ixs @ ?price @ ?limit) = Inr f" "check_fee_payer_balance C w f = Inr ()"
        using fee by blast
      then show "checked_transaction_with_signers C w ixs ss
          = Inr \<lparr>tx_signers = ss, tx_instructions = ixs @ ?price @ ?limit\<rparr>"
        using live(2)
        by (cases "c_compute_unit_limit C") (simp_all add: checked_transaction_with_signers_def
            checked_transaction_with_signers_and_additional_fee_def serves(1,2) saturating_add_0 cong: tri_weak_cong)
      show "\<forall>b \<in> set (?price @ ?limit). bi_program_id b \<noteq> c_program_id C"
        using node by (auto simp: node_serves_def split: option.splits ComputeUnitLimit.splits)
    qed
  qed
  have "filter (\<lambda>b. bi_program_id b = c_program_id C) (ixs @ extra) = ixs"
    using own extra by (simp add: filter_id_conv filter_empty_conv)
  then show ?thesis
    using live(1) by (simp add: send_checked_def tx send_transaction_def serves)
qed

text \<open>
  C15. From the command line to the chain: with a node that serves, \<open>set-staker\<close> given a pool and a new staker
  succeeds exactly when the key given as manager is the manager or the staker in office, and then the account of the
  pool holds the old record with the new staker; with any other key the client reports the failed transaction.
\<close>

theorem set_staker_command_line:
  assumes config: "main_config U G = Inr (C, fmt)" "\<not> m_is_present G ''dry_run''" "m_is_present G ''no_update''"
      "c_compute_unit_limit C \<noteq> CulSimulated"
    and given: "pubkey_of U M ''pool'' = Some k" "pubkey_of U M ''new_staker'' = Some s"
    and node: "node_serves E C w"
    and pool: "owner_of w (info_of (account_meta k False)) = c_program_id C"
      "load_pool w (info_of (account_meta k False)) = Inr p" "sp_is_valid p"
      "611 \<le> length (data_of w (info_of (account_meta k False)))"
  shows "if c_manager C \<in> {sp_manager p, sp_staker p}
    then \<exists>w'. client_main E S D U fresh G (''set-staker'', Some M) w = Some (Inr (w', []))
      \<and> load_pool w' (info_of (account_meta k False)) = Inr (p\<lparr>sp_staker := s\<rparr>)
    else client_main E S D U fresh G (''set-staker'', Some M) w = Some (Inl RpcError)"
proof -
  let ?ix = "set_staker E S (c_program_id C) k (c_manager C) s"
  have live: "\<not> c_dry_run C" "c_no_update C"
    using config(1-3) by (auto simp: main_config_def inversions Let_def split: prod.splits)
  have "parse_subcommand U C path (''set-staker'', Some M) = Inr (Send (ChangeStaker k s))" for path
    using given by (simp add: parse_subcommand_def arms_by_name parse_set_staker_def pool_arg_def unwrap_def ok_or_def)
  moreover have "send_checked C [?ix] ss w = (case run_built E ?ix w of Inl _ \<Rightarrow> Inl RpcError | Inr w' \<Rightarrow> Inr w')" for ss
    using send_checked_serves [OF node live(1) config(4), of "[?ix]" ss]
    by (cases "run_built E ?ix w") (simp_all add: set_staker_def build_def)
  ultimately have "client_main E S D U fresh G (''set-staker'', Some M) w
      = Some (case run_built E ?ix w of Inl _ \<Rightarrow> Inl RpcError | Inr w' \<Rightarrow> Inr (w', []))"
    using config(1) live(2)
    by (simp add: client_main_def command_set_staker_def update_first_def split: sum.split)
  then show ?thesis
    using set_staker_runs [OF pool, of "c_manager C" E S s] by (auto split: if_splits)
qed

section \<open>Concrete command lines\<close>

definition sample_matches :: "(string \<times> string) list \<Rightarrow> string list \<Rightarrow> ArgMatches" where
  "sample_matches vs flags = \<lparr>m_value_of = map_of vs, m_is_present = (\<lambda>n. n \<in> set (map fst vs) \<or> n \<in> set flags)\<rparr>"

definition sample_utils :: clap_utils where
  "sample_utils =
     \<lparr>u_is_url = (\<lambda>_. True), u_is_valid_signer = (\<lambda>_. True), u_is_valid_pubkey = (\<lambda>_. True),
      u_is_pubkey = (\<lambda>v. (parse_word v :: Pubkey option) \<noteq> None),
      u_is_valid_percentage = (\<lambda>v. case parse_word v of Some n \<Rightarrow> n \<le> (100 :: u8) | None \<Rightarrow> False),
      u_is_keypair_or_ask_keyword = (\<lambda>_. True), u_is_amount = (\<lambda>_. True), u_pubkey = parse_word,
      u_keypair = parse_word, u_signer_from_path = (\<lambda>_ _ _. Some 13), u_parse_f64 = Some, u_config_file = None,
      u_load_config = (\<lambda>_. None), u_default_config = (''devnet'', ''id.json''),
      u_compute_unit_price_arg = with_name ''compute_unit_price'', u_declare_id = (\<lambda>_. 99),
      u_rpc_client = (\<lambda>_. sample_config)\<rparr>"

definition sample_display :: display where
  "sample_display =
     \<lparr>d_key = show_word, d_sol = show_word, d_f64 = id, d_amount_to_ui_amount = (\<lambda>n _. show_word n),
      d_json = (\<lambda>_ _. []), d_json_all = (\<lambda>_ _. [])\<rparr>"

lemma sample_sound: "validators_sound sample_utils"
  by (auto simp: validators_sound_def sample_utils_def split: option.splits)

lemma sample_numbers:
  "parse_word ''1'' = Some (1 :: Pubkey)" "parse_word ''30'' = Some (30 :: Pubkey)"
  "parse_word ''1'' = Some (1 :: u64)" "parse_word ''100'' = Some (100 :: u64)" "parse_word ''1000'' = Some (1000 :: u64)"
  "parse_word ''50'' = Some (50 :: u8)" "parse_word ''4'' = Some (4 :: u32)"
  by (simp_all add: parse_word_def parse_unsigned_def digit_value_def Let_def)

lemma sample_globals: "accepted sample_utils (app_args sample_utils) [] (sample_matches [] [''dry_run'', ''no_update''])"
  by (simp add: accepted_def app_args_def sample_utils_def sample_matches_def arg_accepted_def with_name_def)

theorem accepted_line_panics_iff_witness:
  "accepted sample_utils (sub_args args_deposit_wsol) (sub_groups args_deposit_wsol) (sample_matches [(''pool'', ''1'')] [])
   \<and> parse_subcommand sample_utils sample_config ''id.json''
       (''deposit-wsol'', Some (sample_matches [(''pool'', ''1'')] [])) = Inl ClientPanic"
proof -
  let ?M = "sample_matches [(''pool'', ''1'')] []"
  have acc: "accepted sample_utils (sub_args args_deposit_wsol) (sub_groups args_deposit_wsol) ?M"
    by (simp add: accepted_def args_deposit_wsol_def sample_matches_def arg_accepted_def value_ok_def with_name_def)
      (simp add: sample_utils_def sample_numbers)
  have "args_deposit_wsol \<in> set app_subcommands" by (simp add: app_subcommands_def)
  from accepted_line_panics_iff [OF sample_sound this acc sample_globals, of sample_config "''id.json''"] acc
  show ?thesis by (simp add: sub_names)
qed

lemma sample_main_runs:
  "client_main sample_env sample_sdk sample_display sample_utils (\<lambda>_. 0) (sample_matches [] [''dry_run'', ''no_update''])
     (''set-staker'', Some (sample_matches [(''pool'', ''1''), (''new_staker'', ''30'')] [])) sample_world
   = Some (Inr (sample_world, []))"
proof -
  let ?M = "sample_matches [(''pool'', ''1''), (''new_staker'', ''30'')] []"
  let ?C = "sample_config\<lparr>c_manager := 13, c_staker := 13, c_token_owner := 13, c_fee_payer := 13,
    c_compute_unit_price := None, c_compute_unit_limit := CulDefault\<rparr>"
  have config: "main_config sample_utils (sample_matches [] [''dry_run'', ''no_update'']) = Inr (?C, OutDisplay)"
    by (simp add: main_config_def main_cli_config_def get_signer_def main_output_format_def
        main_compute_unit_limit_def pubkey_of_def value_t_def sample_matches_def unwrap_or_def ok_or_def
        sample_utils_def default_stake_pool_id_def with_name_def sample_config_def)
  have parse: "parse_subcommand sample_utils ?C path (''set-staker'', Some ?M) = Inr (Send (ChangeStaker 1 30))" for path
    by (simp add: parse_subcommand_def arms_by_name parse_set_staker_def pool_arg_def pubkey_of_def value_t_def
        sample_matches_def sample_numbers unwrap_def ok_or_def sample_utils_def)
  have "c_no_update sample_config" by (simp add: sample_config_def)
  then have "command_set_staker sample_env sample_sdk ?C 1 30 sample_world = Inr sample_world"
    by (simp add: command_set_staker_def update_first_def send_checked_def checked_transaction_with_signers_def
        checked_transaction_with_signers_and_additional_fee_def check_fee_payer_balance_def send_transaction_def
        sample_config_fields saturating_add_def max_def cong: tri_weak_cong)
  then show ?thesis by (simp add: client_main_def config parse)
qed

theorem main_dry_run_witness:
  "\<exists>w' out. client_main sample_env sample_sdk sample_display sample_utils (\<lambda>_. 0)
     (sample_matches [] [''dry_run'', ''no_update''])
     (''set-staker'', Some (sample_matches [(''pool'', ''1''), (''new_staker'', ''30'')] [])) sample_world
     = Some (Inr (w', out)) \<and> w' = sample_world"
  using main_dry_run [OF _ sample_main_runs] sample_main_runs by (simp add: sample_matches_def)

theorem default_pool_withdrawals_panic_witness:
  "prepare_withdraw_accounts sample_env sample_config
     (sample_pool\<lparr>sp_stake_withdrawal_fee := \<lparr>fee_denominator = 0, fee_numerator = 0\<rparr>\<rparr>)
     1000 1 False sample_world = Inl ClientPanic"
proof -
  let ?M = "sample_matches [(''epoch_fee_numerator'', ''1''), (''epoch_fee_denominator'', ''100''),
    (''deposit_fee_numerator'', ''1''), (''deposit_fee_denominator'', ''1000''), (''referral_fee'', ''50''),
    (''max_validators'', ''4'')] []"
  let ?fee = "\<lambda>d n. \<lparr>fee_denominator = d, fee_numerator = n\<rparr>"
  let ?p = "sample_pool\<lparr>sp_stake_withdrawal_fee := ?fee 0 0\<rparr>"
  have parsed: "parse_create_pool sample_utils ?M
      = Inr (CreatePool None (?fee 100 1) (?fee 0 0) (?fee 1000 1) 50 4 None None None None False)"
    and unset: "m_value_of ?M ''withdrawal_fee_numerator'' = None" "m_value_of ?M ''withdrawal_fee_denominator'' = None"
    by (simp_all add: parse_create_pool_def sample_matches_def value_t_or_exit_def value_t_def keypair_of_def
        sample_numbers unwrap_or_def ok_or_def)
  obtain w' where w': "process_initialize fresh_env 99 [acct 1, signer 11, acct 12, acct 50, acct 14, acct 15,
      acct 16, acct 17, acct 18] (?fee 100 1) (?fee 0 0) (?fee 1000 1) 50 4 fresh_world = Inr w'"
    using initialize_runs_fee [of "?fee 0 0"] by (auto simp: fee_above_one_def)
  obtain p0 where p0: "load_pool w' (acct 1) = Inr p0" "sp_stake_withdrawal_fee p0 = ?fee 0 0"
    by (rule initialize_success [OF w' fresh_law]) (auto simp: fresh_pool_def)
  have "sp_stake_withdrawal_fee ?p = ?fee 0 0 \<and> prepare_withdraw_accounts sample_env sample_config ?p 1000 1 False sample_world
      = Inl ClientPanic"
  proof (rule default_pool_withdrawals_panic [OF parsed unset w' fresh_law p0(1)])
    show "c_get_stake_minimum_delegation sample_config = Inr 1"
      "c_get_rent_exemption sample_config STAKE_STATE_LEN = Inr 100"
      by (simp_all add: sample_config_fields)
    show "sample_validators ! 1 \<in> set (vl_validators sample_list)"
      by (simp add: sample_list_def sample_validators_def)
    show "saturating_add 100 (minimum_delegation 1) < vsi_active_stake_lamports (sample_validators ! 1)"
      by (simp add: saturating_add_def minimum_delegation_def MINIMUM_ACTIVE_STAKE_def sample_validators_def
          default_vsi_def max_def)
  qed (simp_all add: sample_reads sample_simps p0(2))
  then show ?thesis ..
qed

definition serving_config :: config where
  "serving_config = sample_config\<lparr>c_send_and_confirm := (\<lambda>tx w.
     case run_all sample_env (filter (\<lambda>b. bi_program_id b = 99) (tx_instructions tx)) w of
       Inl _ \<Rightarrow> Inl RpcError | Inr w' \<Rightarrow> Inr w')\<rparr>"

theorem set_staker_command_line_witness:
  "\<exists>w'. client_main sample_env sample_sdk sample_display
        (sample_utils\<lparr>u_rpc_client := (\<lambda>_. serving_config), u_signer_from_path := (\<lambda>_ _ _. Some 11)\<rparr>) (\<lambda>_. 0)
        (sample_matches [] [''no_update''])
        (''set-staker'', Some (sample_matches [(''pool'', ''1''), (''new_staker'', ''30'')] [])) roomy_world
      = Some (Inr (w', [])) \<and> load_pool w' (acct 1) = Inr (sample_pool\<lparr>sp_staker := 30\<rparr>)"
proof -
  let ?U = "sample_utils\<lparr>u_rpc_client := (\<lambda>_. serving_config), u_signer_from_path := (\<lambda>_ _ _. Some 11)\<rparr>"
  let ?C = "serving_config\<lparr>c_dry_run := False, c_manager := 11, c_staker := 11, c_token_owner := 11, c_fee_payer := 11,
    c_compute_unit_price := None, c_compute_unit_limit := CulDefault\<rparr>"
  have config: "main_config ?U (sample_matches [] [''no_update'']) = Inr (?C, OutDisplay)"
    by (simp add: main_config_def main_cli_config_def get_signer_def main_output_format_def
        main_compute_unit_limit_def pubkey_of_def value_t_def sample_matches_def unwrap_or_def ok_or_def
        sample_utils_def default_stake_pool_id_def with_name_def sample_config_def serving_config_def)
  have given: "pubkey_of ?U (sample_matches [(''pool'', ''1''), (''new_staker'', ''30'')] []) ''pool'' = Some 1"
    "pubkey_of ?U (sample_matches [(''pool'', ''1''), (''new_staker'', ''30'')] []) ''new_staker'' = Some 30"
    by (simp_all add: pubkey_of_def value_t_def sample_matches_def sample_utils_def sample_numbers)
  have serves: "node_serves sample_env ?C roomy_world"
    by (simp add: node_serves_def serving_config_def sample_config_def)
  have "load_pool roomy_world (acct 1) = Inr sample_pool"
    using b_pool.read_prefix [of sample_pool "replicate 611 0"]
    by (simp add: load_pool_def data_of_def roomy_world_def acct_def)
  moreover have "owner_of roomy_world (acct 1) = 99" "611 \<le> length (data_of roomy_world (acct 1))"
    by (simp_all add: owner_of_def data_of_def roomy_world_def acct_def)
  moreover have "c_program_id ?C = 99" by (simp add: serving_config_def sample_config_def)
  ultimately show ?thesis
    using set_staker_command_line [OF config _ _ _ given serves, of sample_pool sample_sdk sample_display "\<lambda>_. 0"]
    by (simp add: sample_simps sample_matches_def)
qed

end
