(* ===== verification/Idl.thy ===== *)
theory Idl
  imports Builders
begin

text \<open>
  The interface description \<^verbatim>\<open>stake-pool-idl/programs/stake-pool-idl/src/lib.rs\<close>: a program with empty
  bodies from which clients are generated. Its declarations are data here: the types (\<open>ty_*\<close>), the
  accounts of each instruction (\<open>ctx_*\<close>) and the instructions with their arguments (\<open>ix_*\<close>). \<open>idl_read\<close>
  reads bytes as a client generated from the types does, by the Borsh format; \<open>idl_metas\<close> are the accounts such
  a client sends. The locale \<open>described\<close> is what a type of the description promises about an encoder of
  the program; the properties say where the description fits the program and where it does not.
\<close>

section \<open>Types and values\<close>

datatype idl_type =
    TU8 | TU32 | TU64 | TI64 | TBool | TString | TPubkey
  | TOption idl_type
  | TVec idl_type
  | TStruct "(string \<times> idl_type) list"
  | TEnum "(string \<times> idl_type list) list"

datatype idl_value =
    VU8 u8 | VU32 u32 | VU64 u64 | VI64 u64 | VBool bool | VString rust_string | VKey Pubkey
  | VOption "idl_value option"
  | VVec "idl_value list"
  | VStruct "(string \<times> idl_value) list"
  | VVariant string "idl_value list"

text \<open>Reading: the Borsh format of each type, in the declared order of fields and variants.\<close>

definition read_as :: "('a \<Rightarrow> idl_value) \<Rightarrow> 'a decoder \<Rightarrow> idl_value decoder" where
  "read_as f de bs = do { (x, bs) \<leftarrow> de bs; Some (f x, bs) }"

fun read_all :: "idl_value decoder list \<Rightarrow> idl_value list decoder" where
  "read_all [] bs = Some ([], bs)"
| "read_all (de # des) bs =
     do { (v, bs) \<leftarrow> de bs; (vs, bs) \<leftarrow> read_all des bs; Some (v # vs, bs) }"

definition read_struct :: "(string \<times> idl_value decoder) list \<Rightarrow> idl_value decoder" where
  "read_struct members bs =
     do { (vs, bs) \<leftarrow> read_all (map snd members) bs; Some (VStruct (zip (map fst members) vs), bs) }"

definition read_variant :: "(string \<times> idl_value decoder list) list \<Rightarrow> idl_value decoder" where
  "read_variant variants bs =
     do { (tag, bs) \<leftarrow> de_u8 bs;
          if unat tag < length variants
          then do { (vs, bs) \<leftarrow> read_all (snd (variants ! unat tag)) bs;
                    Some (VVariant (fst (variants ! unat tag)) vs, bs) }
          else None }"

primrec idl_read :: "idl_type \<Rightarrow> idl_value decoder" where
  "idl_read TU8 = read_as VU8 de_u8"
| "idl_read TU32 = read_as VU32 de_u32"
| "idl_read TU64 = read_as VU64 de_u64"
| "idl_read TI64 = read_as VI64 de_u64"
| "idl_read TBool = read_as VBool de_bool"
| "idl_read TString = read_as VString de_string"
| "idl_read TPubkey = read_as VKey de_pubkey"
| "idl_read (TOption t) = read_as VOption (de_option (idl_read t))"
| "idl_read (TVec t) = (\<lambda>bs.
     do { (n, bs) \<leftarrow> de_u32 bs; (vs, bs) \<leftarrow> read_all (replicate (unat n) (idl_read t)) bs;
          Some (VVec vs, bs) })"
| "idl_read (TStruct members) = read_struct (map (map_prod id idl_read) members)"
| "idl_read (TEnum variants) = read_variant (map (map_prod id (map idl_read)) variants)"

fun idl_get :: "string \<Rightarrow> idl_value \<Rightarrow> idl_value option" where
  "idl_get field (VStruct members) = map_of members field"
| "idl_get field _ = None"

section \<open>The declared types\<close>

definition ty_Fee :: idl_type where
  "ty_Fee =
     TStruct
       [(''denominator'', TU64), (''numerator'', TU64)]"

definition ty_Lockup :: idl_type where
  "ty_Lockup =
     TStruct
       [(''unix_timestamp'', TI64), (''epoch'', TU64), (''custodian'', TPubkey)]"

definition ty_FeeType :: idl_type where
  "ty_FeeType =
     TEnum
       [(''SolReferral'', [TU8]), (''StakeReferral'', [TU8]), (''Epoch'', [ty_Fee]),
        (''StakeWithdrawal'', [ty_Fee]), (''SolWithdrawal'', [ty_Fee]),
        (''StakeDeposit'', [ty_Fee]), (''SolDeposit'', [ty_Fee])]"

definition ty_AccountType :: idl_type where
  "ty_AccountType =
     TEnum
       [(''Uninitialized'', []), (''StakePool'', []), (''ValidatorList'', [])]"

definition ty_FutureEpoch :: "idl_type \<Rightarrow> idl_type" where
  "ty_FutureEpoch t =
     TEnum
       [(''None'', []), (''One'', [t]), (''Two'', [t])]"

definition ty_StakePool :: idl_type where
  "ty_StakePool =
     TStruct
       [(''account_type'', ty_AccountType), (''manager'', TPubkey), (''staker'', TPubkey),
        (''stake_deposit_authority'', TPubkey), (''stake_withdraw_bump_seed'', TU8),
        (''validator_list'', TPubkey), (''reserve_stake'', TPubkey), (''pool_mint'', TPubkey),
        (''manager_fee_account'', TPubkey), (''token_program_id'', TPubkey),
        (''total_lamports'', TU64), (''pool_token_supply'', TU64), (''last_update_epoch'', TU64),
        (''lockup'', ty_Lockup), (''epoch_fee'', ty_Fee),
        (''next_epoch_fee'', ty_FutureEpoch ty_Fee),
        (''preferred_deposit_validator_vote_address'', TOption TPubkey),
        (''preferred_withdraw_validator_vote_address'', TOption TPubkey),
        (''stake_deposit_fee'', ty_Fee), (''stake_withdrawal_fee'', ty_Fee),
        (''next_stake_withdrawal_fee'', ty_FutureEpoch ty_Fee), (''stake_referral_fee'', TU8),
        (''sol_deposit_authority'', TOption TPubkey), (''sol_deposit_fee'', ty_Fee),
        (''sol_referral_fee'', TU8), (''sol_withdraw_authority'', TOption TPubkey),
        (''sol_withdrawal_fee'', ty_Fee), (''next_sol_withdrawal_fee'', ty_FutureEpoch ty_Fee),
        (''last_epoch_pool_token_supply'', TU64), (''last_epoch_total_lamports'', TU64)]"

definition ty_StakeStatus :: idl_type where
  "ty_StakeStatus =
     TEnum
       [(''Active'', []), (''DeactivatingTransient'', []), (''ReadyForRemoval'', []),
        (''DeactivatingValidator'', []), (''DeactivatingAll'', [])]"

definition ty_ValidatorStakeInfo :: idl_type where
  "ty_ValidatorStakeInfo =
     TStruct
       [(''status'', ty_StakeStatus), (''vote_account_address'', TPubkey),
        (''active_stake_lamports'', TU64), (''transient_stake_lamports'', TU64),
        (''last_update_epoch'', TU64), (''transient_seed_suffix'', TU64), (''unused'', TU32),
        (''validator_seed_suffix'', TU32)]"

definition ty_PreferredValidatorType :: idl_type where
  "ty_PreferredValidatorType =
     TEnum
       [(''Deposit'', []), (''Withdraw'', [])]"

definition ty_FundingType :: idl_type where
  "ty_FundingType =
     TEnum
       [(''StakeDeposit'', []), (''SolDeposit'', []), (''SolWithdraw'', [])]"

definition ty_ValidatorListHeader :: idl_type where
  "ty_ValidatorListHeader =
     TStruct
       [(''account_type'', ty_AccountType), (''max_validators'', TU32)]"

definition ty_ValidatorList :: idl_type where
  "ty_ValidatorList =
     TStruct
       [(''header'', ty_ValidatorListHeader), (''validators'', TVec ty_ValidatorStakeInfo)]"

section \<open>The declared accounts\<close>

datatype idl_account_kind =
    AnyAccount | SignerAccount | MintAccount | TokenAccountKind
  | TokenProgram | SystemProgram | ClockSysvar | RentSysvar

record idl_account =
  ia_name :: string
  ia_mut :: bool
  ia_optional :: bool
  ia_kind :: idl_account_kind

record idl_instruction =
  ii_name :: string
  ii_accounts :: "idl_account list"
  ii_args :: "(string \<times> idl_type) list"

definition declared :: "string \<Rightarrow> bool \<Rightarrow> bool \<Rightarrow> idl_account_kind \<Rightarrow> idl_account" where
  "declared name mutable optional kind =
     \<lparr>ia_name = name, ia_mut = mutable, ia_optional = optional, ia_kind = kind\<rparr>"

definition ctx_Initialize :: "idl_account list" where
  "ctx_Initialize =
     [declared ''stake_pool'' True False AnyAccount,
      declared ''manager'' False False SignerAccount,
      declared ''staker'' False False AnyAccount,
      declared ''stake_pool_withdraw_authority'' False False AnyAccount,
      declared ''validator_list'' True False AnyAccount,
      declared ''reserve_stake'' False False AnyAccount,
      declared ''pool_mint'' False False MintAccount,
      declared ''manager_fee_account'' True False TokenAccountKind,
      declared ''token_program'' False False TokenProgram,
      declared ''deposit_authority'' False True AnyAccount]"

definition ctx_DepositSol :: "idl_account list" where
  "ctx_DepositSol =
     [declared ''stake_pool'' True False AnyAccount,
      declared ''stake_pool_withdraw_authority'' False False AnyAccount,
      declared ''reserve_stake'' False False AnyAccount,
      declared ''funding_account'' False False SignerAccount,
      declared ''destination'' True False TokenAccountKind,
      declared ''manager_fee_account'' True False TokenAccountKind,
      declared ''referrer_pool_tokens_account'' True False TokenAccountKind,
      declared ''pool_mint'' True False MintAccount,
      declared ''system_program'' False False SystemProgram,
      declared ''token_program'' False False TokenProgram,
      declared ''sol_deposit_authority'' False True AnyAccount]"

definition ctx_WithdrawSol :: "idl_account list" where
  "ctx_WithdrawSol =
     [declared ''stake_pool'' True False AnyAccount,
      declared ''stake_pool_withdraw_authority'' False False AnyAccount,
      declared ''source'' True False TokenAccountKind,
      declared ''reserve_stake'' True False AnyAccount,
      declared ''destination'' True False AnyAccount,
      declared ''manager_fee_account'' True False TokenAccountKind,
      declared ''pool_mint'' True False MintAccount,
      declared ''clock'' False False ClockSysvar,
      declared ''stake_history'' False False AnyAccount,
      declared ''stake_program'' False False AnyAccount,
      declared ''token_program'' False False TokenProgram,
      declared ''sol_withdraw_authority'' False True AnyAccount]"

definition ctx_DepositWsol :: "idl_account list" where
  "ctx_DepositWsol =
     [declared ''stake_pool'' True False AnyAccount,
      declared ''stake_pool_withdraw_authority'' False False AnyAccount,
      declared ''reserve_stake'' True False AnyAccount,
      declared ''wsol_account'' True False AnyAccount,
      declared ''wsol_authority'' False False SignerAccount,
      declared ''lamports_destination'' True False AnyAccount,
      declared ''destination'' True False TokenAccountKind,
      declared ''manager_fee_account'' True False TokenAccountKind,
      declared ''referrer_pool_tokens_account'' True False TokenAccountKind,
      declared ''pool_mint'' True False MintAccount,
      declared ''system_program'' False False SystemProgram,
      declared ''token_program'' False False TokenProgram,
      declared ''wsol_mint'' False False MintAccount,
      declared ''sol_deposit_authority'' False True AnyAccount]"

definition ctx_DepositWsolWithSession :: "idl_account list" where
  "ctx_DepositWsolWithSession =
     [declared ''signer_or_session'' False False SignerAccount,
      declared ''program_signer'' False False AnyAccount,
      declared ''user_wsol_account'' True False AnyAccount,
      declared ''transient_wsol_account'' True False AnyAccount,
      declared ''wsol_mint'' False False MintAccount,
      declared ''stake_pool'' True False AnyAccount,
      declared ''stake_pool_withdraw_authority'' False False AnyAccount,
      declared ''sol_deposit_authority'' False True AnyAccount,
      declared ''reserve_stake_account'' True False AnyAccount,
      declared ''destination_pool_account'' True False TokenAccountKind,
      declared ''manager_fee_account'' True False TokenAccountKind,
      declared ''referrer_pool_tokens_account'' True False TokenAccountKind,
      declared ''pool_mint'' True False MintAccount,
      declared ''system_program'' False False SystemProgram,
      declared ''token_program'' False False TokenProgram,
      declared ''sessions_program'' False False AnyAccount,
      declared ''session_token'' False False AnyAccount,
      declared ''session_authority'' False False AnyAccount]"

definition ctx_DepositStake :: "idl_account list" where
  "ctx_DepositStake =
     [declared ''stake_pool'' True False AnyAccount,
      declared ''validator_list'' True False AnyAccount,
      declared ''deposit_authority'' False False AnyAccount,
      declared ''stake_pool_withdraw_authority'' False False AnyAccount,
      declared ''deposit_stake'' True False AnyAccount,
      declared ''validator_stake'' True False AnyAccount,
      declared ''reserve_stake'' True False AnyAccount,
      declared ''destination_pool_account'' True False TokenAccountKind,
      declared ''manager_fee_account'' True False TokenAccountKind,
      declared ''referrer_pool_tokens_account'' True False TokenAccountKind,
      declared ''pool_mint'' True False MintAccount,
      declared ''clock'' False False ClockSysvar,
      declared ''stake_history'' False False AnyAccount,
      declared ''token_program'' False False TokenProgram,
      declared ''stake_program'' False False AnyAccount]"

definition ctx_WithdrawStake :: "idl_account list" where
  "ctx_WithdrawStake =
     [declared ''stake_pool'' True False AnyAccount,
      declared ''validator_list'' True False AnyAccount,
      declared ''stake_pool_withdraw_authority'' False False AnyAccount,
      declared ''validator_stake'' True False AnyAccount,
      declared ''destination_stake'' True False AnyAccount,
      declared ''destination_stake_authority'' True False AnyAccount,
      declared ''source_pool_account'' True False TokenAccountKind,
      declared ''manager_fee_account'' True False TokenAccountKind,
      declared ''pool_mint'' True False MintAccount,
      declared ''clock'' False False ClockSysvar,
      declared ''token_program'' False False TokenProgram,
      declared ''stake_program'' False False AnyAccount]"

definition ctx_AddValidatorToPool :: "idl_account list" where
  "ctx_AddValidatorToPool =
     [declared ''stake_pool'' True False AnyAccount,
      declared ''staker'' False False SignerAccount,
      declared ''reserve_stake'' True False AnyAccount,
      declared ''withdraw_authority'' False False AnyAccount,
      declared ''validator_list'' True False AnyAccount,
      declared ''validator_stake'' True False AnyAccount,
      declared ''validator_vote'' False False AnyAccount,
      declared ''rent'' False False RentSysvar,
      declared ''clock'' False False ClockSysvar,
      declared ''stake_history'' False False AnyAccount,
      declared ''stake_config'' False False AnyAccount,
      declared ''system_program'' False False SystemProgram,
      declared ''stake_program'' False False AnyAccount]"

definition ctx_RemoveValidatorFromPool :: "idl_account list" where
  "ctx_RemoveValidatorFromPool =
     [declared ''stake_pool'' True False AnyAccount,
      declared ''staker'' False False SignerAccount,
      declared ''withdraw_authority'' False False AnyAccount,
      declared ''validator_list'' True False AnyAccount,
      declared ''validator_stake'' True False AnyAccount,
      declared ''transient_stake'' True False AnyAccount,
      declared ''clock'' False False ClockSysvar,
      declared ''stake_program'' False False AnyAccount]"

definition ctx_UpdateValidatorListBalance :: "idl_account list" where
  "ctx_UpdateValidatorListBalance =
     [declared ''stake_pool'' True False AnyAccount,
      declared ''withdraw_authority'' False False AnyAccount,
      declared ''validator_list'' True False AnyAccount,
      declared ''reserve_stake'' True False AnyAccount,
      declared ''clock'' False False ClockSysvar,
      declared ''stake_history'' False False AnyAccount,
      declared ''stake_program'' False False AnyAccount]"

definition ctx_SetManager :: "idl_account list" where
  "ctx_SetManager =
     [declared ''stake_pool'' True False AnyAccount,
      declared ''manager'' False False SignerAccount,
      declared ''new_manager'' False False AnyAccount,
      declared ''new_manager_fee_account'' False False AnyAccount]"

definition ctx_SetStaker :: "idl_account list" where
  "ctx_SetStaker =
     [declared ''stake_pool'' True False AnyAccount,
      declared ''manager'' False False SignerAccount,
      declared ''new_staker'' False False AnyAccount]"

definition ctx_SetFee :: "idl_account list" where
  "ctx_SetFee =
     [declared ''stake_pool'' True False AnyAccount,
      declared ''manager'' False False SignerAccount,
      declared ''clock'' False False ClockSysvar]"

definition ctx_DecreaseValidatorStake :: "idl_account list" where
  "ctx_DecreaseValidatorStake =
     [declared ''stake_pool'' True False AnyAccount,
      declared ''staker'' False False SignerAccount,
      declared ''withdraw_authority'' False False AnyAccount,
      declared ''validator_list'' True False AnyAccount,
      declared ''validator_stake'' True False AnyAccount,
      declared ''transient_stake'' True False AnyAccount,
      declared ''clock'' False False ClockSysvar,
      declared ''rent'' False False RentSysvar,
      declared ''system_program'' False False SystemProgram,
      declared ''stake_program'' False False AnyAccount]"

definition ctx_IncreaseValidatorStake :: "idl_account list" where
  "ctx_IncreaseValidatorStake =
     [declared ''stake_pool'' True False AnyAccount,
      declared ''staker'' False False SignerAccount,
      declared ''withdraw_authority'' False False AnyAccount,
      declared ''validator_list'' True False AnyAccount,
      declared ''reserve_stake'' True False AnyAccount,
      declared ''transient_stake'' True False AnyAccount,
      declared ''validator_stake'' False False AnyAccount,
      declared ''validator_vote'' False False AnyAccount,
      declared ''clock'' False False ClockSysvar,
      declared ''rent'' False False RentSysvar,
      declared ''stake_history'' False False AnyAccount,
      declared ''stake_config'' False False AnyAccount,
      declared ''system_program'' False False SystemProgram,
      declared ''stake_program'' False False AnyAccount]"

definition ctx_SetPreferredValidator :: "idl_account list" where
  "ctx_SetPreferredValidator =
     [declared ''stake_pool'' True False AnyAccount,
      declared ''staker'' False False SignerAccount,
      declared ''validator_list'' True False AnyAccount]"

definition ctx_UpdateStakePoolBalance :: "idl_account list" where
  "ctx_UpdateStakePoolBalance =
     [declared ''stake_pool'' True False AnyAccount,
      declared ''withdraw_authority'' False False AnyAccount,
      declared ''validator_list'' True False AnyAccount,
      declared ''reserve_stake'' True False AnyAccount,
      declared ''manager_fee_account'' True False TokenAccountKind,
      declared ''pool_mint'' True False MintAccount,
      declared ''token_program'' False False TokenProgram,
      declared ''clock'' False False ClockSysvar]"

definition ctx_CleanupRemovedValidatorEntries :: "idl_account list" where
  "ctx_CleanupRemovedValidatorEntries =
     [declared ''stake_pool'' True False AnyAccount,
      declared ''validator_list'' True False AnyAccount]"

definition ctx_SetFundingAuthority :: "idl_account list" where
  "ctx_SetFundingAuthority =
     [declared ''stake_pool'' True False AnyAccount,
      declared ''manager'' False False SignerAccount,
      declared ''new_authority'' False True AnyAccount]"

definition ctx_CreateTokenMetadata :: "idl_account list" where
  "ctx_CreateTokenMetadata =
     [declared ''stake_pool'' True False AnyAccount,
      declared ''manager'' False False SignerAccount,
      declared ''pool_mint'' True False MintAccount,
      declared ''pool_token_metadata'' True False AnyAccount,
      declared ''token_metadata_program'' False False AnyAccount,
      declared ''system_program'' False False SystemProgram,
      declared ''rent'' False False RentSysvar]"

definition ctx_UpdateTokenMetadata :: "idl_account list" where
  "ctx_UpdateTokenMetadata =
     [declared ''stake_pool'' True False AnyAccount,
      declared ''manager'' False False SignerAccount,
      declared ''pool_token_metadata'' True False AnyAccount,
      declared ''token_metadata_program'' False False AnyAccount]"

definition ctx_IncreaseAdditionalValidatorStake :: "idl_account list" where
  "ctx_IncreaseAdditionalValidatorStake =
     [declared ''stake_pool'' True False AnyAccount,
      declared ''staker'' False False SignerAccount,
      declared ''withdraw_authority'' False False AnyAccount,
      declared ''validator_list'' True False AnyAccount,
      declared ''reserve_stake'' True False AnyAccount,
      declared ''transient_stake'' True False AnyAccount,
      declared ''ephemeral_stake'' True False AnyAccount,
      declared ''validator_stake'' False False AnyAccount,
      declared ''validator_vote'' False False AnyAccount,
      declared ''clock'' False False ClockSysvar,
      declared ''rent'' False False RentSysvar,
      declared ''stake_history'' False False AnyAccount,
      declared ''stake_config'' False False AnyAccount,
      declared ''system_program'' False False SystemProgram,
      declared ''stake_program'' False False AnyAccount]"

definition ctx_DecreaseAdditionalValidatorStake :: "idl_account list" where
  "ctx_DecreaseAdditionalValidatorStake =
     [declared ''stake_pool'' True False AnyAccount,
      declared ''staker'' False False SignerAccount,
      declared ''withdraw_authority'' False False AnyAccount,
      declared ''validator_list'' True False AnyAccount,
      declared ''validator_stake'' True False AnyAccount,
      declared ''transient_stake'' True False AnyAccount,
      declared ''ephemeral_stake'' True False AnyAccount,
      declared ''clock'' False False ClockSysvar,
      declared ''rent'' False False RentSysvar,
      declared ''stake_history'' False False AnyAccount,
      declared ''stake_config'' False False AnyAccount,
      declared ''system_program'' False False SystemProgram,
      declared ''stake_program'' False False AnyAccount]"

definition ctx_DecreaseValidatorStakeWithReserve :: "idl_account list" where
  "ctx_DecreaseValidatorStakeWithReserve =
     [declared ''stake_pool'' True False AnyAccount,
      declared ''staker'' False False SignerAccount,
      declared ''withdraw_authority'' False False AnyAccount,
      declared ''validator_list'' True False AnyAccount,
      declared ''reserve_stake'' True False AnyAccount,
      declared ''validator_stake'' True False AnyAccount,
      declared ''transient_stake'' True False AnyAccount,
      declared ''clock'' False False ClockSysvar,
      declared ''rent'' False False RentSysvar,
      declared ''stake_history'' False False AnyAccount,
      declared ''stake_config'' False False AnyAccount,
      declared ''system_program'' False False SystemProgram,
      declared ''stake_program'' False False AnyAccount]"

definition ctx_Redelegate :: "idl_account list" where
  "ctx_Redelegate =
     [declared ''stake_pool'' True False AnyAccount,
      declared ''staker'' False False SignerAccount,
      declared ''withdraw_authority'' False False AnyAccount,
      declared ''validator_list'' True False AnyAccount,
      declared ''reserve_stake'' True False AnyAccount,
      declared ''source_validator_stake'' True False AnyAccount,
      declared ''source_transient_stake'' True False AnyAccount,
      declared ''ephemeral_stake'' True False AnyAccount,
      declared ''destination_transient_stake'' True False AnyAccount,
      declared ''destination_validator_stake'' False False AnyAccount,
      declared ''destination_validator_vote'' False False AnyAccount,
      declared ''clock'' False False ClockSysvar,
      declared ''rent'' False False RentSysvar,
      declared ''stake_history'' False False AnyAccount,
      declared ''stake_config'' False False AnyAccount,
      declared ''system_program'' False False SystemProgram,
      declared ''stake_program'' False False AnyAccount]"

definition ctx_DepositStakeWithSlippage :: "idl_account list" where
  "ctx_DepositStakeWithSlippage =
     [declared ''stake_pool'' True False AnyAccount,
      declared ''validator_list'' True False AnyAccount,
      declared ''deposit_authority'' False False AnyAccount,
      declared ''stake_pool_withdraw_authority'' False False AnyAccount,
      declared ''deposit_stake'' True False AnyAccount,
      declared ''validator_stake'' True False AnyAccount,
      declared ''reserve_stake'' True False AnyAccount,
      declared ''destination_pool_account'' True False TokenAccountKind,
      declared ''manager_fee_account'' True False TokenAccountKind,
      declared ''referrer_pool_tokens_account'' True False TokenAccountKind,
      declared ''pool_mint'' True False MintAccount,
      declared ''clock'' False False ClockSysvar,
      declared ''stake_history'' False False AnyAccount,
      declared ''token_program'' False False TokenProgram,
      declared ''stake_program'' False False AnyAccount]"

definition ctx_WithdrawStakeWithSlippage :: "idl_account list" where
  "ctx_WithdrawStakeWithSlippage =
     [declared ''stake_pool'' True False AnyAccount,
      declared ''validator_list'' True False AnyAccount,
      declared ''stake_pool_withdraw_authority'' False False AnyAccount,
      declared ''validator_stake'' True False AnyAccount,
      declared ''destination_stake'' True False AnyAccount,
      declared ''destination_stake_authority'' True False AnyAccount,
      declared ''source_pool_account'' True False TokenAccountKind,
      declared ''manager_fee_account'' True False TokenAccountKind,
      declared ''pool_mint'' True False MintAccount,
      declared ''clock'' False False ClockSysvar,
      declared ''token_program'' False False TokenProgram,
      declared ''stake_program'' False False AnyAccount]"

definition ctx_DepositSolWithSlippage :: "idl_account list" where
  "ctx_DepositSolWithSlippage =
     [declared ''stake_pool'' True False AnyAccount,
      declared ''stake_pool_withdraw_authority'' False False AnyAccount,
      declared ''reserve_stake'' False False AnyAccount,
      declared ''funding_account'' False False SignerAccount,
      declared ''destination'' True False TokenAccountKind,
      declared ''manager_fee_account'' True False TokenAccountKind,
      declared ''referrer_pool_tokens_account'' True False TokenAccountKind,
      declared ''pool_mint'' True False MintAccount,
      declared ''system_program'' False False SystemProgram,
      declared ''token_program'' False False TokenProgram,
      declared ''sol_deposit_authority'' False True AnyAccount]"

definition ctx_WithdrawSolWithSlippage :: "idl_account list" where
  "ctx_WithdrawSolWithSlippage =
     [declared ''stake_pool'' True False AnyAccount,
      declared ''stake_pool_withdraw_authority'' False False AnyAccount,
      declared ''source'' True False TokenAccountKind,
      declared ''reserve_stake'' True False AnyAccount,
      declared ''destination'' True False AnyAccount,
      declared ''manager_fee_account'' True False TokenAccountKind,
      declared ''pool_mint'' True False MintAccount,
      declared ''clock'' False False ClockSysvar,
      declared ''stake_history'' False False AnyAccount,
      declared ''stake_program'' False False AnyAccount,
      declared ''token_program'' False False TokenProgram,
      declared ''sol_withdraw_authority'' False True AnyAccount]"

section \<open>The declared instructions\<close>

definition ix_initialize :: idl_instruction where
  "ix_initialize =
     \<lparr>ii_name = ''initialize'',
      ii_accounts = ctx_Initialize,
      ii_args = [(''_fee'', ty_Fee), (''_withdrawal_fee'', ty_Fee), (''_deposit_fee'', ty_Fee),
                 (''_referral_fee'', TU8), (''_max_validators'', TU32)]\<rparr>"

definition ix_add_validator_to_pool :: idl_instruction where
  "ix_add_validator_to_pool =
     \<lparr>ii_name = ''add_validator_to_pool'',
      ii_accounts = ctx_AddValidatorToPool,
      ii_args = [(''_seed'', TU32)]\<rparr>"

definition ix_remove_validator_from_pool :: idl_instruction where
  "ix_remove_validator_from_pool =
     \<lparr>ii_name = ''remove_validator_from_pool'',
      ii_accounts = ctx_RemoveValidatorFromPool,
      ii_args = []\<rparr>"

definition ix_decrease_validator_stake :: idl_instruction where
  "ix_decrease_validator_stake =
     \<lparr>ii_name = ''decrease_validator_stake'',
      ii_accounts = ctx_DecreaseValidatorStake,
      ii_args = [(''_lamports'', TU64), (''_transient_stake_seed'', TU64)]\<rparr>"

definition ix_increase_validator_stake :: idl_instruction where
  "ix_increase_validator_stake =
     \<lparr>ii_name = ''increase_validator_stake'',
      ii_accounts = ctx_IncreaseValidatorStake,
      ii_args = [(''_lamports'', TU64), (''_transient_stake_seed'', TU64)]\<rparr>"

definition ix_set_preferred_validator :: idl_instruction where
  "ix_set_preferred_validator =
     \<lparr>ii_name = ''set_preferred_validator'',
      ii_accounts = ctx_SetPreferredValidator,
      ii_args = [(''_validator_type'', ty_PreferredValidatorType),
                 (''_validator_vote_address'', TOption TPubkey)]\<rparr>"

definition ix_update_validator_list_balance :: idl_instruction where
  "ix_update_validator_list_balance =
     \<lparr>ii_name = ''update_validator_list_balance'',
      ii_accounts = ctx_UpdateValidatorListBalance,
      ii_args = [(''_start_index'', TU32), (''_no_merge'', TBool)]\<rparr>"

definition ix_update_stake_pool_balance :: idl_instruction where
  "ix_update_stake_pool_balance =
     \<lparr>ii_name = ''update_stake_pool_balance'',
      ii_accounts = ctx_UpdateStakePoolBalance,
      ii_args = []\<rparr>"

definition ix_cleanup_removed_validator_entries :: idl_instruction where
  "ix_cleanup_removed_validator_entries =
     \<lparr>ii_name = ''cleanup_removed_validator_entries'',
      ii_accounts = ctx_CleanupRemovedValidatorEntries,
      ii_args = []\<rparr>"

definition ix_deposit_stake :: idl_instruction where
  "ix_deposit_stake =
     \<lparr>ii_name = ''deposit_stake'',
      ii_accounts = ctx_DepositStake,
      ii_args = []\<rparr>"

definition ix_withdraw_stake :: idl_instruction where
  "ix_withdraw_stake =
     \<lparr>ii_name = ''withdraw_stake'',
      ii_accounts = ctx_WithdrawStake,
      ii_args = [(''_pool_tokens'', TU64)]\<rparr>"

definition ix_set_manager :: idl_instruction where
  "ix_set_manager =
     \<lparr>ii_name = ''set_manager'',
      ii_accounts = ctx_SetManager,
      ii_args = []\<rparr>"

definition ix_set_fee :: idl_instruction where
  "ix_set_fee =
     \<lparr>ii_name = ''set_fee'',
      ii_accounts = ctx_SetFee,
      ii_args = [(''_fee_type'', ty_FeeType)]\<rparr>"

definition ix_set_staker :: idl_instruction where
  "ix_set_staker =
     \<lparr>ii_name = ''set_staker'',
      ii_accounts = ctx_SetStaker,
      ii_args = []\<rparr>"

definition ix_deposit_sol :: idl_instruction where
  "ix_deposit_sol =
     \<lparr>ii_name = ''deposit_sol'',
      ii_accounts = ctx_DepositSol,
      ii_args = [(''_lamports'', TU64)]\<rparr>"

definition ix_set_funding_authority :: idl_instruction where
  "ix_set_funding_authority =
     \<lparr>ii_name = ''set_funding_authority'',
      ii_accounts = ctx_SetFundingAuthority,
      ii_args = [(''_funding_type'', ty_FundingType)]\<rparr>"

definition ix_withdraw_sol :: idl_instruction where
  "ix_withdraw_sol =
     \<lparr>ii_name = ''withdraw_sol'',
      ii_accounts = ctx_WithdrawSol,
      ii_args = [(''_pool_tokens'', TU64)]\<rparr>"

definition ix_create_token_metadata :: idl_instruction where
  "ix_create_token_metadata =
     \<lparr>ii_name = ''create_token_metadata'',
      ii_accounts = ctx_CreateTokenMetadata,
      ii_args = [(''_name'', TString), (''_symbol'', TString), (''_uri'', TString)]\<rparr>"

definition ix_update_token_metadata :: idl_instruction where
  "ix_update_token_metadata =
     \<lparr>ii_name = ''update_token_metadata'',
      ii_accounts = ctx_UpdateTokenMetadata,
      ii_args = [(''_name'', TString), (''_symbol'', TString), (''_uri'', TString)]\<rparr>"

definition ix_increase_additional_validator_stake :: idl_instruction where
  "ix_increase_additional_validator_stake =
     \<lparr>ii_name = ''increase_additional_validator_stake'',
      ii_accounts = ctx_IncreaseAdditionalValidatorStake,
      ii_args = [(''_lamports'', TU64), (''_transient_stake_seed'', TU64),
                 (''_ephemeral_stake_seed'', TU64)]\<rparr>"

definition ix_decrease_additional_validator_stake :: idl_instruction where
  "ix_decrease_additional_validator_stake =
     \<lparr>ii_name = ''decrease_additional_validator_stake'',
      ii_accounts = ctx_DecreaseAdditionalValidatorStake,
      ii_args = [(''_lamports'', TU64), (''_transient_stake_seed'', TU64),
                 (''_ephemeral_stake_seed'', TU64)]\<rparr>"

definition ix_decrease_validator_stake_with_reserve :: idl_instruction where
  "ix_decrease_validator_stake_with_reserve =
     \<lparr>ii_name = ''decrease_validator_stake_with_reserve'',
      ii_accounts = ctx_DecreaseValidatorStakeWithReserve,
      ii_args = [(''_lamports'', TU64), (''_transient_stake_seed'', TU64)]\<rparr>"

definition ix_redelegate :: idl_instruction where
  "ix_redelegate =
     \<lparr>ii_name = ''redelegate'',
      ii_accounts = ctx_Redelegate,
      ii_args = [(''_lamports'', TU64), (''_source_transient_stake_seed'', TU64),
                 (''_ephemeral_stake_seed'', TU64), (''_destination_transient_stake_seed'', TU64)]\<rparr>"

definition ix_deposit_stake_with_slippage :: idl_instruction where
  "ix_deposit_stake_with_slippage =
     \<lparr>ii_name = ''deposit_stake_with_slippage'',
      ii_accounts = ctx_DepositStakeWithSlippage,
      ii_args = [(''_minimum_pool_tokens_out'', TU64)]\<rparr>"

definition ix_withdraw_stake_with_slippage :: idl_instruction where
  "ix_withdraw_stake_with_slippage =
     \<lparr>ii_name = ''withdraw_stake_with_slippage'',
      ii_accounts = ctx_WithdrawStakeWithSlippage,
      ii_args = [(''_pool_tokens_in'', TU64), (''_minimum_lamports_out'', TU64)]\<rparr>"

definition ix_deposit_sol_with_slippage :: idl_instruction where
  "ix_deposit_sol_with_slippage =
     \<lparr>ii_name = ''deposit_sol_with_slippage'',
      ii_accounts = ctx_DepositSolWithSlippage,
      ii_args = [(''_lamports_in'', TU64), (''_minimum_pool_tokens_out'', TU64)]\<rparr>"

definition ix_withdraw_sol_with_slippage :: idl_instruction where
  "ix_withdraw_sol_with_slippage =
     \<lparr>ii_name = ''withdraw_sol_with_slippage'',
      ii_accounts = ctx_WithdrawSolWithSlippage,
      ii_args = [(''_pool_tokens_in'', TU64), (''_minimum_lamports_out'', TU64)]\<rparr>"

definition ix_deposit_wsol :: idl_instruction where
  "ix_deposit_wsol =
     \<lparr>ii_name = ''deposit_wsol'',
      ii_accounts = ctx_DepositWsol,
      ii_args = [(''_lamports'', TU64)]\<rparr>"

definition ix_deposit_wsol_with_session :: idl_instruction where
  "ix_deposit_wsol_with_session =
     \<lparr>ii_name = ''deposit_wsol_with_session'',
      ii_accounts = ctx_DepositWsolWithSession,
      ii_args = [(''_lamports'', TU64)]\<rparr>"

definition idl_instructions :: "idl_instruction list" where
  "idl_instructions =
     [ix_initialize, ix_add_validator_to_pool, ix_remove_validator_from_pool,
      ix_decrease_validator_stake, ix_increase_validator_stake, ix_set_preferred_validator,
      ix_update_validator_list_balance, ix_update_stake_pool_balance,
      ix_cleanup_removed_validator_entries, ix_deposit_stake, ix_withdraw_stake, ix_set_manager,
      ix_set_fee, ix_set_staker, ix_deposit_sol, ix_set_funding_authority, ix_withdraw_sol,
      ix_create_token_metadata, ix_update_token_metadata, ix_increase_additional_validator_stake,
      ix_decrease_additional_validator_stake, ix_decrease_validator_stake_with_reserve,
      ix_redelegate, ix_deposit_stake_with_slippage, ix_withdraw_stake_with_slippage,
      ix_deposit_sol_with_slippage, ix_withdraw_sol_with_slippage, ix_deposit_wsol,
      ix_deposit_wsol_with_session]"

definition idl_find :: "string \<Rightarrow> idl_instruction option" where
  "idl_find name = List.find (\<lambda>i. ii_name i = name) idl_instructions"

definition idl_read_args :: "(string \<times> idl_type) list \<Rightarrow> idl_value list decoder" where
  "idl_read_args args = read_all (map (idl_read \<circ> snd) args)"

text \<open>The accounts that a client sends: the declared ones in order, under the keys chosen for their names.\<close>

definition idl_metas :: "(string \<Rightarrow> Pubkey) \<Rightarrow> idl_account list \<Rightarrow> AccountMeta list" where
  "idl_metas key accounts =
     map (\<lambda>a. \<lparr>am_pubkey = key (ia_name a), am_is_signer = (ia_kind a = SignerAccount),
               am_is_writable = ia_mut a\<rparr>) accounts"

section \<open>The program's values\<close>

text \<open>What the values of the program's types are in terms of the description.\<close>

definition value_fee :: "Fee \<Rightarrow> idl_value" where
  "value_fee f = VStruct [(''denominator'', VU64 (fee_denominator f)), (''numerator'', VU64 (fee_numerator f))]"

definition value_lockup :: "Lockup \<Rightarrow> idl_value" where
  "value_lockup l =
     VStruct [(''unix_timestamp'', VI64 (lockup_unix_timestamp l)), (''epoch'', VU64 (lockup_epoch l)),
              (''custodian'', VKey (lockup_custodian l))]"

fun value_account_type :: "AccountType \<Rightarrow> idl_value" where
  "value_account_type Uninitialized = VVariant ''Uninitialized'' []"
| "value_account_type StakePoolAccount = VVariant ''StakePool'' []"
| "value_account_type ValidatorListAccount = VVariant ''ValidatorList'' []"

fun value_future :: "('a \<Rightarrow> idl_value) \<Rightarrow> 'a FutureEpoch \<Rightarrow> idl_value" where
  "value_future val FE_None = VVariant ''None'' []"
| "value_future val (FE_One x) = VVariant ''One'' [val x]"
| "value_future val (FE_Two x) = VVariant ''Two'' [val x]"

definition value_option :: "('a \<Rightarrow> idl_value) \<Rightarrow> 'a option \<Rightarrow> idl_value" where
  "value_option val x = VOption (map_option val x)"

fun value_preferred :: "PreferredValidatorType \<Rightarrow> idl_value" where
  "value_preferred PreferredDeposit = VVariant ''Deposit'' []"
| "value_preferred PreferredWithdraw = VVariant ''Withdraw'' []"

fun value_funding :: "FundingType \<Rightarrow> idl_value" where
  "value_funding FundStakeDeposit = VVariant ''StakeDeposit'' []"
| "value_funding FundSolDeposit = VVariant ''SolDeposit'' []"
| "value_funding FundSolWithdraw = VVariant ''SolWithdraw'' []"

fun value_fee_type :: "FeeType \<Rightarrow> idl_value" where
  "value_fee_type (SolReferral p) = VVariant ''SolReferral'' [VU8 p]"
| "value_fee_type (StakeReferral p) = VVariant ''StakeReferral'' [VU8 p]"
| "value_fee_type (EpochFee f) = VVariant ''Epoch'' [value_fee f]"
| "value_fee_type (StakeWithdrawal f) = VVariant ''StakeWithdrawal'' [value_fee f]"
| "value_fee_type (SolDepositFee f) = VVariant ''SolDeposit'' [value_fee f]"
| "value_fee_type (StakeDepositFee f) = VVariant ''StakeDeposit'' [value_fee f]"
| "value_fee_type (SolWithdrawal f) = VVariant ''SolWithdrawal'' [value_fee f]"

definition value_stake_pool :: "StakePool \<Rightarrow> idl_value" where
  "value_stake_pool p =
     VStruct
       [(''account_type'', value_account_type (sp_account_type p)), (''manager'', VKey (sp_manager p)),
        (''staker'', VKey (sp_staker p)),
        (''stake_deposit_authority'', VKey (sp_stake_deposit_authority p)),
        (''stake_withdraw_bump_seed'', VU8 (sp_stake_withdraw_bump_seed p)),
        (''validator_list'', VKey (sp_validator_list p)), (''reserve_stake'', VKey (sp_reserve_stake p)),
        (''pool_mint'', VKey (sp_pool_mint p)),
        (''manager_fee_account'', VKey (sp_manager_fee_account p)),
        (''token_program_id'', VKey (sp_token_program_id p)),
        (''total_lamports'', VU64 (sp_total_lamports p)),
        (''pool_token_supply'', VU64 (sp_pool_token_supply p)),
        (''last_update_epoch'', VU64 (sp_last_update_epoch p)),
        (''lockup'', value_lockup (sp_lockup p)), (''epoch_fee'', value_fee (sp_epoch_fee p)),
        (''next_epoch_fee'', value_future value_fee (sp_next_epoch_fee p)),
        (''preferred_deposit_validator_vote_address'',
         value_option VKey (sp_preferred_deposit_validator_vote_address p)),
        (''preferred_withdraw_validator_vote_address'',
         value_option VKey (sp_preferred_withdraw_validator_vote_address p)),
        (''stake_deposit_fee'', value_fee (sp_stake_deposit_fee p)),
        (''stake_withdrawal_fee'', value_fee (sp_stake_withdrawal_fee p)),
        (''next_stake_withdrawal_fee'', value_future value_fee (sp_next_stake_withdrawal_fee p)),
        (''stake_referral_fee'', VU8 (sp_stake_referral_fee p)),
        (''sol_deposit_authority'', value_option VKey (sp_sol_deposit_authority p)),
        (''sol_deposit_fee'', value_fee (sp_sol_deposit_fee p)),
        (''sol_referral_fee'', VU8 (sp_sol_referral_fee p)),
        (''sol_withdraw_authority'', value_option VKey (sp_sol_withdraw_authority p)),
        (''sol_withdrawal_fee'', value_fee (sp_sol_withdrawal_fee p)),
        (''next_sol_withdrawal_fee'', value_future value_fee (sp_next_sol_withdrawal_fee p)),
        (''last_epoch_pool_token_supply'', VU64 (sp_last_epoch_pool_token_supply p)),
        (''last_epoch_total_lamports'', VU64 (sp_last_epoch_total_lamports p))]"

fun instruction_name :: "StakePoolInstruction \<Rightarrow> string" where
  "instruction_name (Initialize _ _ _ _ _) = ''initialize''"
| "instruction_name (AddValidatorToPool _) = ''add_validator_to_pool''"
| "instruction_name RemoveValidatorFromPool = ''remove_validator_from_pool''"
| "instruction_name (DecreaseValidatorStake _ _) = ''decrease_validator_stake''"
| "instruction_name (IncreaseValidatorStake _ _) = ''increase_validator_stake''"
| "instruction_name (SetPreferredValidator _ _) = ''set_preferred_validator''"
| "instruction_name (UpdateValidatorListBalance _ _) = ''update_validator_list_balance''"
| "instruction_name UpdateStakePoolBalance = ''update_stake_pool_balance''"
| "instruction_name CleanupRemovedValidatorEntries = ''cleanup_removed_validator_entries''"
| "instruction_name DepositStake = ''deposit_stake''"
| "instruction_name (WithdrawStake _) = ''withdraw_stake''"
| "instruction_name SetManager = ''set_manager''"
| "instruction_name (SetFee _) = ''set_fee''"
| "instruction_name SetStaker = ''set_staker''"
| "instruction_name (DepositSol _) = ''deposit_sol''"
| "instruction_name (SetFundingAuthority _) = ''set_funding_authority''"
| "instruction_name (WithdrawSol _) = ''withdraw_sol''"
| "instruction_name (CreateTokenMetadata _ _ _) = ''create_token_metadata''"
| "instruction_name (UpdateTokenMetadata _ _ _) = ''update_token_metadata''"
| "instruction_name (IncreaseAdditionalValidatorStake _ _ _) = ''increase_additional_validator_stake''"
| "instruction_name (DecreaseAdditionalValidatorStake _ _ _) = ''decrease_additional_validator_stake''"
| "instruction_name (DecreaseValidatorStakeWithReserve _ _) = ''decrease_validator_stake_with_reserve''"
| "instruction_name (Redelegate _ _ _ _) = ''redelegate''"
| "instruction_name (DepositStakeWithSlippage _) = ''deposit_stake_with_slippage''"
| "instruction_name (WithdrawStakeWithSlippage _ _) = ''withdraw_stake_with_slippage''"
| "instruction_name (DepositSolWithSlippage _ _) = ''deposit_sol_with_slippage''"
| "instruction_name (WithdrawSolWithSlippage _ _) = ''withdraw_sol_with_slippage''"
| "instruction_name (DepositWsolWithSession _) = ''deposit_wsol_with_session''"
| "instruction_name (WithdrawWsolWithSession _) = ''withdraw_wsol_with_session''"

fun argument_values :: "StakePoolInstruction \<Rightarrow> idl_value list" where
  "argument_values (Initialize fee withdrawal_fee deposit_fee referral_fee max_validators) =
     [value_fee fee, value_fee withdrawal_fee, value_fee deposit_fee, VU8 referral_fee,
      VU32 max_validators]"
| "argument_values (AddValidatorToPool seed) = [VU32 seed]"
| "argument_values RemoveValidatorFromPool = []"
| "argument_values (DecreaseValidatorStake l s) = [VU64 l, VU64 s]"
| "argument_values (IncreaseValidatorStake l s) = [VU64 l, VU64 s]"
| "argument_values (SetPreferredValidator t v) = [value_preferred t, value_option VKey v]"
| "argument_values (UpdateValidatorListBalance i b) = [VU32 i, VBool b]"
| "argument_values UpdateStakePoolBalance = []"
| "argument_values CleanupRemovedValidatorEntries = []"
| "argument_values DepositStake = []"
| "argument_values (WithdrawStake t) = [VU64 t]"
| "argument_values SetManager = []"
| "argument_values (SetFee f) = [value_fee_type f]"
| "argument_values SetStaker = []"
| "argument_values (DepositSol l) = [VU64 l]"
| "argument_values (SetFundingAuthority t) = [value_funding t]"
| "argument_values (WithdrawSol t) = [VU64 t]"
| "argument_values (CreateTokenMetadata n s u) = [VString n, VString s, VString u]"
| "argument_values (UpdateTokenMetadata n s u) = [VString n, VString s, VString u]"
| "argument_values (IncreaseAdditionalValidatorStake l s e) = [VU64 l, VU64 s, VU64 e]"
| "argument_values (DecreaseAdditionalValidatorStake l s e) = [VU64 l, VU64 s, VU64 e]"
| "argument_values (DecreaseValidatorStakeWithReserve l s) = [VU64 l, VU64 s]"
| "argument_values (Redelegate l s e d) = [VU64 l, VU64 s, VU64 e, VU64 d]"
| "argument_values (DepositStakeWithSlippage m) = [VU64 m]"
| "argument_values (WithdrawStakeWithSlippage t m) = [VU64 t, VU64 m]"
| "argument_values (DepositSolWithSlippage l m) = [VU64 l, VU64 m]"
| "argument_values (WithdrawSolWithSlippage t m) = [VU64 t, VU64 m]"
| "argument_values (DepositWsolWithSession l) = [VU64 l]"
| "argument_values (WithdrawWsolWithSession t) = [VU64 t]"

text \<open>What a reader of the description takes an instruction for.\<close>

fun described_fee_type :: "FeeType \<Rightarrow> FeeType" where
  "described_fee_type (SolDepositFee f) = SolWithdrawal f"
| "described_fee_type (SolWithdrawal f) = SolDepositFee f"
| "described_fee_type f = f"

fun as_described :: "StakePoolInstruction \<Rightarrow> StakePoolInstruction" where
  "as_described (SetFee f) = SetFee (described_fee_type f)"
| "as_described ix = ix"

text \<open>Accounts that are sent serve for accounts that are needed, with no fewer privileges.\<close>

definition serve_for :: "AccountMeta list \<Rightarrow> AccountMeta list \<Rightarrow> bool" where
  "serve_for sent needed =
     (length needed \<le> length sent \<and>
      list_all2 (\<lambda>s n. am_pubkey s = am_pubkey n \<and> (am_is_signer n \<longrightarrow> am_is_signer s) \<and>
                       (am_is_writable n \<longrightarrow> am_is_writable s))
        (take (length needed) sent) needed)"

section \<open>What a described type promises\<close>

locale described =
  fixes ser :: "'a \<Rightarrow> byte list" and t :: idl_type and val :: "'a \<Rightarrow> idl_value"
  assumes read_ser: "idl_read t (ser x @ rest) = Some (val x, rest)"
begin

lemma read_alone: "idl_read t (ser x) = Some (val x, [])"
  using read_ser [of x "[]"] by simp

lemma option_described: "described (ser_option ser) (TOption t) (value_option val)"
proof
  show "idl_read (TOption t) (ser_option ser x @ rest) = Some (value_option val x, rest)" for x rest
    by (cases x) (simp_all add: read_as_def de_option_def de_u8_def read_ser value_option_def)
qed

lemma future_described: "described (ser_future_epoch ser) (ty_FutureEpoch t) (value_future val)"
proof
  show "idl_read (ty_FutureEpoch t) (ser_future_epoch ser x @ rest) = Some (value_future val x, rest)"
    for x rest
    by (cases x) (simp_all add: ty_FutureEpoch_def read_variant_def de_u8_def read_ser)
qed

end

interpretation d_u8: described ser_u8 TU8 VU8
  by unfold_locales (simp add: read_as_def b_u8.de_ser)

interpretation d_u32: described ser_u32 TU32 VU32
  by unfold_locales (simp add: read_as_def b_u32.de_ser)

interpretation d_u64: described ser_u64 TU64 VU64
  by unfold_locales (simp add: read_as_def b_u64.de_ser)

interpretation d_i64: described ser_u64 TI64 VI64
  by unfold_locales (simp add: read_as_def b_u64.de_ser)

interpretation d_bool: described ser_bool TBool VBool
  by unfold_locales (simp add: read_as_def b_bool.de_ser)

interpretation d_pubkey: described ser_pubkey TPubkey VKey
  by unfold_locales (simp add: read_as_def b_pubkey.de_ser)

interpretation d_opt_pubkey: described "ser_option ser_pubkey" "TOption TPubkey" "value_option VKey"
  by (rule d_pubkey.option_described)

interpretation d_fee: described ser_fee ty_Fee value_fee
  by unfold_locales
    (simp add: ty_Fee_def ser_fee_def value_fee_def read_struct_def d_u64.read_ser del: idl_read.simps(3))

interpretation d_future_fee: described "ser_future_epoch ser_fee" "ty_FutureEpoch ty_Fee" "value_future value_fee"
  by (rule d_fee.future_described)

interpretation d_lockup: described ser_lockup ty_Lockup value_lockup
  by unfold_locales
    (simp add: ty_Lockup_def ser_lockup_def value_lockup_def read_struct_def d_u64.read_ser
      d_i64.read_ser d_pubkey.read_ser del: idl_read.simps(3,4,7))

interpretation d_account_type: described ser_account_type ty_AccountType value_account_type
proof
  show "idl_read ty_AccountType (ser_account_type x @ rest) = Some (value_account_type x, rest)" for x rest
    by (cases x) (simp_all add: ty_AccountType_def read_variant_def de_u8_def)
qed

interpretation d_preferred: described ser_preferred ty_PreferredValidatorType value_preferred
proof
  show "idl_read ty_PreferredValidatorType (ser_preferred x @ rest) = Some (value_preferred x, rest)" for x rest
    by (cases x) (simp_all add: ty_PreferredValidatorType_def read_variant_def de_u8_def)
qed

interpretation d_funding: described ser_funding ty_FundingType value_funding
proof
  show "idl_read ty_FundingType (ser_funding x @ rest) = Some (value_funding x, rest)" for x rest
    by (cases x) (simp_all add: ty_FundingType_def read_variant_def de_u8_def)
qed

lemmas read_ser_fields =
  d_u8.read_ser d_u32.read_ser d_u64.read_ser d_i64.read_ser d_bool.read_ser d_pubkey.read_ser
  d_opt_pubkey.read_ser d_fee.read_ser d_future_fee.read_ser d_lockup.read_ser
  d_account_type.read_ser d_preferred.read_ser d_funding.read_ser

interpretation d_stake_pool: described ser_stake_pool ty_StakePool value_stake_pool
  by unfold_locales
    (simp add: ty_StakePool_def ser_stake_pool_def value_stake_pool_def read_struct_def read_ser_fields
      del: idl_read.simps(1-8))

interpretation d_fee_type: described ser_fee_type ty_FeeType "\<lambda>f. value_fee_type (described_fee_type f)"
proof
  show "idl_read ty_FeeType (ser_fee_type x @ rest) = Some (value_fee_type (described_fee_type x), rest)"
    for x rest
    by (cases x) (simp_all add: ty_FeeType_def read_variant_def de_u8_Cons read_ser_fields
        del: idl_read.simps(1))
qed

lemma read_ser_string:
  assumes "string_ok s"
  shows "idl_read TString (ser_string s @ rest) = Some (VString s, rest)"
    "idl_read TString (ser_string s) = Some (VString s, [])"
  using de_ser_string [OF assms] de_ser_string [OF assms, of "[]"] by (simp_all add: read_as_def)

lemmas read_alone_fields =
  d_u32.read_alone d_u64.read_alone d_bool.read_alone d_opt_pubkey.read_alone d_funding.read_alone
  d_fee_type.read_alone

lemmas ix_defs =
  ix_initialize_def ix_add_validator_to_pool_def ix_remove_validator_from_pool_def
  ix_decrease_validator_stake_def ix_increase_validator_stake_def ix_set_preferred_validator_def
  ix_update_validator_list_balance_def ix_update_stake_pool_balance_def
  ix_cleanup_removed_validator_entries_def ix_deposit_stake_def ix_withdraw_stake_def
  ix_set_manager_def ix_set_fee_def ix_set_staker_def ix_deposit_sol_def
  ix_set_funding_authority_def ix_withdraw_sol_def ix_create_token_metadata_def
  ix_update_token_metadata_def ix_increase_additional_validator_stake_def
  ix_decrease_additional_validator_stake_def ix_decrease_validator_stake_with_reserve_def
  ix_redelegate_def ix_deposit_stake_with_slippage_def ix_withdraw_stake_with_slippage_def
  ix_deposit_sol_with_slippage_def ix_withdraw_sol_with_slippage_def ix_deposit_wsol_def
  ix_deposit_wsol_with_session_def

lemmas ctx_defs =
  ctx_Initialize_def ctx_DepositSol_def ctx_WithdrawSol_def ctx_DepositWsol_def
  ctx_DepositWsolWithSession_def ctx_DepositStake_def ctx_WithdrawStake_def
  ctx_AddValidatorToPool_def ctx_RemoveValidatorFromPool_def ctx_UpdateValidatorListBalance_def
  ctx_SetManager_def ctx_SetStaker_def ctx_SetFee_def ctx_DecreaseValidatorStake_def
  ctx_IncreaseValidatorStake_def ctx_SetPreferredValidator_def ctx_UpdateStakePoolBalance_def
  ctx_CleanupRemovedValidatorEntries_def ctx_SetFundingAuthority_def ctx_CreateTokenMetadata_def
  ctx_UpdateTokenMetadata_def ctx_IncreaseAdditionalValidatorStake_def
  ctx_DecreaseAdditionalValidatorStake_def ctx_DecreaseValidatorStakeWithReserve_def
  ctx_Redelegate_def ctx_DepositStakeWithSlippage_def ctx_WithdrawStakeWithSlippage_def
  ctx_DepositSolWithSlippage_def ctx_WithdrawSolWithSlippage_def

lemma deposit_wsol_unknown: "ii_name ix_deposit_wsol \<noteq> instruction_name ix"
  by (cases ix) (simp_all add: ix_deposit_wsol_def)

section \<open>Accounts\<close>

text \<open>A client uses the right addresses for the sysvars and programs that the description names.\<close>

definition well_known :: "env \<Rightarrow> sdk \<Rightarrow> (string \<Rightarrow> Pubkey) \<Rightarrow> bool" where
  "well_known E S key =
     (key ''rent'' = sdk_rent_id S \<and> key ''clock'' = sdk_clock_id S \<and>
      key ''stake_history'' = sdk_stake_history_id S \<and> key ''stake_config'' = sdk_stake_config_id S \<and>
      key ''system_program'' = e_system_program_id E \<and> key ''stake_program'' = e_stake_program_id E)"

lemma serve_for_Nil [simp]: "serve_for sent []"
  by (simp add: serve_for_def)

lemma serve_for_Cons [simp]:
  "serve_for [] (n # needed) = False"
  "serve_for (s # sent) (n # needed) =
     (am_pubkey s = am_pubkey n \<and> (am_is_signer n \<longrightarrow> am_is_signer s) \<and>
      (am_is_writable n \<longrightarrow> am_is_writable s) \<and> serve_for sent needed)"
  by (auto simp: serve_for_def)

lemmas metas_defs = idl_metas_def ctx_defs declared_def build_def account_meta_def account_meta_readonly_def

section \<open>Properties\<close>

text \<open>
  C36. Every instruction of the program but the withdrawal of wrapped SOL is described, and the
  declared argument types read the argument bytes completely and to the right values, with one
  exception: the description lists the variants of \<open>FeeType\<close> in another order, so the new SOL deposit
  fee of a \<open>SetFee\<close> reads as a new SOL withdrawal fee, and the other way round.
\<close>

theorem idl_reads_arguments:
  assumes "instruction_ok ix"
  shows "case idl_find (instruction_name ix) of
      None \<Rightarrow> (\<exists>t. ix = WithdrawWsolWithSession t)
    | Some i \<Rightarrow> idl_read_args (ii_args i) (tl (ser_instruction ix)) =
        Some (argument_values (as_described ix), [])"
  using assms
  by (cases ix)
    (simp_all add: idl_find_def idl_instructions_def ix_defs idl_read_args_def read_ser_string
      read_ser_fields read_alone_fields
      del: idl_read.simps)

theorem idl_reads_arguments_witness:
  "instruction_ok (SetFee (SolWithdrawal \<lparr>fee_denominator = 10, fee_numerator = 1\<rparr>)) \<and>
   idl_find ''set_fee'' = Some ix_set_fee \<and>
   idl_read_args (ii_args ix_set_fee)
     (tl (ser_instruction (SetFee (SolWithdrawal \<lparr>fee_denominator = 10, fee_numerator = 1\<rparr>)))) =
     Some ([VVariant ''SolDeposit'' [VStruct [(''denominator'', VU64 10), (''numerator'', VU64 1)]]], [])"
proof -
  have found: "idl_find ''set_fee'' = Some ix_set_fee"
    by (simp add: idl_find_def idl_instructions_def ix_defs)
  have ok: "instruction_ok (SetFee (SolWithdrawal \<lparr>fee_denominator = 10, fee_numerator = 1\<rparr>))"
    by simp
  show ?thesis
    using idl_reads_arguments [OF ok] ok found
    unfolding instruction_name.simps found option.case as_described.simps described_fee_type.simps
      argument_values.simps value_fee_type.simps value_fee_def
    by simp
qed

lemma le_bytes_u64_Cons: "\<exists>bs. to_le_bytes (x :: u64) = ucast x # bs \<and> length bs = 7"
proof -
  have "to_le_bytes x = word_of_int (uint x mod 256) # le_digits 7 (uint x div 256)"
    using le_digits.simps(2) [of 7 "uint x"] by (simp add: to_le_bytes_def)
  moreover have "word_of_int (uint x mod 256) = (ucast x :: u8)"
    by (simp add: word_uint_eq_iff uint_word_of_int unsigned_ucast_eq take_bit_eq_mod)
  ultimately show ?thesis by simp
qed

lemma idl_read_status:
  "idl_read ty_StakeStatus (b # bs) =
     (if unat b < 5
      then Some (VVariant ([''Active'', ''DeactivatingTransient'', ''ReadyForRemoval'',
                            ''DeactivatingValidator'', ''DeactivatingAll''] ! unat b) [], bs)
      else None)"
proof (cases "unat b < 5")
  case True
  then have "unat b = 0 \<or> unat b = 1 \<or> unat b = 2 \<or> unat b = 3 \<or> unat b = 4" by linarith
  then show ?thesis by (auto simp: ty_StakeStatus_def read_variant_def de_u8_def)
qed (simp add: ty_StakeStatus_def read_variant_def de_u8_def)

text \<open>
  The description of a validator's record is wrong: it declares the fields in another order than
  the record has, so the status that a client shows is the lowest byte of the active stake, and the
  record cannot be read at all when that byte is not one of the five statuses.
\<close>

lemma validator_misread:
  "case idl_read ty_ValidatorStakeInfo (enc_vsi v @ rest) of
     None \<Rightarrow> 5 \<le> unat (vsi_active_stake_lamports v) mod 256
   | Some (x, r) \<Rightarrow> unat (vsi_active_stake_lamports v) mod 256 < 5 \<and> r = rest \<and>
       idl_get ''status'' x =
         Some (VVariant ([''Active'', ''DeactivatingTransient'', ''ReadyForRemoval'',
                          ''DeactivatingValidator'', ''DeactivatingAll'']
                         ! (unat (vsi_active_stake_lamports v) mod 256)) [])"
proof -
  obtain bs where bs: "to_le_bytes (vsi_active_stake_lamports v) = ucast (vsi_active_stake_lamports v) # bs"
    "length bs = 7"
    using le_bytes_u64_Cons by blast
  define tail where "tail = bs @ drop 8 (enc_vsi v)"
  have len: "length tail = 72" by (simp add: tail_def bs VSI_LEN_def)
  have enc: "enc_vsi v = ucast (vsi_active_stake_lamports v) # tail"
    by (simp add: tail_def enc_vsi_def bs)
  have low: "unat (ucast (vsi_active_stake_lamports v) :: u8) = unat (vsi_active_stake_lamports v) mod 256"
    by (simp add: unsigned_ucast_eq take_bit_eq_mod)
  show ?thesis
    by (simp add: enc ty_ValidatorStakeInfo_def read_struct_def idl_read_status low len read_as_def
        de_pubkey_def de_u64_def de_u32_def de_fixed_def)
qed

text \<open>
  C37. The description of the two accounts of the program, against the bytes that the program writes. The
  declared type of the pool is right: it reads every field under its name with its value and leaves the rest of the buffer
  unread. That of a validator's record is wrong: it declares the fields in another order than the record has, so
  the status that it shows is the lowest byte of the active stake, and the record
  cannot be read at all when that byte is not one of the five statuses.
\<close>

theorem idl_account_layouts:
  "idl_read ty_StakePool (ser_stake_pool p @ rest) = Some (value_stake_pool p, rest)
   \<and> (case idl_read ty_ValidatorStakeInfo (enc_vsi v @ rest) of
        None \<Rightarrow> 5 \<le> unat (vsi_active_stake_lamports v) mod 256
      | Some (x, r) \<Rightarrow> unat (vsi_active_stake_lamports v) mod 256 < 5 \<and> r = rest \<and>
          idl_get ''status'' x =
            Some (VVariant ([''Active'', ''DeactivatingTransient'', ''ReadyForRemoval'',
                             ''DeactivatingValidator'', ''DeactivatingAll'']
                            ! (unat (vsi_active_stake_lamports v) mod 256)) []))"
  using d_stake_pool.read_ser validator_misread by blast

text \<open>
  C35. For thirteen instructions a client that sends the declared accounts sends what the program's own
  builder sends: the same keys in the same order, with at least the same privileges, possibly
  followed by an account that the handler does not look at (the clock).
\<close>

theorem idl_accounts_serve:
  assumes "well_known E S key"
    and "key ''deposit_authority'' = fst (find_deposit_authority_program_address E pid (key ''stake_pool''))"
  shows
    "serve_for (idl_metas key (ii_accounts ix_add_validator_to_pool))
       (bi_accounts (add_validator_to_pool E S pid (key ''stake_pool'') (key ''staker'')
          (key ''reserve_stake'') (key ''withdraw_authority'') (key ''validator_list'')
          (key ''validator_stake'') (key ''validator_vote'') seed)) \<and>
     serve_for (idl_metas key (ii_accounts ix_remove_validator_from_pool))
       (bi_accounts (remove_validator_from_pool E S pid (key ''stake_pool'') (key ''staker'')
          (key ''withdraw_authority'') (key ''validator_list'') (key ''validator_stake'')
          (key ''transient_stake''))) \<and>
     serve_for (idl_metas key (ii_accounts ix_decrease_validator_stake))
       (bi_accounts (decrease_validator_stake E S pid (key ''stake_pool'') (key ''staker'')
          (key ''withdraw_authority'') (key ''validator_list'') (key ''validator_stake'')
          (key ''transient_stake'') lamports transient_seed)) \<and>
     serve_for (idl_metas key (ii_accounts ix_increase_validator_stake))
       (bi_accounts (increase_validator_stake E S pid (key ''stake_pool'') (key ''staker'')
          (key ''withdraw_authority'') (key ''validator_list'') (key ''reserve_stake'')
          (key ''transient_stake'') (key ''validator_stake'') (key ''validator_vote'') lamports
          transient_seed)) \<and>
     serve_for (idl_metas key (ii_accounts ix_set_preferred_validator))
       (bi_accounts (set_preferred_validator E S pid (key ''stake_pool'') (key ''staker'')
          (key ''validator_list'') preferred vote)) \<and>
     serve_for (idl_metas key (ii_accounts ix_update_validator_list_balance))
       (update_list_accounts E S (key ''stake_pool'') (key ''withdraw_authority'')
          (key ''validator_list'') (key ''reserve_stake'')) \<and>
     serve_for (idl_metas key (ii_accounts ix_update_stake_pool_balance))
       (bi_accounts (update_stake_pool_balance E S pid (key ''stake_pool'')
          (key ''withdraw_authority'') (key ''validator_list'') (key ''reserve_stake'')
          (key ''manager_fee_account'') (key ''pool_mint'') (key ''token_program''))) \<and>
     serve_for (idl_metas key (ii_accounts ix_cleanup_removed_validator_entries))
       (bi_accounts (cleanup_removed_validator_entries E S pid (key ''stake_pool'')
          (key ''validator_list''))) \<and>
     serve_for (idl_metas key (ii_accounts ix_deposit_stake))
       (bi_accounts (deposit_stake E S pid (key ''stake_pool'') (key ''validator_list'')
          (key ''stake_pool_withdraw_authority'') (key ''deposit_stake'') depositor
          (key ''validator_stake'') (key ''reserve_stake'') (key ''destination_pool_account'')
          (key ''manager_fee_account'') (key ''referrer_pool_tokens_account'') (key ''pool_mint'')
          (key ''token_program'') ! 2)) \<and>
     serve_for (idl_metas key (ii_accounts ix_deposit_stake_with_slippage))
       (bi_accounts (deposit_stake_with_slippage E S pid (key ''stake_pool'') (key ''validator_list'')
          (key ''stake_pool_withdraw_authority'') (key ''deposit_stake'') depositor
          (key ''validator_stake'') (key ''reserve_stake'') (key ''destination_pool_account'')
          (key ''manager_fee_account'') (key ''referrer_pool_tokens_account'') (key ''pool_mint'')
          (key ''token_program'') minimum_out ! 2)) \<and>
     serve_for (idl_metas key (ii_accounts ix_set_fee))
       (bi_accounts (set_fee E S pid (key ''stake_pool'') (key ''manager'') fee)) \<and>
     serve_for (idl_metas key (ii_accounts ix_set_staker))
       (bi_accounts (set_staker E S pid (key ''stake_pool'') (key ''manager'') (key ''new_staker''))) \<and>
     serve_for (idl_metas key (ii_accounts ix_set_funding_authority))
       (bi_accounts (set_funding_authority E S pid (key ''stake_pool'') (key ''manager'')
          (Some (key ''new_authority'')) funding_type))"
  using assms unfolding well_known_def
  by (simp add: ix_defs metas_defs add_validator_to_pool_def remove_validator_from_pool_def
      decrease_validator_stake_def increase_validator_stake_def set_preferred_validator_def
      update_list_accounts_def update_stake_pool_balance_def cleanup_removed_validator_entries_def
      deposit_stake_def deposit_stake_with_slippage_def deposit_stake_internal_def set_fee_def
      set_staker_def set_funding_authority_def)

definition sample_keys :: "string \<Rightarrow> Pubkey" where
  "sample_keys name =
     (case map_of [(''rent'', 70), (''clock'', 71), (''stake_history'', 72), (''stake_config'', 73),
                   (''system_program'', 5), (''stake_program'', 6), (''deposit_authority'', 50),
                   (''stake_pool'', 1), (''manager'', 2), (''new_staker'', 3)] name of
        Some k \<Rightarrow> k | None \<Rightarrow> 0)"

theorem idl_accounts_serve_witness:
  "well_known sample_env sample_sdk sample_keys \<and>
   sample_keys ''deposit_authority'' =
     fst (find_deposit_authority_program_address sample_env 99 (sample_keys ''stake_pool'')) \<and>
   serve_for (idl_metas sample_keys (ii_accounts ix_set_staker))
     (bi_accounts (set_staker sample_env sample_sdk 99 (sample_keys ''stake_pool'')
        (sample_keys ''manager'') (sample_keys ''new_staker''))) \<and>
   idl_metas sample_keys (ii_accounts ix_set_staker) =
     [account_meta 1 False, account_meta_readonly 2 True, account_meta_readonly 3 False]"
proof -
  have known: "well_known sample_env sample_sdk sample_keys"
    by (simp add: well_known_def sample_keys_def sample_sdk_def sample_simps)
  have authority: "sample_keys ''deposit_authority'' =
      fst (find_deposit_authority_program_address sample_env 99 (sample_keys ''stake_pool''))"
    by (simp add: sample_keys_def find_deposit_authority_program_address_def sample_simps)
  show ?thesis
    using idl_accounts_serve [OF known authority] known authority
    by (simp add: ix_set_staker_def ctx_SetStaker_def idl_metas_def declared_def sample_keys_def
        account_meta_def account_meta_readonly_def)
qed

text \<open>
  For these fifteen the declared accounts do not serve, whatever keys a client picks: an account that
  the program writes is declared read-only, a signer is not declared as one, an account is missing,
  or the order differs.
\<close>

lemma idl_accounts_do_not_serve:
  assumes known: "well_known E S key" and distinct: "sdk_rent_id S \<noteq> sdk_stake_history_id S"
  shows
    "\<not> serve_for (idl_metas key (ii_accounts ix_initialize))
       (bi_accounts (initialize E S pid k1 k2 k3 k4 k5 k6 k7 k8 k9 auth f1 f2 f3 r m))"
    "\<not> serve_for (idl_metas key (ii_accounts ix_set_manager)) (bi_accounts (set_manager E S pid k1 k2 k3 k4))"
    "\<not> serve_for (idl_metas key (ii_accounts ix_deposit_sol))
       (bi_accounts (deposit_sol_internal E S pid k1 k2 k3 k4 k5 k6 k7 k8 k9 auth l None))"
    "\<not> serve_for (idl_metas key (ii_accounts ix_deposit_sol_with_slippage))
       (bi_accounts (deposit_sol_internal E S pid k1 k2 k3 k4 k5 k6 k7 k8 k9 auth l (Some min_out)))"
    "\<not> serve_for (idl_metas key (ii_accounts ix_withdraw_sol))
       (bi_accounts (withdraw_sol_internal E S pid k1 k2 k3 k4 k5 k6 k7 k8 k9 auth l None))"
    "\<not> serve_for (idl_metas key (ii_accounts ix_withdraw_sol_with_slippage))
       (bi_accounts (withdraw_sol_internal E S pid k1 k2 k3 k4 k5 k6 k7 k8 k9 auth l (Some min_out)))"
    "\<not> serve_for (idl_metas key (ii_accounts ix_withdraw_stake))
       (bi_accounts (withdraw_stake_internal E S pid k1 k2 k3 k4 k5 k6 k7 k8 k9 k10 k11 l None))"
    "\<not> serve_for (idl_metas key (ii_accounts ix_withdraw_stake_with_slippage))
       (bi_accounts (withdraw_stake_internal E S pid k1 k2 k3 k4 k5 k6 k7 k8 k9 k10 k11 l (Some min_out)))"
    "\<not> serve_for (idl_metas key (ii_accounts ix_deposit_wsol_with_session))
       (bi_accounts (deposit_wsol_with_session E S pid k1 k2 k3 k4 k5 k6 k7 k8 auth k9 k10 k11 k12 k13 k14 k15 l))"
    "\<not> serve_for (idl_metas key (ii_accounts ix_update_token_metadata))
       (bi_accounts (update_token_metadata E S pid k1 k2 k3 name symbol uri))"
    "\<not> serve_for (idl_metas key (ii_accounts ix_create_token_metadata))
       (bi_accounts (create_token_metadata E S pid k1 k2 k3 k4 name symbol uri))"
    "\<not> serve_for (idl_metas key (ii_accounts ix_increase_additional_validator_stake))
       (bi_accounts (increase_additional_validator_stake E S pid k1 k2 k3 k4 k5 k6 k7 k8 k9 l s e))"
    "\<not> serve_for (idl_metas key (ii_accounts ix_decrease_additional_validator_stake))
       (bi_accounts (decrease_additional_validator_stake E S pid k1 k2 k3 k4 k5 k6 k7 k8 l s e))"
    "\<not> serve_for (idl_metas key (ii_accounts ix_decrease_validator_stake_with_reserve))
       (bi_accounts (decrease_validator_stake_with_reserve E S pid k1 k2 k3 k4 k5 k6 k7 l s))"
    "\<not> serve_for (idl_metas key (ii_accounts ix_redelegate))
       (bi_accounts (redelegate E S pid k1 k2 k3 k4 k5 k6 k7 k8 k9 k10 k11 l s e d))"
  using known distinct unfolding well_known_def
  by (simp_all add: ix_defs metas_defs initialize_def set_manager_def deposit_sol_internal_def
      withdraw_sol_internal_def withdraw_stake_internal_def deposit_wsol_with_session_def
      update_token_metadata_def create_token_metadata_def increase_additional_validator_stake_def
      decrease_additional_validator_stake_def decrease_validator_stake_with_reserve_def redelegate_def Let_def)

end
