(* ===== verification/Spec2Isabelle.thy ===== *)
theory Spec2Isabelle
  imports Client_Main Idl
begin

text \<open>
  A verification of the stake pool program (\<^verbatim>\<open>program/src\<close>), an on-chain program that pools
  stake: users deposit lamports or stake accounts for pool tokens and withdraw them again, a
  manager sets fees, a staker spreads the stake over validators, and anybody may run the update of
  an epoch. Every definition is a translation of the Rust source; proofs are by the kernel.

  \<^bold>\<open>The parts of the program and their theories.\<close>

  \<^item> \<open>Prelude\<close>: Rust's checked, saturating and 128-bit integer operations on words, little-endian bytes,
    slices, the result type with the \<open>?\<close> operator (\<open>tri\<close>), and the collections of simplification rules.
  \<^item> \<open>Errors\<close>: \<^verbatim>\<open>error.rs\<close>. \<open>StakePoolError\<close>, its codes, and \<open>ProgramError\<close>; every error return of the
    source is an \<open>Inl\<close>, an arithmetic panic of the source is the value \<open>Panic\<close>.
  \<^item> \<open>Fees\<close>: \<open>Fee\<close>, \<open>FutureEpoch\<close>, \<open>FeeType\<close> of \<^verbatim>\<open>state.rs\<close>.
  \<^item> \<open>Pool_State\<close>: the record \<open>StakePool\<close> and its computations (\<open>calc_*\<close>, \<open>update_fee\<close>) of \<^verbatim>\<open>state.rs\<close>.
  \<^item> \<open>Big_Vec\<close>: \<^verbatim>\<open>big_vec.rs\<close>, the vector of fixed-size records kept in the bytes of an account, with
    the byte moves of \<open>retain\<close>; the locale \<open>pod\<close> relates it to HOL lists.
  \<^item> \<open>Borsh\<close>: the encoding of the pool account; the locale \<open>borsh\<close> is the contract of an encoding.
  \<^item> \<open>Validator_List\<close>: \<open>ValidatorStakeInfo\<close>, \<open>StakeStatus\<close>, \<open>ValidatorListHeader\<close>, \<open>ValidatorList\<close> of
    \<^verbatim>\<open>state.rs\<close>, with the byte predicates that the handlers search with.
  \<^item> \<open>Instructions\<close>: the instruction enum of \<^verbatim>\<open>instruction.rs\<close>, its wire format and UTF-8 strings.
  \<^item> \<open>Runtime\<close>: what the program sees of Solana (accounts, sysvars, derived addresses, cross-program
    calls), constants and seeds of \<^verbatim>\<open>lib.rs\<close>.
  \<^item> \<open>Checks\<close>: the \<open>check_*\<close> functions and the wrappers of cross-program calls of \<^verbatim>\<open>processor.rs\<close> and
    \<^verbatim>\<open>state.rs\<close>.
  \<^item> \<open>Admin\<close>, \<open>Validators\<close>, \<open>Rebalance\<close>, \<open>Balance_Update\<close>, \<open>Deposits\<close>, \<open>Withdrawals\<close>: the handlers
    \<open>process_*\<close> of \<^verbatim>\<open>processor.rs\<close>, every one whole, with its checks in the order of the source.
    Long handlers are split into named parts (for instance the choice of the source of a stake
    withdrawal, or the step through an ephemeral account), composed as the source composes them.
  \<^item> \<open>Dispatch\<close>: \<open>Processor::process\<close>.
  \<^item> \<open>Builders\<close>: the client side of \<^verbatim>\<open>instruction.rs\<close>, one definition per builder, in the order of the
    source within each group: the accounts with their flags and the encoded instruction, derived
    addresses included. \<open>run_built\<close> hands a built instruction to \<open>process\<close>.
  \<^item> \<open>Client\<close>, \<open>Client_Funds\<close>: the command line client (\<^verbatim>\<open>clients/cli/src/main.rs\<close>, \<^verbatim>\<open>client.rs\<close>): reading
    accounts, checking, signing and sending of transactions, and every command that sends something.
    The RPC node and the other crates are fields of the record \<open>config\<close>, fresh key pairs come from an
    argument \<open>fresh\<close>, integers wrap as in a release build, and a panic is the value \<open>ClientPanic\<close>.
  \<^item> \<open>Text_Numbers\<close>, \<open>Client_Output\<close>: what the client prints. The first has the printing and parsing of Rust's
    integers; the second the records and texts of \<^verbatim>\<open>output.rs\<close> and the two listing commands. JSON, base 58 and the
    formatting of SOL amounts are fields of the record \<open>display\<close>.
  \<^item> \<open>Client_Args\<close>, \<open>Client_Main\<close>: the function \<open>main\<close>. The first has the declared command line as data, one
    definition per subcommand, and the predicate \<open>accepted\<close> on matches; the second the configuration, the parsing
    of each subcommand (\<open>parse_*\<close>, one per arm of the \<open>match\<close>) and a whole run (\<open>client_main\<close>). The functions of other crates
    that read and validate arguments are fields of \<open>clap_utils\<close>.
  \<^item> \<open>Idl\<close>: the interface description (\<^verbatim>\<open>stake-pool-idl/programs/stake-pool-idl/src/lib.rs\<close>), its types,
    account lists and instructions as data, and a reader of bytes by a described type; the locale
    \<open>described\<close> relates a described type to an encoder of the program.
  \<^item> \<open>Pool_Access\<close>, \<open>Pool_Machine\<close>, \<open>List_Invariant\<close>: the specification side, see below.
  \<^item> \<open>Sample\<close>: a concrete environment and store on which witnesses run the handlers.

  \<^bold>\<open>State.\<close> A \<open>world\<close> maps addresses to accounts (lamports, data bytes, owner). Handlers take the
  environment, the program's address, the account list and a world and return a new world or an
  error. The pool and its validator list are bytes in accounts; \<open>load_pool\<close>, \<open>store_pool\<close>,
  \<open>load_list\<close> and \<open>store_list\<close> are the borrow-and-decode and encode-in-place of the source, so account
  aliasing is as in the source: two accounts with one address are one account. Integers have the
  width of the source. Loops are structural recursions, so every handler is a total function and
  no fuel is used anywhere (\<open>chunks_of\<close> ends by a measure); \<open>retain_loop\<close> and \<open>find_loop\<close> recurse on the
  number of records that are left. One loop of the client may run forever: \<open>find_free_account\<close> is a
  \<open>partial_function (option)\<close>, where \<open>None\<close> stands for that.

  \<^bold>\<open>Code that is not part of the repository.\<close> The record \<open>env\<close> holds what the program calls and
  does not define: the stake, token, system and metadata programs (\<open>e_invoke_signed\<close>), the decoders of
  their accounts, the sysvars, address derivation and the session check. Theorems quantify over all
  environments. The only hypothesis on them is \<open>cpi_law\<close>, the ownership rule of the Solana runtime: a
  foreign program changes neither data nor owner of accounts that this program owns, and an account
  that comes into its ownership is zeroed. Nothing is assumed of what the foreign programs do with
  balances; theorems that speak of a balance after a call read it from the store, as the code does.

  \<^bold>\<open>The specification.\<close> \<open>Pool_Machine\<close> gives an abstract pool: an inductive relation \<open>pool_step\<close>
  between pool records, labelled with actions, on exact integers. Rule induction gives once and for
  all that fees stay fractions, that the identity of a pool never changes, that roles change only by
  their actions and that the value of a token does not fall. The locale \<open>pool_handler\<close> is the contract
  of a handler: a successful run is a step with an allowed action of the pool given as first account,
  and of the program's data only that pool and its list change (\<open>pool_contract\<close>, \<open>owned_frame\<close>). The locale
  \<open>list_handler\<close> is the contract towards the invariant of all validator lists. Every handler is an
  interpretation of both (\<open>process_initialize\<close> of the second only); \<open>Dispatch\<close> collects them into theorems
  on \<open>process\<close>, and this theory into invariants of all reachable stores.

  \<^bold>\<open>What is proved.\<close> For the whole program: the invariants of lists and fees, the refinement of the
  abstract pool, the value of tokens, who may change what, and the frame (below). For every
  instruction that moves value or validators: what its success guarantees, with exact amounts, which
  record changes and that nothing else does, the required signatures, and the bounds on amounts
  (\<open>Deposits\<close>, \<open>Withdrawals\<close>, \<open>Balance_Update\<close>, \<open>Rebalance\<close>, \<open>Validators\<close>, \<open>Admin\<close>). For the arithmetic: that
  the 128-bit computations with their error cases equal exact integer arithmetic, rounding always in
  favour of the pool. For builders and handlers together: that the instructions built for the update
  of an epoch, full or restricted to stale records, bring every record to the epoch when they
  succeed, and that the built change of the staker succeeds exactly under the right signature. For the
  client: that a plan of withdrawals takes the candidates in order and adds up, that the tokens a
  transaction withdraws are the tokens it approves, that the accounts it creates have the sizes the
  program demands, that a dry run changes nothing whatever the command line, exactly which accepted
  command lines make it panic, and that with a node that executes transactions a command line reaches the stored pool.
  For client and program together: that every pool of a reachable store can be listed. For the interface
  description: which of its types and account lists fit the program's bytes and builders, and which do
  not. For the data: round trips of the encodings and that the byte-level vector operations refine the list
  operations. Where a theorem shows the code not to do what it or its
  comment says (the limit on withdrawal fees that an overflow bypasses; the token account that a WSOL
  withdrawal cannot create; in the client the division by a zero fee, the search for a free account
  that looks at another account, the declared subcommand without code and the arguments that are
  unwrapped but not demanded; the fees that the interface description exchanges and the record
  whose fields it reorders) the text of the property says so.

  \<^bold>\<open>Not modelled.\<close> Logging (\<open>msg!\<close>, \<open>PrintProgramError\<close>), \<^verbatim>\<open>entrypoint.rs\<close> and \<open>security_txt\<close>: no effect on
  state. Of the client: progress messages and help texts; what \<open>clap\<close> does with the declarations beyond \<open>accepted\<close>; floating point
  numbers, which stay the strings they were given as. What the Anchor macros generate for the interface
  description (discriminators, account checks): its bodies are empty. Compute budget and stack limits,
  and the rollback of failed transactions, are the runtime's; a failing handler here returns an
  error and no world.
\<close>

section \<open>Reachable stores\<close>

text \<open>
  The stores that can arise after the program is deployed, when its accounts are all zeroed: by its
  own instructions, with any accounts, any input and any environment that obeys the ownership rule
  of the runtime, and by foreign programs, which obey that rule too. Only successful transactions
  have effects; a failing instruction is rolled back by the runtime.
\<close>

inductive reachable :: "Pubkey \<Rightarrow> world \<Rightarrow> bool" for pid where
  deployed: "(\<And>k. acc_owner (w k) = pid \<Longrightarrow> set (acc_data (w k)) \<subseteq> {0}) \<Longrightarrow> reachable pid w"
| instruction:
    "reachable pid w \<Longrightarrow> cpi_law E pid \<Longrightarrow> process E pid accts input w = Inr w' \<Longrightarrow> reachable pid w'"
| foreign: "reachable pid w \<Longrightarrow> owned_frame pid {} w w' \<Longrightarrow> reachable pid w'"

lemma deployed_lists: "(\<And>k. acc_owner (w k) = pid \<Longrightarrow> set (acc_data (w k)) \<subseteq> {0}) \<Longrightarrow> all_lists pid w"
  by (rule all_listsI) (metis data_of_def owner_of_def zeroed_is_no_list)

lemma deployed_fees:
  "(\<And>k. acc_owner (w k) = pid \<Longrightarrow> set (acc_data (w k)) \<subseteq> {0}) \<Longrightarrow> all_pools pid I w"
  unfolding all_pools_def by (metis data_of_def owner_of_def zeroed_is_no_pool)

lemma reachable_all_lists: "reachable pid w \<Longrightarrow> all_lists pid w"
  by (induction rule: reachable.induct)
    (auto simp: process_Inr intro: deployed_lists instruction_keeps_lists lists_frame)

section \<open>Who may change what\<close>

text \<open>The settings of a pool that are the manager's to change.\<close>

definition manager_settings ::
    "StakePool \<Rightarrow> (Pubkey \<times> Pubkey) \<times> (Fee \<times> Fee \<times> u8 \<times> u8) \<times> (Pubkey \<times> Pubkey option \<times> Pubkey option)" where
  "manager_settings p =
     ((sp_manager p, sp_manager_fee_account p),
      (sp_stake_deposit_fee p, sp_sol_deposit_fee p, sp_stake_referral_fee p, sp_sol_referral_fee p),
      (sp_stake_deposit_authority p, sp_sol_deposit_authority p, sp_sol_withdraw_authority p))"

fun by_manager :: "action \<Rightarrow> bool" where
  "by_manager NewManager = True"
| "by_manager (NewFee _) = True"
| "by_manager NewFunding = True"
| "by_manager _ = False"

lemma step_settings:
  "pool_step a p p' \<Longrightarrow> \<not> by_manager a \<Longrightarrow> manager_settings p' = manager_settings p"
  by (induction rule: pool_step.induct) (simp_all add: manager_settings_def)

lemma manager_signed:
  assumes run: "process_instruction E pid (pool # rest) ix w = Inr w'" and p: "load_pool w pool = Inr p"
    and a: "allowed ix a" "by_manager a"
  shows "\<exists>m \<in> set rest. ai_key m = sp_manager p \<and> ai_is_signer m"
  using run p a
  by (cases ix)
    (auto simp: process_instruction_def allowed_def depositing_def withdrawing_def
      elim!: set_manager_success set_fee_success set_funding_success)

lemma staker_signed:
  assumes run: "process_instruction E pid (pool # rest) ix w = Inr w'" and p: "load_pool w pool = Inr p"
    and "allowed ix NewStaker"
  shows "\<exists>m \<in> set rest. ai_key m \<in> {sp_staker p, sp_manager p} \<and> ai_is_signer m"
  using assms
  by (cases ix)
    (auto simp: process_instruction_def allowed_def depositing_def withdrawing_def elim!: set_staker_success)

section \<open>Properties of the whole program\<close>

text \<open>
  C1. In every reachable store, every validator list of the program is well formed, holds no more
  records than its account has room for and never two records for one vote account, and the status
  byte of every record stands for a status, whatever sequence of instructions and foreign calls led
  there.
\<close>

theorem reachable_lists_ok:
  assumes "reachable pid w"
  shows "\<forall>a h bv. owner_of w a = pid \<longrightarrow> load_list w a = Inr (h, bv) \<longrightarrow> header_is_valid h \<longrightarrow>
    bv_count bv \<le> unat (vlh_max_validators h) \<and> VEC_SIZE_BYTES + bv_count bv * VSI_LEN \<le> length bv
    \<and> distinct (map vsi_vote_account_address (vlist bv))
    \<and> (\<forall>v \<in> set (vlist bv). is_ok (status_try_from (vsi_status v)))"
  using reachable_all_lists [OF assms]
  by (auto simp: all_lists_def list_good_def valid_status_def list_inv_def bv_wf_def)

text \<open>
  C5. In every reachable store, every fee rate of every pool, the scheduled ones included, is at
  most one, and the referral shares are at most 100 per cent.
\<close>

theorem reachable_fees_ok:
  assumes "reachable pid w"
  shows "\<forall>a p. owner_of w a = pid \<longrightarrow> load_pool w a = Inr p \<longrightarrow> sp_is_valid p \<longrightarrow> fees_ok p"
proof -
  from assms have "all_pools pid fees_ok w"
    by induction (auto simp: process_Inr intro: deployed_fees instruction_keeps_fees all_pools_frame)
  then show ?thesis by (simp add: all_pools_def)
qed

text \<open>
  C3. The program refines the abstract pool: an instruction that succeeds on a valid pool takes one
  of the actions allowed to it, from the record before to the record after, and the pool stays valid.
\<close>

theorem instruction_refines_pool:
  assumes "process E pid (pool # rest) input w = Inr w'" and "cpi_law E pid"
    and "load_pool w pool = Inr p" and "sp_is_valid p"
  shows "\<exists>ix a p'. try_from_slice de_instruction input = Inr ix \<and> allowed ix a \<and> pool_step a p p'
    \<and> load_pool w' pool = Inr p' \<and> sp_is_valid p'"
proof -
  obtain ix where ix: "try_from_slice de_instruction input = Inr ix"
      "process_instruction E pid (pool # rest) ix w = Inr w'"
    using assms(1) by (auto simp: process_Inr)
  from assms(2) ix(2) assms(3,4) obtain p' where "load_pool w' pool = Inr p'" "sp_is_valid p'"
      "step_of (allowed ix) p p'"
    by (rule valid_pool_contract)
  then show ?thesis using ix(1) by (auto simp: step_of_def)
qed

text \<open>
  C2. No instruction but the update of the balance lowers the value of a pool token: on a pool whose
  lamports belong to somebody, lamports per token, compared as exact fractions, are at least what
  they were, rounding of deposits and withdrawals included.
\<close>

theorem token_value_never_falls:
  assumes "process E pid (pool # rest) input w = Inr w'" and "cpi_law E pid"
    and "load_pool w pool = Inr p" and "sp_is_valid p" and "owned_pool p"
    and "try_from_slice de_instruction input \<noteq> Inr UpdateStakePoolBalance"
  shows "\<exists>p'. load_pool w' pool = Inr p' \<and> pool_total p * pool_supply p' \<le> pool_total p' * pool_supply p"
proof -
  obtain ix where ix: "try_from_slice de_instruction input = Inr ix"
      "process_instruction E pid (pool # rest) ix w = Inr w'"
    using assms(1) by (auto simp: process_Inr)
  from assms(2) ix(2) assms(3,4) obtain p' a where p': "load_pool w' pool = Inr p'"
      and a: "allowed ix a" "pool_step a p p'"
    by (rule valid_pool_contract) (auto simp: step_of_def)
  have "a \<noteq> Updating"
    using a(1) assms(6) ix(1)
    by (cases ix) (auto simp: allowed_def depositing_def withdrawing_def)
  then have "rate_le p p'" by (rule step_rate [OF a(2) _ assms(5)])
  then show ?thesis using p' by (auto simp: rate_le_def)
qed

text \<open>
  C4. Whatever the instruction, the settings of the manager (the role itself, its fee account, the
  deposit and referral fees, the three funding authorities) change only when the current manager is
  among the signers, and the staker changes only when the current staker or manager is.
\<close>

theorem roles_change_by_holders:
  assumes "process E pid (pool # rest) input w = Inr w'" and "cpi_law E pid"
    and "load_pool w pool = Inr p" and "sp_is_valid p" and "load_pool w' pool = Inr p'"
  shows "(manager_settings p' \<noteq> manager_settings p \<longrightarrow>
      (\<exists>m \<in> set rest. ai_key m = sp_manager p \<and> ai_is_signer m))
    \<and> (sp_staker p' \<noteq> sp_staker p \<longrightarrow>
      (\<exists>m \<in> set rest. ai_key m \<in> {sp_staker p, sp_manager p} \<and> ai_is_signer m))"
proof -
  obtain ix where ix: "process_instruction E pid (pool # rest) ix w = Inr w'"
    using assms(1) by (auto simp: process_Inr)
  from assms(2) ix assms(3,4) obtain a where a: "allowed ix a" "pool_step a p p'"
    by (rule valid_pool_contract) (use assms(5) in \<open>auto simp: step_of_def\<close>)
  have "\<exists>m \<in> set rest. ai_key m = sp_manager p \<and> ai_is_signer m" if "manager_settings p' \<noteq> manager_settings p"
    using manager_signed [OF ix assms(3) a(1)] step_settings [OF a(2)] that by blast
  moreover have "\<exists>m \<in> set rest. ai_key m \<in> {sp_staker p, sp_manager p} \<and> ai_is_signer m"
    if "sp_staker p' \<noteq> sp_staker p"
    using staker_signed [OF ix assms(3)] a(1) step_roles(2) [OF a(2)] that by blast
  ultimately show ?thesis by blast
qed

text \<open>
  C6. An instruction on a pool touches no other data of the program: the data of every account of
  the program but the pool and its validator list stays what it was, accounts of the program stay
  its own, and the pool keeps what identifies it (mint, reserve, list, token program, lockup and the
  bump seed of its authority).
\<close>

theorem other_accounts_untouched:
  assumes "process E pid (pool # rest) input w = Inr w'" and "cpi_law E pid"
    and "load_pool w pool = Inr p" and "sp_is_valid p" and "acc_owner (w k) = pid"
  shows "\<exists>p'. load_pool w' pool = Inr p' \<and> pool_identity p' = pool_identity p \<and> acc_owner (w' k) = pid
    \<and> (k \<noteq> ai_key pool \<and> k \<noteq> sp_validator_list p \<longrightarrow> acc_data (w' k) = acc_data (w k))"
proof -
  obtain ix where ix: "process_instruction E pid (pool # rest) ix w = Inr w'"
    using assms(1) by (auto simp: process_Inr)
  from assms(2) ix assms(3,4) obtain a p' where a: "pool_step a p p'" and p': "load_pool w' pool = Inr p'"
      and f: "owned_frame pid {ai_key pool, sp_validator_list p} w w'"
    by (rule valid_pool_contract) (auto simp: step_of_def)
  have "acc_owner (w' k) = pid"
    "k \<noteq> ai_key pool \<and> k \<noteq> sp_validator_list p \<longrightarrow> acc_data (w' k) = acc_data (w k)"
    using f assms(5) by (simp_all add: owned_frame_def)
  then show ?thesis using p' step_identity [OF a] by blast
qed

text \<open>
  C28. Whatever happened on chain, the client can list a pool: in every reachable store, when the node
  answers truthfully, the listing of a pool whose list the program owns ends in no panic (every status
  byte is one that it can name), and the record that it formats holds every record of the list, in its
  order, with its status, its vote account, the sum of its lamports and whether it waits for the
  update of the epoch, as long as no record's two amounts together exceed 64 bits.
\<close>

theorem reachable_pool_can_be_listed:
  assumes "reachable (c_program_id C) w" and truthful: "\<forall>k. c_get_account_with_commitment C w k = Inr (Some (w k))"
    and pool: "load_pool w pool = Inr p"
    and list: "load_list w list = Inr (h, bv)" "header_is_valid h" "owner_of w list = c_program_id C"
      "ai_key list = sp_validator_list p"
    and node: "c_unpack_mint_decimals C (acc_data (w (sp_pool_mint p))) = Inr decimals"
      "c_get_epoch C w = Inr epoch" "c_get_rent_exemption C STAKE_STATE_LEN = Inr rent"
    and sums: "\<forall>v \<in> set (vlist bv).
      uint (vsi_active_stake_lamports v) + uint (vsi_transient_stake_lamports v) < 2 ^ 64"
  shows "\<exists>shown d. command_list E D C fmt (ai_key pool) w = Inr (formatted_string D fmt shown @ newline)
    \<and> cl_details shown = Some d
    \<and> map (Inr \<circ> clv_status) (cl_validator_list shown) = map (cli_status \<circ> vsi_status) (vlist bv)
    \<and> map cla_vote_account_address (cld_stake_accounts d) = map (d_key D \<circ> vsi_vote_account_address) (vlist bv)
    \<and> map cla_validator_lamports (cld_stake_accounts d)
        = map (\<lambda>v. vsi_active_stake_lamports v + vsi_transient_stake_lamports v) (vlist bv)
    \<and> map cla_update_required (cld_stake_accounts d) = map (\<lambda>v. vsi_last_update_epoch v \<noteq> epoch) (vlist bv)"
proof -
  have good: "vlist_wf bv" "\<And>v. v \<in> set (vlist bv) \<Longrightarrow> is_ok (status_try_from (vsi_status v))"
    using all_listsD [OF reachable_all_lists [OF assms(1)] list(3,1,2)]
    by (simp_all add: list_good_def list_inv_def valid_status_def)
  note reads = truthful_reads(2) [OF truthful pool] truthful_reads(3) [OF truthful list(1) good(1), unfolded list(4)]
    truthful_reads(4) [OF truthful, of "sp_pool_mint p", unfolded node(1)] node(2) truthful_reads(1) [OF truthful] node(3)
  show ?thesis
    using listed_pool_shows [OF reads, of E D] good(2) sums by (auto simp: command_list_def)
qed

section \<open>Witnesses\<close>

text \<open>Instructions given as bytes, on the sample pool and on the zeroed accounts of a new pool.\<close>

lemma decodes: "instruction_ok ix \<Longrightarrow> try_from_slice de_instruction (ser_instruction ix) = Inr ix"
  using de_ser_instruction [of ix "[]"] by (simp add: try_from_slice_def)

lemma process_ser:
  "instruction_ok ix \<Longrightarrow> process E pid accts (ser_instruction ix) w = process_instruction E pid accts ix w"
  by (simp add: process_def decodes)

definition new_pool_accounts :: "AccountInfo list" where
  "new_pool_accounts =
     [acct 1, signer 11, acct 12, acct 50, acct 14, acct 15, acct 16, acct 17, acct 18]"

definition new_pool_instruction :: StakePoolInstruction where
  "new_pool_instruction =
     Initialize \<lparr>fee_denominator = 100, fee_numerator = 1\<rparr> \<lparr>fee_denominator = 1000, fee_numerator = 3\<rparr>
       \<lparr>fee_denominator = 1000, fee_numerator = 1\<rparr> 50 4"

lemma fresh_reachable: "reachable 99 fresh_world"
  by (rule deployed) (use fresh_zeroed in \<open>auto simp: fresh_world_def sample_world_def split: if_splits\<close>)

lemma new_pool_runs:
  "\<exists>w'. process fresh_env 99 new_pool_accounts (ser_instruction new_pool_instruction) fresh_world = Inr w'"
  using initialize_runs
  by (simp add: new_pool_instruction_def new_pool_accounts_def process_ser process_instruction_def
      del: ser_instruction.simps)

lemma new_pool_reachable:
  "process fresh_env 99 new_pool_accounts (ser_instruction new_pool_instruction) fresh_world = Inr w'
     \<Longrightarrow> reachable 99 w'"
  by (rule reachable.instruction [OF fresh_reachable fresh_law])

text \<open>The pool and the list that the new pool's accounts hold then.\<close>

lemma new_pool_holds:
  assumes "process fresh_env 99 new_pool_accounts (ser_instruction new_pool_instruction) fresh_world = Inr w'"
  obtains p h bv where "load_pool w' (acct 1) = Inr p" "sp_is_valid p" "owner_of w' (acct 1) = 99"
    "load_list w' (acct 14) = Inr (h, bv)" "header_is_valid h" "owner_of w' (acct 14) = 99"
    "sp_validator_list p = 14" "vlist bv = []"
proof -
  have "process_initialize fresh_env 99 new_pool_accounts \<lparr>fee_denominator = 100, fee_numerator = 1\<rparr>
      \<lparr>fee_denominator = 1000, fee_numerator = 3\<rparr> \<lparr>fee_denominator = 1000, fee_numerator = 1\<rparr> 50 4 fresh_world
      = Inr w'"
    using assms by (simp add: new_pool_instruction_def process_ser process_instruction_def
        del: ser_instruction.simps)
  from this fresh_law show thesis
  proof (rule initialize_success)
    fix pool manager staker authority list reserve mint fee token :: AccountInfo and rest p bv
    assume eq: "new_pool_accounts
        = pool # manager # staker # authority # list # reserve # mint # fee # token # rest"
      and p: "load_pool w' pool = Inr p"
        "fresh_pool p \<lparr>fee_denominator = 100, fee_numerator = 1\<rparr> \<lparr>fee_denominator = 1000, fee_numerator = 3\<rparr>
          \<lparr>fee_denominator = 1000, fee_numerator = 1\<rparr> 50"
      and o: "owner_of fresh_world pool = 99" "owner_of fresh_world list = 99"
      and v: "sp_validator_list p = ai_key list" "vlist bv = []"
      and l: "load_list w' list = Inr (\<lparr>vlh_account_type = ValidatorListAccount, vlh_max_validators = 4\<rparr>, bv)"
      and f: "owned_frame 99 {ai_key pool, ai_key list} fresh_world w'"
    have "pool = acct 1" "list = acct 14" using eq by (simp_all add: new_pool_accounts_def)
    moreover have "owner_of w' pool = 99" "owner_of w' list = 99"
      using f o by (simp_all add: owned_frame_def owner_of_def)
    ultimately show ?thesis
      using that [of p] p l v by (simp add: fresh_pool_def header_is_valid_def sample_simps)
  qed
qed

theorem reachable_lists_ok_witness:
  "\<exists>w' h bv. process fresh_env 99 new_pool_accounts (ser_instruction new_pool_instruction) fresh_world = Inr w'
     \<and> reachable 99 w' \<and> load_list w' (acct 14) = Inr (h, bv)
     \<and> distinct (map vsi_vote_account_address (vlist bv))"
proof -
  obtain w' where w': "process fresh_env 99 new_pool_accounts (ser_instruction new_pool_instruction) fresh_world
      = Inr w'"
    using new_pool_runs by blast
  obtain h bv where "load_list w' (acct 14) = Inr (h, bv)" "header_is_valid h" "owner_of w' (acct 14) = 99"
    by (rule new_pool_holds [OF w'])
  with w' reachable_lists_ok [OF new_pool_reachable [OF w']] show ?thesis
    using new_pool_reachable [OF w'] by blast
qed

theorem reachable_fees_ok_witness:
  "\<exists>w' p. process fresh_env 99 new_pool_accounts (ser_instruction new_pool_instruction) fresh_world = Inr w'
     \<and> reachable 99 w' \<and> load_pool w' (acct 1) = Inr p \<and> fees_ok p"
proof -
  obtain w' where w': "process fresh_env 99 new_pool_accounts (ser_instruction new_pool_instruction) fresh_world
      = Inr w'"
    using new_pool_runs by blast
  obtain p where "load_pool w' (acct 1) = Inr p" "sp_is_valid p" "owner_of w' (acct 1) = 99"
    by (rule new_pool_holds [OF w'])
  with w' reachable_fees_ok [OF new_pool_reachable [OF w']] show ?thesis
    using new_pool_reachable [OF w'] by blast
qed

theorem reachable_pool_can_be_listed_witness:
  "\<exists>w' shown. process fresh_env 99 new_pool_accounts (ser_instruction new_pool_instruction) fresh_world = Inr w'
     \<and> reachable (c_program_id sample_config) w'
     \<and> command_list fresh_env sample_display sample_config OutDisplay 1 w'
         = Inr (formatted_string sample_display OutDisplay shown @ newline)
     \<and> cl_validator_list shown = []"
proof -
  obtain w' where w': "process fresh_env 99 new_pool_accounts (ser_instruction new_pool_instruction) fresh_world
      = Inr w'"
    using new_pool_runs by blast
  obtain p h bv where held: "load_pool w' (acct 1) = Inr p" "load_list w' (acct 14) = Inr (h, bv)"
      "header_is_valid h" "owner_of w' (acct 14) = 99" "sp_validator_list p = 14" "vlist bv = []"
    by (rule new_pool_holds [OF w'])
  have config: "c_program_id sample_config = 99" "c_unpack_mint_decimals sample_config bs = Inr 9"
      "c_get_epoch sample_config w' = Inr 5" "c_get_rent_exemption sample_config n = Inr 100" for bs n
    by (simp_all add: sample_config_def)
  have reached: "reachable (c_program_id sample_config) w'" unfolding config by (rule new_pool_reachable [OF w'])
  from reachable_pool_can_be_listed
    [OF reached, of "acct 1" p "acct 14" h bv 9 5 100 fresh_env sample_display OutDisplay]
  show ?thesis using reached w' held by (auto simp: config sample_config_fields sample_simps simp del: ser_instruction.simps)
qed

text \<open>A deposit, a new staker and a new manager on the sample pool.\<close>

lemma sample_setters_run:
  "\<exists>w'. process sample_env 99 [acct 1, signer 12, acct 30] (ser_instruction SetStaker) sample_world = Inr w'"
  "\<exists>w'. process sample_env 99 [acct 1, signer 11, signer 31, acct 17] (ser_instruction SetManager) sample_world
     = Inr w'"
proof -
  have "length (ser_stake_pool (sample_pool\<lparr>sp_staker := 30\<rparr>)) \<le> length (ser_stake_pool sample_pool) + 200"
    "length (ser_stake_pool (sample_pool\<lparr>sp_manager := 31, sp_manager_fee_account := 17\<rparr>))
       \<le> length (ser_stake_pool sample_pool) + 200"
    by (simp_all add: ser_stake_pool_def ser_pubkey_def)
  note stores = this [THEN sample_store]
  have fee: "check_manager_fee_info sample_env sample_world sample_pool (acct 17) = Inr ()"
    by (simp add: check_manager_fee_info_def sample_simps) (simp add: sample_env_def)
  from stores show
    "\<exists>w'. process sample_env 99 [acct 1, signer 12, acct 30] (ser_instruction SetStaker) sample_world = Inr w'"
    "\<exists>w'. process sample_env 99 [acct 1, signer 11, signer 31, acct 17] (ser_instruction SetManager) sample_world
       = Inr w'"
    by (simp_all add: process_ser process_instruction_def process_set_staker_def process_set_manager_def
        sample_simps check_account_owner_def check_staker_def check_manager_def fee is_ok_iff
        del: ser_instruction.simps cong: tri_weak_cong)
qed

lemma sample_deposit_process:
  "\<exists>w'. process sample_env 99 [acct 1, acct 50, acct 15, signer 30, acct 31, acct 17, acct 32, acct 16, acct 5,
     acct 18] (ser_instruction (DepositSolWithSlippage 100000 66000)) sample_world = Inr w'"
  using sample_deposit_runs
  by (simp add: process_ser process_instruction_def del: ser_instruction.simps)

theorem instruction_refines_pool_witness:
  "\<exists>w' p'. process sample_env 99 [acct 1, signer 12, acct 30] (ser_instruction SetStaker) sample_world = Inr w'
     \<and> load_pool w' (acct 1) = Inr p' \<and> pool_step NewStaker sample_pool p'"
proof -
  obtain w' where w': "process sample_env 99 [acct 1, signer 12, acct 30] (ser_instruction SetStaker) sample_world
      = Inr w'"
    using sample_setters_run(1) by blast
  from instruction_refines_pool [OF w' sample_law sample_load(1) sample_valid(1)]
  obtain ix a p' where "try_from_slice de_instruction (ser_instruction SetStaker) = Inr ix" "allowed ix a"
      "pool_step a sample_pool p'" "load_pool w' (acct 1) = Inr p'"
    by blast
  moreover have "try_from_slice de_instruction (ser_instruction SetStaker) = Inr SetStaker"
    by (rule decodes) simp
  ultimately show ?thesis using w' by (auto simp: allowed_def)
qed

theorem token_value_never_falls_witness:
  "\<exists>w' p'. process sample_env 99 [acct 1, acct 50, acct 15, signer 30, acct 31, acct 17, acct 32, acct 16, acct 5,
     acct 18] (ser_instruction (DepositSolWithSlippage 100000 66000)) sample_world = Inr w'
   \<and> load_pool w' (acct 1) = Inr p' \<and> 3000000 * pool_supply p' \<le> pool_total p' * 2000000"
proof -
  obtain w' where w': "process sample_env 99 [acct 1, acct 50, acct 15, signer 30, acct 31, acct 17, acct 32,
      acct 16, acct 5, acct 18] (ser_instruction (DepositSolWithSlippage 100000 66000)) sample_world = Inr w'"
    using sample_deposit_process by blast
  have ok: "owned_pool sample_pool" by (simp add: owned_pool_def sample_pool_def)
  have ix: "try_from_slice de_instruction (ser_instruction (DepositSolWithSlippage 100000 66000))
      \<noteq> Inr UpdateStakePoolBalance"
    using decodes [of "DepositSolWithSlippage 100000 66000"] by (simp del: ser_instruction.simps)
  from token_value_never_falls [OF w' sample_law sample_load(1) sample_valid(1) ok ix]
  obtain p' where "load_pool w' (acct 1) = Inr p'"
      "pool_total sample_pool * pool_supply p' \<le> pool_total p' * pool_supply sample_pool"
    by blast
  moreover have "pool_total sample_pool = 3000000" "pool_supply sample_pool = 2000000"
    by (simp_all add: sample_pool_def)
  ultimately show ?thesis using w' by (simp del: ser_instruction.simps)
qed

theorem roles_change_by_holders_witness:
  "\<exists>w' p'. process sample_env 99 [acct 1, signer 11, signer 31, acct 17] (ser_instruction SetManager) sample_world
     = Inr w' \<and> load_pool w' (acct 1) = Inr p' \<and> sp_manager p' = 31
     \<and> (\<exists>m \<in> set [signer 11, signer 31, acct 17]. ai_key m = sp_manager sample_pool \<and> ai_is_signer m)"
proof -
  obtain w' where w': "process sample_env 99 [acct 1, signer 11, signer 31, acct 17] (ser_instruction SetManager)
      sample_world = Inr w'"
    using sample_setters_run(2) by blast
  then have "process_set_manager sample_env 99 [acct 1, signer 11, signer 31, acct 17] sample_world = Inr w'"
    by (simp add: process_ser process_instruction_def del: ser_instruction.simps)
  then obtain p' where p': "load_pool w' (acct 1) = Inr p'" "sp_manager p' = 31"
    by (rule set_manager_success) (auto simp: sample_simps dest!: load_store_pool)
  then have "manager_settings p' \<noteq> manager_settings sample_pool"
    by (simp add: manager_settings_def sample_simps)
  then show ?thesis
    using w' p' roles_change_by_holders [OF w' sample_law sample_load(1) sample_valid(1) p'(1)] by blast
qed

theorem other_accounts_untouched_witness:
  "\<exists>w' p'. process sample_env 99 [acct 1, signer 12, acct 30] (ser_instruction SetStaker) sample_world = Inr w'
     \<and> acc_owner (w' 14) = 99 \<and> load_pool w' (acct 1) = Inr p' \<and> pool_identity p' = pool_identity sample_pool"
proof -
  obtain w' where w': "process sample_env 99 [acct 1, signer 12, acct 30] (ser_instruction SetStaker) sample_world
      = Inr w'"
    using sample_setters_run(1) by blast
  have "acc_owner (sample_world 14) = 99" by (simp add: sample_world_def)
  from other_accounts_untouched [OF w' sample_law sample_load(1) sample_valid(1) this] w'
  show ?thesis by blast
qed

end
